(* ===== verification/Prelude.thy ===== *)
theory Prelude
  imports Main "HOL-Library.Sublist" "HOL-Library.Monad_Syntax" "HOL-Library.Multiset"
    "HOL-Library.Char_ord" "HOL-Library.List_Lexorder"
begin

text \<open>
  What every theory of the development shares: the result types, the collections of rewrite
  rules, and generic lemmas on lists, options and maps.

  A Go function that may fail to return (it panics, or it loops for ever) is modelled with a result
  in \<^typ>\<open>'a option\<close>: \<open>None\<close> is "the call never returns normally". A Go error value is the
  \<open>Inl\<close> side of a sum. The two are kept apart everywhere.
\<close>

section \<open>Result types\<close>

type_synonym ('e, 'a) result = "'e + 'a"

abbreviation diverges :: "'a option \<Rightarrow> bool" where
  "diverges r \<equiv> r = None"

abbreviation returns :: "'a option \<Rightarrow> bool" where
  "returns r \<equiv> r \<noteq> None"

named_theorems go_simps \<open>unfoldings of the string and number routines of the Go library\<close>
named_theorems authz_simps \<open>equations of the policy evaluation\<close>
named_theorems sqs_simps \<open>equations of the queue operations\<close>
named_theorems time_simps \<open>equations of the calendar\<close>

section \<open>Lists\<close>

lemma drop_eq_Cons_nth: "i < length xs \<Longrightarrow> drop i xs = xs ! i # drop (Suc i) xs"
  by (simp add: Cons_nth_drop_Suc)

lemma prefix_take_iff: "prefix xs ys \<longleftrightarrow> take (length xs) ys = xs"
  by (metis append_eq_conv_conj prefix_def)

lemma prefixD_length: "prefix xs ys \<Longrightarrow> length xs \<le> length ys"
  by (rule prefix_length_le)

text \<open>The first element with a property, as the loops with an early return find it.\<close>

lemma find_Some_iff': "List.find P xs = Some x \<Longrightarrow> x \<in> set xs \<and> P x"
  by (induction xs) (auto split: if_splits)

lemma filter_sublist_length: "length (filter P xs) \<le> length xs"
  by (rule length_filter_le)

lemma le_fold_max: "x = a \<or> x \<in> set xs \<Longrightarrow> x \<le> fold max xs a" for x a :: "'a :: linorder"
  using Max_ge [of "set (a # xs)" x] by (simp only: Max.set_eq_fold [symmetric]) auto

section \<open>Options: loops that may not return\<close>

text \<open>
  A Go loop over a slice that returns \<open>true\<close> at the first element the test accepts. The test itself
  may fail to return; then so does the loop.
\<close>

fun any_opt :: "('a \<Rightarrow> bool option) \<Rightarrow> 'a list \<Rightarrow> bool option" where
  "any_opt f [] = Some False"
| "any_opt f (x # xs) = do { b \<leftarrow> f x; if b then Some True else any_opt f xs }"

lemma any_opt_Some_True:
  "any_opt f xs = Some True \<Longrightarrow> \<exists>x\<in>set xs. f x = Some True"
  by (induction xs) (auto split: Option.bind_splits if_splits)

lemma any_opt_Some_False:
  "any_opt f xs = Some False \<longleftrightarrow> (\<forall>x\<in>set xs. f x = Some False)"
  by (induction xs) (auto split: Option.bind_splits if_splits)

lemma any_opt_total:
  "(\<And>x. x \<in> set xs \<Longrightarrow> f x = Some (g x)) \<Longrightarrow> any_opt f xs = Some (\<exists>x\<in>set xs. g x)"
  by (induction xs) auto

lemma any_opt_cong [fundef_cong]:
  "xs = ys \<Longrightarrow> (\<And>x. x \<in> set ys \<Longrightarrow> f x = g x) \<Longrightarrow> any_opt f xs = any_opt g ys"
  by (induction xs arbitrary: ys) (auto simp: Option.bind_eq_Some_conv split: Option.bind_split)

section \<open>Decoding maps: the last of several equal keys wins\<close>

text \<open>
  A JSON object is decoded into a Go map: of several members with one key the last is kept. The
  position kept is that of the last one; nothing may depend on it, as Go iterates a map in no
  fixed order.
\<close>

fun last_wins :: "('k \<times> 'v) list \<Rightarrow> ('k \<times> 'v) list" where
  "last_wins [] = []"
| "last_wins ((k, v) # kvs) =
     (if k \<in> set (map fst kvs) then last_wins kvs else (k, v) # last_wins kvs)"

lemma set_fst_last_wins [simp]: "fst ` set (last_wins kvs) = fst ` set kvs"
  by (induction kvs rule: last_wins.induct) auto

lemma distinct_last_wins: "distinct (map fst (last_wins kvs))"
  by (induction kvs rule: last_wins.induct) auto

lemma last_wins_subset: "set (last_wins kvs) \<subseteq> set kvs"
  by (induction kvs rule: last_wins.induct) auto

lemma last_wins_id: "distinct (map fst kvs) \<Longrightarrow> last_wins kvs = kvs"
  by (induction kvs rule: last_wins.induct) auto

end
