(* ===== verification/Condition_Keys.thy ===== *)
theory Condition_Keys
  imports Go_Strings
begin

text \<open>
  The catalog of condition keys: \<open>internal/catalog/conditionkeys/zz_keys.go\<close> (the generated table) and
  \<open>keys.go\<close> (\<open>Known\<close>, \<open>templateMatch\<close>). \<open>templateMatch\<close> slices the key between the template's prefix
  and suffix without checking that they do not overlap in it; the slice then panics, which is \<open>None\<close>.

  Go visits the table in no fixed order; here it is visited in the table's order. Which order is
  taken matters only for a key some template matches and another panics on.
\<close>

section \<open>The table\<close>

definition known_keys_a :: "string list" where
  "known_keys_a =
    [''accounts.google.com:aud'', ''accounts.google.com:google/organization_number'',
     ''accounts.google.com:oaud'', ''accounts.google.com:sub'',
     ''agent.${Domain}.buildkite.dev:build_branch'', ''agent.${Domain}.buildkite.dev:cluster_id'',
     ''agent.${Domain}.buildkite.dev:cluster_name'',
     ''agent.${Domain}.buildkite.dev:organization_id'',
     ''agent.${Domain}.buildkite.dev:organization_slug'',
     ''agent.${Domain}.buildkite.dev:pipeline_id'',
     ''agent.${Domain}.buildkite.dev:pipeline_slug'',
     ''agent.${Domain}.buildkite.site:build_branch'',
     ''agent.${Domain}.buildkite.site:cluster_id'',
     ''agent.${Domain}.buildkite.site:cluster_name'',
     ''agent.${Domain}.buildkite.site:organization_id'',
     ''agent.${Domain}.buildkite.site:organization_slug'',
     ''agent.${Domain}.buildkite.site:pipeline_id'',
     ''agent.${Domain}.buildkite.site:pipeline_slug'', ''agent.buildkite.com:build_branch'',
     ''agent.buildkite.com:cluster_id'', ''agent.buildkite.com:cluster_name'',
     ''agent.buildkite.com:organization_id'', ''agent.buildkite.com:organization_slug'',
     ''agent.buildkite.com:pipeline_id'', ''agent.buildkite.com:pipeline_slug'',
     ''aws:AssumedRoot'', ''aws:CalledVia'', ''aws:CalledViaFirst'', ''aws:CalledViaLast'',
     ''aws:CurrentTime'', ''aws:Ec2InstanceSourcePrivateIPv4'', ''aws:Ec2InstanceSourceVpc'',
     ''aws:EpochTime'', ''aws:FederatedProvider'', ''aws:MultiFactorAuthAge'',
     ''aws:MultiFactorAuthPresent'', ''aws:PrincipalAccount'', ''aws:PrincipalArn'',
     ''aws:PrincipalAssumedRole'', ''aws:PrincipalIsAWSService'', ''aws:PrincipalOrgID'',
     ''aws:PrincipalOrgPaths'', ''aws:PrincipalServiceName'', ''aws:PrincipalServiceNamesList'',
     ''aws:PrincipalTag/${TagKey}'', ''aws:PrincipalType'', ''aws:PrincipalUUID'',
     ''aws:RequestTag/${TagKey}'', ''aws:RequestedRegion'', ''aws:ResourceAccount'',
     ''aws:ResourceOrgID'', ''aws:ResourceOrgPaths'', ''aws:ResourceTag/${TagKey}'',
     ''aws:SecureTransport'', ''aws:SourceAccount'', ''aws:SourceArn'', ''aws:SourceIdentity'',
     ''aws:SourceIp'', ''aws:SourceOrgID'', ''aws:SourceOrgPaths'', ''aws:SourceVpc'',
     ''aws:SourceVpce'', ''aws:TagKeys'', ''aws:TokenIssueTime'', ''aws:UserAgent'',
     ''aws:ViaAWSService'', ''aws:referer'', ''aws:userid'', ''aws:username'',
     ''cognito-identity.amazonaws.com:amr'', ''cognito-identity.amazonaws.com:aud'',
     ''cognito-identity.amazonaws.com:sub'', ''dynamodb:Attributes'',
     ''dynamodb:EnclosingOperation'', ''dynamodb:FirstPartitionKeyValues'',
     ''dynamodb:FisActionId'', ''dynamodb:FisTargetArns'', ''dynamodb:FourthPartitionKeyValues'',
     ''dynamodb:FullTableScan'', ''dynamodb:LeadingKeys'', ''dynamodb:ReturnConsumedCapacity'',
     ''dynamodb:ReturnValues'', ''dynamodb:SecondPartitionKeyValues'', ''dynamodb:Select'',
     ''dynamodb:ThirdPartitionKeyValues'', ''ec2:SourceInstanceARN'', ''ecr:AccountSetting'',
     ''ecr:ResourceTag/${TagKey}'', ''ecs:CreateAction'', ''ecs:ResourceTag/${TagKey}'',
     ''ecs:account-setting'', ''ecs:auto-assign-public-ip'', ''ecs:capacity-provider'',
     ''ecs:cluster'', ''ecs:compute-compatibility'', ''ecs:container-instances'',
     ''ecs:container-name'', ''ecs:daemon'', ''ecs:daemon-task-definition'',
     ''ecs:enable-ebs-volumes'', ''ecs:enable-ecs-managed-tags'', ''ecs:enable-execute-command'',
     ''ecs:enable-service-connect'', ''ecs:enable-vpc-lattice'',
     ''ecs:fargate-ephemeral-storage-kms-key'', ''ecs:gateway'',
     ''ecs:instance-metadata-tags-propagation'', ''ecs:namespace'', ''ecs:privileged'',
     ''ecs:propagate-tags'', ''ecs:service'', ''ecs:subnet'', ''ecs:task'', ''ecs:task-cpu'',
     ''ecs:task-definition'', ''ecs:task-memory'', ''events:EventBusArn'', ''events:ManagedBy'',
     ''events:TargetArn'', ''events:creatorAccount'', ''events:detail-type'',
     ''events:detail.eventTypeCode'', ''events:detail.service'',
     ''events:detail.userIdentity.principalId'', ''events:eventBusInvocation'', ''events:source'',
     ''github.com/enterprises/${EnterpriseName}:actor'',
     ''github.com/enterprises/${EnterpriseName}:actor_id'',
     ''github.com/enterprises/${EnterpriseName}:enterprise_id'',
     ''github.com/enterprises/${EnterpriseName}:environment'',
     ''github.com/enterprises/${EnterpriseName}:job_workflow_ref'',
     ''github.com/enterprises/${EnterpriseName}:ref'',
     ''github.com/enterprises/${EnterpriseName}:repository'',
     ''github.com/enterprises/${EnterpriseName}:repository_id'',
     ''github.com/enterprises/${EnterpriseName}:repository_owner_id'',
     ''github.com/enterprises/${EnterpriseName}:workflow'', ''gitlab.com:namespace_id'',
     ''gitlab.com:pipeline_source'', ''gitlab.com:project_id'', ''gitlab.com:ref_protected'',
     ''gitlab.com:runner_environment'', ''gitlab.com:user_access_level'',
     ''gitlab.com:user_email'', ''gitlab.com:user_id'', ''gitlab.com:user_login'',
     ''graph.facebook.com:app_id'', ''graph.facebook.com:id'', ''iam:AWSServiceName'',
     ''iam:AssociatedResourceArn'', ''iam:DelegationDuration'']"

definition known_keys_b :: "string list" where
  "known_keys_b =
    [''iam:DelegationRequestOwner'', ''iam:FIDO-FIPS-140-2-certification'',
     ''iam:FIDO-FIPS-140-3-certification'', ''iam:FIDO-certification'',
     ''iam:NotificationChannel'', ''iam:OrganizationsPolicyId'', ''iam:PassedToService'',
     ''iam:PermissionsBoundary'', ''iam:PolicyARN'', ''iam:RegisterSecurityKey'',
     ''iam:ResourceTag/${TagKey}'', ''iam:ServiceSpecificCredentialAgeDays'',
     ''iam:ServiceSpecificCredentialServiceName'', ''iam:TemplateArn'',
     ''idcs-${OciUniqueIdentifier}.identity.oraclecloud.com:rpst_id'',
     ''kms:BypassPolicyLockoutSafetyCheck'', ''kms:CallerAccount'', ''kms:CustomerMasterKeySpec'',
     ''kms:CustomerMasterKeyUsage'', ''kms:DataKeyPairSpec'', ''kms:EncryptionAlgorithm'',
     ''kms:EncryptionContext:${EncryptionContextKey}'', ''kms:EncryptionContextKeys'',
     ''kms:ExpirationModel'', ''kms:GrantConstraintSourceArn'', ''kms:GrantConstraintType'',
     ''kms:GrantIsForAWSResource'', ''kms:GrantOperations'', ''kms:GranteePrincipal'',
     ''kms:GranteeServicePrincipal'', ''kms:KeyAgreementAlgorithm'', ''kms:KeyOrigin'',
     ''kms:KeySpec'', ''kms:KeyUsage'', ''kms:MacAlgorithm'', ''kms:MessageType'',
     ''kms:MultiRegion'', ''kms:MultiRegionKeyType'', ''kms:PrimaryRegion'',
     ''kms:ReEncryptOnSameKey'', ''kms:RecipientAttestation:ImageSha384'',
     ''kms:RecipientAttestation:NitroTPMPCR0'', ''kms:RecipientAttestation:NitroTPMPCR1'',
     ''kms:RecipientAttestation:NitroTPMPCR10'', ''kms:RecipientAttestation:NitroTPMPCR11'',
     ''kms:RecipientAttestation:NitroTPMPCR12'', ''kms:RecipientAttestation:NitroTPMPCR13'',
     ''kms:RecipientAttestation:NitroTPMPCR14'', ''kms:RecipientAttestation:NitroTPMPCR15'',
     ''kms:RecipientAttestation:NitroTPMPCR16'', ''kms:RecipientAttestation:NitroTPMPCR17'',
     ''kms:RecipientAttestation:NitroTPMPCR18'', ''kms:RecipientAttestation:NitroTPMPCR19'',
     ''kms:RecipientAttestation:NitroTPMPCR2'', ''kms:RecipientAttestation:NitroTPMPCR20'',
     ''kms:RecipientAttestation:NitroTPMPCR21'', ''kms:RecipientAttestation:NitroTPMPCR22'',
     ''kms:RecipientAttestation:NitroTPMPCR23'', ''kms:RecipientAttestation:NitroTPMPCR3'',
     ''kms:RecipientAttestation:NitroTPMPCR4'', ''kms:RecipientAttestation:NitroTPMPCR5'',
     ''kms:RecipientAttestation:NitroTPMPCR6'', ''kms:RecipientAttestation:NitroTPMPCR7'',
     ''kms:RecipientAttestation:NitroTPMPCR8'', ''kms:RecipientAttestation:NitroTPMPCR9'',
     ''kms:RecipientAttestation:PCR0'', ''kms:RecipientAttestation:PCR1'',
     ''kms:RecipientAttestation:PCR10'', ''kms:RecipientAttestation:PCR11'',
     ''kms:RecipientAttestation:PCR12'', ''kms:RecipientAttestation:PCR13'',
     ''kms:RecipientAttestation:PCR14'', ''kms:RecipientAttestation:PCR15'',
     ''kms:RecipientAttestation:PCR16'', ''kms:RecipientAttestation:PCR17'',
     ''kms:RecipientAttestation:PCR18'', ''kms:RecipientAttestation:PCR19'',
     ''kms:RecipientAttestation:PCR2'', ''kms:RecipientAttestation:PCR20'',
     ''kms:RecipientAttestation:PCR21'', ''kms:RecipientAttestation:PCR22'',
     ''kms:RecipientAttestation:PCR23'', ''kms:RecipientAttestation:PCR24'',
     ''kms:RecipientAttestation:PCR25'', ''kms:RecipientAttestation:PCR26'',
     ''kms:RecipientAttestation:PCR27'', ''kms:RecipientAttestation:PCR28'',
     ''kms:RecipientAttestation:PCR29'', ''kms:RecipientAttestation:PCR3'',
     ''kms:RecipientAttestation:PCR30'', ''kms:RecipientAttestation:PCR31'',
     ''kms:RecipientAttestation:PCR4'', ''kms:RecipientAttestation:PCR5'',
     ''kms:RecipientAttestation:PCR6'', ''kms:RecipientAttestation:PCR7'',
     ''kms:RecipientAttestation:PCR8'', ''kms:RecipientAttestation:PCR9'', ''kms:ReplicaRegion'',
     ''kms:RequestAlias'', ''kms:ResourceAliases'', ''kms:RetiringPrincipal'',
     ''kms:RetiringServicePrincipal'', ''kms:RotationPeriodInDays'',
     ''kms:ScheduleKeyDeletionPendingWindowInDays'', ''kms:SigningAlgorithm'',
     ''kms:TrailingDaysWithoutKeyUsage'', ''kms:ValidTo'', ''kms:ViaService'',
     ''kms:WrappingAlgorithm'', ''kms:WrappingKeySpec'', ''lambda:CodeSigningConfigArn'',
     ''lambda:EventSourceToken'', ''lambda:FunctionArn'', ''lambda:FunctionUrlAuthType'',
     ''lambda:InvokedViaFunctionUrl'', ''lambda:Layer'', ''lambda:Principal'',
     ''lambda:SecurityGroupIds'', ''lambda:SourceFunctionArn'', ''lambda:SubnetIds'',
     ''lambda:VpcIds'', ''oidc.circleci.com/org/${OrgId}:oidc.circleci.com/project-id'',
     ''organizations:PolicyType'', ''organizations:ServicePrincipal'',
     ''organizations:TransferDirection'', ''organizations:TransferType'', ''s3:AccessGrantScope'',
     ''s3:AccessGrantsInstanceArn'', ''s3:AccessGrantsLocationScope'',
     ''s3:AccessPointNetworkOrigin'', ''s3:AccessPointTag/${TagKey}'', ''s3:BucketTag/${TagKey}'',
     ''s3:DataAccessPointAccount'', ''s3:DataAccessPointArn'', ''s3:ExistingJobOperation'',
     ''s3:ExistingJobPriority'', ''s3:ExistingObjectTag/<key>'',
     ''s3:InventoryAccessibleOptionalFields'', ''s3:JobSuspendedCause'',
     ''s3:ObjectCreationOperation'', ''s3:RequestJobOperation'', ''s3:RequestJobPriority'',
     ''s3:RequestObjectTag/<key>'', ''s3:RequestObjectTagKeys'', ''s3:ResourceAccount'',
     ''s3:TlsVersion'', ''s3:annotation-prefix'', ''s3:authType'', ''s3:delimiter'',
     ''s3:deliverySourceArn'']"

definition known_keys_c :: "string list" where
  "known_keys_c =
    [''s3:destinationRegion'', ''s3:if-match'', ''s3:if-none-match'',
     ''s3:isReplicationPauseRequest'', ''s3:locationconstraint'', ''s3:logType'',
     ''s3:max-annotation-results'', ''s3:max-keys'', ''s3:object-lock-legal-hold'',
     ''s3:object-lock-mode'', ''s3:object-lock-remaining-retention-days'',
     ''s3:object-lock-retain-until-date'', ''s3:prefix'', ''s3:resourceArnBeingAuthorized'',
     ''s3:signatureAge'', ''s3:signatureversion'', ''s3:versionid'', ''s3:x-amz-acl'',
     ''s3:x-amz-bucket-namespace'', ''s3:x-amz-content-sha256'', ''s3:x-amz-copy-source'',
     ''s3:x-amz-grant-full-control'', ''s3:x-amz-grant-read'', ''s3:x-amz-grant-read-acp'',
     ''s3:x-amz-grant-write'', ''s3:x-amz-grant-write-acp'', ''s3:x-amz-metadata-directive'',
     ''s3:x-amz-object-annotation-directive'', ''s3:x-amz-object-if-match'',
     ''s3:x-amz-object-ownership'', ''s3:x-amz-server-side-encryption'',
     ''s3:x-amz-server-side-encryption-aws-kms-key-id'',
     ''s3:x-amz-server-side-encryption-customer-algorithm'', ''s3:x-amz-storage-class'',
     ''s3:x-amz-website-redirect-location'', ''saml:aud'', ''saml:cn'', ''saml:commonName'',
     ''saml:doc'', ''saml:eduorghomepageuri'', ''saml:eduorgidentityauthnpolicyuri'',
     ''saml:eduorglegalname'', ''saml:eduorgsuperioruri'', ''saml:eduorgwhitepagesuri'',
     ''saml:edupersonaffiliation'', ''saml:edupersonassurance'', ''saml:edupersonentitlement'',
     ''saml:edupersonnickname'', ''saml:edupersonorgdn'', ''saml:edupersonorgunitdn'',
     ''saml:edupersonprimaryaffiliation'', ''saml:edupersonprimaryorgunitdn'',
     ''saml:edupersonprincipalname'', ''saml:edupersonscopedaffiliation'',
     ''saml:edupersontargetedid'', ''saml:givenName'', ''saml:iss'', ''saml:mail'', ''saml:name'',
     ''saml:namequalifier'', ''saml:organizationStatus'', ''saml:primaryGroupSID'', ''saml:sub'',
     ''saml:sub_type'', ''saml:surname'', ''saml:uid'', ''saml:x500UniqueIdentifier'',
     ''secretsmanager:AddReplicaRegions'', ''secretsmanager:BlockPublicPolicy'',
     ''secretsmanager:Description'', ''secretsmanager:ExternalSecretRotationRoleArn'',
     ''secretsmanager:ForceDeleteWithoutRecovery'',
     ''secretsmanager:ForceOverwriteReplicaSecret'', ''secretsmanager:KmsKeyArn'',
     ''secretsmanager:KmsKeyId'', ''secretsmanager:ModifyRotationRules'', ''secretsmanager:Name'',
     ''secretsmanager:RecoveryWindowInDays'', ''secretsmanager:ResourceTag/tag-key'',
     ''secretsmanager:RotateImmediately'', ''secretsmanager:RotationLambdaARN'',
     ''secretsmanager:SecretId'', ''secretsmanager:SecretPrimaryRegion'', ''secretsmanager:Type'',
     ''secretsmanager:VersionId'', ''secretsmanager:VersionStage'',
     ''secretsmanager:resource/AllowRotationLambdaArn'', ''secretsmanager:resource/Type'',
     ''sns:Endpoint'', ''sns:Protocol'', ''ssm:AccessRequestId'', ''ssm:AutoApprove'',
     ''ssm:DocumentCategories'', ''ssm:DocumentType'', ''ssm:DocumentVersion'',
     ''ssm:InventoryTypeName'', ''ssm:Overwrite'', ''ssm:Policies'', ''ssm:Recursive'',
     ''ssm:SessionDocumentAccessCheck'', ''ssm:SourceInstanceARN'', ''ssm:SyncType'',
     ''ssm:resourceTag/${TagKey}'', ''ssm:resourceTag/aws:ssmmessages:session-id'',
     ''ssm:resourceTag/aws:ssmmessages:target-id'', ''ssm:resourceTag/tag-key'',
     ''sts:AWSServiceName'', ''sts:DurationSeconds'', ''sts:ExternalId'',
     ''sts:IdentityTokenAudience'', ''sts:RequestContext/${ContextKey}'',
     ''sts:RequestContextProviders'', ''sts:RoleAuthorizedByIdp'', ''sts:RoleSessionName'',
     ''sts:SigningAlgorithm'', ''sts:SourceIdentity'', ''sts:TaskPolicyArn'',
     ''sts:TransitiveTagKeys'', ''token.actions.${Domain}.ghe.com:actor'',
     ''token.actions.${Domain}.ghe.com:actor_id'',
     ''token.actions.${Domain}.ghe.com:enterprise_id'',
     ''token.actions.${Domain}.ghe.com:environment'',
     ''token.actions.${Domain}.ghe.com:job_workflow_ref'',
     ''token.actions.${Domain}.ghe.com:ref'', ''token.actions.${Domain}.ghe.com:repository'',
     ''token.actions.${Domain}.ghe.com:repository_id'',
     ''token.actions.${Domain}.ghe.com:repository_owner_id'',
     ''token.actions.${Domain}.ghe.com:workflow'',
     ''token.actions.githubusercontent.com/${SubPath}:actor'',
     ''token.actions.githubusercontent.com/${SubPath}:actor_id'',
     ''token.actions.githubusercontent.com/${SubPath}:enterprise_id'',
     ''token.actions.githubusercontent.com/${SubPath}:environment'',
     ''token.actions.githubusercontent.com/${SubPath}:job_workflow_ref'',
     ''token.actions.githubusercontent.com/${SubPath}:ref'',
     ''token.actions.githubusercontent.com/${SubPath}:repository'',
     ''token.actions.githubusercontent.com/${SubPath}:repository_id'',
     ''token.actions.githubusercontent.com/${SubPath}:repository_owner_id'',
     ''token.actions.githubusercontent.com/${SubPath}:workflow'',
     ''token.actions.githubusercontent.com:actor'',
     ''token.actions.githubusercontent.com:actor_id'',
     ''token.actions.githubusercontent.com:enterprise_id'',
     ''token.actions.githubusercontent.com:environment'',
     ''token.actions.githubusercontent.com:job_workflow_ref'',
     ''token.actions.githubusercontent.com:ref'',
     ''token.actions.githubusercontent.com:repository'',
     ''token.actions.githubusercontent.com:repository_id'',
     ''token.actions.githubusercontent.com:repository_owner_id'',
     ''token.actions.githubusercontent.com:workflow'', ''www.amazon.com:app_id'',
     ''www.amazon.com:user_id'']"

definition knownExact :: "string list" where
  "knownExact = known_keys_a @ known_keys_b @ known_keys_c"

definition labExact :: "string list" where
  "labExact = [''token.actions.githubusercontent.com:sub'', ''token.actions.githubusercontent.com:aud'']"

section \<open>Templates\<close>

text \<open>\<open>key[a:b]\<close> on a string of length \<open>len\<close>: out of range or crossed bounds panic.\<close>

definition slice :: "string \<Rightarrow> nat \<Rightarrow> int \<Rightarrow> string option" where
  "slice s a b =
     (if int a \<le> b \<and> b \<le> int (length s) then Some (take (nat b - a) (drop a s)) else None)"

definition templateMatch :: "string \<Rightarrow> string \<Rightarrow> bool option" where
  "templateMatch pattern key =
     (case Index pattern ''${'' of
        Some start \<Rightarrow>
          (case Index (drop start pattern) ''}'' of
             None \<Rightarrow> Some False
           | Some end_ \<Rightarrow>
               let pre = take start pattern; suf = drop (start + end_ + 1) pattern in
               if \<not> HasPrefix key pre \<or> \<not> HasSuffix key suf then Some False
               else do { mid \<leftarrow> slice key (length pre) (int (length key) - int (length suf));
                         Some (mid \<noteq> []) })
      | None \<Rightarrow>
          (case Index pattern ''<key>'' of
             Some at \<Rightarrow>
               let pre = take at pattern in
               Some (HasPrefix key pre \<and> length pre < length key)
           | None \<Rightarrow> Some False))"

definition Known :: "string \<Rightarrow> bool option" where
  "Known key =
     (if key = [] then Some False
      else if key \<in> set knownExact then Some True
      else if key \<in> set labExact then Some True
      else do {
        b \<leftarrow> any_opt (\<lambda>pattern. templateMatch pattern key) knownExact;
        if b then Some True
        else if HasSuffix key '':sub'' \<or> HasSuffix key '':aud'' then
          (let host = TrimSuffix (TrimSuffix key '':sub'') '':aud'' in
           Some (host \<noteq> [] \<and> (Contains host ''.'' \<or> Contains host ''/'')))
        else Some False })"


section \<open>What a template matches\<close>

lemma index_of_append:
  assumes "c \<notin> set xs"
  shows "index_of (c # sub) (xs @ c # sub @ ys) = Some (length xs)"
  using assms by (induction xs) auto

lemma slice_mid:
  assumes "prefix pre key" and "suffix suf key"
  shows "slice key (length pre) (int (length key) - int (length suf)) =
    (if length key < length pre + length suf then None
     else Some (take (length key - length suf - length pre) (drop (length pre) key)))"
  using suffix_length_le [OF assms(2)] by (auto simp: slice_def nat_diff_distrib')

lemma templateMatch_dollar:
  assumes "CHR ''$'' \<notin> set pre" and "CHR ''}'' \<notin> set name"
  shows "templateMatch (pre @ ''${'' @ name @ ''}'' @ suf) key =
    (if prefix pre key \<and> suffix suf key then
       if length key < length pre + length suf then None
       else Some (length pre + length suf < length key)
     else Some False)"
proof -
  have a: "index_of ''${'' (pre @ ''${'' @ name @ ''}'' @ suf) = Some (length pre)"
    using index_of_append [OF assms(1), of "''{''"] by simp
  have b: "index_of ''}'' (''${'' @ name @ ''}'' @ suf) = Some (2 + length name)"
    using index_of_append [of "CHR ''}''" "''${'' @ name" "[]"] assms(2) by simp
  have dr: "drop n (xs @ suf) = suf" if "n = length xs" for n and xs :: string using that by simp
  have c: "drop (length pre + (2 + length name) + 1) (pre @ ''${'' @ name @ ''}'' @ suf) = suf"
    using dr [of "length pre + (2 + length name) + 1" "pre @ ''${'' @ name @ ''}''"] by simp
  have d: "drop (length pre) (pre @ ''${'' @ name @ ''}'' @ suf) = ''${'' @ name @ ''}'' @ suf"
    and e: "take (length pre) (pre @ ''${'' @ name @ ''}'' @ suf) = pre" by simp_all
  show ?thesis
    unfolding templateMatch_def a option.case Let_def d b c e HasPrefix_def HasSuffix_def
    using slice_mid [of pre key suf] by auto
qed

text \<open>A template that starts with another letter than the key does not match it.\<close>

lemma templateMatch_first:
  assumes "c \<noteq> d" "d \<noteq> CHR ''$''" "d \<noteq> CHR ''<''"
  shows "templateMatch (d # ds) (c # cs) = Some False"
  using assms
  by (auto simp: templateMatch_def HasPrefix_def prefix_def Let_def take_Cons' split: option.splits)

definition is_template :: "string \<Rightarrow> bool" where
  "is_template p \<longleftrightarrow> CHR ''$'' \<in> set p \<or> CHR ''<'' \<in> set p"

lemma index_of_absent: "c \<notin> set p \<Longrightarrow> index_of (c # cs) p = None"
  by (induction p) auto

lemma templateMatch_no_template: "\<not> is_template p \<Longrightarrow> templateMatch p key = Some False"
  by (simp add: templateMatch_def is_template_def index_of_absent)

text \<open>The entries of the table that are templates.\<close>

definition templates_a :: "string list" where
  "templates_a =
    [''agent.${Domain}.buildkite.dev:build_branch'', ''agent.${Domain}.buildkite.dev:cluster_id'',
     ''agent.${Domain}.buildkite.dev:cluster_name'',
     ''agent.${Domain}.buildkite.dev:organization_id'',
     ''agent.${Domain}.buildkite.dev:organization_slug'',
     ''agent.${Domain}.buildkite.dev:pipeline_id'',
     ''agent.${Domain}.buildkite.dev:pipeline_slug'',
     ''agent.${Domain}.buildkite.site:build_branch'',
     ''agent.${Domain}.buildkite.site:cluster_id'',
     ''agent.${Domain}.buildkite.site:cluster_name'',
     ''agent.${Domain}.buildkite.site:organization_id'',
     ''agent.${Domain}.buildkite.site:organization_slug'',
     ''agent.${Domain}.buildkite.site:pipeline_id'',
     ''agent.${Domain}.buildkite.site:pipeline_slug'', ''aws:PrincipalTag/${TagKey}'',
     ''aws:RequestTag/${TagKey}'', ''aws:ResourceTag/${TagKey}'', ''ecr:ResourceTag/${TagKey}'',
     ''ecs:ResourceTag/${TagKey}'', ''github.com/enterprises/${EnterpriseName}:actor'',
     ''github.com/enterprises/${EnterpriseName}:actor_id'',
     ''github.com/enterprises/${EnterpriseName}:enterprise_id'',
     ''github.com/enterprises/${EnterpriseName}:environment'',
     ''github.com/enterprises/${EnterpriseName}:job_workflow_ref'',
     ''github.com/enterprises/${EnterpriseName}:ref'',
     ''github.com/enterprises/${EnterpriseName}:repository'',
     ''github.com/enterprises/${EnterpriseName}:repository_id'',
     ''github.com/enterprises/${EnterpriseName}:repository_owner_id'',
     ''github.com/enterprises/${EnterpriseName}:workflow'']"

definition templates_b :: "string list" where
  "templates_b =
    [''iam:ResourceTag/${TagKey}'',
     ''idcs-${OciUniqueIdentifier}.identity.oraclecloud.com:rpst_id'',
     ''kms:EncryptionContext:${EncryptionContextKey}'',
     ''oidc.circleci.com/org/${OrgId}:oidc.circleci.com/project-id'',
     ''s3:AccessPointTag/${TagKey}'', ''s3:BucketTag/${TagKey}'', ''s3:ExistingObjectTag/<key>'',
     ''s3:RequestObjectTag/<key>'']"

definition templates_c :: "string list" where
  "templates_c =
    [''ssm:resourceTag/${TagKey}'', ''sts:RequestContext/${ContextKey}'',
     ''token.actions.${Domain}.ghe.com:actor'', ''token.actions.${Domain}.ghe.com:actor_id'',
     ''token.actions.${Domain}.ghe.com:enterprise_id'',
     ''token.actions.${Domain}.ghe.com:environment'',
     ''token.actions.${Domain}.ghe.com:job_workflow_ref'',
     ''token.actions.${Domain}.ghe.com:ref'', ''token.actions.${Domain}.ghe.com:repository'',
     ''token.actions.${Domain}.ghe.com:repository_id'',
     ''token.actions.${Domain}.ghe.com:repository_owner_id'',
     ''token.actions.${Domain}.ghe.com:workflow'',
     ''token.actions.githubusercontent.com/${SubPath}:actor'',
     ''token.actions.githubusercontent.com/${SubPath}:actor_id'',
     ''token.actions.githubusercontent.com/${SubPath}:enterprise_id'',
     ''token.actions.githubusercontent.com/${SubPath}:environment'',
     ''token.actions.githubusercontent.com/${SubPath}:job_workflow_ref'',
     ''token.actions.githubusercontent.com/${SubPath}:ref'',
     ''token.actions.githubusercontent.com/${SubPath}:repository'',
     ''token.actions.githubusercontent.com/${SubPath}:repository_id'',
     ''token.actions.githubusercontent.com/${SubPath}:repository_owner_id'',
     ''token.actions.githubusercontent.com/${SubPath}:workflow'']"

definition catalog_templates :: "string list" where
  "catalog_templates = templates_a @ templates_b @ templates_c"

lemmas catalog_templates_defs = catalog_templates_def templates_a_def templates_b_def templates_c_def

lemma filter_templates_a: "filter is_template known_keys_a = templates_a"
  unfolding known_keys_a_def templates_a_def by (simp add: is_template_def)

lemma filter_templates_b: "filter is_template known_keys_b = templates_b"
  unfolding known_keys_b_def templates_b_def by (simp add: is_template_def)

lemma filter_templates_c: "filter is_template known_keys_c = templates_c"
  unfolding known_keys_c_def templates_c_def by (simp add: is_template_def)

lemma filter_templates: "filter is_template knownExact = catalog_templates"
  by (simp add: knownExact_def catalog_templates_def filter_templates_a filter_templates_b filter_templates_c)

lemma any_opt_filter:
  "(\<And>x. x \<in> set xs \<Longrightarrow> \<not> P x \<Longrightarrow> f x = Some False) \<Longrightarrow> any_opt f (filter P xs) = any_opt f xs"
proof (induction xs)
  case (Cons a xs)
  then have "any_opt f (filter P xs) = any_opt f xs" by simp
  with Cons.prems [of a] show ?case by (cases "P a"; cases "f a") auto
qed simp

lemma any_opt_templates:
  "any_opt (\<lambda>p. templateMatch p key) knownExact = any_opt (\<lambda>p. templateMatch p key) catalog_templates"
  unfolding filter_templates [symmetric]
  by (rule any_opt_filter [symmetric]) (simp add: templateMatch_no_template)

text \<open>The order in which the table is visited cannot turn a panic or a miss into a match.\<close>

definition template_panics :: "string \<Rightarrow> bool" where
  "template_panics key \<longleftrightarrow>
     list_all (\<lambda>p. templateMatch p key \<noteq> Some True) catalog_templates \<and>
     list_ex (\<lambda>p. templateMatch p key = None) catalog_templates"

lemma any_opt_None:
  assumes "\<And>x. x \<in> set xs \<Longrightarrow> f x \<noteq> Some True" and "x \<in> set xs" "f x = None"
  shows "any_opt f xs = None"
proof (cases "any_opt f xs")
  case (Some b)
  then show ?thesis
    using assms any_opt_Some_True [of f xs] any_opt_Some_False [of f xs] by (cases b) auto
qed

lemma template_panics_order:
  assumes "template_panics key" "mset catalog = mset knownExact"
  shows "any_opt (\<lambda>p. templateMatch p key) catalog = None"
proof -
  have s: "set catalog = set knownExact" using assms(2) by (metis set_mset_mset)
  have t: "set catalog_templates = {p \<in> set knownExact. is_template p}"
    by (simp add: filter_templates [symmetric])
  have "templateMatch p key \<noteq> Some True" if "p \<in> set catalog" for p
    using that assms(1) s t templateMatch_no_template [of p key]
    by (cases "is_template p") (auto simp: template_panics_def list_all_iff)
  moreover obtain p where "p \<in> set catalog" "templateMatch p key = None"
    using assms(1) s t by (auto simp: template_panics_def list_ex_iff)
  ultimately show ?thesis by (rule any_opt_None)
qed

lemma Known_template_panics:
  assumes "key \<notin> set knownExact" "key \<notin> set labExact" "template_panics key"
  shows "Known key = None"
proof -
  have "any_opt (\<lambda>p. templateMatch p key) knownExact = None"
    unfolding any_opt_templates using assms(3) by (auto simp: template_panics_def list_all_iff list_ex_iff intro: any_opt_None)
  moreover have "key \<noteq> []"
  proof
    assume "key = []"
    with assms(3) obtain p where "templateMatch p [] = None"
      by (auto simp: template_panics_def list_ex_iff)
    then show False
      by (auto simp: templateMatch_def slice_def HasPrefix_def HasSuffix_def Let_def split: option.splits if_splits)
  qed
  ultimately show ?thesis using assms(1,2) by (simp add: Known_def)
qed

lemma Known_exact: "key \<noteq> [] \<Longrightarrow> key \<in> set knownExact \<Longrightarrow> Known key = Some True"
  by (simp add: Known_def)

end
