(* ===== verification/Glob.thy ===== *)
theory Glob
  imports Go_Strings
begin

text \<open>
  The wildcard matcher of \<open>internal/kernel/authz/policy.go\<close> (\<open>globMatch\<close>, \<open>matchPattern\<close>,
  \<open>stringLikeMatch\<close>, \<open>actionsMatch\<close>, \<open>resourcesMatch\<close>), its declarative meaning, and the exact
  relation of the two: on which inputs the loop returns and what.

  The loop's state is the two positions and the position of the last star with the value position
  it was tried at (\<open>starP\<close>, \<open>starV\<close>; \<open>None\<close> for Go's \<open>-1\<close>). Positions are unbounded here: Go's are 64-bit,
  so a loop that does not return in the model would overflow its counter after \<open>2 ^ 63\<close> iterations.
\<close>

section \<open>The code\<close>

partial_function (option) glob_loop ::
  "string \<Rightarrow> string \<Rightarrow> bool \<Rightarrow> nat \<Rightarrow> nat \<Rightarrow> (nat \<times> nat) option \<Rightarrow> bool option"
where
  "glob_loop pattern value q pi vi star =
     (if vi < length value \<or> pi < length pattern then
        (if pi < length pattern \<and> pattern ! pi = CHR ''*'' then
           glob_loop pattern value q (Suc pi) vi (Some (pi, vi))
         else if pi < length pattern \<and> q \<and> pattern ! pi = CHR ''?'' \<and> vi < length value then
           glob_loop pattern value q (Suc pi) (Suc vi) star
         else if pi < length pattern \<and> \<not> (q \<and> pattern ! pi = CHR ''?'')
                 \<and> vi < length value \<and> pattern ! pi = value ! vi then
           glob_loop pattern value q (Suc pi) (Suc vi) star
         else
           (case star of
              Some (starP, starV) \<Rightarrow>
                glob_loop pattern value q (Suc starP) (Suc starV) (Some (starP, Suc starV))
            | None \<Rightarrow> Some False))
      else
        (let pi' = pi + length (takeWhile (\<lambda>c. c = CHR ''*'') (drop pi pattern))
         in Some (pi' = length pattern \<and> vi = length value)))"

definition globMatch :: "string \<Rightarrow> string \<Rightarrow> bool \<Rightarrow> bool option" where
  "globMatch pattern value questionWildcard = glob_loop pattern value questionWildcard 0 0 None"

definition stringLikeMatch :: "string \<Rightarrow> string \<Rightarrow> bool option" where
  "stringLikeMatch pattern value = globMatch pattern value True"

definition matchPattern :: "string \<Rightarrow> string \<Rightarrow> bool option" where
  "matchPattern pattern value =
     (if pattern = ''*'' \<or> pattern = value then Some True else globMatch pattern value False)"

definition actionsMatch :: "string list \<Rightarrow> string \<Rightarrow> bool option" where
  "actionsMatch patterns action = any_opt (\<lambda>p. matchPattern p action) patterns"

definition resourcesMatch :: "string list \<Rightarrow> string \<Rightarrow> bool option" where
  "resourcesMatch patterns resource = any_opt (\<lambda>p. matchPattern p resource) patterns"

section \<open>The meaning of a pattern\<close>

text \<open>
  A star stands for any sequence, a question mark (when \<open>q\<close>) for any one character, any other
  character for itself.
\<close>

fun glob_spec :: "bool \<Rightarrow> string \<Rightarrow> string \<Rightarrow> bool" where
  "glob_spec q [] v = (v = [])"
| "glob_spec q (c # ps) [] = (c = CHR ''*'' \<and> glob_spec q ps [])"
| "glob_spec q (c # ps) (x # xs) =
     (if c = CHR ''*'' then glob_spec q ps (x # xs) \<or> glob_spec q (c # ps) xs
      else (q \<and> c = CHR ''?'' \<or> c = x) \<and> glob_spec q ps xs)"

definition one_match :: "bool \<Rightarrow> char \<Rightarrow> char \<Rightarrow> bool" where
  "one_match q c x \<longleftrightarrow> q \<and> c = CHR ''?'' \<or> c = x"

lemma glob_spec_Cons:
  "c \<noteq> CHR ''*'' \<Longrightarrow>
   glob_spec q (c # ps) v \<longleftrightarrow> (\<exists>x xs. v = x # xs \<and> one_match q c x \<and> glob_spec q ps xs)"
  by (cases v) (auto simp: one_match_def)

lemma glob_spec_star:
  "glob_spec q (CHR ''*'' # ps) v \<longleftrightarrow> (\<exists>k\<le>length v. glob_spec q ps (drop k v))"
proof (induction v)
  case Nil
  show ?case by simp
next
  case (Cons x xs)
  have "(\<exists>k\<le>length (x # xs). glob_spec q ps (drop k (x # xs))) \<longleftrightarrow>
        glob_spec q ps (x # xs) \<or> (\<exists>k\<le>length xs. glob_spec q ps (drop k xs))"
    by (metis (no_types, lifting) Suc_le_mono drop0 drop_Suc_Cons le0 length_Cons not0_implies_Suc)
  with Cons.IH show ?case by simp
qed

text \<open>What a star matches can be extended to the left.\<close>

lemma glob_spec_star_mono:
  assumes "glob_spec q (CHR ''*'' # ps) (drop j v)" and "i \<le> j"
  shows "glob_spec q (CHR ''*'' # ps) (drop i v)"
proof -
  from assms(1) obtain k where "k \<le> length (drop j v)" and "glob_spec q ps (drop (k + j) v)"
    unfolding glob_spec_star by auto
  with assms(2) show ?thesis
    unfolding glob_spec_star
    by (intro exI [of _ "min (k + j - i) (length (drop i v))"]) (auto simp: min_def)
qed

text \<open>A star-free segment in front of a pattern consumes exactly its length.\<close>

definition seg_match :: "bool \<Rightarrow> string \<Rightarrow> string \<Rightarrow> bool" where
  "seg_match q seg v \<longleftrightarrow> length seg \<le> length v \<and> (\<forall>i<length seg. one_match q (seg ! i) (v ! i))"

lemma glob_spec_seg:
  "CHR ''*'' \<notin> set seg \<Longrightarrow>
   glob_spec q (seg @ ps) v \<longleftrightarrow> seg_match q seg v \<and> glob_spec q ps (drop (length seg) v)"
proof (induction seg arbitrary: v)
  case Nil
  then show ?case by (simp add: seg_match_def)
next
  case (Cons c seg)
  have c: "c \<noteq> CHR ''*''" and seg: "CHR ''*'' \<notin> set seg"
    using Cons.prems by auto
  have step: "seg_match q (c # seg) v \<longleftrightarrow> (\<exists>x xs. v = x # xs \<and> one_match q c x \<and> seg_match q seg xs)"
    by (cases v) (auto simp: seg_match_def nth_Cons all_conj_distrib less_Suc_eq_0_disj split: nat.splits)
  have "glob_spec q ((c # seg) @ ps) v \<longleftrightarrow>
        (\<exists>x xs. v = x # xs \<and> one_match q c x \<and> glob_spec q (seg @ ps) xs)"
    using glob_spec_Cons [OF c, of q "seg @ ps" v] by simp
  also have "\<dots> \<longleftrightarrow> (\<exists>x xs. v = x # xs \<and> one_match q c x \<and> seg_match q seg xs \<and>
                            glob_spec q ps (drop (length seg) xs))"
    by (simp add: Cons.IH [OF seg])
  also have "\<dots> \<longleftrightarrow> seg_match q (c # seg) v \<and> glob_spec q ps (drop (length (c # seg)) v)"
    unfolding step by auto
  finally show ?case .
qed

lemma seg_match_snoc:
  "seg_match q (seg @ [c]) v \<longleftrightarrow>
   seg_match q seg v \<and> length seg < length v \<and> one_match q c (v ! length seg)"
  by (auto simp: seg_match_def nth_append less_Suc_eq)

section \<open>The loop with a star behind it\<close>

text \<open>
  \<open>glob_inv\<close>: the segment between the star and the pattern position has no star and matches the value
  from where the star's tail is being tried. \<open>glob_goal\<close>: what is left to decide, the star's tail at
  some position at or after the one tried.
\<close>

definition glob_inv :: "bool \<Rightarrow> string \<Rightarrow> string \<Rightarrow> nat \<Rightarrow> nat \<Rightarrow> nat \<Rightarrow> nat \<Rightarrow> bool" where
  "glob_inv q p v sp sv pi vi \<longleftrightarrow>
     sp < pi \<and> pi \<le> length p \<and> p ! sp = CHR ''*'' \<and> sv \<le> vi \<and> vi \<le> length v \<and>
     vi - sv = pi - Suc sp \<and> CHR ''*'' \<notin> set (take (pi - Suc sp) (drop (Suc sp) p)) \<and>
     seg_match q (take (pi - Suc sp) (drop (Suc sp) p)) (drop sv v)"

definition glob_goal :: "bool \<Rightarrow> string \<Rightarrow> string \<Rightarrow> nat \<Rightarrow> nat \<Rightarrow> bool" where
  "glob_goal q p v sp sv \<longleftrightarrow> (\<exists>k. sv \<le> k \<and> k \<le> length v \<and> glob_spec q (drop (Suc sp) p) (drop k v))"

lemma glob_goal_star:
  "glob_goal q p v sp sv \<longleftrightarrow> sv \<le> length v \<and> glob_spec q (CHR ''*'' # drop (Suc sp) p) (drop sv v)"
proof
  assume "glob_goal q p v sp sv"
  then obtain k where "sv \<le> k" "k \<le> length v" "glob_spec q (drop (Suc sp) p) (drop k v)"
    by (auto simp: glob_goal_def)
  then show "sv \<le> length v \<and> glob_spec q (CHR ''*'' # drop (Suc sp) p) (drop sv v)"
    unfolding glob_spec_star by (auto intro!: exI [of _ "k - sv"])
next
  assume "sv \<le> length v \<and> glob_spec q (CHR ''*'' # drop (Suc sp) p) (drop sv v)"
  then obtain j where "j \<le> length (drop sv v)" "glob_spec q (drop (Suc sp) p) (drop (j + sv) v)"
    and "sv \<le> length v"
    unfolding glob_spec_star by auto
  then show "glob_goal q p v sp sv"
    unfolding glob_goal_def by (intro exI [of _ "j + sv"]) auto
qed

text \<open>The rest of the star's tail, split at the pattern position.\<close>

lemma tail_split:
  assumes "sp < pi" and "pi \<le> length p"
  shows "drop (Suc sp) p = take (pi - Suc sp) (drop (Suc sp) p) @ drop pi p"
proof -
  have "drop (pi - Suc sp) (drop (Suc sp) p) = drop pi p"
    using assms by simp
  then show ?thesis by (metis append_take_drop_id)
qed

lemma glob_inv_spec:
  assumes "glob_inv q p v sp sv pi vi"
  shows "glob_spec q (drop (Suc sp) p) (drop sv v) \<longleftrightarrow> glob_spec q (drop pi p) (drop vi v)"
proof -
  let ?seg = "take (pi - Suc sp) (drop (Suc sp) p)"
  have "length ?seg = vi - sv" and "sv \<le> vi"
    using assms by (auto simp: glob_inv_def)
  moreover have "glob_spec q (?seg @ drop pi p) (drop sv v) \<longleftrightarrow>
      glob_spec q (drop pi p) (drop (length ?seg) (drop sv v))"
    using assms by (subst glob_spec_seg) (auto simp: glob_inv_def)
  moreover have "drop (Suc sp) p = ?seg @ drop pi p"
    using assms by (intro tail_split) (auto simp: glob_inv_def)
  ultimately show ?thesis by simp
qed

text \<open>At the next star the earlier one need not be tried further.\<close>

lemma glob_goal_next_star:
  assumes inv: "glob_inv q p v sp sv pi vi" and pi: "pi < length p" "p ! pi = CHR ''*''"
  shows "glob_goal q p v sp sv \<longleftrightarrow> glob_goal q p v pi vi"
proof -
  let ?seg = "take (pi - Suc sp) (drop (Suc sp) p)"
  have le: "sv \<le> vi" "vi \<le> length v" "length ?seg = vi - sv"
    using inv by (auto simp: glob_inv_def)
  have split: "drop (Suc sp) p = ?seg @ CHR ''*'' # drop (Suc pi) p"
    using inv pi tail_split [of sp pi p] drop_eq_Cons_nth [of pi p] by (auto simp: glob_inv_def)
  have eq: "glob_spec q (drop (Suc sp) p) (drop k v) \<longleftrightarrow>
      seg_match q ?seg (drop k v) \<and>
      glob_spec q (CHR ''*'' # drop (Suc pi) p) (drop (vi - sv + k) v)" for k
    using inv le(3) by (subst split, subst glob_spec_seg) (auto simp: glob_inv_def)
  have "glob_goal q p v sp sv \<longleftrightarrow> glob_spec q (CHR ''*'' # drop (Suc pi) p) (drop vi v)"
  proof
    assume "glob_goal q p v sp sv"
    then obtain k where "sv \<le> k" "glob_spec q (CHR ''*'' # drop (Suc pi) p) (drop (vi - sv + k) v)"
      unfolding glob_goal_def eq by auto
    with le(1) show "glob_spec q (CHR ''*'' # drop (Suc pi) p) (drop vi v)"
      by (elim glob_spec_star_mono) auto
  next
    assume "glob_spec q (CHR ''*'' # drop (Suc pi) p) (drop vi v)"
    moreover have "vi - sv + sv = vi" using le by simp
    moreover have "seg_match q ?seg (drop sv v)" using inv by (simp add: glob_inv_def)
    ultimately have "glob_spec q (drop (Suc sp) p) (drop sv v)"
      unfolding eq by metis
    with le show "glob_goal q p v sp sv"
      unfolding glob_goal_def by (intro exI [of _ sv]) auto
  qed
  then show ?thesis
    using le by (auto simp: glob_goal_star)
qed

lemma glob_goal_step:
  assumes "\<not> glob_spec q (drop (Suc sp) p) (drop sv v)"
  shows "glob_goal q p v sp sv \<longleftrightarrow> glob_goal q p v sp (Suc sv)"
  using assms unfolding glob_goal_def by (metis Suc_leD le_antisym not_less_eq_eq)

text \<open>Once the star's tail is tried past the end of the value the loop never returns.\<close>

definition glob_lost :: "string \<Rightarrow> string \<Rightarrow> nat \<Rightarrow> nat \<Rightarrow> (nat \<times> nat) option \<Rightarrow> bool" where
  "glob_lost p v pi vi star \<longleftrightarrow>
     (\<exists>sp sv. star = Some (sp, sv) \<and> pi = Suc sp \<and> vi = sv \<and> length v \<le> sv \<and>
              Suc sp < length p \<and> p ! Suc sp \<noteq> CHR ''*'')"

lemma glob_lost_diverges:
  assumes "glob_lost p v pi vi star"
  shows "glob_loop p v q pi vi star = None"
proof (rule ccontr)
  assume "glob_loop p v q pi vi star \<noteq> None"
  then obtain y where y: "glob_loop p v q pi vi star = Some y" by auto
  have "\<not> glob_lost p v pi vi star"
  proof (rule glob_loop.raw_induct
      [where P = "\<lambda>p v q pi vi star y. \<not> glob_lost p v pi vi star", OF _ y])
    fix f p v q pi vi star y
    assume IH: "\<And>p v q pi vi star y. f p v q pi vi star = Some y \<Longrightarrow> \<not> glob_lost p v pi vi star"
      and eq: "(if vi < length v \<or> pi < length p then
        (if pi < length p \<and> p ! pi = CHR ''*'' then f p v q (Suc pi) vi (Some (pi, vi))
         else if pi < length p \<and> q \<and> p ! pi = CHR ''?'' \<and> vi < length v then f p v q (Suc pi) (Suc vi) star
         else if pi < length p \<and> \<not> (q \<and> p ! pi = CHR ''?'') \<and> vi < length v \<and> p ! pi = v ! vi then
           f p v q (Suc pi) (Suc vi) star
         else (case star of
              Some (starP, starV) \<Rightarrow> f p v q (Suc starP) (Suc starV) (Some (starP, Suc starV))
            | None \<Rightarrow> Some False))
      else
        (let pi' = pi + length (takeWhile (\<lambda>c. c = CHR ''*'') (drop pi p))
         in Some (pi' = length p \<and> vi = length v))) = Some y"
    show "\<not> glob_lost p v pi vi star"
    proof
      assume "glob_lost p v pi vi star"
      then obtain sp sv where s: "star = Some (sp, sv)" "pi = Suc sp" "vi = sv" "length v \<le> sv"
          "Suc sp < length p" "p ! Suc sp \<noteq> CHR ''*''"
        by (auto simp: glob_lost_def)
      with eq have "f p v q (Suc sp) (Suc sv) (Some (sp, Suc sv)) = Some y" by auto
      then have "\<not> glob_lost p v (Suc sp) (Suc sv) (Some (sp, Suc sv))" by (rule IH)
      with s show False by (auto simp: glob_lost_def)
    qed
  qed
  with assms show False by contradiction
qed


section \<open>Single steps of the loop\<close>

lemma glob_loop_at_star:
  "pi < length p \<Longrightarrow> p ! pi = CHR ''*'' \<Longrightarrow>
   glob_loop p v q pi vi star = glob_loop p v q (Suc pi) vi (Some (pi, vi))"
  by (subst glob_loop.simps) simp

lemma glob_loop_match:
  "pi < length p \<Longrightarrow> p ! pi \<noteq> CHR ''*'' \<Longrightarrow> vi < length v \<Longrightarrow> one_match q (p ! pi) (v ! vi) \<Longrightarrow>
   glob_loop p v q pi vi star = glob_loop p v q (Suc pi) (Suc vi) star"
  by (subst glob_loop.simps) (auto simp: one_match_def)

lemma glob_loop_mismatch:
  assumes "vi < length v \<or> pi < length p" and "pi < length p \<Longrightarrow> p ! pi \<noteq> CHR ''*''"
    and "pi < length p \<Longrightarrow> vi < length v \<Longrightarrow> \<not> one_match q (p ! pi) (v ! vi)"
  shows "glob_loop p v q pi vi star =
    (case star of
       Some (sp, sv) \<Rightarrow> glob_loop p v q (Suc sp) (Suc sv) (Some (sp, Suc sv))
     | None \<Rightarrow> Some False)"
  using assms by (subst glob_loop.simps) (auto simp: one_match_def)

lemma glob_loop_done:
  "length p \<le> pi \<Longrightarrow> glob_loop p v q pi (length v) star = Some (pi = length p)"
  by (subst glob_loop.simps) auto

lemmas glob_steps = glob_loop_at_star glob_loop_match glob_loop_mismatch glob_loop_done

lemma glob_inv_start:
  "sp < length p \<Longrightarrow> p ! sp = CHR ''*'' \<Longrightarrow> sv \<le> length v \<Longrightarrow> glob_inv q p v sp sv (Suc sp) sv"
  by (simp add: glob_inv_def seg_match_def)

lemma glob_inv_advance:
  assumes inv: "glob_inv q p v sp sv pi vi" and at: "pi < length p" "p ! pi \<noteq> CHR ''*''"
    "vi < length v" "one_match q (p ! pi) (v ! vi)"
  shows "glob_inv q p v sp sv (Suc pi) (Suc vi)"
proof -
  let ?n = "pi - Suc sp"
  have n: "Suc pi - Suc sp = Suc ?n" "sv + ?n = vi" "Suc sp + ?n = pi"
    using inv by (auto simp: glob_inv_def)
  have "take (Suc ?n) (drop (Suc sp) p) = take ?n (drop (Suc sp) p) @ [p ! pi]"
    using n at by (subst take_Suc_conv_app_nth) auto
  moreover have "length (take ?n (drop (Suc sp) p)) = ?n"
    using n at by auto
  moreover have "sv + ?n < length v"
    using n at by auto
  ultimately show ?thesis
    using inv at n by (auto simp add: glob_inv_def seg_match_snoc less_diff_conv)
qed

lemma glob_spec_mismatch:
  assumes "vi < length v \<or> pi < length p" and "pi < length p \<Longrightarrow> p ! pi \<noteq> CHR ''*''"
    and "pi < length p \<Longrightarrow> vi < length v \<Longrightarrow> \<not> one_match q (p ! pi) (v ! vi)"
  shows "\<not> glob_spec q (drop pi p) (drop vi v)"
proof (cases "pi < length p")
  case False
  with assms(1) show ?thesis by simp
next
  case True
  with assms show ?thesis
    by (cases "vi < length v") (auto simp: drop_eq_Cons_nth [of pi p] drop_eq_Cons_nth [of vi v] one_match_def)
qed

section \<open>What the loop computes\<close>

definition glob_order :: "((nat \<times> nat \<times> nat) \<times> (nat \<times> nat \<times> nat)) set" where
  "glob_order = less_than <*lex*> less_than <*lex*> less_than"

lemma wf_glob_order: "wf glob_order"
  by (auto simp: glob_order_def)

text \<open>With a star behind it the loop returns only to accept.\<close>

lemma glob_loop_star:
  "glob_inv q p v sp sv pi vi \<Longrightarrow>
   glob_loop p v q pi vi (Some (sp, sv)) = (if glob_goal q p v sp sv then Some True else None)"
proof (induction "(length p - sp, length v - sv, length p - pi)" arbitrary: sp sv pi vi
    rule: wf_induct_rule [OF wf_glob_order])
  case (1 sp sv pi vi)
  note inv = "1.prems"
  then have b: "sp < pi" "pi \<le> length p" "sv \<le> vi" "vi \<le> length v" "vi - sv = pi - Suc sp"
    by (auto simp: glob_inv_def)
  consider (star) "pi < length p" "p ! pi = CHR ''*''"
    | (step) "pi < length p" "p ! pi \<noteq> CHR ''*''" "vi < length v" "one_match q (p ! pi) (v ! vi)"
    | (fin) "pi = length p" "vi = length v"
    | (miss) "vi < length v \<or> pi < length p" "pi < length p \<Longrightarrow> p ! pi \<noteq> CHR ''*''"
        "pi < length p \<Longrightarrow> vi < length v \<Longrightarrow> \<not> one_match q (p ! pi) (v ! vi)"
    using b by fastforce
  then show ?case
  proof cases
    case star
    have "glob_loop p v q (Suc pi) vi (Some (pi, vi)) = (if glob_goal q p v pi vi then Some True else None)"
      using star b by (intro "1.hyps" glob_inv_start) (auto simp: glob_order_def)
    with star inv show ?thesis by (simp add: glob_loop_at_star glob_goal_next_star)
  next
    case step
    have "glob_loop p v q (Suc pi) (Suc vi) (Some (sp, sv)) = (if glob_goal q p v sp sv then Some True else None)"
      using step b inv by (intro "1.hyps" glob_inv_advance) (auto simp: glob_order_def)
    with step show ?thesis by (simp add: glob_loop_match)
  next
    case fin
    have "glob_spec q (drop (Suc sp) p) (drop sv v)"
      using fin inv glob_inv_spec [OF inv] by simp
    then have "glob_goal q p v sp sv"
      using b fin by (auto simp: glob_goal_def)
    with fin show ?thesis by (simp add: glob_loop_done)
  next
    case miss
    have no: "\<not> glob_spec q (drop (Suc sp) p) (drop sv v)"
      using glob_spec_mismatch [OF miss] glob_inv_spec [OF inv] by simp
    have loop: "glob_loop p v q pi vi (Some (sp, sv)) = glob_loop p v q (Suc sp) (Suc sv) (Some (sp, Suc sv))"
      using glob_loop_mismatch [OF miss, where star = "Some (sp, sv)"] by simp
    show ?thesis
    proof (cases "sv < length v")
      case True
      have "glob_loop p v q (Suc sp) (Suc sv) (Some (sp, Suc sv)) =
          (if glob_goal q p v sp (Suc sv) then Some True else None)"
        using True b inv by (intro "1.hyps" glob_inv_start) (auto simp: glob_order_def glob_inv_def)
      with loop no show ?thesis by (simp add: glob_goal_step)
    next
      case False
      then have eqs: "sv = length v" "vi = length v" "pi = Suc sp" using b by auto
      with miss have "glob_lost p v pi vi (Some (sp, sv))" by (auto simp: glob_lost_def)
      moreover have "\<not> glob_goal q p v sp sv"
        using no eqs by (auto simp: glob_goal_def)
      ultimately show ?thesis by (simp add: glob_lost_diverges)
    qed
  qed
qed

text \<open>Without a star behind it the loop compares character by character.\<close>

definition star_free :: "string \<Rightarrow> bool" where
  "star_free p \<longleftrightarrow> CHR ''*'' \<notin> set p"

definition literal_head :: "string \<Rightarrow> string" where
  "literal_head p = takeWhile (\<lambda>c. c \<noteq> CHR ''*'') p"

text \<open>\<open>glob_result\<close>: what the code's loop returns, as a function of the meaning of the pattern.\<close>

definition glob_result :: "bool \<Rightarrow> string \<Rightarrow> string \<Rightarrow> bool option" where
  "glob_result q p v =
     (if glob_spec q p v then Some True
      else if \<not> star_free p \<and> seg_match q (literal_head p) v then None
      else Some False)"

lemma seg_match_Cons:
  "seg_match q (c # seg) (x # xs) \<longleftrightarrow> one_match q c x \<and> seg_match q seg xs"
  by (auto simp: seg_match_def nth_Cons all_conj_distrib less_Suc_eq_0_disj split: nat.splits)

lemma seg_match_Nil: "seg_match q [] v" "\<not> seg_match q (c # seg) []"
  by (simp_all add: seg_match_def)

lemma glob_result_step:
  assumes "c \<noteq> CHR ''*''" and "one_match q c x"
  shows "glob_result q (c # ps) (x # xs) = glob_result q ps xs"
  using assms by (auto simp: glob_result_def star_free_def literal_head_def seg_match_Cons one_match_def)

lemma glob_loop_no_star:
  "pi \<le> length p \<Longrightarrow> vi \<le> length v \<Longrightarrow>
   glob_loop p v q pi vi None = glob_result q (drop pi p) (drop vi v)"
proof (induction "length p - pi" arbitrary: pi vi)
  case 0
  then have pi: "pi = length p" by simp
  show ?case
  proof (cases "vi = length v")
    case True
    with pi show ?thesis by (simp add: glob_loop_done glob_result_def)
  next
    case False
    with pi 0 show ?thesis
      by (simp add: glob_loop_mismatch glob_result_def star_free_def)
  qed
next
  case (Suc n)
  then have pi: "pi < length p" by simp
  note dp = drop_eq_Cons_nth [OF pi]
  consider (star) "p ! pi = CHR ''*''"
    | (step) "p ! pi \<noteq> CHR ''*''" "vi < length v" "one_match q (p ! pi) (v ! vi)"
    | (miss) "p ! pi \<noteq> CHR ''*''" "vi < length v \<Longrightarrow> \<not> one_match q (p ! pi) (v ! vi)"
    by blast
  then show ?case
  proof cases
    case star
    have "glob_loop p v q pi vi None = (if glob_goal q p v pi vi then Some True else None)"
      using star pi Suc.prems by (simp add: glob_loop_at_star glob_loop_star glob_inv_start)
    moreover have "glob_goal q p v pi vi \<longleftrightarrow> glob_spec q (drop pi p) (drop vi v)"
      using Suc.prems star dp by (simp add: glob_goal_star)
    moreover have "literal_head (drop pi p) = []" "\<not> star_free (drop pi p)"
      using star dp by (simp_all add: literal_head_def star_free_def)
    ultimately show ?thesis by (simp add: glob_result_def seg_match_def)
  next
    case step
    have "glob_loop p v q pi vi None = glob_loop p v q (Suc pi) (Suc vi) None"
      using step pi by (simp add: glob_loop_match)
    also have "\<dots> = glob_result q (drop (Suc pi) p) (drop (Suc vi) v)"
      using Suc step by (intro Suc.hyps) auto
    finally show ?thesis
      using step dp drop_eq_Cons_nth [OF step(2)] by (simp add: glob_result_step)
  next
    case miss
    have "glob_loop p v q pi vi None = Some False"
      using miss pi by (subst glob_loop_mismatch) auto
    moreover have "\<not> glob_spec q (drop pi p) (drop vi v)"
      using miss pi by (intro glob_spec_mismatch) auto
    moreover have "\<not> seg_match q (literal_head (drop pi p)) (drop vi v)"
    proof (cases "vi < length v")
      case True
      with miss dp drop_eq_Cons_nth [OF True] show ?thesis
        by (simp add: literal_head_def seg_match_Cons)
    next
      case False
      with miss dp Suc.prems show ?thesis
        by (simp add: literal_head_def seg_match_def)
    qed
    ultimately show ?thesis by (simp add: glob_result_def)
  qed
qed

lemma globMatch_result [code]: "globMatch p v q = glob_result q p v"
  using glob_loop_no_star [of 0 p 0 v q] by (simp add: globMatch_def)

text \<open>A pattern whose only star is its last character always gets an answer.\<close>

lemma glob_spec_trailing:
  assumes "star_free lit"
  shows "glob_spec q (lit @ ''*'') v \<longleftrightarrow> seg_match q lit v"
proof -
  have "glob_spec q ''*'' w" for w
    unfolding glob_spec_star by (intro exI [of _ "length w"]) simp
  with assms show ?thesis by (simp add: glob_spec_seg star_free_def)
qed

lemma globMatch_total:
  assumes "star_free lit"
  shows "globMatch lit v q = Some (glob_spec q lit v)"
    and "globMatch (lit @ ''*'') v q = Some (seg_match q lit v)"
proof -
  show "globMatch lit v q = Some (glob_spec q lit v)"
    using assms by (simp add: globMatch_result glob_result_def)
  have "literal_head (lit @ ''*'') = lit"
    using assms unfolding literal_head_def star_free_def
    by (subst takeWhile_append2) auto
  then show "globMatch (lit @ ''*'') v q = Some (seg_match q lit v)"
    using glob_spec_trailing [OF assms] by (simp add: globMatch_result glob_result_def)
qed

lemma globMatch_never_wrong:
  "globMatch p v q = Some b \<Longrightarrow> b = glob_spec q p v"
  by (auto simp: globMatch_result glob_result_def split: if_splits)

end
