(* ===== verification/Go_Numbers.thy ===== *)
theory Go_Numbers
  imports Complex_Main Go_Strings "HOL-Library.Log_Nat"
begin

text \<open>
  The number routines of Go's \<open>strconv\<close> the code calls: \<open>ParseInt\<close> (64 bits) and \<open>Atoi\<close>, decimal and
  hexadecimal printing, \<open>ParseFloat\<close> with the rounding to IEEE binary64, and Go's \<open>int64\<close> wrap-around.
  An error result (syntax or range) is \<open>None\<close>.
\<close>

section \<open>64-bit integers\<close>

definition wrap64 :: "int \<Rightarrow> int" where
  "wrap64 i = (i + 2 ^ 63) mod 2 ^ 64 - 2 ^ 63"

lemma wrap64_id: "- (2 ^ 63) \<le> i \<Longrightarrow> i < 2 ^ 63 \<Longrightarrow> wrap64 i = i"
  by (simp add: wrap64_def)

lemma wrap64_range: "- (2 ^ 63) \<le> wrap64 i \<and> wrap64 i < 2 ^ 63"
proof -
  have "0 \<le> (i + 2 ^ 63) mod 2 ^ 64" and "(i + 2 ^ 63) mod 2 ^ 64 < 2 ^ 64"
    by simp_all
  then show ?thesis by (simp add: wrap64_def)
qed

section \<open>Parsing integers\<close>

definition alnum_val :: "char \<Rightarrow> nat option" where
  "alnum_val c =
     (if is_digit c then Some (digit_val c)
      else if CHR ''a'' \<le> c \<and> c \<le> CHR ''z'' then Some (of_char c - 97 + 10)
      else if CHR ''A'' \<le> c \<and> c \<le> CHR ''Z'' then Some (of_char c - 65 + 10)
      else None)"

fun parse_digits :: "nat \<Rightarrow> string \<Rightarrow> nat \<Rightarrow> nat option" where
  "parse_digits base [] acc = Some acc"
| "parse_digits base (c # cs) acc =
     (case alnum_val c of
        None \<Rightarrow> None
      | Some d \<Rightarrow> if d < base then parse_digits base cs (acc * base + d) else None)"

definition parse_uint :: "nat \<Rightarrow> string \<Rightarrow> nat option" where
  "parse_uint base s = (if s = [] then None else parse_digits base s 0)"

text \<open>\<open>strconv.ParseInt(s, base, 64)\<close> for a base given explicitly.\<close>

definition ParseInt :: "nat \<Rightarrow> string \<Rightarrow> int option" where
  "ParseInt base s =
     (case s of
        [] \<Rightarrow> None
      | c # cs \<Rightarrow>
          let neg = (c = CHR ''-'');
              ds = (if c = CHR ''+'' \<or> neg then cs else s)
          in (case parse_uint base ds of
                None \<Rightarrow> None
              | Some n \<Rightarrow>
                  if \<not> neg \<and> n \<ge> 2 ^ 63 \<or> neg \<and> n > 2 ^ 63 then None
                  else Some (if neg then - int n else int n)))"

abbreviation Atoi :: "string \<Rightarrow> int option" where
  "Atoi s \<equiv> ParseInt 10 s"

lemma ParseInt_range: "ParseInt base s = Some i \<Longrightarrow> - (2 ^ 63) \<le> i \<and> i < 2 ^ 63"
  by (auto simp: ParseInt_def Let_def split: list.splits option.splits if_splits)

section \<open>Printing integers\<close>

fun nat_digits :: "nat \<Rightarrow> string" where
  "nat_digits n = (if n < 10 then [digit_char n] else nat_digits (n div 10) @ [digit_char (n mod 10)])"

declare nat_digits.simps [simp del]

definition itoa :: "int \<Rightarrow> string" where
  "itoa i = (if i < 0 then CHR ''-'' # nat_digits (nat (- i)) else nat_digits (nat i))"

text \<open>\<open>%0wd\<close> for a number that is not negative.\<close>

definition pad_nat :: "nat \<Rightarrow> nat \<Rightarrow> string" where
  "pad_nat w n = replicate (w - length (nat_digits n)) (CHR ''0'') @ nat_digits n"

definition hex_char_upper :: "nat \<Rightarrow> char" where
  "hex_char_upper d = (if d < 10 then char_of (48 + d) else char_of (55 + d))"

definition hex_char_lower :: "nat \<Rightarrow> char" where
  "hex_char_lower d = (if d < 10 then char_of (48 + d) else char_of (87 + d))"

lemma alnum_val_digit: "d < 10 \<Longrightarrow> alnum_val (digit_char d) = Some d"
  by (simp add: alnum_val_def is_digit_char)

lemma parse_digits_append:
  "parse_digits b (xs @ ys) acc =
     (case parse_digits b xs acc of None \<Rightarrow> None | Some n \<Rightarrow> parse_digits b ys n)"
  by (induction b xs acc rule: parse_digits.induct) (auto split: option.splits)

lemma parse_nat_digits: "parse_digits 10 (nat_digits n) 0 = Some n"
proof (induction n rule: nat_digits.induct)
  case (1 n)
  show ?case
  proof (cases "n < 10")
    case True
    then show ?thesis by (simp add: nat_digits.simps [of n] alnum_val_digit)
  next
    case False
    then show ?thesis
      using 1 by (simp add: nat_digits.simps [of n] parse_digits_append alnum_val_digit)
  qed
qed

lemma nat_digits_nonempty [simp]: "nat_digits n \<noteq> []"
  by (simp add: nat_digits.simps [of n])

lemma nat_digits_are_digits: "c \<in> set (nat_digits n) \<Longrightarrow> is_digit c"
proof (induction n rule: nat_digits.induct)
  case (1 n)
  then show ?case
    by (cases "n < 10") (auto simp: nat_digits.simps [of n] is_digit_char)
qed

lemma nat_digits_inj: "nat_digits m = nat_digits n \<Longrightarrow> m = n"
  by (metis option.inject parse_nat_digits)

text \<open>Reading back what was printed.\<close>

lemma Atoi_nat_digits: "n < 2 ^ 63 \<Longrightarrow> Atoi (nat_digits n) = Some (int n)"
proof -
  assume n: "n < 2 ^ 63"
  obtain c cs where s: "nat_digits n = c # cs"
    by (cases "nat_digits n") auto
  have "is_digit c"
    using nat_digits_are_digits [of c n] s by simp
  then have "c \<noteq> CHR ''-''" and "c \<noteq> CHR ''+''"
    by (auto simp: is_digit_def)
  moreover have "parse_digits 10 (c # cs) 0 = Some n"
    using parse_nat_digits [of n] s by simp
  ultimately show ?thesis
    using n by (simp add: ParseInt_def s parse_uint_def)
qed

declare ParseInt_def [go_simps] parse_uint_def [go_simps] alnum_val_def [go_simps]

end
