(* ===== verification/Go_Json.thy ===== *)
theory Go_Json
  imports Go_Numbers
begin

text \<open>
  Go's \<open>encoding/json\<close> as far as the code uses it. \<open>json_parse\<close> is the syntax check and the reading
  of a document into a tree; the decoding rules of \<open>Unmarshal\<close> into Go types (a null leaves a value as
  it is, object keys match struct fields up to case, an object decoded into a map keeps the last of
  several equal keys, any type mismatch is an error) are the functions on trees below it.

  The reader is a lexer and a machine with an explicit stack, as Go's scanner: both recurse on their
  input, and nesting deeper than 10000 is an error, as there.
\<close>

datatype json =
    JNull
  | JBool bool
  | JNum string
  | JStr string
  | JArr "json list"
  | JObj "(string \<times> json) list"

section \<open>UTF-8\<close>

definition byte_of :: "char \<Rightarrow> nat" where
  "byte_of c = of_char c"

definition char_byte :: "nat \<Rightarrow> char" where
  "char_byte n = char_of n"

text \<open>\<open>utf8.AppendRune\<close>: surrogates and values out of range are written as U+FFFD.\<close>

definition utf8_encode :: "nat \<Rightarrow> string" where
  "utf8_encode r =
     (if r < 128 then [char_byte r]
      else if r < 2048 then [char_byte (192 + r div 64), char_byte (128 + r mod 64)]
      else if 55296 \<le> r \<and> r < 57344 \<or> 1114111 < r then [CHR 0xEF, CHR 0xBF, CHR 0xBD]
      else if r < 65536 then
        [char_byte (224 + r div 4096), char_byte (128 + r div 64 mod 64), char_byte (128 + r mod 64)]
      else
        [char_byte (240 + r div 262144), char_byte (128 + r div 4096 mod 64),
         char_byte (128 + r div 64 mod 64), char_byte (128 + r mod 64)])"

definition cont_byte :: "nat \<Rightarrow> bool" where
  "cont_byte b \<longleftrightarrow> 128 \<le> b \<and> b < 192"

text \<open>
  The length of the valid UTF-8 sequence a string of bytes starts with, \<open>0\<close> if there is none
  (\<open>utf8.DecodeRune\<close> then gives U+FFFD and consumes one byte).
\<close>

definition utf8_len :: "string \<Rightarrow> nat" where
  "utf8_len s =
     (case map byte_of (take 4 s) of
        [] \<Rightarrow> 0
      | a # as \<Rightarrow>
          if a < 128 then 1
          else if 194 \<le> a \<and> a < 224 then
            (case as of b # _ \<Rightarrow> if cont_byte b then 2 else 0 | _ \<Rightarrow> 0)
          else if 224 \<le> a \<and> a < 240 then
            (case as of
               b # c # _ \<Rightarrow>
                 if cont_byte b \<and> cont_byte c \<and> (a = 224 \<longrightarrow> 160 \<le> b) \<and> (a = 237 \<longrightarrow> b < 160)
                 then 3 else 0
             | _ \<Rightarrow> 0)
          else if 240 \<le> a \<and> a < 245 then
            (case as of
               b # c # d # _ \<Rightarrow>
                 if cont_byte b \<and> cont_byte c \<and> cont_byte d \<and> (a = 240 \<longrightarrow> 144 \<le> b) \<and> (a = 244 \<longrightarrow> b < 144)
                 then 4 else 0
             | _ \<Rightarrow> 0)
          else 0)"

section \<open>String literals\<close>

definition hex4 :: "string \<Rightarrow> nat option" where
  "hex4 s =
     (if length s < 4 then None
      else parse_digits 16 (take 4 s) 0)"

text \<open>
  A literal from after its opening quote: its value, and the input after the closing quote. The
  first argument bounds the recursion; each step consumes input, so the input's length is enough.
\<close>

fun lex_string :: "nat \<Rightarrow> string \<Rightarrow> string \<Rightarrow> (string \<times> string) option" where
  "lex_string 0 s acc = None"
| "lex_string (Suc n) [] acc = None"
| "lex_string (Suc n) (c # cs) acc =
     (if c = CHR 0x22 then Some (rev acc, cs)
      else if c = CHR 0x5C then
        (case cs of
           [] \<Rightarrow> None
         | e # es \<Rightarrow>
             if e = CHR 0x22 \<or> e = CHR 0x5C \<or> e = CHR ''/'' then lex_string n es (e # acc)
             else if e = CHR ''b'' then lex_string n es (CHR 0x08 # acc)
             else if e = CHR ''f'' then lex_string n es (CHR 0x0C # acc)
             else if e = CHR ''n'' then lex_string n es (CHR 0x0A # acc)
             else if e = CHR ''r'' then lex_string n es (CHR 0x0D # acc)
             else if e = CHR ''t'' then lex_string n es (CHR 0x09 # acc)
             else if e = CHR ''u'' then
               (case hex4 es of
                  None \<Rightarrow> None
                | Some r \<Rightarrow>
                    let rest = drop 4 es;
                        lo = (case rest of
                                b # u # more \<Rightarrow>
                                  if b = CHR 0x5C \<and> u = CHR ''u'' then hex4 more else None
                              | _ \<Rightarrow> None)
                    in case lo of
                         Some l \<Rightarrow>
                           if 55296 \<le> r \<and> r < 56320 \<and> 56320 \<le> l \<and> l < 57344
                           then lex_string n (drop 6 rest)
                                  (rev (utf8_encode ((r - 55296) * 1024 + (l - 56320) + 65536)) @ acc)
                           else lex_string n rest (rev (utf8_encode r) @ acc)
                       | None \<Rightarrow> lex_string n rest (rev (utf8_encode r) @ acc))
             else None)
      else if byte_of c < 32 then None
      else if byte_of c < 128 then lex_string n cs (c # acc)
      else (let k = utf8_len (c # cs)
            in if k = 0 then lex_string n cs (rev [CHR 0xEF, CHR 0xBF, CHR 0xBD] @ acc)
               else lex_string n (drop k (c # cs)) (rev (take k (c # cs)) @ acc)))"

section \<open>Numbers\<close>

fun span_digits :: "string \<Rightarrow> string \<times> string" where
  "span_digits [] = ([], [])"
| "span_digits (c # cs) =
     (if is_digit c then (let (a, b) = span_digits cs in (c # a, b)) else ([], c # cs))"

definition lex_number :: "string \<Rightarrow> (string \<times> string) option" where
  "lex_number s =
     (let (sign, t) = (case s of c # cs \<Rightarrow> if c = CHR ''-'' then ([c], cs) else ([], s) | [] \<Rightarrow> ([], s));
          (int_part, t1) = (case t of
             c # cs \<Rightarrow> if c = CHR ''0'' then ([c], cs) else span_digits t
           | [] \<Rightarrow> ([], t))
      in if int_part = [] then None
         else
           let frac = (case t1 of
                 c # cs \<Rightarrow>
                   if c = CHR ''.'' then
                     (let (d, r) = span_digits cs in if d = [] then None else Some (c # d, r))
                   else Some ([], t1)
               | [] \<Rightarrow> Some ([], t1))
           in case frac of
                None \<Rightarrow> None
              | Some (f, t2) \<Rightarrow>
                  (case t2 of
                     c # cs \<Rightarrow>
                       if c = CHR ''e'' \<or> c = CHR ''E'' then
                         (let (sg, t3) = (case cs of
                                d # ds \<Rightarrow> if d = CHR ''+'' \<or> d = CHR ''-'' then ([d], ds) else ([], cs)
                              | [] \<Rightarrow> ([], cs));
                              (d, r) = span_digits t3
                          in if d = [] then None else Some (sign @ int_part @ f @ [c] @ sg @ d, r))
                       else Some (sign @ int_part @ f, t2)
                   | [] \<Rightarrow> Some (sign @ int_part @ f, [])))"

section \<open>Tokens\<close>

datatype token = TLBrace | TRBrace | TLBrack | TRBrack | TColon | TComma
  | TStr string | TNum string | TLit json

fun lex :: "nat \<Rightarrow> string \<Rightarrow> token list \<Rightarrow> token list option" where
  "lex 0 s acc = (if s = [] then Some (rev acc) else None)"
| "lex (Suc n) [] acc = Some (rev acc)"
| "lex (Suc n) (c # cs) acc =
     (if c = CHR 0x20 \<or> c = CHR 0x09 \<or> c = CHR 0x0A \<or> c = CHR 0x0D then lex n cs acc
      else if c = CHR 0x7B then lex n cs (TLBrace # acc)
      else if c = CHR 0x7D then lex n cs (TRBrace # acc)
      else if c = CHR 0x5B then lex n cs (TLBrack # acc)
      else if c = CHR 0x5D then lex n cs (TRBrack # acc)
      else if c = CHR '':'' then lex n cs (TColon # acc)
      else if c = CHR '','' then lex n cs (TComma # acc)
      else if c = CHR 0x22 then
        (case lex_string (Suc (length cs)) cs [] of
           None \<Rightarrow> None | Some (v, r) \<Rightarrow> lex n r (TStr v # acc))
      else if prefix ''true'' (c # cs) then lex n (drop 3 cs) (TLit (JBool True) # acc)
      else if prefix ''false'' (c # cs) then lex n (drop 4 cs) (TLit (JBool False) # acc)
      else if prefix ''null'' (c # cs) then lex n (drop 3 cs) (TLit JNull # acc)
      else (case lex_number (c # cs) of
              None \<Rightarrow> None | Some (v, r) \<Rightarrow> lex n r (TNum v # acc)))"

section \<open>The reader\<close>

datatype frame = FArr "json list" | FObj "(string \<times> json) list" string

datatype mode = NeedValue | NeedValueOrEnd | NeedKey | NeedKeyOrEnd | NeedColon | AfterValue

text \<open>A value is complete: put it into the innermost open array or object, or it is the document.\<close>

fun emit :: "json \<Rightarrow> frame list \<Rightarrow> frame list \<times> json option" where
  "emit v [] = ([], Some v)"
| "emit v (FArr vs # st) = (FArr (v # vs) # st, None)"
| "emit v (FObj kvs k # st) = (FObj ((k, v) # kvs) k # st, None)"

definition max_depth :: int where
  "max_depth = 10000"

definition put_value :: "json \<Rightarrow> frame list \<Rightarrow> (mode \<times> frame list \<times> json option) option" where
  "put_value v st = (case emit v st of (st', out) \<Rightarrow> Some (AfterValue, st', out))"

definition read_value :: "token \<Rightarrow> frame list \<Rightarrow> (mode \<times> frame list \<times> json option) option" where
  "read_value t st =
     (case t of
        TStr s \<Rightarrow> put_value (JStr s) st
      | TNum s \<Rightarrow> put_value (JNum s) st
      | TLit v \<Rightarrow> put_value v st
      | TLBrack \<Rightarrow> if int (length st) < max_depth then Some (NeedValueOrEnd, FArr [] # st, None) else None
      | TLBrace \<Rightarrow> if int (length st) < max_depth then Some (NeedKeyOrEnd, FObj [] [] # st, None) else None
      | _ \<Rightarrow> None)"

text \<open>One token: the next mode and stack, and the document if it is complete.\<close>

definition read_step :: "token \<Rightarrow> mode \<Rightarrow> frame list \<Rightarrow> (mode \<times> frame list \<times> json option) option" where
  "read_step t m st =
     (case m of
        NeedValue \<Rightarrow> read_value t st
      | NeedValueOrEnd \<Rightarrow>
          (case (t, st) of
             (TRBrack, FArr vs # st') \<Rightarrow> put_value (JArr (rev vs)) st'
           | _ \<Rightarrow> read_value t st)
      | NeedKeyOrEnd \<Rightarrow>
          (case (t, st) of
             (TRBrace, FObj kvs k # st') \<Rightarrow> put_value (JObj (rev kvs)) st'
           | (TStr s, FObj kvs k # st') \<Rightarrow> Some (NeedColon, FObj kvs s # st', None)
           | _ \<Rightarrow> None)
      | NeedKey \<Rightarrow>
          (case (t, st) of
             (TStr s, FObj kvs k # st') \<Rightarrow> Some (NeedColon, FObj kvs s # st', None)
           | _ \<Rightarrow> None)
      | NeedColon \<Rightarrow> if t = TColon then Some (NeedValue, st, None) else None
      | AfterValue \<Rightarrow>
          (case (t, st) of
             (TComma, FArr vs # st') \<Rightarrow> Some (NeedValue, st, None)
           | (TComma, FObj kvs k # st') \<Rightarrow> Some (NeedKey, st, None)
           | (TRBrack, FArr vs # st') \<Rightarrow> put_value (JArr (rev vs)) st'
           | (TRBrace, FObj kvs k # st') \<Rightarrow> put_value (JObj (rev kvs)) st'
           | _ \<Rightarrow> None))"

fun read_tokens :: "token list \<Rightarrow> mode \<Rightarrow> frame list \<Rightarrow> json option \<Rightarrow> json option" where
  "read_tokens [] m st out = (if st = [] \<and> m = AfterValue then out else None)"
| "read_tokens (t # ts) m st out =
     (case read_step t m st of
        None \<Rightarrow> None
      | Some (m', st', out') \<Rightarrow> read_tokens ts m' st' out')"

text \<open>The syntax check and the tree of \<open>json.Unmarshal\<close>; \<open>None\<close> is a syntax error.\<close>

definition json_parse :: "string \<Rightarrow> json option" where
  "json_parse s =
     (case lex (Suc (length s)) s [] of
        None \<Rightarrow> None
      | Some ts \<Rightarrow> read_tokens ts NeedValue [] None)"

section \<open>Decoding into Go types\<close>

text \<open>Into a \<open>string\<close> that holds \<open>old\<close>.\<close>

fun dec_string :: "string \<Rightarrow> json \<Rightarrow> string option" where
  "dec_string old JNull = Some old"
| "dec_string old (JStr s) = Some s"
| "dec_string old _ = None"

text \<open>Into a nil \<open>[]string\<close>.\<close>

fun dec_strings :: "json \<Rightarrow> string list option" where
  "dec_strings JNull = Some []"
| "dec_strings (JArr vs) = those (map (dec_string []) vs)"
| "dec_strings _ = None"

text \<open>Into a map: the object's members, the last of several equal keys.\<close>

fun dec_map :: "json \<Rightarrow> (string \<times> json) list option" where
  "dec_map JNull = Some []"
| "dec_map (JObj kvs) = Some (last_wins kvs)"
| "dec_map _ = None"

text \<open>The members of an object that decode into the struct field of this name, in order.\<close>

definition field_members :: "string \<Rightarrow> (string \<times> json) list \<Rightarrow> json list" where
  "field_members name kvs = map snd (filter (\<lambda>(k, _). EqualFold k name) kvs)"

end
