(* ===== verification/Go_Time.thy ===== *)
theory Go_Time
  imports Go_Numbers
begin

text \<open>
  The part of Go's \<open>time\<close> package the code calls. A \<open>time.Time\<close> in UTC is its instant: the number of
  nanoseconds since the Unix epoch, an unbounded integer (Go keeps 64 bits of seconds, which no
  date the code builds comes near). Calendar fields are those of the proleptic Gregorian calendar.
\<close>

type_synonym instant = int

definition ns_sec :: int where "ns_sec = 1000000000"
definition ns_min :: int where "ns_min = 60 * ns_sec"
definition ns_hour :: int where "ns_hour = 60 * ns_min"
definition ns_day :: int where "ns_day = 24 * ns_hour"

lemmas ns_defs [time_simps] = ns_sec_def ns_min_def ns_hour_def ns_day_def

section \<open>The calendar\<close>

text \<open>Days since 1970-01-01 of a date; the year is counted from March.\<close>

definition days_of_civil :: "int \<Rightarrow> int \<Rightarrow> int \<Rightarrow> int" where
  "days_of_civil y m d =
     (let y' = (if m \<le> 2 then y - 1 else y);
          yoe = y' mod 400;
          mp = (if m > 2 then m - 3 else m + 9);
          doy = (153 * mp + 2) div 5 + d - 1
      in y' div 400 * 146097 + (yoe * 365 + yoe div 4 - yoe div 100 + doy) - 719468)"

definition civil_of_days :: "int \<Rightarrow> int \<times> int \<times> int" where
  "civil_of_days n =
     (let z = n + 719468;
          doe = z mod 146097;
          yoe = (doe - doe div 1460 + doe div 36524 - doe div 146096) div 365;
          doy = doe - (365 * yoe + yoe div 4 - yoe div 100);
          mp = (5 * doy + 2) div 153;
          d = doy - (153 * mp + 2) div 5 + 1;
          m = (if mp < 10 then mp + 3 else mp - 9)
      in (yoe + z div 146097 * 400 + (if m \<le> 2 then 1 else 0), m, d))"

definition leap_year :: "int \<Rightarrow> bool" where
  "leap_year y \<longleftrightarrow> y mod 4 = 0 \<and> (y mod 100 \<noteq> 0 \<or> y mod 400 = 0)"

definition days_in :: "int \<Rightarrow> int \<Rightarrow> int" where
  "days_in y m =
     (if m = 2 then (if leap_year y then 29 else 28)
      else if m = 4 \<or> m = 6 \<or> m = 9 \<or> m = 11 then 30 else 31)"

definition valid_date :: "int \<Rightarrow> int \<Rightarrow> int \<Rightarrow> bool" where
  "valid_date y m d \<longleftrightarrow> 1 \<le> m \<and> m \<le> 12 \<and> 1 \<le> d \<and> d \<le> days_in y m"

definition day_number :: "instant \<Rightarrow> int" where "day_number t = t div ns_day"

definition Year :: "instant \<Rightarrow> int" where "Year t = fst (civil_of_days (day_number t))"
definition Month :: "instant \<Rightarrow> int" where "Month t = fst (snd (civil_of_days (day_number t)))"
definition Day :: "instant \<Rightarrow> int" where "Day t = snd (snd (civil_of_days (day_number t)))"
definition Hour :: "instant \<Rightarrow> int" where "Hour t = t mod ns_day div ns_hour"
definition Minute :: "instant \<Rightarrow> int" where "Minute t = t mod ns_hour div ns_min"
definition Second :: "instant \<Rightarrow> int" where "Second t = t mod ns_min div ns_sec"

text \<open>Sunday is 0, as \<open>time.Sunday\<close>; 1970-01-01 was a Thursday.\<close>

definition Weekday :: "instant \<Rightarrow> int" where
  "Weekday t = (day_number t + 4) mod 7"

text \<open>\<open>time.Date\<close> in UTC: months outside 1..12 and days outside the month carry over.\<close>

definition Date :: "int \<Rightarrow> int \<Rightarrow> int \<Rightarrow> int \<Rightarrow> int \<Rightarrow> int \<Rightarrow> int \<Rightarrow> instant" where
  "Date y m d h mi s ns =
     (days_of_civil (y + (m - 1) div 12) ((m - 1) mod 12 + 1) 1 + (d - 1)) * ns_day
       + h * ns_hour + mi * ns_min + s * ns_sec + ns"

definition AddDate :: "instant \<Rightarrow> int \<Rightarrow> int \<Rightarrow> int \<Rightarrow> instant" where
  "AddDate t y m d = Date (Year t + y) (Month t + m) (Day t + d) 0 0 0 (t mod ns_day)"

text \<open>\<open>t.Truncate(d)\<close> for a \<open>d\<close> that divides the day.\<close>

definition Truncate :: "instant \<Rightarrow> int \<Rightarrow> instant" where
  "Truncate t d = t - t mod d"

definition Unix :: "int \<Rightarrow> instant" where
  "Unix s = (wrap64 (s + 62135596800) - 62135596800) * ns_sec"

section \<open>Parsing\<close>

text \<open>
  \<open>time.Parse\<close> for the layouts in use: a date and time, with or without separators in the date and
  the time, and what follows the seconds: a zone offset (\<open>Z07:00\<close>), the letter Z, or nothing. The hour
  may have one digit, and a fraction of a second may follow the seconds even where the layout has
  none, as Go's parser allows.
\<close>

datatype zone_layout = ZoneOffset | LiteralZ | NoZone

fun digits_n :: "nat \<Rightarrow> string \<Rightarrow> int \<Rightarrow> (int \<times> string) option" where
  "digits_n 0 s acc = Some (acc, s)"
| "digits_n (Suc n) [] acc = None"
| "digits_n (Suc n) (c # cs) acc =
     (if is_digit c then digits_n n cs (acc * 10 + int (digit_val c)) else None)"

definition one_or_two :: "string \<Rightarrow> (int \<times> string) option" where
  "one_or_two s =
     (case s of
        a # b # r \<Rightarrow> if is_digit a \<and> is_digit b then digits_n 2 s 0 else digits_n 1 s 0
      | _ \<Rightarrow> digits_n 1 s 0)"

definition literal :: "string \<Rightarrow> string \<Rightarrow> string option" where
  "literal lit s = (if prefix lit s then Some (drop (length lit) s) else None)"

definition fraction :: "string \<Rightarrow> int \<times> string" where
  "fraction s =
     (case s of
        p # d # r \<Rightarrow>
          if (p = CHR ''.'' \<or> p = CHR '','') \<and> is_digit d then
            (let ds = takeWhile is_digit (d # r);
                 ns = take 9 (ds @ replicate 9 (CHR ''0''))
             in (fold (\<lambda>c acc. acc * 10 + int (digit_val c)) ns 0, drop (length ds) (d # r)))
          else (0, s)
      | _ \<Rightarrow> (0, s))"

text \<open>The offset in seconds east of UTC, and the rest.\<close>

definition zone_tail :: "zone_layout \<Rightarrow> string \<Rightarrow> (int \<times> string) option" where
  "zone_tail z s =
     (case z of
        NoZone \<Rightarrow> Some (0, s)
      | LiteralZ \<Rightarrow> map_option (Pair 0) (literal ''Z'' s)
      | ZoneOffset \<Rightarrow>
          (case s of
             [] \<Rightarrow> None
           | c # r \<Rightarrow>
               if c = CHR ''Z'' then Some (0, r)
               else if c = CHR ''+'' \<or> c = CHR ''-'' then
                 do { (hh, s1) \<leftarrow> digits_n 2 r 0;
                      s2 \<leftarrow> literal '':'' s1;
                      (mm, s3) \<leftarrow> digits_n 2 s2 0;
                      if hh \<le> 24 \<and> mm \<le> 60
                      then Some ((if c = CHR ''-'' then - 1 else 1) * (hh * 60 + mm) * 60, s3)
                      else None }
               else None))"

definition parse_time :: "string \<Rightarrow> string \<Rightarrow> zone_layout \<Rightarrow> string \<Rightarrow> instant option" where
  "parse_time dsep tsep z s =
     do { (y, s1) \<leftarrow> digits_n 4 s 0;
          s2 \<leftarrow> literal dsep s1;
          (mo, s3) \<leftarrow> digits_n 2 s2 0;
          s4 \<leftarrow> literal dsep s3;
          (d, s5) \<leftarrow> digits_n 2 s4 0;
          s6 \<leftarrow> literal ''T'' s5;
          (h, s7) \<leftarrow> one_or_two s6;
          s8 \<leftarrow> literal tsep s7;
          (mi, s9) \<leftarrow> digits_n 2 s8 0;
          s10 \<leftarrow> literal tsep s9;
          (sec, s11) \<leftarrow> digits_n 2 s10 0;
          let (ns, s12) = fraction s11 in
          do { (off, s13) \<leftarrow> zone_tail z s12;
               if s13 = [] \<and> valid_date y mo d \<and> h \<le> 23 \<and> mi \<le> 59 \<and> sec \<le> 59
               then Some (Date y mo d h mi sec ns - off * ns_sec)
               else None } }"

definition parse_RFC3339 :: "string \<Rightarrow> instant option" where
  "parse_RFC3339 = parse_time ''-'' '':'' ZoneOffset"

definition parse_local :: "string \<Rightarrow> instant option" where
  "parse_local = parse_time ''-'' '':'' NoZone"

definition parse_basic :: "string \<Rightarrow> instant option" where
  "parse_basic = parse_time '''' '''' LiteralZ"

section \<open>Printing\<close>

definition format_RFC3339 :: "instant \<Rightarrow> string" where
  "format_RFC3339 t =
     pad_nat 4 (nat (Year t)) @ ''-'' @ pad_nat 2 (nat (Month t)) @ ''-'' @ pad_nat 2 (nat (Day t)) @ ''T'' @
     pad_nat 2 (nat (Hour t)) @ '':'' @ pad_nat 2 (nat (Minute t)) @ '':'' @ pad_nat 2 (nat (Second t)) @ ''Z''"

section \<open>Facts of the calendar\<close>

lemma ns_pos [simp]: "0 < ns_sec" "0 < ns_min" "0 < ns_hour" "0 < ns_day"
  by (simp_all add: time_simps)

lemma Weekday_range: "0 \<le> Weekday t \<and> Weekday t \<le> 6"
proof -
  have "0 \<le> (day_number t + 4) mod 7" and "(day_number t + 4) mod 7 < 7" by simp_all
  then show ?thesis by (simp add: Weekday_def)
qed

lemma Hour_range: "0 \<le> Hour t \<and> Hour t \<le> 23"
proof -
  have "0 \<le> t mod ns_day" and "t mod ns_day < ns_day" by (simp_all add: ns_day_def)
  then show ?thesis by (auto simp: Hour_def time_simps)
qed

lemma Minute_range: "0 \<le> Minute t \<and> Minute t \<le> 59"
proof -
  have "0 \<le> t mod ns_hour" and "t mod ns_hour < ns_hour" by (simp_all add: ns_hour_def)
  then show ?thesis by (auto simp: Minute_def time_simps)
qed

text \<open>The position in the 400-year cycle: century, four-year group and year are recovered from the day.\<close>

lemma year_of_era:
  fixes a b c doy :: int
  assumes "0 \<le> a" "a \<le> 3" "0 \<le> b" "b \<le> 24" "0 \<le> c" "c \<le> 3" "0 \<le> doy"
    and leap: "doy \<le> 364 \<or> doy = 365 \<and> c = 3 \<and> (b \<le> 23 \<or> a = 3)"
  defines "doe \<equiv> 36524 * a + 1461 * b + 365 * c + doy"
  shows "(doe - doe div 1460 + doe div 36524 - doe div 146096) div 365 = 100 * a + 4 * b + c"
proof -
  let ?in = "1461 * b + 365 * c + doy"
  have d0: "doe div 36524 - doe div 146096 = a"
  proof (cases "?in \<le> 36523")
    case True
    then have "doe div 36524 = a" and "doe < 146096" and "0 \<le> doe" using assms by (auto simp: doe_def)
    then show ?thesis by simp
  next
    case False
    then have "doe = 146096" using assms by (auto simp: doe_def)
    with False assms show ?thesis by (auto simp: doe_def)
  qed
  define e where "e = doe div 1460 - (25 * a + b)"
  have split: "doe = 1460 * (25 * a + b) + (24 * a + b + 365 * c + doy)" by (simp add: doe_def)
  have e: "e = (24 * a + b + 365 * c + doy) div 1460"
    unfolding e_def split by simp
  have "0 \<le> doy - e \<and> doy - e \<le> 364"
  proof (cases "24 * a + b + 365 * c + doy < 1460")
    case True
    then have "e = 0" using assms(1-7) e by simp
    moreover have "doy \<le> 364" using True leap assms(1-7) by auto
    ultimately show ?thesis using assms(7) by simp
  next
    case False
    then have "e = 1" using assms e leap by auto
    moreover have "1 \<le> doy" using False assms(1-6) by auto
    ultimately show ?thesis using leap by auto
  qed
  then have "(36500 * a + 1460 * b + 365 * c + (doy - e)) div 365 = 100 * a + 4 * b + c"
    by (intro int_div_pos_eq [where r = "doy - e"]) auto
  moreover have "doe - doe div 1460 + doe div 36524 - doe div 146096 = 36500 * a + 1460 * b + 365 * c + (doy - e)"
    using d0 by (simp add: e_def doe_def)
  ultimately show ?thesis by simp
qed

lemma year_of_era':
  fixes y doy :: int
  assumes "0 \<le> y" "y < 400" "0 \<le> doy" "doy \<le> 364 \<or> doy = 365 \<and> leap_year (y + 1)"
  defines "doe \<equiv> 365 * y + y div 4 - y div 100 + doy"
  shows "(doe - doe div 1460 + doe div 36524 - doe div 146096) div 365 = y \<and> 0 \<le> doe \<and> doe < 146097"
proof -
  define a b c where "a = y div 100" and "b = y mod 100 div 4" and "c = y mod 100 mod 4"
  have y: "y = 100 * a + 4 * b + c" by (simp add: a_def b_def c_def)
  have r: "0 \<le> a" "a \<le> 3" "0 \<le> b" "b \<le> 24" "0 \<le> c" "c \<le> 3"
    using assms(1,2) by (auto simp: a_def b_def c_def)
  have "y div 4 = 25 * a + b" using r by (simp add: y)
  moreover have "y div 100 = a" by (simp add: a_def)
  ultimately have doe: "doe = 36524 * a + 1461 * b + 365 * c + doy"
    by (simp add: doe_def y)
  have leap: "doy \<le> 364 \<or> doy = 365 \<and> c = 3 \<and> (b \<le> 23 \<or> a = 3)"
  proof -
    have "100 * a + 4 * b + c + 1 = (c + 1) + 4 * (25 * a + b)" by simp
    then have m4: "(100 * a + 4 * b + c + 1) mod 4 = (c + 1) mod 4" by (metis mod_mult_self2)
    have cs: "c = 0 \<or> c = 1 \<or> c = 2 \<or> c = 3" and as: "a = 0 \<or> a = 1 \<or> a = 2 \<or> a = 3"
      using r by auto
    have "c = 3" if "leap_year (y + 1)"
    proof -
      have "(c + 1) mod 4 = 0" using that m4 by (simp add: leap_year_def y)
      with cs show ?thesis by auto
    qed
    moreover have "a = 3" if "leap_year (y + 1)" "c = 3" "b = 24"
    proof -
      have "(100 * a + 100) mod 400 = 0"
        using that by (auto simp add: leap_year_def y algebra_simps)
      with as show ?thesis by auto
    qed
    ultimately show ?thesis using assms(4) r by force
  qed
  have "doe < 146097" "0 \<le> doe" using r leap assms(3) by (auto simp: doe)
  with year_of_era [OF r assms(3) leap] show ?thesis by (simp add: doe y)
qed


definition march_month :: "int \<Rightarrow> int" where
  "march_month m = (if m > 2 then m - 3 else m + 9)"

definition march_doy :: "int \<Rightarrow> int \<Rightarrow> int" where
  "march_doy m d = (153 * march_month m + 2) div 5 + d - 1"

lemma month_cases:
  fixes m :: int
  assumes "1 \<le> m" "m \<le> 12"
  obtains "m = 1" | "m = 2" | "m = 3" | "m = 4" | "m = 5" | "m = 6" | "m = 7" | "m = 8" | "m = 9"
    | "m = 10" | "m = 11" | "m = 12"
  using assms by (atomize_elim; presburger)

lemma march_doy_month:
  assumes "valid_date y m d"
  shows "0 \<le> march_doy m d" and "(5 * march_doy m d + 2) div 153 = march_month m"
    and "march_doy m d \<le> 364 \<or> march_doy m d = 365 \<and> m = 2 \<and> leap_year y"
proof -
  have "1 \<le> m" "m \<le> 12" and d: "1 \<le> d" "d \<le> days_in y m" using assms by (auto simp: valid_date_def)
  then have "0 \<le> march_doy m d \<and> (5 * march_doy m d + 2) div 153 = march_month m \<and>
      (march_doy m d \<le> 364 \<or> march_doy m d = 365 \<and> m = 2 \<and> leap_year y)"
    by (cases rule: month_cases) (auto simp: march_doy_def march_month_def days_in_def split: if_splits)
  then show "0 \<le> march_doy m d" "(5 * march_doy m d + 2) div 153 = march_month m"
    "march_doy m d \<le> 364 \<or> march_doy m d = 365 \<and> m = 2 \<and> leap_year y" by auto
qed

lemma leap_year_mod: "leap_year (y mod 400 + 1) = leap_year (y + 1)"
proof -
  have k: "(y mod 400 + 1) mod k = (y + 1) mod k" if "k dvd 400" for k :: int
    using that by (metis mod_add_left_eq mod_mod_cancel)
  have "(4::int) dvd 400" "(100::int) dvd 400" "(400::int) dvd 400" by simp_all
  then show ?thesis by (simp only: leap_year_def k)
qed

text \<open>The calendar date of a day number and back.\<close>

lemma civil_of_days_of_civil:
  assumes v: "valid_date y m d"
  shows "civil_of_days (days_of_civil y m d) = (y, m, d)"
proof -
  let ?y = "if m \<le> 2 then y - 1 else y" and ?doy = "march_doy m d"
  define yoe era doe where "yoe = ?y mod 400" and "era = ?y div 400"
    and "doe = 365 * yoe + yoe div 4 - yoe div 100 + ?doy"
  note doy = march_doy_month [OF v]
  have "?doy \<le> 364 \<or> ?doy = 365 \<and> leap_year (yoe + 1)"
    unfolding yoe_def leap_year_mod using doy(3) by auto
  moreover have "0 \<le> yoe" "yoe < 400" by (simp_all add: yoe_def)
  ultimately have "(doe - doe div 1460 + doe div 36524 - doe div 146096) div 365 = yoe \<and> 0 \<le> doe \<and> doe < 146097"
    unfolding doe_def using doy(1) by (intro year_of_era')
  then have y: "(doe - doe div 1460 + doe div 36524 - doe div 146096) div 365 = yoe"
    and "0 \<le> doe" "doe < 146097" by auto
  have n: "days_of_civil y m d + 719468 = era * 146097 + doe"
    by (simp add: days_of_civil_def Let_def yoe_def era_def doe_def march_doy_def march_month_def)
  with \<open>0 \<le> doe\<close> \<open>doe < 146097\<close> have z: "(days_of_civil y m d + 719468) mod 146097 = doe" "(days_of_civil y m d + 719468) div 146097 = era"
    by simp_all
  have doy_eq: "doe - (365 * yoe + yoe div 4 - yoe div 100) = ?doy"
    by (simp add: doe_def)
  have yy: "yoe + era * 400 = ?y" by (simp add: yoe_def era_def)
  have m: "(if march_month m < 10 then march_month m + 3 else march_month m - 9) = m"
    using v by (auto simp: march_month_def valid_date_def)
  have d: "?doy - (153 * march_month m + 2) div 5 + 1 = d" by (simp add: march_doy_def)
  show ?thesis
    unfolding civil_of_days_def Let_def z y doy_eq doy(2) m d yy by simp
qed

lemma valid_date_month_start: "1 \<le> m \<Longrightarrow> m \<le> 12 \<Longrightarrow> valid_date y m 1"
  by (simp add: valid_date_def days_in_def)

lemma days_of_civil_shift: "days_of_civil y m d = days_of_civil y m 1 + (d - 1)"
  by (simp add: days_of_civil_def Let_def)

lemma day_number_Date:
  assumes "1 \<le> m" "m \<le> 12" "0 \<le> r" "r < ns_day" "r = h * ns_hour + mi * ns_min + s * ns_sec + ns"
  shows "day_number (Date y m d h mi s ns) = days_of_civil y m d"
proof -
  have "Date y m d h mi s ns = days_of_civil y m d * ns_day + r"
    using assms days_of_civil_shift [of y m d] by (simp add: Date_def)
  then show ?thesis using assms(3,4) by (simp add: day_number_def)
qed

text \<open>The fields of a date that is built at midnight.\<close>

lemma Date_fields:
  assumes "valid_date y m d"
  shows "Year (Date y m d 0 0 0 0) = y" "Month (Date y m d 0 0 0 0) = m" "Day (Date y m d 0 0 0 0) = d"
proof -
  have "day_number (Date y m d 0 0 0 0) = days_of_civil y m d"
    using assms by (intro day_number_Date [where r = 0]) (auto simp: valid_date_def)
  then show "Year (Date y m d 0 0 0 0) = y" "Month (Date y m d 0 0 0 0) = m" "Day (Date y m d 0 0 0 0) = d"
    using civil_of_days_of_civil [OF assms] by (simp_all add: Year_def Month_def Day_def)
qed

end
