(* ===== verification/Go_Net.thy ===== *)
theory Go_Net
  imports Go_Numbers
begin

text \<open>
  The address functions of Go's \<open>net\<close> package the code calls: \<open>ParseIP\<close>, \<open>ParseCIDR\<close>, \<open>IP.Equal\<close>,
  \<open>IPNet.Contains\<close>, \<open>IP.IsLoopback\<close>. An address is the list of its 16 bytes, an IPv4 address in its
  mapped form \<open>::ffff:a.b.c.d\<close>, as \<open>net.ParseIP\<close> returns it.
\<close>

type_synonym ip = "nat list"

definition v4_in_v6 :: ip where
  "v4_in_v6 = [0, 0, 0, 0, 0, 0, 0, 0, 0, 0, 255, 255]"

section \<open>Parsing addresses\<close>

definition octet :: "string \<Rightarrow> nat option" where
  "octet s =
     (if s = [] \<or> \<not> list_all is_digit s \<or> 1 < length s \<and> hd s = CHR ''0'' \<or> 3 < length s then None
      else (case parse_digits 10 s 0 of Some n \<Rightarrow> if n \<le> 255 then Some n else None | None \<Rightarrow> None))"

definition parse_ipv4 :: "string \<Rightarrow> nat list option" where
  "parse_ipv4 s =
     (let ps = Split s (CHR ''.'') in if length ps = 4 then those (map octet ps) else None)"

definition is_hex :: "char \<Rightarrow> bool" where
  "is_hex c \<longleftrightarrow> (case alnum_val c of Some d \<Rightarrow> d < 16 | None \<Rightarrow> False)"

text \<open>
  The groups of an IPv6 address: the bytes read so far, the position of the ellipsis. The first
  argument bounds the number of groups by eight, as \<open>for i < 16\<close> does.
\<close>

fun ipv6_groups :: "nat \<Rightarrow> string \<Rightarrow> nat list \<Rightarrow> nat option \<Rightarrow> (nat list \<times> nat option) option" where
  "ipv6_groups 0 s bs ell = (if s = [] then Some (bs, ell) else None)"
| "ipv6_groups (Suc n) s bs ell =
     (let ds = takeWhile is_hex s; rest = drop (length ds) s in
      if ds = [] \<or> 4 < length ds then None
      else if rest \<noteq> [] \<and> hd rest = CHR ''.'' then
        (if ell = None \<and> length bs \<noteq> 12 \<or> 12 < length bs then None
         else (case parse_ipv4 s of None \<Rightarrow> None | Some q \<Rightarrow> Some (bs @ q, ell)))
      else
        (case parse_digits 16 ds 0 of
           None \<Rightarrow> None
         | Some acc \<Rightarrow>
             let bs' = bs @ [acc div 256, acc mod 256] in
             if rest = [] then Some (bs', ell)
             else if hd rest \<noteq> CHR '':'' \<or> tl rest = [] then None
             else if hd (tl rest) = CHR '':'' then
               (if ell \<noteq> None then None
                else if tl (tl rest) = [] then Some (bs', Some (length bs'))
                else ipv6_groups n (tl (tl rest)) bs' (Some (length bs')))
             else ipv6_groups n (tl rest) bs' ell))"

definition parse_ipv6 :: "string \<Rightarrow> ip option" where
  "parse_ipv6 s =
     (if s = ''::'' then Some (replicate 16 0)
      else
        (case (if prefix ''::'' s then ipv6_groups 8 (drop 2 s) [] (Some 0) else ipv6_groups 8 s [] None) of
           None \<Rightarrow> None
         | Some (bs, ell) \<Rightarrow>
             if length bs < 16 then
               (case ell of
                  None \<Rightarrow> None
                | Some e \<Rightarrow> Some (take e bs @ replicate (16 - length bs) 0 @ drop e bs))
             else if ell \<noteq> None then None
             else Some bs))"

text \<open>
  \<open>netip.ParseAddr\<close> for an address without a zone: the first of \<open>.\<close> and \<open>:\<close> decides the family. With a
  zone \<open>ParseIP\<close> and \<open>ParseCIDR\<close> give no address. The result tells the family, which decides the
  number of bits of a network.
\<close>

definition parse_addr :: "string \<Rightarrow> (bool \<times> ip) option" where
  "parse_addr s =
     (if CHR ''%'' \<in> set s then None
      else (case filter (\<lambda>c. c = CHR ''.'' \<or> c = CHR '':'') s of
              [] \<Rightarrow> None
            | c # _ \<Rightarrow>
                if c = CHR ''.'' then map_option (\<lambda>q. (True, v4_in_v6 @ q)) (parse_ipv4 s)
                else map_option (\<lambda>a. (False, a)) (parse_ipv6 s)))"

definition ParseIP :: "string \<Rightarrow> ip option" where
  "ParseIP s = map_option snd (parse_addr s)"

definition To4 :: "ip \<Rightarrow> nat list option" where
  "To4 a = (if length a = 4 then Some a
            else if length a = 16 \<and> take 12 a = v4_in_v6 then Some (drop 12 a) else None)"

definition IsLoopback :: "ip \<Rightarrow> bool" where
  "IsLoopback a = (case To4 a of Some q \<Rightarrow> hd q = 127 | None \<Rightarrow> a = replicate 15 0 @ [1])"

definition IsUnspecified :: "ip \<Rightarrow> bool" where
  "IsUnspecified a \<longleftrightarrow> a = v4_in_v6 @ [0, 0, 0, 0] \<or> a = replicate 16 0"

section \<open>Networks\<close>

text \<open>A network: its masked address (4 or 16 bytes) and the length of its mask.\<close>

type_synonym ipnet = "nat list \<times> nat"

fun mask_bytes :: "nat \<Rightarrow> nat list \<Rightarrow> nat list" where
  "mask_bytes n [] = []"
| "mask_bytes n (b # bs) =
     (if 8 \<le> n then b # mask_bytes (n - 8) bs
      else b div 2 ^ (8 - n) * 2 ^ (8 - n) # map (\<lambda>_. 0) bs)"

definition ParseCIDR :: "string \<Rightarrow> ipnet option" where
  "ParseCIDR s =
     (let (addr, mask, found) = Cut s (CHR ''/'') in
      if \<not> found then None
      else (case parse_addr addr of
              None \<Rightarrow> None
            | Some (is4, a) \<Rightarrow>
                if mask = [] \<or> \<not> list_all is_digit mask then None
                else (case parse_digits 10 mask 0 of
                        None \<Rightarrow> None
                      | Some n \<Rightarrow>
                          if is4 then (if n \<le> 32 then Some (mask_bytes n (drop 12 a), n) else None)
                          else if n \<le> 128 then Some (mask_bytes n a, n) else None)))"

text \<open>
  \<open>IPNet.Contains\<close>. A 16-byte network whose masked address is IPv4-mapped compares the last four
  bytes, under the last four bytes of its mask.
\<close>

definition net_contains :: "ipnet \<Rightarrow> ip \<Rightarrow> bool" where
  "net_contains net a =
     (let (nn, n) = (case To4 (fst net) of
              Some q \<Rightarrow> (q, if length (fst net) = 16 then snd net - 96 else snd net)
            | None \<Rightarrow> net);
          x = (case To4 a of Some q \<Rightarrow> q | None \<Rightarrow> a)
      in length x = length nn \<and> mask_bytes n nn = mask_bytes n x)"

lemma mask_bytes_length [simp]: "length (mask_bytes n bs) = length bs"
  by (induction n bs rule: mask_bytes.induct) auto

lemma mask_bytes_idem [simp]: "mask_bytes n (mask_bytes n bs) = mask_bytes n bs"
  by (induction n bs rule: mask_bytes.induct) (auto simp: comp_def)

end
