(* ===== verification/Go_Float.thy ===== *)
theory Go_Float
  imports Go_Numbers
begin

text \<open>
  Go's \<open>float64\<close> as far as the code uses it: \<open>strconv.ParseFloat(s, 64)\<close> and the comparisons. A value
  is an exact rational that a binary64 number can hold, an infinity or not-a-number; the sign of a zero
  is dropped, as no comparison sees it.
\<close>

datatype float64 = Finite rat | PosInf | NegInf | NotANumber

section \<open>Rounding to binary64, to nearest, ties to even\<close>

definition pow2 :: "int \<Rightarrow> rat" where
  "pow2 k = (if 0 \<le> k then 2 ^ nat k else 1 / 2 ^ nat (- k))"

definition round_half_even :: "rat \<Rightarrow> int" where
  "round_half_even q =
     (let f = \<lfloor>q\<rfloor>; r = q - of_int f
      in if r < 1 / 2 then f else if 1 / 2 < r then f + 1 else if even f then f else f + 1)"

text \<open>The exponent of the last mantissa bit of a positive rational.\<close>

definition ulp_exponent :: "rat \<Rightarrow> int" where
  "ulp_exponent q =
     (let (a, b) = quotient_of q;
          k = int (floorlog 2 (nat a)) - int (floorlog 2 (nat b)) - 53;
          k' = (if q / pow2 k \<ge> 2 ^ 53 then k + 1 else k)
      in max k' (- 1074))"

definition round_pos :: "rat \<Rightarrow> rat" where
  "round_pos q =
     (if q = 0 then 0
      else (let k = ulp_exponent q in of_int (round_half_even (q / pow2 k)) * pow2 k))"

text \<open>\<open>None\<close>: the magnitude is out of range (\<open>ErrRange\<close>).\<close>

definition round_f64 :: "bool \<Rightarrow> rat \<Rightarrow> float64 option" where
  "round_f64 neg q =
     (let r = round_pos q
      in if r \<ge> 2 ^ 1024 then None else Some (Finite (if neg then - r else r)))"

section \<open>ParseFloat\<close>

definition lower_is :: "char \<Rightarrow> char \<Rightarrow> bool" where
  "lower_is c d \<longleftrightarrow> char_lower c = d"

fun strip_prefix_fold :: "string \<Rightarrow> string \<Rightarrow> bool" where
  "strip_prefix_fold [] [] = True"
| "strip_prefix_fold (p # ps) (c # cs) = (char_lower c = p \<and> strip_prefix_fold ps cs)"
| "strip_prefix_fold _ _ = False"

definition special_float :: "string \<Rightarrow> float64 option" where
  "special_float s =
     (let (neg, t) = (case s of
            c # cs \<Rightarrow> if c = CHR ''+'' then (False, cs) else if c = CHR ''-'' then (True, cs) else (False, s)
          | [] \<Rightarrow> (False, s));
          inf = (if neg then NegInf else PosInf)
      in if strip_prefix_fold ''inf'' t \<or> strip_prefix_fold ''infinity'' t then Some inf
         else if strip_prefix_fold ''nan'' s then Some NotANumber else None)"

record mantissa =
  m_val :: nat
  m_frac :: nat
  m_dot :: bool
  m_digits :: bool
  m_under :: bool

text \<open>The mantissa loop of \<open>readFloat\<close>: digits, at most one point, underscores skipped.\<close>

fun read_mantissa :: "nat \<Rightarrow> string \<Rightarrow> mantissa \<Rightarrow> mantissa \<times> string" where
  "read_mantissa base [] m = (m, [])"
| "read_mantissa base (c # cs) m =
     (if c = CHR ''_'' then read_mantissa base cs (m\<lparr>m_under := True\<rparr>)
      else if c = CHR ''.'' then
        (if m_dot m then (m, c # cs) else read_mantissa base cs (m\<lparr>m_dot := True\<rparr>))
      else case alnum_val c of
             None \<Rightarrow> (m, c # cs)
           | Some d \<Rightarrow>
               if d < base then
                 read_mantissa base cs (m\<lparr>m_val := m_val m * base + d,
                   m_frac := (if m_dot m then Suc (m_frac m) else m_frac m), m_digits := True\<rparr>)
               else (m, c # cs))"

text \<open>The exponent digits; the value stops growing at five digits, as in the source of \<open>readFloat\<close>.\<close>

fun read_exp_digits :: "string \<Rightarrow> nat \<Rightarrow> bool \<Rightarrow> nat \<times> bool \<times> string" where
  "read_exp_digits [] e u = (e, u, [])"
| "read_exp_digits (c # cs) e u =
     (if c = CHR ''_'' then read_exp_digits cs e True
      else if is_digit c then read_exp_digits cs (if e < 10000 then e * 10 + digit_val c else e) u
      else (e, u, c # cs))"

text \<open>Where underscores may stand.\<close>

datatype under_state = UStart | UDigit | UUnder | UOther

fun under_ok :: "bool \<Rightarrow> string \<Rightarrow> under_state \<Rightarrow> bool" where
  "under_ok hex [] st = (st \<noteq> UUnder)"
| "under_ok hex (c # cs) st =
     (if is_digit c \<or> hex \<and> (case alnum_val c of None \<Rightarrow> False | Some d \<Rightarrow> d < 16)
      then under_ok hex cs UDigit
      else if c = CHR ''_'' then (if st = UDigit then under_ok hex cs UUnder else False)
      else if st = UUnder then False
      else under_ok hex cs UOther)"

definition underscoreOK :: "string \<Rightarrow> bool" where
  "underscoreOK s =
     (let t = (case s of c # cs \<Rightarrow> if c = CHR ''+'' \<or> c = CHR ''-'' then cs else s | [] \<Rightarrow> s)
      in case t of
           a # b # cs \<Rightarrow>
             if a = CHR ''0'' \<and> (lower_is b (CHR ''b'') \<or> lower_is b (CHR ''o'') \<or> lower_is b (CHR ''x''))
             then under_ok (lower_is b (CHR ''x'')) cs UDigit
             else under_ok False t UStart
         | _ \<Rightarrow> under_ok False t UStart)"

definition read_float :: "string \<Rightarrow> float64 option" where
  "read_float s =
     (let (neg, t) = (case s of
            c # cs \<Rightarrow> if c = CHR ''+'' then (False, cs) else if c = CHR ''-'' then (True, cs) else (False, s)
          | [] \<Rightarrow> (False, s));
          hex = (case t of a # b # _ # _ \<Rightarrow> a = CHR ''0'' \<and> lower_is b (CHR ''x'') | _ \<Rightarrow> False);
          base = (if hex then 16 else 10);
          (m, rest) = read_mantissa base (if hex then drop 2 t else t)
            \<lparr>m_val = 0, m_frac = 0, m_dot = False, m_digits = False, m_under = False\<rparr>
      in if \<not> m_digits m then None
         else
           let expo = (case rest of
                 [] \<Rightarrow> if hex then None else Some (0, m_under m)
               | c # cs \<Rightarrow>
                   if lower_is c (if hex then CHR ''p'' else CHR ''e'') then
                     (let (eneg, ds) = (case cs of
                            d # ds' \<Rightarrow> if d = CHR ''+'' then (False, ds')
                                       else if d = CHR ''-'' then (True, ds') else (False, cs)
                          | [] \<Rightarrow> (False, cs))
                      in case ds of
                           [] \<Rightarrow> None
                         | d # _ \<Rightarrow>
                             if is_digit d then
                               (let (e, u, r) = read_exp_digits ds 0 (m_under m)
                                in if r = [] then Some ((if eneg then - int e else int e), u) else None)
                             else None)
                   else None)
           in case expo of
                None \<Rightarrow> None
              | Some (e, u) \<Rightarrow>
                  if u \<and> \<not> underscoreOK s then None
                  else if hex then round_f64 neg (of_nat (m_val m) * pow2 (e - 4 * int (m_frac m)))
                  else (let x = e - int (m_frac m)
                        in round_f64 neg (if 0 \<le> x then of_nat (m_val m) * 10 ^ nat x
                                          else of_nat (m_val m) / 10 ^ nat (- x))))"

definition ParseFloat :: "string \<Rightarrow> float64 option" where
  "ParseFloat s = (case special_float s of Some f \<Rightarrow> Some f | None \<Rightarrow> read_float s)"

section \<open>Comparison\<close>

fun f_eq :: "float64 \<Rightarrow> float64 \<Rightarrow> bool" where
  "f_eq (Finite a) (Finite b) = (a = b)"
| "f_eq PosInf PosInf = True"
| "f_eq NegInf NegInf = True"
| "f_eq _ _ = False"

fun f_less :: "float64 \<Rightarrow> float64 \<Rightarrow> bool" where
  "f_less (Finite a) (Finite b) = (a < b)"
| "f_less (Finite a) PosInf = True"
| "f_less NegInf (Finite b) = True"
| "f_less NegInf PosInf = True"
| "f_less _ _ = False"

definition f_le :: "float64 \<Rightarrow> float64 \<Rightarrow> bool" where
  "f_le a b \<longleftrightarrow> f_less a b \<or> f_eq a b"

lemma f_less_irrefl: "\<not> f_less a a"
  by (cases a) auto

lemma f_less_not_eq: "f_less a b \<Longrightarrow> \<not> f_eq a b"
  by (induction a b rule: f_less.induct) auto

end
