(* ===== verification/Condition.thy ===== *)
theory Condition
  imports Condition_Keys Glob Go_Json Go_Time Go_Net Go_Float
begin

text \<open>
  \<open>internal/kernel/authz/condition.go\<close>: the Condition element of a policy statement, and
  \<open>stringOrSlice\<close> of \<open>policy.go\<close>, in which it is decoded. A Condition is the tree its raw JSON is read into
  (\<open>None\<close> where the statement has none). The request's condition keys are a map.

  Go iterates over the operators and keys of a Condition in no fixed order; here the order is the
  document's. \<open>conditionApplies_perm\<close> below shows what does not depend on it.
\<close>

type_synonym cond_keys = "string \<rightharpoonup> string"

datatype conditionOutcome = condMatch | condNoMatch | condCatalogUnknown

section \<open>Decoding\<close>

fun dec_stringOrSlice :: "json \<Rightarrow> string list option" where
  "dec_stringOrSlice JNull = Some [[]]"
| "dec_stringOrSlice (JStr s) = Some [s]"
| "dec_stringOrSlice (JArr vs) = those (map (dec_string []) vs)"
| "dec_stringOrSlice _ = None"

fun dec_kv :: "json \<Rightarrow> (string \<times> string list) list option" where
  "dec_kv JNull = Some []"
| "dec_kv (JObj kvs) =
     map_option last_wins (those (map (\<lambda>(k, v). map_option (Pair k) (dec_stringOrSlice v)) kvs))"
| "dec_kv _ = None"

section \<open>Operators\<close>

definition numeric_operators :: "string list" where
  "numeric_operators =
     [''NumericEquals'', ''NumericNotEquals'', ''NumericLessThan'', ''NumericLessThanEquals'',
      ''NumericGreaterThan'', ''NumericGreaterThanEquals'']"

definition date_operators :: "string list" where
  "date_operators =
     [''DateEquals'', ''DateNotEquals'', ''DateLessThan'', ''DateLessThanEquals'',
      ''DateGreaterThan'', ''DateGreaterThanEquals'']"

definition plain_operators :: "string list" where
  "plain_operators =
     [''StringEquals'', ''StringLike'', ''StringNotLike'', ''ArnLike'', ''ArnEquals'', ''ArnNotEquals'',
      ''ArnNotLike'', ''StringNotEquals'', ''StringEqualsIfExists'', ''StringLikeIfExists'',
      ''StringNotEqualsIfExists'', ''StringNotLikeIfExists'', ''Null'', ''Bool'', ''BoolIfExists'',
      ''IpAddress'', ''IpAddressIfExists'', ''NotIpAddress'', ''NotIpAddressIfExists'']
     @ numeric_operators @ date_operators"

definition if_exists_bases :: "string list" where
  "if_exists_bases =
     numeric_operators @ date_operators @ [''ArnEquals'', ''ArnLike'', ''ArnNotEquals'', ''ArnNotLike'']"

lemmas operator_lists = numeric_operators_def date_operators_def plain_operators_def if_exists_bases_def

definition knownConditionOperator :: "string \<Rightarrow> bool" where
  "knownConditionOperator op \<longleftrightarrow>
     op \<in> set plain_operators \<or>
     (HasSuffix op ''IfExists'' \<and> TrimSuffix op ''IfExists'' \<in> set if_exists_bases)"

definition setOperatorBaseAllowed :: "string \<Rightarrow> bool" where
  "setOperatorBaseAllowed op \<longleftrightarrow>
     op \<in> {''StringEquals'', ''StringLike'', ''StringNotEquals'', ''StringNotLike'',
           ''ArnEquals'', ''ArnLike'', ''ArnNotEquals'', ''ArnNotLike''}"

text \<open>The base operator and the set qualifier, which is empty where there is none.\<close>

definition parseConditionOperator :: "string \<Rightarrow> (string \<times> string) option" where
  "parseConditionOperator op0 =
     (let op = TrimSpace op0;
          (baseOp, setQual) =
            (if HasPrefix op ''ForAnyValue:'' then (TrimPrefix op ''ForAnyValue:'', ''ForAnyValue'')
             else if HasPrefix op ''ForAllValues:'' then (TrimPrefix op ''ForAllValues:'', ''ForAllValues'')
             else (op, []))
      in if \<not> knownConditionOperator baseOp then None
         else if setQual \<noteq> [] \<and> \<not> setOperatorBaseAllowed baseOp then None
         else Some (baseOp, setQual))"

section \<open>Comparing values\<close>

definition conditionValuesMatch :: "string \<Rightarrow> string \<Rightarrow> string list \<Rightarrow> bool option" where
  "conditionValuesMatch op actual expected =
     any_opt (\<lambda>want.
       if op = ''StringEquals'' then Some (actual = want)
       else if op = ''StringLike'' then stringLikeMatch want actual
       else Some False) expected"

definition boolValuesMatch :: "string \<Rightarrow> string list \<Rightarrow> bool" where
  "boolValuesMatch actual expected =
     (let a = ToLower (TrimSpace actual) in
      if a \<noteq> ''true'' \<and> a \<noteq> ''false'' then False
      else list_ex (\<lambda>want. a = ToLower (TrimSpace want)) expected)"

definition ipAddressMatch :: "string \<Rightarrow> string list \<Rightarrow> bool" where
  "ipAddressMatch actual expected =
     (case ParseIP (TrimSpace actual) of
        None \<Rightarrow> False
      | Some ip \<Rightarrow>
          list_ex (\<lambda>want0.
            let want = TrimSpace want0 in
            if want = [] then False
            else if Contains want ''/'' then
              (case ParseCIDR want of None \<Rightarrow> False | Some network \<Rightarrow> net_contains network ip)
            else (case ParseIP want of None \<Rightarrow> False | Some other \<Rightarrow> ip = other)) expected)"

text \<open>
  The comparison loops return whether any expected value could be read, and whether one compared
  as the operator asks; they stop at the first that does.
\<close>

fun compare_loop :: "(string \<Rightarrow> 'a option) \<Rightarrow> ('a \<Rightarrow> bool) \<Rightarrow> string list \<Rightarrow> bool \<Rightarrow> bool \<times> bool" where
  "compare_loop parse test [] ok = (ok, False)"
| "compare_loop parse test (want # wants) ok =
     (case parse want of
        None \<Rightarrow> compare_loop parse test wants ok
      | Some wv \<Rightarrow> if test wv then (True, True) else compare_loop parse test wants True)"

definition numeric_test :: "string \<Rightarrow> float64 \<Rightarrow> float64 \<Rightarrow> bool" where
  "numeric_test op av wv =
     (if op = ''NumericEquals'' \<or> op = ''NumericNotEquals'' then f_eq av wv
      else if op = ''NumericLessThan'' then f_less av wv
      else if op = ''NumericLessThanEquals'' then f_le av wv
      else if op = ''NumericGreaterThan'' then f_less wv av
      else if op = ''NumericGreaterThanEquals'' then f_le wv av
      else False)"

definition numericCompare :: "string \<Rightarrow> string list \<Rightarrow> string \<Rightarrow> bool \<times> bool" where
  "numericCompare actual expected op =
     (case ParseFloat (TrimSpace actual) of
        None \<Rightarrow> (False, False)
      | Some av \<Rightarrow> compare_loop (\<lambda>want. ParseFloat (TrimSpace want)) (numeric_test op av) expected False)"

definition parseConditionTime :: "string \<Rightarrow> instant option" where
  "parseConditionTime raw0 =
     (let raw = TrimSpace raw0 in
      if raw = [] then None
      else (case ParseInt 10 raw of
              Some unix \<Rightarrow> Some (Unix unix)
            | None \<Rightarrow>
                (case parse_RFC3339 raw of
                   Some t \<Rightarrow> Some t
                 | None \<Rightarrow>
                     (case parse_time ''-'' '':'' LiteralZ raw of
                        Some t \<Rightarrow> Some t
                      | None \<Rightarrow> parse_local raw))))"

definition date_test :: "string \<Rightarrow> instant \<Rightarrow> instant \<Rightarrow> bool" where
  "date_test op t wt =
     (if op = ''DateEquals'' \<or> op = ''DateNotEquals'' then t = wt
      else if op = ''DateLessThan'' then t < wt
      else if op = ''DateLessThanEquals'' then \<not> wt < t
      else if op = ''DateGreaterThan'' then wt < t
      else if op = ''DateGreaterThanEquals'' then \<not> t < wt
      else False)"

definition dateCompare :: "string \<Rightarrow> string list \<Rightarrow> string \<Rightarrow> bool \<times> bool" where
  "dateCompare actual expected op =
     (case parseConditionTime actual of
        None \<Rightarrow> (False, False)
      | Some t \<Rightarrow> compare_loop parseConditionTime (date_test op t) expected False)"

section \<open>Operators on a value\<close>

definition nullMatch :: "bool \<Rightarrow> string list \<Rightarrow> bool" where
  "nullMatch present expected =
     list_all (\<lambda>want.
       let w = ToLower want in
       if w = ''true'' then \<not> present else if w = ''false'' then present else False) expected"

text \<open>Whether the operator holds, and whether it is an operator at all.\<close>

definition operatorMatches :: "string \<Rightarrow> string \<Rightarrow> bool \<Rightarrow> string list \<Rightarrow> (bool \<times> bool) option" where
  "operatorMatches op0 actual present expected =
     (let ifExists = HasSuffix op0 ''IfExists'';
          op = (if ifExists then TrimSuffix op0 ''IfExists'' else op0)
      in if op = ''StringEquals'' \<or> op = ''ArnEquals'' then
           (if \<not> present then Some (ifExists, True)
            else do { m \<leftarrow> conditionValuesMatch ''StringEquals'' actual expected; Some (m, True) })
         else if op = ''StringLike'' \<or> op = ''ArnLike'' then
           (if \<not> present then Some (ifExists, True)
            else do { m \<leftarrow> conditionValuesMatch ''StringLike'' actual expected; Some (m, True) })
         else if op = ''StringNotEquals'' \<or> op = ''ArnNotEquals'' then
           (if \<not> present then Some (True, True)
            else do { m \<leftarrow> conditionValuesMatch ''StringEquals'' actual expected; Some (\<not> m, True) })
         else if op = ''StringNotLike'' \<or> op = ''ArnNotLike'' then
           (if \<not> present then Some (True, True)
            else do { m \<leftarrow> conditionValuesMatch ''StringLike'' actual expected; Some (\<not> m, True) })
         else if op = ''Null'' then Some (nullMatch present expected, True)
         else if op = ''Bool'' then
           Some (if \<not> present then ifExists else boolValuesMatch actual expected, True)
         else if op = ''IpAddress'' then
           Some (if \<not> present then ifExists else ipAddressMatch actual expected, True)
         else if op = ''NotIpAddress'' then
           Some (if \<not> present then True else \<not> ipAddressMatch actual expected, True)
         else if op \<in> set numeric_operators then
           Some (if \<not> present then ifExists
                 else (let (ok, cmp) = numericCompare actual expected op in
                       if op = ''NumericNotEquals'' then ok \<and> \<not> cmp else ok \<and> cmp), True)
         else if op \<in> set date_operators then
           Some (if \<not> present then ifExists
                 else (let (ok, cmp) = dateCompare actual expected op in
                       if op = ''DateNotEquals'' then ok \<and> \<not> cmp else ok \<and> cmp), True)
         else Some (False, False))"

definition setOperatorMatches :: "string \<Rightarrow> string \<Rightarrow> string \<Rightarrow> bool \<Rightarrow> string list \<Rightarrow> bool option" where
  "setOperatorMatches setQual baseOp actual present expected =
     (if \<not> present then Some (setQual = ''ForAllValues'')
      else if setQual = ''ForAnyValue'' then
        any_opt (\<lambda>rv. do { (matched, known) \<leftarrow> operatorMatches baseOp rv True expected;
                          Some (known \<and> matched) }) [actual]
      else if setQual = ''ForAllValues'' then
        map_option Not
          (any_opt (\<lambda>rv. do { (matched, known) \<leftarrow> operatorMatches baseOp rv True expected;
                            Some (\<not> known \<or> \<not> matched) }) [actual])
      else Some False)"

section \<open>The Condition element\<close>

text \<open>The loops over a Condition return at the first outcome that is not a match.\<close>

fun cond_loop :: "('a \<Rightarrow> conditionOutcome option) \<Rightarrow> 'a list \<Rightarrow> conditionOutcome option" where
  "cond_loop f [] = Some condMatch"
| "cond_loop f (x # xs) =
     do { o' \<leftarrow> f x; if o' = condMatch then cond_loop f xs else Some o' }"

definition key_outcome ::
  "string \<Rightarrow> string \<Rightarrow> cond_keys \<Rightarrow> string \<times> string list \<Rightarrow> conditionOutcome option"
where
  "key_outcome baseOp setQual keys kv =
     (case kv of (key, expected) \<Rightarrow>
        do { known_key \<leftarrow> Known key;
             if \<not> known_key then Some condCatalogUnknown
             else
               let actual = (case keys key of Some v \<Rightarrow> v | None \<Rightarrow> []); present = keys key \<noteq> None in
               if setQual \<noteq> [] then
                 do { m \<leftarrow> setOperatorMatches setQual baseOp actual present expected;
                      Some (if m then condMatch else condNoMatch) }
               else
                 do { (matched, known) \<leftarrow> operatorMatches baseOp actual present expected;
                      Some (if \<not> known then condCatalogUnknown
                            else if \<not> matched then condNoMatch else condMatch) } })"

definition op_outcome :: "cond_keys \<Rightarrow> string \<times> json \<Rightarrow> conditionOutcome option" where
  "op_outcome keys entry =
     (case entry of (op, payload) \<Rightarrow>
        (case parseConditionOperator op of
           None \<Rightarrow> Some condCatalogUnknown
         | Some (baseOp, setQual) \<Rightarrow>
             (case dec_kv payload of
                None \<Rightarrow> Some condNoMatch
              | Some kv \<Rightarrow> cond_loop (key_outcome baseOp setQual keys) kv)))"

definition conditionApplies :: "json option \<Rightarrow> cond_keys \<Rightarrow> conditionOutcome option" where
  "conditionApplies raw keys =
     (case raw of
        None \<Rightarrow> Some condMatch
      | Some j \<Rightarrow>
          if j = JNull then Some condMatch
          else (case dec_map j of
                  None \<Rightarrow> Some condNoMatch
                | Some block \<Rightarrow> cond_loop (op_outcome keys) block))"

definition op_unknown :: "string \<times> json \<Rightarrow> bool option" where
  "op_unknown entry =
     (case entry of (op, payload) \<Rightarrow>
        (case parseConditionOperator op of
           None \<Rightarrow> Some True
         | Some _ \<Rightarrow>
             (case dec_kv payload of
                None \<Rightarrow> Some False
              | Some kv \<Rightarrow> any_opt (\<lambda>(key, _). map_option Not (Known key)) kv)))"

definition conditionCatalogUnknown :: "json option \<Rightarrow> bool option" where
  "conditionCatalogUnknown raw =
     (case raw of
        None \<Rightarrow> Some False
      | Some j \<Rightarrow>
          if j = JNull then Some False
          else (case dec_map j of
                  None \<Rightarrow> Some False
                | Some block \<Rightarrow> any_opt op_unknown block))"


section \<open>Every operator that is parsed is known to the matcher\<close>

definition base_operators :: "string list" where
  "base_operators =
     [''StringEquals'', ''ArnEquals'', ''StringLike'', ''ArnLike'', ''StringNotEquals'', ''ArnNotEquals'',
      ''StringNotLike'', ''ArnNotLike'', ''Null'', ''Bool'', ''IpAddress'', ''NotIpAddress'']
     @ numeric_operators @ date_operators"

definition strip_if_exists :: "string \<Rightarrow> string" where
  "strip_if_exists op = (if HasSuffix op ''IfExists'' then TrimSuffix op ''IfExists'' else op)"

lemma strip_known:
  assumes "knownConditionOperator op"
  shows "strip_if_exists op \<in> set base_operators"
proof -
  have "list_all (\<lambda>op. strip_if_exists op \<in> set base_operators) plain_operators"
    by (simp add: operator_lists strip_if_exists_def base_operators_def TrimSuffix_def HasSuffix_def suffix_to_prefix)
  moreover have "set if_exists_bases \<subseteq> set base_operators"
    by (auto simp: operator_lists base_operators_def)
  ultimately show ?thesis
    using assms by (auto simp: knownConditionOperator_def list_all_iff strip_if_exists_def)
qed

lemma operatorMatches_known:
  assumes "knownConditionOperator op" and "operatorMatches op actual present expected = Some (m, k)"
  shows "k"
proof -
  have "strip_if_exists op \<in> set base_operators" using assms(1) by (rule strip_known)
  then have base: "strip_if_exists op \<in> {''StringEquals'', ''ArnEquals'', ''StringLike'', ''ArnLike'',
      ''StringNotEquals'', ''ArnNotEquals'', ''StringNotLike'', ''ArnNotLike'', ''Null'', ''Bool'',
      ''IpAddress'', ''NotIpAddress''} \<union> set numeric_operators \<union> set date_operators"
    by (auto simp: base_operators_def)
  show ?thesis
    using assms(2) base unfolding operatorMatches_def Let_def strip_if_exists_def [symmetric]
    by (auto simp del: list.inject split: if_splits Option.bind_splits)
qed

section \<open>Outcomes\<close>

lemma cond_loop_match: "cond_loop f xs = Some condMatch \<longleftrightarrow> (\<forall>x\<in>set xs. f x = Some condMatch)"
  by (induction xs) (auto split: Option.bind_splits)

lemma cond_loop_found:
  "cond_loop f xs = Some o' \<Longrightarrow> o' \<noteq> condMatch \<Longrightarrow> \<exists>x\<in>set xs. f x = Some o'"
  by (induction xs) (auto split: Option.bind_splits if_splits)

lemma parse_known:
  "parseConditionOperator op = Some (baseOp, setQual) \<Longrightarrow> knownConditionOperator baseOp"
  by (auto simp: parseConditionOperator_def Let_def split: if_splits)

lemma key_outcome_unknown:
  assumes "knownConditionOperator baseOp"
    and "key_outcome baseOp setQual keys (key, expected) = Some condCatalogUnknown"
  shows "Known key = Some False"
  using assms
  by (auto simp: key_outcome_def Let_def dest!: operatorMatches_known split: Option.bind_splits if_splits)

lemma op_outcome_unknown:
  assumes "op_outcome keys entry = Some condCatalogUnknown"
  shows "op_unknown entry \<noteq> Some False"
proof -
  obtain op payload where e: "entry = (op, payload)" by (cases entry)
  show ?thesis
  proof (cases "parseConditionOperator op")
    case None
    with e show ?thesis by (simp add: op_unknown_def)
  next
    case (Some q)
    then obtain b sq where q: "parseConditionOperator op = Some (b, sq)" by (cases q) auto
    with assms e obtain kv where kv: "dec_kv payload = Some kv"
      and "cond_loop (key_outcome b sq keys) kv = Some condCatalogUnknown"
      by (auto simp: op_outcome_def split: option.splits)
    then obtain key expected where "(key, expected) \<in> set kv"
      and "key_outcome b sq keys (key, expected) = Some condCatalogUnknown"
      using cond_loop_found by fastforce
    then have "Known key = Some False"
      using key_outcome_unknown [OF parse_known [OF q]] by blast
    with \<open>(key, expected) \<in> set kv\<close> have "any_opt (\<lambda>(key, _). map_option Not (Known key)) kv \<noteq> Some False"
      by (force simp: any_opt_Some_False)
    with e q kv show ?thesis by (simp add: op_unknown_def)
  qed
qed

text \<open>After the catalog check, a Condition either matches or does not.\<close>

lemma conditionApplies_not_unknown:
  assumes "conditionCatalogUnknown raw = Some False"
  shows "conditionApplies raw keys \<noteq> Some condCatalogUnknown"
proof
  assume un: "conditionApplies raw keys = Some condCatalogUnknown"
  then obtain j block where j: "raw = Some j" "j \<noteq> JNull" "dec_map j = Some block"
    and "cond_loop (op_outcome keys) block = Some condCatalogUnknown"
    by (auto simp: conditionApplies_def split: option.splits if_splits)
  then obtain entry where "entry \<in> set block" "op_outcome keys entry = Some condCatalogUnknown"
    using cond_loop_found by fastforce
  then have "op_unknown entry \<noteq> Some False" by (intro op_outcome_unknown)
  with \<open>entry \<in> set block\<close> j assms show False
    by (auto simp: conditionCatalogUnknown_def any_opt_Some_False)
qed

text \<open>Two orders of the operators that both give an answer give the same one.\<close>

lemma cond_loop_order:
  assumes "set xs = set ys"
    and "\<And>x. x \<in> set xs \<Longrightarrow> f x \<noteq> Some condCatalogUnknown"
    and "cond_loop f xs = Some r" "cond_loop f ys = Some r'"
  shows "r = r'"
proof (cases "\<forall>x\<in>set xs. f x = Some condMatch")
  case True
  then have "cond_loop f xs = Some condMatch" "cond_loop f ys = Some condMatch"
    using assms(1) by (auto simp: cond_loop_match)
  with assms(3,4) show ?thesis by simp
next
  case False
  then have "r \<noteq> condMatch" "r' \<noteq> condMatch"
    using assms(1,3,4) by (auto simp: cond_loop_match)
  then have "r \<noteq> condCatalogUnknown" "r' \<noteq> condCatalogUnknown"
    using cond_loop_found [OF assms(3)] cond_loop_found [OF assms(4)] assms(1,2) by auto
  with \<open>r \<noteq> condMatch\<close> \<open>r' \<noteq> condMatch\<close> show ?thesis
    by (metis conditionOutcome.exhaust)
qed

lemma conditionApplies_order:
  assumes "distinct (map fst ops)" "mset ops' = mset ops"
    and "conditionCatalogUnknown (Some (JObj ops)) = Some False"
    and "conditionApplies (Some (JObj ops)) keys = Some r" "conditionApplies (Some (JObj ops')) keys = Some r'"
  shows "r = r'"
proof -
  have d: "distinct (map fst ops')"
    using assms(1,2) by (metis mset_eq_imp_distinct_iff mset_map)
  have "set ops = set ops'" using assms(2) by (metis set_mset_mset)
  moreover have "op_outcome keys e \<noteq> Some condCatalogUnknown" if "e \<in> set ops" for e
  proof
    assume "op_outcome keys e = Some condCatalogUnknown"
    then have "op_unknown e \<noteq> Some False" by (rule op_outcome_unknown)
    with that assms(1,3) show False
      by (auto simp: conditionCatalogUnknown_def last_wins_id any_opt_Some_False)
  qed
  ultimately show ?thesis
    using assms(1,4,5) d
    by (intro cond_loop_order [of ops ops' "op_outcome keys"])
      (auto simp: conditionApplies_def last_wins_id)
qed

text \<open>
  A key the request does not have: the plain positive operators fail, the negated string operators
  and those with \<open>IfExists\<close> hold.
\<close>

definition positive_operators :: "string list" where
  "positive_operators =
     [''StringEquals'', ''ArnEquals'', ''StringLike'', ''ArnLike'', ''Bool'', ''IpAddress'']
     @ numeric_operators @ date_operators"

lemma missing_key_positive:
  assumes "op \<in> set positive_operators"
  shows "operatorMatches op actual False expected = Some (False, True)"
    and "operatorMatches (op @ ''IfExists'') actual False expected = Some (True, True)"
proof -
  have "list_all (\<lambda>op. operatorMatches op actual False expected = Some (False, True)) positive_operators"
    by (simp add: positive_operators_def operator_lists operatorMatches_def HasSuffix_def TrimSuffix_def
        suffix_to_prefix)
  then show "operatorMatches op actual False expected = Some (False, True)"
    using assms by (simp add: list_all_iff)
  have "list_all (\<lambda>op. operatorMatches (op @ ''IfExists'') actual False expected = Some (True, True))
      positive_operators"
    by (simp add: positive_operators_def operator_lists operatorMatches_def HasSuffix_def TrimSuffix_def
        suffix_to_prefix)
  then show "operatorMatches (op @ ''IfExists'') actual False expected = Some (True, True)"
    using assms by (simp add: list_all_iff)
qed

end
