(* ===== verification/Identity.thy ===== *)
theory Identity
  imports Go_Strings
begin

text \<open>
  \<open>internal/kernel/identity/principal.go\<close>: the verified IAM principal, its constructors and its ARN.
  Go's \<open>Kind\<close> is a string type with five constants; \<open>KindUnset\<close> is its zero value.
\<close>

datatype kind = KindUnset | KindRoot | KindUser | KindRole | KindFederated | KindAnonymous

record principal =
  p_kind :: kind
  AccountID :: string
  p_AccessKeyID :: string
  IsRoot :: bool
  p_UserName :: string
  RoleName :: string
  SessionName :: string
  FederatedProviderARN :: string

definition zero_principal :: principal where
  "zero_principal = \<lparr>p_kind = KindUnset, AccountID = [], p_AccessKeyID = [], IsRoot = False,
     p_UserName = [], RoleName = [], SessionName = [], FederatedProviderARN = []\<rparr>"

section \<open>Constructors\<close>

definition AnonymousPrincipal :: "string \<Rightarrow> principal" where
  "AnonymousPrincipal acct = zero_principal\<lparr>p_kind := KindAnonymous, AccountID := acct\<rparr>"

definition RootPrincipal :: "string \<Rightarrow> string \<Rightarrow> principal" where
  "RootPrincipal acct akid =
     zero_principal\<lparr>p_kind := KindRoot, AccountID := acct, p_AccessKeyID := akid, IsRoot := True\<rparr>"

definition UserPrincipal :: "string \<Rightarrow> string \<Rightarrow> string \<Rightarrow> principal" where
  "UserPrincipal acct user akid =
     zero_principal\<lparr>p_kind := KindUser, AccountID := acct, p_AccessKeyID := akid, p_UserName := user\<rparr>"

definition FederatedUserPrincipal :: "string \<Rightarrow> string \<Rightarrow> string \<Rightarrow> principal" where
  "FederatedUserPrincipal acct name akid =
     zero_principal\<lparr>p_kind := KindFederated, AccountID := acct, p_AccessKeyID := akid, SessionName := name\<rparr>"

definition FederatedProviderPrincipal :: "string \<Rightarrow> string \<Rightarrow> string \<Rightarrow> string \<Rightarrow> principal" where
  "FederatedProviderPrincipal acct provider session akid =
     zero_principal\<lparr>p_kind := KindFederated, AccountID := acct, p_AccessKeyID := akid,
       SessionName := (if session = [] then ''federated'' else session),
       FederatedProviderARN := provider\<rparr>"

definition RoleSessionPrincipal :: "string \<Rightarrow> string \<Rightarrow> string \<Rightarrow> string \<Rightarrow> principal" where
  "RoleSessionPrincipal acct role session akid =
     zero_principal\<lparr>p_kind := KindRole, AccountID := acct, p_AccessKeyID := akid,
       RoleName := role, SessionName := session\<rparr>"

section \<open>The ARN\<close>

definition ARN :: "principal \<Rightarrow> string" where
  "ARN p =
     (if p_kind p = KindAnonymous then []
      else if IsRoot p \<or> p_kind p = KindRoot then ''arn:aws:iam::'' @ AccountID p @ '':root''
      else if p_kind p = KindUser \<and> p_UserName p \<noteq> [] then
        ''arn:aws:iam::'' @ AccountID p @ '':user/'' @ p_UserName p
      else if p_kind p = KindFederated \<and> SessionName p \<noteq> [] then
        ''arn:aws:sts::'' @ AccountID p @ '':federated-user/'' @ SessionName p
      else if p_kind p = KindRole \<and> RoleName p \<noteq> [] then
        (if SessionName p \<noteq> [] then
           ''arn:aws:sts::'' @ AccountID p @ '':assumed-role/'' @ RoleName p @ ''/'' @ SessionName p
         else ''arn:aws:iam::'' @ AccountID p @ '':role/'' @ RoleName p)
      else [])"

lemmas principal_defs = zero_principal_def AnonymousPrincipal_def RootPrincipal_def UserPrincipal_def
  FederatedUserPrincipal_def FederatedProviderPrincipal_def RoleSessionPrincipal_def

lemma anonymous_ARN [simp]: "ARN (AnonymousPrincipal a) = []"
  by (simp add: ARN_def principal_defs)

lemma anonymous_fields [simp]:
  "p_kind (AnonymousPrincipal a) = KindAnonymous" "AccountID (AnonymousPrincipal a) = a"
  "\<not> IsRoot (AnonymousPrincipal a)" "FederatedProviderARN (AnonymousPrincipal a) = []"
  by (simp_all add: principal_defs)

end
