(* ===== verification/Policy.thy ===== *)
theory Policy
  imports Condition Identity
begin

text \<open>
  \<open>internal/kernel/authz/policy.go\<close>: policy documents, how they are decoded from JSON, and when one
  statement matches a request. The globs are in \<open>Glob\<close>, the Condition element in \<open>Condition\<close>.

  Decoding follows \<open>encoding/json\<close>: member names match struct fields up to case, a null leaves a
  field as it is, a repeated member is decoded over what the earlier one left, and any type mismatch
  is an error for the whole document (\<open>None\<close>).
\<close>

section \<open>Documents\<close>

record principalSpec =
  ps_All :: bool
  ps_AWS :: "string list"
  ps_Service :: "string list"
  ps_Federated :: "string list"

record statement =
  st_Effect :: string
  st_Action :: "string list"
  st_Resource :: "string list"
  st_Principal :: "principalSpec option"
  st_Condition :: "json option"

record policyDocument =
  pd_Version :: string
  pd_Statement :: "statement list"

definition zero_principalSpec :: principalSpec where
  "zero_principalSpec = \<lparr>ps_All = False, ps_AWS = [], ps_Service = [], ps_Federated = []\<rparr>"

definition zero_statement :: statement where
  "zero_statement = \<lparr>st_Effect = [], st_Action = [], st_Resource = [], st_Principal = None, st_Condition = None\<rparr>"

text \<open>
  \<open>principalSpec.UnmarshalJSON\<close>: the members are taken as raw JSON first, so the last of several
  equal ones counts, and a null one leaves the list as it was.
\<close>

definition dec_spec_field :: "string \<Rightarrow> (string \<times> json) list \<Rightarrow> string list \<Rightarrow> string list option" where
  "dec_spec_field name kvs old =
     (case rev (field_members name kvs) of
        [] \<Rightarrow> Some old
      | v # _ \<Rightarrow> if v = JNull then Some old else dec_stringOrSlice v)"

fun dec_principalSpec :: "principalSpec \<Rightarrow> json \<Rightarrow> principalSpec option" where
  "dec_principalSpec p (JStr star) = (if star = ''*'' then Some (p\<lparr>ps_All := True\<rparr>) else None)"
| "dec_principalSpec p (JObj kvs) =
     do { aws \<leftarrow> dec_spec_field ''AWS'' kvs (ps_AWS p);
          svc \<leftarrow> dec_spec_field ''Service'' kvs (ps_Service p);
          fed \<leftarrow> dec_spec_field ''Federated'' kvs (ps_Federated p);
          Some (p\<lparr>ps_AWS := aws, ps_Service := svc, ps_Federated := fed\<rparr>) }"
| "dec_principalSpec p _ = None"

text \<open>Into the field of type \<open>*principalSpec\<close>: null makes it nil, anything else fills what it points to.\<close>

definition dec_principal_ptr :: "principalSpec option \<Rightarrow> json \<Rightarrow> principalSpec option option" where
  "dec_principal_ptr old v =
     (if v = JNull then Some None
      else map_option Some
        (dec_principalSpec (case old of Some p \<Rightarrow> p | None \<Rightarrow> zero_principalSpec) v))"

definition dec_statement_field :: "statement \<Rightarrow> string \<times> json \<Rightarrow> statement option" where
  "dec_statement_field st kv =
     (case kv of (k, v) \<Rightarrow>
        if EqualFold k ''Effect'' then map_option (\<lambda>s. st\<lparr>st_Effect := s\<rparr>) (dec_string (st_Effect st) v)
        else if EqualFold k ''Action'' then map_option (\<lambda>a. st\<lparr>st_Action := a\<rparr>) (dec_stringOrSlice v)
        else if EqualFold k ''Resource'' then map_option (\<lambda>r. st\<lparr>st_Resource := r\<rparr>) (dec_stringOrSlice v)
        else if EqualFold k ''Principal'' then
          map_option (\<lambda>p. st\<lparr>st_Principal := p\<rparr>) (dec_principal_ptr (st_Principal st) v)
        else if EqualFold k ''Condition'' then Some (st\<lparr>st_Condition := Some v\<rparr>)
        else Some st)"

fun fold_opt :: "('s \<Rightarrow> 'a \<Rightarrow> 's option) \<Rightarrow> 's \<Rightarrow> 'a list \<Rightarrow> 's option" where
  "fold_opt f s [] = Some s"
| "fold_opt f s (x # xs) = do { s' \<leftarrow> f s x; fold_opt f s' xs }"

fun dec_statement :: "statement \<Rightarrow> json \<Rightarrow> statement option" where
  "dec_statement st JNull = Some st"
| "dec_statement st (JObj kvs) = fold_opt dec_statement_field st kvs"
| "dec_statement st _ = None"

text \<open>
  Into \<open>[]statement\<close>. A second \<open>Statement\<close> member is decoded over the elements of the first, which
  stay in the slice's backing array also where the slice got shorter.
\<close>

fun dec_over :: "statement list \<Rightarrow> json list \<Rightarrow> statement list option" where
  "dec_over backing [] = Some backing"
| "dec_over [] (v # vs) = do { s \<leftarrow> dec_statement zero_statement v; ss \<leftarrow> dec_over [] vs; Some (s # ss) }"
| "dec_over (b # bs) (v # vs) = do { s \<leftarrow> dec_statement b v; ss \<leftarrow> dec_over bs vs; Some (s # ss) }"

fun dec_statements :: "statement list \<Rightarrow> json \<Rightarrow> (statement list \<times> nat) option" where
  "dec_statements backing JNull = Some ([], 0)"
| "dec_statements backing (JArr []) = Some ([], 0)"
| "dec_statements backing (JArr (v # vs)) =
     map_option (\<lambda>b. (b, length (v # vs))) (dec_over backing (v # vs))"
| "dec_statements backing _ = None"

definition dec_doc_field ::
  "string \<times> statement list \<times> nat \<Rightarrow> string \<times> json \<Rightarrow> (string \<times> statement list \<times> nat) option"
where
  "dec_doc_field d kv =
     (case (d, kv) of ((version, backing, n), (k, v)) \<Rightarrow>
        if EqualFold k ''Version'' then map_option (\<lambda>s. (s, backing, n)) (dec_string version v)
        else if EqualFold k ''Statement'' then map_option (\<lambda>(b, m). (version, b, m)) (dec_statements backing v)
        else Some d)"

fun dec_doc :: "json \<Rightarrow> policyDocument option" where
  "dec_doc JNull = Some \<lparr>pd_Version = [], pd_Statement = []\<rparr>"
| "dec_doc (JObj kvs) =
     map_option (\<lambda>(version, backing, n). \<lparr>pd_Version = version, pd_Statement = take n backing\<rparr>)
       (fold_opt dec_doc_field ([], [], 0) kvs)"
| "dec_doc _ = None"

definition parsePolicyDocument :: "string \<Rightarrow> policyDocument option" where
  "parsePolicyDocument raw = (case json_parse raw of None \<Rightarrow> None | Some j \<Rightarrow> dec_doc j)"

datatype policy_error = MalformedDocument | NoStatement | PrincipalRequired nat

fun first_without_principal :: "nat \<Rightarrow> statement list \<Rightarrow> nat option" where
  "first_without_principal i [] = None"
| "first_without_principal i (st # sts) =
     (if st_Principal st = None then Some i else first_without_principal (Suc i) sts)"

definition ValidateResourcePolicyDocument :: "string \<Rightarrow> (policy_error, unit) result" where
  "ValidateResourcePolicyDocument raw =
     (case parsePolicyDocument raw of
        None \<Rightarrow> Inl MalformedDocument
      | Some doc \<Rightarrow>
          if pd_Statement doc = [] then Inl NoStatement
          else (case first_without_principal 0 (pd_Statement doc) of
                  Some i \<Rightarrow> Inl (PrincipalRequired i)
                | None \<Rightarrow> Inr ()))"

section \<open>Requests\<close>

record RequestContext =
  rc_Principal :: principal
  rc_Action :: string
  rc_Resource :: string
  rc_Region :: string
  rc_ConditionKeys :: cond_keys

section \<open>Principals\<close>

definition isAWSAccountID :: "string \<Rightarrow> bool" where
  "isAWSAccountID s \<longleftrightarrow> length s = 12 \<and> list_all is_digit s"

definition accountRootARN :: "string \<Rightarrow> string option" where
  "accountRootARN s =
     (let pre = ''arn:aws:iam::''; suf = '':root'' in
      if \<not> HasPrefix s pre \<or> \<not> HasSuffix s suf then None
      else (let ident = TrimSuffix (TrimPrefix s pre) suf in
            if ident = [] \<or> Contains ident '':'' then None else Some ident))"

definition awsAccountPrincipal :: "string \<Rightarrow> string \<Rightarrow> bool" where
  "awsAccountPrincipal p callerAccountID \<longleftrightarrow>
     (isAWSAccountID p \<and> p = callerAccountID) \<or> accountRootARN p = Some callerAccountID"

fun aws_loop :: "string list \<Rightarrow> string \<Rightarrow> principal \<Rightarrow> bool \<Rightarrow> bool" where
  "aws_loop [] callerARN caller delegateAccount = False"
| "aws_loop (p # ps) callerARN caller delegateAccount =
     (if p = ''*'' then True
      else if p = callerARN \<and> callerARN \<noteq> [] then True
      else if \<not> awsAccountPrincipal p (AccountID caller) then aws_loop ps callerARN caller delegateAccount
      else if p_kind caller = KindAnonymous then aws_loop ps callerARN caller delegateAccount
      else if delegateAccount then True
      else if IsRoot caller \<or> p_kind caller = KindRoot then True
      else aws_loop ps callerARN caller delegateAccount)"

definition matchPrincipal :: "principalSpec \<Rightarrow> principal \<Rightarrow> bool \<Rightarrow> bool" where
  "matchPrincipal spec caller delegateAccount =
     (if ps_All spec then True
      else if list_ex (\<lambda>p. p = ''*'' \<or>
                (FederatedProviderARN caller \<noteq> [] \<and> p = FederatedProviderARN caller)) (ps_Federated spec)
      then True
      else if FederatedProviderARN caller \<noteq> [] \<or> (p_kind caller = KindFederated \<and> ps_Federated spec \<noteq> [])
      then False
      else aws_loop (ps_AWS spec) (ARN caller) caller delegateAccount)"

definition principalMatches :: "principalSpec \<Rightarrow> principal \<Rightarrow> bool" where
  "principalMatches spec caller = matchPrincipal spec caller False"

definition principalMatchesDelegatedAccount :: "principalSpec \<Rightarrow> principal \<Rightarrow> bool" where
  "principalMatchesDelegatedAccount spec caller = matchPrincipal spec caller True"

section \<open>Statements\<close>

definition effect_known :: "statement \<Rightarrow> bool" where
  "effect_known st \<longleftrightarrow> EqualFold (st_Effect st) ''Allow'' \<or> EqualFold (st_Effect st) ''Deny''"

text \<open>The two results of the matchers: whether the statement matches, and whether a key or operator is unknown.\<close>

definition outcome_pair :: "conditionOutcome \<Rightarrow> bool \<times> bool" where
  "outcome_pair o' = (case o' of condMatch \<Rightarrow> (True, False) | condCatalogUnknown \<Rightarrow> (False, True)
                       | condNoMatch \<Rightarrow> (False, False))"

definition resourceStatementBodyMatches :: "statement \<Rightarrow> RequestContext \<Rightarrow> cond_keys \<Rightarrow> (bool \<times> bool) option" where
  "resourceStatementBodyMatches st ctx keys =
     do { a \<leftarrow> actionsMatch (st_Action st) (rc_Action ctx);
          if \<not> a then Some (False, False)
          else do { r \<leftarrow> resourcesMatch (st_Resource st) (rc_Resource ctx);
                    if \<not> r then Some (False, False)
                    else map_option outcome_pair (conditionApplies (st_Condition st) keys) } }"

definition statementMatches :: "statement \<Rightarrow> RequestContext \<Rightarrow> (bool \<times> bool) option" where
  "statementMatches st ctx =
     do { u \<leftarrow> conditionCatalogUnknown (st_Condition st);
          if u then Some (False, True)
          else if \<not> effect_known st then Some (False, False)
          else if st_Principal st \<noteq> None \<and> \<not> principalMatches (the (st_Principal st)) (rc_Principal ctx)
          then Some (False, False)
          else do { a \<leftarrow> actionsMatch (st_Action st) (rc_Action ctx);
                    if \<not> a then Some (False, False)
                    else do { r \<leftarrow> resourcesMatch (st_Resource st) (rc_Resource ctx);
                              if \<not> r then Some (False, False)
                              else map_option outcome_pair
                                (conditionApplies (st_Condition st) (rc_ConditionKeys ctx)) } } }"

definition resourceStatementMatches :: "statement \<Rightarrow> RequestContext \<Rightarrow> (bool \<times> bool) option" where
  "resourceStatementMatches st ctx =
     do { u \<leftarrow> conditionCatalogUnknown (st_Condition st);
          if u then Some (False, True)
          else if \<not> effect_known st then Some (False, False)
          else if st_Principal st = None \<or> \<not> principalMatches (the (st_Principal st)) (rc_Principal ctx)
          then Some (False, False)
          else resourceStatementBodyMatches st ctx (rc_ConditionKeys ctx) }"

definition resourceStatementMatchesDelegated :: "statement \<Rightarrow> RequestContext \<Rightarrow> (bool \<times> bool) option" where
  "resourceStatementMatchesDelegated st ctx =
     do { u \<leftarrow> conditionCatalogUnknown (st_Condition st);
          if u then Some (False, True)
          else if \<not> effect_known st then Some (False, False)
          else if st_Principal st = None \<or>
                  \<not> principalMatchesDelegatedAccount (the (st_Principal st)) (rc_Principal ctx)
          then Some (False, False)
          else resourceStatementBodyMatches st ctx (rc_ConditionKeys ctx) }"

definition trustStatementMatches :: "statement \<Rightarrow> RequestContext \<Rightarrow> (bool \<times> bool) option" where
  "trustStatementMatches st ctx =
     do { u \<leftarrow> conditionCatalogUnknown (st_Condition st);
          if u then Some (False, True)
          else if \<not> effect_known st then Some (False, False)
          else if st_Principal st = None \<or>
                  \<not> principalMatchesDelegatedAccount (the (st_Principal st)) (rc_Principal ctx)
          then Some (False, False)
          else do { a \<leftarrow> actionsMatch (st_Action st) (rc_Action ctx);
                    if \<not> a then Some (False, False)
                    else do { r \<leftarrow> (if st_Resource st \<noteq> [] then resourcesMatch (st_Resource st) (rc_Resource ctx)
                                    else Some True);
                              if \<not> r then Some (False, False)
                              else map_option outcome_pair
                                (conditionApplies (st_Condition st) (rc_ConditionKeys ctx)) } } }"

end
