(* ===== verification/Samples.thy ===== *)
theory Samples
  imports Policy
begin

text \<open>
  Policy documents the theorems are applied to, as the text a client sends, and what each is decoded
  into.
\<close>

definition doc_allow_all :: string where
  "doc_allow_all = ''{\"Version\":\"2012-10-17\",\"Statement\":[{\"Effect\":\"Allow\",\"Action\":\"*\",\"Resource\":\"*\"}]}''"

lemma parse_doc_allow_all:
  "parsePolicyDocument doc_allow_all = Some \<lparr>pd_Version = ''2012-10-17'', pd_Statement =
   [\<lparr>st_Effect = ''Allow'', st_Action = [''*''], st_Resource = [''*''], st_Principal = None, st_Condition = None\<rparr>]\<rparr>"
  by code_simp

definition doc_deny_s3 :: string where
  "doc_deny_s3 = ''{\"Version\":\"2012-10-17\",\"Statement\":[{\"Effect\":\"Deny\",\"Action\":\"s3:*\",\"Resource\":\"*\"}]}''"

lemma parse_doc_deny_s3:
  "parsePolicyDocument doc_deny_s3 = Some \<lparr>pd_Version = ''2012-10-17'', pd_Statement =
   [\<lparr>st_Effect = ''Deny'', st_Action = [''s3:*''], st_Resource = [''*''], st_Principal = None, st_Condition = None\<rparr>]\<rparr>"
  by code_simp

definition doc_allow_objects :: string where
  "doc_allow_objects = ''{\"Version\":\"2012-10-17\",\"Statement\":[{\"Effect\":\"Allow\",\"Action\":\"s3:*Object\",\"Resource\":\"*\"}]}''"

lemma parse_doc_allow_objects:
  "parsePolicyDocument doc_allow_objects = Some \<lparr>pd_Version = ''2012-10-17'', pd_Statement =
   [\<lparr>st_Effect = ''Allow'', st_Action = [''s3:*Object''], st_Resource = [''*''], st_Principal = None, st_Condition = None\<rparr>]\<rparr>"
  by code_simp

definition doc_deny_typo :: string where
  "doc_deny_typo = ''{\"Version\":\"2012-10-17\",\"Statement\":[{\"Effect\":\"Deny\",\"Action\":\"ec2:*\",\"Resource\":\"*\",\"Condition\":{\"StringEqual\":{\"aws:SourceIp\":\"x\"}}}]}''"

lemma parse_doc_deny_typo:
  "parsePolicyDocument doc_deny_typo = Some \<lparr>pd_Version = ''2012-10-17'', pd_Statement =
   [\<lparr>st_Effect = ''Deny'', st_Action = [''ec2:*''], st_Resource = [''*''], st_Principal = None,
     st_Condition = Some (JObj [(''StringEqual'', JObj [(''aws:SourceIp'', JStr ''x'')])])\<rparr>]\<rparr>"
  by code_simp

definition doc_account_root :: string where
  "doc_account_root = ''{\"Version\":\"2012-10-17\",\"Statement\":[{\"Effect\":\"Allow\",\"Principal\":{\"AWS\":\"123456789012\"},\"Action\":\"*\",\"Resource\":\"*\"}]}''"

lemma parse_doc_account_root:
  "parsePolicyDocument doc_account_root = Some \<lparr>pd_Version = ''2012-10-17'', pd_Statement =
   [\<lparr>st_Effect = ''Allow'', st_Action = [''*''], st_Resource = [''*''],
     st_Principal = Some \<lparr>ps_All = False, ps_AWS = [''123456789012''], ps_Service = [], ps_Federated = []\<rparr>,
     st_Condition = None\<rparr>]\<rparr>"
  by code_simp

definition doc_trust_lambda :: string where
  "doc_trust_lambda = ''{\"Version\":\"2012-10-17\",\"Statement\":[{\"Effect\":\"Allow\",\"Principal\":{\"Service\":\"lambda.amazonaws.com\"},\"Action\":\"sts:AssumeRole\"}]}''"

lemma parse_doc_trust_lambda:
  "parsePolicyDocument doc_trust_lambda = Some \<lparr>pd_Version = ''2012-10-17'', pd_Statement =
   [\<lparr>st_Effect = ''Allow'', st_Action = [''sts:AssumeRole''], st_Resource = [],
     st_Principal = Some \<lparr>ps_All = False, ps_AWS = [], ps_Service = [''lambda.amazonaws.com''], ps_Federated = []\<rparr>,
     st_Condition = None\<rparr>]\<rparr>"
  by code_simp

definition doc_deny_all_public :: string where
  "doc_deny_all_public = ''{\"Version\":\"2012-10-17\",\"Statement\":[{\"Effect\":\"Deny\",\"Principal\":\"*\",\"Action\":\"*\",\"Resource\":\"*\"}]}''"

lemma parse_doc_deny_all_public:
  "parsePolicyDocument doc_deny_all_public = Some \<lparr>pd_Version = ''2012-10-17'', pd_Statement =
   [\<lparr>st_Effect = ''Deny'', st_Action = [''*''], st_Resource = [''*''],
     st_Principal = Some \<lparr>ps_All = True, ps_AWS = [], ps_Service = [], ps_Federated = []\<rparr>,
     st_Condition = None\<rparr>]\<rparr>"
  by code_simp

definition doc_trust_typo :: string where
  "doc_trust_typo = ''{\"Version\":\"2012-10-17\",\"Statement\":[{\"Effect\":\"Allow\",\"Principal\":\"*\",\"Action\":\"sts:AssumeRole\"},{\"Effect\":\"Deny\",\"Principal\":\"*\",\"Action\":\"sts:AssumeRole\",\"Condition\":{\"StringEqual\":{\"aws:SourceAccount\":\"1\"}}}]}''"

lemma parse_doc_trust_typo:
  "parsePolicyDocument doc_trust_typo = Some \<lparr>pd_Version = ''2012-10-17'', pd_Statement =
   [\<lparr>st_Effect = ''Allow'', st_Action = [''sts:AssumeRole''], st_Resource = [],
     st_Principal = Some \<lparr>ps_All = True, ps_AWS = [], ps_Service = [], ps_Federated = []\<rparr>, st_Condition = None\<rparr>,
    \<lparr>st_Effect = ''Deny'', st_Action = [''sts:AssumeRole''], st_Resource = [],
     st_Principal = Some \<lparr>ps_All = True, ps_AWS = [], ps_Service = [], ps_Federated = []\<rparr>,
     st_Condition = Some (JObj [(''StringEqual'', JObj [(''aws:SourceAccount'', JStr ''1'')])])\<rparr>]\<rparr>"
  by code_simp

lemma doc_trust_typo_nonempty [simp]: "doc_trust_typo \<noteq> []"
  by (simp add: doc_trust_typo_def)

lemmas parse_samples = parse_doc_allow_all parse_doc_deny_s3 parse_doc_allow_objects parse_doc_deny_typo parse_doc_account_root parse_doc_trust_lambda parse_doc_deny_all_public parse_doc_trust_typo

end
