(* ===== verification/Authz.thy ===== *)
theory Authz
  imports Policy
begin

text \<open>
  The evaluation of policies: \<open>internal/kernel/authz/eval.go\<close>, \<open>eval_full.go\<close>, \<open>eval_orgs.go\<close>,
  \<open>eval_cross_account.go\<close>, \<open>eval_resource_xa.go\<close>, \<open>eval_kms.go\<close>, \<open>eval_s3.go\<close>, \<open>eval_sqs.go\<close>, \<open>eval_sns.go\<close>,
  \<open>eval_dynamodb.go\<close>, \<open>eval_s3_anonymous.go\<close>.

  Every evaluator runs one of four statement matchers over the statements of some documents. The
  locale \<open>statement_matcher\<close> states what a matcher promises, its lemmas what the scan then computes,
  and the four matchers of \<open>Policy\<close> are its interpretations.
\<close>

section \<open>Scanning documents\<close>

datatype Decision = Deny | Allow

type_synonym matcher = "statement \<Rightarrow> RequestContext \<Rightarrow> (bool \<times> bool) option"

text \<open>The hits so far, and whether the scan stopped at an unknown key or operator.\<close>

fun stmts_scan :: "matcher \<Rightarrow> RequestContext \<Rightarrow> statement list \<Rightarrow> bool \<times> bool \<Rightarrow> (bool \<times> bool \<times> bool) option" where
  "stmts_scan match ctx [] (denyHit, allowHit) = Some (denyHit, allowHit, False)"
| "stmts_scan match ctx (st # sts) (denyHit, allowHit) =
     do { (matches, unknown) \<leftarrow> match st ctx;
          if unknown then Some (False, False, True)
          else if \<not> matches then stmts_scan match ctx sts (denyHit, allowHit)
          else if EqualFold (st_Effect st) ''Deny'' then stmts_scan match ctx sts (True, allowHit)
          else if EqualFold (st_Effect st) ''Allow'' then stmts_scan match ctx sts (denyHit, True)
          else stmts_scan match ctx sts (denyHit, allowHit) }"

fun docs_scan :: "matcher \<Rightarrow> RequestContext \<Rightarrow> string list \<Rightarrow> bool \<times> bool \<Rightarrow> (bool \<times> bool \<times> bool) option" where
  "docs_scan match ctx [] (denyHit, allowHit) = Some (denyHit, allowHit, False)"
| "docs_scan match ctx (raw # raws) (denyHit, allowHit) =
     (case parsePolicyDocument raw of
        None \<Rightarrow> docs_scan match ctx raws (denyHit, allowHit)
      | Some doc \<Rightarrow>
          do { (d, a, unknown) \<leftarrow> stmts_scan match ctx (pd_Statement doc) (denyHit, allowHit);
               if unknown then Some (False, False, True) else docs_scan match ctx raws (d, a) })"

definition policyEffectHitsWith ::
  "RequestContext \<Rightarrow> string list \<Rightarrow> matcher \<Rightarrow> (bool \<times> bool \<times> bool) option"
where
  "policyEffectHitsWith ctx docs match = docs_scan match ctx docs (False, False)"

definition policyEffectHits :: "RequestContext \<Rightarrow> string list \<Rightarrow> (bool \<times> bool \<times> bool) option" where
  "policyEffectHits ctx docs = policyEffectHitsWith ctx docs statementMatches"

definition resourcePolicyEffectHits :: "RequestContext \<Rightarrow> string list \<Rightarrow> (bool \<times> bool \<times> bool) option" where
  "resourcePolicyEffectHits ctx docs = policyEffectHitsWith ctx docs resourceStatementMatches"

definition delegatedResourcePolicyEffectHits :: "RequestContext \<Rightarrow> string list \<Rightarrow> (bool \<times> bool \<times> bool) option" where
  "delegatedResourcePolicyEffectHits ctx docs = policyEffectHitsWith ctx docs resourceStatementMatchesDelegated"

section \<open>Identity evaluation\<close>

definition evaluatePolicies :: "RequestContext \<Rightarrow> string list \<Rightarrow> Decision option" where
  "evaluatePolicies ctx policyDocs =
     do { (denyHit, allowHit, catalogUnknown) \<leftarrow> docs_scan statementMatches ctx policyDocs (False, False);
          Some (if catalogUnknown then Deny
                else if denyHit then Deny
                else if allowHit then Allow
                else Deny) }"

definition Evaluate :: "RequestContext \<Rightarrow> string list \<Rightarrow> Decision option" where
  "Evaluate ctx identityPolicyDocs =
     (if IsRoot (rc_Principal ctx) then Some Allow else evaluatePolicies ctx identityPolicyDocs)"

definition EvaluateWithSession :: "RequestContext \<Rightarrow> string list \<Rightarrow> string list \<Rightarrow> Decision option" where
  "EvaluateWithSession ctx identityDocs sessionPolicyDocs =
     (if sessionPolicyDocs = [] then Evaluate ctx identityDocs
      else do { d \<leftarrow> Evaluate ctx identityDocs;
                if d \<noteq> Allow then Some Deny else evaluatePolicies ctx sessionPolicyDocs })"

section \<open>The full spine\<close>

text \<open>The document lists are nil or not in Go; only \<open>CheckPassRole\<close> tells a nil list from an empty one.\<close>

record EvalInputs =
  in_IdentityDocs :: "string list option"
  in_BoundaryDoc :: string
  in_SessionDocs :: "string list"
  in_SCPDocs :: "string list"
  in_RCPDocs :: "string list"
  in_IsManagementAccount :: bool

definition identity_docs :: "EvalInputs \<Rightarrow> string list" where
  "identity_docs inp = (case in_IdentityDocs inp of None \<Rightarrow> [] | Some ds \<Rightarrow> ds)"

definition orgFilterAllows :: "RequestContext \<Rightarrow> string list \<Rightarrow> bool option" where
  "orgFilterAllows ctx docs =
     map_option Not (any_opt (\<lambda>raw. map_option (\<lambda>d. d \<noteq> Allow) (evaluatePolicies ctx [raw])) docs)"

definition OrgFiltersDeny :: "RequestContext \<Rightarrow> EvalInputs \<Rightarrow> bool option" where
  "OrgFiltersDeny ctx inp =
     do { rcp \<leftarrow> (if in_RCPDocs inp \<noteq> [] then orgFilterAllows ctx (in_RCPDocs inp) else Some True);
          if \<not> rcp then Some True
          else do {
            scp \<leftarrow> (if \<not> in_IsManagementAccount inp \<and> in_SCPDocs inp \<noteq> []
                    then orgFilterAllows ctx (in_SCPDocs inp) else Some True);
            Some (\<not> scp) } }"

definition denyScanDocs :: "RequestContext \<Rightarrow> EvalInputs \<Rightarrow> string list" where
  "denyScanDocs ctx inp =
     identity_docs inp @ in_SessionDocs inp @ in_RCPDocs inp
       @ (if \<not> in_IsManagementAccount inp then in_SCPDocs inp else [])
       @ (if \<not> IsRoot (rc_Principal ctx) \<and> TrimSpace (in_BoundaryDoc inp) \<noteq> [] then [in_BoundaryDoc inp] else [])"

definition denyScanFull :: "RequestContext \<Rightarrow> EvalInputs \<Rightarrow> bool option" where
  "denyScanFull ctx inp =
     any_opt (\<lambda>raw. do { (deny, _, unknown) \<leftarrow> policyEffectHits ctx [raw]; Some (unknown \<or> deny) })
       (denyScanDocs ctx inp)"

definition SessionOrBoundaryExplicitDeny :: "RequestContext \<Rightarrow> EvalInputs \<Rightarrow> bool option" where
  "SessionOrBoundaryExplicitDeny ctx inp =
     do { b \<leftarrow> (if \<not> IsRoot (rc_Principal ctx) \<and> TrimSpace (in_BoundaryDoc inp) \<noteq> []
               then do { (deny, _, unknown) \<leftarrow> policyEffectHits ctx [in_BoundaryDoc inp]; Some (unknown \<or> deny) }
               else Some False);
          if b then Some True
          else if in_SessionDocs inp \<noteq> []
          then do { (deny, _, unknown) \<leftarrow> policyEffectHits ctx (in_SessionDocs inp); Some (unknown \<or> deny) }
          else Some False }"

definition EvaluateFull :: "RequestContext \<Rightarrow> EvalInputs \<Rightarrow> Decision option" where
  "EvaluateFull ctx inp =
     do { denied \<leftarrow> denyScanFull ctx inp;
          if denied then Some Deny
          else do {
            rcp \<leftarrow> (if in_RCPDocs inp \<noteq> [] then orgFilterAllows ctx (in_RCPDocs inp) else Some True);
            if \<not> rcp then Some Deny
            else do {
              scp \<leftarrow> (if \<not> in_IsManagementAccount inp \<and> in_SCPDocs inp \<noteq> []
                      then orgFilterAllows ctx (in_SCPDocs inp) else Some True);
              if \<not> scp then Some Deny
              else do {
                ident \<leftarrow> Evaluate ctx (identity_docs inp);
                if ident \<noteq> Allow then Some Deny
                else do {
                  bound \<leftarrow> (if \<not> IsRoot (rc_Principal ctx) \<and> TrimSpace (in_BoundaryDoc inp) \<noteq> []
                            then evaluatePolicies ctx [in_BoundaryDoc inp] else Some Allow);
                  if bound \<noteq> Allow then Some Deny
                  else do {
                    sess \<leftarrow> (if in_SessionDocs inp \<noteq> [] then evaluatePolicies ctx (in_SessionDocs inp)
                             else Some Allow);
                    Some (if sess \<noteq> Allow then Deny else Allow) } } } } } }"

section \<open>Assuming a role: identity and trust\<close>

record CrossAccountRequest =
  ca_Caller :: RequestContext
  ca_CallerIdentityDocs :: "string list"
  ca_TrustPolicyDoc :: string

definition evaluateTrust :: "RequestContext \<Rightarrow> string \<Rightarrow> (bool \<times> bool \<times> bool) option" where
  "evaluateTrust ctx trustDoc =
     (if trustDoc = [] then Some (False, False, False)
      else (case parsePolicyDocument trustDoc of
              None \<Rightarrow> Some (False, False, False)
            | Some doc \<Rightarrow> stmts_scan trustStatementMatches ctx (pd_Statement doc) (False, False)))"

definition EvaluateCrossAccount :: "CrossAccountRequest \<Rightarrow> Decision option" where
  "EvaluateCrossAccount req =
     do { d \<leftarrow> Evaluate (ca_Caller req) (ca_CallerIdentityDocs req);
          if d = Deny then Some Deny
          else do { (trustDeny, trustAllow, trustUnknown) \<leftarrow> evaluateTrust (ca_Caller req) (ca_TrustPolicyDoc req);
                    Some (if trustUnknown \<or> trustDeny then Deny else if trustAllow then Allow else Deny) } }"

section \<open>Resource policies\<close>

record ResourceAccessRequest =
  ra_Caller :: RequestContext
  ra_IdentityDocs :: "string list"
  ra_ResourcePolicyDoc :: string
  ra_ResourceAccountID :: string

definition isCrossAccountResource :: "string \<Rightarrow> string \<Rightarrow> bool" where
  "isCrossAccountResource callerAccountID resourceAccountID =
     (let ra = TrimSpace resourceAccountID in
      if ra = [] then False else ra \<noteq> TrimSpace callerAccountID)"

definition EvaluateResourceAccess :: "ResourceAccessRequest \<Rightarrow> Decision option" where
  "EvaluateResourceAccess req =
     (let ctx = ra_Caller req;
          crossAccount = isCrossAccountResource (AccountID (rc_Principal ctx)) (ra_ResourceAccountID req);
          hasDoc = (TrimSpace (ra_ResourcePolicyDoc req) \<noteq> []);
          docs = [ra_ResourcePolicyDoc req]
      in do {
        (identityDeny, _, identityUnknown) \<leftarrow>
          (if \<not> IsRoot (rc_Principal ctx) then policyEffectHits ctx (ra_IdentityDocs req)
           else Some (False, False, False));
        (_, allowDirect, unknownDirect) \<leftarrow>
          (if hasDoc then resourcePolicyEffectHits ctx docs else Some (False, False, False));
        (resourceDeny, allowDelegated, unknownDelegated) \<leftarrow>
          (if hasDoc then delegatedResourcePolicyEffectHits ctx docs else Some (False, False, False));
        if identityUnknown \<or> (unknownDirect \<or> unknownDelegated) \<or> identityDeny \<or> resourceDeny then Some Deny
        else do {
          d \<leftarrow> Evaluate ctx (ra_IdentityDocs req);
          let identityAllow = (d = Allow) in
          Some (if crossAccount then
                  (if \<not> hasDoc then Deny else if identityAllow \<and> allowDelegated then Allow else Deny)
                else if identityAllow \<or> allowDirect then Allow else Deny) } })"

record S3Request =
  s3_Caller :: RequestContext
  s3_IdentityDocs :: "string list"
  s3_BucketPolicyDoc :: string
  s3_ResourceAccountID :: string

definition EvaluateS3 :: "S3Request \<Rightarrow> Decision option" where
  "EvaluateS3 req = EvaluateResourceAccess \<lparr>ra_Caller = s3_Caller req, ra_IdentityDocs = s3_IdentityDocs req,
     ra_ResourcePolicyDoc = s3_BucketPolicyDoc req, ra_ResourceAccountID = s3_ResourceAccountID req\<rparr>"

record SQSRequest =
  sqs_Caller :: RequestContext
  sqs_IdentityDocs :: "string list"
  sqs_QueuePolicyDoc :: string
  sqs_ResourceAccountID :: string

definition EvaluateSQS :: "SQSRequest \<Rightarrow> Decision option" where
  "EvaluateSQS req = EvaluateResourceAccess \<lparr>ra_Caller = sqs_Caller req, ra_IdentityDocs = sqs_IdentityDocs req,
     ra_ResourcePolicyDoc = sqs_QueuePolicyDoc req, ra_ResourceAccountID = sqs_ResourceAccountID req\<rparr>"

record SNSRequest =
  sns_Caller :: RequestContext
  sns_IdentityDocs :: "string list"
  sns_TopicPolicyDoc :: string
  sns_ResourceAccountID :: string

definition EvaluateSNS :: "SNSRequest \<Rightarrow> Decision option" where
  "EvaluateSNS req = EvaluateResourceAccess \<lparr>ra_Caller = sns_Caller req, ra_IdentityDocs = sns_IdentityDocs req,
     ra_ResourcePolicyDoc = sns_TopicPolicyDoc req, ra_ResourceAccountID = sns_ResourceAccountID req\<rparr>"

record DynamoDBRequest =
  ddb_Caller :: RequestContext
  ddb_IdentityDocs :: "string list"
  ddb_ResourcePolicyDoc :: string
  ddb_ResourceAccountID :: string

definition EvaluateDynamoDB :: "DynamoDBRequest \<Rightarrow> Decision option" where
  "EvaluateDynamoDB req = EvaluateResourceAccess \<lparr>ra_Caller = ddb_Caller req, ra_IdentityDocs = ddb_IdentityDocs req,
     ra_ResourcePolicyDoc = ddb_ResourcePolicyDoc req, ra_ResourceAccountID = ddb_ResourceAccountID req\<rparr>"

section \<open>KMS\<close>

record KMSRequest =
  kms_Caller :: RequestContext
  kms_IdentityDocs :: "string list"
  kms_KeyPolicyDoc :: string
  kms_GrantSatisfied :: bool

definition EvaluateKMS :: "KMSRequest \<Rightarrow> Decision option" where
  "EvaluateKMS req =
     (let ctx = kms_Caller req in
      if kms_KeyPolicyDoc req = [] \<and> \<not> kms_GrantSatisfied req then
        (if rc_Resource ctx = ''*'' then Evaluate ctx (kms_IdentityDocs req) else Some Deny)
      else do {
        (identityDeny, _, identityUnknown) \<leftarrow> policyEffectHits ctx (kms_IdentityDocs req);
        (keyDeny, keyAllow, keyUnknown) \<leftarrow>
          (if kms_KeyPolicyDoc req \<noteq> [] then delegatedResourcePolicyEffectHits ctx [kms_KeyPolicyDoc req]
           else Some (False, False, False));
        if identityUnknown \<or> keyUnknown \<or> identityDeny \<or> keyDeny then Some Deny
        else if kms_GrantSatisfied req then Some (if \<not> keyAllow then Deny else Allow)
        else if \<not> keyAllow then Some Deny
        else do { d \<leftarrow> Evaluate ctx (kms_IdentityDocs req); Some (if d \<noteq> Allow then Deny else Allow) } })"

section \<open>Anonymous reads\<close>

definition ObjectACLGrantsAnonymousRead :: "string \<Rightarrow> bool" where
  "ObjectACLGrantsAnonymousRead cannedACL =
     (let a = ToLower (TrimSpace cannedACL) in a = ''public-read'' \<or> a = ''public-read-write'')"

record AnonymousS3GetRequest =
  an_Resource :: string
  an_ResourceAccountID :: string
  an_BucketPolicyDoc :: string
  an_ObjectCannedACL :: string

definition anonymous_caller :: "AnonymousS3GetRequest \<Rightarrow> RequestContext" where
  "anonymous_caller req =
     \<lparr>rc_Principal = AnonymousPrincipal (TrimSpace (an_ResourceAccountID req)), rc_Action = ''s3:GetObject'',
      rc_Resource = an_Resource req, rc_Region = [], rc_ConditionKeys = Map.empty\<rparr>"

definition EvaluateAnonymousS3GetObject :: "AnonymousS3GetRequest \<Rightarrow> Decision option" where
  "EvaluateAnonymousS3GetObject req =
     (let policy = TrimSpace (an_BucketPolicyDoc req) in
      do { (denyHit, allowHit, unknown) \<leftarrow>
             (if policy \<noteq> [] then resourcePolicyEffectHits (anonymous_caller req) [policy]
              else Some (False, False, False));
           Some (if policy \<noteq> [] \<and> (unknown \<or> denyHit) then Deny
                 else if policy \<noteq> [] \<and> allowHit then Allow
                 else if ObjectACLGrantsAnonymousRead (an_ObjectCannedACL req) then Allow
                 else Deny) })"


section \<open>What a matcher promises, and what a scan computes\<close>

lemma effect_exclusive: "EqualFold e ''Deny'' \<Longrightarrow> \<not> EqualFold e ''Allow''"
  by (auto simp: EqualFold_def char_lower_def char_of_def)

definition statements_of :: "string list \<Rightarrow> statement list" where
  "statements_of docs =
     concat (map (\<lambda>raw. case parsePolicyDocument raw of None \<Rightarrow> [] | Some doc \<Rightarrow> pd_Statement doc) docs)"

text \<open>Every statement is decided, none with an unknown key or operator.\<close>

definition quiet :: "matcher \<Rightarrow> RequestContext \<Rightarrow> string list \<Rightarrow> bool" where
  "quiet match ctx docs \<longleftrightarrow> (\<forall>st\<in>set (statements_of docs). \<exists>m. match st ctx = Some (m, False))"

text \<open>Some statement of the documents with this effect matches.\<close>

definition hits :: "matcher \<Rightarrow> RequestContext \<Rightarrow> string list \<Rightarrow> string \<Rightarrow> bool" where
  "hits match ctx docs eff \<longleftrightarrow>
     (\<exists>st\<in>set (statements_of docs). match st ctx = Some (True, False) \<and> EqualFold (st_Effect st) eff)"

lemma statements_of_simps [simp]:
  "statements_of [] = []"
  "statements_of (raw # raws) =
     (case parsePolicyDocument raw of None \<Rightarrow> [] | Some doc \<Rightarrow> pd_Statement doc) @ statements_of raws"
  "statements_of (xs @ ys) = statements_of xs @ statements_of ys"
  by (simp_all add: statements_of_def)

lemma set_statements_of: "set (statements_of docs) = (\<Union>d\<in>set docs. set (statements_of [d]))"
  by (induction docs) auto

lemma quiet_append: "quiet match ctx (xs @ ys) \<longleftrightarrow> quiet match ctx xs \<and> quiet match ctx ys"
  by (auto simp: quiet_def)

lemma hits_append: "hits match ctx (xs @ ys) e \<longleftrightarrow> hits match ctx xs e \<or> hits match ctx ys e"
  by (auto simp: hits_def)

lemma quiet_each: "quiet match ctx docs \<longleftrightarrow> (\<forall>d\<in>set docs. quiet match ctx [d])"
  unfolding quiet_def by (subst set_statements_of) auto

lemma hits_each: "hits match ctx docs e \<longleftrightarrow> (\<exists>d\<in>set docs. hits match ctx [d] e)"
  unfolding hits_def by (subst set_statements_of) auto

lemma quiet_set: "set xs = set ys \<Longrightarrow> quiet match ctx xs = quiet match ctx ys"
  using quiet_each [of match ctx xs] quiet_each [of match ctx ys] by simp

lemma hits_set: "set xs = set ys \<Longrightarrow> hits match ctx xs e = hits match ctx ys e"
  using hits_each [of match ctx xs] hits_each [of match ctx ys] by simp

lemma stmts_scan_append:
  "stmts_scan match ctx (xs @ ys) (d, a) =
     do { (d', a', u) \<leftarrow> stmts_scan match ctx xs (d, a);
          if u then Some (False, False, True) else stmts_scan match ctx ys (d', a') }"
proof (induction xs arbitrary: d a)
  case (Cons st xs)
  show ?case
  proof (cases "match st ctx")
    case (Some r)
    then show ?thesis by (cases r) (simp add: Cons.IH cong: if_cong)
  qed simp
qed simp

lemma docs_scan_stmts: "docs_scan match ctx docs (d, a) = stmts_scan match ctx (statements_of docs) (d, a)"
proof (induction docs arbitrary: d a)
  case (Cons raw raws)
  show ?case
    by (cases "parsePolicyDocument raw") (simp_all add: Cons.IH stmts_scan_append cong: if_cong)
qed simp

lemma stmts_scan_quiet:
  "stmts_scan match ctx sts (d, a) = Some (d', a', False) \<longleftrightarrow>
     (\<forall>st\<in>set sts. \<exists>m. match st ctx = Some (m, False)) \<and>
     d' = (d \<or> (\<exists>st\<in>set sts. match st ctx = Some (True, False) \<and> EqualFold (st_Effect st) ''Deny'')) \<and>
     a' = (a \<or> (\<exists>st\<in>set sts. match st ctx = Some (True, False) \<and> EqualFold (st_Effect st) ''Allow''))"
proof (induction sts arbitrary: d a)
  case (Cons st sts)
  show ?case
  proof (cases "match st ctx")
    case (Some r)
    then obtain m u where r: "match st ctx = Some (m, u)" by (cases r) auto
    show ?thesis
      using effect_exclusive [of "st_Effect st"] by (cases m; cases u) (auto simp: r Cons.IH cong: if_cong)
  qed simp
qed auto

lemma stmts_scan_unknown:
  "stmts_scan match ctx sts (d, a) = Some (d', a', True) \<Longrightarrow>
     \<not> d' \<and> \<not> a' \<and> (\<exists>st\<in>set sts. \<exists>m. match st ctx = Some (m, True))"
proof (induction sts arbitrary: d a)
  case (Cons st sts)
  then obtain m u where r: "match st ctx = Some (m, u)" by (auto split: Option.bind_splits)
  with Cons show ?case by (auto split: if_splits)
qed simp

text \<open>The three results of a scan.\<close>

lemma scan_cases:
  "policyEffectHitsWith ctx docs match = Some (d, a, u) \<longleftrightarrow>
     (if u then \<not> d \<and> \<not> a \<and> policyEffectHitsWith ctx docs match = Some (False, False, True)
      else quiet match ctx docs \<and> d = hits match ctx docs ''Deny'' \<and> a = hits match ctx docs ''Allow'')"
proof (cases u)
  case True
  then show ?thesis
    using stmts_scan_unknown [of match ctx "statements_of docs" False False d a]
    by (auto simp: policyEffectHitsWith_def docs_scan_stmts)
next
  case False
  then show ?thesis
    using stmts_scan_quiet [of match ctx "statements_of docs" False False d a]
    by (simp add: policyEffectHitsWith_def docs_scan_stmts quiet_def hits_def)
qed

lemma scan_quiet:
  "quiet match ctx docs \<Longrightarrow>
   policyEffectHitsWith ctx docs match = Some (hits match ctx docs ''Deny'', hits match ctx docs ''Allow'', False)"
  using scan_cases [of ctx docs match "hits match ctx docs ''Deny''" "hits match ctx docs ''Allow''" False]
  by simp

lemma scan_not_quiet:
  "\<not> quiet match ctx docs \<Longrightarrow>
   policyEffectHitsWith ctx docs match = None \<or> policyEffectHitsWith ctx docs match = Some (False, False, True)"
proof (cases "policyEffectHitsWith ctx docs match")
  case (Some r)
  obtain d a u where r: "r = (d, a, u)" by (cases r) auto
  assume "\<not> quiet match ctx docs"
  with Some r scan_cases [of ctx docs match d a u] show ?thesis by (cases u) simp_all
qed simp

locale statement_matcher =
  fixes match :: "statement \<Rightarrow> RequestContext \<Rightarrow> (bool \<times> bool) option"
  assumes match_effect: "match st ctx = Some (True, u) \<Longrightarrow> effect_known st"
    and match_unknown: "conditionCatalogUnknown (st_Condition st) = Some True \<Longrightarrow> match st ctx = Some (False, True)"
    and match_known: "conditionCatalogUnknown (st_Condition st) = Some False \<Longrightarrow> match st ctx = Some (m, u) \<Longrightarrow> \<not> u"
    and match_stuck: "conditionCatalogUnknown (st_Condition st) = None \<Longrightarrow> match st ctx = None"
begin

text \<open>Whether a statement names an unknown key or operator does not depend on the request.\<close>

lemma unknown_iff: "match st ctx = Some (m, True) \<Longrightarrow> conditionCatalogUnknown (st_Condition st) = Some True \<and> \<not> m"
  using match_unknown [of st ctx] match_known [of st ctx m True] match_stuck [of st ctx]
  by (cases "conditionCatalogUnknown (st_Condition st)") auto

lemma scan_unknown_denies:
  assumes "st \<in> set (statements_of docs)" "conditionCatalogUnknown (st_Condition st) = Some True"
    and "policyEffectHitsWith ctx docs match = Some (d, a, u)"
  shows "u \<and> \<not> d \<and> \<not> a"
proof -
  have "\<not> quiet match ctx docs"
    using match_unknown [OF assms(2), of ctx] assms(1) by (force simp: quiet_def)
  with assms(3) scan_not_quiet [of match ctx docs] show ?thesis by auto
qed

lemma scan_unknown_sound:
  assumes "policyEffectHitsWith ctx docs match = Some (d, a, True)"
  shows "\<exists>st\<in>set (statements_of docs). conditionCatalogUnknown (st_Condition st) = Some True"
proof -
  have "\<exists>st\<in>set (statements_of docs). \<exists>m. match st ctx = Some (m, True)"
    using assms stmts_scan_unknown by (simp add: policyEffectHitsWith_def docs_scan_stmts)
  then show ?thesis using unknown_iff by blast
qed

text \<open>Two orders of the documents that both give an answer give the same one.\<close>

lemma scan_order:
  assumes "set docs = set docs'"
    and "policyEffectHitsWith ctx docs match = Some r" "policyEffectHitsWith ctx docs' match = Some r'"
  shows "r = r'"
proof (cases "quiet match ctx docs")
  case True
  then have "quiet match ctx docs'" using quiet_set [OF assms(1)] by simp
  with True assms show ?thesis
    using hits_set [OF assms(1), of match ctx] scan_quiet [of match ctx docs] scan_quiet [of match ctx docs']
    by simp
next
  case False
  then have "\<not> quiet match ctx docs'" using quiet_set [OF assms(1)] by simp
  with False assms(2,3) show ?thesis
    using scan_not_quiet [of match ctx docs] scan_not_quiet [of match ctx docs'] by simp
qed

end

lemmas matcher_defs = statementMatches_def resourceStatementMatches_def resourceStatementMatchesDelegated_def
  trustStatementMatches_def resourceStatementBodyMatches_def

lemma outcome_pair_unknown: "outcome_pair o' = (m, True) \<Longrightarrow> o' = condCatalogUnknown"
  by (cases o') (auto simp: outcome_pair_def)

interpretation identity_matcher: statement_matcher statementMatches
  by unfold_locales
    (auto simp: matcher_defs dest!: outcome_pair_unknown conditionApplies_not_unknown
       split: Option.bind_splits if_splits)

interpretation resource_matcher: statement_matcher resourceStatementMatches
  by unfold_locales
    (auto simp: matcher_defs dest!: outcome_pair_unknown conditionApplies_not_unknown
       split: Option.bind_splits if_splits)

interpretation delegated_matcher: statement_matcher resourceStatementMatchesDelegated
  by unfold_locales
    (auto simp: matcher_defs dest!: outcome_pair_unknown conditionApplies_not_unknown
       split: Option.bind_splits if_splits)

interpretation trust_matcher: statement_matcher trustStatementMatches
  by unfold_locales
    (auto simp: matcher_defs dest!: outcome_pair_unknown conditionApplies_not_unknown
       split: Option.bind_splits if_splits)

end
