(* ===== verification/PassRole.thy ===== *)
theory PassRole
  imports Authz
begin

text \<open>
  \<open>internal/kernel/authz/passrole.go\<close> (the check of \<open>iam:PassRole\<close> when a service is configured with a role,
  and the trust of a role in a service) and \<open>eval_events_target.go\<close> (resource policies for deliveries by a
  service). A nil map of condition keys and an empty one are the same map here.
\<close>

section \<open>Service principals\<close>

definition ServicePrincipalLambda :: string where "ServicePrincipalLambda = ''lambda.amazonaws.com''"
definition ServicePrincipalEvents :: string where "ServicePrincipalEvents = ''events.amazonaws.com''"
definition ServicePrincipalScheduler :: string where "ServicePrincipalScheduler = ''scheduler.amazonaws.com''"
definition ServicePrincipalECSTasks :: string where "ServicePrincipalECSTasks = ''ecs-tasks.amazonaws.com''"
definition ServicePrincipalStates :: string where "ServicePrincipalStates = ''states.amazonaws.com''"
definition ServicePrincipalCloudFormation :: string where "ServicePrincipalCloudFormation = ''cloudformation.amazonaws.com''"
definition ServicePrincipalCodePipeline :: string where "ServicePrincipalCodePipeline = ''codepipeline.amazonaws.com''"
definition ServicePrincipalFirehose :: string where "ServicePrincipalFirehose = ''firehose.amazonaws.com''"
definition ServicePrincipalPipes :: string where "ServicePrincipalPipes = ''pipes.amazonaws.com''"
definition ServicePrincipalSNS :: string where "ServicePrincipalSNS = ''sns.amazonaws.com''"
definition ServicePrincipalConfig :: string where "ServicePrincipalConfig = ''config.amazonaws.com''"
definition ServicePrincipalSES :: string where "ServicePrincipalSES = ''ses.amazonaws.com''"
definition ServicePrincipalCodeBuild :: string where "ServicePrincipalCodeBuild = ''codebuild.amazonaws.com''"
definition ServicePrincipalBatch :: string where "ServicePrincipalBatch = ''batch.amazonaws.com''"
definition ServicePrincipalCodeDeploy :: string where "ServicePrincipalCodeDeploy = ''codedeploy.amazonaws.com''"
definition ServicePrincipalCloudControl :: string where "ServicePrincipalCloudControl = ''cloudformation.amazonaws.com''"
definition ServicePrincipalAPIGateway :: string where "ServicePrincipalAPIGateway = ''apigateway.amazonaws.com''"
definition ServicePrincipalAppSync :: string where "ServicePrincipalAppSync = ''appsync.amazonaws.com''"
definition ServicePrincipalCognitoIDP :: string where "ServicePrincipalCognitoIDP = ''cognito-idp.amazonaws.com''"
definition ServicePrincipalLogs :: string where "ServicePrincipalLogs = ''logs.amazonaws.com''"
definition ServicePrincipalTransfer :: string where "ServicePrincipalTransfer = ''transfer.amazonaws.com''"
definition ServicePrincipalELB :: string where "ServicePrincipalELB = ''elasticloadbalancing.amazonaws.com''"
definition ServicePrincipalRDS :: string where "ServicePrincipalRDS = ''rds.amazonaws.com''"
definition ServicePrincipalSecretsManager :: string where "ServicePrincipalSecretsManager = ''secretsmanager.amazonaws.com''"
definition ServicePrincipalIoTCredentials :: string where "ServicePrincipalIoTCredentials = ''credentials.iot.amazonaws.com''"
definition ServicePrincipalIoT :: string where "ServicePrincipalIoT = ''iot.amazonaws.com''"
definition ServicePrincipalCloudFront :: string where "ServicePrincipalCloudFront = ''cloudfront.amazonaws.com''"
definition ServicePrincipalS3Logging :: string where "ServicePrincipalS3Logging = ''logging.s3.amazonaws.com''"
definition ServicePrincipalEC2 :: string where "ServicePrincipalEC2 = ''ec2.amazonaws.com''"
definition ServicePrincipalAutoScaling :: string where "ServicePrincipalAutoScaling = ''autoscaling.amazonaws.com''"
definition ServicePrincipalBackup :: string where "ServicePrincipalBackup = ''backup.amazonaws.com''"
definition ServicePrincipalEKS :: string where "ServicePrincipalEKS = ''eks.amazonaws.com''"
definition ServicePrincipalEMR :: string where "ServicePrincipalEMR = ''elasticmapreduce.amazonaws.com''"
definition ServicePrincipalVPCFlowLogs :: string where "ServicePrincipalVPCFlowLogs = ''vpc-flow-logs.amazonaws.com''"

section \<open>Trust in a service\<close>

definition principalServiceMatches :: "principalSpec \<Rightarrow> string \<Rightarrow> bool" where
  "principalServiceMatches spec servicePrincipal =
     (if ps_All spec then True else list_ex (\<lambda>s. s = ''*'' \<or> s = servicePrincipal) (ps_Service spec))"

definition trustServiceStatementMatches :: "statement \<Rightarrow> string \<Rightarrow> cond_keys \<Rightarrow> bool option" where
  "trustServiceStatementMatches st servicePrincipal keys =
     (if \<not> effect_known st then Some False
      else if st_Principal st = None \<or> \<not> principalServiceMatches (the (st_Principal st)) servicePrincipal
      then Some False
      else do {
        a \<leftarrow> actionsMatch (st_Action st) ''sts:AssumeRole'';
        if \<not> a then Some False
        else do {
          r \<leftarrow> (if st_Resource st \<noteq> [] then resourcesMatch (st_Resource st) ''*'' else Some True);
          if \<not> r then Some False
          else do {
            u \<leftarrow> conditionCatalogUnknown (st_Condition st);
            if u then Some False
            else map_option (\<lambda>o'. o' = condMatch) (conditionApplies (st_Condition st) keys) } } })"

text \<open>The loop that collects the hits of the statements some test accepts.\<close>

fun effect_scan :: "(statement \<Rightarrow> bool option) \<Rightarrow> statement list \<Rightarrow> bool \<times> bool \<Rightarrow> (bool \<times> bool) option" where
  "effect_scan test [] (denyHit, allowHit) = Some (denyHit, allowHit)"
| "effect_scan test (st # sts) (denyHit, allowHit) =
     do { m \<leftarrow> test st;
          if \<not> m then effect_scan test sts (denyHit, allowHit)
          else if EqualFold (st_Effect st) ''Deny'' then effect_scan test sts (True, allowHit)
          else if EqualFold (st_Effect st) ''Allow'' then effect_scan test sts (denyHit, True)
          else effect_scan test sts (denyHit, allowHit) }"

definition TrustAllowsServiceWithKeys :: "string \<Rightarrow> string \<Rightarrow> cond_keys \<Rightarrow> bool option" where
  "TrustAllowsServiceWithKeys trustDoc servicePrincipal keys =
     (if trustDoc = [] \<or> servicePrincipal = [] then Some False
      else (case parsePolicyDocument trustDoc of
              None \<Rightarrow> Some False
            | Some doc \<Rightarrow>
                do { (denyHit, allowHit) \<leftarrow>
                       effect_scan (\<lambda>st. trustServiceStatementMatches st servicePrincipal keys)
                         (pd_Statement doc) (False, False);
                     Some (if denyHit then False else allowHit) }))"

definition TrustAllowsService :: "string \<Rightarrow> string \<Rightarrow> bool option" where
  "TrustAllowsService trustDoc servicePrincipal = TrustAllowsServiceWithKeys trustDoc servicePrincipal Map.empty"

section \<open>PassRole\<close>

record PassRoleRequest =
  pr_Caller :: RequestContext
  pr_IdentityDocs :: "string list option"
  pr_EvalInputs :: EvalInputs
  pr_RoleARN :: string
  pr_TrustPolicyDoc :: string
  pr_ServicePrincipal :: string
  pr_SourceArn :: string

definition passRoleTrustConditionKeys :: "PassRoleRequest \<Rightarrow> cond_keys" where
  "passRoleTrustConditionKeys req =
     (let keys = rc_ConditionKeys (pr_Caller req);
          accountID = TrimSpace (AccountID (rc_Principal (pr_Caller req)));
          keys = (if accountID \<noteq> [] then keys(''aws:SourceAccount'' \<mapsto> accountID) else keys);
          src = TrimSpace (pr_SourceArn req)
      in if src \<noteq> [] then keys(''aws:SourceArn'' \<mapsto> src) else keys)"

definition passRoleContext :: "PassRoleRequest \<Rightarrow> RequestContext" where
  "passRoleContext req =
     (let ctx = (pr_Caller req)\<lparr>rc_Action := ''iam:PassRole'', rc_Resource := pr_RoleARN req\<rparr> in
      if pr_ServicePrincipal req \<noteq> []
      then ctx\<lparr>rc_ConditionKeys := (rc_ConditionKeys ctx)(''iam:PassedToService'' \<mapsto> pr_ServicePrincipal req)\<rparr>
      else ctx)"

definition CheckPassRole :: "PassRoleRequest \<Rightarrow> Decision option" where
  "CheckPassRole req =
     (let ctx = passRoleContext req;
          inp = (if in_IdentityDocs (pr_EvalInputs req) = None
                 then (pr_EvalInputs req)\<lparr>in_IdentityDocs := pr_IdentityDocs req\<rparr> else pr_EvalInputs req)
      in do {
        d \<leftarrow> EvaluateFull ctx inp;
        if d \<noteq> Allow then Some Deny
        else do {
          t \<leftarrow> TrustAllowsServiceWithKeys (pr_TrustPolicyDoc req) (pr_ServicePrincipal req)
                 (passRoleTrustConditionKeys req);
          Some (if \<not> t then Deny else Allow) } })"

section \<open>Deliveries by a service\<close>

definition accountIDFromResourceARN :: "string \<Rightarrow> string" where
  "accountIDFromResourceARN arn =
     (let parts = Split arn (CHR '':'') in
      if length parts < 5 then []
      else (let acct = TrimSpace (parts ! 4) in
            if length acct \<noteq> 12 \<or> \<not> list_all is_digit acct then [] else acct))"

definition DeliverySourceConditionKeys :: "string \<Rightarrow> string \<Rightarrow> cond_keys" where
  "DeliverySourceConditionKeys sourceARN0 sourceAccount0 =
     (let sourceARN = TrimSpace sourceARN0; sourceAccount = TrimSpace sourceAccount0;
          keys = (if sourceARN \<noteq> [] then [''aws:SourceArn'' \<mapsto> sourceARN] else Map.empty)
      in if sourceAccount \<noteq> [] then keys(''aws:SourceAccount'' \<mapsto> sourceAccount)
         else if sourceARN \<noteq> [] \<and> accountIDFromResourceARN sourceARN \<noteq> []
         then keys(''aws:SourceAccount'' \<mapsto> accountIDFromResourceARN sourceARN)
         else keys)"

definition principalRootMatches :: "principalSpec \<Rightarrow> string \<Rightarrow> bool" where
  "principalRootMatches spec accountID =
     (if ps_All spec then True
      else list_ex (\<lambda>p. p = ''*'' \<or> p = ''arn:aws:iam::'' @ accountID @ '':root'' \<or>
                        accountRootARN p = Some accountID) (ps_AWS spec))"

definition resourcePrincipalStatementMatches ::
  "statement \<Rightarrow> string \<Rightarrow> string \<Rightarrow> cond_keys \<Rightarrow> (principalSpec \<Rightarrow> bool) \<Rightarrow> bool option"
where
  "resourcePrincipalStatementMatches st action resourceARN conditionKeys principalCheck =
     (if \<not> effect_known st then Some False
      else if st_Principal st = None \<or> \<not> principalCheck (the (st_Principal st)) then Some False
      else do {
        a \<leftarrow> actionsMatch (st_Action st) action;
        if \<not> a then Some False
        else do {
          r \<leftarrow> (if st_Resource st \<noteq> [] then resourcesMatch (st_Resource st) resourceARN else Some True);
          if \<not> r then Some False
          else map_option (\<lambda>o'. o' = condMatch) (conditionApplies (st_Condition st) conditionKeys) } })"

definition eventTargetPathAllowed :: "bool \<Rightarrow> bool \<Rightarrow> bool" where
  "eventTargetPathAllowed denyHit allowHit = (if denyHit then False else allowHit)"

text \<open>
  Go interleaves the tests of the two paths statement by statement; each scan below collects the hits
  of one path. The hits are the same, and a test that does not return is run in both.
\<close>

definition EventTargetResourcePolicyAllows ::
  "string \<Rightarrow> string \<Rightarrow> string \<Rightarrow> string \<Rightarrow> string \<Rightarrow> cond_keys \<Rightarrow> bool option"
where
  "EventTargetResourcePolicyAllows policyDoc0 action resourceARN servicePrincipal accountID conditionKeys =
     (let policyDoc = TrimSpace policyDoc0 in
      if policyDoc = [] \<or> action = [] \<or> resourceARN = [] \<or> servicePrincipal = [] \<or> accountID = [] then Some False
      else (case parsePolicyDocument policyDoc of
              None \<Rightarrow> Some False
            | Some doc \<Rightarrow>
                do { u \<leftarrow> any_opt (\<lambda>st. conditionCatalogUnknown (st_Condition st)) (pd_Statement doc);
                     if u then Some False
                     else do {
                       (serviceDeny, serviceAllow) \<leftarrow>
                         effect_scan (\<lambda>st. resourcePrincipalStatementMatches st action resourceARN conditionKeys
                             (\<lambda>spec. principalServiceMatches spec servicePrincipal)) (pd_Statement doc) (False, False);
                       (rootDeny, rootAllow) \<leftarrow>
                         effect_scan (\<lambda>st. resourcePrincipalStatementMatches st action resourceARN conditionKeys
                             (\<lambda>spec. principalRootMatches spec accountID)) (pd_Statement doc) (False, False);
                       Some (eventTargetPathAllowed serviceDeny serviceAllow \<or>
                             eventTargetPathAllowed rootDeny rootAllow) } }))"

definition ServicePrincipalResourcePolicyAllows ::
  "string \<Rightarrow> string \<Rightarrow> string \<Rightarrow> string \<Rightarrow> cond_keys \<Rightarrow> bool option"
where
  "ServicePrincipalResourcePolicyAllows policyDoc0 action resourceARN servicePrincipal conditionKeys =
     (let policyDoc = TrimSpace policyDoc0 in
      if policyDoc = [] \<or> action = [] \<or> resourceARN = [] \<or> servicePrincipal = [] then Some False
      else (case parsePolicyDocument policyDoc of
              None \<Rightarrow> Some False
            | Some doc \<Rightarrow>
                do { u \<leftarrow> any_opt (\<lambda>st. conditionCatalogUnknown (st_Condition st)) (pd_Statement doc);
                     if u then Some False
                     else do {
                       (serviceDeny, serviceAllow) \<leftarrow>
                         effect_scan (\<lambda>st. resourcePrincipalStatementMatches st action resourceARN conditionKeys
                             (\<lambda>spec. principalServiceMatches spec servicePrincipal)) (pd_Statement doc) (False, False);
                       Some (eventTargetPathAllowed serviceDeny serviceAllow) } }))"

end
