(* ===== verification/Authz_Spec.thy ===== *)
theory Authz_Spec
  imports PassRole
begin

text \<open>
  What the evaluators of \<open>Authz\<close> and \<open>PassRole\<close> decide, stated over the statements of the documents
  with \<open>quiet\<close> (every statement is decided, none names an unknown key) and \<open>hits\<close> (a statement with
  this effect matches). Each evaluator allows exactly when its specification holds; a result \<open>None\<close> is
  a matcher that does not return.
\<close>

abbreviation id_quiet :: "RequestContext \<Rightarrow> string list \<Rightarrow> bool" where
  "id_quiet \<equiv> quiet statementMatches"

abbreviation id_hits :: "RequestContext \<Rightarrow> string list \<Rightarrow> string \<Rightarrow> bool" where
  "id_hits \<equiv> hits statementMatches"

lemma statements_of_in:
  "raw \<in> set docs \<Longrightarrow> parsePolicyDocument raw = Some doc \<Longrightarrow> st \<in> set (pd_Statement doc) \<Longrightarrow>
   st \<in> set (statements_of docs)"
  by (force simp: statements_of_def)

section \<open>One set of policies\<close>

lemma policyEffectHits_denies:
  "map_option (\<lambda>(deny, _, unknown). unknown \<or> deny) (policyEffectHitsWith ctx docs m) = Some False \<longleftrightarrow>
   quiet m ctx docs \<and> \<not> hits m ctx docs ''Deny''"
proof (cases "quiet m ctx docs")
  case True
  then show ?thesis by (simp add: scan_quiet)
next
  case False
  then show ?thesis using scan_not_quiet [of m ctx docs] by auto
qed

lemma evaluatePolicies_Allow:
  "evaluatePolicies ctx docs = Some Allow \<longleftrightarrow>
   id_quiet ctx docs \<and> id_hits ctx docs ''Allow'' \<and> \<not> id_hits ctx docs ''Deny''"
proof -
  have e: "evaluatePolicies ctx docs =
    do { (d, a, u) \<leftarrow> policyEffectHitsWith ctx docs statementMatches;
         Some (if u then Deny else if d then Deny else if a then Allow else Deny) }"
    by (simp add: evaluatePolicies_def policyEffectHitsWith_def)
  show ?thesis
  proof (cases "id_quiet ctx docs")
    case True
    then show ?thesis by (simp add: e scan_quiet)
  next
    case False
    then show ?thesis using scan_not_quiet [of statementMatches ctx docs] by (auto simp: e)
  qed
qed

lemma Decision_not [simp]: "d \<noteq> Allow \<longleftrightarrow> d = Deny" "d \<noteq> Deny \<longleftrightarrow> d = Allow"
  by (cases d; simp)+

lemma Evaluate_Allow:
  "Evaluate ctx docs = Some Allow \<longleftrightarrow> IsRoot (rc_Principal ctx) \<or>
   id_quiet ctx docs \<and> id_hits ctx docs ''Allow'' \<and> \<not> id_hits ctx docs ''Deny''"
  by (simp add: Evaluate_def evaluatePolicies_Allow)

lemma EvaluateWithSession_Allow:
  "EvaluateWithSession ctx docs sess = Some Allow \<longleftrightarrow>
   Evaluate ctx docs = Some Allow \<and> (sess = [] \<or> evaluatePolicies ctx sess = Some Allow)"
  by (auto simp: EvaluateWithSession_def split: Option.bind_splits if_splits)

section \<open>The full spine\<close>

lemma orgFilterAllows_True:
  "orgFilterAllows ctx docs = Some True \<longleftrightarrow> (\<forall>d\<in>set docs. evaluatePolicies ctx [d] = Some Allow)"
proof -
  have "orgFilterAllows ctx docs = Some True \<longleftrightarrow>
      any_opt (\<lambda>raw. map_option (\<lambda>x. x \<noteq> Allow) (evaluatePolicies ctx [raw])) docs = Some False"
    by (auto simp: orgFilterAllows_def simp del: Decision_not)
  then show ?thesis by (simp add: any_opt_Some_False)
qed

lemma denyScanFull_False:
  "denyScanFull ctx inp = Some False \<longleftrightarrow>
   id_quiet ctx (denyScanDocs ctx inp) \<and> \<not> id_hits ctx (denyScanDocs ctx inp) ''Deny''"
proof -
  have bm: "r \<bind> (\<lambda>(deny, _, unknown). Some (unknown \<or> deny)) = map_option (\<lambda>(deny, _, unknown). unknown \<or> deny) r"
    for r :: "(bool \<times> bool \<times> bool) option" by (cases r) auto
  have "denyScanFull ctx inp = Some False \<longleftrightarrow>
      (\<forall>d\<in>set (denyScanDocs ctx inp).
        map_option (\<lambda>(deny, _, unknown). unknown \<or> deny) (policyEffectHitsWith ctx [d] statementMatches) = Some False)"
    unfolding denyScanFull_def any_opt_Some_False policyEffectHits_def bm ..
  then show ?thesis
    unfolding policyEffectHits_denies
    using quiet_each [of statementMatches ctx "denyScanDocs ctx inp"]
      hits_each [of statementMatches ctx "denyScanDocs ctx inp"] by auto
qed

definition has_boundary :: "RequestContext \<Rightarrow> EvalInputs \<Rightarrow> bool" where
  "has_boundary ctx inp \<longleftrightarrow> \<not> IsRoot (rc_Principal ctx) \<and> TrimSpace (in_BoundaryDoc inp) \<noteq> []"

text \<open>
  The specification of the spine: no Deny and nothing unknown in any document that applies, and an
  Allow in every kind of policy that has to give one.
\<close>

definition full_spec :: "RequestContext \<Rightarrow> EvalInputs \<Rightarrow> bool" where
  "full_spec ctx inp \<longleftrightarrow>
     id_quiet ctx (denyScanDocs ctx inp) \<and> \<not> id_hits ctx (denyScanDocs ctx inp) ''Deny'' \<and>
     (\<forall>d\<in>set (in_RCPDocs inp). id_hits ctx [d] ''Allow'') \<and>
     (in_IsManagementAccount inp \<or> (\<forall>d\<in>set (in_SCPDocs inp). id_hits ctx [d] ''Allow'')) \<and>
     (IsRoot (rc_Principal ctx) \<or> id_hits ctx (identity_docs inp) ''Allow'') \<and>
     (has_boundary ctx inp \<longrightarrow> id_hits ctx [in_BoundaryDoc inp] ''Allow'') \<and>
     (in_SessionDocs inp = [] \<or> id_hits ctx (in_SessionDocs inp) ''Allow'')"

lemma EvaluateFull_chain:
  "EvaluateFull ctx inp = Some Allow \<longleftrightarrow>
     denyScanFull ctx inp = Some False \<and>
     (in_RCPDocs inp = [] \<or> orgFilterAllows ctx (in_RCPDocs inp) = Some True) \<and>
     (in_IsManagementAccount inp \<or> in_SCPDocs inp = [] \<or> orgFilterAllows ctx (in_SCPDocs inp) = Some True) \<and>
     Evaluate ctx (identity_docs inp) = Some Allow \<and>
     (has_boundary ctx inp \<longrightarrow> evaluatePolicies ctx [in_BoundaryDoc inp] = Some Allow) \<and>
     (in_SessionDocs inp = [] \<or> evaluatePolicies ctx (in_SessionDocs inp) = Some Allow)"
  unfolding EvaluateFull_def has_boundary_def
  by (auto split: Option.bind_splits if_splits)

lemma docs_of_denyScan:
  "set (identity_docs inp) \<subseteq> set (denyScanDocs ctx inp)"
  "set (in_SessionDocs inp) \<subseteq> set (denyScanDocs ctx inp)"
  "set (in_RCPDocs inp) \<subseteq> set (denyScanDocs ctx inp)"
  "\<not> in_IsManagementAccount inp \<Longrightarrow> set (in_SCPDocs inp) \<subseteq> set (denyScanDocs ctx inp)"
  "has_boundary ctx inp \<Longrightarrow> in_BoundaryDoc inp \<in> set (denyScanDocs ctx inp)"
  by (auto simp: denyScanDocs_def has_boundary_def)

lemma scan_subset:
  assumes "set ds \<subseteq> set es"
  shows "quiet m ctx es \<Longrightarrow> quiet m ctx ds" and "\<not> hits m ctx es e \<Longrightarrow> \<not> hits m ctx ds e"
proof -
  show "quiet m ctx es \<Longrightarrow> quiet m ctx ds"
    using assms quiet_each [of m ctx ds] quiet_each [of m ctx es] by auto
  show "\<not> hits m ctx es e \<Longrightarrow> \<not> hits m ctx ds e"
    using assms hits_each [of m ctx ds] hits_each [of m ctx es] by auto
qed

lemma EvaluateFull_Allow: "EvaluateFull ctx inp = Some Allow \<longleftrightarrow> full_spec ctx inp"
proof -
  let ?D = "denyScanDocs ctx inp"
  show ?thesis
  proof (cases "id_quiet ctx ?D \<and> \<not> id_hits ctx ?D ''Deny''")
    case False
    then show ?thesis by (auto simp: EvaluateFull_chain full_spec_def denyScanFull_False)
  next
    case True
    have sub: "evaluatePolicies ctx ds = Some Allow \<longleftrightarrow> id_hits ctx ds ''Allow''" if "set ds \<subseteq> set ?D" for ds
      using True scan_subset [OF that] by (auto simp: evaluatePolicies_Allow)
    have one: "evaluatePolicies ctx [d] = Some Allow \<longleftrightarrow> id_hits ctx [d] ''Allow''" if "d \<in> set ?D" for d
      using sub [of "[d]"] that by simp
    note ds = docs_of_denyScan [where inp = inp and ctx = ctx]
    have ident: "Evaluate ctx (identity_docs inp) = Some Allow \<longleftrightarrow>
        IsRoot (rc_Principal ctx) \<or> id_hits ctx (identity_docs inp) ''Allow''"
      using sub [OF ds(1)] by (auto simp: Evaluate_def)
    have rcp: "in_RCPDocs inp = [] \<or> orgFilterAllows ctx (in_RCPDocs inp) = Some True \<longleftrightarrow>
        (\<forall>d\<in>set (in_RCPDocs inp). id_hits ctx [d] ''Allow'')"
      using one ds(3) by (auto simp: orgFilterAllows_True)
    have scp: "in_IsManagementAccount inp \<or> in_SCPDocs inp = [] \<or> orgFilterAllows ctx (in_SCPDocs inp) = Some True \<longleftrightarrow>
        in_IsManagementAccount inp \<or> (\<forall>d\<in>set (in_SCPDocs inp). id_hits ctx [d] ''Allow'')"
      using one ds(4) by (auto simp: orgFilterAllows_True)
    have bound: "has_boundary ctx inp \<Longrightarrow> (evaluatePolicies ctx [in_BoundaryDoc inp] = Some Allow \<longleftrightarrow>
        id_hits ctx [in_BoundaryDoc inp] ''Allow'')"
      using one ds(5) by auto
    show ?thesis
      unfolding EvaluateFull_chain full_spec_def denyScanFull_False ident
      using True rcp scp bound sub [OF ds(2)] by blast
  qed
qed

lemma EvaluateFull_not_Allow: "EvaluateFull ctx inp = Some d \<Longrightarrow> \<not> full_spec ctx inp \<Longrightarrow> d = Deny"
  using EvaluateFull_Allow [of ctx inp] by (cases d) auto

lemma EvaluateFull_Deny_if:
  assumes "id_hits ctx (denyScanDocs ctx inp) ''Deny''" "EvaluateFull ctx inp = Some d"
  shows "d = Deny"
  using assms EvaluateFull_not_Allow by (auto simp: full_spec_def)

lemma EvaluateFull_unknown:
  assumes "st \<in> set (statements_of (denyScanDocs ctx inp))"
    and "conditionCatalogUnknown (st_Condition st) = Some True" "EvaluateFull ctx inp = Some d"
  shows "d = Deny"
proof -
  have "\<not> id_quiet ctx (denyScanDocs ctx inp)"
    using identity_matcher.match_unknown [OF assms(2), of ctx] assms(1) by (force simp: quiet_def)
  then show ?thesis using assms(3) EvaluateFull_not_Allow by (auto simp: full_spec_def)
qed

definition same_docs :: "EvalInputs \<Rightarrow> EvalInputs \<Rightarrow> bool" where
  "same_docs i j \<longleftrightarrow>
     set (identity_docs i) = set (identity_docs j) \<and> in_BoundaryDoc i = in_BoundaryDoc j \<and>
     set (in_SessionDocs i) = set (in_SessionDocs j) \<and> set (in_SCPDocs i) = set (in_SCPDocs j) \<and>
     set (in_RCPDocs i) = set (in_RCPDocs j) \<and> in_IsManagementAccount i = in_IsManagementAccount j"

lemma full_spec_same: 
  assumes "same_docs i j"
  shows "full_spec ctx i = full_spec ctx j"
proof -
  have d: "set (denyScanDocs ctx i) = set (denyScanDocs ctx j)"
    using assms by (auto simp: same_docs_def denyScanDocs_def)
  have h: "id_hits ctx (identity_docs i) e = id_hits ctx (identity_docs j) e"
    "id_hits ctx (in_SessionDocs i) e = id_hits ctx (in_SessionDocs j) e" for e
    using assms unfolding same_docs_def by (metis hits_set)+
  have "in_SessionDocs i = [] \<longleftrightarrow> in_SessionDocs j = []"
    using assms by (auto simp: same_docs_def simp flip: set_empty)
  with assms show ?thesis
    unfolding full_spec_def h quiet_set [OF d] hits_set [OF d]
    by (simp add: same_docs_def has_boundary_def)
qed

lemma decided_by_Allow:
  assumes "f = Some (d :: Decision)" "g = Some d'" "f = Some Allow \<longleftrightarrow> g = Some Allow"
  shows "d = d'"
  using assms by (cases d; cases d') auto

section \<open>Resource policies\<close>

abbreviation res_quiet :: "RequestContext \<Rightarrow> string \<Rightarrow> bool" where
  "res_quiet ctx doc \<equiv> quiet resourceStatementMatches ctx [doc] \<and> quiet resourceStatementMatchesDelegated ctx [doc]"

text \<open>The specification of the access to a resource, over the direct and the delegated matches of its policy.\<close>

definition resource_spec :: "ResourceAccessRequest \<Rightarrow> bool" where
  "resource_spec req \<longleftrightarrow>
     (let ctx = ra_Caller req; doc = ra_ResourcePolicyDoc req; hasDoc = (TrimSpace doc \<noteq> []);
          root = IsRoot (rc_Principal ctx);
          identity = (root \<or> id_hits ctx (ra_IdentityDocs req) ''Allow'')
      in (root \<or> id_quiet ctx (ra_IdentityDocs req) \<and> \<not> id_hits ctx (ra_IdentityDocs req) ''Deny'') \<and>
         (hasDoc \<longrightarrow> res_quiet ctx doc \<and> \<not> hits resourceStatementMatchesDelegated ctx [doc] ''Deny'') \<and>
         (if isCrossAccountResource (AccountID (rc_Principal ctx)) (ra_ResourceAccountID req)
          then hasDoc \<and> identity \<and> hits resourceStatementMatchesDelegated ctx [doc] ''Allow''
          else identity \<or> hasDoc \<and> hits resourceStatementMatches ctx [doc] ''Allow''))"

lemma EvaluateResourceAccess_Allow:
  "EvaluateResourceAccess req = Some Allow \<longleftrightarrow> resource_spec req"
proof -
  define ctx docs doc root hasDoc cross where
    "ctx = ra_Caller req" and "docs = ra_IdentityDocs req" and "doc = ra_ResourcePolicyDoc req"
    and "root = IsRoot (rc_Principal ctx)" and "hasDoc = (TrimSpace doc \<noteq> [])"
    and "cross = isCrossAccountResource (AccountID (rc_Principal ctx)) (ra_ResourceAccountID req)"
  note defs = ctx_def docs_def doc_def root_def hasDoc_def cross_def
  define I where "I = (if \<not> root then policyEffectHits ctx docs else Some (False, False, False))"
  define R where "R = (if hasDoc then resourcePolicyEffectHits ctx [doc] else Some (False, False, False))"
  define D where "D = (if hasDoc then delegatedResourcePolicyEffectHits ctx [doc] else Some (False, False, False))"
  have unf: "EvaluateResourceAccess req = do {
      (iD, _, iU) \<leftarrow> I; (_, aR, uR) \<leftarrow> R; (rD, aD, uD) \<leftarrow> D;
      if iU \<or> (uR \<or> uD) \<or> iD \<or> rD then Some Deny
      else do { d \<leftarrow> Evaluate ctx docs;
        let ia = (d = Allow) in
        Some (if cross then (if \<not> hasDoc then Deny else if ia \<and> aD then Allow else Deny)
              else if ia \<or> aR then Allow else Deny) } }"
    unfolding EvaluateResourceAccess_def I_def R_def D_def defs Let_def by simp
  show ?thesis
  proof (cases "(root \<or> id_quiet ctx docs \<and> \<not> id_hits ctx docs ''Deny'') \<and>
                (hasDoc \<longrightarrow> res_quiet ctx doc \<and> \<not> hits resourceStatementMatchesDelegated ctx [doc] ''Deny'')")
    case True
    have "\<exists>a. I = Some (False, a, False)"
      using True by (auto simp: I_def policyEffectHits_def scan_quiet)
    then obtain a where I: "I = Some (False, a, False)" ..
    have "\<exists>x. R = Some (x, hasDoc \<and> hits resourceStatementMatches ctx [doc] ''Allow'', False)"
      using True by (auto simp: R_def resourcePolicyEffectHits_def scan_quiet)
    then obtain x where R: "R = Some (x, hasDoc \<and> hits resourceStatementMatches ctx [doc] ''Allow'', False)" ..
    have D: "D = Some (False, hasDoc \<and> hits resourceStatementMatchesDelegated ctx [doc] ''Allow'', False)"
      using True by (auto simp: D_def delegatedResourcePolicyEffectHits_def scan_quiet)
    have "Evaluate ctx docs \<noteq> None"
      using True scan_quiet [of statementMatches ctx docs]
      by (auto simp: Evaluate_def root_def evaluatePolicies_def policyEffectHitsWith_def)
    then obtain d where E: "Evaluate ctx docs = Some d" by auto
    have d: "d = Allow \<longleftrightarrow> root \<or> id_hits ctx docs ''Allow''"
      using E True Evaluate_Allow [of ctx docs] by (auto simp: root_def)
    show ?thesis
      unfolding unf I R D E resource_spec_def Let_def defs [symmetric]
      using True d by auto
  next
    case False
    have "EvaluateResourceAccess req \<noteq> Some Allow"
    proof
      assume "EvaluateResourceAccess req = Some Allow"
      then obtain a x aR aD where "I = Some (False, a, False)" "R = Some (x, aR, False)" "D = Some (False, aD, False)"
        unfolding unf by (auto split: Option.bind_splits if_splits)
      then have "root \<or> id_quiet ctx docs \<and> \<not> id_hits ctx docs ''Deny''"
        and "hasDoc \<longrightarrow> res_quiet ctx doc \<and> \<not> hits resourceStatementMatchesDelegated ctx [doc] ''Deny''"
        using scan_cases [of ctx docs statementMatches False a False]
          scan_cases [of ctx "[doc]" resourceStatementMatches x aR False]
          scan_cases [of ctx "[doc]" resourceStatementMatchesDelegated False aD False]
        by (auto simp: I_def R_def D_def policyEffectHits_def resourcePolicyEffectHits_def
            delegatedResourcePolicyEffectHits_def split: if_splits)
      with False show False by blast
    qed
    with False show ?thesis by (auto simp: resource_spec_def Let_def defs)
  qed
qed

section \<open>KMS keys\<close>

definition kms_spec :: "KMSRequest \<Rightarrow> bool" where
  "kms_spec req \<longleftrightarrow>
     (let ctx = kms_Caller req; docs = kms_IdentityDocs req; key = kms_KeyPolicyDoc req in
      if key = [] \<and> \<not> kms_GrantSatisfied req then rc_Resource ctx = ''*'' \<and> Evaluate ctx docs = Some Allow
      else id_quiet ctx docs \<and> \<not> id_hits ctx docs ''Deny'' \<and>
           key \<noteq> [] \<and> quiet resourceStatementMatchesDelegated ctx [key] \<and>
           \<not> hits resourceStatementMatchesDelegated ctx [key] ''Deny'' \<and>
           hits resourceStatementMatchesDelegated ctx [key] ''Allow'' \<and>
           (kms_GrantSatisfied req \<or> Evaluate ctx docs = Some Allow))"

text \<open>The results of a scan that finds no Deny and nothing unknown.\<close>

lemma scan_clear:
  "policyEffectHitsWith ctx docs m = Some (False, a, False) \<longleftrightarrow>
   quiet m ctx docs \<and> \<not> hits m ctx docs ''Deny'' \<and> a = hits m ctx docs ''Allow''"
  using scan_cases [of ctx docs m False a False] by auto

lemma EvaluateKMS_Allow: "EvaluateKMS req = Some Allow \<longleftrightarrow> kms_spec req"
proof -
  define ctx docs key where "ctx = kms_Caller req" and "docs = kms_IdentityDocs req" and "key = kms_KeyPolicyDoc req"
  note defs = ctx_def docs_def key_def
  show ?thesis
  proof (cases "key = [] \<and> \<not> kms_GrantSatisfied req")
    case True
    then show ?thesis by (simp add: EvaluateKMS_def kms_spec_def defs Let_def)
  next
    case False
    define K where "K = (if key \<noteq> [] then policyEffectHitsWith ctx [key] resourceStatementMatchesDelegated
                         else Some (False, False, False))"
    have "EvaluateKMS req = do {
        (iD, _, iU) \<leftarrow> policyEffectHitsWith ctx docs statementMatches; (kD, kA, kU) \<leftarrow> K;
        if iU \<or> kU \<or> iD \<or> kD then Some Deny
        else if kms_GrantSatisfied req then Some (if \<not> kA then Deny else Allow)
        else if \<not> kA then Some Deny
        else do { d \<leftarrow> Evaluate ctx docs; Some (if d \<noteq> Allow then Deny else Allow) } }"
      unfolding EvaluateKMS_def K_def policyEffectHits_def delegatedResourcePolicyEffectHits_def Let_def
        defs [symmetric] by (simp only: if_not_P [OF False])
    then have "EvaluateKMS req = Some Allow \<longleftrightarrow>
        (\<exists>a. policyEffectHitsWith ctx docs statementMatches = Some (False, a, False)) \<and>
        K = Some (False, True, False) \<and> (kms_GrantSatisfied req \<or> Evaluate ctx docs = Some Allow)"
      by (auto split: Option.bind_splits if_splits)
    also have "K = Some (False, True, False) \<longleftrightarrow> key \<noteq> [] \<and>
        policyEffectHitsWith ctx [key] resourceStatementMatchesDelegated = Some (False, True, False)"
      by (simp add: K_def)
    finally show ?thesis
      using False unfolding scan_clear by (auto simp: kms_spec_def defs Let_def)
  qed
qed

section \<open>Anonymous reads\<close>

definition anonymous_spec :: "AnonymousS3GetRequest \<Rightarrow> bool" where
  "anonymous_spec req \<longleftrightarrow>
     (let policy = TrimSpace (an_BucketPolicyDoc req); ctx = anonymous_caller req in
      (policy \<noteq> [] \<longrightarrow> quiet resourceStatementMatches ctx [policy] \<and>
                        \<not> hits resourceStatementMatches ctx [policy] ''Deny'') \<and>
      (policy \<noteq> [] \<and> hits resourceStatementMatches ctx [policy] ''Allow'' \<or>
       ObjectACLGrantsAnonymousRead (an_ObjectCannedACL req)))"

lemma EvaluateAnonymous_Allow: "EvaluateAnonymousS3GetObject req = Some Allow \<longleftrightarrow> anonymous_spec req"
proof (cases "TrimSpace (an_BucketPolicyDoc req) = []")
  case True
  then show ?thesis by (simp add: EvaluateAnonymousS3GetObject_def anonymous_spec_def)
next
  case False
  define ctx policy where "ctx = anonymous_caller req" and "policy = TrimSpace (an_BucketPolicyDoc req)"
  have "EvaluateAnonymousS3GetObject req = Some Allow \<longleftrightarrow>
      (\<exists>a. policyEffectHitsWith ctx [policy] resourceStatementMatches = Some (False, a, False) \<and>
           (a \<or> ObjectACLGrantsAnonymousRead (an_ObjectCannedACL req)))"
    using False unfolding EvaluateAnonymousS3GetObject_def resourcePolicyEffectHits_def ctx_def policy_def Let_def
    by (auto split: Option.bind_splits if_splits)
  with False show ?thesis
    unfolding scan_clear by (auto simp: anonymous_spec_def ctx_def policy_def)
qed

section \<open>Principals\<close>

text \<open>What account-level AWS principals add under delegation, and that nothing else changes.\<close>

lemma aws_loop_star:
  "aws_loop ps arn caller d \<longleftrightarrow>
     ''*'' \<in> set ps \<or> (arn \<noteq> [] \<and> arn \<in> set ps) \<or>
     (p_kind caller \<noteq> KindAnonymous \<and> (d \<or> IsRoot caller \<or> p_kind caller = KindRoot) \<and>
      (\<exists>p\<in>set ps. awsAccountPrincipal p (AccountID caller)))"
  by (induction ps) auto

lemma matchPrincipal_iff:
  "matchPrincipal spec caller d \<longleftrightarrow>
     ps_All spec \<or> ''*'' \<in> set (ps_Federated spec) \<or>
     (FederatedProviderARN caller \<noteq> [] \<and> FederatedProviderARN caller \<in> set (ps_Federated spec)) \<or>
     (FederatedProviderARN caller = [] \<and> (p_kind caller = KindFederated \<longrightarrow> ps_Federated spec = []) \<and>
      aws_loop (ps_AWS spec) (ARN caller) caller d)"
  by (auto simp: matchPrincipal_def list_ex_iff)

section \<open>Passing a role\<close>

lemma effect_scan_iff:
  "effect_scan test sts (d, a) = Some (d', a') \<longleftrightarrow>
     (\<forall>st\<in>set sts. test st \<noteq> None) \<and>
     d' = (d \<or> (\<exists>st\<in>set sts. test st = Some True \<and> EqualFold (st_Effect st) ''Deny'')) \<and>
     a' = (a \<or> (\<exists>st\<in>set sts. test st = Some True \<and> EqualFold (st_Effect st) ''Allow''))"
proof (induction sts arbitrary: d a)
  case (Cons st sts)
  show ?case
  proof (cases "test st")
    case (Some m)
    then show ?thesis
      using effect_exclusive [of "st_Effect st"] by (cases m) (auto simp: Cons.IH cong: if_cong)
  qed simp
qed auto

text \<open>The statements of a trust document that apply to a service.\<close>

definition trust_spec :: "string \<Rightarrow> string \<Rightarrow> cond_keys \<Rightarrow> bool" where
  "trust_spec trustDoc svc keys \<longleftrightarrow>
     trustDoc \<noteq> [] \<and> svc \<noteq> [] \<and>
     (\<forall>st\<in>set (statements_of [trustDoc]). trustServiceStatementMatches st svc keys \<noteq> None) \<and>
     (\<exists>st\<in>set (statements_of [trustDoc]).
        trustServiceStatementMatches st svc keys = Some True \<and> EqualFold (st_Effect st) ''Allow'') \<and>
     (\<forall>st\<in>set (statements_of [trustDoc]).
        trustServiceStatementMatches st svc keys = Some True \<longrightarrow> \<not> EqualFold (st_Effect st) ''Deny'')"

lemma TrustAllows_iff: "TrustAllowsServiceWithKeys trustDoc svc keys = Some True \<longleftrightarrow> trust_spec trustDoc svc keys"
proof (cases "trustDoc = [] \<or> svc = []")
  case False
  show ?thesis
  proof (cases "parsePolicyDocument trustDoc")
    case None
    then show ?thesis using False by (simp add: TrustAllowsServiceWithKeys_def trust_spec_def)
  next
    case (Some doc)
    let ?scan = "effect_scan (\<lambda>st. trustServiceStatementMatches st svc keys) (pd_Statement doc) (False, False)"
    have "TrustAllowsServiceWithKeys trustDoc svc keys = Some True \<longleftrightarrow> ?scan = Some (False, True)"
      using False Some by (cases ?scan) (auto simp: TrustAllowsServiceWithKeys_def split: if_splits)
    then show ?thesis
      using False Some unfolding effect_scan_iff by (auto simp: trust_spec_def)
  qed
qed (auto simp: TrustAllowsServiceWithKeys_def trust_spec_def)

definition pass_role_inputs :: "PassRoleRequest \<Rightarrow> EvalInputs" where
  "pass_role_inputs req =
     (if in_IdentityDocs (pr_EvalInputs req) = None
      then (pr_EvalInputs req)\<lparr>in_IdentityDocs := pr_IdentityDocs req\<rparr> else pr_EvalInputs req)"

lemma CheckPassRole_Allow:
  "CheckPassRole req = Some Allow \<longleftrightarrow>
     full_spec (passRoleContext req) (pass_role_inputs req) \<and>
     trust_spec (pr_TrustPolicyDoc req) (pr_ServicePrincipal req) (passRoleTrustConditionKeys req)"
proof -
  have "CheckPassRole req = Some Allow \<longleftrightarrow>
      EvaluateFull (passRoleContext req) (pass_role_inputs req) = Some Allow \<and>
      TrustAllowsServiceWithKeys (pr_TrustPolicyDoc req) (pr_ServicePrincipal req)
        (passRoleTrustConditionKeys req) = Some True"
    unfolding CheckPassRole_def pass_role_inputs_def Let_def by (auto split: Option.bind_splits if_splits)
  then show ?thesis by (simp add: EvaluateFull_Allow TrustAllows_iff)
qed

section \<open>Assuming a role\<close>

lemma EvaluateCrossAccount_Allow:
  "EvaluateCrossAccount req = Some Allow \<longleftrightarrow>
     Evaluate (ca_Caller req) (ca_CallerIdentityDocs req) = Some Allow \<and> ca_TrustPolicyDoc req \<noteq> [] \<and>
     quiet trustStatementMatches (ca_Caller req) [ca_TrustPolicyDoc req] \<and>
     \<not> hits trustStatementMatches (ca_Caller req) [ca_TrustPolicyDoc req] ''Deny'' \<and>
     hits trustStatementMatches (ca_Caller req) [ca_TrustPolicyDoc req] ''Allow''"
proof -
  have trust: "evaluateTrust ctx doc =
      (if doc = [] then Some (False, False, False) else policyEffectHitsWith ctx [doc] trustStatementMatches)"
    for ctx doc
    by (auto simp: evaluateTrust_def policyEffectHitsWith_def docs_scan_stmts split: option.splits)
  have "EvaluateCrossAccount req = Some Allow \<longleftrightarrow>
      Evaluate (ca_Caller req) (ca_CallerIdentityDocs req) = Some Allow \<and>
      evaluateTrust (ca_Caller req) (ca_TrustPolicyDoc req) = Some (False, True, False)"
    by (auto simp: EvaluateCrossAccount_def split: Option.bind_splits if_splits)
  then show ?thesis
    unfolding trust by (auto simp: scan_clear)
qed

end
