(* ===== verification/Authz_Props.thy ===== *)
theory Authz_Props
  imports Samples Authz_Spec
begin

text \<open>
  The properties of the policy evaluation, with their applications to concrete documents.
\<close>

declare globMatch_result [authz_simps] glob_result_def [authz_simps] star_free_def [authz_simps]
  literal_head_def [authz_simps] one_match_def [authz_simps]
  stringLikeMatch_def [authz_simps] matchPattern_def [authz_simps] actionsMatch_def [authz_simps]
  resourcesMatch_def [authz_simps] effect_known_def [authz_simps] EqualFold_def [authz_simps]
  char_lower_def [authz_simps] char_of_def [authz_simps] bit_Suc_0_iff [authz_simps]
  conditionCatalogUnknown_def [authz_simps] conditionApplies_def [authz_simps] outcome_pair_def [authz_simps]
  statementMatches_def [authz_simps] resourceStatementMatches_def [authz_simps]
  resourceStatementMatchesDelegated_def [authz_simps] resourceStatementBodyMatches_def [authz_simps]
  trustStatementMatches_def [authz_simps] principalMatches_def [authz_simps]
  principalMatchesDelegatedAccount_def [authz_simps] matchPrincipal_def [authz_simps]
  policyEffectHits_def [authz_simps] policyEffectHitsWith_def [authz_simps] evaluatePolicies_def [authz_simps]
  Evaluate_def [authz_simps] denyScanFull_def [authz_simps] denyScanDocs_def [authz_simps]
  identity_docs_def [authz_simps] EvaluateFull_def [authz_simps] orgFilterAllows_def [authz_simps]
  op_unknown_def [authz_simps] parseConditionOperator_def [authz_simps] knownConditionOperator_def [authz_simps]
  operator_lists [authz_simps] principal_defs [authz_simps] suffix_to_prefix [authz_simps]
  HasPrefix_def [authz_simps] HasSuffix_def [authz_simps] TrimPrefix_def [authz_simps]
  TrimSpace_graphic [authz_simps] graphic_def [authz_simps] seg_match_Nil [authz_simps] seg_match_Cons [authz_simps]

section \<open>Sample requests\<close>

definition alice :: principal where
  "alice = UserPrincipal ''123456789012'' ''alice'' ''AKIAEXAMPLE''"

definition request :: "string \<Rightarrow> RequestContext" where
  "request action = \<lparr>rc_Principal = alice, rc_Action = action, rc_Resource = ''arn:aws:s3:::b/k'',
     rc_Region = ''us-east-1'', rc_ConditionKeys = Map.empty\<rparr>"

definition inputs :: "string list \<Rightarrow> string list \<Rightarrow> EvalInputs" where
  "inputs identity scps = \<lparr>in_IdentityDocs = Some identity, in_BoundaryDoc = [], in_SessionDocs = [],
     in_SCPDocs = scps, in_RCPDocs = [], in_IsManagementAccount = False\<rparr>"

definition only_statement :: "string \<Rightarrow> statement" where
  "only_statement raw = hd (pd_Statement (the (parsePolicyDocument raw)))"

lemmas sample_simps = only_statement_def authz_simps parse_samples alice_def request_def inputs_def

section \<open>The spine\<close>

text \<open>C1. \<open>EvaluateFull\<close> implements its specification: it allows exactly when no document that applies has a
  matching Deny, an unknown key or an unknown operator, every SCP (outside the management account) and
  every RCP allows, the identity policies allow (or the caller is root), the boundary allows (if there
  is one and the caller is not root), and the session policies allow (if there are any).\<close>

theorem EvaluateFull_spec: "EvaluateFull ctx inp = Some Allow \<longleftrightarrow> full_spec ctx inp"
  by (rule EvaluateFull_Allow)

text \<open>C2. Deny overrides: when a Deny statement matches in any document that applies, an evaluation that
  returns denies, whatever the other documents allow and also for the root user.\<close>

theorem EvaluateFull_deny_overrides:
  assumes "raw \<in> set (denyScanDocs ctx inp)" "parsePolicyDocument raw = Some doc" "st \<in> set (pd_Statement doc)"
    and "EqualFold (st_Effect st) ''Deny''" "statementMatches st ctx = Some (True, False)"
    and "EvaluateFull ctx inp = Some d"
  shows "d = Deny"
proof -
  have "st \<in> set (statements_of (denyScanDocs ctx inp))"
    using assms(1-3) by (rule statements_of_in)
  then have "id_hits ctx (denyScanDocs ctx inp) ''Deny''"
    using assms(4,5) by (auto simp: hits_def)
  then show ?thesis using assms(6) by (rule EvaluateFull_Deny_if)
qed

lemma EvaluateFull_deny_sample:
  "EvaluateFull (request ''s3:GetObject'') (inputs [doc_allow_all, doc_deny_s3] []) = Some Deny"
  by (simp add: sample_simps)

theorem EvaluateFull_deny_overrides_witness:
  "\<exists>d. EvaluateFull (request ''s3:GetObject'') (inputs [doc_allow_all, doc_deny_s3] []) = Some d \<and> d = Deny"
proof -
  have "Deny = Deny"
    by (rule EvaluateFull_deny_overrides [where st = "only_statement doc_deny_s3",
        OF _ parse_doc_deny_s3 _ _ _ EvaluateFull_deny_sample])
      (simp_all add: sample_simps)
  with EvaluateFull_deny_sample show ?thesis by auto
qed

text \<open>C6. Filters only restrict: SCPs, RCPs, a boundary and session policies never make a request allowed
  that the identity policies alone do not allow, and without them what was allowed stays allowed.\<close>

theorem EvaluateFull_filters_only_restrict:
  assumes "EvaluateFull ctx inp = Some Allow"
  shows "Evaluate ctx (identity_docs inp) = Some Allow \<and>
    EvaluateFull ctx (inp\<lparr>in_BoundaryDoc := [], in_SessionDocs := [], in_SCPDocs := [], in_RCPDocs := []\<rparr>) = Some Allow"
    (is "_ \<and> EvaluateFull ctx ?bare = _")
proof -
  have full: "full_spec ctx inp" using assms by (simp add: EvaluateFull_Allow)
  have sub: "set (denyScanDocs ctx ?bare) \<subseteq> set (denyScanDocs ctx inp)"
    by (auto simp: denyScanDocs_def identity_docs_def)
  have same: "identity_docs ?bare = identity_docs inp" by (simp add: identity_docs_def)
  have "full_spec ctx ?bare"
    using full scan_subset [OF sub] same
    by (auto simp: full_spec_def has_boundary_def)
  moreover have "Evaluate ctx (identity_docs inp) = Some Allow"
    using assms by (simp add: EvaluateFull_chain)
  ultimately show ?thesis by (simp add: EvaluateFull_Allow)
qed

lemma EvaluateFull_allow_sample:
  "EvaluateFull (request ''s3:GetObject'') (inputs [doc_allow_all] [doc_allow_all]) = Some Allow"
  by (simp add: sample_simps)

theorem EvaluateFull_filters_only_restrict_witness:
  "Evaluate (request ''s3:GetObject'') (identity_docs (inputs [doc_allow_all] [doc_allow_all])) = Some Allow"
  using EvaluateFull_filters_only_restrict [OF EvaluateFull_allow_sample] by blast

text \<open>The order of the documents does not matter, nor do repetitions: two evaluations over the same sets
  of documents that both return give the same decision.\<close>

theorem EvaluateFull_order:
  assumes "same_docs i j" "EvaluateFull ctx i = Some d" "EvaluateFull ctx j = Some d'"
  shows "d = d'"
  by (rule decided_by_Allow [OF assms(2,3)])
    (simp only: EvaluateFull_Allow full_spec_same [OF assms(1)])

theorem EvaluateFull_order_witness:
  "EvaluateFull (request ''s3:GetObject'') (inputs [doc_deny_s3, doc_allow_all] []) = Some Deny"
proof -
  have r: "EvaluateFull (request ''s3:GetObject'') (inputs [doc_deny_s3, doc_allow_all] []) \<noteq> None"
    by (simp add: sample_simps)
  then obtain d where d: "EvaluateFull (request ''s3:GetObject'') (inputs [doc_deny_s3, doc_allow_all] []) = Some d"
    by auto
  have "same_docs (inputs [doc_deny_s3, doc_allow_all] []) (inputs [doc_allow_all, doc_deny_s3] [])"
    by (auto simp: same_docs_def inputs_def identity_docs_def)
  then have "d = Deny" using d EvaluateFull_deny_sample by (rule EvaluateFull_order)
  with d show ?thesis by simp
qed

text \<open>C5. An unknown condition key or operator in any statement of any document that applies fails closed: the
  evaluation denies every request it returns for, also those the statement has nothing to do with.\<close>

theorem EvaluateFull_unknown_key_denies:
  assumes "raw \<in> set (denyScanDocs ctx inp)" "parsePolicyDocument raw = Some doc" "st \<in> set (pd_Statement doc)"
    and "conditionCatalogUnknown (st_Condition st) = Some True" "EvaluateFull ctx inp = Some d"
  shows "d = Deny"
proof -
  have "st \<in> set (statements_of (denyScanDocs ctx inp))"
    using assms(1-3) by (rule statements_of_in)
  then show ?thesis using assms(4,5) by (rule EvaluateFull_unknown)
qed

theorem EvaluateFull_unknown_key_denies_witness:
  "EvaluateFull (request ''s3:GetObject'') (inputs [doc_allow_all, doc_deny_typo] []) = Some Deny"
proof -
  have u: "conditionCatalogUnknown (Some (JObj [(''StringEqual'', JObj [(''aws:SourceIp'', JStr ''x'')])])) = Some True"
    by (simp add: sample_simps)
  have "EvaluateFull (request ''s3:GetObject'') (inputs [doc_allow_all, doc_deny_typo] []) \<noteq> None"
    by (simp add: sample_simps)
  then obtain d where d: "EvaluateFull (request ''s3:GetObject'') (inputs [doc_allow_all, doc_deny_typo] []) = Some d"
    by auto
  have "d = Deny"
    by (rule EvaluateFull_unknown_key_denies [where st = "only_statement doc_deny_typo",
        OF _ parse_doc_deny_typo _ _ d]) (simp_all add: u sample_simps)
  with d show ?thesis by simp
qed

section \<open>Identity and session policies\<close>

text \<open>A session allows exactly what both the identity policies and the session policies allow; without
  session policies it is the identity evaluation.\<close>

theorem EvaluateWithSession_intersection:
  "EvaluateWithSession ctx docs sess = Some Allow \<longleftrightarrow>
   Evaluate ctx docs = Some Allow \<and> (sess = [] \<or> evaluatePolicies ctx sess = Some Allow)"
  by (rule EvaluateWithSession_Allow)

text \<open>A document that cannot be decoded is skipped: it neither allows nor denies. A \<open>Statement\<close> given as a
  single object, which \<open>validate.PolicyDocument\<close> lets a client store, is such a document, so that a Deny in it
  has no effect.\<close>

lemma dec_doc_object_statement:
  assumes "(k, JObj st) \<in> set kvs" "EqualFold k ''Statement''"
  shows "dec_doc (JObj kvs) = None"
proof -
  have "\<not> EqualFold k ''Version''"
  proof
    assume "EqualFold k ''Version''"
    with assms(2) have "EqualFold ''Statement'' ''Version''" by (meson EqualFold_sym EqualFold_trans)
    then show False by (simp add: authz_simps)
  qed
  then have none: "dec_doc_field d (k, JObj st) = None" for d
    using assms(2) by (cases d) (simp add: dec_doc_field_def)
  have "fold_opt dec_doc_field d kvs = None" for d
    using assms(1)
  proof (induction kvs arbitrary: d)
    case (Cons kv kvs)
    show ?case
    proof (cases "kv = (k, JObj st)")
      case True
      then show ?thesis by (simp add: none)
    next
      case False
      with Cons have "fold_opt dec_doc_field d' kvs = None" for d' by simp
      then show ?thesis by (cases "dec_doc_field d kv") simp_all
    qed
  qed simp
  then show ?thesis by simp
qed

theorem single_object_statement_ignored:
  assumes "json_parse raw = Some (JObj kvs)" "(k, JObj st) \<in> set kvs" "EqualFold k ''Statement''"
  shows "evaluatePolicies ctx (raw # docs) = evaluatePolicies ctx docs"
  using assms dec_doc_object_statement
  by (simp add: evaluatePolicies_def parsePolicyDocument_def)

definition doc_deny_object :: string where
  "doc_deny_object =
    ''{\"Version\":\"2012-10-17\",\"Statement\":{\"Effect\":\"Deny\",\"Action\":\"*\",\"Resource\":\"*\"}}''"

lemma json_deny_object:
  "json_parse doc_deny_object = Some (JObj [(''Version'', JStr ''2012-10-17''),
     (''Statement'', JObj [(''Effect'', JStr ''Deny''), (''Action'', JStr ''*''), (''Resource'', JStr ''*'')])])"
  by code_simp

theorem single_object_statement_ignored_witness:
  "evaluatePolicies (request ''s3:GetObject'') [doc_deny_object, doc_allow_all] = Some Allow"
proof -
  have "evaluatePolicies (request ''s3:GetObject'') [doc_deny_object, doc_allow_all] =
      evaluatePolicies (request ''s3:GetObject'') [doc_allow_all]"
    by (rule single_object_statement_ignored [OF json_deny_object, of "''Statement''"]) simp_all
  also have "\<dots> = Some Allow" by (simp add: sample_simps)
  finally show ?thesis .
qed

section \<open>Globs\<close>

text \<open>C3. \<open>globMatch\<close> against the meaning of a pattern: on a match it answers true; on a mismatch it answers
  false if the pattern has no star or its literal part before the first star already fails, and
  otherwise never returns.\<close>

theorem globMatch_exact:
  "globMatch pattern value q =
     (if glob_spec q pattern value then Some True
      else if \<not> star_free pattern \<and> seg_match q (literal_head pattern) value then None
      else Some False)"
  by (simp add: globMatch_result glob_result_def)

text \<open>Without a star, or with its only star at the end (\<open>s3:*\<close>), a pattern always gets an answer, the right
  one.\<close>

theorem globMatch_answers:
  assumes "star_free lit"
  shows "globMatch lit value q = Some (glob_spec q lit value) \<and>
         globMatch (lit @ ''*'') value q = Some (glob_spec q (lit @ ''*'') value)"
  using assms globMatch_total [OF assms] glob_spec_trailing [OF assms] by simp

theorem globMatch_answers_witness:
  "globMatch (''s3:'' @ ''*'') ''ec2:Run'' False = Some False"
  using globMatch_answers [of "''s3:''" "''ec2:Run''" False] by (simp add: star_free_def)


section \<open>Resource policies, keys, roles\<close>

text \<open>C4. \<open>EvaluateResourceAccess\<close> (and so S3, SQS, SNS and DynamoDB requests) implements its specification:
  nothing unknown and no Deny in the identity policies (root excepted) or, with accounts as delegates, in
  the resource policy; then across accounts both the identity and the resource policy must allow, in one
  account either is enough, the resource policy only for a principal it names directly.\<close>

theorem EvaluateResourceAccess_spec:
  "(EvaluateResourceAccess req = Some Allow \<longleftrightarrow> resource_spec req) \<and>
   (EvaluateSQS q = Some Allow \<longleftrightarrow>
    resource_spec \<lparr>ra_Caller = sqs_Caller q, ra_IdentityDocs = sqs_IdentityDocs q,
      ra_ResourcePolicyDoc = sqs_QueuePolicyDoc q, ra_ResourceAccountID = sqs_ResourceAccountID q\<rparr>)"
  by (simp add: EvaluateResourceAccess_Allow EvaluateSQS_def)

text \<open>A key-scoped KMS request is allowed only if the key policy itself allows it: with or without a grant, an
  identity policy or the root user alone is never enough, and no grant outweighs a Deny or an unknown key.\<close>

theorem EvaluateKMS_key_policy_required:
  "EvaluateKMS req = Some Allow \<longleftrightarrow> kms_spec req"
  by (rule EvaluateKMS_Allow)

text \<open>An anonymous read is allowed exactly when the bucket policy allows it for everyone or the object's ACL
  does, and never against a Deny of the bucket policy.\<close>

theorem EvaluateAnonymousS3GetObject_spec:
  "EvaluateAnonymousS3GetObject req = Some Allow \<longleftrightarrow> anonymous_spec req"
  by (rule EvaluateAnonymous_Allow)

text \<open>Who a Principal element names: an anonymous caller only by a star; a signed, unfederated caller by its
  ARN too; and the account, in the delegating evaluations, names everyone in it, elsewhere only its root user.\<close>

theorem principal_element_names:
  "matchPrincipal spec (AnonymousPrincipal acct) d \<longleftrightarrow>
     (ps_All spec \<or> ''*'' \<in> set (ps_Federated spec) \<or> ''*'' \<in> set (ps_AWS spec)) \<and>
   matchPrincipal \<lparr>ps_All = False, ps_AWS = aws, ps_Service = svc, ps_Federated = []\<rparr>
     (UserPrincipal acct user akid) d =
     (''*'' \<in> set aws \<or> (user \<noteq> [] \<and> ''arn:aws:iam::'' @ acct @ '':user/'' @ user \<in> set aws) \<or>
      (d \<and> (\<exists>p\<in>set aws. awsAccountPrincipal p acct)))"
  by (auto simp: matchPrincipal_iff aws_loop_star principal_defs ARN_def)

text \<open>Delegation only widens: whoever a Principal element names directly it also names under delegation, and
  under delegation the only further callers are the signed ones of an account it lists.\<close>

theorem delegation_only_widens:
  "matchPrincipal spec caller True \<longleftrightarrow>
     matchPrincipal spec caller False \<or>
     (FederatedProviderARN caller = [] \<and> \<not> (p_kind caller = KindFederated \<and> ps_Federated spec \<noteq> []) \<and>
      p_kind caller \<noteq> KindAnonymous \<and> (\<exists>p\<in>set (ps_AWS spec). awsAccountPrincipal p (AccountID caller)))"
  by (auto simp: matchPrincipal_iff aws_loop_star)

text \<open>C7. \<open>CheckPassRole\<close> allows exactly when the full spine allows \<open>iam:PassRole\<close> on the role, with the service in
  \<open>iam:PassedToService\<close>, and the role's trust policy allows that service and does not deny it.\<close>

theorem CheckPassRole_spec:
  "CheckPassRole req = Some Allow \<longleftrightarrow>
     EvaluateFull (passRoleContext req) (pass_role_inputs req) = Some Allow \<and>
     rc_Action (passRoleContext req) = ''iam:PassRole'' \<and> rc_Resource (passRoleContext req) = pr_RoleARN req \<and>
     rc_ConditionKeys (passRoleContext req) ''iam:PassedToService'' = Some (pr_ServicePrincipal req) \<and>
     trust_spec (pr_TrustPolicyDoc req) (pr_ServicePrincipal req) (passRoleTrustConditionKeys req)"
proof -
  have none: "\<not> trust_spec doc [] k" for doc k
    by (simp add: trust_spec_def)
  show ?thesis
    by (auto simp: none CheckPassRole_Allow EvaluateFull_Allow passRoleContext_def Let_def)
qed

text \<open>C8. Assuming a role needs both sides: the caller's identity policies (or root) and a statement of the trust
  policy; nothing of the trust policy may deny or be unknown.\<close>

theorem EvaluateCrossAccount_spec:
  "EvaluateCrossAccount req = Some Allow \<longleftrightarrow>
     Evaluate (ca_Caller req) (ca_CallerIdentityDocs req) = Some Allow \<and> ca_TrustPolicyDoc req \<noteq> [] \<and>
     quiet trustStatementMatches (ca_Caller req) [ca_TrustPolicyDoc req] \<and>
     \<not> hits trustStatementMatches (ca_Caller req) [ca_TrustPolicyDoc req] ''Deny'' \<and>
     hits trustStatementMatches (ca_Caller req) [ca_TrustPolicyDoc req] ''Allow''"
  by (rule EvaluateCrossAccount_Allow)

text \<open>The trust of a service does not fail closed: where \<open>sts:AssumeRole\<close> is denied under a misspelt operator
  the Deny is skipped and the service is trusted, while the evaluation of the same document for a caller
  that assumes the role denies.\<close>

definition assume_request :: CrossAccountRequest where
  "assume_request = \<lparr>ca_Caller = request ''sts:AssumeRole'', ca_CallerIdentityDocs = [doc_allow_all],
     ca_TrustPolicyDoc = doc_trust_typo\<rparr>"

theorem service_trust_skips_unknown_deny:
  "TrustAllowsService doc_trust_typo ServicePrincipalLambda = Some True \<and>
   EvaluateCrossAccount assume_request = Some Deny"
proof
  show "TrustAllowsService doc_trust_typo ServicePrincipalLambda = Some True"
    by (simp add: TrustAllowsService_def TrustAllowsServiceWithKeys_def ServicePrincipalLambda_def
        trustServiceStatementMatches_def principalServiceMatches_def doc_trust_typo_nonempty sample_simps)
  show "EvaluateCrossAccount assume_request = Some Deny"
    by (simp add: EvaluateCrossAccount_def evaluateTrust_def assume_request_def doc_trust_typo_nonempty sample_simps)
qed

section \<open>Conditions\<close>

text \<open>The order of the operators of a Condition does not matter: two evaluations of it, in any two orders, that
  both return agree, once the catalog check has passed.\<close>

theorem conditionApplies_order_irrelevant:
  assumes "distinct (map fst ops)" "mset ops' = mset ops"
    and "conditionCatalogUnknown (Some (JObj ops)) = Some False"
    and "conditionApplies (Some (JObj ops)) keys = Some r" "conditionApplies (Some (JObj ops')) keys = Some r'"
  shows "r = r' \<and> r \<noteq> condCatalogUnknown"
  using conditionApplies_order [OF assms] conditionApplies_not_unknown [OF assms(3), of keys] assms(4) by auto

definition two_conditions :: "(string \<times> json) list" where
  "two_conditions =
     [(''StringEquals'', JObj [(''aws:SourceAccount'', JStr ''123456789012'')]),
      (''StringLike'', JObj [(''aws:SourceArn'', JStr ''arn:*'')])]"

lemma known_sources: "Known ''aws:SourceAccount'' = Some True" "Known ''aws:SourceArn'' = Some True"
  by (simp_all add: Known_exact knownExact_def known_keys_a_def known_keys_b_def known_keys_c_def)

theorem conditionApplies_order_irrelevant_witness:
  "conditionApplies (Some (JObj (rev two_conditions)))
     [''aws:SourceAccount'' \<mapsto> ''123456789012'', ''aws:SourceArn'' \<mapsto> ''arn:aws:sns:x''] = Some condMatch"
proof -
  let ?keys = "[''aws:SourceAccount'' \<mapsto> ''123456789012'', ''aws:SourceArn'' \<mapsto> ''arn:aws:sns:x'']"
  have u: "conditionCatalogUnknown (Some (JObj two_conditions)) = Some False"
    and a: "conditionApplies (Some (JObj two_conditions)) ?keys = Some condMatch"
    and b: "conditionApplies (Some (JObj (rev two_conditions))) ?keys \<noteq> None"
    by (simp_all add: sample_simps two_conditions_def known_sources op_outcome_def key_outcome_def
        operatorMatches_def conditionValuesMatch_def)
  from b obtain r' where r': "conditionApplies (Some (JObj (rev two_conditions))) ?keys = Some r'" by auto
  have "condMatch = r' \<and> condMatch \<noteq> condCatalogUnknown"
    by (rule conditionApplies_order_irrelevant [OF _ _ u a r']) (simp_all add: two_conditions_def)
  with r' show ?thesis by simp
qed

text \<open>A key the request does not carry fails every plain positive operator and satisfies every \<open>IfExists\<close>
  one, whatever the values.\<close>

theorem missing_key_outcomes:
  assumes "op \<in> set positive_operators"
  shows "operatorMatches op actual False expected = Some (False, True) \<and>
         operatorMatches (op @ ''IfExists'') actual False expected = Some (True, True)"
  using missing_key_positive [OF assms] by simp

theorem missing_key_outcomes_witness:
  "operatorMatches ''IpAddress'' [] False [''10.0.0.0/8''] = Some (False, True)"
  using missing_key_outcomes [of "''IpAddress''" "[]" "[''10.0.0.0/8'']"] by (simp add: positive_operators_def)

text \<open>A template of the catalog matches a key that has its prefix and its suffix with something between; a key
  in which the two overlap makes the lookup panic.\<close>

theorem templateMatch_exact:
  assumes "CHR ''$'' \<notin> set pre" "CHR ''}'' \<notin> set name"
  shows "templateMatch (pre @ ''${'' @ name @ ''}'' @ suf) key =
    (if prefix pre key \<and> suffix suf key then
       if length key < length pre + length suf then None
       else Some (length pre + length suf < length key)
     else Some False)"
  using assms by (rule templateMatch_dollar)

theorem templateMatch_exact_witness:
  "templateMatch ''token.actions.${Domain}.ghe.com:actor'' ''token.actions.ghe.com:actor'' = None"
  using templateMatch_exact [of "''token.actions.''" "''Domain''" "''.ghe.com:actor''" "''token.actions.ghe.com:actor''"]
  by (simp add: suffix_to_prefix)

text \<open>The catalog lookup of the key \<open>token.actions.ghe.com:actor\<close> panics, in whatever order the catalog is
  visited, and so does every evaluation of a statement conditioned on it.\<close>

lemma ghe_panics: "template_panics ''token.actions.ghe.com:actor''"
  unfolding template_panics_def catalog_templates_defs
  by (simp add: templateMatch_first,
      simp add: templateMatch_def HasPrefix_def HasSuffix_def slice_def suffix_to_prefix Let_def)

theorem Known_panics:
  assumes "mset catalog = mset knownExact"
  shows "any_opt (\<lambda>p. templateMatch p ''token.actions.ghe.com:actor'') catalog = None \<and>
         Known ''token.actions.ghe.com:actor'' = None"
proof
  show "any_opt (\<lambda>p. templateMatch p ''token.actions.ghe.com:actor'') catalog = None"
    by (rule template_panics_order [OF ghe_panics assms])
  show "Known ''token.actions.ghe.com:actor'' = None"
    by (rule Known_template_panics [OF _ _ ghe_panics])
      (simp_all add: knownExact_def known_keys_a_def known_keys_b_def known_keys_c_def labExact_def)
qed

theorem Known_panics_witness:
  "any_opt (\<lambda>p. templateMatch p ''token.actions.ghe.com:actor'') (rev knownExact) = None"
  using Known_panics [of "rev knownExact"] by simp

end
