(* ===== verification/Go_Json_Print.thy ===== *)
theory Go_Json_Print
  imports Go_Json Go_Float "HOL-Library.Product_Lexorder"
begin

text \<open>
  The printing half of Go's \<open>encoding/json\<close>: \<open>json.Marshal\<close> of strings, of maps (keys sorted) and of
  the trees that \<open>Unmarshal\<close> builds for \<open>any\<close>. Bytes that are not UTF-8 are written as the escape of
  U+FFFD, and the characters that matter to HTML are escaped. The round trip through a column of
  type \<open>map[string]string\<close> is \<open>unmarshal_marshal_map\<close>.
\<close>

section \<open>Strings\<close>

definition lead_len :: "nat list \<Rightarrow> nat" where
  "lead_len bs =
     (case bs of
        [] \<Rightarrow> 0
      | a # as \<Rightarrow>
          if a < 128 then 1
          else if 194 \<le> a \<and> a < 224 then
            (case as of b # _ \<Rightarrow> if cont_byte b then 2 else 0 | _ \<Rightarrow> 0)
          else if 224 \<le> a \<and> a < 240 then
            (case as of
               b # c # _ \<Rightarrow>
                 if cont_byte b \<and> cont_byte c \<and> (a = 224 \<longrightarrow> 160 \<le> b) \<and> (a = 237 \<longrightarrow> b < 160)
                 then 3 else 0
             | _ \<Rightarrow> 0)
          else if 240 \<le> a \<and> a < 245 then
            (case as of
               b # c # d # _ \<Rightarrow>
                 if cont_byte b \<and> cont_byte c \<and> cont_byte d \<and> (a = 240 \<longrightarrow> 144 \<le> b) \<and> (a = 244 \<longrightarrow> b < 144)
                 then 4 else 0
             | _ \<Rightarrow> 0)
          else 0)"

lemma utf8_len_lead: "utf8_len s = lead_len (map byte_of (take 4 s))"
  by (simp only: utf8_len_def lead_len_def)

lemma lead_len_prefix:
  assumes "lead_len bs = k" "0 < k"
  shows "k \<le> 4 \<and> k \<le> length bs \<and> lead_len (take k bs @ cs) = k \<and> (1 < k) = (128 \<le> hd bs)"
proof -
  consider "bs = []" | a where "bs = [a]" | a b where "bs = [a, b]" | a b c where "bs = [a, b, c]"
    | a b c d r where "bs = a # b # c # d # r"
    by (metis list.exhaust)
  then show ?thesis
    using assms by cases (auto simp: lead_len_def split: if_splits)
qed

lemma utf8_len_le: "utf8_len s \<le> length s"
proof (cases "utf8_len s = 0")
  case False
  then have "utf8_len s \<le> length (map byte_of (take 4 s))"
    using lead_len_prefix [of "map byte_of (take 4 s)" "utf8_len s"] by (simp add: utf8_len_lead)
  then show ?thesis by simp
qed simp

function coerce_utf8 :: "string \<Rightarrow> string" where
  "coerce_utf8 [] = []"
| "coerce_utf8 (c # cs) =
     (let k = utf8_len (c # cs)
      in if k = 0 then [CHR 0xEF, CHR 0xBF, CHR 0xBD] @ coerce_utf8 cs
         else take k (c # cs) @ coerce_utf8 (drop k (c # cs)))"
  by pat_completeness auto
termination
  by (relation "measure length") auto

definition escape_ascii :: "char \<Rightarrow> string" where
  "escape_ascii c =
     (if c = CHR 0x22 \<or> c = CHR 0x5C then [CHR 0x5C, c]
      else if c = CHR 0x08 then [CHR 0x5C, CHR ''b'']
      else if c = CHR 0x0C then [CHR 0x5C, CHR ''f'']
      else if c = CHR 0x0A then [CHR 0x5C, CHR ''n'']
      else if c = CHR 0x0D then [CHR 0x5C, CHR ''r'']
      else if c = CHR 0x09 then [CHR 0x5C, CHR ''t'']
      else if byte_of c < 32 \<or> c = CHR ''<'' \<or> c = CHR ''>'' \<or> c = CHR ''&'' then
        [CHR 0x5C, CHR ''u'', CHR ''0'', CHR ''0'',
         hex_char_lower (byte_of c div 16), hex_char_lower (byte_of c mod 16)]
      else [c])"

definition escape_rune :: "string \<Rightarrow> string" where
  "escape_rune r =
     (if r = [CHR 0xE2, CHR 0x80, CHR 0xA8] then CHR 0x5C # ''u2028''
      else if r = [CHR 0xE2, CHR 0x80, CHR 0xA9] then CHR 0x5C # ''u2029''
      else r)"

function json_escape :: "string \<Rightarrow> string" where
  "json_escape [] = []"
| "json_escape (c # cs) =
     (let k = utf8_len (c # cs)
      in if k = 0 then (CHR 0x5C # ''ufffd'') @ json_escape cs
         else if k = 1 then escape_ascii c @ json_escape cs
         else escape_rune (take k (c # cs)) @ json_escape (drop k (c # cs)))"
  by pat_completeness auto
termination
  by (relation "measure length") auto

declare coerce_utf8.simps(2) [simp del] json_escape.simps(2) [simp del]

definition quote :: "string \<Rightarrow> string" where
  "quote s = CHR 0x22 # json_escape s @ [CHR 0x22]"

section \<open>Numbers: the shortest decimal that reads back as the same float64\<close>

text \<open>The decimal exponent of a positive rational.\<close>

fun dec_exponent :: "nat \<Rightarrow> rat \<Rightarrow> int" where
  "dec_exponent 0 q = 0"
| "dec_exponent (Suc n) q =
     (if 10 \<le> q then 1 + dec_exponent n (q / 10)
      else if q < 1 then dec_exponent n (q * 10) - 1 else 0)"

definition pow10 :: "int \<Rightarrow> rat" where
  "pow10 k = (if 0 \<le> k then 10 ^ nat k else 1 / 10 ^ nat (- k))"

fun shortest_from :: "nat \<Rightarrow> rat \<Rightarrow> int \<Rightarrow> int \<Rightarrow> int \<times> int" where
  "shortest_from 0 q e p = (\<lfloor>q / pow10 (e - 16)\<rfloor>, e - 16)"
| "shortest_from (Suc n) q e p =
     (let u = pow10 (e - p + 1); lo = \<lfloor>q / u\<rfloor>;
          ok = (\<lambda>d. round_pos (of_int d * u) = q)
      in if ok lo \<and> (\<not> ok (lo + 1) \<or> q - of_int lo * u < of_int (lo + 1) * u - q \<or>
           q - of_int lo * u = of_int (lo + 1) * u - q \<and> even lo) then (lo, e - p + 1)
         else if ok (lo + 1) then (lo + 1, e - p + 1)
         else shortest_from n q e (p + 1))"

fun strip_zeros :: "nat \<Rightarrow> int \<times> int \<Rightarrow> int \<times> int" where
  "strip_zeros 0 de = de"
| "strip_zeros (Suc n) (d, e) = (if d mod 10 = 0 \<and> d \<noteq> 0 then strip_zeros n (d div 10, e + 1) else (d, e))"

text \<open>\<open>floatEncoder\<close>: plain notation between 1e-6 and 1e21, else an exponent.\<close>

definition print_pos_float :: "rat \<Rightarrow> string" where
  "print_pos_float q =
     (let (d, k) = strip_zeros 20 (shortest_from 17 q (dec_exponent 700 q) 1);
          ds = nat_digits (nat d); e = k + int (length ds) - 1
      in if 1 / 1000000 \<le> q \<and> q < 10 ^ 21 then
           (if 0 \<le> k then ds @ replicate (nat k) (CHR ''0'')
            else if 0 \<le> e then take (nat (e + 1)) ds @ ''.'' @ drop (nat (e + 1)) ds
            else ''0.'' @ replicate (nat (- e - 1)) (CHR ''0'') @ ds)
         else
           take 1 ds @ (if 1 < length ds then ''.'' @ drop 1 ds else []) @
           (if e < 0 then ''e-'' @ nat_digits (nat (- e)) else ''e+'' @ nat_digits (nat e)))"

text \<open>A numeral as \<open>Unmarshal\<close> reads it into \<open>any\<close> (\<open>None\<close>: out of range) and \<open>Marshal\<close> writes it again.\<close>

definition marshal_number :: "string \<Rightarrow> string option" where
  "marshal_number t =
     (let sign = (if prefix ''-'' t then ''-'' else [])
      in case ParseFloat t of
           Some (Finite q) \<Rightarrow> Some (if q = 0 then sign @ ''0'' else sign @ print_pos_float \<bar>q\<bar>)
         | _ \<Rightarrow> None)"

section \<open>Documents\<close>

definition marshal_members :: "(string \<times> string) list \<Rightarrow> string" where
  "marshal_members kvs = ''{'' @ Join (map (\<lambda>(k, t). quote k @ '':'' @ t) (sort_key fst kvs)) '','' @ ''}''"

text \<open>The tree \<open>Unmarshal\<close> builds for \<open>any\<close>, printed; \<open>None\<close> where a number is out of range.\<close>

fun marshal_any :: "json \<Rightarrow> string option"
  and marshal_list :: "json list \<Rightarrow> string list option"
  and marshal_object :: "(string \<times> json) list \<Rightarrow> (string \<times> string) list option" where
  "marshal_any JNull = Some ''null''"
| "marshal_any (JBool b) = Some (if b then ''true'' else ''false'')"
| "marshal_any (JNum t) = marshal_number t"
| "marshal_any (JStr s) = Some (quote s)"
| "marshal_any (JArr vs) = map_option (\<lambda>ts. ''['' @ Join ts '','' @ '']'') (marshal_list vs)"
| "marshal_any (JObj kvs) = map_option (\<lambda>kts. marshal_members (last_wins kts)) (marshal_object kvs)"
| "marshal_list [] = Some []"
| "marshal_list (v # vs) = do { t \<leftarrow> marshal_any v; ts \<leftarrow> marshal_list vs; Some (t # ts) }"
| "marshal_object [] = Some []"
| "marshal_object ((k, v) # kvs) =
     do { t \<leftarrow> marshal_any v; kts \<leftarrow> marshal_object kvs; Some ((k, t) # kts) }"

text \<open>\<open>map[string]string\<close>.\<close>

definition marshal_map :: "(string \<times> string) list \<Rightarrow> string" where
  "marshal_map kvs = marshal_members (map (\<lambda>(k, v). (k, quote v)) kvs)"

definition dec_string_map :: "json \<Rightarrow> (string \<times> string) list option" where
  "dec_string_map j =
     (case j of
        JNull \<Rightarrow> Some []
      | JObj kvs \<Rightarrow> map_option last_wins
          (those (map (\<lambda>(k, v). map_option (Pair k) (dec_string [] v)) kvs))
      | _ \<Rightarrow> None)"

section \<open>Reading back a quoted string\<close>

lemma byte_of_less [simp]: "byte_of c < 256"
  by (simp add: byte_of_def)

lemma char_byte_byte [simp]: "char_byte (byte_of c) = c"
  by (simp add: char_byte_def byte_of_def)

lemma utf8_len_ascii: "byte_of c < 128 \<Longrightarrow> utf8_len (c # cs) = 1"
  by (simp add: utf8_len_lead lead_len_def)

lemma take_four: "k \<le> 4 \<Longrightarrow> k \<le> length s \<Longrightarrow> take 4 (take k s @ t) = take k (take 4 s) @ take (4 - k) t"
  by (simp add: min_def)

lemma utf8_len_prefix:
  assumes "utf8_len (c # cs) = k" "0 < k"
  shows "utf8_len (take k (c # cs) @ t) = k" "(1 < k) = (128 \<le> byte_of c)" "k \<le> 4"
proof -
  let ?bs = "map byte_of (take 4 (c # cs))"
  have "k \<le> 4 \<and> k \<le> length ?bs \<and> lead_len (take k ?bs @ map byte_of (take (4 - k) t)) = k \<and> (1 < k) = (128 \<le> hd ?bs)"
    using assms by (intro lead_len_prefix) (simp_all only: utf8_len_lead)
  moreover from this have "map byte_of (take 4 (take k (c # cs) @ t)) =
      take k ?bs @ map byte_of (take (4 - k) t)"
    using utf8_len_le [of "c # cs"] assms(1) by (simp only: take_four map_append take_map)
  ultimately show "utf8_len (take k (c # cs) @ t) = k" "(1 < k) = (128 \<le> byte_of c)" "k \<le> 4"
    by (simp_all add: utf8_len_lead)
qed

lemma alnum_val_hex: "d < 16 \<Longrightarrow> alnum_val (hex_char_lower d) = Some d"
proof -
  assume "d < 16"
  then consider "d < 10" | "10 \<le> d" "d < 16" by linarith
  then show ?thesis
    by cases (auto simp: alnum_val_def hex_char_lower_def is_digit_def digit_val_def less_eq_char_def of_char_of)
qed

lemma hex4_byte:
  "b < 256 \<Longrightarrow> hex4 (CHR ''0'' # CHR ''0'' # hex_char_lower (b div 16) # hex_char_lower (b mod 16) # r) = Some b"
  using alnum_val_hex [of "b div 16"] alnum_val_hex [of "b mod 16"] alnum_val_hex [of 0]
  by (simp add: hex4_def hex_char_lower_def [of 0] char_of_def bit_Suc_0_iff)

lemma char_of_byte_cases: "byte_of c < 128 \<or> 128 \<le> byte_of c"
  by auto

lemma lex_unicode_escape:
  assumes "hex4 (a # b # c # d # r) = Some u" "u < 55296 \<or> 57344 \<le> u"
  shows "lex_string (Suc n) (CHR 0x5C # CHR ''u'' # a # b # c # d # r) acc =
    lex_string n r (rev (utf8_encode u) @ acc)"
proof -
  have "\<not> (55296 \<le> u \<and> u < 56320)" using assms(2) by auto
  then show ?thesis using assms(1) by (auto simp: Let_def split: option.split)
qed

lemma char_byte_lits:
  "char_byte 239 = CHR 0xEF" "char_byte 191 = CHR 0xBF" "char_byte 189 = CHR 0xBD"
  "char_byte 226 = CHR 0xE2" "char_byte 128 = CHR 0x80" "char_byte 168 = CHR 0xA8" "char_byte 169 = CHR 0xA9"
  by (simp_all add: char_byte_def char_of_def bit_Suc_0_iff)

lemma lex_rune:
  assumes k: "utf8_len (c # cs) = k" "1 < k"
  shows "lex_string (Suc n) (take k (c # cs) @ r) acc = lex_string n r (rev (take k (c # cs)) @ acc)"
proof -
  obtain R where R: "take k (c # cs) = c # R" using k(2) by (cases k) auto
  have len: "length (take k (c # cs)) = k" using k(1) utf8_len_le [of "c # cs"] by simp
  have b: "128 \<le> byte_of c" using utf8_len_prefix(2) [OF k(1)] k(2) by simp
  then have "c \<noteq> CHR 0x22" "c \<noteq> CHR 0x5C" by (auto simp: byte_of_def)
  moreover have "utf8_len (c # R @ r) = k"
    using utf8_len_prefix(1) [OF k(1), of r] k(2) R by simp
  moreover have "take k (c # R @ r) = c # R" "drop k (c # R @ r) = r"
    using len unfolding R by auto
  ultimately show ?thesis using b k(2) unfolding R by (simp add: Let_def)
qed

lemma lex_escape_ascii:
  assumes "byte_of c < 128"
  shows "lex_string (Suc n) (escape_ascii c @ r) acc = lex_string n r (c # acc)"
proof -
  have u: "utf8_encode (byte_of c) = [c]" using assms by (simp add: utf8_encode_def)
  have h: "lex_string (Suc n) (CHR 0x5C # CHR ''u'' # CHR ''0'' # CHR ''0'' # hex_char_lower (byte_of c div 16) #
      hex_char_lower (byte_of c mod 16) # r) acc = lex_string n r (c # acc)"
    using lex_unicode_escape [OF hex4_byte [OF byte_of_less [of c], of r], of n acc] assms by (simp add: u)
  show ?thesis
  proof (cases "byte_of c < 32 \<or> c = CHR ''<'' \<or> c = CHR ''>'' \<or> c = CHR ''&''")
    case True
    then show ?thesis using h by (simp add: escape_ascii_def del: lex_string.simps) (simp split: if_splits)
  next
    case False
    then show ?thesis using assms by (simp add: escape_ascii_def)
  qed
qed

lemma escape_ascii_length: "0 < length (escape_ascii c)"
  by (simp add: escape_ascii_def)

lemma lex_json_escape:
  "length (json_escape s) < n \<Longrightarrow>
   lex_string n (json_escape s @ CHR 0x22 # r) acc = Some (rev acc @ coerce_utf8 s, r)"
proof (induction s arbitrary: n acc rule: json_escape.induct)
  case 1
  then obtain m where "n = Suc m" by (cases n) auto
  then show ?case by simp
next
  case (2 c cs)
  obtain k where k: "utf8_len (c # cs) = k" by simp
  from 2(4) obtain m where n: "n = Suc m" by (cases n) auto
  consider "k = 0" | "k = 1" | "1 < k" by linarith
  then show ?case
  proof cases
    case 1
    have "hex4 (CHR ''f'' # CHR ''f'' # CHR ''f'' # CHR ''d'' # json_escape cs @ CHR 0x22 # r) = Some 65533"
      by (simp add: hex4_def go_simps)
    from lex_unicode_escape [OF this, of m acc] show ?thesis
      using 2(1) [OF k [symmetric] 1, of m "rev (utf8_encode 65533) @ acc"] 2(4) 1 k n
      by (simp add: json_escape.simps(2) coerce_utf8.simps(2) utf8_encode_def char_byte_lits del: lex_string.simps)
  next
    case k1: 2
    then have b: "byte_of c < 128" using utf8_len_prefix(2) [OF k] by simp
    have "length (json_escape cs) < m"
      using 2(4) k1 k n escape_ascii_length [of c] by (simp add: json_escape.simps(2) del: length_greater_0_conv)
    from 2(2) [OF k [symmetric] _ _ this, of "c # acc"] b show ?thesis
      using k1 k n
      by (simp add: json_escape.simps(2) coerce_utf8.simps(2) lex_escape_ascii del: lex_string.simps)
  next
    case k2: 3
    show ?thesis
    proof (cases "take k (c # cs) = [CHR 0xE2, CHR 0x80, CHR 0xA8] \<or> take k (c # cs) = [CHR 0xE2, CHR 0x80, CHR 0xA9]")
      case True
      have "hex4 (CHR ''2'' # CHR ''0'' # CHR ''2'' # CHR ''8'' # t) = Some 8232"
        "hex4 (CHR ''2'' # CHR ''0'' # CHR ''2'' # CHR ''9'' # t) = Some 8233" for t
        by (simp_all add: hex4_def go_simps)
      note h = this [THEN lex_unicode_escape]
      from True show ?thesis
        using 2(3) [OF k [symmetric], of m] 2(4) k2 k n
        by (elim disjE) (simp_all add: json_escape.simps(2) coerce_utf8.simps(2) escape_rune_def h utf8_encode_def
          char_byte_lits del: lex_string.simps)
    next
      case False
      then have e: "json_escape (c # cs) = take k (c # cs) @ json_escape (drop k (c # cs))"
        using k k2 by (simp add: json_escape.simps(2) escape_rune_def del: take_Suc_Cons)
      have "length (json_escape (drop k (c # cs))) < m"
        using 2(4) k2 n utf8_len_le [of "c # cs"] k unfolding e by simp
      from 2(3) [OF k [symmetric] _ _ this, of "rev (take k (c # cs)) @ acc"] show ?thesis
        using k2 k n unfolding e by (simp add: lex_rune coerce_utf8.simps(2) del: lex_string.simps)
    qed
  qed
qed

section \<open>Reading back a map of strings\<close>

text \<open>Documents without numbers, as the tokens they are printed from.\<close>

fun token_text :: "token \<Rightarrow> string" where
  "token_text TLBrace = ''{''"
| "token_text TRBrace = ''}''"
| "token_text TColon = '':''"
| "token_text TComma = '',''"
| "token_text (TStr s) = quote s"
| "token_text _ = []"

fun plain_token :: "token \<Rightarrow> bool" where
  "plain_token TLBrace = True"
| "plain_token TRBrace = True"
| "plain_token TColon = True"
| "plain_token TComma = True"
| "plain_token (TStr s) = True"
| "plain_token _ = False"

fun coerce_token :: "token \<Rightarrow> token" where
  "coerce_token (TStr s) = TStr (coerce_utf8 s)"
| "coerce_token t = t"

lemma lex_quote: "lex (Suc n) (quote s @ r) acc = lex n r (TStr (coerce_utf8 s) # acc)"
  using lex_json_escape [of s "Suc (length (json_escape s @ CHR 0x22 # r))" r "[]"]
  by (simp add: quote_def del: lex_string.simps)

lemma lex_token: "plain_token t \<Longrightarrow> lex (Suc n) (token_text t @ r) acc = lex n r (coerce_token t # acc)"
  by (cases t) (simp_all add: lex_quote)

lemma lex_tokens:
  "list_all plain_token ts \<Longrightarrow> length ts \<le> n \<Longrightarrow>
   lex n (concat (map token_text ts)) acc = Some (rev acc @ map coerce_token ts)"
proof (induction ts arbitrary: n acc)
  case Nil
  then show ?case by (cases n) simp_all
next
  case (Cons t ts)
  then obtain m where "n = Suc m" by (cases n) auto
  with Cons show ?case by (simp add: lex_token del: lex.simps)
qed

fun member_tokens :: "(string \<times> string) list \<Rightarrow> token list" where
  "member_tokens [] = []"
| "member_tokens [(k, v)] = [TStr k, TColon, TStr v]"
| "member_tokens ((k, v) # kv # kvs) = TStr k # TColon # TStr v # TComma # member_tokens (kv # kvs)"

lemma member_tokens_text:
  "concat (map token_text (member_tokens kvs)) = Join (map (\<lambda>(k, v). quote k @ '':'' @ quote v) kvs) '',''"
  by (induction kvs rule: member_tokens.induct) auto

lemma member_tokens_plain: "list_all plain_token (member_tokens kvs)"
  by (induction kvs rule: member_tokens.induct) auto

definition coerce_pairs :: "(string \<times> string) list \<Rightarrow> (string \<times> string) list" where
  "coerce_pairs = map (\<lambda>(k, v). (coerce_utf8 k, coerce_utf8 v))"

lemma read_members:
  "kvs \<noteq> [] \<Longrightarrow> m = NeedKey \<or> m = NeedKeyOrEnd \<Longrightarrow>
   read_tokens (map coerce_token (member_tokens kvs) @ [TRBrace]) m [FObj acc k] out =
   Some (JObj (rev acc @ map (\<lambda>(k, v). (k, JStr v)) (coerce_pairs kvs)))"
proof (induction kvs arbitrary: m acc k out rule: member_tokens.induct)
  case (2 k' v)
  then show ?case
    by (auto simp: read_step_def read_value_def put_value_def coerce_pairs_def)
next
  case (3 k' v kv kvs)
  then show ?case
    by (auto simp: read_step_def read_value_def put_value_def coerce_pairs_def)
qed simp

lemma quote_length: "2 \<le> length (quote s)"
  by (simp add: quote_def)

lemma plain_token_text: "plain_token t \<Longrightarrow> 1 \<le> length (token_text t)"
  using quote_length by (cases t) (auto intro: le_trans [of _ 2])

lemma plain_tokens_length: "list_all plain_token ts \<Longrightarrow> length ts \<le> length (concat (map token_text ts))"
proof (induction ts)
  case (Cons t ts)
  then show ?case using plain_token_text [of t] by auto
qed simp

lemma json_parse_marshal_map:
  "json_parse (marshal_map kvs) = Some (JObj (map (\<lambda>(k, v). (k, JStr v)) (coerce_pairs (sort_key fst kvs))))"
proof -
  let ?s = "sort_key fst kvs"
  let ?ts = "TLBrace # member_tokens ?s @ [TRBrace]"
  have sort: "sort_key fst (map (\<lambda>(k, v). (k, quote v)) kvs) = map (\<lambda>(k, v). (k, quote v)) ?s"
  proof -
    have i: "insort_key fst (k, quote v) (map (\<lambda>(k, v). (k, quote v)) xs) =
        map (\<lambda>(k, v). (k, quote v)) (insort_key fst (k, v) xs)" for k v and xs :: "(string \<times> string) list"
      by (induction xs) auto
    show ?thesis by (induction kvs) (auto simp: i)
  qed
  have printed: "marshal_map kvs = concat (map token_text ?ts)"
    unfolding marshal_map_def marshal_members_def sort
    by (simp add: member_tokens_text case_prod_unfold comp_def)
  have plain: "list_all plain_token ?ts" by (simp add: member_tokens_plain)
  have lexed: "lex (Suc (length (marshal_map kvs))) (marshal_map kvs) [] = Some (map coerce_token ?ts)"
    using lex_tokens [OF plain, of "Suc (length (marshal_map kvs))" "[]"] plain_tokens_length [OF plain]
    unfolding printed by (simp del: lex.simps)
  show ?thesis
  proof (cases "?s = []")
    case True
    then show ?thesis unfolding json_parse_def lexed
      by (simp add: read_step_def read_value_def put_value_def max_depth_def coerce_pairs_def)
  next
    case False
    then show ?thesis unfolding json_parse_def lexed
      using read_members [OF False, of NeedKeyOrEnd "[]" "[]" None]
      by (simp add: read_step_def read_value_def max_depth_def)
  qed
qed

lemma those_map_Some: "(\<And>x. x \<in> set xs \<Longrightarrow> f x = Some (g x)) \<Longrightarrow> those (map f xs) = Some (map g xs)"
  by (induction xs) auto

definition stored_map :: "(string \<times> string) list \<Rightarrow> (string \<times> string) list" where
  "stored_map kvs = last_wins (coerce_pairs (sort_key fst kvs))"

text \<open>What a map of strings is after it went through a JSON column.\<close>

lemma unmarshal_marshal_map:
  "Option.bind (json_parse (marshal_map kvs)) dec_string_map = Some (stored_map kvs)"
proof -
  have "those (map (\<lambda>(k, v). map_option (Pair k) (dec_string [] v)) (map (\<lambda>(k, v). (k, JStr v)) kvs')) = Some kvs'"
    for kvs' by (induction kvs') auto
  from this [of "coerce_pairs (sort_key fst kvs)"] show ?thesis
    by (auto simp: json_parse_marshal_map dec_string_map_def stored_map_def)
qed

definition valid_utf8 :: "string \<Rightarrow> bool" where
  "valid_utf8 s \<longleftrightarrow> coerce_utf8 s = s"

lemma map_of_sort_key_fst: "distinct (map fst kvs) \<Longrightarrow> map_of (sort_key fst kvs) = map_of kvs"
proof -
  assume d: "distinct (map fst kvs)"
  have "mset (map fst (sort_key fst kvs)) = mset (map fst kvs)" by simp
  with d have "distinct (map fst (sort_key fst kvs))" using mset_eq_imp_distinct_iff by blast
  with d show ?thesis by (intro map_of_inject_set [THEN iffD2]) auto
qed

lemma map_of_stored_map:
  assumes "distinct (map fst kvs)" "\<And>k v. (k, v) \<in> set kvs \<Longrightarrow> valid_utf8 k \<and> valid_utf8 v"
  shows "map_of (stored_map kvs) = map_of kvs"
proof -
  let ?s = "sort_key fst kvs"
  have "coerce_pairs xs = xs" if "set xs \<subseteq> set kvs" for xs
    using that assms(2) unfolding coerce_pairs_def valid_utf8_def by (induction xs) auto
  then have "stored_map kvs = last_wins ?s" by (simp add: stored_map_def)
  moreover have "mset (map fst ?s) = mset (map fst kvs)" by simp
  then have "distinct (map fst ?s)" using assms(1) mset_eq_imp_distinct_iff by blast
  ultimately show ?thesis using assms(1) by (simp add: last_wins_id map_of_sort_key_fst)
qed

end
