(* ===== verification/Calendar.thy ===== *)
theory Calendar
  imports Go_Time
begin

text \<open>
  Facts of the calendar that the components need: every day number is the day of one valid date,
  dates are ordered as their day numbers, and the RFC 3339 strings that the stores keep in their
  rows and compare as strings are ordered as the instants they were printed from.
\<close>

section \<open>Every day has a date\<close>

text \<open>The number of days before the (March-based) year, in closed form.\<close>

definition year_days :: "int \<Rightarrow> int" where
  "year_days y = 365 * y + y div 4 - y div 100 + y div 400"

lemma days_of_civil_closed:
  "days_of_civil y m d = year_days (if m \<le> 2 then y - 1 else y) + march_doy m d - 719468"
proof -
  let ?y = "if m \<le> 2 then y - 1 else y"
  define q r where "q = ?y div 400" and "r = ?y mod 400"
  have y: "?y = 400 * q + r" by (simp add: q_def r_def)
  have "year_days ?y = q * 146097 + (r * 365 + r div 4 - r div 100)"
  proof -
    have "0 \<le> r" "r < 400" by (simp_all add: r_def)
    moreover have "?y div 4 = 100 * q + r div 4" "?y div 100 = 4 * q + r div 100"
      unfolding y by simp_all
    ultimately show ?thesis unfolding year_days_def by (simp add: y)
  qed
  then show ?thesis
    by (simp add: days_of_civil_def Let_def q_def r_def march_doy_def march_month_def)
qed

lemma div_step: "0 < k \<Longrightarrow> y div k - (y - 1) div k = (if k dvd y then 1 else 0)" for k y :: int
proof -
  assume k: "0 < k"
  show ?thesis
  proof (cases "k dvd y")
    case True
    then obtain q where q: "y = k * q" by auto
    have "(k * q - 1) div k = q - 1" 
      by (rule int_div_pos_eq [where r = "k - 1"]) (use k in \<open>auto simp: algebra_simps\<close>)
    with q k True show ?thesis by simp
  next
    case False
    have "0 < y mod k" using False k by (metis dvd_eq_mod_eq_0 mod_int_pos_iff order_le_less pos_mod_sign)
    then have "(y - 1) div k = y div k"
      by (intro int_div_pos_eq [where r = "y mod k - 1"])
        (use k pos_mod_bound [OF k, of y] in \<open>auto simp: algebra_simps simp flip: mult_div_mod_eq\<close>)
    with False show ?thesis by simp
  qed
qed

lemma year_days_step: "year_days y - year_days (y - 1) = (if leap_year y then 366 else 365)"
proof -
  have "year_days y - year_days (y - 1) =
      365 + (y div 4 - (y - 1) div 4) - (y div 100 - (y - 1) div 100) + (y div 400 - (y - 1) div 400)"
    by (simp add: year_days_def)
  also have "\<dots> = 365 + (if 4 dvd y then 1 else 0) - (if 100 dvd y then 1 else 0) + (if 400 dvd y then 1 else 0)"
    by (simp only: div_step)
  also have "\<dots> = (if leap_year y then 366 else 365)"
  proof -
    have "400 dvd y \<Longrightarrow> 100 dvd y" "100 dvd y \<Longrightarrow> 4 dvd y"
      by (rule dvd_trans [of 100 400 y] dvd_trans [of 4 100 y]; simp)+
    then show ?thesis
      by (cases "4 dvd y"; cases "100 dvd y"; cases "400 dvd y")
        (simp_all add: leap_year_def flip: dvd_eq_mod_eq_0)
  qed
  finally show ?thesis .
qed

lemma next_month:
  assumes "1 \<le> m" "m \<le> 12"
  shows "days_of_civil (if m = 12 then y + 1 else y) (if m = 12 then 1 else m + 1) 1 =
    days_of_civil y m (days_in y m) + 1"
  using assms year_days_step [of y]
  by (cases rule: month_cases)
    (auto simp: days_of_civil_closed march_doy_def march_month_def days_in_def)

text \<open>Every day has a date.\<close>

lemma next_day_valid:
  assumes "valid_date y m d"
  shows "\<exists>y' m' d'. valid_date y' m' d' \<and> days_of_civil y' m' d' = days_of_civil y m d + 1"
proof (cases "d < days_in y m")
  case True
  then show ?thesis
    using assms by (intro exI [of _ y] exI [of _ m] exI [of _ "d + 1"])
      (simp add: valid_date_def days_of_civil_shift [of y m d] days_of_civil_shift [of y m "d + 1"])
next
  case False
  then have d: "d = days_in y m" using assms by (simp add: valid_date_def)
  have m: "1 \<le> m" "m \<le> 12" using assms by (simp_all add: valid_date_def)
  have "valid_date (if m = 12 then y + 1 else y) (if m = 12 then 1 else m + 1) 1"
    using m by (simp add: valid_date_def days_in_def)
  with next_month [OF m, of y] d show ?thesis by blast
qed

lemma prev_day_valid:
  assumes "valid_date y m d"
  shows "\<exists>y' m' d'. valid_date y' m' d' \<and> days_of_civil y' m' d' = days_of_civil y m d - 1"
proof (cases "1 < d")
  case True
  then show ?thesis
    using assms by (intro exI [of _ y] exI [of _ m] exI [of _ "d - 1"])
      (simp add: valid_date_def days_of_civil_shift [of y m d] days_of_civil_shift [of y m "d - 1"])
next
  case False
  then have d: "d = 1" using assms by (simp add: valid_date_def)
  define y0 m0 where "y0 = (if m = 1 then y - 1 else y)" and "m0 = (if m = 1 then 12 else m - 1)"
  have m0: "1 \<le> m0" "m0 \<le> 12" and m: "m = (if m0 = 12 then 1 else m0 + 1)" "y = (if m0 = 12 then y0 + 1 else y0)"
    using assms by (auto simp: m0_def y0_def valid_date_def)
  have "days_of_civil y m d - 1 = days_of_civil y0 m0 (days_in y0 m0)"
    using next_month [OF m0, of y0] m d by simp
  moreover have "valid_date y0 m0 (days_in y0 m0)" using m0 by (auto simp: valid_date_def days_in_def)
  ultimately show ?thesis by (intro exI [of _ y0] exI [of _ m0] exI [of _ "days_in y0 m0"]) simp
qed

lemma every_day_has_date: "\<exists>y m d. valid_date y m d \<and> days_of_civil y m d = n"
proof (induction n rule: int_induct [where k = 0])
  case base
  have "valid_date 1970 1 1 \<and> days_of_civil 1970 1 1 = 0"
    by (simp add: valid_date_def days_in_def days_of_civil_def)
  then show ?case by blast
next
  case (step1 i)
  then show ?case using next_day_valid by metis
next
  case (step2 i)
  then show ?case using prev_day_valid by metis
qed

lemma civil_of_days_valid:
  assumes "civil_of_days n = (y, m, d)"
  shows "valid_date y m d" "days_of_civil y m d = n"
proof -
  obtain y' m' d' where "valid_date y' m' d'" "days_of_civil y' m' d' = n"
    using every_day_has_date by blast
  moreover from this have "civil_of_days n = (y', m', d')" using civil_of_days_of_civil by blast
  ultimately show "valid_date y m d" "days_of_civil y m d = n" using assms by auto
qed

section \<open>Dates are ordered as their days\<close>

text \<open>The first day of a month; months are numbered through the years.\<close>

definition month_start :: "int \<Rightarrow> int" where
  "month_start k = days_of_civil (k div 12) (k mod 12 + 1) 1"

lemma month_start_of: "1 \<le> m \<Longrightarrow> m \<le> 12 \<Longrightarrow> month_start (12 * y + m - 1) = days_of_civil y m 1"
proof -
  assume m: "1 \<le> m" "m \<le> 12"
  then have "(12 * y + m - 1) div 12 = y" "(12 * y + m - 1) mod 12 = m - 1" by presburger+
  then show ?thesis by (simp add: month_start_def)
qed

lemma month_start_step: "month_start (k + 1) = month_start k + days_in (k div 12) (k mod 12 + 1)"
proof -
  let ?y = "k div 12" and ?m = "k mod 12 + 1"
  have m: "1 \<le> ?m" "?m \<le> 12" using pos_mod_bound [of 12 k] by auto
  have k: "k = 12 * ?y + ?m - 1" by simp
  have "days_of_civil ?y ?m (days_in ?y ?m) = month_start k + days_in ?y ?m - 1"
    by (subst days_of_civil_shift) (simp add: month_start_def)
  moreover have "month_start (k + 1) = days_of_civil (if ?m = 12 then ?y + 1 else ?y) (if ?m = 12 then 1 else ?m + 1) 1"
  proof (cases "?m = 12")
    case True
    then have "k + 1 = 12 * (?y + 1) + 1 - 1" by presburger
    then have "month_start (k + 1) = month_start (12 * (?y + 1) + 1 - 1)" by (rule arg_cong)
    also have "\<dots> = days_of_civil (?y + 1) 1 1" by (rule month_start_of) simp_all
    finally show ?thesis using True by simp
  next
    case False
    then have "k + 1 = 12 * ?y + (?m + 1) - 1" by presburger
    then have "month_start (k + 1) = month_start (12 * ?y + (?m + 1) - 1)" by (rule arg_cong)
    also have "\<dots> = days_of_civil ?y (?m + 1) 1" using False m by (intro month_start_of) simp_all
    finally show ?thesis using False by simp
  qed
  ultimately show ?thesis using next_month [OF m, of ?y] by simp
qed

lemma days_in_pos: "28 \<le> days_in y m"
  by (simp add: days_in_def)

lemma month_start_mono:
  assumes "j \<le> k"
  shows "month_start j \<le> month_start k"
  using assms
proof (induction k rule: int_ge_induct)
  case (step i)
  then show ?case using month_start_step [of i] days_in_pos [of "i div 12" "i mod 12 + 1"] by simp
qed simp

lemma days_of_civil_less:
  assumes v: "valid_date y m d" "valid_date y' m' d'"
    and lt: "y < y' \<or> y = y' \<and> (m < m' \<or> m = m' \<and> d < d')"
  shows "days_of_civil y m d < days_of_civil y' m' d'"
proof (cases "y = y' \<and> m = m'")
  case True
  then show ?thesis
    using lt days_of_civil_shift [of y m d] days_of_civil_shift [of y' m' d'] by auto
next
  case False
  have m: "1 \<le> m" "m \<le> 12" "1 \<le> m'" "m' \<le> 12" and d: "d \<le> days_in y m" "1 \<le> d'"
    using v by (auto simp: valid_date_def)
  let ?k = "12 * y + m - 1" and ?k' = "12 * y' + m' - 1"
  have "?k + 1 \<le> ?k'" using lt False m by auto
  then have "month_start (?k + 1) \<le> month_start ?k'" by (rule month_start_mono)
  moreover have "?k div 12 = y" "?k mod 12 + 1 = m" using m by presburger+
  ultimately have "days_of_civil y m 1 + days_in y m \<le> days_of_civil y' m' 1"
    using month_start_step [of ?k] m by (simp add: month_start_of)
  then show ?thesis
    using days_of_civil_shift [of y m d] days_of_civil_shift [of y' m' d'] d by linarith
qed

section \<open>Printed numbers of one width are ordered as the numbers\<close>

lemma append_less_same_length:
  "length xs = length ys \<Longrightarrow> (xs @ us < ys @ vs) = (xs < ys \<or> xs = ys \<and> us < vs)"
  for xs ys :: "'a::order list"
  by (induction xs ys rule: list_induct2) auto

lemma digit_char_less: "a < 10 \<Longrightarrow> b < 10 \<Longrightarrow> (digit_char a < digit_char b) = (a < b)"
  by (simp add: digit_char_def less_char_def of_char_of)

lemma pad_nat_Suc: "0 < w \<Longrightarrow> pad_nat (Suc w) n = pad_nat w (n div 10) @ [digit_char (n mod 10)]"
proof (cases "n < 10")
  case True
  assume "0 < w"
  then obtain v where "w = Suc v" by (cases w) auto
  have [simp]: "digit_char 0 = CHR ''0''" by (simp add: digit_char_def char_of_def bit_Suc_0_iff)
  show ?thesis using True \<open>w = Suc v\<close>
    by (simp add: pad_nat_def nat_digits.simps [of n] nat_digits.simps [of 0] replicate_append_same flip: replicate_Suc)
next
  case False
  then show ?thesis by (simp add: pad_nat_def nat_digits.simps [of n])
qed

lemma pad_nat_digits:
  "n < 10 ^ Suc w \<Longrightarrow> length (pad_nat (Suc w) n) = Suc w"
proof (induction w arbitrary: n)
  case 0
  then show ?case by (simp add: pad_nat_def nat_digits.simps [of n])
next
  case (Suc w)
  then have "n div 10 < 10 ^ Suc w" by auto
  with Suc.IH [of "n div 10"] show ?case by (simp add: pad_nat_Suc)
qed

lemma pad_nat_less:
  "a < 10 ^ Suc w \<Longrightarrow> b < 10 ^ Suc w \<Longrightarrow> (pad_nat (Suc w) a < pad_nat (Suc w) b) = (a < b)"
proof (induction w arbitrary: a b)
  case 0
  then show ?case
    by (simp add: pad_nat_def nat_digits.simps [of a] nat_digits.simps [of b] digit_char_less)
next
  case (Suc w)
  then have ab: "a div 10 < 10 ^ Suc w" "b div 10 < 10 ^ Suc w" by auto
  have len: "length (pad_nat (Suc w) (a div 10)) = length (pad_nat (Suc w) (b div 10))"
    using ab by (simp only: pad_nat_digits)
  have eq: "pad_nat (Suc w) (a div 10) = pad_nat (Suc w) (b div 10) \<longleftrightarrow> a div 10 = b div 10"
    using Suc.IH [OF ab] Suc.IH [OF ab(2,1)] by (metis linorder_neq_iff)
  have "(pad_nat (Suc (Suc w)) a < pad_nat (Suc (Suc w)) b) =
      (a div 10 < b div 10 \<or> a div 10 = b div 10 \<and> a mod 10 < b mod 10)"
    using Suc.IH [OF ab] by (simp add: pad_nat_Suc append_less_same_length [OF len] eq digit_char_less)
  also have "\<dots> = (10 * (a div 10) + a mod 10 < 10 * (b div 10) + b mod 10)"
    using mod_less_divisor [of 10 a] mod_less_divisor [of 10 b] by linarith
  also have "\<dots> = (a < b)" by simp
  finally show ?case .
qed

lemma pad_nat_eq:
  "a < 10 ^ Suc w \<Longrightarrow> b < 10 ^ Suc w \<Longrightarrow> (pad_nat (Suc w) a = pad_nat (Suc w) b) = (a = b)"
  using pad_nat_less [of a w b] pad_nat_less [of b w a] by (metis linorder_neq_iff)

section \<open>RFC 3339 strings are ordered as instants\<close>

text \<open>The instants whose year has four digits, from 1970 on.\<close>

definition rfc_range :: "instant \<Rightarrow> bool" where
  "rfc_range t \<longleftrightarrow> 0 \<le> t \<and> t < 2932897 * ns_day"

lemma rfc_range_Year:
  assumes "rfc_range t"
  shows "0 \<le> Year t" "Year t < 10000"
proof -
  obtain y m d where c: "civil_of_days (day_number t) = (y, m, d)" by (metis prod_cases3)
  note v = civil_of_days_valid [OF c]
  have d: "t = ns_day * day_number t + t mod ns_day" "0 \<le> t mod ns_day" "t mod ns_day < ns_day"
    by (simp_all add: day_number_def)
  have r: "0 \<le> day_number t" "day_number t < 2932897"
    using assms d by (auto simp: rfc_range_def time_simps)
  have y: "Year t = y" by (simp add: Year_def c)
  show "0 \<le> Year t"
  proof (rule ccontr)
    assume "\<not> 0 \<le> Year t"
    then have "days_of_civil y m d < days_of_civil 0 1 1"
      using v(1) y by (intro days_of_civil_less) (simp_all add: valid_date_def days_in_def)
    then show False using v(2) r by (simp add: days_of_civil_def)
  qed
  show "Year t < 10000"
  proof (rule ccontr)
    assume "\<not> Year t < 10000"
    then have "days_of_civil 9999 12 31 < days_of_civil y m d"
      using v(1) y by (intro days_of_civil_less) (simp_all add: valid_date_def days_in_def)
    then show False using v(2) r by (simp add: days_of_civil_def)
  qed
qed

lemma Month_Day_range:
  "1 \<le> Month t" "Month t \<le> 12" "1 \<le> Day t" "Day t \<le> 31" "valid_date (Year t) (Month t) (Day t)"
proof -
  obtain y m d where c: "civil_of_days (day_number t) = (y, m, d)" by (metis prod_cases3)
  from civil_of_days_valid(1) [OF c] c
  show v: "valid_date (Year t) (Month t) (Day t)" by (simp add: Year_def Month_def Day_def)
  then show "1 \<le> Month t" "Month t \<le> 12" "1 \<le> Day t" "Day t \<le> 31"
    by (auto simp: valid_date_def days_in_def split: if_splits)
qed

lemma days_of_fields: "days_of_civil (Year t) (Month t) (Day t) = day_number t"
proof -
  obtain y m d where c: "civil_of_days (day_number t) = (y, m, d)" by (metis prod_cases3)
  from civil_of_days_valid(2) [OF c] c show ?thesis by (simp add: Year_def Month_def Day_def)
qed

lemma Second_range: "0 \<le> Second t \<and> Second t \<le> 59"
proof -
  have "0 \<le> t mod ns_min" and "t mod ns_min < ns_min" by (simp_all add: ns_min_def ns_sec_def)
  then show ?thesis by (auto simp: Second_def time_simps)
qed

lemma Hour_nonneg [simp]: "0 \<le> Hour t" "0 \<le> Minute t" "0 \<le> Second t"
  using Hour_range Minute_range Second_range by auto

text \<open>The second of the day from its fields.\<close>

lemma seconds_of_fields:
  "t div ns_sec = day_number t * 86400 + Hour t * 3600 + Minute t * 60 + Second t"
proof -
  define s where "s = t div ns_sec"
  have u: "ns_day = ns_sec * 86400" "ns_hour = ns_sec * 3600" "ns_min = ns_sec * 60"
    by (simp_all add: time_simps)
  have d: "x div (ns_sec * k) = x div ns_sec div k" if "0 \<le> k" for x k
    using that by (rule zdiv_zmult2_eq)
  have m: "t mod (ns_sec * k) div ns_sec = s mod k" if "0 < k" for k
    using that by (simp add: s_def zmod_zmult2_eq ns_sec_def)
  have "day_number t = s div 86400" "Hour t = s mod 86400 div 3600" "Minute t = s mod 3600 div 60"
    "Second t = s mod 60"
    by (simp_all only: day_number_def Hour_def Minute_def Second_def u d m s_def [symmetric])
  moreover have "s mod 86400 mod 3600 = s mod 3600" "s mod 3600 mod 60 = s mod 60"
    by (simp_all add: mod_mod_cancel)
  moreover have "s = s div 86400 * 86400 + s mod 86400"
    "s mod 86400 = s mod 86400 div 3600 * 3600 + s mod 86400 mod 3600"
    "s mod 3600 = s mod 3600 div 60 * 60 + s mod 3600 mod 60"
    by (simp_all only: div_mult_mod_eq)
  ultimately show ?thesis unfolding s_def [symmetric] by linarith
qed

lemma append_char_less:
  "length xs = length ys \<Longrightarrow> (xs @ c # us < ys @ c # vs) = (xs < ys \<or> xs = ys \<and> us < vs)"
  for xs ys :: string
  by (simp add: append_less_same_length)

lemma pad_two: "a \<le> 99 \<Longrightarrow> b \<le> 99 \<Longrightarrow> 0 \<le> a \<Longrightarrow> 0 \<le> b \<Longrightarrow>
   length (pad_nat 2 (nat a)) = length (pad_nat 2 (nat b)) \<and>
   (pad_nat 2 (nat a) < pad_nat 2 (nat b)) = (a < b) \<and> (pad_nat 2 (nat a) = pad_nat 2 (nat b)) = (a = b)"
  using pad_nat_less [of "nat a" 1 "nat b"] pad_nat_eq [of "nat a" 1 "nat b"]
    pad_nat_digits [of "nat a" 1] pad_nat_digits [of "nat b" 1]
  by (auto simp: numeral_2_eq_2)

lemma pad_four: "a < 10000 \<Longrightarrow> b < 10000 \<Longrightarrow> 0 \<le> a \<Longrightarrow> 0 \<le> b \<Longrightarrow>
   length (pad_nat 4 (nat a)) = length (pad_nat 4 (nat b)) \<and>
   (pad_nat 4 (nat a) < pad_nat 4 (nat b)) = (a < b) \<and> (pad_nat 4 (nat a) = pad_nat 4 (nat b)) = (a = b)"
proof -
  assume "a < 10000" "b < 10000" "0 \<le> a" "0 \<le> b"
  then have "nat a < 10 ^ Suc 3" "nat b < 10 ^ Suc 3" by simp_all
  moreover have "Suc 3 = 4" by simp
  ultimately show ?thesis
    using pad_nat_less [of "nat a" 3 "nat b"] pad_nat_eq [of "nat a" 3 "nat b"]
      pad_nat_digits [of "nat a" 3] pad_nat_digits [of "nat b" 3] \<open>0 \<le> a\<close> \<open>0 \<le> b\<close> by auto
qed

definition fields_less :: "instant \<Rightarrow> instant \<Rightarrow> bool" where
  "fields_less s t \<longleftrightarrow>
     Year s < Year t \<or> Year s = Year t \<and> (Month s < Month t \<or> Month s = Month t \<and> (Day s < Day t \<or>
       Day s = Day t \<and> (Hour s < Hour t \<or> Hour s = Hour t \<and> (Minute s < Minute t \<or>
         Minute s = Minute t \<and> Second s < Second t))))"

lemma fields_less_seconds: "fields_less s t \<Longrightarrow> s div ns_sec < t div ns_sec"
proof -
  assume lt: "fields_less s t"
  have r: "Hour s \<le> 23" "Minute s \<le> 59" "Second s \<le> 59" using Hour_range Minute_range Second_range by auto
  show ?thesis
  proof (cases "Year s = Year t \<and> Month s = Month t \<and> Day s = Day t")
    case True
    then have "day_number s = day_number t" using days_of_fields [of s] days_of_fields [of t] by simp
    with True lt r Hour_nonneg [of t] show ?thesis
      unfolding seconds_of_fields fields_less_def by (auto simp del: Hour_nonneg)
  next
    case False
    then have "days_of_civil (Year s) (Month s) (Day s) < days_of_civil (Year t) (Month t) (Day t)"
      using lt Month_Day_range(5) by (intro days_of_civil_less) (auto simp: fields_less_def)
    then have "day_number s < day_number t" by (simp add: days_of_fields)
    then have "day_number s * 86400 + 86400 \<le> day_number t * 86400" by simp
    with r show ?thesis using Hour_nonneg [of t] by (simp only: seconds_of_fields)
  qed
qed

lemma format_less_fields:
  assumes "rfc_range s" "rfc_range t"
  shows "(format_RFC3339 s < format_RFC3339 t) = fields_less s t"
proof -
  note y = pad_four [OF rfc_range_Year(2,2,1,1), OF assms(1,2,1,2)]
  have le: "Month u \<le> 99" "Day u \<le> 99" "0 \<le> Month u" "0 \<le> Day u" "Hour u \<le> 99" "Minute u \<le> 99"
    "Second u \<le> 99" for u
    using Month_Day_range [of u] Hour_range [of u] Minute_range [of u] Second_range [of u] by auto
  note two = pad_two [OF le(1,1,3,3)] pad_two [OF le(2,2,4,4)] pad_two [OF le(5,5) Hour_nonneg(1,1)]
    pad_two [OF le(6,6) Hour_nonneg(2,2)] pad_two [OF le(7,7) Hour_nonneg(3,3)]
  show ?thesis
    unfolding format_RFC3339_def fields_less_def
    by (simp add: append_char_less y two del: Hour_nonneg)
qed

theorem format_RFC3339_less:
  assumes "rfc_range s" "rfc_range t"
  shows "(format_RFC3339 s < format_RFC3339 t) = (s div ns_sec < t div ns_sec)"
proof -
  have "fields_less s t \<or> fields_less t s \<or> s div ns_sec = t div ns_sec"
    using days_of_fields [of s] days_of_fields [of t]
    by (auto simp: fields_less_def seconds_of_fields)
  then show ?thesis
    using fields_less_seconds [of s t] fields_less_seconds [of t s] format_less_fields [OF assms] by auto
qed

lemma format_RFC3339_le:
  "rfc_range s \<Longrightarrow> rfc_range t \<Longrightarrow> (format_RFC3339 s \<le> format_RFC3339 t) = (s div ns_sec \<le> t div ns_sec)"
  using format_RFC3339_less [of t s] by (metis linorder_not_le)

lemma format_RFC3339_nonempty [simp]: "format_RFC3339 t \<noteq> []"
  by (simp add: format_RFC3339_def)

end
