(* ===== verification/Go_Hash.thy ===== *)
theory Go_Hash
  imports Go_Numbers "HOL-Library.Word"
begin

text \<open>
  The hash functions of Go's standard library the code calls: SHA-256 (\<open>crypto/sha256\<close>), HMAC over it
  (\<open>crypto/hmac\<close>), MD5 (\<open>crypto/md5\<close>), and \<open>hex.EncodeToString\<close>. Byte strings are \<^typ>\<open>string\<close>s.
\<close>

unbundle bit_operations_syntax

type_synonym w32 = "32 word"

definition hex_encode :: "string \<Rightarrow> string" where
  "hex_encode s = concat (map (\<lambda>c. [hex_char_lower (of_char c div 16), hex_char_lower (of_char c mod 16)]) s)"

section \<open>Words and blocks\<close>

definition be_word :: "string \<Rightarrow> w32" where
  "be_word bs = fold (\<lambda>c acc. push_bit 8 acc OR of_int (of_char c)) bs 0"

definition be_bytes :: "w32 \<Rightarrow> string" where
  "be_bytes w = map (\<lambda>i. char_of (uint (drop_bit (24 - 8 * i) w) mod 256)) [0, 1, 2, 3]"

definition le_word :: "string \<Rightarrow> w32" where
  "le_word bs = be_word (rev bs)"

definition le_bytes :: "w32 \<Rightarrow> string" where
  "le_bytes w = rev (be_bytes w)"

fun chunks :: "nat \<Rightarrow> 'a list \<Rightarrow> 'a list list" where
  "chunks n xs = (if n = 0 \<or> length xs \<le> n then [xs] else take n xs # chunks n (drop n xs))"

declare chunks.simps [simp del]

text \<open>The length in bits as eight bytes, the most significant first.\<close>

definition length_bytes :: "nat \<Rightarrow> string" where
  "length_bytes n = map (\<lambda>i. char_of (8 * int n div 256 ^ (7 - i) mod 256)) [0, 1, 2, 3, 4, 5, 6, 7]"

definition padding :: "nat \<Rightarrow> string" where
  "padding n = CHR 0x80 # replicate ((119 - n mod 64) mod 64) (CHR 0x00)"

section \<open>SHA-256\<close>

definition sha256_k :: "w32 list" where
  "sha256_k =
     [1116352408, 1899447441, 3049323471, 3921009573, 961987163, 1508970993, 2453635748, 2870763221,
      3624381080, 310598401, 607225278, 1426881987, 1925078388, 2162078206, 2614888103, 3248222580,
      3835390401, 4022224774, 264347078, 604807628, 770255983, 1249150122, 1555081692, 1996064986,
      2554220882, 2821834349, 2952996808, 3210313671, 3336571891, 3584528711, 113926993, 338241895,
      666307205, 773529912, 1294757372, 1396182291, 1695183700, 1986661051, 2177026350, 2456956037,
      2730485921, 2820302411, 3259730800, 3345764771, 3516065817, 3600352804, 4094571909, 275423344,
      430227734, 506948616, 659060556, 883997877, 958139571, 1322822218, 1537002063, 1747873779,
      1955562222, 2024104815, 2227730452, 2361852424, 2428436474, 2756734187, 3204031479, 3329325298]"

definition sha256_init :: "w32 list" where
  "sha256_init = [0x6a09e667, 0xbb67ae85, 0x3c6ef372, 0xa54ff53a, 0x510e527f, 0x9b05688c, 0x1f83d9ab, 0x5be0cd19]"

definition rotr32 :: "nat \<Rightarrow> w32 \<Rightarrow> w32" where
  "rotr32 n w = drop_bit n w OR push_bit (32 - n) w"

definition schedule_word :: "w32 \<Rightarrow> w32 \<Rightarrow> w32 \<Rightarrow> w32 \<Rightarrow> w32" where
  "schedule_word w2 w7 w15 w16 =
     (rotr32 17 w2 XOR rotr32 19 w2 XOR drop_bit 10 w2) + w7
       + (rotr32 7 w15 XOR rotr32 18 w15 XOR drop_bit 3 w15) + w16"

text \<open>The message schedule, the latest word first.\<close>

fun schedule :: "nat \<Rightarrow> w32 list \<Rightarrow> w32 list" where
  "schedule 0 ws = ws"
| "schedule (Suc n) ws = schedule n (schedule_word (ws ! 1) (ws ! 6) (ws ! 14) (ws ! 15) # ws)"

fun sha256_round :: "w32 \<times> w32 \<Rightarrow> w32 list \<Rightarrow> w32 list" where
  "sha256_round (k, w) [a, b, c, d, e, f, g, h] =
     (let t1 = h + (rotr32 6 e XOR rotr32 11 e XOR rotr32 25 e) + ((e AND f) XOR (NOT e AND g)) + k + w;
          t2 = (rotr32 2 a XOR rotr32 13 a XOR rotr32 22 a) + ((a AND b) XOR (a AND c) XOR (b AND c))
      in [t1 + t2, a, b, c, d + t1, e, f, g])"
| "sha256_round _ st = st"

definition sha256_block :: "string \<Rightarrow> w32 list \<Rightarrow> w32 list" where
  "sha256_block block st =
     (let ws = rev (schedule 48 (rev (map be_word (chunks 4 block))))
      in map2 (+) st (fold sha256_round (zip sha256_k ws) st))"

definition sha256 :: "string \<Rightarrow> string" where
  "sha256 s =
     (let m = s @ padding (length s) @ length_bytes (length s)
      in concat (map be_bytes (fold sha256_block (chunks 64 m) sha256_init)))"

section \<open>HMAC\<close>

definition hmac_key :: "string \<Rightarrow> string" where
  "hmac_key key =
     (let k = (if 64 < length key then sha256 key else key) in k @ replicate (64 - length k) (CHR 0x00))"

definition xor_bytes :: "string \<Rightarrow> int \<Rightarrow> string" where
  "xor_bytes s b = map (\<lambda>c. char_of (of_char c XOR b)) s"

definition hmac_sha256 :: "string \<Rightarrow> string \<Rightarrow> string" where
  "hmac_sha256 key data =
     sha256 (xor_bytes (hmac_key key) 0x5c @ sha256 (xor_bytes (hmac_key key) 0x36 @ data))"

section \<open>MD5\<close>

definition md5_k :: "w32 list" where
  "md5_k =
     [0xd76aa478, 0xe8c7b756, 0x242070db, 0xc1bdceee, 0xf57c0faf, 0x4787c62a, 0xa8304613, 0xfd469501,
      0x698098d8, 0x8b44f7af, 0xffff5bb1, 0x895cd7be, 0x6b901122, 0xfd987193, 0xa679438e, 0x49b40821,
      0xf61e2562, 0xc040b340, 0x265e5a51, 0xe9b6c7aa, 0xd62f105d, 0x02441453, 0xd8a1e681, 0xe7d3fbc8,
      0x21e1cde6, 0xc33707d6, 0xf4d50d87, 0x455a14ed, 0xa9e3e905, 0xfcefa3f8, 0x676f02d9, 0x8d2a4c8a,
      0xfffa3942, 0x8771f681, 0x6d9d6122, 0xfde5380c, 0xa4beea44, 0x4bdecfa9, 0xf6bb4b60, 0xbebfbc70,
      0x289b7ec6, 0xeaa127fa, 0xd4ef3085, 0x04881d05, 0xd9d4d039, 0xe6db99e5, 0x1fa27cf8, 0xc4ac5665,
      0xf4292244, 0x432aff97, 0xab9423a7, 0xfc93a039, 0x655b59c3, 0x8f0ccc92, 0xffeff47d, 0x85845dd1,
      0x6fa87e4f, 0xfe2ce6e0, 0xa3014314, 0x4e0811a1, 0xf7537e82, 0xbd3af235, 0x2ad7d2bb, 0xeb86d391]"

definition md5_shifts :: "nat list" where
  "md5_shifts = concat (map (\<lambda>r. concat (replicate 4 r)) [[7, 12, 17, 22], [5, 9, 14, 20], [4, 11, 16, 23], [6, 10, 15, 21]])"

fun md5_round :: "w32 list \<Rightarrow> nat \<times> w32 \<times> nat \<Rightarrow> w32 list \<Rightarrow> w32 list" where
  "md5_round ms (i, k, sh) [a, b, c, d] =
     (let (f, g) =
        (if i < 16 then ((b AND c) OR (NOT b AND d), i)
         else if i < 32 then ((d AND b) OR (NOT d AND c), (5 * i + 1) mod 16)
         else if i < 48 then (b XOR c XOR d, (3 * i + 5) mod 16)
         else (c XOR (b OR NOT d), (7 * i) mod 16))
      in [d, b + rotr32 (32 - sh) (f + a + k + ms ! g), b, c])"
| "md5_round _ _ st = st"

definition md5_block :: "string \<Rightarrow> w32 list \<Rightarrow> w32 list" where
  "md5_block block st =
     map2 (+) st (fold (md5_round (map le_word (chunks 4 block))) (zip [0..<64] (zip md5_k md5_shifts)) st)"

definition md5 :: "string \<Rightarrow> string" where
  "md5 s =
     (let m = s @ padding (length s) @ rev (length_bytes (length s))
      in concat (map le_bytes (fold md5_block (chunks 64 m) [0x67452301, 0xefcdab89, 0x98badcfe, 0x10325476])))"

section \<open>Hexadecimal digests\<close>

definition is_hex_lower :: "char \<Rightarrow> bool" where
  "is_hex_lower c \<longleftrightarrow> is_digit c \<or> CHR ''a'' \<le> c \<and> c \<le> CHR ''f''"

lemma hex_char_lower_cases: "d < 16 \<Longrightarrow> is_hex_lower (hex_char_lower d)"
  by (auto simp: hex_char_lower_def is_hex_lower_def is_digit_def less_eq_char_def of_char_of)

lemma hex_encode_chars: "c \<in> set (hex_encode s) \<Longrightarrow> is_hex_lower c"
proof -
  assume "c \<in> set (hex_encode s)"
  then obtain x where "c = hex_char_lower (of_char x div 16) \<or> c = hex_char_lower (of_char x mod 16)"
    by (auto simp: hex_encode_def)
  moreover have "of_char x div 16 < (16 :: nat)"
    by (rule less_mult_imp_div_less) (cases x, simp add: of_char_def)
  ultimately show ?thesis using hex_char_lower_cases by auto
qed

lemma length_hex_encode: "length (hex_encode s) = 2 * length s"
  by (induction s) (simp_all add: hex_encode_def)

end
