(* ===== verification/Sqs.thy ===== *)
theory Sqs
  imports Go_Json_Print Calendar Go_Hash "HOL-Library.AList"
begin

text \<open>
  The SQS store, \<open>src/internal/store/sqs.go\<close>: the tables \<open>sqs_queues\<close> and \<open>sqs_messages\<close> as lists of
  records, one function per operation of the store. A statement that changes rows is written out on
  the lists with its WHERE clause; the primary key of the messages and the UNIQUE receipt handle are
  checked where the code relies on SQLite to check them. Times are kept as the RFC 3339 strings the
  rows hold and compared as strings, as the SQL does.

  An operation that fails has rolled its transaction back: the error carries no new state. The random
  UUIDs are the values of a parameter \<open>u\<close>, drawn in turn; \<open>db_drawn\<close> counts the draws. Each critical
  section reads the clock once (\<open>now\<close>). An error of SQLite itself (busy, disk) is not modelled.
\<close>

section \<open>State\<close>

datatype sqs_error =
    ErrQueueAlreadyExists
  | ErrNoSuchQueue
  | ErrNoSuchMessage
  | ErrInvalidFIFOQueueName
  | ErrMissingMessageGroupID
  | ErrMissingMessageDeduplication
  | ErrQueueNameRequired
  | ErrInvalidQueueArn
  | ErrDlqAccount
  | ErrRedriveNotAllowed
  | ErrMessageAttributes
  | ErrConstraint

type_synonym attributes = "(string \<times> string) list"

record Queue =
  q_account :: string
  q_name :: string
  q_url :: string
  q_arn :: string
  q_attrs :: attributes
  q_created :: string

record Message =
  m_id :: string
  m_account :: string
  m_queue :: string
  m_body :: string
  m_sealed :: bool
  m_dek :: string
  m_handle :: "string option"
  m_visible :: string
  m_count :: int
  m_created :: string
  m_attrs_json :: string
  m_group :: string
  m_dedup :: string
  m_seq :: int

record SendMessageOpts =
  so_group :: string
  so_dedup :: string
  so_delay :: int

record db =
  db_queues :: "Queue list"
  db_messages :: "Message list"
  db_drawn :: nat

type_synonym uuid = "nat \<Rightarrow> string"

definition DefaultSQSRegion :: string where "DefaultSQSRegion = ''us-east-1''"
definition DefaultVisibilityTimeout :: int where "DefaultVisibilityTimeout = 30"
definition FIFODedupWindow :: int where "FIFODedupWindow = 5 * ns_min"
definition maxDelaySeconds :: int where "maxDelaySeconds = 900"

text \<open>\<open>now.Add(time.Duration(n) * time.Second).Format(time.RFC3339)\<close>; the product wraps in 64 bits.\<close>

definition deadline :: "instant \<Rightarrow> int \<Rightarrow> string" where
  "deadline now n = format_RFC3339 (now + wrap64 (n * ns_sec))"

section \<open>Names and attributes\<close>

definition QueueARN :: "string \<Rightarrow> string \<Rightarrow> string \<Rightarrow> string" where
  "QueueARN region account name =
     ''arn:aws:sqs:'' @ (if region = [] then DefaultSQSRegion else region) @ '':'' @ account @ '':'' @ name"

definition QueueURL :: "string \<Rightarrow> string \<Rightarrow> string \<Rightarrow> string" where
  "QueueURL endpointHost account name =
     (let base = (if Contains endpointHost ''://'' then endpointHost else ''http://'' @ endpointHost)
      in TrimRight base ''/'' @ ''/'' @ account @ ''/'' @ name)"

definition attrTruthy :: "attributes \<Rightarrow> string \<Rightarrow> bool" where
  "attrTruthy attrs name =
     (case map_of attrs name of None \<Rightarrow> False | Some v \<Rightarrow> EqualFold (TrimSpace v) ''true'')"

definition queueIsFIFO :: "attributes \<Rightarrow> bool" where
  "queueIsFIFO attrs = attrTruthy attrs ''FifoQueue''"

definition queueContentBasedDedup :: "attributes \<Rightarrow> bool" where
  "queueContentBasedDedup attrs = attrTruthy attrs ''ContentBasedDeduplication''"

definition validateFIFOQueueName :: "string \<Rightarrow> attributes \<Rightarrow> bool" where
  "validateFIFOQueueName name attrs = (queueIsFIFO attrs = HasSuffix name ''.fifo'')"

definition queueDelaySeconds :: "attributes \<Rightarrow> int" where
  "queueDelaySeconds attrs =
     (case map_of attrs ''DelaySeconds'' of
        None \<Rightarrow> 0
      | Some v \<Rightarrow>
          (case Atoi (TrimSpace v) of
             None \<Rightarrow> 0
           | Some n \<Rightarrow> if 0 < n then min n maxDelaySeconds else 0))"

definition queueVisibilityTimeout :: "attributes \<Rightarrow> int" where
  "queueVisibilityTimeout attrs =
     (case map_of attrs ''VisibilityTimeout'' of
        None \<Rightarrow> DefaultVisibilityTimeout
      | Some v \<Rightarrow>
          (case Atoi (TrimSpace v) of
             None \<Rightarrow> DefaultVisibilityTimeout
           | Some n \<Rightarrow> if 0 \<le> n then n else DefaultVisibilityTimeout))"

section \<open>Redrive policies\<close>

record redriveAllowPolicy =
  ra_permission :: string
  ra_sources :: "string list"

record redrivePolicy =
  rp_target :: string
  rp_max :: int

text \<open>Into \<open>[]string\<close>: a second member decodes over the elements of the first, which a null keeps.\<close>

fun dec_strings_over :: "string list \<Rightarrow> json list \<Rightarrow> string list option" where
  "dec_strings_over old [] = Some []"
| "dec_strings_over old (v # vs) =
     do { s \<leftarrow> dec_string (case old of [] \<Rightarrow> [] | o1 # _ \<Rightarrow> o1) v;
          ss \<leftarrow> dec_strings_over (tl old) vs;
          Some (s # ss) }"

fun dec_string_slice :: "string list \<Rightarrow> json \<Rightarrow> string list option" where
  "dec_string_slice old JNull = Some []"
| "dec_string_slice old (JArr vs) = dec_strings_over old vs"
| "dec_string_slice old _ = None"

definition dec_allow_field :: "redriveAllowPolicy \<Rightarrow> string \<times> json \<Rightarrow> redriveAllowPolicy option" where
  "dec_allow_field p kv =
     (case kv of (k, v) \<Rightarrow>
        if EqualFold k ''redrivePermission'' then
          map_option (\<lambda>s. p\<lparr>ra_permission := s\<rparr>) (dec_string (ra_permission p) v)
        else if EqualFold k ''sourceQueueArns'' then
          map_option (\<lambda>ss. p\<lparr>ra_sources := ss\<rparr>) (dec_string_slice (ra_sources p) v)
        else Some p)"

fun dec_fields :: "('p \<Rightarrow> string \<times> json \<Rightarrow> 'p option) \<Rightarrow> 'p \<Rightarrow> (string \<times> json) list \<Rightarrow> 'p option" where
  "dec_fields f p [] = Some p"
| "dec_fields f p (kv # kvs) = do { p' \<leftarrow> f p kv; dec_fields f p' kvs }"

definition dec_struct :: "('p \<Rightarrow> string \<times> json \<Rightarrow> 'p option) \<Rightarrow> 'p \<Rightarrow> json \<Rightarrow> 'p option" where
  "dec_struct f zero j = (case j of JNull \<Rightarrow> Some zero | JObj kvs \<Rightarrow> dec_fields f zero kvs | _ \<Rightarrow> None)"

text \<open>The second component says whether a policy is set; where it does not decode, none is.\<close>

definition parseRedriveAllowPolicy :: "attributes \<Rightarrow> redriveAllowPolicy \<times> bool" where
  "parseRedriveAllowPolicy attrs =
     (case map_of attrs ''RedriveAllowPolicy'' of
        None \<Rightarrow> (\<lparr>ra_permission = ''allowAll'', ra_sources = []\<rparr>, False)
      | Some raw \<Rightarrow>
          if TrimSpace raw = [] then (\<lparr>ra_permission = ''allowAll'', ra_sources = []\<rparr>, False)
          else (case Option.bind (json_parse raw) (dec_struct dec_allow_field \<lparr>ra_permission = [], ra_sources = []\<rparr>) of
                  None \<Rightarrow> (\<lparr>ra_permission = [], ra_sources = []\<rparr>, False)
                | Some p \<Rightarrow>
                    (let perm = TrimSpace (ra_permission p)
                     in (\<lparr>ra_permission = (if perm = [] then ''allowAll'' else perm), ra_sources = ra_sources p\<rparr>, True))))"

definition allowsSource :: "redriveAllowPolicy \<Rightarrow> string \<Rightarrow> bool" where
  "allowsSource p sourceARN =
     (let perm = ToLower (ra_permission p)
      in if perm = ''denyall'' then False
         else if perm = ''byqueue'' then \<exists>arn\<in>set (ra_sources p). TrimSpace arn = sourceARN
         else True)"

text \<open>
  Every number of a document that \<open>Unmarshal\<close> reads into \<open>any\<close> must be in the range of a float64.
\<close>

fun numbers_ok :: "json \<Rightarrow> bool" where
  "numbers_ok (JNum t) = (ParseFloat t \<noteq> None)"
| "numbers_ok (JArr vs) = list_all numbers_ok vs"
| "numbers_ok (JObj kvs) = list_all (\<lambda>(k, v). numbers_ok v) kvs"
| "numbers_ok _ = True"

definition dec_redrive_field :: "string \<times> json \<Rightarrow> string \<times> json \<Rightarrow> (string \<times> json) option" where
  "dec_redrive_field p kv =
     (case (p, kv) of ((target, cnt), (k, v)) \<Rightarrow>
        if EqualFold k ''deadLetterTargetArn'' then map_option (\<lambda>s. (s, cnt)) (dec_string target v)
        else if EqualFold k ''maxReceiveCount'' then (if numbers_ok v then Some (target, v) else None)
        else Some p)"

text \<open>Go's conversion of a float64 to \<open>int\<close>; out of range it gives the least integer, as on amd64.\<close>

definition float_to_int :: "rat \<Rightarrow> int" where
  "float_to_int q =
     (let i = (if 0 \<le> q then \<lfloor>q\<rfloor> else \<lceil>q\<rceil>) in if - (2 ^ 63) \<le> i \<and> i < 2 ^ 63 then i else - (2 ^ 63))"

definition max_receive_count :: "json \<Rightarrow> int option" where
  "max_receive_count v =
     (case v of
        JStr s \<Rightarrow> (case Atoi (TrimSpace s) of Some n \<Rightarrow> if n \<le> 0 then None else Some n | None \<Rightarrow> None)
      | JNum t \<Rightarrow>
          (case ParseFloat t of Some (Finite q) \<Rightarrow> if q \<le> 0 then None else Some (float_to_int q) | _ \<Rightarrow> None)
      | _ \<Rightarrow> None)"

definition parseRedrivePolicy :: "attributes \<Rightarrow> redrivePolicy option" where
  "parseRedrivePolicy attrs =
     (case map_of attrs ''RedrivePolicy'' of
        None \<Rightarrow> None
      | Some raw \<Rightarrow>
          if TrimSpace raw = [] then None
          else do { j \<leftarrow> json_parse raw;
                    (target, cnt) \<leftarrow> dec_struct dec_redrive_field ([], JNull) j;
                    mx \<leftarrow> max_receive_count cnt;
                    if TrimSpace target = [] then None
                    else Some \<lparr>rp_target = TrimSpace target, rp_max = mx\<rparr> })"

definition queueNameFromARN :: "string \<Rightarrow> string option" where
  "queueNameFromARN arn =
     (case last_index_char (CHR '':'') arn of
        None \<Rightarrow> None
      | Some i \<Rightarrow> if i = length arn - 1 then None else Some (drop (i + 1) arn))"

definition arnAccountID :: "string \<Rightarrow> string option" where
  "arnAccountID arn =
     (let parts = Split (TrimSpace arn) (CHR '':'')
      in if length parts < 5 \<or> parts ! 0 \<noteq> ''arn'' \<or> parts ! 1 \<noteq> ''aws'' then None
         else (let acct = TrimSpace (parts ! 4)
               in if length acct = 12 \<and> list_all is_digit acct then Some acct else None))"

definition queueAccountFromARN :: "string \<Rightarrow> string option" where
  "queueAccountFromARN arn =
     (let parts = Split arn (CHR '':'')
      in if length parts < 6 \<or> parts ! 0 \<noteq> ''arn'' \<or> parts ! 1 \<noteq> ''aws'' \<or> parts ! 2 \<noteq> ''sqs'' then None
         else arnAccountID arn)"

definition contentBasedDedupID :: "string \<Rightarrow> string" where
  "contentBasedDedupID body = hex_encode (sha256 body)"

section \<open>Queues\<close>

definition GetQueue :: "db \<Rightarrow> string \<Rightarrow> string \<Rightarrow> (sqs_error, Queue) result" where
  "GetQueue d account name =
     (case List.find (\<lambda>q. q_account q = account \<and> q_name q = name) (db_queues d) of
        None \<Rightarrow> Inl ErrNoSuchQueue | Some q \<Rightarrow> Inr q)"

definition GetQueueByURL :: "db \<Rightarrow> string \<Rightarrow> (sqs_error, Queue) result" where
  "GetQueueByURL d url =
     (case List.find (\<lambda>q. q_url q = url) (db_queues d) of
        None \<Rightarrow> Inl ErrNoSuchQueue | Some q \<Rightarrow> Inr q)"

definition CreateQueue ::
  "db \<Rightarrow> instant \<Rightarrow> string \<Rightarrow> string \<Rightarrow> string \<Rightarrow> string \<Rightarrow> attributes \<Rightarrow> (sqs_error, Queue \<times> db) result"
where
  "CreateQueue d now account region endpointHost name attrs =
     (if TrimSpace name = [] then Inl ErrQueueNameRequired
      else if \<not> validateFIFOQueueName name attrs then Inl ErrInvalidFIFOQueueName
      else if \<exists>q\<in>set (db_queues d). q_account q = account \<and> q_name q = name then Inl ErrQueueAlreadyExists
      else (let q = \<lparr>q_account = account, q_name = name, q_url = QueueURL endpointHost account name,
                     q_arn = QueueARN region account name, q_attrs = stored_map attrs,
                     q_created = format_RFC3339 now\<rparr>
            in Inr (q, d\<lparr>db_queues := db_queues d @ [q]\<rparr>)))"

text \<open>
  SQLite's \<open>LIKE\<close>: ASCII letters match in either case, \<open>%\<close> any string, \<open>_\<close> any one character (the
  bytes of one UTF-8 sequence).
\<close>

definition skip_char :: "string \<Rightarrow> string" where
  "skip_char cs = (if 192 \<le> byte_of (hd cs) then dropWhile (\<lambda>c. cont_byte (byte_of c)) (tl cs) else tl cs)"

lemma skip_char_length: "length (skip_char (c # cs)) \<le> length cs"
  by (simp add: skip_char_def length_dropWhile_le)

function sql_like :: "string \<Rightarrow> string \<Rightarrow> bool" where
  "sql_like [] s = (s = [])"
| "sql_like (p # ps) [] = (p = CHR ''%'' \<and> sql_like ps [])"
| "sql_like (p # ps) (c # cs) =
     (if p = CHR ''%'' then sql_like ps (c # cs) \<or> sql_like (p # ps) cs
      else if p = CHR ''_'' then sql_like ps (skip_char (c # cs))
      else char_lower p = char_lower c \<and> sql_like ps cs)"
  by pat_completeness auto
termination
  by (relation "measure (\<lambda>(p, s). length p + length s)")
    (auto intro: le_less_trans [OF skip_char_length])

definition ListQueues :: "db \<Rightarrow> string \<Rightarrow> string \<Rightarrow> Queue list" where
  "ListQueues d account pref =
     sort_key q_name (filter (\<lambda>q. q_account q = account \<and> sql_like (pref @ ''%'') (q_name q)) (db_queues d))"

definition DeleteQueue :: "db \<Rightarrow> string \<Rightarrow> string \<Rightarrow> (sqs_error, db) result" where
  "DeleteQueue d account name =
     (case GetQueue d account name of
        Inl e \<Rightarrow> Inl e
      | Inr _ \<Rightarrow>
          Inr (d\<lparr>db_messages := filter (\<lambda>m. \<not> (m_account m = account \<and> m_queue m = name)) (db_messages d),
                 db_queues := filter (\<lambda>q. \<not> (q_account q = account \<and> q_name q = name)) (db_queues d)\<rparr>))"

definition GetQueueAttributes :: "db \<Rightarrow> string \<Rightarrow> string \<Rightarrow> (sqs_error, attributes) result" where
  "GetQueueAttributes d account name =
     (case GetQueue d account name of Inl e \<Rightarrow> Inl e | Inr q \<Rightarrow> Inr (q_attrs q))"

definition SetQueueAttributes :: "db \<Rightarrow> string \<Rightarrow> string \<Rightarrow> attributes \<Rightarrow> (sqs_error, db) result" where
  "SetQueueAttributes d account name attrs =
     (case GetQueue d account name of
        Inl e \<Rightarrow> Inl e
      | Inr q \<Rightarrow>
          (let merged = fold (\<lambda>(k, v) m. AList.update k v m) attrs (q_attrs q)
           in if \<not> validateFIFOQueueName name merged then Inl ErrInvalidFIFOQueueName
              else Inr (d\<lparr>db_queues :=
                map (\<lambda>q'. if q_account q' = account \<and> q_name q' = name
                          then q'\<lparr>q_attrs := stored_map merged\<rparr> else q') (db_queues d)\<rparr>)))"

definition PurgeQueue :: "db \<Rightarrow> string \<Rightarrow> string \<Rightarrow> (sqs_error, db) result" where
  "PurgeQueue d account name =
     (case GetQueue d account name of
        Inl e \<Rightarrow> Inl e
      | Inr _ \<Rightarrow>
          Inr (d\<lparr>db_messages := filter (\<lambda>m. \<not> (m_account m = account \<and> m_queue m = name)) (db_messages d)\<rparr>))"

section \<open>Sending\<close>

text \<open>The rows of one queue, in the order of the table.\<close>

definition queue_rows :: "db \<Rightarrow> string \<Rightarrow> string \<Rightarrow> Message list" where
  "queue_rows d account name = filter (\<lambda>m. m_account m = account \<and> m_queue m = name) (db_messages d)"

text \<open>
  \<open>ORDER BY created_at DESC LIMIT 1\<close>: the latest, of several with one time the first row. The
  columns the statement does not select are zero in the message it returns.
\<close>

definition findDedupMessage :: "db \<Rightarrow> instant \<Rightarrow> string \<Rightarrow> string \<Rightarrow> string \<Rightarrow> Message option" where
  "findDedupMessage d now account name dedupID =
     (if dedupID = [] then None
      else (let cutoff = format_RFC3339 (now - FIFODedupWindow);
                found = filter (\<lambda>m. m_dedup m = dedupID \<and> cutoff \<le> m_created m) (queue_rows d account name)
            in case found of
                 [] \<Rightarrow> None
               | m # ms \<Rightarrow>
                   (let best = fold (\<lambda>x b. if m_created b < m_created x then x else b) ms m
                    in Some (best\<lparr>m_handle := None, m_visible := []\<rparr>))))"

definition nextSequenceNumber :: "db \<Rightarrow> string \<Rightarrow> string \<Rightarrow> string \<Rightarrow> int" where
  "nextSequenceNumber d account name grp =
     (case map m_seq (filter (\<lambda>m. m_group m = grp) (queue_rows d account name)) of
        [] \<Rightarrow> 1 | s # ss \<Rightarrow> fold max ss s + 1)"

text \<open>\<open>INSERT INTO sqs_messages\<close>: the primary key must be new.\<close>

definition insert_message :: "Message \<Rightarrow> db \<Rightarrow> (sqs_error, db) result" where
  "insert_message m d =
     (if \<exists>x\<in>set (db_messages d). m_id x = m_id m then Inl ErrConstraint
      else Inr (d\<lparr>db_messages := db_messages d @ [m]\<rparr>))"

definition prepareSendFIFOFields ::
  "attributes \<Rightarrow> string \<Rightarrow> SendMessageOpts option \<Rightarrow> (sqs_error, string \<times> string \<times> bool) result"
where
  "prepareSendFIFOFields attrs body opts =
     (if \<not> queueIsFIFO attrs then Inr ([], [], False)
      else (case opts of
              None \<Rightarrow> Inl ErrMissingMessageGroupID
            | Some o' \<Rightarrow>
                if TrimSpace (so_group o') = [] then Inl ErrMissingMessageGroupID
                else if queueContentBasedDedup attrs then
                  Inr (TrimSpace (so_group o'), contentBasedDedupID body, True)
                else if TrimSpace (so_dedup o') \<noteq> [] then
                  Inr (TrimSpace (so_group o'), TrimSpace (so_dedup o'), True)
                else Inl ErrMissingMessageDeduplication))"

definition prepareSendVisibleAfter :: "instant \<Rightarrow> attributes \<Rightarrow> SendMessageOpts option \<Rightarrow> string" where
  "prepareSendVisibleAfter now attrs opts =
     (let delay = (case opts of
            Some o' \<Rightarrow> if 0 < so_delay o' then min (so_delay o') maxDelaySeconds else queueDelaySeconds attrs
          | None \<Rightarrow> queueDelaySeconds attrs)
      in if delay \<le> 0 then [] else deadline now delay)"

text \<open>What \<open>SendMessage\<close> holds when it asks for the lock.\<close>

record prepared =
  pr_id :: string
  pr_account :: string
  pr_queue :: string
  pr_body :: string
  pr_sealed :: bool
  pr_dek :: string
  pr_created :: string
  pr_attrs :: string
  pr_visible :: string
  pr_group :: string
  pr_dedup :: string
  pr_fifo :: bool
  pr_snapshot :: attributes
  pr_opts :: "SendMessageOpts option"

text \<open>The part before the lock: it only reads the queue and draws the message id.\<close>

definition send_prepare ::
  "uuid \<Rightarrow> db \<Rightarrow> instant \<Rightarrow> string \<Rightarrow> string \<Rightarrow> string \<Rightarrow> bool \<Rightarrow> string \<Rightarrow> string \<Rightarrow> SendMessageOpts option \<Rightarrow>
   (sqs_error, prepared \<times> db) result"
where
  "send_prepare u d now account name body sealed dek attrsJSON opts =
     (case GetQueue d account name of
        Inl e \<Rightarrow> Inl e
      | Inr snap \<Rightarrow>
          (case prepareSendFIFOFields (q_attrs snap) body opts of
             Inl e \<Rightarrow> Inl e
           | Inr (grp, dedup, fifo) \<Rightarrow>
               Inr (\<lparr>pr_id = u (db_drawn d), pr_account = account, pr_queue = name, pr_body = body,
                     pr_sealed = sealed, pr_dek = dek, pr_created = format_RFC3339 now,
                     pr_attrs = (if TrimSpace attrsJSON = [] then ''{}'' else attrsJSON),
                     pr_visible = prepareSendVisibleAfter now (q_attrs snap) opts,
                     pr_group = grp, pr_dedup = dedup, pr_fifo = fifo, pr_snapshot = q_attrs snap,
                     pr_opts = opts\<rparr>,
                    d\<lparr>db_drawn := Suc (db_drawn d)\<rparr>)))"

text \<open>Where the attributes changed since the snapshot, the FIFO fields are derived again.\<close>

definition send_fields :: "instant \<Rightarrow> Queue \<Rightarrow> prepared \<Rightarrow> (sqs_error, string \<times> string \<times> bool \<times> string) result" where
  "send_fields now q p =
     (if queueIsFIFO (q_attrs q) \<noteq> pr_fifo p \<or>
         pr_fifo p \<and> queueContentBasedDedup (q_attrs q) \<noteq> queueContentBasedDedup (pr_snapshot p)
      then (case prepareSendFIFOFields (q_attrs q) (pr_body p) (pr_opts p) of
              Inl e \<Rightarrow> Inl e
            | Inr (grp, dedup, fifo) \<Rightarrow>
                Inr (grp, dedup, fifo, prepareSendVisibleAfter now (q_attrs q) (pr_opts p)))
      else Inr (pr_group p, pr_dedup p, pr_fifo p, pr_visible p))"

definition message_row :: "prepared \<Rightarrow> string \<Rightarrow> string \<Rightarrow> string \<Rightarrow> int \<Rightarrow> Message" where
  "message_row p grp dedup visible seq =
     \<lparr>m_id = pr_id p, m_account = pr_account p, m_queue = pr_queue p, m_body = pr_body p,
      m_sealed = pr_sealed p, m_dek = pr_dek p, m_handle = None, m_visible = visible, m_count = 0,
      m_created = pr_created p, m_attrs_json = pr_attrs p, m_group = grp, m_dedup = dedup, m_seq = seq\<rparr>"

text \<open>The part under the lock.\<close>

definition send_commit :: "db \<Rightarrow> instant \<Rightarrow> prepared \<Rightarrow> (sqs_error, Message \<times> db) result" where
  "send_commit d now p =
     (case GetQueue d (pr_account p) (pr_queue p) of
        Inl e \<Rightarrow> Inl e
      | Inr q \<Rightarrow>
          (case send_fields now q p of
             Inl e \<Rightarrow> Inl e
           | Inr (grp, dedup, fifo, visible) \<Rightarrow>
               (case (if fifo then findDedupMessage d now (pr_account p) (pr_queue p) dedup else None) of
                  Some existing \<Rightarrow> Inr (existing, d)
                | None \<Rightarrow>
                    (let seq = (if fifo then nextSequenceNumber d (pr_account p) (pr_queue p) grp else 0);
                         m = message_row p grp dedup visible seq
                     in case insert_message m d of Inl e \<Rightarrow> Inl e | Inr d' \<Rightarrow> Inr (m, d')))))"

definition SendMessage ::
  "uuid \<Rightarrow> db \<Rightarrow> instant \<Rightarrow> string \<Rightarrow> string \<Rightarrow> string \<Rightarrow> bool \<Rightarrow> string \<Rightarrow> string \<Rightarrow> SendMessageOpts option \<Rightarrow>
   (sqs_error, Message \<times> db) result"
where
  "SendMessage u d now account name body sealed dek attrsJSON opts =
     (case send_prepare u d now account name body sealed dek attrsJSON opts of
        Inl e \<Rightarrow> Inl e
      | Inr (p, d') \<Rightarrow> send_commit d' now p)"

text \<open>
  Each message of a batch is sent on its own, at its own time; after a failure those already sent
  stay in the queue, and the error is all the caller gets.
\<close>

fun SendMessageBatch ::
  "uuid \<Rightarrow> db \<Rightarrow> string \<Rightarrow> string \<Rightarrow> (instant \<times> string) list \<Rightarrow> db \<times> (sqs_error, Message list) result"
where
  "SendMessageBatch u d account name [] = (d, Inr [])"
| "SendMessageBatch u d account name ((now, body) # bodies) =
     (case SendMessage u d now account name body False [] [] None of
        Inl e \<Rightarrow> (d, Inl e)
      | Inr (m, d') \<Rightarrow>
          (case SendMessageBatch u d' account name bodies of
             (d'', Inl e) \<Rightarrow> (d'', Inl e)
           | (d'', Inr ms) \<Rightarrow> (d'', Inr (m # ms))))"

section \<open>Receiving\<close>

text \<open>\<open>receipt_handle IS NOT NULL AND receipt_handle != '' AND visible_after > now\<close>.\<close>

definition in_flight :: "string \<Rightarrow> Message \<Rightarrow> bool" where
  "in_flight nowStr m \<longleftrightarrow> m_handle m \<noteq> None \<and> m_handle m \<noteq> Some [] \<and> nowStr < m_visible m"

definition fifoBlockedGroups :: "db \<Rightarrow> string \<Rightarrow> string \<Rightarrow> string \<Rightarrow> string list" where
  "fifoBlockedGroups d account name nowStr =
     map m_group (filter (\<lambda>m. m_group m \<noteq> [] \<and> in_flight nowStr m) (queue_rows d account name))"

definition visible :: "string \<Rightarrow> Message \<Rightarrow> bool" where
  "visible nowStr m \<longleftrightarrow> m_visible m = [] \<or> m_visible m \<le> nowStr"

text \<open>
  The message attributes with the ARN of the source queue; \<open>None\<close> where they do not decode. (The text
  \<open>null\<close> would leave a nil map, and the assignment would panic; every sender stores an object.)
\<close>

definition mergeDlqSourceProvenance :: "string \<Rightarrow> string \<Rightarrow> string option" where
  "mergeDlqSourceProvenance attrsJSON sourceQueueARN =
     (let trimmed = TrimSpace attrsJSON;
          arn = JObj [(''DataType'', JStr ''String''), (''StringValue'', JStr sourceQueueARN)];
          add = (\<lambda>kvs. marshal_any (JObj (kvs @ [(''NoctaxrisDlqSourceArn'', arn)])))
      in if trimmed \<noteq> [] \<and> trimmed \<noteq> ''{}'' then
           (case json_parse trimmed of
              Some (JObj kvs) \<Rightarrow> add kvs
            | _ \<Rightarrow> None)
         else add [])"

text \<open>
  The message moves to the dead-letter queue as a new message; a FIFO queue needs a group and a
  deduplication id, and gives a sequence number.
\<close>

definition redriven_row ::
  "string \<Rightarrow> instant \<Rightarrow> Queue \<Rightarrow> Queue \<Rightarrow> Message \<Rightarrow> string \<Rightarrow> db \<Rightarrow> Message"
where
  "redriven_row newID now q dlq msg attrs d =
     (let fifo = queueIsFIFO (q_attrs dlq);
          grp = (if fifo \<and> m_group msg = [] then ''redriven'' else m_group msg);
          dedup = (if fifo \<and> m_dedup msg = [] then hex_encode (md5 (m_id msg)) else m_dedup msg)
      in \<lparr>m_id = newID, m_account = q_account q, m_queue = q_name dlq,
          m_body = m_body msg, m_sealed = m_sealed msg, m_dek = m_dek msg,
          m_handle = None, m_visible = [], m_count = 0,
          m_created = format_RFC3339 now, m_attrs_json = attrs,
          m_group = grp, m_dedup = dedup,
          m_seq = (if fifo then nextSequenceNumber d (q_account q) (q_name dlq) grp else 0)\<rparr>)"

definition redriveMessageTx ::
  "uuid \<Rightarrow> instant \<Rightarrow> Queue \<Rightarrow> redrivePolicy \<Rightarrow> Message \<Rightarrow> db \<Rightarrow> (sqs_error, db) result"
where
  "redriveMessageTx u now q policy msg d =
     (case queueNameFromARN (rp_target policy) of
        None \<Rightarrow> Inl ErrInvalidQueueArn
      | Some dlqName \<Rightarrow>
          (case GetQueue d (q_account q) dlqName of
             Inl e \<Rightarrow> Inl ErrNoSuchQueue
           | Inr dlq \<Rightarrow>
               if q_account dlq \<noteq> q_account q then Inl ErrDlqAccount
               else (case parseRedriveAllowPolicy (q_attrs dlq) of
                  (allow, hasAllow) \<Rightarrow>
                    if hasAllow \<and> \<not> allowsSource allow (q_arn q) then Inl ErrRedriveNotAllowed
                    else
                      (case mergeDlqSourceProvenance (m_attrs_json msg) (q_arn q) of
                         None \<Rightarrow> Inl ErrMessageAttributes
                       | Some attrs \<Rightarrow>
                           (case insert_message (redriven_row (u (db_drawn d)) now q dlq msg attrs d)
                                   (d\<lparr>db_drawn := Suc (db_drawn d)\<rparr>) of
                              Inl e \<Rightarrow> Inl e
                            | Inr d' \<Rightarrow>
                                Inr (d'\<lparr>db_messages := filter (\<lambda>m. m_id m \<noteq> m_id msg) (db_messages d')\<rparr>))))))"

text \<open>
  The loop over the rows in order: in a FIFO queue at most one message per group, none of a group with
  a message in flight; it stops when \<open>room\<close> messages are taken.
\<close>

fun select_pending :: "bool \<Rightarrow> string list \<Rightarrow> int \<Rightarrow> string list \<Rightarrow> Message list \<Rightarrow> Message list" where
  "select_pending fifo blocked room seen [] = []"
| "select_pending fifo blocked room seen (m # ms) =
     (if fifo \<and> (m_group m \<in> set blocked \<or> m_group m \<in> set seen)
      then select_pending fifo blocked room seen ms
      else m # (if room \<le> 1 then []
                else select_pending fifo blocked (room - 1) (if fifo then m_group m # seen else seen) ms))"

definition pending_rows :: "db \<Rightarrow> Queue \<Rightarrow> string \<Rightarrow> string \<Rightarrow> int \<Rightarrow> string \<Rightarrow> Message list" where
  "pending_rows d q account name mx nowStr =
     (let fifo = queueIsFIFO (q_attrs q);
          rows = filter (visible nowStr) (queue_rows d account name);
          ordered = (if fifo then sort_key (\<lambda>m. (m_seq m, m_id m)) rows
                     else sort_key (\<lambda>m. (m_created m, m_id m)) rows)
      in select_pending fifo (if fifo then fifoBlockedGroups d account name nowStr else []) mx [] ordered)"

definition redrives :: "redrivePolicy option \<Rightarrow> Message \<Rightarrow> bool" where
  "redrives policy m = (case policy of None \<Rightarrow> False | Some p \<Rightarrow> rp_max p < m_count m + 1)"

definition claimed_copy :: "string \<Rightarrow> string \<Rightarrow> Message \<Rightarrow> Message" where
  "claimed_copy handle visibleAfter m =
     m\<lparr>m_handle := Some handle, m_visible := visibleAfter, m_count := m_count m + 1\<rparr>"

text \<open>The compare-and-set UPDATE of one claim; \<open>None\<close>: no row was affected.\<close>

definition claim_row ::
  "string \<Rightarrow> string \<Rightarrow> string \<Rightarrow> string \<Rightarrow> db \<Rightarrow> (sqs_error, db option) result"
where
  "claim_row handle visibleAfter mid nowStr d =
     (if \<not> (\<exists>m\<in>set (db_messages d). m_id m = mid \<and> visible nowStr m) then Inr None
      else if \<exists>m\<in>set (db_messages d). m_handle m = Some handle then Inl ErrConstraint
      else Inr (Some (d\<lparr>db_messages :=
        map (\<lambda>m. if m_id m = mid \<and> visible nowStr m
                 then claimed_copy handle visibleAfter m else m) (db_messages d)\<rparr>)))"

fun claim_loop ::
  "uuid \<Rightarrow> instant \<Rightarrow> Queue \<Rightarrow> redrivePolicy option \<Rightarrow> string \<Rightarrow> Message list \<Rightarrow> db \<Rightarrow>
   (sqs_error, Message list \<times> db) result"
where
  "claim_loop u now q policy visibleAfter [] d = Inr ([], d)"
| "claim_loop u now q policy visibleAfter (m # ms) d =
     (if redrives policy m then
        (case redriveMessageTx u now q (the policy) m d of
           Inl e \<Rightarrow> Inl e
         | Inr d' \<Rightarrow> claim_loop u now q policy visibleAfter ms d')
      else
        (case claim_row (u (db_drawn d)) visibleAfter (m_id m) (format_RFC3339 now) (d\<lparr>db_drawn := Suc (db_drawn d)\<rparr>) of
           Inl e \<Rightarrow> Inl e
         | Inr None \<Rightarrow> claim_loop u now q policy visibleAfter ms (d\<lparr>db_drawn := Suc (db_drawn d)\<rparr>)
         | Inr (Some d') \<Rightarrow>
             (case claim_loop u now q policy visibleAfter ms d' of
                Inl e \<Rightarrow> Inl e
              | Inr (out, d'') \<Rightarrow>
                  Inr (claimed_copy (u (db_drawn d)) visibleAfter m # out, d''))))"

definition ReceiveMessages ::
  "uuid \<Rightarrow> db \<Rightarrow> instant \<Rightarrow> string \<Rightarrow> string \<Rightarrow> int \<Rightarrow> (sqs_error, Message list \<times> db) result"
where
  "ReceiveMessages u d now account name mx =
     (case GetQueue d account name of
        Inl e \<Rightarrow> Inl e
      | Inr q \<Rightarrow>
          claim_loop u now q (parseRedrivePolicy (q_attrs q))
            (deadline now (queueVisibilityTimeout (q_attrs q)))
            (pending_rows d q account name (if mx \<le> 0 then 1 else mx) (format_RFC3339 now)) d)"

section \<open>Deleting and changing the deadline\<close>

definition has_handle :: "string \<Rightarrow> string \<Rightarrow> string \<Rightarrow> Message \<Rightarrow> bool" where
  "has_handle account name handle m \<longleftrightarrow>
     m_account m = account \<and> m_queue m = name \<and> m_handle m = Some handle"

definition DeleteMessage :: "db \<Rightarrow> string \<Rightarrow> string \<Rightarrow> string \<Rightarrow> (sqs_error, db) result" where
  "DeleteMessage d account name handle =
     (case GetQueue d account name of
        Inl e \<Rightarrow> Inl e
      | Inr _ \<Rightarrow>
          if \<exists>m\<in>set (db_messages d). has_handle account name handle m
          then Inr (d\<lparr>db_messages := filter (\<lambda>m. \<not> has_handle account name handle m) (db_messages d)\<rparr>)
          else Inl ErrNoSuchMessage)"

definition ChangeMessageVisibility ::
  "db \<Rightarrow> instant \<Rightarrow> string \<Rightarrow> string \<Rightarrow> string \<Rightarrow> int \<Rightarrow> (sqs_error, db) result"
where
  "ChangeMessageVisibility d now account name handle seconds =
     (case GetQueue d account name of
        Inl e \<Rightarrow> Inl e
      | Inr _ \<Rightarrow>
          if \<exists>m\<in>set (db_messages d). has_handle account name handle m
          then Inr (d\<lparr>db_messages :=
            map (\<lambda>m. if has_handle account name handle m
                     then m\<lparr>m_visible := deadline now (if seconds < 0 then 0 else seconds)\<rparr> else m)
              (db_messages d)\<rparr>)
          else Inl ErrNoSuchMessage)"

end
