(* ===== verification/Transitions.thy ===== *)
theory Transitions
  imports Prelude
begin

text \<open>
  Labelled transition systems: the components whose operations interleave (the queues, the access key
  cache) are step relations, and what holds at every moment is an invariant of the reachable states.
\<close>

inductive reachable :: "('s \<Rightarrow> bool) \<Rightarrow> ('s \<Rightarrow> 'l \<Rightarrow> 's \<Rightarrow> bool) \<Rightarrow> 's \<Rightarrow> bool" for init step where
  reach_init: "init s \<Longrightarrow> reachable init step s"
| reach_step: "reachable init step s \<Longrightarrow> step s l s' \<Longrightarrow> reachable init step s'"

inductive run :: "('s \<Rightarrow> 'l \<Rightarrow> 's \<Rightarrow> bool) \<Rightarrow> 's \<Rightarrow> 'l list \<Rightarrow> 's \<Rightarrow> bool" for step where
  run_Nil: "run step s [] s"
| run_Cons: "step s l s' \<Longrightarrow> run step s' ls s'' \<Longrightarrow> run step s (l # ls) s''"

inductive_cases run_ConsE: "run step s (l # ls) s'"

lemma run_Nil_iff [simp]: "run step s [] s' = (s' = s)"
  by (auto intro: run_Nil elim: run.cases)

lemma run_Cons_iff: "run step s (l # ls) s'' = (\<exists>s'. step s l s' \<and> run step s' ls s'')"
  by (auto intro: run_Cons elim: run_ConsE)

lemma run_append: "run step s (xs @ ys) s'' = (\<exists>s'. run step s xs s' \<and> run step s' ys s'')"
  by (induction xs arbitrary: s) (auto simp: run_Cons_iff)

lemma reachable_run: "run step s ls s' \<Longrightarrow> reachable init step s \<Longrightarrow> reachable init step s'"
  by (induction rule: run.induct) (auto intro: reach_step)

text \<open>An invariant, and what it gives.\<close>

locale invariant_system =
  fixes init :: "'s \<Rightarrow> bool" and step :: "'s \<Rightarrow> 'l \<Rightarrow> 's \<Rightarrow> bool" and inv :: "'s \<Rightarrow> bool"
  assumes inv_init: "init s \<Longrightarrow> inv s"
    and inv_step: "inv s \<Longrightarrow> step s l s' \<Longrightarrow> inv s'"
begin

lemma reachable_inv: "reachable init step s \<Longrightarrow> inv s"
  by (induction rule: reachable.induct) (auto intro: inv_init inv_step)

lemma run_inv: "run step s ls s' \<Longrightarrow> inv s \<Longrightarrow> inv s'"
  by (induction rule: run.induct) (auto intro: inv_step)

text \<open>A property of states that every allowed step keeps where the invariant holds.\<close>

lemma run_preserves:
  assumes "run step s ls s'" "inv s" "P s"
    and "\<And>s l s'. inv s \<Longrightarrow> P s \<Longrightarrow> step s l s' \<Longrightarrow> ok l \<Longrightarrow> P s'"
    and "\<And>l. l \<in> set ls \<Longrightarrow> ok l"
  shows "P s'"
  using assms(1-3,5)
proof (induction rule: run.induct)
  case (run_Cons s l s' ls s'')
  then have "P s'" using assms(4) [of s l s'] by simp
  with run_Cons show ?case using inv_step [of s l s'] by simp
qed

text \<open>And of the labels that are met on the way.\<close>

lemma run_labels:
  assumes "run step s ls s'" "inv s" "P s"
    and "\<And>s l s'. inv s \<Longrightarrow> P s \<Longrightarrow> step s l s' \<Longrightarrow> ok l \<Longrightarrow> P s' \<and> Q l"
    and "\<And>l. l \<in> set ls \<Longrightarrow> ok l"
  shows "\<forall>l\<in>set ls. Q l"
  using assms(1-3,5)
proof (induction rule: run.induct)
  case (run_Cons s l s' ls s'')
  then have "P s' \<and> Q l" using assms(4) [of s l s'] by simp
  with run_Cons show ?case using inv_step [of s l s'] by simp
qed simp

end

end
