(* ===== verification/Sqs_Inv.thy ===== *)
theory Sqs_Inv
  imports Sqs Transitions
begin

text \<open>
  The queues as a transition system. \<open>SendMessage\<close> is two steps, since it reads its snapshot before it
  takes the lock; every other operation is one. A failing operation changes nothing and is no step.
  The invariant: message ids and receipt handles are fresh UUIDs, each used once; queues are unique
  by account and name; every message is in a queue that exists.
\<close>

record sys =
  s_db :: db
  s_sending :: "prepared list"

datatype sqs_op =
    OpQueues string string
  | OpPurge string string
  | OpPrepare
  | OpCommit instant Message
  | OpReceive instant string string "Message list"
  | OpDeleteMessage string string string
  | OpChangeVisibility instant string string string int

inductive sqs_step :: "uuid \<Rightarrow> sys \<Rightarrow> sqs_op \<Rightarrow> sys \<Rightarrow> bool" for u where
  step_create: "CreateQueue (s_db s) now account region host name attrs = Inr (q, d') \<Longrightarrow>
    sqs_step u s (OpQueues account name) (s\<lparr>s_db := d'\<rparr>)"
| step_delete_queue: "DeleteQueue (s_db s) account name = Inr d' \<Longrightarrow> sqs_step u s (OpQueues account name) (s\<lparr>s_db := d'\<rparr>)"
| step_set_attributes: "SetQueueAttributes (s_db s) account name attrs = Inr d' \<Longrightarrow>
    sqs_step u s (OpQueues account name) (s\<lparr>s_db := d'\<rparr>)"
| step_purge: "PurgeQueue (s_db s) account name = Inr d' \<Longrightarrow>
    sqs_step u s (OpPurge account name) (s\<lparr>s_db := d'\<rparr>)"
| step_prepare: "send_prepare u (s_db s) now account name body sealed dek attrsJSON opts = Inr (p, d') \<Longrightarrow>
    sqs_step u s OpPrepare \<lparr>s_db = d', s_sending = p # s_sending s\<rparr>"
| step_commit: "p \<in> set (s_sending s) \<Longrightarrow> send_commit (s_db s) now p = Inr (m, d') \<Longrightarrow>
    sqs_step u s (OpCommit now m) \<lparr>s_db = d', s_sending = remove1 p (s_sending s)\<rparr>"
| step_receive: "ReceiveMessages u (s_db s) now account name mx = Inr (out, d') \<Longrightarrow>
    sqs_step u s (OpReceive now account name out) (s\<lparr>s_db := d'\<rparr>)"
| step_delete_message: "DeleteMessage (s_db s) account name handle = Inr d' \<Longrightarrow>
    sqs_step u s (OpDeleteMessage account name handle) (s\<lparr>s_db := d'\<rparr>)"
| step_change_visibility: "ChangeMessageVisibility (s_db s) now account name handle seconds = Inr d' \<Longrightarrow>
    sqs_step u s (OpChangeVisibility now account name handle seconds) (s\<lparr>s_db := d'\<rparr>)"

definition sqs_init :: "sys \<Rightarrow> bool" where
  "sqs_init s \<longleftrightarrow> s = \<lparr>s_db = \<lparr>db_queues = [], db_messages = [], db_drawn = 0\<rparr>, s_sending = []\<rparr>"

section \<open>Names in use\<close>

definition handles :: "Message list \<Rightarrow> string list" where
  "handles ms = List.map_filter m_handle ms"

lemma handles_simps [simp]:
  "handles [] = []"
  "handles (m # ms) = (case m_handle m of None \<Rightarrow> handles ms | Some h \<Rightarrow> h # handles ms)"
  "handles (xs @ ys) = handles xs @ handles ys"
  by (induction xs) (auto simp: handles_def List.map_filter_def split: option.splits)

lemma handles_in: "h \<in> set (handles ms) \<longleftrightarrow> (\<exists>m\<in>set ms. m_handle m = Some h)"
  by (induction ms) (auto split: option.splits)

definition used :: "db \<Rightarrow> prepared list \<Rightarrow> string multiset" where
  "used d ps = mset (map m_id (db_messages d)) + mset (handles (db_messages d)) + mset (map pr_id ps)"

definition names_ok :: "uuid \<Rightarrow> db \<Rightarrow> prepared list \<Rightarrow> bool" where
  "names_ok u d ps \<longleftrightarrow>
     (\<forall>x. count (used d ps) x \<le> 1) \<and> (\<forall>x\<in>#used d ps. \<exists>i<db_drawn d. x = u i)"

definition queues_ok :: "db \<Rightarrow> bool" where
  "queues_ok d \<longleftrightarrow>
     distinct (map (\<lambda>q. (q_account q, q_name q)) (db_queues d)) \<and>
     (\<forall>m\<in>set (db_messages d). \<exists>q\<in>set (db_queues d). q_account q = m_account m \<and> q_name q = m_queue m)"

definition sqs_inv :: "uuid \<Rightarrow> sys \<Rightarrow> bool" where
  "sqs_inv u s \<longleftrightarrow> names_ok u (s_db s) (s_sending s) \<and> queues_ok (s_db s)"

text \<open>Between two states only fresh names come into use.\<close>

definition fresh_step :: "uuid \<Rightarrow> db \<Rightarrow> prepared list \<Rightarrow> db \<Rightarrow> prepared list \<Rightarrow> bool" where
  "fresh_step u d ps d' ps' \<longleftrightarrow>
     db_drawn d \<le> db_drawn d' \<and>
     used d' ps' \<subseteq># used d ps + mset (map u [db_drawn d..<db_drawn d'])"

lemma fresh_step_refl [simp]: "fresh_step u d ps d ps"
  by (simp add: fresh_step_def)

lemma fresh_step_trans:
  assumes "fresh_step u d ps d' ps'" "fresh_step u d' ps' d'' ps''"
  shows "fresh_step u d ps d'' ps''"
proof -
  have "[db_drawn d..<db_drawn d''] = [db_drawn d..<db_drawn d'] @ [db_drawn d'..<db_drawn d'']"
    using assms by (metis fresh_step_def le_add_diff_inverse upt_add_eq_append)
  moreover have "used d'' ps'' \<subseteq># used d ps + mset (map u [db_drawn d..<db_drawn d']) + mset (map u [db_drawn d'..<db_drawn d''])"
    using assms unfolding fresh_step_def
    by (meson subset_mset.add_right_mono subset_mset.order_trans)
  ultimately show ?thesis using assms by (simp add: fresh_step_def add.assoc)
qed

lemma names_ok_step:
  assumes "inj u" "names_ok u d ps" "fresh_step u d ps d' ps'"
  shows "names_ok u d' ps'"
  unfolding names_ok_def
proof (intro conjI allI ballI)
  let ?new = "mset (map u [db_drawn d..<db_drawn d'])"
  have sub: "used d' ps' \<subseteq># used d ps + ?new" and le: "db_drawn d \<le> db_drawn d'"
    using assms(3) by (auto simp: fresh_step_def)
  fix x
  show "count (used d' ps') x \<le> 1"
  proof -
    have "count ?new x \<le> 1"
      using assms(1) using distinct_count_atmost_1 [of "map u [db_drawn d..<db_drawn d']"] by (simp add: distinct_map inj_def inj_on_def)
    moreover have "x \<in># used d ps \<Longrightarrow> count ?new x = 0"
      using assms(1,2) by (force simp: names_ok_def inj_def count_eq_zero_iff)
    moreover have "count (used d' ps') x \<le> count (used d ps) x + count ?new x"
      using mset_subset_eq_count [OF sub, of x] by simp
    ultimately show ?thesis
      using assms(2) by (cases "x \<in># used d ps") (auto simp: names_ok_def not_in_iff intro: le_trans)
  qed
  assume "x \<in># used d' ps'"
  then have "x \<in># used d ps + ?new" using sub by (rule mset_subset_eqD [rotated])
  then show "\<exists>i<db_drawn d'. x = u i"
    using assms(2) le by (force simp: names_ok_def)
qed

section \<open>What each operation does to the names\<close>

lemma used_simps:
  "used (d\<lparr>db_queues := qs\<rparr>) ps = used d ps"
  "used (d\<lparr>db_drawn := n\<rparr>) ps = used d ps"
  by (simp_all add: used_def)

lemma handles_filter: "mset (handles (filter P ms)) \<subseteq># mset (handles ms)"
proof (induction ms)
  case (Cons m ms)
  then show ?case
    by (auto split: option.splits intro: subset_mset.order_trans)
qed simp

lemma used_filter: "used (d\<lparr>db_messages := filter P (db_messages d)\<rparr>) ps \<subseteq># used d ps"
  unfolding used_def
  by (simp add: mset_filter image_mset_subseteq_mono handles_filter subset_mset.add_mono)

lemma fresh_filter: "fresh_step u d ps (d\<lparr>db_messages := filter P (db_messages d)\<rparr>) ps"
  using used_filter by (simp add: fresh_step_def)

lemma fresh_queues: "fresh_step u d ps (d\<lparr>db_queues := qs\<rparr>) ps"
  by (simp add: fresh_step_def used_simps)

lemma fresh_draw: "fresh_step u d ps (d\<lparr>db_drawn := Suc (db_drawn d)\<rparr>) ps"
  by (simp add: fresh_step_def used_simps)

lemma used_same:
  "map m_id ms' = map m_id (db_messages d) \<Longrightarrow> handles ms' = handles (db_messages d) \<Longrightarrow>
   used (d\<lparr>db_messages := ms'\<rparr>) ps = used d ps"
  by (simp add: used_def)

lemma names_distinct_ids:
  assumes "names_ok u d ps"
  shows "distinct (map m_id (db_messages d))"
proof -
  have "count (mset (map m_id (db_messages d))) x \<le> 1" for x
    using assms by (auto simp: names_ok_def used_def dest!: spec [of _ x])
  then show ?thesis
    unfolding distinct_count_atmost_1 by (metis count_eq_zero_iff le_antisym less_one not_less set_mset_mset)
qed

lemma insert_message_Inr:
  "insert_message m d = Inr d' \<longleftrightarrow>
   d' = d\<lparr>db_messages := db_messages d @ [m]\<rparr> \<and> m_id m \<notin> m_id ` set (db_messages d)"
  by (auto simp: insert_message_def image_iff dest: sym)

text \<open>One message of the pending ones is inserted: the name moves from the sender to the table.\<close>

lemma fresh_commit:
  assumes "p \<in> set ps" "m_id m = pr_id p" "m_handle m = None"
  shows "fresh_step u d ps (d\<lparr>db_messages := db_messages d @ [m]\<rparr>) (remove1 p ps)"
proof -
  have "mset (map pr_id ps) = add_mset (pr_id p) (mset (map pr_id (remove1 p ps)))"
    using assms(1) by (metis insert_DiffM mset_map mset_remove1 image_mset_add_mset set_mset_mset)
  then show ?thesis using assms(2,3) by (simp add: fresh_step_def used_def)
qed

lemma fresh_abandon: "fresh_step u d ps d (remove1 p ps)"
  by (simp add: fresh_step_def used_def image_mset_subseteq_mono)

text \<open>A message with a newly drawn id is inserted.\<close>

lemma fresh_insert:
  assumes "m_id m = u (db_drawn d)" "m_handle m = None"
  shows "fresh_step u d ps (d\<lparr>db_messages := db_messages d @ [m], db_drawn := Suc (db_drawn d)\<rparr>) ps"
  using assms by (simp add: fresh_step_def used_def)

text \<open>One row gets a newly drawn handle.\<close>

lemma claim_split:
  assumes "distinct (map m_id ms)" "m \<in> set ms" "m_id m = mid" "P m"
  obtains xs ys where "ms = xs @ m # ys"
    "\<And>f. map (\<lambda>x. if m_id x = mid \<and> P x then f x else x) ms = xs @ f m # ys"
proof -
  obtain xs ys where ms: "ms = xs @ m # ys" using assms(2) by (meson split_list)
  have mid: "mid \<notin> m_id ` set xs" "mid \<notin> m_id ` set ys"
    using assms(1,3) unfolding ms by auto
  have no: "m_id x \<noteq> mid" if "x \<in> set xs \<or> x \<in> set ys" for x
    using that mid by blast
  have "map (\<lambda>x. if m_id x = mid \<and> P x then f x else x) xs = xs" for f
    by (rule map_idI) (simp add: no)
  moreover have "map (\<lambda>x. if m_id x = mid \<and> P x then f x else x) ys = ys" for f
    by (rule map_idI) (simp add: no)
  ultimately have "map (\<lambda>x. if m_id x = mid \<and> P x then f x else x) ms = xs @ f m # ys" for f
    using assms(3,4) by (simp add: ms)
  with ms show ?thesis using that by blast
qed

lemma fresh_claim:
  assumes n: "names_ok u d ps"
    and c: "claim_row (u (db_drawn d)) vis mid nowStr (d\<lparr>db_drawn := Suc (db_drawn d)\<rparr>) = Inr (Some d')"
  shows "fresh_step u d ps d' ps"
proof -
  obtain m where m: "m \<in> set (db_messages d)" "m_id m = mid" "visible nowStr m"
    and d': "d' = d\<lparr>db_drawn := Suc (db_drawn d), db_messages :=
        map (\<lambda>m. if m_id m = mid \<and> visible nowStr m
                 then claimed_copy (u (db_drawn d)) vis m else m) (db_messages d)\<rparr>"
    using c by (auto simp: claim_row_def split: if_splits)
  obtain xs ys where ms: "db_messages d = xs @ m # ys"
    and map: "\<And>f. map (\<lambda>x. if m_id x = mid \<and> visible nowStr x then f x else x) (db_messages d) = xs @ f m # ys"
    using claim_split [OF names_distinct_ids [OF n] m(1,2), of "visible nowStr"] m(3) by blast
  show ?thesis
    unfolding d' map by (cases "m_handle m") (simp_all add: fresh_step_def used_def ms claimed_copy_def)
qed

lemma GetQueue_Inr:
  "GetQueue d account name = Inr q \<Longrightarrow> q \<in> set (db_queues d) \<and> q_account q = account \<and> q_name q = name"
  by (auto simp: GetQueue_def split: option.splits dest: find_Some_iff')

lemma GetQueue_cong: "db_queues d' = db_queues d \<Longrightarrow> GetQueue d' account name = GetQueue d account name"
  by (simp add: GetQueue_def)

lemma redriven_row_simps [simp]:
  "m_id (redriven_row i now q dlq msg attrs d) = i"
  "m_account (redriven_row i now q dlq msg attrs d) = q_account q"
  "m_queue (redriven_row i now q dlq msg attrs d) = q_name dlq"
  "m_body (redriven_row i now q dlq msg attrs d) = m_body msg"
  "m_sealed (redriven_row i now q dlq msg attrs d) = m_sealed msg"
  "m_dek (redriven_row i now q dlq msg attrs d) = m_dek msg"
  "m_handle (redriven_row i now q dlq msg attrs d) = None"
  "m_visible (redriven_row i now q dlq msg attrs d) = []"
  "m_count (redriven_row i now q dlq msg attrs d) = 0"
  "m_attrs_json (redriven_row i now q dlq msg attrs d) = attrs"
  by (simp_all add: redriven_row_def Let_def)

lemma redrive_Inr:
  assumes "redriveMessageTx u now q p msg d = Inr d'"
  obtains dlqName dlq attrs new where
    "queueNameFromARN (rp_target p) = Some dlqName" "GetQueue d (q_account q) dlqName = Inr dlq"
    "new = redriven_row (u (db_drawn d)) now q dlq msg attrs d"
    "mergeDlqSourceProvenance (m_attrs_json msg) (q_arn q) = Some attrs"
    "snd (parseRedriveAllowPolicy (q_attrs dlq)) \<longrightarrow> allowsSource (fst (parseRedriveAllowPolicy (q_attrs dlq))) (q_arn q)"
    "m_id new \<notin> m_id ` set (db_messages d)"
    "d' = d\<lparr>db_drawn := Suc (db_drawn d),
      db_messages := filter (\<lambda>m. m_id m \<noteq> m_id msg) (db_messages d @ [new])\<rparr>"
  using assms
  by (auto simp: redriveMessageTx_def insert_message_Inr
      split: option.splits sum.splits if_splits prod.splits)

lemma claim_loop_ConsE:
  assumes "claim_loop u now q policy vis (m # ms) d = Inr (out, d')"
  obtains (redriven) p d1 where "policy = Some p" "redrives policy m"
      "redriveMessageTx u now q p m d = Inr d1" "claim_loop u now q policy vis ms d1 = Inr (out, d')"
  | (skipped) "\<not> redrives policy m"
      "claim_row (u (db_drawn d)) vis (m_id m) (format_RFC3339 now) (d\<lparr>db_drawn := Suc (db_drawn d)\<rparr>) = Inr None"
      "claim_loop u now q policy vis ms (d\<lparr>db_drawn := Suc (db_drawn d)\<rparr>) = Inr (out, d')"
  | (claimed) d1 out1 where "\<not> redrives policy m"
      "claim_row (u (db_drawn d)) vis (m_id m) (format_RFC3339 now) (d\<lparr>db_drawn := Suc (db_drawn d)\<rparr>) = Inr (Some d1)"
      "claim_loop u now q policy vis ms d1 = Inr (out1, d')"
      "out = claimed_copy (u (db_drawn d)) vis m # out1"
proof (cases "redrives policy m")
  case True
  then obtain p where p: "policy = Some p" by (cases policy) (simp_all add: redrives_def)
  with True assms show ?thesis
    by (intro redriven [OF p True, of "projr (redriveMessageTx u now q p m d)"])
      (auto split: sum.splits)
next
  case False
  with assms show ?thesis
    by (auto split: sum.splits option.splits intro: skipped claimed)
qed

lemma claim_loop_relation:
  assumes "claim_loop u now q policy vis ms d = Inr (out, d')" "I d"
    and refl: "\<And>d. R d d" and trans: "\<And>a b c. R a b \<Longrightarrow> R b c \<Longrightarrow> R a c"
    and redrive: "\<And>p m d d'. I d \<Longrightarrow> m \<in> set ms \<Longrightarrow> policy = Some p \<Longrightarrow>
      redriveMessageTx u now q p m d = Inr d' \<Longrightarrow> I d' \<and> R d d'"
    and draw: "\<And>d. I d \<Longrightarrow> I (d\<lparr>db_drawn := Suc (db_drawn d)\<rparr>) \<and> R d (d\<lparr>db_drawn := Suc (db_drawn d)\<rparr>)"
    and claim: "\<And>m d d'. I d \<Longrightarrow> m \<in> set ms \<Longrightarrow>
      claim_row (u (db_drawn d)) vis (m_id m) (format_RFC3339 now) (d\<lparr>db_drawn := Suc (db_drawn d)\<rparr>) = Inr (Some d') \<Longrightarrow>
      I d' \<and> R d d'"
  shows "I d' \<and> R d d'"
proof -
  have "set ns \<subseteq> set ms \<Longrightarrow> claim_loop u now q policy vis ns d = Inr (out, d') \<Longrightarrow> I d \<Longrightarrow> I d' \<and> R d d'" for ns
  proof (induction ns arbitrary: d out d')
    case Nil
    then show ?case by (simp add: refl)
  next
    case (Cons m ns)
    then have m: "m \<in> set ms" and ns: "set ns \<subseteq> set ms" by auto
    have cont: "claim_loop u now q policy vis ns d1 = Inr (out1, d') \<Longrightarrow> I d1 \<and> R d d1 \<Longrightarrow> I d' \<and> R d d'"
      for d1 out1 using Cons.IH [OF ns] trans by blast
    from Cons.prems(2) show ?case
    proof (cases rule: claim_loop_ConsE)
      case (redriven p d1)
      then show ?thesis using redrive [OF Cons.prems(3) m] cont by blast
    next
      case skipped
      then show ?thesis using draw [OF Cons.prems(3)] cont by blast
    next
      case (claimed d1 out1)
      then show ?thesis using claim [OF Cons.prems(3) m] cont by blast
    qed
  qed
  then show ?thesis using assms(1,2) by blast
qed

section \<open>The invariant\<close>

lemma queues_ok_filter: "queues_ok d \<Longrightarrow> queues_ok (d\<lparr>db_messages := filter P (db_messages d)\<rparr>)"
  by (auto simp: queues_ok_def)

lemma queues_ok_drawn: "queues_ok (d\<lparr>db_drawn := n\<rparr>) = queues_ok d"
  by (simp add: queues_ok_def)

lemma queues_ok_insert:
  "queues_ok d \<Longrightarrow> GetQueue d (m_account m) (m_queue m) = Inr q \<Longrightarrow>
   queues_ok (d\<lparr>db_messages := db_messages d @ [m]\<rparr>)"
  using GetQueue_Inr [of d "m_account m" "m_queue m" q] by (auto simp: queues_ok_def)

lemma queues_ok_map:
  "queues_ok d \<Longrightarrow> (\<And>m. m_account (f m) = m_account m \<and> m_queue (f m) = m_queue m) \<Longrightarrow>
   queues_ok (d\<lparr>db_messages := map f (db_messages d)\<rparr>)"
  by (auto simp: queues_ok_def)

lemma queue_unique:
  assumes "queues_ok d" "q \<in> set (db_queues d)" "q' \<in> set (db_queues d)"
    "q_account q = q_account q'" "q_name q = q_name q'"
  shows "q = q'"
proof -
  have "inj_on (\<lambda>q. (q_account q, q_name q)) (set (db_queues d))"
    using assms(1) by (simp add: queues_ok_def distinct_map)
  then show ?thesis by (rule inj_onD) (use assms in auto)
qed

definition db_inv :: "uuid \<Rightarrow> prepared list \<Rightarrow> db \<Rightarrow> bool" where
  "db_inv u ps d \<longleftrightarrow> names_ok u d ps \<and> queues_ok d"

lemma sqs_inv_db: "sqs_inv u s = db_inv u (s_sending s) (s_db s)"
  by (simp add: sqs_inv_def db_inv_def)

lemma db_inv_draw: "inj u \<Longrightarrow> db_inv u ps d \<Longrightarrow> db_inv u ps (d\<lparr>db_drawn := Suc (db_drawn d)\<rparr>)"
  using names_ok_step [OF _ _ fresh_draw] by (auto simp: db_inv_def queues_ok_drawn)

lemma redrive_inv:
  assumes "inj u" "db_inv u ps d" "redriveMessageTx u now q p msg d = Inr d'"
  shows "db_inv u ps d'" "db_queues d' = db_queues d"
proof -
  obtain dlqName dlq attrs new where dlq: "GetQueue d (q_account q) dlqName = Inr dlq"
    and new: "new = redriven_row (u (db_drawn d)) now q dlq msg attrs d"
    and d': "d' = d\<lparr>db_drawn := Suc (db_drawn d),
      db_messages := filter (\<lambda>m. m_id m \<noteq> m_id msg) (db_messages d @ [new])\<rparr>"
    using redrive_Inr [OF assms(3)] by metis
  let ?d1 = "d\<lparr>db_messages := db_messages d @ [new], db_drawn := Suc (db_drawn d)\<rparr>"
  have "fresh_step u d ps ?d1 ps" by (rule fresh_insert) (simp_all add: new)
  moreover have d'1: "d' = ?d1\<lparr>db_messages := filter (\<lambda>m. m_id m \<noteq> m_id msg) (db_messages ?d1)\<rparr>"
    by (simp add: d')
  ultimately have "fresh_step u d ps d' ps" using fresh_step_trans fresh_filter by metis
  moreover have "queues_ok (d\<lparr>db_messages := db_messages d @ [new]\<rparr>)"
    using assms(2) dlq GetQueue_Inr [OF dlq] by (intro queues_ok_insert) (auto simp: db_inv_def new)
  then have "queues_ok d'" unfolding d'1 by (intro queues_ok_filter) (simp add: queues_ok_def)
  ultimately show "db_inv u ps d'" using assms names_ok_step by (auto simp: db_inv_def)
  show "db_queues d' = db_queues d" by (simp add: d')
qed

lemma claim_inv:
  assumes "inj u" "db_inv u ps d"
    and "claim_row (u (db_drawn d)) vis mid nowStr (d\<lparr>db_drawn := Suc (db_drawn d)\<rparr>) = Inr (Some d')"
  shows "db_inv u ps d'" "db_queues d' = db_queues d"
proof -
  have "fresh_step u d ps d' ps" using assms fresh_claim by (auto simp: db_inv_def)
  moreover have "queues_ok d'" "db_queues d' = db_queues d"
    using assms(2,3) by (auto simp: claim_row_def db_inv_def queues_ok_def claimed_copy_def split: if_splits)
  ultimately show "db_inv u ps d'" "db_queues d' = db_queues d"
    using assms names_ok_step by (auto simp: db_inv_def)
qed

lemma receive_inv:
  assumes "inj u" "db_inv u ps d" "ReceiveMessages u d now account name mx = Inr (out, d')"
  shows "db_inv u ps d' \<and> db_queues d' = db_queues d"
proof -
  obtain q where "claim_loop u now q (parseRedrivePolicy (q_attrs q))
      (deadline now (queueVisibilityTimeout (q_attrs q)))
      (pending_rows d q account name (if mx \<le> 0 then 1 else mx) (format_RFC3339 now)) d = Inr (out, d')"
    using assms(3) by (auto simp: ReceiveMessages_def split: sum.splits)
  then show ?thesis
  proof (rule claim_loop_relation [where I = "db_inv u ps" and R = "\<lambda>a b. db_queues b = db_queues a"])
    show "db_inv u ps d" by (rule assms(2))
    show "db_queues a = db_queues a" "db_queues b = db_queues a \<Longrightarrow> db_queues c = db_queues b \<Longrightarrow> db_queues c = db_queues a"
      for a b c by simp_all
    show "db_inv u ps d1 \<Longrightarrow> redriveMessageTx u now q p m d1 = Inr d2 \<Longrightarrow> db_inv u ps d2 \<and> db_queues d2 = db_queues d1"
      for p m d1 d2 using redrive_inv [OF assms(1)] by blast
    show "db_inv u ps d1 \<Longrightarrow> db_inv u ps (d1\<lparr>db_drawn := Suc (db_drawn d1)\<rparr>) \<and>
        db_queues (d1\<lparr>db_drawn := Suc (db_drawn d1)\<rparr>) = db_queues d1" for d1
      using db_inv_draw [OF assms(1)] by simp
    show "db_inv u ps d1 \<Longrightarrow> claim_row (u (db_drawn d1)) vis (m_id m) nowStr (d1\<lparr>db_drawn := Suc (db_drawn d1)\<rparr>) = Inr (Some d2)
        \<Longrightarrow> db_inv u ps d2 \<and> db_queues d2 = db_queues d1" for vis nowStr m d1 d2
      using claim_inv [OF assms(1)] by blast
  qed
qed

lemma send_commit_cases:
  assumes "send_commit d now p = Inr (m, d')"
  obtains (duplicate) q grp dedup fifo vis where "GetQueue d (pr_account p) (pr_queue p) = Inr q"
      "send_fields now q p = Inr (grp, dedup, fifo, vis)" "fifo"
      "findDedupMessage d now (pr_account p) (pr_queue p) dedup = Some m" "d' = d"
  | (inserted) q grp dedup fifo vis where "GetQueue d (pr_account p) (pr_queue p) = Inr q"
      "send_fields now q p = Inr (grp, dedup, fifo, vis)"
      "fifo \<Longrightarrow> findDedupMessage d now (pr_account p) (pr_queue p) dedup = None"
      "m = message_row p grp dedup vis (if fifo then nextSequenceNumber d (pr_account p) (pr_queue p) grp else 0)"
      "m_id m \<notin> m_id ` set (db_messages d)" "d' = d\<lparr>db_messages := db_messages d @ [m]\<rparr>"
proof -
  obtain q where q: "GetQueue d (pr_account p) (pr_queue p) = Inr q"
    using assms by (auto simp: send_commit_def split: sum.splits)
  obtain grp dedup fifo vis where f: "send_fields now q p = Inr (grp, dedup, fifo, vis)"
    using assms by (auto simp: send_commit_def q split: sum.splits)
  let ?found = "if fifo then findDedupMessage d now (pr_account p) (pr_queue p) dedup else None"
  let ?seq = "if fifo then nextSequenceNumber d (pr_account p) (pr_queue p) grp else 0"
  show ?thesis
  proof (cases ?found)
    case (Some x)
    then have "fifo" by (cases fifo) simp_all
    moreover have "m = x" "d' = d" using assms Some by (simp_all add: send_commit_def q f)
    ultimately show ?thesis using duplicate [OF q f] Some by simp
  next
    case None
    have "\<not> (\<exists>e. insert_message (message_row p grp dedup vis ?seq) d = Inl e)"
      using assms None by (auto simp: send_commit_def q f Let_def)
    then obtain d1 where i: "insert_message (message_row p grp dedup vis ?seq) d = Inr d1"
      by (metis old.sum.exhaust)
    then have "m = message_row p grp dedup vis ?seq" "d' = d1"
      using assms None by (simp_all add: send_commit_def q f Let_def)
    moreover have "fifo \<Longrightarrow> findDedupMessage d now (pr_account p) (pr_queue p) dedup = None" using None by simp
    ultimately show ?thesis using inserted [OF q f] i unfolding insert_message_Inr by auto
  qed
qed

lemma message_row_simps [simp]:
  "m_id (message_row p grp dedup vis seq) = pr_id p"
  "m_account (message_row p grp dedup vis seq) = pr_account p"
  "m_queue (message_row p grp dedup vis seq) = pr_queue p"
  "m_handle (message_row p grp dedup vis seq) = None"
  "m_group (message_row p grp dedup vis seq) = grp"
  "m_dedup (message_row p grp dedup vis seq) = dedup"
  "m_seq (message_row p grp dedup vis seq) = seq"
  "m_body (message_row p grp dedup vis seq) = pr_body p"
  "m_visible (message_row p grp dedup vis seq) = vis"
  "m_count (message_row p grp dedup vis seq) = 0"
  "m_created (message_row p grp dedup vis seq) = pr_created p"
  by (simp_all add: message_row_def)

lemma commit_inv:
  assumes "inj u" "db_inv u ps d" "p \<in> set ps" "send_commit d now p = Inr (m, d')"
  shows "db_inv u (remove1 p ps) d'"
  using assms(4)
proof (cases rule: send_commit_cases)
  case (duplicate q grp dedup fifo vis)
  then show ?thesis using assms(1,2) names_ok_step [OF _ _ fresh_abandon] by (auto simp: db_inv_def)
next
  case (inserted q grp dedup fifo vis)
  have "fresh_step u d ps d' (remove1 p ps)"
    unfolding inserted(6) by (rule fresh_commit) (simp_all add: assms(3) inserted(4))
  moreover have "queues_ok d'"
    using assms(2) inserted(1,6) inserted(4) by (auto simp: db_inv_def intro!: queues_ok_insert)
  ultimately show ?thesis using assms(1,2) names_ok_step by (auto simp: db_inv_def)
qed

lemma queues_inv:
  assumes "db_inv u ps d" "used d' ps = used d ps" "db_drawn d' = db_drawn d" "queues_ok d'"
  shows "db_inv u ps d'"
  using assms by (simp add: db_inv_def names_ok_def)

lemma filter_inv: "inj u \<Longrightarrow> db_inv u ps d \<Longrightarrow> db_inv u ps (d\<lparr>db_messages := filter P (db_messages d)\<rparr>)"
  using names_ok_step [OF _ _ fresh_filter] by (auto simp: db_inv_def intro: queues_ok_filter)

lemma create_inv:
  assumes "db_inv u ps d" "CreateQueue d now account region host name attrs = Inr (q, d')"
  shows "db_inv u ps d'"
proof (rule queues_inv [OF assms(1)])
  show "used d' ps = used d ps" "db_drawn d' = db_drawn d"
    using assms(2) by (auto simp: CreateQueue_def Let_def used_def split: if_splits)
  show "queues_ok d'"
    using assms by (force simp: CreateQueue_def Let_def db_inv_def queues_ok_def split: if_splits)
qed

lemma delete_queue_inv:
  assumes "inj u" "db_inv u ps d" "DeleteQueue d account name = Inr d'"
  shows "db_inv u ps d'"
proof -
  let ?d1 = "d\<lparr>db_messages := filter (\<lambda>m. \<not> (m_account m = account \<and> m_queue m = name)) (db_messages d)\<rparr>"
  have d': "d' = ?d1\<lparr>db_queues := filter (\<lambda>q. \<not> (q_account q = account \<and> q_name q = name)) (db_queues d)\<rparr>"
    using assms(3) by (auto simp: DeleteQueue_def split: sum.splits)
  have "db_inv u ps ?d1" using assms(1,2) by (rule filter_inv)
  moreover have "queues_ok d'"
    using assms(2) unfolding db_inv_def queues_ok_def d'
    by (auto simp: distinct_map inj_on_def) metis+
  ultimately show ?thesis by (intro queues_inv [of u ps ?d1 d']) (simp_all add: d' used_simps)
qed

lemma set_attributes_inv:
  assumes "db_inv u ps d" "SetQueueAttributes d account name attrs = Inr d'"
  shows "db_inv u ps d'"
proof -
  obtain f where d': "d' = d\<lparr>db_queues := map f (db_queues d)\<rparr>"
    and f: "\<And>q. q_account (f q) = q_account q \<and> q_name (f q) = q_name q"
    using assms(2) by (auto simp: SetQueueAttributes_def Let_def split: sum.splits if_splits)
  have "queues_ok d'" using assms(1) by (force simp: d' db_inv_def queues_ok_def comp_def f)
  then show ?thesis by (intro queues_inv [OF assms(1)]) (simp_all add: d' used_simps)
qed

lemma change_visibility_inv:
  assumes "db_inv u ps d" "ChangeMessageVisibility d now account name handle seconds = Inr d'"
  shows "db_inv u ps d'"
proof -
  obtain f where d': "d' = d\<lparr>db_messages := map f (db_messages d)\<rparr>"
    and f: "\<And>m. m_id (f m) = m_id m \<and> m_handle (f m) = m_handle m \<and> m_account (f m) = m_account m \<and> m_queue (f m) = m_queue m"
    using assms(2) by (auto simp: ChangeMessageVisibility_def split: sum.splits if_splits)
  have "handles (map f ms) = handles ms" for ms
    by (induction ms) (auto simp: f split: option.splits)
  then have "used d' ps = used d ps" by (simp add: d' used_def comp_def f)
  moreover have "queues_ok d'"
    unfolding d' using assms(1) by (intro queues_ok_map) (simp_all add: f db_inv_def)
  ultimately show ?thesis by (intro queues_inv [OF assms(1)]) (simp_all add: d')
qed

lemma prepare_inv:
  assumes "inj u" "db_inv u ps d" "send_prepare u d now account name body sealed dek attrsJSON opts = Inr (p, d')"
  shows "db_inv u (p # ps) d'"
proof -
  have p: "pr_id p = u (db_drawn d)" and d': "d' = d\<lparr>db_drawn := Suc (db_drawn d)\<rparr>"
    using assms(3) by (auto simp: send_prepare_def split: sum.splits)
  have "fresh_step u d ps d' (p # ps)" by (simp add: fresh_step_def used_def d' p)
  then show ?thesis using assms names_ok_step by (auto simp: db_inv_def d' queues_ok_drawn)
qed

lemma sqs_inv_step:
  assumes "inj u" "sqs_inv u s" "sqs_step u s l s'"
  shows "sqs_inv u s'"
  using assms(3,2)
  by cases
    (auto simp: sqs_inv_db PurgeQueue_def DeleteMessage_def split: sum.splits if_splits
      intro: create_inv delete_queue_inv [OF assms(1)] set_attributes_inv change_visibility_inv
        filter_inv [OF assms(1)] prepare_inv [OF assms(1)] commit_inv [OF assms(1)]
        conjunct1 [OF receive_inv [OF assms(1)]])

lemma sqs_inv_init: "sqs_init s \<Longrightarrow> sqs_inv u s"
  by (simp add: sqs_init_def sqs_inv_def names_ok_def used_def queues_ok_def)

interpretation sqs: invariant_system sqs_init "sqs_step u" "\<lambda>s. inj u \<longrightarrow> sqs_inv u s" for u
  by unfold_locales (auto intro: sqs_inv_init sqs_inv_step)

section \<open>The rows a receive considers\<close>

lemma select_pending_subseq: "subseq (select_pending fifo blocked room seen ms) ms"
  by (induction fifo blocked room seen ms rule: select_pending.induct) (auto simp: Let_def)

lemma subseq_distinct_map: "subseq xs ys \<Longrightarrow> distinct (map f ys) \<Longrightarrow> distinct (map f xs)"
proof (induction rule: list_emb.induct)
  case (list_emb_Cons2 x y xs ys)
  then have "set xs \<subseteq> set ys" by (auto dest: list_emb_set)
  with list_emb_Cons2 show ?case by auto
qed simp_all

lemma subseq_set: "subseq xs ys \<Longrightarrow> set xs \<subseteq> set ys"
  by (auto dest: list_emb_set)

lemma select_pending_length:
  "1 \<le> room \<Longrightarrow> int (length (select_pending fifo blocked room seen ms)) \<le> room"
  by (induction fifo blocked room seen ms rule: select_pending.induct) (auto simp: not_le)

lemma select_pending_avoids:
  "m_group ` set (select_pending True blocked room seen ms) \<inter> (set blocked \<union> set seen) = {}"
proof (induction ms arbitrary: room seen)
  case (Cons x ms)
  then show ?case using Cons.IH [of room seen] Cons.IH [of "room - 1" "m_group x # seen"] by auto
qed simp

lemma select_pending_groups:
  "distinct (map m_group (select_pending True blocked room seen ms))"
proof (induction ms arbitrary: room seen)
  case (Cons x ms)
  then show ?case using select_pending_avoids [of blocked "room - 1" "m_group x # seen" ms] by auto
qed simp

definition ordered_rows :: "db \<Rightarrow> Queue \<Rightarrow> string \<Rightarrow> string \<Rightarrow> string \<Rightarrow> Message list" where
  "ordered_rows d q account name nowStr =
     (if queueIsFIFO (q_attrs q)
      then sort_key (\<lambda>m. (m_seq m, m_id m)) (filter (visible nowStr) (queue_rows d account name))
      else sort_key (\<lambda>m. (m_created m, m_id m)) (filter (visible nowStr) (queue_rows d account name)))"

lemma pending_rows_select:
  "pending_rows d q account name mx nowStr =
   select_pending (queueIsFIFO (q_attrs q))
     (if queueIsFIFO (q_attrs q) then fifoBlockedGroups d account name nowStr else []) mx []
     (ordered_rows d q account name nowStr)"
  by (simp add: pending_rows_def ordered_rows_def Let_def)

lemma set_ordered_rows:
  "set (ordered_rows d q account name nowStr) =
   {m \<in> set (db_messages d). m_account m = account \<and> m_queue m = name \<and> visible nowStr m}"
  by (auto simp: ordered_rows_def queue_rows_def)

lemma pending_rows_set:
  "m \<in> set (pending_rows d q account name mx nowStr) \<Longrightarrow>
   m \<in> set (db_messages d) \<and> m_account m = account \<and> m_queue m = name \<and> visible nowStr m"
proof -
  assume "m \<in> set (pending_rows d q account name mx nowStr)"
  then have "m \<in> set (ordered_rows d q account name nowStr)"
    unfolding pending_rows_select by (rule subsetD [OF subseq_set [OF select_pending_subseq]])
  then show ?thesis by (simp add: set_ordered_rows)
qed

lemma distinct_sort_key_map: "distinct (map f (sort_key g xs)) = distinct (map f xs)"
proof -
  have "mset (map f (sort_key g xs)) = mset (map f xs)" by simp
  then show ?thesis by (rule mset_eq_imp_distinct_iff)
qed

lemma pending_rows_distinct:
  assumes "distinct (map m_id (db_messages d))"
  shows "distinct (map m_id (pending_rows d q account name mx nowStr))"
proof -
  have "distinct (map m_id (ordered_rows d q account name nowStr))"
    using assms by (simp add: ordered_rows_def queue_rows_def distinct_sort_key_map distinct_map_filter)
  then show ?thesis unfolding pending_rows_select by (rule subseq_distinct_map [OF select_pending_subseq])
qed

section \<open>A claimed message stays claimed\<close>

definition locked :: "uuid \<Rightarrow> string \<Rightarrow> string \<Rightarrow> string \<Rightarrow> db \<Rightarrow> bool" where
  "locked u i h D d \<longleftrightarrow>
     i \<in> u ` {..<db_drawn d} \<and>
     (\<forall>m\<in>set (db_messages d). m_id m = i \<longrightarrow> m_handle m = Some h \<and> m_visible m = D)"

lemma locked_draw: "locked u i h D d \<Longrightarrow> locked u i h D (d\<lparr>db_drawn := Suc (db_drawn d)\<rparr>)"
  by (simp add: locked_def lessThan_Suc)

lemma locked_filter: "locked u i h D d \<Longrightarrow> locked u i h D (d\<lparr>db_messages := filter P (db_messages d)\<rparr>)"
  by (auto simp: locked_def)

lemma locked_redrive:
  assumes "inj u" "locked u i h D d" "redriveMessageTx u now q p msg d = Inr d'"
  shows "locked u i h D d'"
proof -
  obtain dlqName dlq attrs new where new: "new = redriven_row (u (db_drawn d)) now q dlq msg attrs d"
    and d': "d' = d\<lparr>db_drawn := Suc (db_drawn d),
      db_messages := filter (\<lambda>m. m_id m \<noteq> m_id msg) (db_messages d @ [new])\<rparr>"
    using redrive_Inr [OF assms(3)] by metis
  have "m_id new \<noteq> i" using assms(1,2) by (auto simp: locked_def new inj_def)
  then show ?thesis using assms(2) by (auto simp: locked_def d' lessThan_Suc)
qed

lemma locked_claim:
  assumes "locked u i h D d" "mid \<noteq> i \<or> D \<noteq> [] \<and> nowStr < D"
    and "claim_row handle vis mid nowStr (d\<lparr>db_drawn := Suc (db_drawn d)\<rparr>) = Inr (Some d')"
  shows "locked u i h D d'"
  using assms by (auto simp: locked_def claim_row_def claimed_copy_def visible_def
      lessThan_Suc split: if_splits)

lemma claim_loop_locked:
  assumes "inj u" "claim_loop u now q policy vis ms d = Inr (out, d')" "locked u i h D d"
    and "i \<notin> m_id ` set ms \<or> D \<noteq> [] \<and> format_RFC3339 now < D"
  shows "locked u i h D d'"
proof -
  from assms(2) have "locked u i h D d' \<and> True"
  proof (rule claim_loop_relation)
    fix m d1 d2
    assume l: "locked u i h D d1" and m: "m \<in> set ms" and c: "claim_row (u (db_drawn d1)) vis (m_id m)
      (format_RFC3339 now) (d1\<lparr>db_drawn := Suc (db_drawn d1)\<rparr>) = Inr (Some d2)"
    have "m_id m \<noteq> i \<or> D \<noteq> [] \<and> format_RFC3339 now < D" using m assms(4) by blast
    from locked_claim [OF l this c] show "locked u i h D d2 \<and> True" by simp
  next
    show "locked u i h D d1 \<Longrightarrow> redriveMessageTx u now q p m d1 = Inr d2 \<Longrightarrow> locked u i h D d2 \<and> True"
      for p m d1 d2 using locked_redrive [OF assms(1)] by simp
  qed (simp_all add: assms(3) locked_draw)
  then show ?thesis by simp
qed

end
