(* ===== verification/Sqs_Props.thy ===== *)
theory Sqs_Props
  imports Sqs_Inv
begin

text \<open>
  What the queue operations promise: delivery at most once before the deadline, order and isolation of
  FIFO groups, redrive without loss, deduplication, sequence numbers, receipt handles.
\<close>

section \<open>What a receive returns\<close>

lemma claimed_copy_simps [simp]:
  "m_id (claimed_copy h vis m) = m_id m"
  "m_handle (claimed_copy h vis m) = Some h"
  "m_visible (claimed_copy h vis m) = vis"
  "m_count (claimed_copy h vis m) = m_count m + 1"
  "m_group (claimed_copy h vis m) = m_group m"
  "m_body (claimed_copy h vis m) = m_body m"
  "m_account (claimed_copy h vis m) = m_account m"
  "m_queue (claimed_copy h vis m) = m_queue m"
  "m_seq (claimed_copy h vis m) = m_seq m"
  by (simp_all add: claimed_copy_def)

lemma names_ok_sending:
  assumes "names_ok u d ps" "m \<in> set (db_messages d)"
  shows "m_id m \<notin> pr_id ` set ps"
proof
  assume "m_id m \<in> pr_id ` set ps"
  then have "1 \<le> count (mset (map pr_id ps)) (m_id m)" by (auto simp: count_greater_eq_one_iff)
  moreover have "1 \<le> count (mset (map m_id (db_messages d))) (m_id m)"
    using assms(2) by (auto simp: count_greater_eq_one_iff)
  ultimately have "2 \<le> count (used d ps) (m_id m)" unfolding used_def count_union by linarith
  then show False using assms(1) by (auto simp: names_ok_def dest: spec [of _ "m_id m"])
qed

lemma claim_row_locked:
  assumes n: "names_ok u d ps"
    and c: "claim_row h vis mid nowStr (d\<lparr>db_drawn := Suc (db_drawn d)\<rparr>) = Inr (Some d')"
  shows "locked u mid h vis d'"
proof -
  obtain m where m: "m \<in> set (db_messages d)" "m_id m = mid" "visible nowStr m"
    and d': "d' = d\<lparr>db_drawn := Suc (db_drawn d), db_messages :=
        map (\<lambda>m. if m_id m = mid \<and> visible nowStr m then claimed_copy h vis m else m) (db_messages d)\<rparr>"
    using c by (auto simp: claim_row_def split: if_splits)
  have inj: "inj_on m_id (set (db_messages d))"
    using names_distinct_ids [OF n] by (simp add: distinct_map)
  have "mid \<in># used d ps" using m by (auto simp: used_def)
  then have mid: "mid \<in> u ` {..<db_drawn d}" using n by (auto simp: names_ok_def)
  have same: "x = m" if "x \<in> set (db_messages d)" "m_id x = mid" for x
    using inj_onD [OF inj, of x m] that m by simp
  moreover have "m_handle y = Some h \<and> m_visible y = vis" if y: "y \<in> set (db_messages d')" "m_id y = mid" for y
  proof -
    obtain x where x: "x \<in> set (db_messages d)"
      "y = (if m_id x = mid \<and> visible nowStr x then claimed_copy h vis x else x)"
      using y(1) by (auto simp: d')
    then have "m_id x = mid" using y(2) by (auto simp: claimed_copy_def split: if_splits)
    with same x(1) have "x = m" by blast
    with x(2) m show ?thesis by (simp add: claimed_copy_def)
  qed
  moreover have "db_drawn d' = Suc (db_drawn d)" by (simp add: d')
  ultimately show ?thesis using mid by (simp add: locked_def lessThan_Suc)
qed

lemma redrive_drawn: "redriveMessageTx u now q p m d = Inr d' \<Longrightarrow> db_drawn d' = Suc (db_drawn d)"
  by (erule redrive_Inr) simp

lemma claim_row_drawn:
  "claim_row h vis mid nowStr (d\<lparr>db_drawn := Suc (db_drawn d)\<rparr>) = Inr (Some d') \<Longrightarrow> db_drawn d' = Suc (db_drawn d)"
  by (auto simp: claim_row_def split: if_splits)

lemma claim_loop_out:
  assumes "inj u" "claim_loop u now q policy vis ms d = Inr (out, d')" "db_inv u ps d"
    "distinct (map m_id ms)" "x \<in> set out"
  shows "\<exists>h m. m \<in> set ms \<and> \<not> redrives policy m \<and> x = claimed_copy h vis m \<and> locked u (m_id x) h vis d' \<and>
    h \<notin> u ` {..<db_drawn d}"
  using assms(2-5)
proof (induction ms arbitrary: d out)
  case (Cons m ms)
  from Cons.prems(1) show ?case
  proof (cases rule: claim_loop_ConsE)
    case (redriven p d1)
    then show ?thesis
      using Cons.IH [OF redriven(4)] Cons.prems redrive_inv(1) [OF assms(1)] redrive_drawn [OF redriven(3)]
      by (fastforce simp: lessThan_Suc)
  next
    case skipped
    then show ?thesis
      using Cons.IH [OF skipped(3)] Cons.prems db_inv_draw [OF assms(1)] by (fastforce simp: lessThan_Suc)
  next
    case (claimed d1 out1)
    have inv1: "db_inv u ps d1" using claim_inv(1) [OF assms(1) Cons.prems(2) claimed(2)] .
    show ?thesis
    proof (cases "x \<in> set out1")
      case True
      then show ?thesis
        using Cons.IH [OF claimed(3) inv1] Cons.prems claim_row_drawn [OF claimed(2)] by (fastforce simp: lessThan_Suc)
    next
      case False
      then have x: "x = claimed_copy (u (db_drawn d)) vis m" using Cons.prems claimed(4) by simp
      have "locked u (m_id m) (u (db_drawn d)) vis d1"
        using claim_row_locked [OF _ claimed(2)] Cons.prems(2) by (auto simp: db_inv_def)
      then have "locked u (m_id m) (u (db_drawn d)) vis d'"
        using claim_loop_locked [OF assms(1) claimed(3)] Cons.prems(3) by auto
      moreover have "u (db_drawn d) \<notin> u ` {..<db_drawn d}" using assms(1) by (auto simp: inj_def)
      ultimately show ?thesis using x claimed(1) by auto
    qed
  qed
qed simp

lemma claim_loop_out_subseq:
  assumes "claim_loop u now q policy vis ms d = Inr (out, d')"
  shows "subseq (map m_id out) (map m_id ms) \<and> subseq (map m_group out) (map m_group ms)"
  using assms
proof (induction ms arbitrary: d out)
  case (Cons m ms)
  from Cons.prems show ?case
    by (cases rule: claim_loop_ConsE) (use Cons.IH in \<open>auto simp: claimed_copy_def\<close>)
qed simp

lemma claim_loop_copies:
  assumes "claim_loop u now q policy vis ms d = Inr (out, d')" "x \<in> set out"
  shows "\<exists>h m. m \<in> set ms \<and> x = claimed_copy h vis m"
  using assms
proof (induction ms arbitrary: d out)
  case (Cons m ms)
  from Cons.prems(1) show ?case
  proof (cases rule: claim_loop_ConsE)
    case (claimed d1 out1)
    then show ?thesis using Cons.IH [OF claimed(3)] Cons.prems(2) by auto
  qed (use Cons.IH Cons.prems(2) in \<open>force+\<close>)
qed simp

lemma ReceiveMessages_Inr:
  assumes "ReceiveMessages u d now account name mx = Inr (out, d')"
  obtains q where "GetQueue d account name = Inr q"
    "claim_loop u now q (parseRedrivePolicy (q_attrs q)) (deadline now (queueVisibilityTimeout (q_attrs q)))
      (pending_rows d q account name (if mx \<le> 0 then 1 else mx) (format_RFC3339 now)) d = Inr (out, d')"
  using assms by (auto simp: ReceiveMessages_def split: sum.splits)

lemma receive_out:
  assumes "inj u" "db_inv u ps d" "ReceiveMessages u d now account name mx = Inr (out, d')" "x \<in> set out"
    and "GetQueue d account name = Inr q"
  shows "\<exists>h m. m \<in> set (pending_rows d q account name (if mx \<le> 0 then 1 else mx) (format_RFC3339 now)) \<and>
     \<not> redrives (parseRedrivePolicy (q_attrs q)) m \<and>
     x = claimed_copy h (deadline now (queueVisibilityTimeout (q_attrs q))) m \<and>
     locked u (m_id x) h (deadline now (queueVisibilityTimeout (q_attrs q))) d' \<and> h \<notin> u ` {..<db_drawn d}"
proof -
  have "claim_loop u now q (parseRedrivePolicy (q_attrs q)) (deadline now (queueVisibilityTimeout (q_attrs q)))
      (pending_rows d q account name (if mx \<le> 0 then 1 else mx) (format_RFC3339 now)) d = Inr (out, d')"
    using assms(3,5) by (auto elim: ReceiveMessages_Inr)
  from claim_loop_out [OF assms(1) this assms(2) pending_rows_distinct assms(4)] show ?thesis
    using assms(2) names_distinct_ids by (auto simp: db_inv_def)
qed

section \<open>Delivery at most once before the deadline\<close>

definition sys_locked :: "uuid \<Rightarrow> string \<Rightarrow> string \<Rightarrow> string \<Rightarrow> sys \<Rightarrow> bool" where
  "sys_locked u i h D s \<longleftrightarrow> locked u i h D (s_db s) \<and> i \<notin> pr_id ` set (s_sending s)"

text \<open>The steps that do not end the lease: no later clock reading, and nobody moves the deadline.\<close>

fun keeps_lease :: "string \<Rightarrow> string \<Rightarrow> sqs_op \<Rightarrow> bool" where
  "keeps_lease h D (OpReceive now account name out) = (format_RFC3339 now < D)"
| "keeps_lease h D (OpChangeVisibility now account name h' seconds) = (h' \<noteq> h)"
| "keeps_lease h D _ = True"

fun delivers :: "string \<Rightarrow> sqs_op \<Rightarrow> bool" where
  "delivers i (OpReceive now account name out) = (i \<in> m_id ` set out)"
| "delivers i _ = False"

lemma locked_queues: "locked u i h D (d\<lparr>db_queues := qs\<rparr>) = locked u i h D d"
  by (simp add: locked_def)

lemma receive_locked:
  assumes "inj u" "locked u i h D d" "format_RFC3339 now < D"
    and r: "ReceiveMessages u d now account name mx = Inr (out, d')"
  shows "locked u i h D d' \<and> i \<notin> m_id ` set out"
proof -
  obtain q where c: "claim_loop u now q (parseRedrivePolicy (q_attrs q)) (deadline now (queueVisibilityTimeout (q_attrs q)))
      (pending_rows d q account name (if mx \<le> 0 then 1 else mx) (format_RFC3339 now)) d = Inr (out, d')"
    using r by (rule ReceiveMessages_Inr)
  define ms where "ms = pending_rows d q account name (if mx \<le> 0 then 1 else mx) (format_RFC3339 now)"
  note c = c [folded ms_def]
  have D: "D \<noteq> []" using assms(3) by auto
  have ne: "m_id m \<noteq> i" if m: "m \<in> set ms" for m
  proof
    assume "m_id m = i"
    then have "m_visible m = D" using pending_rows_set [OF m [unfolded ms_def]] assms(2) by (simp add: locked_def)
    then show False using pending_rows_set [OF m [unfolded ms_def]] assms(3) D by (auto simp: visible_def)
  qed
  have "m_id ` set out \<subseteq> m_id ` set ms"
    using subseq_set [OF conjunct1 [OF claim_loop_out_subseq [OF c]]] by simp
  moreover have "i \<notin> m_id ` set ms" using ne by (auto simp: image_iff)
  ultimately have "i \<notin> m_id ` set out" by (rule contra_subsetD)
  moreover have "locked u i h D d'" using claim_loop_locked [OF assms(1) c assms(2)] assms(3) D by blast
  ultimately show ?thesis by simp
qed

lemma commit_locked:
  assumes "sys_locked u i h D s" "p \<in> set (s_sending s)" "send_commit (s_db s) now p = Inr (m, d')"
  shows "locked u i h D d'"
  using assms(3)
proof (cases rule: send_commit_cases)
  case (inserted q grp dedup fifo vis)
  have "pr_id p \<noteq> i" using assms(1,2) by (auto simp: sys_locked_def)
  then show ?thesis using assms(1) inserted(4,6) by (auto simp: sys_locked_def locked_def)
qed (use assms(1) in \<open>simp add: sys_locked_def\<close>)

lemma lease_step:
  assumes "inj u" "sys_locked u i h D s" "sqs_step u s l s'" "keeps_lease h D l"
  shows "sys_locked u i h D s' \<and> \<not> delivers i l"
  using assms(3)
proof cases
  case (step_prepare now account name body sealed dek attrsJSON opts p d')
  then have p: "pr_id p = u (db_drawn (s_db s))" and d': "d' = (s_db s)\<lparr>db_drawn := Suc (db_drawn (s_db s))\<rparr>"
    by (auto simp: send_prepare_def split: sum.splits)
  have "pr_id p \<noteq> i" using assms(1,2) by (auto simp: p sys_locked_def locked_def inj_def)
  then show ?thesis using step_prepare assms(2) by (auto simp: sys_locked_def d' intro: locked_draw)
next
  case (step_commit p now m d')
  then show ?thesis
    using commit_locked [OF assms(2)] assms(2) by (auto simp: sys_locked_def dest: set_remove1_subset [THEN subsetD])
next
  case (step_receive now account name mx out d')
  then show ?thesis
    using receive_locked [OF assms(1) _ _ step_receive(3), of i h D] assms(2,4) by (auto simp: sys_locked_def)
next
  case (step_change_visibility now account name handle seconds d')
  then show ?thesis
    using assms(2,4) by (auto simp: ChangeMessageVisibility_def sys_locked_def locked_def has_handle_def
        split: sum.splits if_splits)
next
  case (step_create now account region host name attrs q d')
  then show ?thesis using assms(2) by (auto simp: CreateQueue_def Let_def sys_locked_def locked_def split: if_splits)
next
  case (step_set_attributes account name attrs d')
  then show ?thesis
    using assms(2) by (auto simp: SetQueueAttributes_def Let_def sys_locked_def locked_def split: if_splits sum.splits)
next
  case (step_delete_queue account name d')
  then show ?thesis using assms(2) by (auto simp: DeleteQueue_def sys_locked_def locked_def split: sum.splits)
next
  case (step_purge account name d')
  then show ?thesis using assms(2) by (auto simp: PurgeQueue_def sys_locked_def locked_def split: sum.splits)
next
  case (step_delete_message account name handle d')
  then show ?thesis
    using assms(2) by (auto simp: DeleteMessage_def sys_locked_def locked_def split: sum.splits if_splits)
qed

lemma lease_run:
  assumes "inj u" "reachable sqs_init (sqs_step u) s"
    and "ReceiveMessages u (s_db s) now account name mx = Inr (out, d')" "m \<in> set out" "m_handle m = Some h"
    and "run (sqs_step u) (s\<lparr>s_db := d'\<rparr>) ops s''" "\<And>l. l \<in> set ops \<Longrightarrow> keeps_lease h (m_visible m) l"
  shows "\<forall>l\<in>set ops. \<not> delivers (m_id m) l"
proof (rule sqs.run_labels [where P = "sys_locked u (m_id m) h (m_visible m)" and ok = "keeps_lease h (m_visible m)",
      OF assms(6)])
  have inv: "inj u \<longrightarrow> sqs_inv u s" by (rule sqs.reachable_inv [OF assms(2)])
  then show "inj u \<longrightarrow> sqs_inv u (s\<lparr>s_db := d'\<rparr>)"
    using step_receive [OF assms(3)] sqs_inv_step by blast
  have db: "db_inv u (s_sending s) (s_db s)" using inv assms(1) by (simp add: sqs_inv_db)
  note r = assms(3)
  from r obtain q where q: "GetQueue (s_db s) account name = Inr q" by (auto elim: ReceiveMessages_Inr)
  obtain m0 where m0: "m0 \<in> set (pending_rows (s_db s) q account name (if mx \<le> 0 then 1 else mx) (format_RFC3339 now))"
    and m: "m_id m = m_id m0" and l: "locked u (m_id m) h (m_visible m) d'"
    using receive_out [OF assms(1) db r assms(4) q] assms(5) by auto
  have "m_id m \<notin> pr_id ` set (s_sending s)"
    unfolding m using pending_rows_set [OF m0] db by (intro names_ok_sending) (auto simp: db_inv_def)
  then show "sys_locked u (m_id m) h (m_visible m) (s\<lparr>s_db := d'\<rparr>)" using l by (simp add: sys_locked_def)
  show "sys_locked u (m_id m) h (m_visible m) t \<Longrightarrow> sqs_step u t l t' \<Longrightarrow> keeps_lease h (m_visible m) l \<Longrightarrow>
      sys_locked u (m_id m) h (m_visible m) t' \<and> \<not> delivers (m_id m) l" for t l t'
    by (rule lease_step [OF assms(1)])
qed (rule assms(7))

text \<open>The steps that leave the lease of handle \<open>h\<close> alone until the second in which it expires.\<close>

definition before_expiry :: "string \<Rightarrow> instant \<Rightarrow> sqs_op \<Rightarrow> bool" where
  "before_expiry h expiry l =
     (case l of
        OpReceive t account name out \<Rightarrow> rfc_range t \<and> t div ns_sec < expiry div ns_sec
      | OpChangeVisibility t account name h' seconds \<Rightarrow> h' \<noteq> h
      | _ \<Rightarrow> True)"

text \<open>C25. From any reachable state, a message that a receive returned at \<open>now\<close> is returned by no later
  receive, from whichever queue, of any sequence of operations, until the second in which
  \<open>now + VisibilityTimeout\<close> falls, as long as nobody changes the visibility through its handle. This is
  the safety property of the leases, over all interleavings of the operations' critical sections.\<close>

theorem no_double_delivery:
  assumes "inj u" "reachable sqs_init (sqs_step u) s" "GetQueue (s_db s) account name = Inr q"
    and "ReceiveMessages u (s_db s) now account name mx = Inr (out, d')" "m \<in> set out" "m_handle m = Some h"
    and "expiry = now + queueVisibilityTimeout (q_attrs q) * ns_sec"
    and "queueVisibilityTimeout (q_attrs q) \<le> 9223372036" "rfc_range expiry"
    and "run (sqs_step u) (s\<lparr>s_db := d'\<rparr>) ops s''" "\<And>l. l \<in> set ops \<Longrightarrow> before_expiry h expiry l"
  shows "\<forall>l\<in>set ops. \<not> delivers (m_id m) l"
proof (rule lease_run [OF assms(1,2,4,5,6,10)])
  have db: "db_inv u (s_sending s) (s_db s)"
    using sqs.reachable_inv [OF assms(2)] assms(1) by (simp add: sqs_inv_db)
  have "0 \<le> queueVisibilityTimeout (q_attrs q)"
    by (simp add: queueVisibilityTimeout_def DefaultVisibilityTimeout_def split: option.split)
  then have "wrap64 (queueVisibilityTimeout (q_attrs q) * ns_sec) = queueVisibilityTimeout (q_attrs q) * ns_sec"
    using assms(8) by (intro wrap64_id) (simp_all add: ns_sec_def)
  then have vis: "m_visible m = format_RFC3339 expiry"
    using receive_out [OF assms(1) db assms(4,5,3)] by (auto simp: deadline_def assms(7))
  show "keeps_lease h (m_visible m) l" if "l \<in> set ops" for l
    using assms(11) [OF that] assms(9) format_RFC3339_less by (cases l) (auto simp: before_expiry_def vis)
qed

section \<open>The invariant of the tables\<close>

lemma names_ok_handles:
  assumes "names_ok u d ps"
  shows "distinct (handles (db_messages d))" "set (handles (db_messages d)) \<inter> m_id ` set (db_messages d) = {}"
proof -
  have c: "count (mset (map m_id (db_messages d))) x + count (mset (handles (db_messages d))) x \<le> 1" for x
    using assms by (auto simp: names_ok_def used_def dest!: spec [of _ x])
  have "count (mset (handles (db_messages d))) x \<le> 1" for x using c [of x] by simp
  then show "distinct (handles (db_messages d))"
    unfolding distinct_count_atmost_1 by (metis count_eq_zero_iff le_antisym less_one not_less set_mset_mset)
  show "set (handles (db_messages d)) \<inter> m_id ` set (db_messages d) = {}"
  proof (rule ccontr)
    assume "set (handles (db_messages d)) \<inter> m_id ` set (db_messages d) \<noteq> {}"
    then obtain x where "x \<in># mset (handles (db_messages d))" "x \<in># mset (map m_id (db_messages d))" by auto
    then show False using c [of x] by (simp only: count_greater_zero_iff [symmetric])
  qed
qed

lemma same_handle_same_row:
  assumes "distinct (handles ms)" "x \<in> set ms" "y \<in> set ms" "m_handle x = Some h" "m_handle y = Some h"
  shows "x = y"
  using assms
proof (induction ms)
  case (Cons m ms)
  have "h \<in> set (handles ms)" if "z \<in> set ms" "m_handle z = Some h" for z using that by (auto simp: handles_in)
  with Cons show ?case by (auto split: option.splits)
qed simp


section \<open>What a receive does\<close>

lemma redrives_count: "\<not> redrives (Some p) m \<Longrightarrow> m_count m + 1 \<le> rp_max p"
  by (simp add: redrives_def)

text \<open>A receive returns at most the number of messages asked for (one, where a number below one is
  asked for), each a message of that queue which was visible, with its count one higher, and with a
  RedrivePolicy no message is ever returned with a count above maxReceiveCount. Each has the deadline
  \<open>now + VisibilityTimeout\<close> and a receipt handle that was never used before.\<close>

theorem receive_bounds:
  assumes "inj u" "reachable sqs_init (sqs_step u) s" "GetQueue (s_db s) account name = Inr q"
    and "ReceiveMessages u (s_db s) now account name mx = Inr (out, d')"
  shows "int (length out) \<le> max 1 mx \<and>
    (\<forall>m\<in>set out. \<exists>m0\<in>set (db_messages (s_db s)). \<exists>h.
       m_account m0 = account \<and> m_queue m0 = name \<and> visible (format_RFC3339 now) m0 \<and>
       m = claimed_copy h (deadline now (queueVisibilityTimeout (q_attrs q))) m0 \<and>
       h \<notin> set (handles (db_messages (s_db s))) \<and>
       (case parseRedrivePolicy (q_attrs q) of None \<Rightarrow> True | Some p \<Rightarrow> m_count m \<le> rp_max p))"
proof -
  have db: "db_inv u (s_sending s) (s_db s)"
    using sqs.reachable_inv [OF assms(2)] assms(1) by (simp add: sqs_inv_db)
  let ?mx = "if mx \<le> 0 then 1 else mx"
  have c: "claim_loop u now q (parseRedrivePolicy (q_attrs q)) (deadline now (queueVisibilityTimeout (q_attrs q)))
      (pending_rows (s_db s) q account name ?mx (format_RFC3339 now)) (s_db s) = Inr (out, d')"
    using assms(3,4) by (auto elim: ReceiveMessages_Inr)
  have "length (map m_id out) \<le> length (map m_id (pending_rows (s_db s) q account name ?mx (format_RFC3339 now)))"
    using claim_loop_out_subseq [OF c] by (blast dest: list_emb_length)
  moreover have "int (length (pending_rows (s_db s) q account name ?mx (format_RFC3339 now))) \<le> ?mx"
    unfolding pending_rows_select by (rule select_pending_length) simp
  ultimately have "int (length out) \<le> max 1 mx" by (simp split: if_splits)
  moreover have "\<exists>m0\<in>set (db_messages (s_db s)). \<exists>h.
       m_account m0 = account \<and> m_queue m0 = name \<and> visible (format_RFC3339 now) m0 \<and>
       m = claimed_copy h (deadline now (queueVisibilityTimeout (q_attrs q))) m0 \<and>
       h \<notin> set (handles (db_messages (s_db s))) \<and>
       (case parseRedrivePolicy (q_attrs q) of None \<Rightarrow> True | Some p \<Rightarrow> m_count m \<le> rp_max p)"
    if m: "m \<in> set out" for m
  proof -
    obtain h m0 where m0: "m0 \<in> set (pending_rows (s_db s) q account name ?mx (format_RFC3339 now))"
      and f: "\<not> redrives (parseRedrivePolicy (q_attrs q)) m0"
        "m = claimed_copy h (deadline now (queueVisibilityTimeout (q_attrs q))) m0" "h \<notin> u ` {..<db_drawn (s_db s)}"
      using receive_out [OF assms(1) db assms(4) m assms(3)] by auto
    have "h \<notin> set (handles (db_messages (s_db s)))"
      using f(3) db by (force simp: db_inv_def names_ok_def used_def)
    moreover have "case parseRedrivePolicy (q_attrs q) of None \<Rightarrow> True | Some p \<Rightarrow> m_count m \<le> rp_max p"
      using f(1,2) by (auto simp: redrives_def split: option.splits)
    ultimately show ?thesis using pending_rows_set [OF m0] f(2) by blast
  qed
  ultimately show ?thesis by blast
qed

text \<open>C28. A receive from a FIFO queue returns at most one message of each message group, and none of a
  group that has a message in flight (with a receipt handle and a deadline that has not passed).\<close>

theorem receive_fifo:
  assumes "GetQueue d account name = Inr q" "queueIsFIFO (q_attrs q)"
    and "ReceiveMessages u d now account name mx = Inr (out, d')"
  shows "distinct (map m_group out) \<and>
    m_group ` set out \<inter>
      {m_group x | x. x \<in> set (db_messages d) \<and> m_account x = account \<and> m_queue x = name \<and>
        m_group x \<noteq> [] \<and> in_flight (format_RFC3339 now) x} = {}"
proof -
  let ?b = "fifoBlockedGroups d account name (format_RFC3339 now)"
  define ms where "ms = pending_rows d q account name (if mx \<le> 0 then 1 else mx) (format_RFC3339 now)"
  have "claim_loop u now q (parseRedrivePolicy (q_attrs q)) (deadline now (queueVisibilityTimeout (q_attrs q))) ms d
      = Inr (out, d')"
    using assms(1,3) by (auto elim: ReceiveMessages_Inr simp: ms_def)
  then have sub: "subseq (map m_group out) (map m_group ms)" using claim_loop_out_subseq by blast
  have ms: "ms = select_pending True ?b (if mx \<le> 0 then 1 else mx) [] (ordered_rows d q account name (format_RFC3339 now))"
    by (simp add: ms_def pending_rows_select assms(2))
  have "distinct (map m_group out)"
    using subseq_distinct_map [OF sub, of id] select_pending_groups by (simp add: ms)
  moreover have "m_group ` set out \<subseteq> m_group ` set ms" using subseq_set [OF sub] by simp
  then have "m_group ` set out \<inter> set ?b = {}" using select_pending_avoids [of ?b] unfolding ms by blast
  moreover have "set ?b = {m_group x | x. x \<in> set (db_messages d) \<and> m_account x = account \<and> m_queue x = name \<and>
        m_group x \<noteq> [] \<and> in_flight (format_RFC3339 now) x}"
    by (auto simp: fifoBlockedGroups_def queue_rows_def)
  ultimately show ?thesis by simp
qed

section \<open>Redrive moves messages, it loses none\<close>

definition contents :: "db \<Rightarrow> (string \<times> bool \<times> string) multiset" where
  "contents d = mset (map (\<lambda>m. (m_body m, m_sealed m, m_dek m)) (db_messages d))"

definition has_copy :: "db \<Rightarrow> Message \<Rightarrow> bool" where
  "has_copy d m \<longleftrightarrow> (\<exists>x\<in>set (db_messages d). m_id x = m_id m \<and> m_body x = m_body m \<and>
     m_sealed x = m_sealed m \<and> m_dek x = m_dek m)"

lemma claim_contents:
  assumes "claim_row h vis mid nowStr (d\<lparr>db_drawn := n\<rparr>) = Inr (Some d')"
  shows "contents d' = contents d" "has_copy d m \<Longrightarrow> has_copy d' m"
proof -
  obtain f where f: "\<And>m. m_id (f m) = m_id m \<and> m_body (f m) = m_body m \<and> m_sealed (f m) = m_sealed m \<and> m_dek (f m) = m_dek m"
    and d': "db_messages d' = map f (db_messages d)"
  proof
    show "db_messages d' = map (\<lambda>m. if m_id m = mid \<and> visible nowStr m then claimed_copy h vis m else m) (db_messages d)"
      using assms by (auto simp: claim_row_def split: if_splits)
  qed (simp add: claimed_copy_def)
  show "contents d' = contents d" by (simp add: contents_def d' f comp_def)
  show "has_copy d m \<Longrightarrow> has_copy d' m" by (auto simp: has_copy_def d' f)
qed

lemma redrive_contents:
  assumes n: "names_ok u d ps" and c: "has_copy d msg" and r: "redriveMessageTx u now q p msg d = Inr d'"
  shows "contents d' = contents d" "has_copy d m \<Longrightarrow> m_id m \<noteq> m_id msg \<Longrightarrow> has_copy d' m"
proof -
  obtain dlqName dlq attrs new where new: "new = redriven_row (u (db_drawn d)) now q dlq msg attrs d"
    and fresh: "m_id new \<notin> m_id ` set (db_messages d)"
    and d': "d' = d\<lparr>db_drawn := Suc (db_drawn d),
      db_messages := filter (\<lambda>m. m_id m \<noteq> m_id msg) (db_messages d @ [new])\<rparr>"
    using redrive_Inr [OF r] by metis
  obtain x where x: "x \<in> set (db_messages d)" "m_id x = m_id msg"
    and same: "m_body x = m_body msg" "m_sealed x = m_sealed msg" "m_dek x = m_dek msg"
    using c by (auto simp: has_copy_def)
  obtain xs ys where ms: "db_messages d = xs @ x # ys" using x(1) by (meson split_list)
  have dist: "distinct (map m_id (xs @ x # ys))" using names_distinct_ids [OF n] by (simp add: ms)
  then have no: "m_id msg \<notin> m_id ` set xs" "m_id msg \<notin> m_id ` set ys" using x(2) by auto
  have "m_id new \<noteq> m_id msg" using fresh x by (metis image_eqI)
  moreover have "filter (\<lambda>m. m_id m \<noteq> m_id msg) xs = xs" "filter (\<lambda>m. m_id m \<noteq> m_id msg) ys = ys"
    using no by (auto simp: image_iff intro!: filter_True)
  ultimately have d'': "db_messages d' = xs @ ys @ [new]" using x(2) by (simp add: d' ms)
  show "contents d' = contents d" by (simp add: contents_def d'' ms new same)
  show "has_copy d m \<Longrightarrow> m_id m \<noteq> m_id msg \<Longrightarrow> has_copy d' m" using x(2) by (auto simp: has_copy_def d'' ms)
qed

lemma claim_loop_contents:
  assumes "inj u" "claim_loop u now q policy vis ms d = Inr (out, d')" "db_inv u ps d"
    "distinct (map m_id ms)" "\<And>m. m \<in> set ms \<Longrightarrow> has_copy d m"
  shows "contents d' = contents d"
  using assms(2-5)
proof (induction ms arbitrary: d out)
  case (Cons m ms)
  from Cons.prems(1) show ?case
  proof (cases rule: claim_loop_ConsE)
    case (redriven p d1)
    have n: "names_ok u d ps" using Cons.prems(2) by (simp add: db_inv_def)
    note rc = redrive_contents [OF n Cons.prems(4) [OF list.set_intros(1)] redriven(3)]
    have "contents d' = contents d1"
    proof (rule Cons.IH [OF redriven(4)])
      show "db_inv u ps d1" using redrive_inv(1) [OF assms(1) Cons.prems(2) redriven(3)] .
      show "distinct (map m_id ms)" using Cons.prems(3) by simp
      show "has_copy d1 y" if "y \<in> set ms" for y
      proof (rule rc(2))
        show "has_copy d y" using Cons.prems(4) that by simp
        have "m_id m \<notin> m_id ` set ms" using Cons.prems(3) by simp
        then show "m_id y \<noteq> m_id m" using that by (metis image_eqI)
      qed
    qed
    with rc(1) show ?thesis by simp
  next
    case skipped
    then show ?thesis
      using Cons.IH [OF skipped(3)] Cons.prems db_inv_draw [OF assms(1)] by (simp add: contents_def has_copy_def)
  next
    case (claimed d1 out1)
    have "contents d' = contents d1"
      using Cons.IH [OF claimed(3) claim_inv(1) [OF assms(1) Cons.prems(2) claimed(2)]] Cons.prems
        claim_contents(2) [OF claimed(2)] by simp
    then show ?thesis using claim_contents(1) [OF claimed(2)] by simp
  qed
qed simp

text \<open>C27. Receiving loses and invents nothing: with every redrive to the dead-letter queue it performs, the
  multiset of stored bodies (with their sealing) over all queues is the same before and after.\<close>

theorem receive_conserves:
  assumes "inj u" "reachable sqs_init (sqs_step u) s"
    and "ReceiveMessages u (s_db s) now account name mx = Inr (out, d')"
  shows "contents d' = contents (s_db s)"
proof -
  have db: "db_inv u (s_sending s) (s_db s)"
    using sqs.reachable_inv [OF assms(2)] assms(1) by (simp add: sqs_inv_db)
  then have dist: "distinct (map m_id (db_messages (s_db s)))" by (auto simp: db_inv_def dest: names_distinct_ids)
  obtain q where c: "claim_loop u now q (parseRedrivePolicy (q_attrs q)) (deadline now (queueVisibilityTimeout (q_attrs q)))
      (pending_rows (s_db s) q account name (if mx \<le> 0 then 1 else mx) (format_RFC3339 now)) (s_db s) = Inr (out, d')"
    using assms(3) by (rule ReceiveMessages_Inr)
  show ?thesis
    by (rule claim_loop_contents [OF assms(1) c db pending_rows_distinct [OF dist]])
      (use pending_rows_set in \<open>force simp: has_copy_def\<close>)
qed

section \<open>A redrive that fails\<close>

lemma missing_dlq_fails:
  assumes "queueNameFromARN (rp_target p) = Some dlqName" "GetQueue d (q_account q) dlqName = Inl e"
  shows "redriveMessageTx u now q p m d = Inl ErrNoSuchQueue"
  using assms by (simp add: redriveMessageTx_def)

lemma claim_loop_fails:
  assumes "\<And>d1 m. db_queues d1 = db_queues d \<Longrightarrow> redrives policy m \<Longrightarrow>
      \<exists>e. redriveMessageTx u now q (the policy) m d1 = Inl e"
    and "claim_loop u now q policy vis ms d = Inr (out, d')" "m \<in> set ms"
  shows "\<not> redrives policy m"
proof -
  have "claim_loop u now q policy vis ms d1 = Inr (out, d') \<Longrightarrow> db_queues d1 = db_queues d \<Longrightarrow>
      \<forall>m\<in>set ms. \<not> redrives policy m" for d1 out
  proof (induction ms arbitrary: d1 out)
    case (Cons m ms)
    from Cons.prems(1) show ?case
    proof (cases rule: claim_loop_ConsE)
      case (redriven p d2)
      then show ?thesis using assms(1) [OF Cons.prems(2), of m] by auto
    next
      case skipped
      then show ?thesis using Cons.IH [OF skipped(3)] Cons.prems(2) by simp
    next
      case (claimed d2 out1)
      have "db_queues d2 = db_queues d1" using claimed(2) by (auto simp: claim_row_def split: if_splits)
      then show ?thesis using Cons.IH [OF claimed(3)] Cons.prems(2) claimed(1) by simp
    qed
  qed simp
  then show ?thesis using assms(2,3) by blast
qed

text \<open>A queue whose RedrivePolicy names a dead-letter queue that does not exist (it was deleted, or never
  created) is blocked by one message over the limit: as long as that message is among those a receive
  takes up, every receive fails and delivers nothing, and rolls back. A redrive that fails is not
  skipped.\<close>

theorem missing_dlq_blocks:
  assumes "GetQueue d account name = Inr q" "parseRedrivePolicy (q_attrs q) = Some p"
    and "queueNameFromARN (rp_target p) = Some dlqName" "GetQueue d account dlqName = Inl e"
    and "m \<in> set (pending_rows d q account name (max 1 mx) (format_RFC3339 now))" "rp_max p \<le> m_count m"
  shows "\<exists>e. ReceiveMessages u d now account name mx = Inl e"
proof (rule ccontr)
  assume "\<not> ?thesis"
  then obtain out d' where r: "ReceiveMessages u d now account name mx = Inr (out, d')"
    by (metis old.sum.exhaust surj_pair)
  have mx: "(if mx \<le> 0 then 1 else mx) = max 1 mx" by auto
  have c: "claim_loop u now q (Some p) (deadline now (queueVisibilityTimeout (q_attrs q)))
      (pending_rows d q account name (max 1 mx) (format_RFC3339 now)) d = Inr (out, d')"
    using r assms(1,2) by (auto elim!: ReceiveMessages_Inr simp: mx)
  have acct: "q_account q = account" using GetQueue_Inr [OF assms(1)] by simp
  have "\<not> redrives (Some p) m"
  proof (rule claim_loop_fails [OF _ c assms(5)])
    fix d1 :: db and m'
    assume "db_queues d1 = db_queues d"
    then have "GetQueue d1 (q_account q) dlqName = Inl e" using assms(4) acct by (simp add: GetQueue_def)
    then show "\<exists>e. redriveMessageTx u now q (the (Some p)) m' d1 = Inl e"
      using missing_dlq_fails [OF assms(3)] by simp
  qed
  then show False using assms(6) by (simp add: redrives_def)
qed

end
