(* ===== verification/Sqs_Ops.thy ===== *)
theory Sqs_Ops
  imports Sqs_Props
begin

text \<open>
  Deduplication and sequence numbers of FIFO queues, the order of a message group, receipt handles,
  the isolation of queues from each other, listing by prefix, and the attribute column.
\<close>

section \<open>Sending to a FIFO queue\<close>

lemma nextSequenceNumber_greater:
  "x \<in> set (queue_rows d account name) \<Longrightarrow> m_group x = grp \<Longrightarrow> m_seq x < nextSequenceNumber d account name grp"
proof -
  assume x: "x \<in> set (queue_rows d account name)" "m_group x = grp"
  let ?ss = "map m_seq (filter (\<lambda>m. m_group m = grp) (queue_rows d account name))"
  have "m_seq x \<in> set ?ss" using x by auto
  then show ?thesis
    unfolding nextSequenceNumber_def using le_fold_max [of "m_seq x"] by (cases ?ss) fastforce+
qed

lemma fold_latest_in: "fold (\<lambda>x b. if m_created b < m_created x then x else b) ms m \<in> set (m # ms)"
proof (induction ms arbitrary: m)
  case (Cons x ms)
  then show ?case using Cons.IH [of x] Cons.IH [of m] by auto
qed simp

definition in_window :: "db \<Rightarrow> instant \<Rightarrow> string \<Rightarrow> string \<Rightarrow> string \<Rightarrow> Message \<Rightarrow> bool" where
  "in_window d now account name dedup x \<longleftrightarrow>
     x \<in> set (db_messages d) \<and> m_account x = account \<and> m_queue x = name \<and> m_dedup x = dedup \<and>
     format_RFC3339 (now - FIFODedupWindow) \<le> m_created x"

lemma findDedupMessage_None:
  "dedup \<noteq> [] \<Longrightarrow> findDedupMessage d now account name dedup = None \<longleftrightarrow> \<not> (\<exists>x. in_window d now account name dedup x)"
proof -
  assume "dedup \<noteq> []"
  let ?found = "filter (\<lambda>m. m_dedup m = dedup \<and> format_RFC3339 (now - FIFODedupWindow) \<le> m_created m) (queue_rows d account name)"
  have "findDedupMessage d now account name dedup = None \<longleftrightarrow> ?found = []"
    using \<open>dedup \<noteq> []\<close> by (simp add: findDedupMessage_def Let_def split: list.split)
  also have "\<dots> \<longleftrightarrow> \<not> (\<exists>x. in_window d now account name dedup x)"
    unfolding filter_empty_conv by (auto simp: in_window_def queue_rows_def)
  finally show ?thesis .
qed

lemma findDedupMessage_Some:
  assumes "findDedupMessage d now account name dedup = Some m"
  shows "\<exists>x. in_window d now account name dedup x \<and> m = x\<lparr>m_handle := None, m_visible := []\<rparr>"
proof -
  let ?found = "filter (\<lambda>m. m_dedup m = dedup \<and> format_RFC3339 (now - FIFODedupWindow) \<le> m_created m) (queue_rows d account name)"
  obtain x xs where f: "?found = x # xs"
    using assms by (cases ?found) (auto simp: findDedupMessage_def Let_def split: if_splits)
  let ?b = "fold (\<lambda>x b. if m_created b < m_created x then x else b) xs x"
  have "?b \<in> set ?found" unfolding f by (rule fold_latest_in)
  then have "in_window d now account name dedup ?b" by (auto simp: in_window_def queue_rows_def)
  moreover have "m = ?b\<lparr>m_handle := None, m_visible := []\<rparr>"
    using assms f by (simp add: findDedupMessage_def Let_def split: if_splits)
  ultimately show ?thesis by blast
qed


section \<open>The order of a message group\<close>

lemma select_pending_first:
  "sorted (map key ms) \<Longrightarrow> y \<in> set (select_pending True blocked room seen ms) \<Longrightarrow> x \<in> set ms \<Longrightarrow>
   m_group x = m_group y \<Longrightarrow> key y \<le> key x"
proof (induction ms arbitrary: room seen)
  case (Cons m ms)
  show ?case
  proof (cases "m_group m \<in> set blocked \<or> m_group m \<in> set seen")
    case True
    then have y: "y \<in> set (select_pending True blocked room seen ms)" using Cons.prems by simp
    then have "m_group y \<notin> set blocked \<union> set seen" using select_pending_avoids [of blocked room seen ms] by auto
    with True Cons.prems(3,4) have "x \<in> set ms" by auto
    then show ?thesis using Cons.IH [OF _ y] Cons.prems by simp
  next
    case False
    show ?thesis
    proof (cases "y = m")
      case True
      then show ?thesis using Cons.prems by auto
    next
      case F: False
      then have y: "y \<in> set (select_pending True blocked (room - 1) (m_group m # seen) ms)"
        using False Cons.prems(2) by (auto split: if_splits)
      then have "m_group y \<noteq> m_group m"
        using select_pending_avoids [of blocked "room - 1" "m_group m # seen" ms] by (auto simp: image_iff)
      with Cons.prems(3,4) have "x \<in> set ms" by auto
      then show ?thesis using Cons.IH [OF _ y] Cons.prems by simp
    qed
  qed
qed simp

text \<open>Of each message group a FIFO queue delivers the first message: every visible message of that group
  in the queue has a sequence number at least as large as the delivered one.\<close>

theorem fifo_order:
  assumes "GetQueue d account name = Inr q" "queueIsFIFO (q_attrs q)"
    and "ReceiveMessages u d now account name mx = Inr (out, d')" "m \<in> set out"
    and "x \<in> set (db_messages d)" "m_account x = account" "m_queue x = name" "m_group x = m_group m"
    and "visible (format_RFC3339 now) x"
  shows "m_seq m \<le> m_seq x"
proof -
  define ms where "ms = pending_rows d q account name (if mx \<le> 0 then 1 else mx) (format_RFC3339 now)"
  let ?rows = "ordered_rows d q account name (format_RFC3339 now)"
  have c: "claim_loop u now q (parseRedrivePolicy (q_attrs q)) (deadline now (queueVisibilityTimeout (q_attrs q))) ms d
      = Inr (out, d')"
    using assms(1,3) by (auto elim: ReceiveMessages_Inr simp: ms_def)
  obtain y where y: "y \<in> set ms" "m_group y = m_group m" "m_seq y = m_seq m"
    using claim_loop_copies [OF c assms(4)] by auto
  have ms: "ms = select_pending True (fifoBlockedGroups d account name (format_RFC3339 now)) (if mx \<le> 0 then 1 else mx) [] ?rows"
    by (simp add: ms_def pending_rows_select assms(2))
  have "sorted (map (\<lambda>m. (m_seq m, m_id m)) ?rows)" by (simp add: ordered_rows_def assms(2))
  from select_pending_first [OF this y(1) [unfolded ms], of x] have "(m_seq y, m_id y) \<le> (m_seq x, m_id x)"
    using assms(5-9) y(2) by (simp add: set_ordered_rows)
  then show ?thesis using y(3) by (auto simp: less_eq_prod_def)
qed

section \<open>Receipt handles\<close>

lemma handle_row:
  assumes "names_ok u d ps" "has_handle account name h x" "x \<in> set (db_messages d)"
  shows "filter (\<lambda>m. \<not> has_handle account name h m) (db_messages d) = remove1 x (db_messages d)"
proof -
  have dist: "distinct (db_messages d)" using names_distinct_ids [OF assms(1)] by (simp add: distinct_map)
  have "m = x" if "m \<in> set (db_messages d)" "has_handle account name h m" for m
    using same_handle_same_row [OF names_ok_handles(1) [OF assms(1)] that(1) assms(3)] that(2) assms(2)
    by (simp add: has_handle_def)
  then have "filter (\<lambda>m. \<not> has_handle account name h m) (db_messages d) = filter (\<lambda>m. m \<noteq> x) (db_messages d)"
    using assms(2) by (auto intro: filter_cong)
  then show ?thesis using dist by (simp add: distinct_remove1_removeAll removeAll_filter_not_eq eq_commute)
qed

text \<open>Deleting by receipt handle: it succeeds exactly when the queue exists and one of its messages holds the
  handle, and then removes that one message and nothing else.\<close>

theorem delete_by_handle:
  assumes "inj u" "reachable sqs_init (sqs_step u) s" "GetQueue (s_db s) account name = Inr q"
  shows "if \<exists>x\<in>set (db_messages (s_db s)). has_handle account name h x
    then \<exists>x\<in>set (db_messages (s_db s)). has_handle account name h x \<and>
           DeleteMessage (s_db s) account name h =
             Inr ((s_db s)\<lparr>db_messages := remove1 x (db_messages (s_db s))\<rparr>)
    else DeleteMessage (s_db s) account name h = Inl ErrNoSuchMessage"
proof -
  have n: "names_ok u (s_db s) (s_sending s)"
    using sqs.reachable_inv [OF assms(2)] assms(1) by (simp add: sqs_inv_def)
  show ?thesis
  proof (cases "\<exists>x\<in>set (db_messages (s_db s)). has_handle account name h x")
    case True
    then obtain x where "x \<in> set (db_messages (s_db s))" "has_handle account name h x" by blast
    with handle_row [OF n this(2,1)] assms(3) True show ?thesis by (auto simp: DeleteMessage_def)
  next
    case False
    then show ?thesis using assms(3) by (simp add: DeleteMessage_def)
  qed
qed

text \<open>Handles after a receive: those that were there before stay on their message, the rest are new.\<close>

definition old_handles_stay :: "uuid \<Rightarrow> nat \<Rightarrow> db \<Rightarrow> db \<Rightarrow> bool" where
  "old_handles_stay u n a b \<longleftrightarrow>
     (\<forall>y\<in>set (db_messages b). \<forall>h. m_handle y = Some h \<and> h \<in> u ` {..<n} \<longrightarrow>
        (\<exists>x\<in>set (db_messages a). m_id x = m_id y \<and> m_handle x = Some h))"

lemma old_handles_trans:
  "old_handles_stay u n a b \<Longrightarrow> old_handles_stay u n b c \<Longrightarrow> old_handles_stay u n a c"
  unfolding old_handles_stay_def by metis

lemma receive_old_handles:
  assumes "inj u" "ReceiveMessages u d now account name mx = Inr (out, d')"
  shows "old_handles_stay u (db_drawn d) d d'"
proof -
  let ?n = "db_drawn d"
  obtain q where c: "claim_loop u now q (parseRedrivePolicy (q_attrs q)) (deadline now (queueVisibilityTimeout (q_attrs q)))
      (pending_rows d q account name (if mx \<le> 0 then 1 else mx) (format_RFC3339 now)) d = Inr (out, d')"
    using assms(2) by (rule ReceiveMessages_Inr)
  from c have "?n \<le> db_drawn d' \<and> old_handles_stay u ?n d d'"
  proof (rule claim_loop_relation [where I = "\<lambda>d1. ?n \<le> db_drawn d1" and R = "old_handles_stay u ?n"])
    show "old_handles_stay u ?n a a" for a by (auto simp: old_handles_stay_def)
    show "old_handles_stay u ?n a b \<Longrightarrow> old_handles_stay u ?n b c \<Longrightarrow> old_handles_stay u ?n a c" for a b c
      by (rule old_handles_trans)
    show "?n \<le> db_drawn d2 \<and> old_handles_stay u ?n d1 d2"
      if "?n \<le> db_drawn d1" "redriveMessageTx u now q p m d1 = Inr d2" for p m d1 d2
      using that(2) by (rule redrive_Inr) (use that(1) in \<open>auto simp: old_handles_stay_def\<close>)
    show "?n \<le> db_drawn d2 \<and> old_handles_stay u ?n d1 d2"
      if n: "?n \<le> db_drawn d1" and r: "claim_row (u (db_drawn d1)) vis (m_id m) nowStr (d1\<lparr>db_drawn := Suc (db_drawn d1)\<rparr>) = Inr (Some d2)"
      for m d1 d2 vis nowStr
    proof -
      have "u (db_drawn d1) \<notin> u ` {..<?n}" using n assms(1) by (force dest: injD)
      with n r show ?thesis
        by (auto simp: old_handles_stay_def claim_row_def split: if_splits)
    qed
  qed (auto simp: old_handles_stay_def)
  then show ?thesis by simp
qed

text \<open>A receipt handle is good until its message is received again: after that receive, deleting with the
  old handle, or changing the visibility with it, is ReceiptHandleIsInvalid and changes nothing.\<close>

theorem stale_handle:
  assumes "inj u" "reachable sqs_init (sqs_step u) s"
    and "x \<in> set (db_messages (s_db s))" "m_handle x = Some h"
    and "ReceiveMessages u (s_db s) now account name mx = Inr (out, d')" "m \<in> set out" "m_id m = m_id x"
  shows "DeleteMessage d' account name h = Inl ErrNoSuchMessage \<and>
    ChangeMessageVisibility d' t account name h seconds = Inl ErrNoSuchMessage"
proof -
  have db: "db_inv u (s_sending s) (s_db s)"
    using sqs.reachable_inv [OF assms(2)] assms(1) by (simp add: sqs_inv_db)
  then have n: "names_ok u (s_db s) (s_sending s)" by (simp add: db_inv_def)
  obtain q where q: "GetQueue (s_db s) account name = Inr q" using assms(5) by (rule ReceiveMessages_Inr)
  obtain h' m0 where m: "m = claimed_copy h' (deadline now (queueVisibilityTimeout (q_attrs q))) m0"
    and l: "locked u (m_id m) h' (deadline now (queueVisibilityTimeout (q_attrs q))) d'"
    and h': "h' \<notin> u ` {..<db_drawn (s_db s)}"
    using receive_out [OF assms(1) db assms(5,6) q] by auto
  have "h \<in> set (handles (db_messages (s_db s)))" using assms(3,4) by (auto simp: handles_in)
  then have h: "h \<in> u ` {..<db_drawn (s_db s)}" using n by (force simp: names_ok_def used_def)
  have "\<not> has_handle account name h y" if y: "y \<in> set (db_messages d')" for y
  proof
    assume "has_handle account name h y"
    then have yh: "m_handle y = Some h" by (simp add: has_handle_def)
    then obtain z where z: "z \<in> set (db_messages (s_db s))" "m_id z = m_id y" "m_handle z = Some h"
      using receive_old_handles [OF assms(1,5)] y h by (auto simp: old_handles_stay_def)
    then have "z = x" using same_handle_same_row [OF names_ok_handles(1) [OF n] _ assms(3)] assms(4) by blast
    then have "m_handle y = Some h'" using l y z(2) assms(7) by (auto simp: locked_def)
    with yh h h' show False by simp
  qed
  moreover obtain q' where "GetQueue d' account name = Inr q'"
    using q receive_inv [OF assms(1) db assms(5)] GetQueue_cong by metis
  ultimately show ?thesis by (simp add: DeleteMessage_def ChangeMessageVisibility_def)
qed

section \<open>Queues do not touch each other's messages\<close>

fun op_queue :: "sqs_op \<Rightarrow> (string \<times> string) option" where
  "op_queue (OpQueues account name) = Some (account, name)"
| "op_queue (OpPurge account name) = Some (account, name)"
| "op_queue (OpReceive now account name out) = Some (account, name)"
| "op_queue (OpDeleteMessage account name h) = Some (account, name)"
| "op_queue (OpChangeVisibility now account name h seconds) = Some (account, name)"
| "op_queue _ = None"

lemma receive_keeps_others:
  assumes "db_inv u ps d" "ReceiveMessages u d now account name mx = Inr (out, d')"
    and x: "x \<in> set (db_messages d)" "(m_account x, m_queue x) \<noteq> (account, name)"
  shows "x \<in> set (db_messages d')"
proof -
  obtain q where c: "claim_loop u now q (parseRedrivePolicy (q_attrs q)) (deadline now (queueVisibilityTimeout (q_attrs q)))
      (pending_rows d q account name (if mx \<le> 0 then 1 else mx) (format_RFC3339 now)) d = Inr (out, d')"
    using assms(2) by (rule ReceiveMessages_Inr)
  have inj: "inj_on m_id (set (db_messages d))"
    using assms(1) names_distinct_ids by (auto simp: db_inv_def distinct_map)
  have other: "m_id m \<noteq> m_id x"
    if "m \<in> set (pending_rows d q account name (if mx \<le> 0 then 1 else mx) (format_RFC3339 now))" for m
    using pending_rows_set [OF that] inj_onD [OF inj, of m x] x by auto
  from c have "True \<and> (x \<in> set (db_messages d) \<longrightarrow> x \<in> set (db_messages d'))"
  proof (rule claim_loop_relation [where R = "\<lambda>a b. x \<in> set (db_messages a) \<longrightarrow> x \<in> set (db_messages b)"])
    fix p m d1 d2
    assume m: "m \<in> set (pending_rows d q account name (if mx \<le> 0 then 1 else mx) (format_RFC3339 now))"
      and "redriveMessageTx u now q p m d1 = Inr d2"
    then show "True \<and> (x \<in> set (db_messages d1) \<longrightarrow> x \<in> set (db_messages d2))"
      using other [OF m] by (elim redrive_Inr) simp
  next
    fix m d1 d2 vis
    assume m: "m \<in> set (pending_rows d q account name (if mx \<le> 0 then 1 else mx) (format_RFC3339 now))"
      and "claim_row (u (db_drawn d1)) (deadline now (queueVisibilityTimeout (q_attrs q))) (m_id m) (format_RFC3339 now)
        (d1\<lparr>db_drawn := Suc (db_drawn d1)\<rparr>) = Inr (Some d2)"
    then show "True \<and> (x \<in> set (db_messages d1) \<longrightarrow> x \<in> set (db_messages d2))"
      using other [OF m] by (force simp: claim_row_def split: if_splits)
  qed auto
  with x(1) show ?thesis by simp
qed

text \<open>An operation on one queue (receiving, deleting, purging, changing attributes or visibility, deleting the
  queue itself) leaves every message of every other queue as it is; a send leaves all messages.\<close>

theorem queue_isolation:
  assumes "inj u" "reachable sqs_init (sqs_step u) s" "sqs_step u s l s'"
    and "x \<in> set (db_messages (s_db s))" "op_queue l \<noteq> Some (m_account x, m_queue x)"
  shows "x \<in> set (db_messages (s_db s'))"
  using assms(3)
proof cases
  case (step_receive now account name mx out d')
  have "db_inv u (s_sending s) (s_db s)"
    using sqs.reachable_inv [OF assms(2)] assms(1) by (simp add: sqs_inv_db)
  from receive_keeps_others [OF this step_receive(3) assms(4)] show ?thesis
    using step_receive(1,2) assms(5) by auto
next
  case (step_commit p now m d')
  from step_commit(4) have "x \<in> set (db_messages d')"
    by (cases rule: send_commit_cases) (use assms(4) in auto)
  then show ?thesis using step_commit by simp
next
  case (step_change_visibility now account name handle seconds d')
  then show ?thesis
    using assms(4,5) by (force simp: ChangeMessageVisibility_def has_handle_def split: sum.splits if_splits)
qed (use assms(4,5) in \<open>auto simp: CreateQueue_def Let_def DeleteQueue_def SetQueueAttributes_def PurgeQueue_def
    send_prepare_def DeleteMessage_def has_handle_def split: sum.splits if_splits\<close>)

section \<open>Listing\<close>

lemma like_percent: "sql_like ''%'' s"
  by (induction s) auto

lemma like_prefix:
  "CHR ''%'' \<notin> set pref \<Longrightarrow> CHR ''_'' \<notin> set pref \<Longrightarrow>
   sql_like (pref @ ''%'') s \<longleftrightarrow> prefix (map char_lower pref) (map char_lower s)"
proof (induction pref arbitrary: s)
  case (Cons p pref)
  then show ?case by (cases s) auto
qed (simp add: like_percent)

text \<open>Listing by a prefix without \<open>%\<close> and \<open>_\<close> gives, sorted by name, exactly the queues of the account whose
  name starts with the prefix up to the case of ASCII letters.\<close>

theorem ListQueues_prefix:
  assumes "CHR ''%'' \<notin> set pref" "CHR ''_'' \<notin> set pref"
  shows "set (ListQueues d account pref) =
      {q \<in> set (db_queues d). q_account q = account \<and> prefix (map char_lower pref) (map char_lower (q_name q))} \<and>
    sorted (map q_name (ListQueues d account pref))"
  using like_prefix [OF assms] by (auto simp: ListQueues_def)

section \<open>The attribute column\<close>

definition marshalJSONColumn :: "attributes \<Rightarrow> string" where
  "marshalJSONColumn kvs = (if kvs = [] then ''{}'' else marshal_map kvs)"

definition unmarshalJSONColumn :: "string \<Rightarrow> attributes option" where
  "unmarshalJSONColumn s = (if TrimSpace s = [] then Some [] else Option.bind (json_parse s) dec_string_map)"

lemma marshal_map_trim: "TrimSpace (marshal_map kvs) \<noteq> []"
proof -
  obtain r where m: "marshal_map kvs = CHR 0x7B # r" "last (CHR 0x7B # r) = CHR 0x7D"
    by (simp add: marshal_map_def marshal_members_def)
  have "TrimSpace (CHR 0x7B # r) = CHR 0x7B # r"
    by (rule TrimSpace_graphic) (simp_all add: m graphic_def del: last.simps)
  then show ?thesis by (simp add: m)
qed

text \<open>The attribute map of a queue survives its JSON column: whatever valid UTF-8 the keys and values hold
  (quotes, control characters, the characters HTML escapes, line separators), reading the column back
  gives the same map. Text that is not UTF-8 comes back with U+FFFD in the place of each bad byte
  (\<open>stored_map\<close>), which is what the model of CreateQueue and SetQueueAttributes stores.\<close>

theorem attributes_roundtrip:
  assumes "distinct (map fst kvs)" "\<forall>(k, v)\<in>set kvs. valid_utf8 k \<and> valid_utf8 v"
  shows "\<exists>kvs'. unmarshalJSONColumn (marshalJSONColumn kvs) = Some kvs' \<and> map_of kvs' = map_of kvs"
proof (cases "kvs = []")
  case True
  have "json_parse ''{}'' = Some (JObj [])"
    by (simp add: json_parse_def read_step_def read_value_def put_value_def max_depth_def)
  moreover have "TrimSpace ''{}'' = ''{}''"
    by (rule TrimSpace_graphic) (simp_all add: graphic_def)
  ultimately show ?thesis
    using True by (simp add: marshalJSONColumn_def unmarshalJSONColumn_def dec_string_map_def)
next
  case False
  then have "unmarshalJSONColumn (marshalJSONColumn kvs) = Some (stored_map kvs)"
    by (simp add: marshalJSONColumn_def unmarshalJSONColumn_def marshal_map_trim unmarshal_marshal_map)
  moreover have "map_of (stored_map kvs) = map_of kvs"
    using assms by (intro map_of_stored_map) auto
  ultimately show ?thesis by blast
qed

end
