(* ===== verification/Sqs_Samples.thy ===== *)
theory Sqs_Samples
  imports Sqs_Ops
begin

text \<open>
  A queue, a message that is sent, and its first delivery: the concrete inputs on which the properties
  of the queues are applied.
\<close>

definition u0 :: uuid where
  "u0 n = replicate (Suc n) (CHR ''x'')"

lemma inj_u0: "inj u0"
  by (simp add: inj_def u0_def replicate_eq_replicate)

lemma time_0: "format_RFC3339 0 = ''1970-01-01T00:00:00Z''" by code_simp
lemma time_10: "format_RFC3339 10000000000 = ''1970-01-01T00:00:10Z''" by code_simp
lemma time_30: "format_RFC3339 30000000000 = ''1970-01-01T00:00:30Z''" by code_simp
lemma time_minus_300: "format_RFC3339 (- 300000000000) = ''1969-12-31T23:55:00Z''" by code_simp

lemmas times = time_0 time_10 time_30 time_minus_300

definition emptydb :: db where
  "emptydb = \<lparr>db_queues = [], db_messages = [], db_drawn = 0\<rparr>"

definition queue1 :: Queue where
  "queue1 = \<lparr>q_account = ''1'', q_name = ''q'', q_url = ''http://h/1/q'',
     q_arn = ''arn:aws:sqs:us-east-1:1:q'', q_attrs = [], q_created = ''1970-01-01T00:00:00Z''\<rparr>"

definition message1 :: Message where
  "message1 = \<lparr>m_id = ''x'', m_account = ''1'', m_queue = ''q'', m_body = ''b'', m_sealed = False, m_dek = [],
     m_handle = None, m_visible = [], m_count = 0, m_created = ''1970-01-01T00:00:00Z'', m_attrs_json = ''{}'',
     m_group = [], m_dedup = [], m_seq = 0\<rparr>"

definition delivered1 :: Message where
  "delivered1 = claimed_copy ''xx'' ''1970-01-01T00:00:30Z'' message1"

definition prepared1 :: prepared where
  "prepared1 = \<lparr>pr_id = ''x'', pr_account = ''1'', pr_queue = ''q'', pr_body = ''b'', pr_sealed = False, pr_dek = [],
     pr_created = ''1970-01-01T00:00:00Z'', pr_attrs = ''{}'', pr_visible = [], pr_group = [], pr_dedup = [],
     pr_fifo = False, pr_snapshot = [], pr_opts = None\<rparr>"

definition db1 :: db where "db1 = \<lparr>db_queues = [queue1], db_messages = [], db_drawn = 0\<rparr>"
definition db2 :: db where "db2 = \<lparr>db_queues = [queue1], db_messages = [message1], db_drawn = 1\<rparr>"
definition db3 :: db where "db3 = \<lparr>db_queues = [queue1], db_messages = [delivered1], db_drawn = 2\<rparr>"

lemma replicate_3: "replicate 3 c = [c, c, c]"
  by (simp add: numeral_3_eq_3)

lemmas samples = replicate_3 emptydb_def queue1_def message1_def delivered1_def prepared1_def db1_def db2_def db3_def u0_def

lemma create1: "CreateQueue emptydb 0 ''1'' [] ''h'' ''q'' [] = Inr (queue1, db1)"
  by (simp add: CreateQueue_def samples go_simps validateFIFOQueueName_def queueIsFIFO_def attrTruthy_def
      QueueURL_def QueueARN_def DefaultSQSRegion_def stored_map_def coerce_pairs_def times TrimRight_def suffix_def Let_def)

lemma prepare1: "send_prepare u0 db1 0 ''1'' ''q'' ''b'' False [] [] None = Inr (prepared1, db1\<lparr>db_drawn := Suc 0\<rparr>)"
  by (simp add: send_prepare_def samples GetQueue_def prepareSendFIFOFields_def queueIsFIFO_def attrTruthy_def
      prepareSendVisibleAfter_def queueDelaySeconds_def times)

lemma commit1: "send_commit (db1\<lparr>db_drawn := Suc 0\<rparr>) 0 prepared1 = Inr (message1, db2)"
  by (simp add: send_commit_def samples GetQueue_def send_fields_def queueIsFIFO_def attrTruthy_def
      message_row_def insert_message_def Let_def)

lemma receive1: "ReceiveMessages u0 db2 0 ''1'' ''q'' 1 = Inr ([delivered1], db3)"
  by (simp add: ReceiveMessages_def samples GetQueue_def parseRedrivePolicy_def queueVisibilityTimeout_def
      DefaultVisibilityTimeout_def pending_rows_def queueIsFIFO_def attrTruthy_def queue_rows_def visible_def
      redrives_def claim_row_def claimed_copy_def deadline_def wrap64_def ns_sec_def times)

lemma receive2: "ReceiveMessages u0 db3 10000000000 ''1'' ''q'' 1 = Inr ([], db3)"
  by (simp add: ReceiveMessages_def samples GetQueue_def parseRedrivePolicy_def queueVisibilityTimeout_def
      DefaultVisibilityTimeout_def pending_rows_def queueIsFIFO_def attrTruthy_def queue_rows_def visible_def
      claimed_copy_def times)

lemma reachable2: "reachable sqs_init (sqs_step u0) \<lparr>s_db = db2, s_sending = []\<rparr>"
proof -
  have "reachable sqs_init (sqs_step u0) \<lparr>s_db = emptydb, s_sending = []\<rparr>"
    by (rule reach_init) (simp add: sqs_init_def emptydb_def)
  from reach_step [where step = "sqs_step u0", OF this step_create [where s = "\<lparr>s_db = emptydb, s_sending = []\<rparr>", simplified, OF create1]]
  have "reachable sqs_init (sqs_step u0) \<lparr>s_db = db1, s_sending = []\<rparr>" by simp
  from reach_step [where step = "sqs_step u0", OF this step_prepare [where s = "\<lparr>s_db = db1, s_sending = []\<rparr>", simplified, OF prepare1]]
  have "reachable sqs_init (sqs_step u0) \<lparr>s_db = db1\<lparr>db_drawn := Suc 0\<rparr>, s_sending = [prepared1]\<rparr>" by simp
  from reach_step [where step = "sqs_step u0", OF this step_commit [where p = prepared1 and
      s = "\<lparr>s_db = db1\<lparr>db_drawn := Suc 0\<rparr>, s_sending = [prepared1]\<rparr>", simplified, OF commit1]]
  show ?thesis by simp
qed

lemma run2: "run (sqs_step u0) \<lparr>s_db = db3, s_sending = []\<rparr> [OpReceive 10000000000 ''1'' ''q'' []] \<lparr>s_db = db3, s_sending = []\<rparr>"
  using step_receive [where s = "\<lparr>s_db = db3, s_sending = []\<rparr>", simplified, OF receive2]
  by (simp add: run_Cons_iff)

theorem no_double_delivery_witness:
  "run (sqs_step u0) \<lparr>s_db = db3, s_sending = []\<rparr> [OpReceive 10000000000 ''1'' ''q'' []] \<lparr>s_db = db3, s_sending = []\<rparr> \<and>
   \<not> delivers ''x'' (OpReceive 10000000000 ''1'' ''q'' [])"
proof -
  let ?s = "\<lparr>s_db = db2, s_sending = []\<rparr>"
  have q: "GetQueue db2 ''1'' ''q'' = Inr queue1" by (simp add: GetQueue_def samples)
  have v: "queueVisibilityTimeout (q_attrs queue1) = 30"
    by (simp add: queueVisibilityTimeout_def DefaultVisibilityTimeout_def samples)
  have "\<forall>l\<in>set [OpReceive 10000000000 ''1'' ''q'' []]. \<not> delivers (m_id delivered1) l"
    by (rule no_double_delivery [OF inj_u0 reachable2, where account = "''1''" and name = "''q''" and q = queue1
          and now = 0 and mx = 1 and out = "[delivered1]" and d' = db3 and h = "''xx''" and expiry = 30000000000
          and s'' = "\<lparr>s_db = db3, s_sending = []\<rparr>" and m = delivered1])
      (simp_all add: q v receive1 run2 before_expiry_def rfc_range_def time_simps, simp add: delivered1_def)
  with run2 show ?thesis by (simp add: delivered1_def message1_def)
qed


lemma queue_of_db2: "GetQueue db2 ''1'' ''q'' = Inr queue1"
  by (simp add: GetQueue_def samples)

theorem receive_bounds_witness:
  "ReceiveMessages u0 db2 0 ''1'' ''q'' 1 = Inr ([delivered1], db3) \<and> int (length [delivered1]) \<le> max 1 1"
  using receive_bounds [OF inj_u0 reachable2, of "''1''" "''q''" queue1 0 1 "[delivered1]" db3] queue_of_db2 receive1
  by simp

theorem receive_conserves_witness:
  "ReceiveMessages u0 db2 0 ''1'' ''q'' 1 = Inr ([delivered1], db3) \<and> contents db3 = contents db2"
  using receive_conserves [OF inj_u0 reachable2, of 0 "''1''" "''q''" 1 "[delivered1]" db3] receive1 by simp

section \<open>A FIFO queue\<close>

definition queue2 :: Queue where
  "queue2 = \<lparr>q_account = ''1'', q_name = ''f.fifo'', q_url = ''http://h/1/f.fifo'',
     q_arn = ''arn:aws:sqs:us-east-1:1:f.fifo'', q_attrs = [(''FifoQueue'', ''true'')], q_created = ''1970-01-01T00:00:00Z''\<rparr>"

definition message2 :: Message where
  "message2 = \<lparr>m_id = ''x'', m_account = ''1'', m_queue = ''f.fifo'', m_body = ''b'', m_sealed = False, m_dek = [],
     m_handle = None, m_visible = [], m_count = 0, m_created = ''1970-01-01T00:00:00Z'', m_attrs_json = ''{}'',
     m_group = ''g'', m_dedup = ''k'', m_seq = 1\<rparr>"

definition db4 :: db where "db4 = \<lparr>db_queues = [queue2], db_messages = [message2], db_drawn = 1\<rparr>"

definition delivered2 :: Message where
  "delivered2 = claimed_copy ''xx'' ''1970-01-01T00:00:30Z'' message2"

definition db5 :: db where "db5 = \<lparr>db_queues = [queue2], db_messages = [delivered2], db_drawn = 2\<rparr>"

definition prepared2 :: prepared where
  "prepared2 = \<lparr>pr_id = ''xx'', pr_account = ''1'', pr_queue = ''f.fifo'', pr_body = ''b'', pr_sealed = False, pr_dek = [],
     pr_created = ''1970-01-01T00:00:00Z'', pr_attrs = ''{}'', pr_visible = [], pr_group = ''g'', pr_dedup = ''k'',
     pr_fifo = True, pr_snapshot = [(''FifoQueue'', ''true'')], pr_opts = None\<rparr>"

lemmas samples2 = queue2_def message2_def db4_def delivered2_def db5_def prepared2_def u0_def

lemma queue2_fifo: "queueIsFIFO (q_attrs queue2)" "queueIsFIFO [(''FifoQueue'', ''true'')]"
proof -
  have "TrimSpace ''true'' = ''true''" by (rule TrimSpace_graphic) (simp_all add: graphic_def)
  then show "queueIsFIFO (q_attrs queue2)" "queueIsFIFO [(''FifoQueue'', ''true'')]"
    by (simp_all add: queueIsFIFO_def attrTruthy_def queue2_def)
qed

lemma queue_of_db4: "GetQueue db4 ''1'' ''f.fifo'' = Inr queue2"
  by (simp add: GetQueue_def samples2)

lemma receive4: "ReceiveMessages u0 db4 0 ''1'' ''f.fifo'' 10 = Inr ([delivered2], db5)"
  by (simp add: ReceiveMessages_def samples2 GetQueue_def parseRedrivePolicy_def queueVisibilityTimeout_def
      DefaultVisibilityTimeout_def pending_rows_def queue2_fifo [unfolded queue2_def] queue_rows_def visible_def
      fifoBlockedGroups_def in_flight_def
      redrives_def claim_row_def claimed_copy_def deadline_def wrap64_def ns_sec_def times)

theorem receive_fifo_witness:
  "ReceiveMessages u0 db4 0 ''1'' ''f.fifo'' 10 = Inr ([delivered2], db5) \<and> distinct (map m_group [delivered2])"
  using receive_fifo [OF queue_of_db4 queue2_fifo(1) receive4] receive4 by simp

theorem fifo_order_witness:
  "ReceiveMessages u0 db4 0 ''1'' ''f.fifo'' 10 = Inr ([delivered2], db5) \<and> m_seq delivered2 \<le> m_seq message2"
  using fifo_order [OF queue_of_db4 queue2_fifo(1) receive4, of delivered2 message2] receive4
  by (simp add: samples2 claimed_copy_def visible_def)


section \<open>Handles\<close>

lemma reachable3: "reachable sqs_init (sqs_step u0) \<lparr>s_db = db3, s_sending = []\<rparr>"
  using reach_step [where step = "sqs_step u0", OF reachable2 step_receive [where s = "\<lparr>s_db = db2, s_sending = []\<rparr>", simplified, OF receive1]] by simp

theorem delete_by_handle_witness:
  "DeleteMessage db3 ''1'' ''q'' ''xx'' = Inr (db3\<lparr>db_messages := []\<rparr>)"
proof -
  have q: "GetQueue db3 ''1'' ''q'' = Inr queue1" by (simp add: GetQueue_def samples)
  have h: "has_handle ''1'' ''q'' ''xx'' delivered1" by (simp add: has_handle_def delivered1_def message1_def)
  have m: "db_messages db3 = [delivered1]" by (simp add: db3_def)
  from delete_by_handle [OF inj_u0 reachable3, of "''1''" "''q''" queue1 "''xx''"] q h show ?thesis by (simp add: m)
qed

definition redelivered1 :: Message where
  "redelivered1 = delivered1\<lparr>m_handle := Some ''xxx'', m_visible := ''1970-01-01T00:01:00Z'', m_count := 2\<rparr>"

lemma time_60: "format_RFC3339 60000000000 = ''1970-01-01T00:01:00Z''" by code_simp

lemma receive3: "ReceiveMessages u0 db3 30000000000 ''1'' ''q'' 1 =
    Inr ([redelivered1], \<lparr>db_queues = [queue1], db_messages = [redelivered1], db_drawn = 3\<rparr>)"
  by (simp add: ReceiveMessages_def samples GetQueue_def parseRedrivePolicy_def queueVisibilityTimeout_def
      DefaultVisibilityTimeout_def pending_rows_def queueIsFIFO_def attrTruthy_def queue_rows_def visible_def
      redrives_def claim_row_def claimed_copy_def deadline_def wrap64_def ns_sec_def times time_60 redelivered1_def)

theorem stale_handle_witness:
  "DeleteMessage \<lparr>db_queues = [queue1], db_messages = [redelivered1], db_drawn = 3\<rparr> ''1'' ''q'' ''xx'' = Inl ErrNoSuchMessage"
  using stale_handle [OF inj_u0 reachable3, of delivered1 "''xx''" 30000000000 "''1''" "''q''" 1 "[redelivered1]"
      "\<lparr>db_queues = [queue1], db_messages = [redelivered1], db_drawn = 3\<rparr>" redelivered1] receive3
  by (simp add: redelivered1_def delivered1_def db3_def)

theorem queue_isolation_witness:
  "delivered1 \<in> set (db_messages db3) \<and>
   sqs_step u0 \<lparr>s_db = db3, s_sending = []\<rparr> OpPrepare \<lparr>s_db = db3\<lparr>db_drawn := 3\<rparr>,
     s_sending = [prepared1\<lparr>pr_id := ''xxx''\<rparr>]\<rparr>"
proof -
  have "send_prepare u0 db3 0 ''1'' ''q'' ''b'' False [] [] None = Inr (prepared1\<lparr>pr_id := ''xxx''\<rparr>, db3\<lparr>db_drawn := 3\<rparr>)"
    by (simp add: send_prepare_def samples GetQueue_def prepareSendFIFOFields_def queueIsFIFO_def attrTruthy_def
        prepareSendVisibleAfter_def queueDelaySeconds_def times)
  from step_prepare [where s = "\<lparr>s_db = db3, s_sending = []\<rparr>", simplified, OF this]
  have s: "sqs_step u0 \<lparr>s_db = db3, s_sending = []\<rparr> OpPrepare \<lparr>s_db = db3\<lparr>db_drawn := 3\<rparr>,
     s_sending = [prepared1\<lparr>pr_id := ''xxx''\<rparr>]\<rparr>" .
  from queue_isolation [OF inj_u0 reachable3 s, of delivered1] s show ?thesis by (simp add: db3_def)
qed

section \<open>A dead-letter queue that does not exist\<close>

definition queue3 :: Queue where
  "queue3 = queue1\<lparr>q_attrs := [(''RedrivePolicy'',
     [CHR 0x7B, CHR 0x22] @ ''deadLetterTargetArn'' @ [CHR 0x22] @ '':'' @ [CHR 0x22] @ ''a:dlq'' @ [CHR 0x22] @ '','' @
     [CHR 0x22] @ ''maxReceiveCount'' @ [CHR 0x22] @ '':'' @ [CHR 0x22] @ ''1'' @ [CHR 0x22, CHR 0x7D])]\<rparr>"

definition db6 :: db where
  "db6 = \<lparr>db_queues = [queue3], db_messages = [message1\<lparr>m_count := 1\<rparr>], db_drawn = 1\<rparr>"

lemma policy3: "parseRedrivePolicy (q_attrs queue3) = Some \<lparr>rp_target = ''a:dlq'', rp_max = 1\<rparr>"
proof -
  let ?doc = "[CHR 0x7B, CHR 0x22] @ ''deadLetterTargetArn'' @ [CHR 0x22] @ '':'' @ [CHR 0x22] @ ''a:dlq'' @ [CHR 0x22] @ '','' @
     [CHR 0x22] @ ''maxReceiveCount'' @ [CHR 0x22] @ '':'' @ [CHR 0x22] @ ''1'' @ [CHR 0x22, CHR 0x7D]"
  have j: "json_parse ?doc = Some (JObj [(''deadLetterTargetArn'', JStr ''a:dlq''), (''maxReceiveCount'', JStr ''1'')])"
    by code_simp
  have t: "TrimSpace ?doc \<noteq> []" "TrimSpace ''1'' = ''1''" "TrimSpace ''a:dlq'' = ''a:dlq''"
    by (simp_all add: TrimSpace_graphic graphic_def)
  have f: "\<not> EqualFold ''maxReceiveCount'' ''deadLetterTargetArn''" by code_simp
  have d: "dec_struct dec_redrive_field ([], JNull)
      (JObj [(''deadLetterTargetArn'', JStr ''a:dlq''), (''maxReceiveCount'', JStr ''1'')]) = Some (''a:dlq'', JStr ''1'')"
    by (simp add: dec_struct_def dec_redrive_field_def f)
  have "Atoi ''1'' = Some 1" by (simp add: go_simps)
  then have m: "max_receive_count (JStr ''1'') = Some 1" by (simp add: max_receive_count_def t)
  have q: "map_of (q_attrs queue3) ''RedrivePolicy'' = Some ?doc" by (simp add: queue3_def)
  show ?thesis unfolding parseRedrivePolicy_def q using t j d m by (simp del: append.simps append_Cons)
qed

theorem missing_dlq_blocks_witness:
  "\<exists>e. ReceiveMessages u0 db6 0 ''1'' ''q'' 10 = Inl e"
proof (rule missing_dlq_blocks [OF _ policy3, where dlqName = "''dlq''" and e = ErrNoSuchQueue and m = "message1\<lparr>m_count := 1\<rparr>"])
  show "GetQueue db6 ''1'' ''q'' = Inr queue3" "GetQueue db6 ''1'' ''dlq'' = Inl ErrNoSuchQueue"
    by (simp_all add: GetQueue_def db6_def queue3_def queue1_def)
  show "queueNameFromARN (rp_target \<lparr>rp_target = ''a:dlq'', rp_max = 1\<rparr>) = Some ''dlq''"
    by (simp add: queueNameFromARN_def last_index_char_def)
  have "\<not> queueIsFIFO (q_attrs queue3)" by (simp add: queueIsFIFO_def attrTruthy_def queue3_def)
  then show "message1\<lparr>m_count := 1\<rparr> \<in> set (pending_rows db6 queue3 ''1'' ''q'' (max 1 10) (format_RFC3339 0))"
    by (simp add: pending_rows_def queue_rows_def visible_def db6_def message1_def)
qed (simp add: message1_def)

section \<open>Listing and the attribute column\<close>

theorem ListQueues_prefix_witness: "set (ListQueues db2 ''1'' ''Q'') = {queue1}"
proof -
  have p: "prefix (map char_lower ''Q'') (map char_lower ''q'')" by code_simp
  have q: "db_queues db2 = [queue1]" "q_account queue1 = ''1''" "q_name queue1 = ''q''"
    by (simp_all add: db2_def queue1_def)
  have one: "{q \<in> set [queue1]. q_account q = ''1'' \<and> P (q_name q)} = {queue1}" if "P ''q''" for P
    using that q by auto
  have "set (ListQueues db2 ''1'' ''Q'') =
      {q \<in> set (db_queues db2). q_account q = ''1'' \<and> prefix (map char_lower ''Q'') (map char_lower (q_name q))}"
    by (rule conjunct1 [OF ListQueues_prefix]) simp_all
  then show ?thesis unfolding q(1) using one [where P = "\<lambda>n. prefix (map char_lower ''Q'') (map char_lower n)", OF p] by (rule trans)
qed

theorem attributes_roundtrip_witness:
  "\<exists>kvs'. unmarshalJSONColumn (marshalJSONColumn [(''DelaySeconds'', [CHR 0x22, CHR ''<'', CHR 0x0A])]) = Some kvs' \<and>
     map_of kvs' ''DelaySeconds'' = Some [CHR 0x22, CHR ''<'', CHR 0x0A]"
proof -
  obtain kvs' where "unmarshalJSONColumn (marshalJSONColumn [(''DelaySeconds'', [CHR 0x22, CHR ''<'', CHR 0x0A])]) = Some kvs'"
    "map_of kvs' = map_of [(''DelaySeconds'', [CHR 0x22, CHR ''<'', CHR 0x0A])]"
    using attributes_roundtrip [of "[(''DelaySeconds'', [CHR 0x22, CHR ''<'', CHR 0x0A])]"]
    by (auto simp: valid_utf8_def coerce_utf8.simps utf8_len_ascii byte_of_def Let_def)
  then show ?thesis by simp
qed

end
