(* ===== verification/Scheduler.thy ===== *)
theory Scheduler
  imports Calendar
begin

text \<open>
  Schedule expressions, \<open>src/internal/store/scheduler_expr.go\<close>: \<open>rate(n unit)\<close>, \<open>at(time)\<close> and the six
  field \<open>cron(...)\<close>. The three regular expressions are written out as the scanners they amount to
  (white space is RE2's \<open>\s\<close>); a Go error is the \<open>Inl\<close> side. The search for the next fire time goes
  minute by minute to a limit of 730 days, so it is a recursion that ends.
\<close>

datatype sched_error =
    ExpressionRequired
  | InvalidAt
  | AtNotInFuture
  | UnsupportedExpression
  | InvalidRate
  | UnsupportedRateUnit
  | InvalidCronField nat
  | NoFireTime

section \<open>The scanners\<close>

definition re_space :: "char \<Rightarrow> bool" where
  "re_space c \<longleftrightarrow> c = CHR 0x20 \<or> c = CHR 0x09 \<or> c = CHR 0x0A \<or> c = CHR 0x0C \<or> c = CHR 0x0D"

definition strip_head :: "string \<Rightarrow> string \<Rightarrow> string option" where
  "strip_head head s =
     (if EqualFold (take (length head) s) head \<and> length head \<le> length s then Some (drop (length head) s) else None)"

definition rate_units :: "string list" where
  "rate_units = [''minute'', ''minutes'', ''hour'', ''hours'', ''day'', ''days'']"

text \<open>\<open>rate(\s*(\d+)\s+(unit)\s*)\<close>: the number's digits and the unit as written.\<close>

definition match_rate :: "string \<Rightarrow> (string \<times> string) option" where
  "match_rate s =
     do { s1 \<leftarrow> strip_head ''rate('' s;
          let s2 = dropWhile re_space s1;
              digits = takeWhile is_digit s2;
              s3 = dropWhile is_digit s2;
              s4 = dropWhile re_space s3;
              unit = takeWhile (\<lambda>c. \<not> re_space c \<and> c \<noteq> CHR '')'') s4;
              s5 = dropWhile re_space (drop (length unit) s4)
          in if digits \<noteq> [] \<and> s3 \<noteq> s4 \<and> (\<exists>name\<in>set rate_units. EqualFold unit name) \<and> s5 = '')''
             then Some (digits, unit) else None }"

definition at_shape :: "string \<Rightarrow> bool" where
  "at_shape t \<longleftrightarrow> length t = 19 \<and>
     list_all (\<lambda>i. is_digit (t ! i)) [0, 1, 2, 3, 5, 6, 8, 9, 11, 12, 14, 15, 17, 18] \<and>
     t ! 4 = CHR ''-'' \<and> t ! 7 = CHR ''-'' \<and> (t ! 10 = CHR ''T'' \<or> t ! 10 = CHR ''t'') \<and>
     t ! 13 = CHR '':'' \<and> t ! 16 = CHR '':''"

definition match_at :: "string \<Rightarrow> string option" where
  "match_at s =
     do { s1 \<leftarrow> strip_head ''at('' s;
          let s2 = dropWhile re_space s1; t = take 19 s2
          in if at_shape t \<and> dropWhile re_space (drop 19 s2) = '')'' then Some t else None }"

fun tokens :: "string \<Rightarrow> string list" where
  "tokens [] = []"
| "tokens (c # cs) =
     (if re_space c then tokens cs
      else (case cs of
              [] \<Rightarrow> [[c]]
            | d # _ \<Rightarrow>
                if re_space d then [c] # tokens cs
                else (case tokens cs of [] \<Rightarrow> [[c]] | t # ts \<Rightarrow> (c # t) # ts)))"

definition match_cron :: "string \<Rightarrow> string list option" where
  "match_cron s =
     do { s1 \<leftarrow> strip_head ''cron('' s;
          if s1 \<noteq> [] \<and> last s1 = CHR '')'' then
            (let ts = tokens (butlast s1) in if length ts = 6 then Some ts else None)
          else None }"

section \<open>Rates\<close>

definition ParseRateExpression :: "string \<Rightarrow> (int \<times> string) option" where
  "ParseRateExpression expression =
     (case match_rate (TrimSpace expression) of
        None \<Rightarrow> None
      | Some (digits, unit) \<Rightarrow>
          (case Atoi digits of
             None \<Rightarrow> None
           | Some n \<Rightarrow> if n < 1 then None else Some (n, ToLower unit)))"

text \<open>The product of \<open>time.Duration\<close>s wraps in 64 bits.\<close>

definition NextAfterRate :: "string \<Rightarrow> instant \<Rightarrow> (sched_error, instant) sum" where
  "NextAfterRate expression now =
     (case ParseRateExpression expression of
        None \<Rightarrow> Inl InvalidRate
      | Some (n, unit) \<Rightarrow>
          if unit = ''minute'' \<or> unit = ''minutes'' then Inr (now + wrap64 (n * ns_min))
          else if unit = ''hour'' \<or> unit = ''hours'' then Inr (now + wrap64 (n * ns_hour))
          else if unit = ''day'' \<or> unit = ''days'' then Inr (now + wrap64 (wrap64 (n * 24) * ns_hour))
          else Inl UnsupportedRateUnit)"

section \<open>Cron fields\<close>

type_synonym cron_names = "string \<Rightarrow> int option"

definition cronDOWNames :: cron_names where
  "cronDOWNames = map_of [(''SUN'', 1), (''MON'', 2), (''TUE'', 3), (''WED'', 4), (''THU'', 5), (''FRI'', 6), (''SAT'', 7)]"

definition cronMonthNames :: cron_names where
  "cronMonthNames = map_of [(''JAN'', 1), (''FEB'', 2), (''MAR'', 3), (''APR'', 4), (''MAY'', 5), (''JUN'', 6),
     (''JUL'', 7), (''AUG'', 8), (''SEP'', 9), (''OCT'', 10), (''NOV'', 11), (''DEC'', 12)]"

text \<open>A nil map of names is \<open>None\<close>.\<close>

definition parseCronNamedInt :: "string \<Rightarrow> int \<Rightarrow> int \<Rightarrow> cron_names option \<Rightarrow> int option" where
  "parseCronNamedInt tok mn mx names =
     (let tok = TrimSpace tok;
          named = (case names of None \<Rightarrow> None | Some f \<Rightarrow> f (ToUpper tok));
          n = (case named of Some n \<Rightarrow> Some n | None \<Rightarrow> Atoi tok)
      in case n of None \<Rightarrow> None | Some n \<Rightarrow> if n < mn \<or> mx < n then None else Some n)"

definition parseCronRangeNamed :: "string \<Rightarrow> int \<Rightarrow> int \<Rightarrow> cron_names option \<Rightarrow> (int \<times> int) option" where
  "parseCronRangeNamed rangePart mn mx names =
     (case index_char (CHR ''-'') rangePart of
        None \<Rightarrow> map_option (\<lambda>n. (n, n)) (parseCronNamedInt rangePart mn mx names)
      | Some dash \<Rightarrow>
          do { s \<leftarrow> parseCronNamedInt (take dash rangePart) mn mx names;
               e \<leftarrow> parseCronNamedInt (drop (dash + 1) rangePart) mn mx names;
               if s < mn \<or> mx < e \<or> e < s then None else Some (s, e) })"

text \<open>The range, the step, and whether there is a step.\<close>

definition splitCronStep :: "string \<Rightarrow> (string \<times> int \<times> bool) option" where
  "splitCronStep seg =
     (case index_char (CHR ''/'') seg of
        None \<Rightarrow> Some (seg, 0, False)
      | Some slash \<Rightarrow>
          (let rangePart = take slash seg; stepStr = drop (slash + 1) seg
           in if stepStr = [] then None
              else (case Atoi stepStr of
                      None \<Rightarrow> None
                    | Some step \<Rightarrow> Some (if rangePart = [] then ''*'' else rangePart, step, True))))"

definition validateCronSegment :: "string \<Rightarrow> int \<Rightarrow> int \<Rightarrow> bool \<Rightarrow> cron_names option \<Rightarrow> bool" where
  "validateCronSegment seg mn mx allowQ names =
     (if seg = ''*'' then True
      else if allowQ \<and> seg = ''?'' then True
      else if seg = [] then False
      else (case splitCronStep seg of
              None \<Rightarrow> False
            | Some (rangePart, step, hasStep) \<Rightarrow>
                if hasStep \<and> step < 1 then False
                else if rangePart = ''*'' then True
                else (case parseCronRangeNamed rangePart mn mx names of
                        None \<Rightarrow> False
                      | Some (s, e) \<Rightarrow>
                          (let e = (if hasStep \<and> CHR ''-'' \<notin> set rangePart then mx else e)
                           in \<not> (e < s \<or> mx < s)))))"

definition cronSegmentMatchesNamed :: "string \<Rightarrow> int \<Rightarrow> int \<Rightarrow> int \<Rightarrow> bool \<Rightarrow> cron_names option \<Rightarrow> bool" where
  "cronSegmentMatchesNamed seg v mn mx allowQ names =
     (if seg = ''*'' then True
      else if allowQ \<and> seg = ''?'' then True
      else if seg = [] then False
      else (case splitCronStep seg of
              None \<Rightarrow> False
            | Some (rangePart, step, hasStep) \<Rightarrow>
                if hasStep \<and> step < 1 then False
                else
                  (let step = (if hasStep then step else 1)
                   in if rangePart = ''*'' then \<not> (v < mn \<or> mx < v) \<and> (v - mn) mod step = 0
                      else (case parseCronRangeNamed rangePart mn mx names of
                              None \<Rightarrow> False
                            | Some (s, e) \<Rightarrow>
                                (let e = (if hasStep \<and> CHR ''-'' \<notin> set rangePart then mx else e)
                                 in if v < s \<or> e < v then False
                                    else if \<not> hasStep then True
                                    else (v - s) mod step = 0)))))"

definition validateCronNamedField :: "string \<Rightarrow> int \<Rightarrow> int \<Rightarrow> bool \<Rightarrow> cron_names option \<Rightarrow> bool" where
  "validateCronNamedField field mn mx allowQ names =
     (let field = TrimSpace field
      in field \<noteq> [] \<and>
         list_all (\<lambda>part. validateCronSegment (TrimSpace part) mn mx allowQ names) (Split field (CHR '','')))"

definition cronNamedFieldMatches :: "string \<Rightarrow> int \<Rightarrow> int \<Rightarrow> int \<Rightarrow> bool \<Rightarrow> cron_names option \<Rightarrow> bool" where
  "cronNamedFieldMatches field v mn mx allowQ names =
     (let field = TrimSpace field
      in field \<noteq> [] \<and>
         list_ex (\<lambda>part. cronSegmentMatchesNamed (TrimSpace part) v mn mx allowQ names) (Split field (CHR '','')))"

definition cronFieldMatches :: "string \<Rightarrow> int \<Rightarrow> int \<Rightarrow> int \<Rightarrow> bool \<Rightarrow> bool" where
  "cronFieldMatches field v mn mx allowQ =
     cronNamedFieldMatches field v mn mx allowQ (if mn = 1 \<and> mx = 12 then Some cronMonthNames else None)"

definition validateCronField :: "string \<Rightarrow> int \<Rightarrow> int \<Rightarrow> bool" where
  "validateCronField field mn mx =
     validateCronNamedField field mn mx False (if mn = 1 \<and> mx = 12 then Some cronMonthNames else None)"

section \<open>Days\<close>

definition isCronLastWeekdayOfMonthSegment :: "string \<Rightarrow> bool" where
  "isCronLastWeekdayOfMonthSegment seg = EqualFold (TrimSpace seg) ''LW''"

definition parseCronNearestWeekdayDay :: "string \<Rightarrow> int option" where
  "parseCronNearestWeekdayDay seg =
     (let seg = TrimSpace seg
      in if length seg < 2 then None
         else if \<not> EqualFold [last seg] ''W'' then None
         else if ContainsAny (butlast seg) ''-*/,?#'' then None
         else Atoi (butlast seg))"

definition isCronNearestWeekdaySegment :: "string \<Rightarrow> bool" where
  "isCronNearestWeekdaySegment seg = (parseCronNearestWeekdayDay seg \<noteq> None)"

definition validateCronDOMField :: "string \<Rightarrow> bool" where
  "validateCronDOMField field =
     (let field = TrimSpace field; parts = Split field (CHR '','')
      in field \<noteq> [] \<and>
         list_all (\<lambda>part.
           let seg = TrimSpace part
           in if isCronNearestWeekdaySegment seg \<or> isCronLastWeekdayOfMonthSegment seg then
                length parts \<le> 1 \<and>
                (isCronLastWeekdayOfMonthSegment seg \<or>
                 (case parseCronNearestWeekdayDay seg of None \<Rightarrow> False | Some day \<Rightarrow> 1 \<le> day \<and> day \<le> 31))
              else EqualFold seg ''L'' \<or> validateCronSegment seg 1 31 True None) parts)"

definition splitCronHash :: "string \<Rightarrow> (string \<times> int) option" where
  "splitCronHash seg =
     (case index_char (CHR ''#'') seg of
        None \<Rightarrow> None
      | Some h \<Rightarrow>
          if take h seg = [] \<or> drop (h + 1) seg = [] then None
          else map_option (Pair (take h seg)) (Atoi (drop (h + 1) seg)))"

definition validateCronHashSegment :: "string \<Rightarrow> bool" where
  "validateCronHashSegment seg =
     (case splitCronHash seg of
        None \<Rightarrow> False
      | Some (dowPart, occ) \<Rightarrow>
          1 \<le> occ \<and> occ \<le> 5 \<and> parseCronNamedInt dowPart 1 7 (Some cronDOWNames) \<noteq> None)"

definition isCronLastWeekdaySegment :: "string \<Rightarrow> bool" where
  "isCronLastWeekdaySegment seg =
     (let seg = ToUpper (TrimSpace seg)
      in if seg = ''L'' then True
         else if HasSuffix seg ''L'' \<and> CHR ''#'' \<notin> set seg
         then parseCronNamedInt (TrimSuffix seg ''L'') 1 7 (Some cronDOWNames) \<noteq> None
         else False)"

definition validateCronDOWField :: "string \<Rightarrow> bool" where
  "validateCronDOWField field =
     (let field = TrimSpace field; parts = Split field (CHR '','');
          hashCount = length (filter (\<lambda>part. CHR ''#'' \<in> set (TrimSpace part)) parts)
      in field \<noteq> [] \<and>
         list_all (\<lambda>part.
           let seg = TrimSpace part
           in if CHR ''#'' \<in> set seg then validateCronHashSegment seg
              else isCronLastWeekdaySegment seg \<or> validateCronSegment seg 1 7 True (Some cronDOWNames)) parts \<and>
         hashCount \<le> 1 \<and> \<not> (0 < hashCount \<and> 1 < length parts))"

definition lastDayOfMonth :: "instant \<Rightarrow> int" where
  "lastDayOfMonth t = Day (Date (Year t) (Month t + 1) 0 0 0 0 0)"

definition awsDow :: "instant \<Rightarrow> int" where
  "awsDow t = Weekday t + 1"

definition weekend :: "instant \<Rightarrow> bool" where
  "weekend t \<longleftrightarrow> Weekday t = 6 \<or> Weekday t = 0"

definition nearestWeekdayOfMonth :: "int \<Rightarrow> int \<Rightarrow> int \<Rightarrow> instant" where
  "nearestWeekdayOfMonth y m day =
     (let lastday = lastDayOfMonth (Date y m 1 0 0 0 0);
          day = (if lastday < day then lastday else day);
          day = (if day < 1 then 1 else day);
          d = Date y m day 0 0 0 0
      in if Weekday d = 6 then
           (let prev = AddDate d 0 0 (- 1)
            in if Month prev \<noteq> Month d then AddDate d 0 0 2 else prev)
         else if Weekday d = 0 then
           (let nxt = AddDate d 0 0 1
            in if Month nxt \<noteq> Month d then AddDate d 0 0 (- 2) else nxt)
         else d)"

lemma AddDate_days: "AddDate t 0 0 k = t + k * ns_day"
proof -
  have m: "1 \<le> Month t" "Month t \<le> 12" using Month_Day_range by auto
  then have "(Month t - 1) div 12 = 0" "(Month t - 1) mod 12 + 1 = Month t" by auto
  then have "AddDate t 0 0 k = (days_of_civil (Year t) (Month t) 1 + (Day t + k - 1)) * ns_day + t mod ns_day"
    by (simp add: AddDate_def Date_def)
  also have "days_of_civil (Year t) (Month t) 1 + (Day t + k - 1) = day_number t + k"
    using days_of_fields [of t] days_of_civil_shift [of "Year t" "Month t" "Day t"] by simp
  finally show ?thesis by (simp add: day_number_def algebra_simps)
qed

lemma day_number_add [simp]: "day_number (t + k * ns_day) = day_number t + k"
proof -
  have "ns_day \<noteq> 0" by (simp add: time_simps)
  then show ?thesis by (simp add: day_number_def)
qed

lemma Weekday_add: "Weekday (t + k * ns_day) = (Weekday t + k) mod 7"
proof -
  have "(Weekday t + k) mod 7 = (day_number t + 4 + k) mod 7" by (simp add: Weekday_def mod_add_left_eq)
  then show ?thesis by (simp add: Weekday_def [of "t + k * ns_day"] add.assoc add.commute [of k])
qed

text \<open>The loop that steps back over the weekend: at most two steps.\<close>

function back_to_weekday :: "instant \<Rightarrow> instant" where
  "back_to_weekday d = (if weekend d then back_to_weekday (AddDate d 0 0 (- 1)) else d)"
  by pat_completeness auto
termination
  by (relation "measure (\<lambda>d. nat ((Weekday d + 2) mod 7))")
    (auto simp: weekend_def AddDate_days Weekday_add [of _ "- 1", simplified])

declare back_to_weekday.simps [simp del]

definition lastWeekdayOfMonth :: "instant \<Rightarrow> instant" where
  "lastWeekdayOfMonth t = back_to_weekday (Date (Year t) (Month t) (lastDayOfMonth t) 0 0 0 0)"

definition same_date :: "instant \<Rightarrow> instant \<Rightarrow> bool" where
  "same_date s t \<longleftrightarrow> Year s = Year t \<and> Month s = Month t \<and> Day s = Day t"

definition cronDOMMatches :: "string \<Rightarrow> instant \<Rightarrow> bool" where
  "cronDOMMatches domf t =
     (let domf = TrimSpace domf
      in domf \<noteq> [] \<and>
         list_ex (\<lambda>part.
           let seg = TrimSpace part
           in if isCronLastWeekdayOfMonthSegment seg then same_date t (lastWeekdayOfMonth t)
              else (case parseCronNearestWeekdayDay seg of
                      Some day \<Rightarrow> same_date t (nearestWeekdayOfMonth (Year t) (Month t) day)
                    | None \<Rightarrow>
                        if EqualFold seg ''L'' then Day t = lastDayOfMonth t
                        else cronSegmentMatchesNamed seg (Day t) 1 31 True None)) (Split domf (CHR '','')))"

definition isNthWeekdayOfMonth :: "instant \<Rightarrow> int \<Rightarrow> int \<Rightarrow> bool" where
  "isNthWeekdayOfMonth t want occ \<longleftrightarrow> awsDow t = want \<and> (Day t - 1) div 7 + 1 = occ"

definition isLastWeekdayOfMonth :: "instant \<Rightarrow> int \<Rightarrow> bool" where
  "isLastWeekdayOfMonth t want \<longleftrightarrow> awsDow t = want \<and> Month (AddDate t 0 0 7) \<noteq> Month t"

definition cronDOWMatches :: "string \<Rightarrow> instant \<Rightarrow> bool" where
  "cronDOWMatches dowf t =
     (let dowf = TrimSpace dowf
      in if dowf = [] then False
         else if CHR ''#'' \<in> set dowf then
           (case splitCronHash dowf of
              None \<Rightarrow> False
            | Some (dowPart, occ) \<Rightarrow>
                (case parseCronNamedInt dowPart 1 7 (Some cronDOWNames) of
                   None \<Rightarrow> False
                 | Some want \<Rightarrow> isNthWeekdayOfMonth t want occ))
         else list_ex (\<lambda>part.
           let seg = TrimSpace part; upper = ToUpper seg
           in if upper = ''L'' then awsDow t = 7
              else if HasSuffix upper ''L'' then
                (case parseCronNamedInt (TrimSuffix upper ''L'') 1 7 (Some cronDOWNames) of
                   None \<Rightarrow> False
                 | Some want \<Rightarrow> isLastWeekdayOfMonth t want)
              else cronSegmentMatchesNamed seg (awsDow t) 1 7 True (Some cronDOWNames)) (Split dowf (CHR '','')))"

definition cronDayMatches :: "string \<Rightarrow> string \<Rightarrow> instant \<Rightarrow> bool" where
  "cronDayMatches domf dowf t =
     (let domf = TrimSpace domf; dowf = TrimSpace dowf;
          domStarOrQ = (domf = ''*'' \<or> domf = ''?''); dowStarOrQ = (dowf = ''*'' \<or> dowf = ''?'');
          domOK = cronDOMMatches domf t; dowOK = cronDOWMatches dowf t
      in if domf = ''?'' \<and> dowf \<noteq> ''?'' then dowOK
         else if dowf = ''?'' \<and> domf \<noteq> ''?'' then domOK
         else if domStarOrQ \<and> dowStarOrQ then True
         else if \<not> domStarOrQ \<and> dowStarOrQ then domOK
         else if domStarOrQ \<and> \<not> dowStarOrQ then dowOK
         else domOK \<or> dowOK)"

section \<open>The search\<close>

function cron_search :: "(instant \<Rightarrow> bool) \<Rightarrow> instant \<Rightarrow> instant \<Rightarrow> instant option" where
  "cron_search ok limit t =
     (if limit < t then None
      else if ok t then Some t
      else cron_search ok limit (t + ns_min))"
  by pat_completeness auto
termination
  by (relation "measure (\<lambda>(ok, limit, t). nat (limit + 1 - t))") (auto simp: time_simps)

declare cron_search.simps [simp del]

definition cron_window :: int where "cron_window = 730 * 24 * ns_hour"

definition cron_matches :: "string list \<Rightarrow> instant \<Rightarrow> bool" where
  "cron_matches fs t \<longleftrightarrow>
     cronFieldMatches (fs ! 0) (Minute t) 0 59 False \<and>
     cronFieldMatches (fs ! 1) (Hour t) 0 23 False \<and>
     cronNamedFieldMatches (fs ! 3) (Month t) 1 12 False (Some cronMonthNames) \<and>
     cronFieldMatches (fs ! 5) (Year t) 1970 2199 False \<and>
     cronDayMatches (fs ! 2) (fs ! 4) t"

text \<open>The fields in the order of the expression: minutes, hours, day of month, month, day of week, year.\<close>

definition nextCronRun :: "instant \<Rightarrow> string list \<Rightarrow> (sched_error, instant) sum" where
  "nextCronRun now fs =
     (if \<not> validateCronField (fs ! 0) 0 59 then Inl (InvalidCronField 0)
      else if \<not> validateCronField (fs ! 1) 0 23 then Inl (InvalidCronField 1)
      else if \<not> validateCronDOMField (fs ! 2) then Inl (InvalidCronField 2)
      else if \<not> validateCronNamedField (fs ! 3) 1 12 False (Some cronMonthNames) then Inl (InvalidCronField 3)
      else if \<not> validateCronDOWField (fs ! 4) then Inl (InvalidCronField 4)
      else if \<not> validateCronField (fs ! 5) 1970 2199 then Inl (InvalidCronField 5)
      else (case cron_search (cron_matches fs) (now + cron_window) (Truncate now ns_min + ns_min) of
              None \<Rightarrow> Inl NoFireTime
            | Some t \<Rightarrow> Inr t))"

definition NextScheduleRun :: "string \<Rightarrow> instant \<Rightarrow> (sched_error, instant) sum" where
  "NextScheduleRun expression now =
     (let expression = TrimSpace expression
      in if expression = [] then Inl ExpressionRequired
         else if ParseRateExpression expression \<noteq> None then NextAfterRate expression now
         else (case match_at expression of
                 Some s \<Rightarrow>
                   (case parse_local s of
                      None \<Rightarrow> Inl InvalidAt
                    | Some t \<Rightarrow> if t \<le> now then Inl AtNotInFuture else Inr t)
               | None \<Rightarrow>
                   (case match_cron expression of
                      Some fs \<Rightarrow> nextCronRun now fs
                    | None \<Rightarrow> Inl UnsupportedExpression)))"

end
