(* ===== verification/Scheduler_Props.thy ===== *)
theory Scheduler_Props
  imports Scheduler
begin

text \<open>
  What the schedule expressions compute: the cron search returns the earliest matching minute, the
  weekday rules of a month, and rates with their 64-bit overflow.
\<close>

section \<open>The search\<close>

definition earliest_match :: "(instant \<Rightarrow> bool) \<Rightarrow> instant \<Rightarrow> instant \<Rightarrow> bool" where
  "earliest_match ok now t \<longleftrightarrow>
     now < t \<and> t \<le> now + cron_window \<and> t mod ns_min = 0 \<and> ok t \<and>
     (\<forall>t'. now < t' \<and> t' < t \<and> t' mod ns_min = 0 \<longrightarrow> \<not> ok t')"

definition cron_valid :: "string list \<Rightarrow> bool" where
  "cron_valid fs \<longleftrightarrow>
     validateCronField (fs ! 0) 0 59 \<and> validateCronField (fs ! 1) 0 23 \<and> validateCronDOMField (fs ! 2) \<and>
     validateCronNamedField (fs ! 3) 1 12 False (Some cronMonthNames) \<and> validateCronDOWField (fs ! 4) \<and>
     validateCronField (fs ! 5) 1970 2199"

lemma cron_search_iff:
  assumes "t0 mod ns_min = 0"
  shows "cron_search ok limit t0 = Some t \<longleftrightarrow>
    t0 \<le> t \<and> t \<le> limit \<and> t mod ns_min = 0 \<and> ok t \<and>
    (\<forall>t'. t0 \<le> t' \<and> t' < t \<and> t' mod ns_min = 0 \<longrightarrow> \<not> ok t')"
  using assms
proof (induction ok limit t0 rule: cron_search.induct)
  case (1 ok limit t0)
  have step: "t0 + ns_min \<le> t' \<longleftrightarrow> t0 \<le> t' \<and> t' \<noteq> t0" if "t' mod ns_min = 0" for t'
  proof
    assume "t0 \<le> t' \<and> t' \<noteq> t0"
    moreover have "ns_min dvd t' - t0" using that 1(2) by (simp add: mod_eq_dvd_iff flip: mod_eq_dvd_iff)
    then obtain k where "t' - t0 = ns_min * k" by auto
    ultimately have "1 \<le> k" by (auto simp: time_simps)
    then show "t0 + ns_min \<le> t'" using \<open>t' - t0 = ns_min * k\<close> by (simp add: time_simps)
  qed (auto simp: time_simps)
  show ?case
  proof (cases "limit < t0 \<or> ok t0")
    case True
    then show ?thesis using 1(2) by (auto simp: cron_search.simps [of ok limit t0] intro: order_antisym)
  next
    case False
    then have "cron_search ok limit t0 = cron_search ok limit (t0 + ns_min)"
      by (simp add: cron_search.simps [of ok limit t0])
    moreover have "(t0 + ns_min) mod ns_min = 0" using 1(2) by simp
    ultimately have IH: "cron_search ok limit t0 = Some t \<longleftrightarrow>
        t0 + ns_min \<le> t \<and> t \<le> limit \<and> t mod ns_min = 0 \<and> ok t \<and>
        (\<forall>t'. t0 + ns_min \<le> t' \<and> t' < t \<and> t' mod ns_min = 0 \<longrightarrow> \<not> ok t')"
      using 1(1) False by simp
    have all: "(\<forall>t'. t0 + ns_min \<le> t' \<and> t' < t \<and> t' mod ns_min = 0 \<longrightarrow> \<not> ok t') \<longleftrightarrow>
        (\<forall>t'. t0 \<le> t' \<and> t' < t \<and> t' mod ns_min = 0 \<longrightarrow> \<not> ok t')"
      using step False by (metis (no_types, lifting))
    show ?thesis
    proof (cases "t mod ns_min = 0 \<and> ok t")
      case True
      then have "t0 + ns_min \<le> t \<longleftrightarrow> t0 \<le> t" using step [of t] False by auto
      then show ?thesis unfolding IH all by (rule arg_cong)
    next
      case F: False
      then have "t mod ns_min \<noteq> 0 \<or> \<not> ok t" by (simp only: de_Morgan_conj simp_thms)
      then show ?thesis by (elim disjE) (simp_all add: IH)
    qed
  qed
qed

lemma next_minute: "(Truncate now ns_min + ns_min) mod ns_min = 0"
  by (simp add: Truncate_def mod_simps)

lemma after_now: "t mod ns_min = 0 \<Longrightarrow> Truncate now ns_min + ns_min \<le> t \<longleftrightarrow> now < t"
proof -
  assume t: "t mod ns_min = 0"
  have b: "0 \<le> now mod ns_min" "now mod ns_min < ns_min" by simp_all
  have "ns_min dvd t" using t by auto
  then obtain k where k: "t = ns_min * k" by auto
  have n: "now = ns_min * (now div ns_min) + now mod ns_min" by simp
  have "Truncate now ns_min + ns_min \<le> t \<longleftrightarrow> ns_min * (now div ns_min + 1) \<le> ns_min * k"
    using n by (simp only: Truncate_def k distrib_left mult_1_right) linarith
  also have "\<dots> \<longleftrightarrow> now div ns_min + 1 \<le> k" by (rule mult_le_cancel_left_pos) simp
  also have "\<dots> \<longleftrightarrow> now div ns_min < k" by auto
  also have "\<dots> \<longleftrightarrow> now < t"
  proof
    assume "now div ns_min < k"
    then have "ns_min * (now div ns_min) + ns_min \<le> ns_min * k" by (simp add: time_simps)
    then show "now < t" using n b k by linarith
  next
    assume "now < t"
    then have "ns_min * (now div ns_min) < ns_min * k" using n b k by linarith
    then show "now div ns_min < k" by (simp add: time_simps)
  qed
  finally show ?thesis .
qed

lemma cron_search_earliest:
  "cron_search ok (now + cron_window) (Truncate now ns_min + ns_min) = Some t \<longleftrightarrow> earliest_match ok now t"
  unfolding cron_search_iff [OF next_minute] earliest_match_def using after_now by (metis (no_types, lifting))

text \<open>C35. The cron search is exact: it returns a time exactly when all six fields are valid, and then the
  earliest full minute after \<open>now\<close>, within 730 days, that the fields match. It always ends.\<close>

theorem nextCronRun_spec:
  "nextCronRun now fs = Inr t \<longleftrightarrow> cron_valid fs \<and> earliest_match (cron_matches fs) now t"
  using cron_search_earliest [of "cron_matches fs" now t]
  by (auto simp: nextCronRun_def cron_valid_def split: option.splits)

section \<open>Months\<close>

lemma in_month:
  assumes m: "1 \<le> m" "m \<le> 12"
  shows "Year t = y \<and> Month t = m \<longleftrightarrow>
    days_of_civil y m 1 \<le> day_number t \<and> day_number t \<le> days_of_civil y m (days_in y m)"
proof
  assume "Year t = y \<and> Month t = m"
  then show "days_of_civil y m 1 \<le> day_number t \<and> day_number t \<le> days_of_civil y m (days_in y m)"
    using days_of_fields [of t] Month_Day_range [of t] days_of_civil_shift [of y m "Day t"]
      days_of_civil_shift [of y m "days_in y m"] by (auto simp: valid_date_def)
next
  assume r: "days_of_civil y m 1 \<le> day_number t \<and> day_number t \<le> days_of_civil y m (days_in y m)"
  define d where "d = day_number t - days_of_civil y m 1 + 1"
  have "valid_date y m d" using r m days_of_civil_shift [of y m "days_in y m"] by (simp add: valid_date_def d_def)
  moreover have "days_of_civil y m d = day_number t" using days_of_civil_shift [of y m d] by (simp add: d_def)
  ultimately have "civil_of_days (day_number t) = (y, m, d)" using civil_of_days_of_civil by metis
  then show "Year t = y \<and> Month t = m" by (simp add: Year_def Month_def)
qed

lemma day_number_midnight: "1 \<le> m \<Longrightarrow> m \<le> 12 \<Longrightarrow> day_number (Date y m d 0 0 0 0) = days_of_civil y m d"
  by (rule day_number_Date [where r = 0]) simp_all

lemma lastDayOfMonth_days_in: "lastDayOfMonth t = days_in (Year t) (Month t)"
proof -
  let ?y = "Year t" and ?m = "Month t"
  have m: "1 \<le> ?m" "?m \<le> 12" using Month_Day_range by auto
  have "?m div 12 = (if ?m = 12 then 1 else 0) \<and> ?m mod 12 + 1 = (if ?m = 12 then 1 else ?m + 1)"
    using m by (auto simp: div_pos_pos_trivial mod_pos_pos_trivial)
  then have "Date ?y (?m + 1) 0 0 0 0 0 =
      (days_of_civil (if ?m = 12 then ?y + 1 else ?y) (if ?m = 12 then 1 else ?m + 1) 1 - 1) * ns_day"
    by (simp add: Date_def)
  then have d: "Date ?y (?m + 1) 0 0 0 0 0 = days_of_civil ?y ?m (days_in ?y ?m) * ns_day"
    using next_month [OF m, of ?y] by simp
  have "ns_day \<noteq> 0" by (simp add: time_simps)
  then have "day_number (Date ?y (?m + 1) 0 0 0 0 0) = days_of_civil ?y ?m (days_in ?y ?m)"
    by (simp add: d day_number_def)
  moreover have "valid_date ?y ?m (days_in ?y ?m)" using m days_in_pos [of ?y ?m] by (simp add: valid_date_def)
  ultimately show ?thesis by (simp add: lastDayOfMonth_def Day_def civil_of_days_of_civil)
qed

lemma Month_diff:
  assumes "1 \<le> m" "m \<le> 12" "Year d = y" "Month d = m" "\<bar>k\<bar> \<le> 2"
  shows "Month (d + k * ns_day) = m \<longleftrightarrow>
    days_of_civil y m 1 \<le> day_number d + k \<and> day_number d + k \<le> days_of_civil y m (days_in y m)"
proof
  assume "days_of_civil y m 1 \<le> day_number d + k \<and> day_number d + k \<le> days_of_civil y m (days_in y m)"
  then show "Month (d + k * ns_day) = m" using in_month [OF assms(1,2), of "d + k * ns_day" y] by simp
next
  assume M: "Month (d + k * ns_day) = m"
  let ?y = "Year (d + k * ns_day)"
  have i: "days_of_civil ?y m 1 \<le> day_number d + k \<and> day_number d + k \<le> days_of_civil ?y m (days_in ?y m)"
    using in_month [OF assms(1,2), of "d + k * ns_day" ?y] M by simp
  have j: "days_of_civil y m 1 \<le> day_number d \<and> day_number d \<le> days_of_civil y m (days_in y m)"
    using in_month [OF assms(1,2), of d y] assms(3,4) by simp
  have start: "days_of_civil z m 1 = month_start (12 * z + m - 1)" for z using month_start_of assms(1,2) by simp
  have far: "days_of_civil z m (days_in z m) + 28 < days_of_civil w m 1" if "z < w" for z w
  proof -
    let ?k = "12 * z + m - 1"
    have "month_start (?k + 2) \<le> month_start (12 * w + m - 1)" using that by (intro month_start_mono) simp
    moreover have "month_start (?k + 2) = month_start (?k + 1 + 1)" by (simp add: algebra_simps)
    moreover have "28 \<le> days_in ((?k + 1) div 12) ((?k + 1) mod 12 + 1)" by (rule days_in_pos)
    ultimately have "month_start (?k + 1) + 28 \<le> days_of_civil w m 1"
      using month_start_step [of "?k + 1"] start [of w] by simp
    moreover have "?k div 12 = z" "?k mod 12 + 1 = m" using assms(1,2) by presburger+
    then have "month_start (?k + 1) = days_of_civil z m 1 + days_in z m" using month_start_step [of ?k] start [of z] by simp
    ultimately show ?thesis using days_of_civil_shift [of z m "days_in z m"] by simp
  qed
  have "?y = y" using far [of ?y y] far [of y ?y] i j assms(5) by (cases ?y y rule: linorder_cases) auto
  then show "days_of_civil y m 1 \<le> day_number d + k \<and> day_number d + k \<le> days_of_civil y m (days_in y m)"
    using i by simp
qed

lemma weekend_number: "weekend t \<longleftrightarrow> (day_number t + 4) mod 7 = 6 \<or> (day_number t + 4) mod 7 = 0"
  by (simp add: weekend_def Weekday_def)

definition clamp_day :: "int \<Rightarrow> int \<Rightarrow> int \<Rightarrow> int" where
  "clamp_day y m day = max 1 (min day (days_in y m))"

lemma nearest_arith:
  fixes n F L x :: int
  assumes "F \<le> n" "n \<le> L" "F + 27 \<le> L"
    and "m = (if (n + 4) mod 7 = 6 then (if F \<le> n - 1 then n - 1 else n + 2)
      else if (n + 4) mod 7 = 0 then (if n + 1 \<le> L then n + 1 else n - 2) else n)"
  shows "F \<le> m \<and> m \<le> L \<and> (m + 4) mod 7 \<noteq> 6 \<and> (m + 4) mod 7 \<noteq> 0"
    and "F \<le> x \<Longrightarrow> x \<le> L \<Longrightarrow> (x + 4) mod 7 \<noteq> 6 \<Longrightarrow> (x + 4) mod 7 \<noteq> 0 \<Longrightarrow> \<bar>m - n\<bar> \<le> \<bar>x - n\<bar>"
proof -
  show "F \<le> m \<and> m \<le> L \<and> (m + 4) mod 7 \<noteq> 6 \<and> (m + 4) mod 7 \<noteq> 0"
  proof -
    have s: "(m + 4) mod 7 = ((n + 4) mod 7 + (m - n)) mod 7" by (simp add: mod_simps add.commute)
    consider "(n + 4) mod 7 = 6" "F \<le> n - 1" | "(n + 4) mod 7 = 6" "\<not> F \<le> n - 1"
      | "(n + 4) mod 7 = 0" "n + 1 \<le> L" | "(n + 4) mod 7 = 0" "\<not> n + 1 \<le> L"
      | "(n + 4) mod 7 \<noteq> 6" "(n + 4) mod 7 \<noteq> 0" by blast
    then show ?thesis using assms unfolding s by cases auto
  qed
next
  assume x: "F \<le> x" "x \<le> L" "(x + 4) mod 7 \<noteq> 6" "(x + 4) mod 7 \<noteq> 0"
  consider "x = n" | "x = n + 1" | "x = n - 1" | "2 \<le> \<bar>x - n\<bar>" by linarith
  then show "\<bar>m - n\<bar> \<le> \<bar>x - n\<bar>"
  proof cases
    case 4
    have "\<bar>m - n\<bar> \<le> 2" using assms(4) by (simp split: if_splits)
    then show ?thesis using 4 by linarith
  next
    case 1
    then show ?thesis using x assms by simp
  next
    case 2
    have "(n + 4) mod 7 \<noteq> 6" using x(3,4) 2 by presburger
    then have "\<bar>m - n\<bar> \<le> 1" using assms(4) x(2) 2 by (simp split: if_splits)
    then show ?thesis using 2 by simp
  next
    case 3
    have "(n + 4) mod 7 \<noteq> 0" using x(3,4) 3 by presburger
    then have "\<bar>m - n\<bar> \<le> 1" using assms(4) x(1) 3 by (simp split: if_splits)
    then show ?thesis using 3 by simp
  qed
qed

text \<open>The nearest weekday (\<open>nW\<close>): for every year, month and day number the result is a Monday to Friday of
  that month, and no other Monday to Friday of the month is closer to the day (taken into the month).\<close>

theorem nearestWeekday_nearest:
  assumes m: "1 \<le> m" "m \<le> 12"
  shows "let d = nearestWeekdayOfMonth y m day in
    Year d = y \<and> Month d = m \<and> \<not> weekend d \<and>
    (\<forall>e. Year e = y \<and> Month e = m \<and> \<not> weekend e \<longrightarrow>
       \<bar>day_number d - days_of_civil y m (clamp_day y m day)\<bar> \<le>
       \<bar>day_number e - days_of_civil y m (clamp_day y m day)\<bar>)"
proof -
  let ?c = "clamp_day y m day"
  define d0 where "d0 = Date y m ?c 0 0 0 0"
  define F where "F = days_of_civil y m 1"
  define L where "L = days_of_civil y m (days_in y m)"
  define n where "n = day_number d0"
  have c: "1 \<le> ?c" "?c \<le> days_in y m" using days_in_pos [of y m] by (auto simp: clamp_day_def)
  have n: "n = days_of_civil y m ?c" unfolding n_def d0_def by (rule day_number_midnight [OF m])
  have FL: "F \<le> n" "n \<le> L" "F + 27 \<le> L"
    using c days_of_civil_shift [of y m ?c] days_of_civil_shift [of y m "days_in y m"] days_in_pos [of y m]
    by (auto simp: n F_def L_def)
  have inm: "Year t = y \<and> Month t = m \<longleftrightarrow> F \<le> day_number t \<and> day_number t \<le> L" for t
    unfolding F_def L_def by (rule in_month [OF m])
  have d0: "Year d0 = y" "Month d0 = m" using inm [of d0] FL by (auto simp: n_def)
  have Mk: "Month (d0 + k * ns_day) = m \<longleftrightarrow> F \<le> n + k \<and> n + k \<le> L" if "\<bar>k\<bar> \<le> 2" for k
    unfolding F_def L_def n_def by (rule Month_diff [OF m d0 that])
  have last: "lastDayOfMonth (Date y m 1 0 0 0 0) = days_in y m"
    using Date_fields [OF valid_date_month_start [OF m]] by (simp add: lastDayOfMonth_days_in)
  have dd: "Date y m (let day = if days_in y m < day then days_in y m else day in if day < 1 then 1 else day) 0 0 0 0 = d0"
    using days_in_pos [of y m] by (auto simp: d0_def clamp_day_def Let_def intro: arg_cong)
  define d where "d = nearestWeekdayOfMonth y m day"
  have d: "d = (if Weekday d0 = 6 then (if F \<le> n - 1 then d0 + (- 1) * ns_day else d0 + 2 * ns_day)
      else if Weekday d0 = 0 then (if n + 1 \<le> L then d0 + 1 * ns_day else d0 + (- 2) * ns_day) else d0)"
    using Mk [of "- 1"] Mk [of 1] FL d0 dd
    by (simp add: d_def nearestWeekdayOfMonth_def last Let_def AddDate_days)
  have num: "day_number d = (if (n + 4) mod 7 = 6 then (if F \<le> n - 1 then n - 1 else n + 2)
      else if (n + 4) mod 7 = 0 then (if n + 1 \<le> L then n + 1 else n - 2) else n)"
    unfolding d using day_number_add [of d0 1] day_number_add [of d0 "- 1"] day_number_add [of d0 "- 2"]
    by (simp add: Weekday_def n_def)
  show ?thesis
    unfolding Let_def d_def [symmetric] n [symmetric] conj_assoc [symmetric] inm weekend_number
    using nearest_arith(1) [OF FL num] nearest_arith(2) [OF FL num] by auto
qed

section \<open>Fields that are one number, and the star\<close>

lemma digits_trim: assumes "s \<noteq> []" "\<forall>c\<in>set s. is_digit c" shows "TrimSpace s = s"
proof -
  obtain c cs where s: "s = c # cs" using assms(1) by (cases s) auto
  have g: "graphic d" if "is_digit d" for d using that by (auto simp: is_digit_def graphic_def less_eq_char_def)
  have "last s \<in> set s" using assms(1) by simp
  then show ?thesis using TrimSpace_graphic [of c cs] g assms s by auto
qed

lemma ToUpper_digits: "\<forall>c\<in>set s. is_digit c \<Longrightarrow> ToUpper s = s"
proof (induction s rule: ToUpper.induct)
  case (1 a b cs)
  then have "is_digit a" by simp
  then have "a \<noteq> CHR 0xC5" "a \<noteq> CHR 0xC4" "char_upper a = a"
    by (auto simp: is_digit_def less_eq_char_def char_upper_def)
  then show ?case using 1 by simp
qed (auto simp: is_digit_def less_eq_char_def char_upper_def)

lemma digit_field:
  assumes "int n \<le> mx" "mn \<le> int n" "mx < 2 ^ 63"
    and names: "\<And>f. names = Some f \<Longrightarrow> f (nat_digits n) = None"
  shows "cronNamedFieldMatches (nat_digits n) v mn mx allowQ names \<longleftrightarrow> v = int n"
    and "validateCronNamedField (nat_digits n) mn mx allowQ names"
    and "cronSegmentMatchesNamed (nat_digits n) v mn mx allowQ names \<longleftrightarrow> v = int n"
    and "validateCronSegment (nat_digits n) mn mx allowQ names"
proof -
  let ?s = "nat_digits n"
  have d: "\<forall>c\<in>set ?s. is_digit c" using nat_digits_are_digits by blast
  have nd: "c \<notin> set ?s" if "\<not> is_digit c" for c using d that by blast
  have t: "TrimSpace ?s = ?s" by (rule digits_trim) (simp_all add: d)
  have sep: "CHR '','' \<notin> set ?s" "CHR ''/'' \<notin> set ?s" "CHR ''-'' \<notin> set ?s" "CHR ''*'' \<notin> set ?s" "CHR ''?'' \<notin> set ?s"
    by (rule nd; simp add: is_digit_def)+
  have ne: "?s \<noteq> ''*''" "?s \<noteq> ''?''" using sep(4,5) by force+
  have "n < 2 ^ 63" using assms(1,3) by simp
  then have p: "parseCronNamedInt ?s mn mx names = Some (int n)"
    using assms(1,2) names
    by (auto simp: parseCronNamedInt_def t ToUpper_digits [OF d] Atoi_nat_digits Let_def split: option.splits)
  then show "cronNamedFieldMatches ?s v mn mx allowQ names \<longleftrightarrow> v = int n"
    and "validateCronNamedField ?s mn mx allowQ names"
    and "cronSegmentMatchesNamed ?s v mn mx allowQ names \<longleftrightarrow> v = int n"
    and "validateCronSegment ?s mn mx allowQ names"
    using assms(1) by (auto simp: cronNamedFieldMatches_def validateCronNamedField_def t Split_single sep cronSegmentMatchesNamed_def
      validateCronSegment_def splitCronStep_def parseCronRangeNamed_def index_char_None ne)
qed

lemma month_name_digits: "cronMonthNames (nat_digits n) = None"
proof -
  have d: "\<forall>c\<in>set (nat_digits n). is_digit c" using nat_digits_are_digits by blast
  show ?thesis
    unfolding cronMonthNames_def map_of_eq_None_iff
  proof
    assume "nat_digits n \<in> fst ` set [(''JAN'', 1::int), (''FEB'', 2), (''MAR'', 3), (''APR'', 4), (''MAY'', 5), (''JUN'', 6),
     (''JUL'', 7), (''AUG'', 8), (''SEP'', 9), (''OCT'', 10), (''NOV'', 11), (''DEC'', 12)]"
    then show False using d by (auto simp: is_digit_def)
  qed
qed

lemma star_field: "cronNamedFieldMatches ''*'' v mn mx q names" "validateCronNamedField ''*'' mn mx q names"
proof -
  have "TrimSpace ''*'' = ''*''" by (rule TrimSpace_graphic) (simp_all add: graphic_def)
  then show "cronNamedFieldMatches ''*'' v mn mx q names" "validateCronNamedField ''*'' mn mx q names"
    by (simp_all add: cronNamedFieldMatches_def validateCronNamedField_def cronSegmentMatchesNamed_def validateCronSegment_def)
qed

section \<open>Daily schedules fire\<close>

lemma cron_search_total:
  assumes "t0 mod ns_min = 0" "t0 \<le> t'" "t' \<le> limit" "t' mod ns_min = 0" "ok t'"
  shows "\<exists>t. cron_search ok limit t0 = Some t \<and> t \<le> t'"
  using assms
proof (induction ok limit t0 rule: cron_search.induct)
  case (1 ok limit t0)
  show ?case
  proof (cases "ok t0")
    case True
    then show ?thesis using 1 by (simp add: cron_search.simps [of ok limit t0])
  next
    case False
    then have "t0 < t'" using 1 by (metis order_le_less)
    moreover have "ns_min dvd t' - t0" using 1(2,5) by (metis mod_eq_dvd_iff)
    then obtain k where "t' - t0 = ns_min * k" by auto
    ultimately have "1 \<le> k" by (auto simp: time_simps)
    then have "t0 + ns_min \<le> t'" using \<open>t' - t0 = ns_min * k\<close> by (simp add: time_simps)
    moreover have "(t0 + ns_min) mod ns_min = 0" using 1(2) by simp
    ultimately show ?thesis using 1 False by (simp add: cron_search.simps [of ok limit t0])
  qed
qed

lemma nextCronRun_fires:
  assumes "cron_valid fs" "cron_matches fs t'" "now < t'" "t' \<le> now + cron_window" "t' mod ns_min = 0"
  shows "\<exists>t. nextCronRun now fs = Inr t \<and> earliest_match (cron_matches fs) now t \<and> t \<le> t'"
proof -
  have "Truncate now ns_min + ns_min \<le> t'" using after_now assms(3,5) by simp
  then obtain t where "cron_search (cron_matches fs) (now + cron_window) (Truncate now ns_min + ns_min) = Some t" "t \<le> t'"
    using cron_search_total [OF next_minute] assms by metis
  moreover from this have "earliest_match (cron_matches fs) now t" using cron_search_earliest by blast
  ultimately show ?thesis using assms(1) by (auto simp: nextCronRun_def cron_valid_def)
qed

lemma day_parts:
  fixes d :: int
  assumes "h < 24" "m < 60"
  defines "t \<equiv> d * ns_day + (int h * ns_hour + int m * ns_min)"
  shows "Hour t = int h" "Minute t = int m" "t mod ns_min = 0" "d * ns_day \<le> t" "t < d * ns_day + ns_day"
proof -
  have r: "0 \<le> int h * ns_hour + int m * ns_min" "int h * ns_hour + int m * ns_min < ns_day"
    using assms(1,2) by (simp_all add: time_simps)
  show "d * ns_day \<le> t" "t < d * ns_day + ns_day" using r by (simp_all add: t_def)
  have md: "t mod ns_day = int h * ns_hour + int m * ns_min"
    unfolding t_def using r by (simp add: mod_pos_pos_trivial)
  have m: "0 \<le> int m * ns_min" "int m * ns_min < ns_hour" using assms(2) by (simp_all add: time_simps)
  have hd: "(int h * ns_hour + int m * ns_min) div ns_hour = int h"
    using m by (simp add: div_pos_pos_trivial time_simps)
  show "Hour t = int h" unfolding Hour_def md by (rule hd)
  have "t = (d * 24 + int h) * ns_hour + int m * ns_min" by (simp add: t_def time_simps)
  then have "t mod ns_hour = int m * ns_min" using m by (simp add: mod_pos_pos_trivial)
  then show "Minute t = int m" by (simp add: Minute_def time_simps)
  have "t = (d * 1440 + int h * 60 + int m) * ns_min" by (simp add: t_def time_simps)
  then show "t mod ns_min = 0" by simp
qed

definition daily :: "nat \<Rightarrow> nat \<Rightarrow> string list" where
  "daily h m = [nat_digits m, nat_digits h, ''*'', ''*'', ''?'', ''*'']"

lemma one_segment:
  "TrimSpace ''?'' = ''?''" "TrimSpace ''*'' = ''*''" "TrimSpace ''29'' = ''29''" "TrimSpace ''2'' = ''2''" "TrimSpace ''0'' = ''0''"
  by (rule TrimSpace_graphic; simp add: graphic_def)+

lemma cron_days:
  "validateCronDOMField ''*''" "cronDOMMatches ''*'' t" "validateCronDOWField ''?''"
  "\<not> isCronLastWeekdayOfMonthSegment ''29''" "parseCronNearestWeekdayDay ''29'' = None" "\<not> EqualFold ''29'' ''L''"
  by (simp_all add: validateCronDOMField_def cronDOMMatches_def validateCronDOWField_def one_segment Let_def EqualFold_def
      isCronNearestWeekdaySegment_def parseCronNearestWeekdayDay_def isCronLastWeekdayOfMonthSegment_def char_lower_def char_of_def
      isCronLastWeekdaySegment_def validateCronSegment_def cronSegmentMatchesNamed_def)

lemma daily_cron:
  assumes "h < 24" "m < 60"
  shows "cron_valid (daily h m)" "cron_matches (daily h m) t \<longleftrightarrow> Minute t = int m \<and> Hour t = int h"
  using assms one_segment(1,2)
    digit_field [of m 59 0 None] digit_field [of h 23 0 None]
  by (simp_all add: star_field cron_days cron_valid_def cron_matches_def daily_def validateCronField_def
      cronFieldMatches_def cronDayMatches_def Let_def)

text \<open>A daily schedule always fires: for every time of day and every moment, \<open>cron(m h * * ? *)\<close> has a next
  run, within 24 hours, at that hour and minute.\<close>

theorem daily_cron_fires:
  assumes "h < 24" "m < 60"
  shows "\<exists>t. nextCronRun now (daily h m) = Inr t \<and> now < t \<and> t \<le> now + ns_day \<and>
    Hour t = int h \<and> Minute t = int m \<and> t mod ns_min = 0"
proof -
  define b where "b d = d * ns_day + (int h * ns_hour + int m * ns_min)" for d
  note p = day_parts [OF assms, folded b_def]
  define t' where "t' = (if now < b (day_number now) then b (day_number now) else b (day_number now + 1))"
  have n: "day_number now * ns_day \<le> now" "now < day_number now * ns_day + ns_day"
    using div_mult_mod_eq [of now ns_day] pos_mod_bound [of ns_day now] pos_mod_sign [of ns_day now]
    by (auto simp: day_number_def time_simps)
  have b1: "b (day_number now + 1) = b (day_number now) + ns_day" by (simp add: b_def algebra_simps)
  have t': "now < t'" "t' \<le> now + ns_day"
    using n p(4,5) [of "day_number now"] b1 by (auto simp: t'_def)
  moreover have "ns_day \<le> cron_window" by (simp add: cron_window_def time_simps)
  moreover have "cron_matches (daily h m) t'" "t' mod ns_min = 0"
    using p(1,2,3) unfolding daily_cron(2) [OF assms] by (simp_all add: t'_def)
  ultimately obtain t where t: "nextCronRun now (daily h m) = Inr t" "t \<le> t'"
    "earliest_match (cron_matches (daily h m)) now t"
    using nextCronRun_fires [OF daily_cron(1) [OF assms], of t' now] by fastforce
  then show ?thesis using t t' daily_cron(2) [OF assms] by (auto simp: earliest_match_def)
qed

section \<open>29 February\<close>

definition leap_day :: "string list" where
  "leap_day = [''0'', ''0'', ''29'', ''2'', ''?'', ''*'']"

lemma leap_day_matches: "cron_matches leap_day t \<Longrightarrow> Month t = 2 \<and> Day t = 29"
proof -
  have d: "nat_digits 2 = ''2''" "nat_digits 29 = ''29''" by code_simp+
  assume "cron_matches leap_day t"
  then have "cronNamedFieldMatches (nat_digits 2) (Month t) 1 12 False (Some cronMonthNames)" "cronDOMMatches ''29'' t"
    by (simp_all add: cron_matches_def leap_day_def d cronDayMatches_def one_segment Let_def)
  then show ?thesis
    using digit_field(1) [of 2 12 1 "Some cronMonthNames" "Month t"] digit_field(3) [of 29 31 1 None "Day t" True]
      month_name_digits [of 2]
    by (simp add: cronDOMMatches_def one_segment cron_days Let_def d)
qed

lemma leap_day_valid: "cron_valid leap_day"
proof -
  have d: "nat_digits 0 = ''0''" "nat_digits 2 = ''2''" "nat_digits 29 = ''29''" by code_simp+
  have "validateCronDOMField ''29''"
    using digit_field(4) [of 29 31 1 None True]
    by (simp add: validateCronDOMField_def one_segment Let_def isCronNearestWeekdaySegment_def cron_days d)
  then show ?thesis
    using digit_field(2) [of 0 59 0 None] digit_field(2) [of 0 23 0 None]
      digit_field(2) [of 2 12 1 "Some cronMonthNames"] month_name_digits [of 2]
    by (simp add: cron_valid_def leap_day_def validateCronField_def cron_days star_field d)
qed

text \<open>A valid schedule for 29 February is refused when the next leap day is more than 730 days away: from any
  moment of 1 March of a year that two common years follow, the search finds no next run.\<close>

theorem leap_day_lost:
  assumes "day_number now = days_of_civil y 3 1" "\<not> leap_year (y + 1)" "\<not> leap_year (y + 2)"
  shows "nextCronRun now leap_day = Inl NoFireTime"
proof -
  have "\<not> cron_matches leap_day t" if t: "now < t" "t \<le> now + cron_window" for t
  proof
    assume "cron_matches leap_day t"
    then have f: "Month t = 2" "Day t = 29" using leap_day_matches by auto
    then have v: "valid_date (Year t) 2 29" using Month_Day_range(5) [of t] by simp
    then have leap: "leap_year (Year t)" by (auto simp: valid_date_def days_in_def split: if_splits)
    have e: "days_of_civil (Year t) 2 29 = day_number t" using days_of_fields [of t] f by simp
    have mono: "a \<le> b \<Longrightarrow> day_number a \<le> day_number b" for a b
      unfolding day_number_def by (rule zdiv_mono1) (simp_all add: time_simps)
    have w: "cron_window = 730 * ns_day" by (simp add: cron_window_def time_simps)
    have lo: "days_of_civil y 3 1 \<le> day_number t" using mono [of now t] t(1) assms(1) by simp
    have hi: "day_number t \<le> days_of_civil y 3 1 + 730"
      using mono [of t "now + 730 * ns_day"] t(2) assms(1) unfolding w day_number_add by simp
    have "days_of_civil (y + 2) 3 1 = days_of_civil y 3 1 + 730"
      using assms(2,3) year_days_step [of "y + 1"] year_days_step [of "y + 2"] by (simp add: days_of_civil_closed add.commute)
    then have r: "day_number t \<le> days_of_civil (y + 2) 3 1" using hi by simp
    have first: "valid_date z 3 1" for z by (simp add: valid_date_def days_in_def)
    have "\<not> Year t \<le> y" using days_of_civil_less [OF v first, of y] lo e by linarith
    moreover have "\<not> y + 3 \<le> Year t" using days_of_civil_less [OF first v, of "y + 2"] r e by linarith
    ultimately have "Year t = y + 1 \<or> Year t = y + 2" by auto
    then show False using leap assms(2,3) by auto
  qed
  then have "\<nexists>t. earliest_match (cron_matches leap_day) now t" by (auto simp: earliest_match_def)
  then have "cron_search (cron_matches leap_day) (now + cron_window) (Truncate now ns_min + ns_min) = None"
    using cron_search_earliest by (metis option.exhaust)
  then show ?thesis using leap_day_valid by (simp add: nextCronRun_def cron_valid_def)
qed

section \<open>Rates\<close>

definition unit_ns :: "string \<Rightarrow> int" where
  "unit_ns u =
     (if u \<in> {''minute'', ''minutes''} then ns_min
      else if u \<in> {''hour'', ''hours''} then ns_hour else ns_day)"

lemma wrap64_dvd: "(2::int) ^ 64 dvd wrap64 a - a"
proof -
  have "a + 2 ^ 63 = 2 ^ 64 * ((a + 2 ^ 63) div 2 ^ 64) + (a + 2 ^ 63) mod 2 ^ 64" by simp
  then have "wrap64 a - a = 2 ^ 64 * - ((a + 2 ^ 63) div 2 ^ 64)" unfolding wrap64_def by linarith
  then show ?thesis by (metis dvd_triv_left)
qed

lemma wrap64_mult_dvd: "(2::int) ^ 64 dvd wrap64 (wrap64 a * b) - a * b"
proof -
  have "(2::int) ^ 64 dvd (wrap64 a - a) * b" by (intro dvd_mult2 wrap64_dvd)
  with wrap64_dvd [of "wrap64 a * b"] have "(2::int) ^ 64 dvd (wrap64 (wrap64 a * b) - wrap64 a * b) + (wrap64 a - a) * b"
    by (rule dvd_add)
  then show ?thesis by (simp add: algebra_simps)
qed

lemma wrapped_eq: "(2::int) ^ 64 dvd d - e \<Longrightarrow> - (2 ^ 63) \<le> d \<Longrightarrow> d < 2 ^ 63 \<Longrightarrow> 0 \<le> e \<Longrightarrow> e < 2 ^ 63 \<Longrightarrow> d = e"
  by (rule ccontr, drule dvd_imp_le_int [rotated]) auto

lemma ParseRate_pos: "ParseRateExpression e = Some (n, u) \<Longrightarrow> 1 \<le> n"
  by (auto simp: ParseRateExpression_def split: option.splits prod.splits if_splits)

text \<open>A rate adds its interval modulo two to the 64: exactly the interval, forwards, as long as it is below 2^63
  nanoseconds (106751 days); beyond that the sum may lie in the past.\<close>

theorem rate_next:
  assumes "ParseRateExpression e = Some (n, u)" "u \<in> set rate_units"
  shows "\<exists>d. NextAfterRate e now = Inr (now + d) \<and> 2 ^ 64 dvd d - n * unit_ns u \<and>
    - (2 ^ 63) \<le> d \<and> d < 2 ^ 63 \<and> (n * unit_ns u < 2 ^ 63 \<longrightarrow> d = n * unit_ns u \<and> 0 < d)"
proof -
  have "\<exists>d. NextAfterRate e now = Inr (now + d) \<and> 2 ^ 64 dvd d - n * unit_ns u \<and> - (2 ^ 63) \<le> d \<and> d < 2 ^ 63"
  proof -
    consider "u \<in> {''minute'', ''minutes''}" | "u \<in> {''hour'', ''hours''}" | "u \<in> {''day'', ''days''}"
      using assms(2) by (auto simp: rate_units_def)
    then show ?thesis
    proof cases
      case 1
      then show ?thesis using assms(1) wrap64_dvd wrap64_range
        by (intro exI [of _ "wrap64 (n * ns_min)"]) (auto simp: NextAfterRate_def unit_ns_def)
    next
      case 2
      then show ?thesis using assms(1) wrap64_dvd wrap64_range
        by (intro exI [of _ "wrap64 (n * ns_hour)"]) (auto simp: NextAfterRate_def unit_ns_def)
    next
      case 3
      have "n * 24 * ns_hour = n * ns_day" by (simp add: time_simps)
      then have "2 ^ 64 dvd wrap64 (wrap64 (n * 24) * ns_hour) - n * ns_day"
        using wrap64_mult_dvd [of "n * 24" ns_hour] by (simp only:)
      then show ?thesis using 3 assms(1) wrap64_range
        by (intro exI [of _ "wrap64 (wrap64 (n * 24) * ns_hour)"]) (auto simp: NextAfterRate_def unit_ns_def)
    qed
  qed
  then obtain d where "NextAfterRate e now = Inr (now + d)" and dv: "2 ^ 64 dvd d - n * unit_ns u"
    and b: "- (2 ^ 63) \<le> d" "d < 2 ^ 63" by blast
  moreover have "0 < n * unit_ns u" using ParseRate_pos [OF assms(1)] by (simp add: unit_ns_def time_simps)
  ultimately show ?thesis using wrapped_eq [OF dv b] by (metis order_less_imp_le)
qed

section \<open>Concrete schedules\<close>

lemma rate_sample: "ParseRateExpression ''rate(106752 days)'' = Some (106752, ''days'')"
proof -
  have "match_rate ''rate(106752 days)'' = Some (''106752'', ''days'')"
  proof -
    have "strip_head ''rate('' ''rate(106752 days)'' = Some ''106752 days)''" by code_simp
    moreover have "\<exists>name\<in>set rate_units. EqualFold ''days'' name" by code_simp
    ultimately show ?thesis by (simp add: match_rate_def is_digit_def re_space_def less_eq_char_def)
  qed
  moreover have "TrimSpace ''rate(106752 days)'' = ''rate(106752 days)''"
    by (rule TrimSpace_graphic) (simp_all add: graphic_def)
  moreover have "nat_digits 106752 = ''106752''" by (simp add: nat_digits.simps digit_char_def char_of_def bit_Suc_0_iff)
  then have "Atoi ''106752'' = Some 106752" using Atoi_nat_digits [of 106752] by simp
  moreover have "ToLower ''days'' = ''days''" by code_simp
  ultimately show ?thesis by (simp add: ParseRateExpression_def)
qed

theorem rate_next_witness: "\<exists>d. NextAfterRate ''rate(106752 days)'' 0 = Inr d \<and> d < 0"
proof -
  obtain d where d: "NextAfterRate ''rate(106752 days)'' 0 = Inr (0 + d)" "2 ^ 64 dvd d - 106752 * unit_ns ''days''"
    "- (2 ^ 63) \<le> d" "d < 2 ^ 63"
    using rate_next [OF rate_sample, of 0] by (auto simp: rate_units_def)
  have "unit_ns ''days'' = 86400000000000" by (simp add: unit_ns_def time_simps)
  then have "2 ^ 64 dvd d - 9223372800000000000" using d(2) by simp
  then have "\<not> 0 \<le> d" using dvd_imp_le_int [of "d - 9223372800000000000" "2 ^ 64"] d(4) by auto
  then show ?thesis using d(1) by auto
qed

theorem nearestWeekday_nearest_witness:
  "Year (nearestWeekdayOfMonth 2025 6 1) = 2025 \<and> Month (nearestWeekdayOfMonth 2025 6 1) = 6 \<and>
   Day (nearestWeekdayOfMonth 2025 6 1) = 2"
proof -
  have "day_number (nearestWeekdayOfMonth 2025 6 1) = days_of_civil 2025 6 2" by code_simp
  moreover have "civil_of_days (days_of_civil 2025 6 2) = (2025, 6, 2)" by code_simp
  ultimately have "Day (nearestWeekdayOfMonth 2025 6 1) = 2" by (simp add: Day_def)
  then show ?thesis using nearestWeekday_nearest [of 6 2025 1] by (auto simp: Let_def)
qed

theorem daily_cron_fires_witness:
  "\<exists>t. nextCronRun 0 (daily 12 30) = Inr t \<and> Hour t = 12 \<and> Minute t = 30"
  using daily_cron_fires [of 12 30 0] by auto

theorem leap_day_lost_witness:
  "nextCronRun (Date 2025 3 1 7 15 0 0) leap_day = Inl NoFireTime"
  by (rule leap_day_lost [where y = 2025]) (code_simp+)

end
