(* ===== verification/Go_Http.thy ===== *)
theory Go_Http
  imports Go_Json_Print
begin

text \<open>
  What the code uses of Go's \<open>net/http\<close> and \<open>net/url\<close>: header names in canonical form, percent
  encoding and decoding, the query string and the escaped path. A \<open>url.Values\<close> (from a key to the
  list of its values) is the list of its pairs in the order of the query string: \<open>Get\<close> is the first
  value of a key, and the code sorts whatever it iterates over.
\<close>

section \<open>Requests\<close>

text \<open>
  \<open>rq_Header\<close> is the \<open>http.Header\<close> map from a canonical name to its values, the empty list for an
  absent name. \<open>rq_Path\<close> is the decoded path and \<open>rq_RawPath\<close> the hint on how it was written.
\<close>

record http_request =
  rq_Method :: string
  rq_Path :: string
  rq_RawPath :: string
  rq_RawQuery :: string
  rq_Host :: string
  rq_Header :: "string \<Rightarrow> string list"

section \<open>Header names\<close>

definition token_byte :: "char \<Rightarrow> bool" where
  "token_byte c \<longleftrightarrow>
     is_digit c \<or> CHR ''A'' \<le> c \<and> c \<le> CHR ''Z'' \<or> CHR ''a'' \<le> c \<and> c \<le> CHR ''z'' \<or>
     c \<in> set ''!#$%&*+-.^_`|~'' \<or> c = CHR 0x27"

fun canonical_case :: "bool \<Rightarrow> string \<Rightarrow> string" where
  "canonical_case up [] = []"
| "canonical_case up (c # cs) = (if up then char_upper c else char_lower c) # canonical_case (c = CHR ''-'') cs"

definition CanonicalHeaderKey :: "string \<Rightarrow> string" where
  "CanonicalHeaderKey s = (if list_all token_byte s then canonical_case True s else s)"

definition Header_Values :: "http_request \<Rightarrow> string \<Rightarrow> string list" where
  "Header_Values r name = rq_Header r (CanonicalHeaderKey name)"

definition Header_Get :: "http_request \<Rightarrow> string \<Rightarrow> string" where
  "Header_Get r name = (case Header_Values r name of [] \<Rightarrow> [] | v # _ \<Rightarrow> v)"

section \<open>Percent encoding\<close>

definition hex_val :: "char \<Rightarrow> nat option" where
  "hex_val c = (case alnum_val c of Some d \<Rightarrow> if d < 16 then Some d else None | None \<Rightarrow> None)"

text \<open>\<open>url.unescape\<close>; in a query component a plus is a space.\<close>

fun unescape :: "bool \<Rightarrow> string \<Rightarrow> string option" where
  "unescape query [] = Some []"
| "unescape query (c # cs) =
     (if c = CHR ''%'' then
        (case cs of
           a # b # r \<Rightarrow>
             (case (hex_val a, hex_val b) of
                (Some x, Some y) \<Rightarrow> map_option (Cons (char_of (16 * x + y))) (unescape query r)
              | _ \<Rightarrow> None)
         | _ \<Rightarrow> None)
      else map_option (Cons (if query \<and> c = CHR ''+'' then CHR '' '' else c)) (unescape query cs))"

abbreviation QueryUnescape :: "string \<Rightarrow> string option" where
  "QueryUnescape \<equiv> unescape True"

definition unreserved :: "char \<Rightarrow> bool" where
  "unreserved c \<longleftrightarrow>
     CHR ''A'' \<le> c \<and> c \<le> CHR ''Z'' \<or> CHR ''a'' \<le> c \<and> c \<le> CHR ''z'' \<or> is_digit c \<or>
     c \<in> set ''-_.~''"

definition percent :: "char \<Rightarrow> string" where
  "percent c = [CHR ''%'', hex_char_upper (of_char c div 16), hex_char_upper (of_char c mod 16)]"

definition path_byte :: "char \<Rightarrow> bool" where
  "path_byte c \<longleftrightarrow> unreserved c \<or> c \<in> set ''$&+,/:;=@''"

definition escape_path :: "string \<Rightarrow> string" where
  "escape_path s = concat (map (\<lambda>c. if path_byte c then [c] else percent c) s)"

definition validEncoded :: "string \<Rightarrow> bool" where
  "validEncoded s = list_all (\<lambda>c. c \<in> set ''!$&()*+,;=:@[]%'' \<or> c = CHR 0x27 \<or> path_byte c) s"

definition EscapedPath :: "http_request \<Rightarrow> string" where
  "EscapedPath r =
     (if rq_RawPath r \<noteq> [] \<and> validEncoded (rq_RawPath r) \<and> unescape False (rq_RawPath r) = Some (rq_Path r)
      then rq_RawPath r
      else if rq_Path r = ''*'' then ''*''
      else escape_path (rq_Path r))"

section \<open>The query string\<close>

text \<open>\<open>url.ParseQuery\<close> without its error: parts with a semicolon or a bad escape are left out.\<close>

definition query_part :: "string \<Rightarrow> (string \<times> string) option" where
  "query_part part =
     (if CHR '';'' \<in> set part \<or> part = [] then None
      else (case Cut part (CHR ''='') of
              (k, v, _) \<Rightarrow> do { k' \<leftarrow> QueryUnescape k; v' \<leftarrow> QueryUnescape v; Some (k', v') }))"

definition URL_Query :: "http_request \<Rightarrow> (string \<times> string) list" where
  "URL_Query r = List.map_filter query_part (Split (rq_RawQuery r) (CHR ''&''))"

definition Values_Get :: "(string \<times> string) list \<Rightarrow> string \<Rightarrow> string" where
  "Values_Get q k = (case map_of q k of None \<Rightarrow> [] | Some v \<Rightarrow> v)"

section \<open>Decoding what was encoded\<close>

lemma hex_upper_all: "list_all (\<lambda>d. hex_val (hex_char_upper d) = Some d \<and> unreserved (hex_char_upper d)) [0..<16]"
  by code_simp

lemma hex_upper: "d < 16 \<Longrightarrow> hex_val (hex_char_upper d) = Some d \<and> unreserved (hex_char_upper d)"
  using hex_upper_all by (simp add: list_all_iff)

lemma hex_digits: "of_char c div 16 < (16::nat)" "of_char c mod 16 < (16::nat)"
  using nat_of_char_less_256 [of c] by (simp_all add: less_mult_imp_div_less)

lemma unescape_percent [simp]: "unescape q (percent c @ s) = map_option (Cons c) (unescape q s)"
proof -
  have "char_of (16 * (of_char c div 16) + of_char c mod 16 :: nat) = c" by (simp add: mult.commute)
  then show ?thesis using hex_upper [OF hex_digits(1)] hex_upper [OF hex_digits(2)]
    by (simp add: percent_def)
qed

lemma not_unreserved:
  "\<not> unreserved (CHR ''%'')" "\<not> unreserved (CHR ''+'')" "\<not> unreserved (CHR ''='')" "\<not> unreserved (CHR ''&'')"
  "\<not> unreserved (CHR '';'')" "\<not> unreserved (CHR 0x0A)" "\<not> unreserved (CHR ''/'')"
  by code_simp+

lemma unreserved_plain:
  "unreserved c \<Longrightarrow> c \<noteq> CHR ''%'' \<and> c \<noteq> CHR ''+'' \<and> c \<noteq> CHR ''='' \<and> c \<noteq> CHR ''&'' \<and> c \<noteq> CHR '';'' \<and> c \<noteq> CHR 0x0A"
  by (intro conjI notI; simp only: not_unreserved)

lemma unescape_plain: "unreserved c \<or> c = CHR ''/'' \<Longrightarrow> unescape q (c # s) = map_option (Cons c) (unescape q s)"
  using unreserved_plain [of c] by auto

lemma percent_set: "set (percent c) \<subseteq> insert (CHR ''%'') (Collect unreserved)"
  using hex_upper [OF hex_digits(1)] hex_upper [OF hex_digits(2)] by (simp add: percent_def)

end
