(* ===== verification/Sigv4.thy ===== *)
theory Sigv4
  imports Go_Http Go_Hash Go_Time Identity
begin

text \<open>
  Request authentication, \<open>src/internal/kernel/authn/sigv4.go\<close>: AWS Signature Version 4 from the
  \<open>Authorization\<close> header or from the query string of a presigned URL. \<open>Verify\<close> extracts the
  authentication data, checks the date against the clock, looks the access key up, rebuilds the
  canonical request and compares the signature; on success it returns the principal. The look-up is
  the function the server passes in, \<open>None\<close> for its error. Errors are the codes of \<open>errors.go\<close>.
\<close>

datatype auth_code =
    MissingAuthenticationToken
  | InvalidClientTokenId
  | SignatureDoesNotMatch
  | RequestTimeTooSkewed

record Verified =
  vf_Principal :: principal
  vf_AccessKeyID :: string
  vf_SecretAccessKey :: string
  vf_SessionToken :: string
  vf_Region :: string
  vf_Service :: string
  vf_AccountID :: string
  vf_SourceIP :: string
  vf_SessionPolicy :: string
  vf_MFAAuthenticated :: bool
  vf_MFAAuthenticatedAt :: instant
  vf_UserName :: string
  vf_IsRoot :: bool
  vf_FederatedUser :: string

record ResolvedKey =
  rk_AccountID :: string
  rk_Secret :: string
  rk_IsRoot :: bool
  rk_UserName :: string
  rk_Status :: string
  rk_SessionToken :: string
  rk_RoleARN :: string
  rk_SessionName :: string
  rk_FederatedUser :: string
  rk_SessionPolicy :: string
  rk_ExpiresAt :: instant
  rk_MFAAuthenticated :: bool
  rk_MFAAuthenticatedAt :: instant

type_synonym KeyLookup = "string \<Rightarrow> ResolvedKey option"

record authMaterial =
  am_accessKeyID :: string
  am_date :: string
  am_region :: string
  am_service :: string
  am_signedHeaders :: "string list"
  am_signature :: string
  am_amzDate :: string
  am_queryAuth :: bool
  am_expires :: string

definition algorithmAWS4 :: string where "algorithmAWS4 = ''AWS4-HMAC-SHA256''"

definition emptyPayload :: string where
  "emptyPayload = ''e3b0c44298fc1c149afbf4c8996fb92427ae41e4649b934ca495991b7852b855''"

definition unsignedPayload :: string where "unsignedPayload = ''UNSIGNED-PAYLOAD''"

section \<open>Extracting the authentication data\<close>

definition parseCredential :: "string \<Rightarrow> (auth_code, string \<times> string \<times> string \<times> string) result" where
  "parseCredential cred =
     (case Split cred (CHR ''/'') of
        [akid, date, region, service, term] \<Rightarrow>
          if term \<noteq> ''aws4_request'' \<or> akid = [] \<or> date = [] \<or> region = [] \<or> service = []
          then Inl SignatureDoesNotMatch else Inr (akid, date, region, service)
      | _ \<Rightarrow> Inl SignatureDoesNotMatch)"

text \<open>A missing entry of the Go map reads as the empty string.\<close>

definition splitAuthParts :: "string \<Rightarrow> string \<Rightarrow> string" where
  "splitAuthParts rest =
     fold (\<lambda>part m. case Cut (TrimSpace part) (CHR ''='') of
             (k, v, ok) \<Rightarrow> if ok then m(TrimSpace k := TrimSpace v) else m)
       (Split rest (CHR '','')) (\<lambda>_. [])"

definition parseAuthorizationHeader :: "http_request \<Rightarrow> string \<Rightarrow> (auth_code, authMaterial) result" where
  "parseAuthorizationHeader r header =
     (if \<not> HasPrefix header algorithmAWS4 then Inl MissingAuthenticationToken
      else (let parts = splitAuthParts (TrimSpace (TrimPrefix header algorithmAWS4));
                cred = parts ''Credential''; signedHeaders = parts ''SignedHeaders''; sig = parts ''Signature''
            in if cred = [] \<or> signedHeaders = [] \<or> sig = [] then Inl SignatureDoesNotMatch
               else (case parseCredential cred of
                       Inl e \<Rightarrow> Inl e
                     | Inr (akid, date, region, service) \<Rightarrow>
                         (let amzDate = Header_Get r ''X-Amz-Date'';
                              amzDate = (if amzDate = [] then Header_Get r ''x-amz-date'' else amzDate)
                          in if amzDate = [] then Inl SignatureDoesNotMatch
                             else Inr \<lparr>am_accessKeyID = akid, am_date = date, am_region = region, am_service = service,
                               am_signedHeaders = Split (ToLower signedHeaders) (CHR '';''), am_signature = sig,
                               am_amzDate = amzDate, am_queryAuth = False, am_expires = []\<rparr>))))"

definition parseQueryAuth :: "http_request \<Rightarrow> (string \<times> string) list \<Rightarrow> (auth_code, authMaterial) result" where
  "parseQueryAuth r q =
     (let cred = Values_Get q ''X-Amz-Credential''; signedHeaders = Values_Get q ''X-Amz-SignedHeaders'';
          sig = Values_Get q ''X-Amz-Signature''; amzDate = Values_Get q ''X-Amz-Date'';
          amzDate = (if amzDate = [] then Header_Get r ''X-Amz-Date'' else amzDate)
      in if cred = [] \<or> signedHeaders = [] \<or> sig = [] \<or> amzDate = [] then Inl SignatureDoesNotMatch
         else (case parseCredential cred of
                 Inl e \<Rightarrow> Inl e
               | Inr (akid, date, region, service) \<Rightarrow>
                   Inr \<lparr>am_accessKeyID = akid, am_date = date, am_region = region, am_service = service,
                     am_signedHeaders = Split (ToLower signedHeaders) (CHR '';''), am_signature = sig,
                     am_amzDate = amzDate, am_queryAuth = True, am_expires = Values_Get q ''X-Amz-Expires''\<rparr>))"

definition extractAuth :: "http_request \<Rightarrow> (auth_code, authMaterial) result" where
  "extractAuth r =
     (let authHeader = TrimSpace (Header_Get r ''Authorization'')
      in if authHeader \<noteq> [] then parseAuthorizationHeader r authHeader
         else (let q = URL_Query r
               in if EqualFold (Values_Get q ''X-Amz-Algorithm'') algorithmAWS4 then parseQueryAuth r q
                  else Inl MissingAuthenticationToken))"

definition signedHeadersIncludeHost :: "string list \<Rightarrow> bool" where
  "signedHeadersIncludeHost hs = list_ex (\<lambda>h. EqualFold (TrimSpace h) ''host'') hs"

section \<open>The payload hash\<close>

definition bodySHA256Hex :: "string \<Rightarrow> string" where
  "bodySHA256Hex body = (if body = [] then emptyPayload else hex_encode (sha256 body))"

definition claimedContentSHA256 :: "http_request \<Rightarrow> string" where
  "claimedContentSHA256 r =
     (let h = Header_Get r ''X-Amz-Content-Sha256'';
          h = (if h = [] then Header_Get r ''x-amz-content-sha256'' else h)
      in TrimSpace h)"

definition allowUnsignedPayload :: "authMaterial \<Rightarrow> bool" where
  "allowUnsignedPayload mat \<longleftrightarrow> am_queryAuth mat \<and> EqualFold (am_service mat) ''s3''"

definition isS3StreamingPayloadHash :: "string \<Rightarrow> bool" where
  "isS3StreamingPayloadHash h \<longleftrightarrow>
     ToUpper (TrimSpace h) \<in> {''STREAMING-UNSIGNED-PAYLOAD-TRAILER'', ''STREAMING-AWS4-HMAC-SHA256-PAYLOAD'',
       ''STREAMING-AWS4-HMAC-SHA256-PAYLOAD-TRAILER''}"

definition resolvePayloadHash :: "http_request \<Rightarrow> string \<Rightarrow> authMaterial \<Rightarrow> (auth_code, string) result" where
  "resolvePayloadHash r body mat =
     (let actual = bodySHA256Hex body; claimed = claimedContentSHA256 r
      in if claimed = [] then Inr (if allowUnsignedPayload mat then unsignedPayload else actual)
         else if EqualFold claimed unsignedPayload then
           (if \<not> allowUnsignedPayload mat then Inl SignatureDoesNotMatch else Inr unsignedPayload)
         else if isS3StreamingPayloadHash claimed then
           (if \<not> EqualFold (am_service mat) ''s3'' then Inl SignatureDoesNotMatch else Inr (ToUpper claimed))
         else if \<not> EqualFold claimed actual then Inl SignatureDoesNotMatch
         else Inr claimed)"

section \<open>The canonical request\<close>

definition canonicalURI :: "http_request \<Rightarrow> string" where
  "canonicalURI r =
     (let path = EscapedPath r; path = (if path = [] then rq_Path r else path)
      in if path = [] then ''/''
         else if \<not> HasPrefix path ''/'' then ''/'' @ path else path)"

definition uriEncode :: "string \<Rightarrow> bool \<Rightarrow> string" where
  "uriEncode s encodeSlash =
     concat (map (\<lambda>c. if unreserved c \<or> (c = CHR ''/'' \<and> \<not> encodeSlash) then [c] else percent c) s)"

definition canonicalQueryString :: "http_request \<Rightarrow> bool \<Rightarrow> string" where
  "canonicalQueryString r queryAuth =
     (let q = filter (\<lambda>(k, v). \<not> (queryAuth \<and> EqualFold k ''X-Amz-Signature'')) (URL_Query r);
          pairs = map (\<lambda>(k, v). (uriEncode k True, uriEncode v True)) q
      in Join (map (\<lambda>(k, v). k @ ''='' @ v) (sort pairs)) ''&'')"

fun collapse_spaces :: "bool \<Rightarrow> string \<Rightarrow> string" where
  "collapse_spaces prevSpace [] = []"
| "collapse_spaces prevSpace (c # cs) =
     (if c = CHR '' '' \<or> c = CHR 0x09 then (if prevSpace then [] else '' '') @ collapse_spaces True cs
      else c # collapse_spaces False cs)"

definition trimHeaderValue :: "string \<Rightarrow> string" where
  "trimHeaderValue v = collapse_spaces False (coerce_utf8 (TrimSpace v))"

definition headerValue :: "http_request \<Rightarrow> string \<Rightarrow> string" where
  "headerValue r name =
     (if name = ''host'' then
        (let host = (if rq_Host r = [] then Header_Get r ''Host'' else rq_Host r) in trimHeaderValue host)
      else (let vals = Header_Values r name
            in if vals = [] then trimHeaderValue (Header_Get r name)
               else Join (map trimHeaderValue vals) '',''))"

definition signed_names :: "string list \<Rightarrow> string list" where
  "signed_names hs = filter (\<lambda>n. n \<noteq> []) (map (\<lambda>n. ToLower (TrimSpace n)) hs)"

definition canonicalHeaders :: "http_request \<Rightarrow> string list \<Rightarrow> string \<times> string" where
  "canonicalHeaders r hs =
     (concat (map (\<lambda>n. n @ '':'' @ headerValue r n @ [CHR 0x0A]) (signed_names hs)),
      Join (signed_names hs) '';'')"

definition buildCanonicalRequest :: "http_request \<Rightarrow> authMaterial \<Rightarrow> string \<Rightarrow> string" where
  "buildCanonicalRequest r mat payloadHash =
     (let mth = (if rq_Method r = [] then ''GET'' else rq_Method r);
          (canonHeaders, signedHeaders) = canonicalHeaders r (am_signedHeaders mat)
      in Join [mth, canonicalURI r, canonicalQueryString r (am_queryAuth mat), canonHeaders, signedHeaders,
               payloadHash] [CHR 0x0A])"

section \<open>The signature\<close>

definition buildStringToSign :: "string \<Rightarrow> string \<Rightarrow> string \<Rightarrow> string \<Rightarrow> string \<Rightarrow> string" where
  "buildStringToSign amzDate credDate region service canonicalRequest =
     Join [algorithmAWS4, amzDate, credDate @ ''/'' @ region @ ''/'' @ service @ ''/aws4_request'',
           hex_encode (sha256 canonicalRequest)] [CHR 0x0A]"

definition deriveSigningKey :: "string \<Rightarrow> string \<Rightarrow> string \<Rightarrow> string \<Rightarrow> string" where
  "deriveSigningKey secret date region service =
     hmac_sha256 (hmac_sha256 (hmac_sha256 (hmac_sha256 (''AWS4'' @ secret) date) region) service) ''aws4_request''"

definition signature :: "http_request \<Rightarrow> authMaterial \<Rightarrow> string \<Rightarrow> string \<Rightarrow> string" where
  "signature r mat secret payloadHash =
     hex_encode (hmac_sha256 (deriveSigningKey secret (am_date mat) (am_region mat) (am_service mat))
       (buildStringToSign (am_amzDate mat) (am_date mat) (am_region mat) (am_service mat)
          (buildCanonicalRequest r mat payloadHash)))"

section \<open>The principal\<close>

definition parseRoleNameFromARN :: "string \<Rightarrow> (string \<times> string) option" where
  "parseRoleNameFromARN roleARN =
     (case Index roleARN '':role/'' of
        None \<Rightarrow> None
      | Some i \<Rightarrow>
          if \<not> HasPrefix (take i roleARN) ''arn:aws:iam::'' then None
          else Some (drop 13 (take i roleARN), drop (i + 6) roleARN))"

definition key_principal :: "ResolvedKey \<Rightarrow> string \<Rightarrow> principal" where
  "key_principal cred akid =
     (if rk_IsRoot cred then RootPrincipal (rk_AccountID cred) akid
      else if rk_FederatedUser cred \<noteq> [] then FederatedUserPrincipal (rk_AccountID cred) (rk_FederatedUser cred) akid
      else if rk_RoleARN cred \<noteq> [] then
        RoleSessionPrincipal (rk_AccountID cred)
          (case parseRoleNameFromARN (rk_RoleARN cred) of Some (_, roleName) \<Rightarrow> roleName | None \<Rightarrow> rk_RoleARN cred)
          (rk_SessionName cred) akid
      else if rk_UserName cred \<noteq> [] then UserPrincipal (rk_AccountID cred) (rk_UserName cred) akid
      else zero_principal\<lparr>p_kind := KindUser, AccountID := rk_AccountID cred, p_AccessKeyID := akid\<rparr>)"

section \<open>Verify\<close>

text \<open>\<open>t.Sub(u)\<close> saturates at the bounds of a duration, \<open>- d\<close> wraps.\<close>

definition time_sub :: "instant \<Rightarrow> instant \<Rightarrow> int" where
  "time_sub t u = max (- (2 ^ 63)) (min (2 ^ 63 - 1) (t - u))"

definition clock_delta :: "instant \<Rightarrow> instant \<Rightarrow> int" where
  "clock_delta now reqTime = (let delta = time_sub now reqTime in if delta < 0 then wrap64 (- delta) else delta)"

definition zero_time :: instant where "zero_time = - 62135596800 * ns_sec"

definition check_expires :: "authMaterial \<Rightarrow> instant \<Rightarrow> instant \<Rightarrow> auth_code option" where
  "check_expires mat now reqTime =
     (if am_queryAuth mat \<and> am_expires mat \<noteq> [] then
        (case ParseInt 10 (am_expires mat) of
           None \<Rightarrow> Some SignatureDoesNotMatch
         | Some secs \<Rightarrow>
             if secs < 0 \<or> 604800 < secs then Some SignatureDoesNotMatch
             else if reqTime + secs * ns_sec < now then Some RequestTimeTooSkewed else None)
      else None)"

definition check_token :: "http_request \<Rightarrow> ResolvedKey \<Rightarrow> bool" where
  "check_token r cred \<longleftrightarrow>
     (if rk_SessionToken cred = [] then True
      else (let reqToken = TrimSpace (Header_Get r ''X-Amz-Security-Token'');
                reqToken = (if reqToken = [] then TrimSpace (Values_Get (URL_Query r) ''X-Amz-Security-Token'') else reqToken)
            in \<not> (reqToken = [] \<or> reqToken \<noteq> rk_SessionToken cred)))"

definition verified_of :: "authMaterial \<Rightarrow> ResolvedKey \<Rightarrow> Verified" where
  "verified_of mat cred =
     \<lparr>vf_Principal = key_principal cred (am_accessKeyID mat), vf_AccessKeyID = am_accessKeyID mat,
      vf_SecretAccessKey = rk_Secret cred, vf_SessionToken = rk_SessionToken cred, vf_Region = am_region mat,
      vf_Service = am_service mat, vf_AccountID = rk_AccountID cred, vf_SourceIP = [],
      vf_SessionPolicy = rk_SessionPolicy cred, vf_MFAAuthenticated = rk_MFAAuthenticated cred,
      vf_MFAAuthenticatedAt = rk_MFAAuthenticatedAt cred, vf_UserName = rk_UserName cred, vf_IsRoot = rk_IsRoot cred,
      vf_FederatedUser = rk_FederatedUser cred\<rparr>"

definition verify_credentials ::
  "http_request \<Rightarrow> string \<Rightarrow> instant \<Rightarrow> KeyLookup \<Rightarrow> authMaterial \<Rightarrow> (auth_code, Verified) result"
where
  "verify_credentials r body now lookup mat =
     (case lookup (am_accessKeyID mat) of
        None \<Rightarrow> Inl InvalidClientTokenId
      | Some cred \<Rightarrow>
          if rk_AccountID cred = [] \<or> rk_Secret cred = [] then Inl InvalidClientTokenId
          else if rk_Status cred \<noteq> [] \<and> rk_Status cred \<noteq> ''Active'' then Inl InvalidClientTokenId
          else if rk_ExpiresAt cred \<noteq> zero_time \<and> rk_ExpiresAt cred < now then Inl InvalidClientTokenId
          else if \<not> check_token r cred then Inl InvalidClientTokenId
          else (case resolvePayloadHash r body mat of
                  Inl e \<Rightarrow> Inl e
                | Inr payloadHash \<Rightarrow>
                    if ToLower (am_signature mat) \<noteq> ToLower (signature r mat (rk_Secret cred) payloadHash)
                    then Inl SignatureDoesNotMatch
                    else Inr (verified_of mat cred)))"

definition verify_request ::
  "http_request \<Rightarrow> string \<Rightarrow> instant \<Rightarrow> int \<Rightarrow> KeyLookup \<Rightarrow> (auth_code, Verified) result"
where
  "verify_request r body now skew lookup =
     (case extractAuth r of
        Inl e \<Rightarrow> Inl e
      | Inr mat \<Rightarrow>
          if \<not> signedHeadersIncludeHost (am_signedHeaders mat) then Inl SignatureDoesNotMatch
          else (case parse_basic (am_amzDate mat) of
                  None \<Rightarrow> Inl SignatureDoesNotMatch
                | Some reqTime \<Rightarrow>
                    if (if skew < 0 then 0 else skew) < clock_delta now reqTime then Inl RequestTimeTooSkewed
                    else (case check_expires mat now reqTime of
                            Some e \<Rightarrow> Inl e
                          | None \<Rightarrow>
                              if 8 \<le> length (am_amzDate mat) \<and> take 8 (am_amzDate mat) \<noteq> am_date mat
                              then Inl SignatureDoesNotMatch
                              else verify_credentials r body now lookup mat)))"

text \<open>A nil request and a nil look-up are \<open>None\<close>.\<close>

definition Verify ::
  "http_request option \<Rightarrow> string \<Rightarrow> instant \<Rightarrow> int \<Rightarrow> KeyLookup option \<Rightarrow> (auth_code, Verified) result"
where
  "Verify req body now skew lookup =
     (case req of
        None \<Rightarrow> Inl MissingAuthenticationToken
      | Some r \<Rightarrow> (case lookup of None \<Rightarrow> Inl InvalidClientTokenId | Some f \<Rightarrow> verify_request r body now skew f))"

end
