(* ===== verification/Sql_Table.thy ===== *)
theory Sql_Table
  imports Prelude
begin

text \<open>
  Statements on one table of the database, a list of rows in the order they were inserted. \<open>key\<close> is the
  primary key. A statement that fails (a constraint) or affects no row, where the code looks at that,
  is \<open>None\<close>.
\<close>

definition sql_insert :: "('a \<Rightarrow> 'k) \<Rightarrow> 'a \<Rightarrow> 'a list \<Rightarrow> 'a list option" where
  "sql_insert key row rows = (if key row \<in> key ` set rows then None else Some (rows @ [row]))"

text \<open>\<open>INSERT OR IGNORE\<close>, and \<open>INSERT ... ON CONFLICT DO UPDATE\<close> with the assignments \<open>upd\<close>.\<close>

definition sql_ignore :: "('a \<Rightarrow> 'k) \<Rightarrow> 'a \<Rightarrow> 'a list \<Rightarrow> 'a list" where
  "sql_ignore key row rows = (if key row \<in> key ` set rows then rows else rows @ [row])"

definition sql_upsert :: "('a \<Rightarrow> 'k) \<Rightarrow> ('a \<Rightarrow> 'a) \<Rightarrow> 'a \<Rightarrow> 'a list \<Rightarrow> 'a list" where
  "sql_upsert key upd row rows =
     (if key row \<in> key ` set rows then map (\<lambda>r. if key r = key row then upd r else r) rows else rows @ [row])"

definition sql_delete :: "('a \<Rightarrow> bool) \<Rightarrow> 'a list \<Rightarrow> 'a list option" where
  "sql_delete P rows = (if \<exists>r\<in>set rows. P r then Some (filter (\<lambda>r. \<not> P r) rows) else None)"

definition sql_update :: "('a \<Rightarrow> bool) \<Rightarrow> ('a \<Rightarrow> 'a) \<Rightarrow> 'a list \<Rightarrow> 'a list option" where
  "sql_update P upd rows =
     (if \<exists>r\<in>set rows. P r then Some (map (\<lambda>r. if P r then upd r else r) rows) else None)"

named_theorems sql_simps \<open>statements on tables\<close>

lemmas sql_defs = sql_insert_def sql_ignore_def sql_upsert_def sql_delete_def sql_update_def

section \<open>The primary key stays unique\<close>

lemma sql_insert_distinct:
  "sql_insert key row rows = Some rows' \<Longrightarrow> distinct (map key rows) \<Longrightarrow> distinct (map key rows')"
  by (auto simp: sql_insert_def split: if_splits)

lemma sql_ignore_distinct: "distinct (map key rows) \<Longrightarrow> distinct (map key (sql_ignore key row rows))"
  by (auto simp: sql_ignore_def)

lemma map_if_same_key:
  "(\<And>r. key (upd r) = key r) \<Longrightarrow> map key (map (\<lambda>r. if P r then upd r else r) rows) = map key rows"
  by simp

lemma sql_upsert_distinct:
  assumes "\<And>r. key (upd r) = key r" "distinct (map key rows)"
  shows "distinct (map key (sql_upsert key upd row rows))"
proof (cases "key row \<in> key ` set rows")
  case True
  then have "map key (sql_upsert key upd row rows) = map key rows"
    using map_if_same_key [of key upd "\<lambda>r. key r = key row" rows, OF assms(1)]
    by (simp only: sql_upsert_def if_True)
  then show ?thesis using assms(2) by (simp only:)
next
  case False
  then show ?thesis using assms(2) by (auto simp: sql_upsert_def)
qed

lemma sql_delete_distinct:
  "sql_delete P rows = Some rows' \<Longrightarrow> distinct (map key rows) \<Longrightarrow> distinct (map key rows')"
  by (auto simp: sql_delete_def distinct_map_filter split: if_splits)

lemma sql_update_distinct:
  assumes "sql_update P upd rows = Some rows'" "\<And>r. key (upd r) = key r" "distinct (map key rows)"
  shows "distinct (map key rows')"
proof -
  have "rows' = map (\<lambda>r. if P r then upd r else r) rows"
    using assms(1) by (auto simp: sql_update_def split: if_splits)
  then have "map key rows' = map key rows" using assms(2) by simp
  then show ?thesis using assms(3) by (simp only:)
qed

lemmas sql_distinct = sql_insert_distinct sql_ignore_distinct sql_upsert_distinct sql_delete_distinct sql_update_distinct

section \<open>What is found afterwards\<close>

lemma find_key:
  "distinct (map key rows) \<Longrightarrow> r \<in> set rows \<Longrightarrow> List.find (\<lambda>x. key x = key r) rows = Some r"
  by (induction rows) force+

lemma find_append: "List.find P (xs @ ys) = (case List.find P xs of None \<Rightarrow> List.find P ys | Some x \<Rightarrow> Some x)"
  by (induction xs) auto

lemma find_filter_other:
  "(\<And>x. P x \<Longrightarrow> Q x) \<Longrightarrow> List.find P (filter Q rows) = List.find P rows"
  by (induction rows) auto

lemma find_filter_none: "(\<And>x. P x \<Longrightarrow> \<not> Q x) \<Longrightarrow> List.find P (filter Q rows) = None"
  by (induction rows) auto

lemma find_map_keep:
  "(\<And>x. P (f x) = P x) \<Longrightarrow> List.find P (map f rows) = map_option f (List.find P rows)"
  by (induction rows) auto

lemma find_map_other:
  "(\<And>x. P (f x) = P x) \<Longrightarrow> (\<And>x. P x \<Longrightarrow> f x = x) \<Longrightarrow> List.find P (map f rows) = List.find P rows"
  by (induction rows) auto

end
