(* ===== verification/Access_Keys.thy ===== *)
theory Access_Keys
  imports Sigv4 Transitions Sql_Table
begin

text \<open>
  The access keys: the rows of \<open>access_keys\<close> (\<open>src/internal/store/store.go\<close>), the operations that write
  them (\<open>store/users.go\<close>, \<open>store/tempcreds.go\<close>), reading one record, the cache of unsealed records with its
  generation counter (\<open>store/access_key_cache.go\<close>) and the look-up the server hands to \<open>Verify\<close>
  (\<open>server/handlers.go\<close>).

  \<open>Seal\<close> and \<open>Unseal\<close> encrypt with the master key of the installation: they are parameters. A random
  key id or secret is an argument of the operation that draws it. The columns that only record the last
  use of a key are left out, as no look-up reads them.
\<close>

section \<open>Rows and records\<close>

record key_row =
  kr_id :: string
  kr_account :: string
  kr_secret :: string
  kr_root :: int
  kr_token :: "string option"
  kr_role :: "string option"
  kr_session :: "string option"
  kr_expires :: "string option"
  kr_user :: "string option"
  kr_status :: string
  kr_policy :: "string option"
  kr_federated :: "string option"
  kr_mfa :: int
  kr_mfa_at :: "string option"

record AccessKey =
  ak_AccessKeyID :: string
  ak_AccountID :: string
  ak_Secret :: string
  ak_IsRoot :: bool
  ak_UserName :: string
  ak_Status :: string
  ak_SessionToken :: string
  ak_RoleARN :: string
  ak_SessionName :: string
  ak_FederatedUser :: string
  ak_SessionPolicy :: string
  ak_ExpiresAt :: instant
  ak_MFAAuthenticated :: bool
  ak_MFAAuthenticatedAt :: instant

type_synonym unseal = "string \<Rightarrow> string option"

definition null_text :: "string option \<Rightarrow> string" where
  "null_text c = (case c of None \<Rightarrow> [] | Some s \<Rightarrow> s)"

text \<open>A time column: null and the empty text are the zero time.\<close>

definition time_column :: "string option \<Rightarrow> instant option" where
  "time_column c = (if null_text c = [] then Some zero_time else parse_RFC3339 (null_text c))"

definition record_of :: "unseal \<Rightarrow> key_row \<Rightarrow> AccessKey option" where
  "record_of unseal r =
     do { secret \<leftarrow> unseal (kr_secret r);
          token \<leftarrow> (if null_text (kr_token r) = [] then Some [] else unseal (null_text (kr_token r)));
          expires \<leftarrow> time_column (kr_expires r);
          mfa_at \<leftarrow> time_column (kr_mfa_at r);
          Some \<lparr>ak_AccessKeyID = kr_id r, ak_AccountID = kr_account r, ak_Secret = secret,
                ak_IsRoot = (kr_root r = 1), ak_UserName = null_text (kr_user r),
                ak_Status = (if kr_status r = [] then ''Active'' else kr_status r),
                ak_SessionToken = token, ak_RoleARN = null_text (kr_role r),
                ak_SessionName = null_text (kr_session r), ak_FederatedUser = null_text (kr_federated r),
                ak_SessionPolicy = null_text (kr_policy r), ak_ExpiresAt = expires,
                ak_MFAAuthenticated = (kr_mfa r = 1), ak_MFAAuthenticatedAt = mfa_at\<rparr> }"

definition loadAccessKeyRecordUncached :: "unseal \<Rightarrow> key_row list \<Rightarrow> string \<Rightarrow> AccessKey option" where
  "loadAccessKeyRecordUncached unseal rows k =
     Option.bind (List.find (\<lambda>r. kr_id r = k) rows) (record_of unseal)"

definition resolved_key :: "AccessKey \<Rightarrow> ResolvedKey" where
  "resolved_key ak =
     \<lparr>rk_AccountID = ak_AccountID ak, rk_Secret = ak_Secret ak, rk_IsRoot = ak_IsRoot ak,
      rk_UserName = ak_UserName ak, rk_Status = ak_Status ak, rk_SessionToken = ak_SessionToken ak,
      rk_RoleARN = ak_RoleARN ak, rk_SessionName = ak_SessionName ak, rk_FederatedUser = ak_FederatedUser ak,
      rk_SessionPolicy = ak_SessionPolicy ak, rk_ExpiresAt = ak_ExpiresAt ak,
      rk_MFAAuthenticated = ak_MFAAuthenticated ak, rk_MFAAuthenticatedAt = ak_MFAAuthenticatedAt ak\<rparr>"

section \<open>Writing the rows\<close>

text \<open>The statements return the new rows, or \<open>None\<close> where they fail or affect no row.\<close>

definition user_key_row :: "string \<Rightarrow> string \<Rightarrow> string \<Rightarrow> string \<Rightarrow> key_row" where
  "user_key_row k account user sealed =
     \<lparr>kr_id = k, kr_account = account, kr_secret = sealed, kr_root = 0, kr_token = None, kr_role = None,
      kr_session = None, kr_expires = None, kr_user = Some user, kr_status = ''Active'', kr_policy = None,
      kr_federated = None, kr_mfa = 0, kr_mfa_at = None\<rparr>"

record MintTempOpts =
  mo_AccountID :: string
  mo_RoleARN :: string
  mo_SessionName :: string
  mo_UserName :: string
  mo_FederatedUser :: string
  mo_SessionPolicy :: string
  mo_Secret :: string
  mo_SessionToken :: string
  mo_Expires :: instant
  mo_IsRoot :: bool
  mo_MFAAuthenticated :: bool
  mo_MFAAuthenticatedAt :: instant

definition nullIfEmpty :: "string \<Rightarrow> string option" where
  "nullIfEmpty s = (if s = [] then None else Some s)"

definition temp_key_row :: "(string \<Rightarrow> string) \<Rightarrow> string \<Rightarrow> MintTempOpts \<Rightarrow> key_row" where
  "temp_key_row seal k opts =
     \<lparr>kr_id = k, kr_account = mo_AccountID opts, kr_secret = seal (mo_Secret opts),
      kr_root = (if mo_IsRoot opts then 1 else 0), kr_token = Some (seal (mo_SessionToken opts)),
      kr_role = nullIfEmpty (mo_RoleARN opts), kr_session = nullIfEmpty (mo_SessionName opts),
      kr_expires = Some (format_RFC3339 (mo_Expires opts)), kr_user = nullIfEmpty (mo_UserName opts),
      kr_status = ''Active'', kr_policy = nullIfEmpty (mo_SessionPolicy opts),
      kr_federated = nullIfEmpty (mo_FederatedUser opts), kr_mfa = (if mo_MFAAuthenticated opts then 1 else 0),
      kr_mfa_at = (if mo_MFAAuthenticated opts
                   then Some (format_RFC3339 (if mo_MFAAuthenticatedAt opts = zero_time then mo_Expires opts
                                              else mo_MFAAuthenticatedAt opts))
                   else None)\<rparr>"

definition MintTempCredentialsOpts ::
  "(string \<Rightarrow> string) \<Rightarrow> string \<Rightarrow> MintTempOpts \<Rightarrow> key_row list \<Rightarrow> key_row list option"
where
  "MintTempCredentialsOpts seal k opts rows = sql_insert kr_id (temp_key_row seal k opts) rows"

definition insert_user_key :: "string \<Rightarrow> string \<Rightarrow> string \<Rightarrow> string \<Rightarrow> key_row list \<Rightarrow> key_row list option" where
  "insert_user_key k account user sealed rows = sql_insert kr_id (user_key_row k account user sealed) rows"

definition delete_key_rows :: "string \<Rightarrow> key_row list \<Rightarrow> key_row list option" where
  "delete_key_rows k rows = sql_delete (\<lambda>r. kr_id r = k) rows"

definition delete_key_rows_in :: "string \<Rightarrow> string \<Rightarrow> key_row list \<Rightarrow> key_row list option" where
  "delete_key_rows_in account k rows = sql_delete (\<lambda>r. kr_id r = k \<and> kr_account r = account) rows"

definition valid_status :: "string \<Rightarrow> bool" where
  "valid_status st \<longleftrightarrow> st = ''Active'' \<or> st = ''Inactive''"

definition update_key_rows :: "string \<Rightarrow> string \<Rightarrow> key_row list \<Rightarrow> key_row list option" where
  "update_key_rows k st rows =
     (if \<not> valid_status st then None else sql_update (\<lambda>r. kr_id r = k) (\<lambda>r. r\<lparr>kr_status := st\<rparr>) rows)"

definition update_key_rows_in :: "string \<Rightarrow> string \<Rightarrow> string \<Rightarrow> key_row list \<Rightarrow> key_row list option" where
  "update_key_rows_in account k st rows =
     (if \<not> valid_status st then None
      else sql_update (\<lambda>r. kr_id r = k \<and> kr_account r = account) (\<lambda>r. r\<lparr>kr_status := st\<rparr>) rows)"

datatype key_write =
    DeleteKey string
  | DeleteKeyIn string string
  | UpdateKey string string
  | UpdateKeyIn string string string

fun written_key :: "key_write \<Rightarrow> string" where
  "written_key (DeleteKey k) = k"
| "written_key (DeleteKeyIn _ k) = k"
| "written_key (UpdateKey k _) = k"
| "written_key (UpdateKeyIn _ k _) = k"

fun write_rows :: "key_write \<Rightarrow> key_row list \<Rightarrow> key_row list option" where
  "write_rows (DeleteKey k) rows = delete_key_rows k rows"
| "write_rows (DeleteKeyIn account k) rows = delete_key_rows_in account k rows"
| "write_rows (UpdateKey k st) rows = update_key_rows k st rows"
| "write_rows (UpdateKeyIn account k st) rows = update_key_rows_in account k st rows"

section \<open>The cache\<close>

text \<open>
  A look-up first reads the cache under its lock (\<open>Hit\<close>, or \<open>Miss\<close> with the generation it saw), reads the
  row without the lock (\<open>Load\<close>, \<open>LoadFail\<close>), and takes the lock again to fill the cache where no
  invalidation raced (\<open>Fill\<close>). A write changes the rows (\<open>Write\<close>), then drops the entry and counts the
  generation up (\<open>Invalidate\<close>). Every step may fall between any two steps of other goroutines.

  The generation is a \<open>uint64\<close>; the state counts the invalidations and the code's counter is their
  number modulo $2^{64}$.
\<close>

datatype pending = Missed string nat | Loaded string nat AccessKey

record key_state =
  ks_rows :: "key_row list"
  ks_cache :: "string \<Rightarrow> AccessKey option"
  ks_invals :: nat
  ks_looking :: "pending list"
  ks_writing :: "string list"

definition generation :: "nat \<Rightarrow> 64 word" where
  "generation n = of_nat n"

definition fill :: "key_state \<Rightarrow> string \<Rightarrow> nat \<Rightarrow> AccessKey \<Rightarrow> key_state" where
  "fill s k g ak =
     (if generation (ks_invals s) = generation g then s\<lparr>ks_cache := (ks_cache s)(k \<mapsto> ak)\<rparr> else s)"

definition invalidateAccessKeyCache :: "key_state \<Rightarrow> string \<Rightarrow> key_state" where
  "invalidateAccessKeyCache s k =
     s\<lparr>ks_cache := (ks_cache s)(k := None), ks_invals := Suc (ks_invals s)\<rparr>"

datatype key_label =
    Hit string AccessKey
  | Miss string
  | Load string AccessKey
  | LoadFail string
  | Fill string AccessKey
  | Write key_write
  | Invalidate string
  | NewKey key_row

inductive key_step :: "unseal \<Rightarrow> key_state \<Rightarrow> key_label \<Rightarrow> key_state \<Rightarrow> bool" for unseal where
  hit: "ks_cache s k = Some ak \<Longrightarrow> key_step unseal s (Hit k ak) s"
| missed: "ks_cache s k = None \<Longrightarrow>
    key_step unseal s (Miss k) (s\<lparr>ks_looking := Missed k (ks_invals s) # ks_looking s\<rparr>)"
| loaded: "ks_looking s = ps @ Missed k g # qs \<Longrightarrow> loadAccessKeyRecordUncached unseal (ks_rows s) k = Some ak \<Longrightarrow>
    key_step unseal s (Load k ak) (s\<lparr>ks_looking := ps @ Loaded k g ak # qs\<rparr>)"
| load_failed: "ks_looking s = ps @ Missed k g # qs \<Longrightarrow> loadAccessKeyRecordUncached unseal (ks_rows s) k = None \<Longrightarrow>
    key_step unseal s (LoadFail k) (s\<lparr>ks_looking := ps @ qs\<rparr>)"
| filled: "ks_looking s = ps @ Loaded k g ak # qs \<Longrightarrow>
    key_step unseal s (Fill k ak) (fill (s\<lparr>ks_looking := ps @ qs\<rparr>) k g ak)"
| written: "write_rows w (ks_rows s) = Some rows \<Longrightarrow>
    key_step unseal s (Write w) (s\<lparr>ks_rows := rows, ks_writing := written_key w # ks_writing s\<rparr>)"
| invalidated: "ks_writing s = ps @ k # qs \<Longrightarrow>
    key_step unseal s (Invalidate k) (invalidateAccessKeyCache (s\<lparr>ks_writing := ps @ qs\<rparr>) k)"
| new_key: "sql_insert kr_id r (ks_rows s) = Some rows \<Longrightarrow>
    key_step unseal s (NewKey r) (s\<lparr>ks_rows := rows\<rparr>)"

inductive_cases key_stepE: "key_step unseal s l s'"

definition key_init :: "key_state \<Rightarrow> bool" where
  "key_init s \<longleftrightarrow>
     ks_cache s = Map.empty \<and> ks_invals s = 0 \<and> ks_looking s = [] \<and> ks_writing s = [] \<and>
     distinct (map kr_id (ks_rows s))"

section \<open>The whole look-up\<close>

text \<open>What the server passes to \<open>Verify\<close>, when no other goroutine interferes.\<close>

definition LookupAccessKeyRecord :: "unseal \<Rightarrow> key_state \<Rightarrow> string \<Rightarrow> AccessKey option \<times> key_state" where
  "LookupAccessKeyRecord unseal s k =
     (case ks_cache s k of
        Some ak \<Rightarrow> (Some ak, s)
      | None \<Rightarrow>
          (case loadAccessKeyRecordUncached unseal (ks_rows s) k of
             None \<Rightarrow> (None, s)
           | Some ak \<Rightarrow> (Some ak, fill s k (ks_invals s) ak)))"

definition lookupKey :: "unseal \<Rightarrow> key_state \<Rightarrow> KeyLookup" where
  "lookupKey unseal s k = map_option resolved_key (fst (LookupAccessKeyRecord unseal s k))"

end
