(* ===== verification/Access_Keys_Props.thy ===== *)
theory Access_Keys_Props
  imports Access_Keys
begin

text \<open>
  The access key cache is coherent: no look-up that begins after a key was deleted or deactivated is
  answered with the old record, whatever look-ups and writes of other goroutines interleave.
\<close>

abbreviation stored_key :: "unseal \<Rightarrow> key_state \<Rightarrow> string \<Rightarrow> AccessKey option" where
  "stored_key unseal s k \<equiv> loadAccessKeyRecordUncached unseal (ks_rows s) k"

lemma generation_inj: "m < 2 ^ 64 \<Longrightarrow> n < 2 ^ 64 \<Longrightarrow> generation m = generation n \<longleftrightarrow> m = n"
  by (auto simp: generation_def word_of_nat_eq_iff take_bit_nat_eq_self)

section \<open>What the statements do to one record\<close>

lemma write_rows_key:
  assumes "write_rows w rows = Some rows'" "k \<noteq> written_key w"
  shows "List.find (\<lambda>r. kr_id r = k) rows' = List.find (\<lambda>r. kr_id r = k) rows"
proof (cases w)
  case (DeleteKey x)
  then show ?thesis using assms
    by (auto simp: delete_key_rows_def sql_delete_def intro!: find_filter_other split: if_splits)
next
  case (DeleteKeyIn a x)
  then show ?thesis using assms
    by (auto simp: delete_key_rows_in_def sql_delete_def intro!: find_filter_other split: if_splits)
next
  case (UpdateKey x st)
  then show ?thesis using assms
    by (auto simp: update_key_rows_def sql_update_def intro!: find_map_other split: if_splits)
next
  case (UpdateKeyIn a x st)
  then show ?thesis using assms
    by (auto simp: update_key_rows_in_def sql_update_def intro!: find_map_other split: if_splits)
qed

lemma write_rows_stored:
  "write_rows w rows = Some rows' \<Longrightarrow> k \<noteq> written_key w \<Longrightarrow>
   loadAccessKeyRecordUncached unseal rows' k = loadAccessKeyRecordUncached unseal rows k"
  by (simp add: loadAccessKeyRecordUncached_def write_rows_key)

lemma new_key_stored:
  "sql_insert kr_id r rows = Some rows' \<Longrightarrow> loadAccessKeyRecordUncached unseal rows k = Some ak \<Longrightarrow>
   loadAccessKeyRecordUncached unseal rows' k = Some ak"
  by (auto simp: loadAccessKeyRecordUncached_def sql_insert_def find_append split: if_splits Option.bind_splits)

section \<open>The invariant\<close>

fun seen :: "pending \<Rightarrow> nat" where
  "seen (Missed k g) = g"
| "seen (Loaded k g ak) = g"

text \<open>A record held under the current generation is the stored one, or an invalidation of it is due.\<close>

definition coherent :: "unseal \<Rightarrow> key_state \<Rightarrow> bool" where
  "coherent unseal s \<longleftrightarrow>
     (\<forall>k ak. ks_cache s k = Some ak \<longrightarrow> stored_key unseal s k = Some ak \<or> k \<in> set (ks_writing s)) \<and>
     (\<forall>k ak. Loaded k (ks_invals s) ak \<in> set (ks_looking s) \<longrightarrow>
        stored_key unseal s k = Some ak \<or> k \<in> set (ks_writing s)) \<and>
     (\<forall>p\<in>set (ks_looking s). seen p \<le> ks_invals s)"

definition key_inv :: "unseal \<Rightarrow> key_state \<Rightarrow> bool" where
  "key_inv unseal s \<longleftrightarrow> (ks_invals s < 2 ^ 64 \<longrightarrow> coherent unseal s)"

lemma key_step_invals: "key_step unseal s l s' \<Longrightarrow> ks_invals s \<le> ks_invals s'"
  by (erule key_stepE) (auto simp: fill_def invalidateAccessKeyCache_def)

lemma coherent_fill:
  assumes "coherent unseal s" "ks_invals s < 2 ^ 64" "ks_looking s = ps @ Loaded k g ak # qs"
  shows "coherent unseal (fill (s\<lparr>ks_looking := ps @ qs\<rparr>) k g ak)"
proof (cases "g = ks_invals s")
  case True
  then show ?thesis using assms by (auto simp: coherent_def fill_def)
next
  case False
  have "g \<le> ks_invals s" using assms(1,3) by (auto simp: coherent_def)
  then have "generation (ks_invals s) \<noteq> generation g"
    using False assms(2) by (subst generation_inj) auto
  then show ?thesis using assms(1,3) by (auto simp: coherent_def fill_def)
qed

lemma coherent_write:
  assumes "coherent unseal s" "write_rows w (ks_rows s) = Some rows"
  shows "coherent unseal (s\<lparr>ks_rows := rows, ks_writing := written_key w # ks_writing s\<rparr>)"
  unfolding coherent_def
proof (intro conjI allI impI)
  have other: "k = written_key w \<or> loadAccessKeyRecordUncached unseal rows k = stored_key unseal s k" for k
    using write_rows_stored [OF assms(2), of k unseal] by auto
  let ?s = "s\<lparr>ks_rows := rows, ks_writing := written_key w # ks_writing s\<rparr>"
  show "stored_key unseal ?s k = Some ak \<or> k \<in> set (ks_writing ?s)" if "ks_cache ?s k = Some ak" for k ak
    using that assms(1) other [of k] by (cases "k = written_key w") (auto simp: coherent_def)
  show "stored_key unseal ?s k = Some ak \<or> k \<in> set (ks_writing ?s)"
    if "Loaded k (ks_invals ?s) ak \<in> set (ks_looking ?s)" for k ak
    using that assms(1) other [of k] by (cases "k = written_key w") (auto simp: coherent_def)
  show "\<forall>p\<in>set (ks_looking ?s). seen p \<le> ks_invals ?s"
    using assms(1) by (simp add: coherent_def)
qed

lemma coherent_invalidate:
  assumes "coherent unseal s" "ks_writing s = ps @ k # qs"
  shows "coherent unseal (invalidateAccessKeyCache (s\<lparr>ks_writing := ps @ qs\<rparr>) k)"
proof -
  have "Loaded x (Suc (ks_invals s)) ak \<notin> set (ks_looking s)" for x ak
    using assms(1) by (force simp: coherent_def)
  then show ?thesis using assms by (force simp: coherent_def invalidateAccessKeyCache_def)
qed

lemma coherent_new_key:
  assumes "coherent unseal s" "sql_insert kr_id r (ks_rows s) = Some rows"
  shows "coherent unseal (s\<lparr>ks_rows := rows\<rparr>)"
  using assms(1) new_key_stored [OF assms(2)] by (fastforce simp: coherent_def)

lemma coherent_step:
  assumes "coherent unseal s" "ks_invals s < 2 ^ 64" "key_step unseal s l s'"
  shows "coherent unseal s'"
  using assms(3)
proof (cases rule: key_step.cases)
  case (hit k ak)
  then show ?thesis using assms(1) by simp
next
  case (missed k)
  then show ?thesis using assms(1) by (auto simp: coherent_def)
next
  case (loaded ps k g qs ak)
  then show ?thesis using assms(1) by (auto simp: coherent_def)
next
  case (load_failed ps k g qs)
  then show ?thesis using assms(1) by (auto simp: coherent_def)
next
  case (filled ps k g ak qs)
  then show ?thesis using coherent_fill [OF assms(1,2)] by simp
next
  case (written w rows)
  then show ?thesis using coherent_write [OF assms(1)] by simp
next
  case (invalidated ps k qs)
  then show ?thesis using coherent_invalidate [OF assms(1)] by simp
next
  case (new_key r rows)
  then show ?thesis using coherent_new_key [OF assms(1)] by simp
qed

interpretation keys: invariant_system key_init "key_step unseal" "key_inv unseal" for unseal
proof unfold_locales
  show "key_inv unseal s" if "key_init s" for s
    using that by (simp add: key_inv_def coherent_def key_init_def)
  show "key_inv unseal s'" if "key_inv unseal s" "key_step unseal s l s'" for s l s'
    using that coherent_step key_step_invals [OF that(2)] by (auto simp: key_inv_def)
qed

section \<open>No stale answer\<close>

text \<open>The answer a look-up that begins or reads the row now gives.\<close>

fun answer :: "key_label \<Rightarrow> (string \<times> AccessKey) option" where
  "answer (Hit k ak) = Some (k, ak)"
| "answer (Load k ak) = Some (k, ak)"
| "answer _ = None"

lemma answer_step:
  assumes "coherent unseal s" "key_step unseal s l s'" "answer l = Some (k, ak)" "k \<notin> set (ks_writing s)"
  shows "stored_key unseal s k = Some ak"
  using assms(2) by (cases rule: key_step.cases) (use assms(1,3,4) in \<open>auto simp: coherent_def\<close>)

text \<open>C38. Whatever look-ups, writes and invalidations interleaved before, a look-up that hits the cache
  or reads the row while no write of this key is unfinished gets the record the table holds now, as long
  as fewer than $2^{64}$ invalidations have happened.\<close>
theorem no_stale_key:
  assumes "reachable key_init (key_step unseal) s" "ks_invals s < 2 ^ 64"
    and "key_step unseal s l s'" "answer l = Some (k, ak)" "k \<notin> set (ks_writing s)"
  shows "loadAccessKeyRecordUncached unseal (ks_rows s) k = Some ak"
  using keys.reachable_inv [OF assms(1)] assms(2-5) answer_step by (auto simp: key_inv_def)

section \<open>Deactivated keys\<close>

definition deactivated :: "string \<Rightarrow> key_state \<Rightarrow> bool" where
  "deactivated k s \<longleftrightarrow>
     k \<notin> set (ks_writing s) \<and> (\<exists>r. List.find (\<lambda>r. kr_id r = k) (ks_rows s) = Some r \<and> kr_status r = ''Inactive'')"

fun writes_key :: "string \<Rightarrow> key_label \<Rightarrow> bool" where
  "writes_key k (Write w) = (written_key w = k)"
| "writes_key k _ = False"

lemma record_of_status: "record_of unseal r = Some ak \<Longrightarrow> kr_status r = ''Inactive'' \<Longrightarrow> ak_Status ak = ''Inactive''"
  by (auto simp: record_of_def split: Option.bind_splits if_splits)

lemma deactivated_step:
  assumes "deactivated k s" "key_step unseal s l s'" "\<not> writes_key k l"
  shows "deactivated k s'"
  using assms(2)
proof (cases rule: key_step.cases)
  case (written w rows)
  then show ?thesis using assms(1,3) write_rows_key [of w "ks_rows s" rows k] by (auto simp: deactivated_def)
next
  case (new_key r rows)
  then show ?thesis using assms(1) by (auto simp: deactivated_def sql_insert_def find_append split: if_splits)
qed (use assms(1) in \<open>auto simp: deactivated_def fill_def invalidateAccessKeyCache_def\<close>)

lemma run_invals: "run (key_step unseal) s ls s' \<Longrightarrow> ks_invals s \<le> ks_invals s'"
  by (induction rule: run.induct) (auto dest: key_step_invals)

lemma deactivated_run:
  assumes "run (key_step unseal) s ls s'" "key_inv unseal s" "deactivated k s" "ks_invals s' < 2 ^ 64"
    and "\<forall>l\<in>set ls. \<not> writes_key k l"
  shows "\<forall>l\<in>set ls. \<forall>ak. answer l = Some (k, ak) \<longrightarrow> ak_Status ak = ''Inactive''"
  using assms
proof (induction rule: run.induct)
  case (run_Cons s l s' ls s'')
  have lt: "ks_invals s < 2 ^ 64"
    using run_invals [OF run_Cons.hyps(2)] key_step_invals [OF run_Cons.hyps(1)] run_Cons.prems(3) by linarith
  have here: "ak_Status ak = ''Inactive''" if "answer l = Some (k, ak)" for ak
  proof -
    have "stored_key unseal s k = Some ak"
      using answer_step [OF _ run_Cons.hyps(1) that] run_Cons.prems(1,2) lt by (auto simp: key_inv_def deactivated_def)
    then show ?thesis
      using run_Cons.prems(2) record_of_status
      by (auto simp: deactivated_def loadAccessKeyRecordUncached_def)
  qed
  have "deactivated k s'" using deactivated_step [OF run_Cons.prems(2) run_Cons.hyps(1)] run_Cons.prems(4) by simp
  then have "\<forall>l\<in>set ls. \<forall>ak. answer l = Some (k, ak) \<longrightarrow> ak_Status ak = ''Inactive''"
    using run_Cons keys.inv_step by auto
  then show ?case using here by simp
qed simp

lemma Verify_inactive:
  assumes "Verify (Some r) body now skew (Some lookup) = Inr v" "lookup k = Some (resolved_key ak)"
    and "ak_Status ak = ''Inactive''"
  shows "vf_AccessKeyID v \<noteq> k"
  using assms
  by (auto simp: Verify_def verify_request_def verify_credentials_def verified_of_def resolved_key_def
      split: sum.splits option.splits if_splits)

text \<open>C39. Once a deactivation of a key has returned and until another write of the key, every look-up that
  hits the cache or reads the row, however the look-ups and writes of other goroutines interleave, is
  answered with a record under which \<open>Verify\<close> accepts no request that names this key.\<close>
theorem deactivated_key_refused:
  assumes "reachable key_init (key_step unseal) s" "deactivated k s"
    and "run (key_step unseal) s ls s'" "ks_invals s' < 2 ^ 64" "\<forall>l\<in>set ls. \<not> writes_key k l"
    and "l \<in> set ls" "answer l = Some (k, ak)" "lookup k = Some (resolved_key ak)"
    and "Verify (Some r) body now skew (Some lookup) = Inr v"
  shows "vf_AccessKeyID v \<noteq> k"
  using deactivated_run [OF assms(3) keys.reachable_inv [OF assms(1)] assms(2,4,5)] assms(6,7)
    Verify_inactive [OF assms(9,8)] by blast

section \<open>The cache as an optimisation\<close>

text \<open>When no other goroutine interferes, the cached look-up answers exactly what reading the row
  answers, and leaves the cache coherent.\<close>
theorem cached_lookup_is_load:
  assumes "reachable key_init (key_step unseal) s" "ks_invals s < 2 ^ 64" "k \<notin> set (ks_writing s)"
  shows "fst (LookupAccessKeyRecord unseal s k) = loadAccessKeyRecordUncached unseal (ks_rows s) k \<and>
    reachable key_init (key_step unseal) (snd (LookupAccessKeyRecord unseal s k))"
proof (cases "ks_cache s k")
  case (Some ak)
  then have "stored_key unseal s k = Some ak"
    using keys.reachable_inv [OF assms(1)] assms(2,3) by (auto simp: key_inv_def coherent_def)
  then show ?thesis using Some assms(1) by (simp add: LookupAccessKeyRecord_def)
next
  case None
  show ?thesis
  proof (cases "stored_key unseal s k")
    case None
    then show ?thesis using \<open>ks_cache s k = None\<close> assms(1) by (simp add: LookupAccessKeyRecord_def)
  next
    case (Some ak)
    let ?s1 = "s\<lparr>ks_looking := Missed k (ks_invals s) # ks_looking s\<rparr>"
    let ?s2 = "?s1\<lparr>ks_looking := [] @ Loaded k (ks_invals s) ak # ks_looking s\<rparr>"
    have "reachable key_init (key_step unseal) ?s1"
      using assms(1) None by (auto intro: reach_step missed)
    moreover have "key_step unseal ?s1 (Load k ak) ?s2"
      by (rule loaded [of _ "[]" _ "ks_invals s" "ks_looking s"]) (simp_all add: Some)
    ultimately have "reachable key_init (key_step unseal) ?s2" by (rule reach_step)
    moreover have "key_step unseal ?s2 (Fill k ak) (fill (?s2\<lparr>ks_looking := [] @ ks_looking s\<rparr>) k (ks_invals s) ak)"
      by (rule filled) simp
    ultimately have "reachable key_init (key_step unseal) (fill (?s2\<lparr>ks_looking := [] @ ks_looking s\<rparr>) k (ks_invals s) ak)"
      by (rule reach_step)
    then show ?thesis using \<open>ks_cache s k = None\<close> Some by (simp add: LookupAccessKeyRecord_def)
  qed
qed

end
