(* ===== verification/Sigv4_Props.thy ===== *)
theory Sigv4_Props
  imports Sigv4
begin

text \<open>
  What request authentication guarantees: \<open>Verify\<close> against its specification, what a signature binds,
  that a client which signs as documented is accepted, and where the clock check fails.
\<close>

section \<open>Percent encoding\<close>

lemma uriEncode_Cons:
  "uriEncode (c # s) b = (if unreserved c \<or> c = CHR ''/'' \<and> \<not> b then [c] else percent c) @ uriEncode s b"
  by (simp add: uriEncode_def)

lemma unescape_uriEncode: "unescape q (uriEncode s b) = Some s"
proof (induction s)
  case Nil
  then show ?case by (simp add: uriEncode_def)
next
  case (Cons c s)
  then show ?case using unescape_plain [of c q "uriEncode s b"]
    by (cases "c = CHR ''/''"; cases b) (simp_all add: uriEncode_Cons del: unescape.simps)
qed

lemma uriEncode_inj: "uriEncode s b = uriEncode t b \<longleftrightarrow> s = t"
  by (metis option.inject unescape_uriEncode)

lemma uriEncode_chars: "x \<in> set (uriEncode s True) \<Longrightarrow> x = CHR ''%'' \<or> unreserved x"
  unfolding uriEncode_def using percent_set by (induction s) (auto split: if_splits)

lemma uriEncode_plain:
  "CHR ''='' \<notin> set (uriEncode s True)" "CHR ''&'' \<notin> set (uriEncode s True)" "CHR 0x0A \<notin> set (uriEncode s True)"
  using uriEncode_chars [of _ s] unreserved_plain by fastforce+

section \<open>The path\<close>

lemma path_byte_plain: "path_byte c \<Longrightarrow> unescape False (c # s) = map_option (Cons c) (unescape False s)"
  using not_unreserved(1) by (auto simp: path_byte_def)

lemma unescape_escape_path: "unescape False (escape_path s) = Some s"
proof (induction s)
  case (Cons c s)
  then show ?case
    using path_byte_plain [of c "escape_path s"] by (cases "path_byte c") (simp_all add: escape_path_def del: unescape.simps)
qed (simp add: escape_path_def)

lemma unescape_EscapedPath: "unescape False (EscapedPath r) = Some (rq_Path r)"
  by (simp add: EscapedPath_def unescape_escape_path)

lemma escape_path_line: "CHR 0x0A \<notin> set (escape_path s)"
proof -
  have nl: "\<not> path_byte (CHR 0x0A)" by code_simp
  have "CHR 0x0A \<notin> set (percent c)" for c using percent_set [of c] not_unreserved(6) by auto
  then show ?thesis using nl by (induction s) (auto simp: escape_path_def)
qed

lemma EscapedPath_line: "CHR 0x0A \<notin> set (EscapedPath r)"
proof -
  have "\<not> (CHR 0x0A \<in> set ''!$&()*+,;=:@[]%'' \<or> CHR 0x0A = CHR 0x27 \<or> path_byte (CHR 0x0A))" by code_simp
  then have "CHR 0x0A \<notin> set (rq_RawPath r)" if "validEncoded (rq_RawPath r)"
    using that unfolding validEncoded_def list_all_iff by blast
  then show ?thesis using escape_path_line by (simp add: EscapedPath_def)
qed

definition slash_path :: "http_request \<Rightarrow> bool" where
  "slash_path r \<longleftrightarrow> HasPrefix (rq_Path r) ''/'' \<and> (rq_RawPath r = [] \<or> HasPrefix (rq_RawPath r) ''/'')"

lemma canonicalURI_slash: "slash_path r \<Longrightarrow> canonicalURI r = EscapedPath r"
proof -
  assume s: "slash_path r"
  then obtain cs where p: "rq_Path r = CHR ''/'' # cs" by (auto simp: slash_path_def HasPrefix_def prefix_def)
  have "path_byte (CHR ''/'')" by code_simp
  then have "HasPrefix (escape_path (rq_Path r)) ''/''" by (simp add: p escape_path_def HasPrefix_def)
  then have "HasPrefix (EscapedPath r) ''/''" using s p by (auto simp: EscapedPath_def slash_path_def)
  moreover have "EscapedPath r \<noteq> []" using calculation by (auto simp: HasPrefix_def)
  ultimately show ?thesis by (simp add: canonicalURI_def)
qed

lemma canonicalURI_path: "slash_path r \<Longrightarrow> slash_path r' \<Longrightarrow> canonicalURI r = canonicalURI r' \<Longrightarrow> rq_Path r = rq_Path r'"
  by (metis canonicalURI_slash option.inject unescape_EscapedPath)

section \<open>The query\<close>

definition signed_query :: "http_request \<Rightarrow> bool \<Rightarrow> (string \<times> string) list" where
  "signed_query r queryAuth = filter (\<lambda>(k, v). \<not> (queryAuth \<and> EqualFold k ''X-Amz-Signature'')) (URL_Query r)"

definition encode_pair :: "string \<times> string \<Rightarrow> string \<times> string" where
  "encode_pair = (\<lambda>(k, v). (uriEncode k True, uriEncode v True))"

definition print_pair :: "string \<times> string \<Rightarrow> string" where
  "print_pair = (\<lambda>(k, v). k @ ''='' @ v)"

lemma canonicalQueryString_eq:
  "canonicalQueryString r qa = Join (map print_pair (sort (map encode_pair (signed_query r qa)))) ''&''"
  by (simp add: canonicalQueryString_def signed_query_def encode_pair_def print_pair_def)

lemma Join_inj:
  assumes "\<forall>p\<in>set ps \<union> set qs. p \<noteq> [] \<and> c \<notin> set p" "Join ps [c] = Join qs [c]"
  shows "ps = qs"
proof (cases "ps = [] \<or> qs = []")
  case True
  have e: "Join xs [c] = [] \<Longrightarrow> \<forall>p\<in>set xs. p \<noteq> [] \<Longrightarrow> xs = []" for xs
    by (induction xs "[c]" rule: Join.induct) auto
  show ?thesis using True e [of ps] e [of qs] assms by auto
next
  case False
  then have "Split (Join ps [c]) c = ps" "Split (Join qs [c]) c = qs"
    using assms(1) by (auto intro: Split_Join)
  then show ?thesis using assms(2) by metis
qed

lemma encoded_print:
  "Cut (print_pair (encode_pair p)) (CHR ''='') = (fst (encode_pair p), snd (encode_pair p), True)"
  "CHR ''&'' \<notin> set (print_pair (encode_pair p))" "CHR 0x0A \<notin> set (print_pair (encode_pair p))"
  "print_pair (encode_pair p) \<noteq> []"
proof -
  obtain k v where p: "p = (k, v)" by (cases p)
  have e: "print_pair (encode_pair p) = uriEncode k True @ CHR ''='' # uriEncode v True"
    by (simp add: p encode_pair_def print_pair_def)
  show "Cut (print_pair (encode_pair p)) (CHR ''='') = (fst (encode_pair p), snd (encode_pair p), True)"
    unfolding e using uriEncode_plain(1) [of k] by (simp add: Cut_append p encode_pair_def)
  show "CHR ''&'' \<notin> set (print_pair (encode_pair p))" "CHR 0x0A \<notin> set (print_pair (encode_pair p))"
    "print_pair (encode_pair p) \<noteq> []"
    unfolding e using uriEncode_plain [of k] uriEncode_plain [of v] by simp_all
qed

lemma canonicalQuery_iff:
  "canonicalQueryString r qa = canonicalQueryString r' qa' \<longleftrightarrow> mset (signed_query r qa) = mset (signed_query r' qa')"
proof
  let ?l = "\<lambda>r qa. sort (map encode_pair (signed_query r qa))"
  assume "canonicalQueryString r qa = canonicalQueryString r' qa'"
  then have "map print_pair (?l r qa) = map print_pair (?l r' qa')"
    unfolding canonicalQueryString_eq by (intro Join_inj) (auto simp: encoded_print)
  have "inj_on print_pair (range encode_pair)"
  proof (rule inj_onI)
    fix p q assume "p \<in> range encode_pair" "q \<in> range encode_pair" "print_pair p = print_pair q"
    then show "p = q" using encoded_print(1) by (metis imageE prod.inject prod_eqI)
  qed
  then have "inj_on print_pair (set (?l r qa) \<union> set (?l r' qa'))" by (rule inj_on_subset) auto
  with \<open>map print_pair (?l r qa) = map print_pair (?l r' qa')\<close> have "?l r qa = ?l r' qa'" by (rule map_inj_on)
  then have "image_mset encode_pair (mset (signed_query r qa)) = image_mset encode_pair (mset (signed_query r' qa'))"
    by (metis mset_map mset_sort)
  moreover have "inj encode_pair" by (auto simp: inj_on_def encode_pair_def uriEncode_inj)
  ultimately show "mset (signed_query r qa) = mset (signed_query r' qa')"
    by (metis injD multiset.inj_map)
next
  assume "mset (signed_query r qa) = mset (signed_query r' qa')"
  then have "sort (map encode_pair (signed_query r qa)) = sort (map encode_pair (signed_query r' qa'))"
    by (intro properties_for_sort) simp_all
  then show "canonicalQueryString r qa = canonicalQueryString r' qa'" by (simp add: canonicalQueryString_eq)
qed

section \<open>The canonical request binds what was signed\<close>

lemma Split_lines: "\<forall>l\<in>set ls. c \<notin> set l \<Longrightarrow> Split (concat (map (\<lambda>l. l @ [c]) ls) @ s) c = ls @ Split s c"
  by (induction ls) (auto simp: Split_append_sep)

definition header_line :: "http_request \<Rightarrow> string \<Rightarrow> string" where
  "header_line r n = n @ '':'' @ headerValue r n"

definition http_verb :: "http_request \<Rightarrow> string" where
  "http_verb r = (if rq_Method r = [] then ''GET'' else rq_Method r)"

text \<open>
  A request as it comes off the wire: no line break in its method, in a signed header or in the payload
  hash; the path starts with a slash. \<open>extractAuth\<close> splits the signed names at the semicolons.
\<close>

definition wire_request :: "http_request \<Rightarrow> string list \<Rightarrow> string \<Rightarrow> bool" where
  "wire_request r names h \<longleftrightarrow>
     slash_path r \<and> CHR 0x0A \<notin> set (http_verb r) \<and> CHR 0x0A \<notin> set h \<and>
     list_all (\<lambda>n. n \<noteq> [] \<and> CHR '';'' \<notin> set n \<and> CHR 0x0A \<notin> set n \<and> CHR 0x0A \<notin> set (headerValue r n)) names"

lemma canonicalQuery_line: "CHR 0x0A \<notin> set (canonicalQueryString r qa)"
proof -
  have "CHR 0x0A \<notin> set (Join ps ''&'')" if "\<forall>p\<in>set ps. CHR 0x0A \<notin> set p" for ps
    using that by (induction ps "''&''" rule: Join.induct) auto
  then show ?thesis unfolding canonicalQueryString_eq by (auto simp: encoded_print(3))
qed

lemma Join_line: "\<forall>n\<in>set ns. CHR 0x0A \<notin> set n \<Longrightarrow> CHR 0x0A \<notin> set (Join ns '';'')"
  by (induction ns "'';''" rule: Join.induct) auto

lemma canonical_lines:
  assumes w: "wire_request r (signed_names (am_signedHeaders mat)) h"
  defines "ns \<equiv> signed_names (am_signedHeaders mat)"
  shows "Split (buildCanonicalRequest r mat h) (CHR 0x0A) =
    [http_verb r, canonicalURI r, canonicalQueryString r (am_queryAuth mat)] @ map (header_line r) ns @ [[], Join ns '';'', h]"
proof -
  let ?nl = "CHR 0x0A" and ?q = "canonicalQueryString r (am_queryAuth mat)"
  have lines: "\<forall>l\<in>set (map (header_line r) ns). ?nl \<notin> set l"
    using w by (auto simp: wire_request_def list_all_iff header_line_def ns_def)
  have free: "?nl \<notin> set (http_verb r)" "?nl \<notin> set (canonicalURI r)" "?nl \<notin> set ?q" "?nl \<notin> set (Join ns '';'')" "?nl \<notin> set h"
    using w EscapedPath_line canonicalQuery_line Join_line [of ns]
    by (auto simp: wire_request_def list_all_iff canonicalURI_slash ns_def)
  have "buildCanonicalRequest r mat h =
      http_verb r @ ?nl # canonicalURI r @ ?nl # ?q @ ?nl #
      (concat (map (\<lambda>l. l @ [?nl]) (map (header_line r) ns)) @ ?nl # Join ns '';'' @ ?nl # h)"
    by (simp add: buildCanonicalRequest_def canonicalHeaders_def http_verb_def header_line_def comp_def ns_def)
  then show ?thesis
    using free by (simp add: Split_append_sep Split_lines [OF lines] Split_single del: map_map)
qed

text \<open>C37. What a signature binds: two requests with the same canonical request (the text that is hashed and
  signed) have the same method, path, query parameters (as a multiset; all but the signature itself in a presigned
  URL), signed headers with the same values, and payload hash.\<close>

theorem canonical_request_binds:
  assumes w: "wire_request r (signed_names (am_signedHeaders mat)) h"
    and w': "wire_request r' (signed_names (am_signedHeaders mat')) h'"
    and eq: "buildCanonicalRequest r mat h = buildCanonicalRequest r' mat' h'"
  shows "http_verb r = http_verb r' \<and> rq_Path r = rq_Path r' \<and>
    mset (signed_query r (am_queryAuth mat)) = mset (signed_query r' (am_queryAuth mat')) \<and>
    signed_names (am_signedHeaders mat) = signed_names (am_signedHeaders mat') \<and>
    map (headerValue r) (signed_names (am_signedHeaders mat)) = map (headerValue r') (signed_names (am_signedHeaders mat)) \<and>
    h = h'"
proof -
  let ?ns = "signed_names (am_signedHeaders mat)" and ?ns' = "signed_names (am_signedHeaders mat')"
  have lines: "http_verb r = http_verb r'" "canonicalURI r = canonicalURI r'"
      "canonicalQueryString r (am_queryAuth mat) = canonicalQueryString r' (am_queryAuth mat')"
    and "map (header_line r) ?ns @ [[], Join ?ns '';'', h] = map (header_line r') ?ns' @ [[], Join ?ns' '';'', h']"
    using canonical_lines [OF w] canonical_lines [OF w'] eq by auto
  then have tail: "map (header_line r) ?ns = map (header_line r') ?ns'" "Join ?ns '';'' = Join ?ns' '';''" "h = h'"
    by auto
  have names: "?ns = ?ns'"
    using tail(2) w w' by (intro Join_inj [where c = "CHR '';''"]) (auto simp: wire_request_def list_all_iff)
  have "map (headerValue r) ?ns = map (headerValue r') ?ns"
    using tail(1) unfolding names [symmetric] by (simp add: header_line_def)
  then show ?thesis
    using lines names tail(3) canonicalQuery_iff canonicalURI_path w w' by (auto simp: wire_request_def)
qed

section \<open>The clock\<close>

text \<open>
  The difference saturates at the smallest duration and negating that wraps, so a request dated 2^63
  nanoseconds (292 years) or more ahead of the clock passes every bound.
\<close>

definition clock_ok :: "instant \<Rightarrow> instant \<Rightarrow> int \<Rightarrow> bool" where
  "clock_ok now t skew \<longleftrightarrow> \<bar>now - t\<bar> \<le> max 0 skew \<or> 2 ^ 63 \<le> t - now"

lemma clock_delta_le:
  assumes "skew < 2 ^ 63 - 1"
  shows "\<not> (if skew < 0 then 0 else skew) < clock_delta now t \<longleftrightarrow> clock_ok now t skew"
proof -
  consider "2 ^ 63 \<le> t - now" | "2 ^ 63 \<le> now - t" | "\<bar>now - t\<bar> < 2 ^ 63" by linarith
  then show ?thesis
  proof cases
    case 1
    then have "clock_delta now t = - (2 ^ 63)" by (simp add: clock_delta_def time_sub_def wrap64_def)
    then show ?thesis using 1 by (simp add: clock_ok_def)
  next
    case 2
    then have "clock_delta now t = 2 ^ 63 - 1" by (simp add: clock_delta_def time_sub_def)
    then show ?thesis using 2 assms by (simp add: clock_ok_def)
  next
    case 3
    then have "time_sub now t = now - t" by (simp add: time_sub_def)
    moreover have "wrap64 (t - now) = t - now" if "now < t" using 3 that by (intro wrap64_id) auto
    ultimately have "clock_delta now t = \<bar>now - t\<bar>" by (simp add: clock_delta_def Let_def)
    then show ?thesis using 3 by (auto simp: clock_ok_def)
  qed
qed

section \<open>The specification of Verify\<close>

definition presign_ok :: "authMaterial \<Rightarrow> instant \<Rightarrow> instant \<Rightarrow> bool" where
  "presign_ok mat now t \<longleftrightarrow>
     \<not> am_queryAuth mat \<or> am_expires mat = [] \<or>
     (\<exists>s. Atoi (am_expires mat) = Some s \<and> 0 \<le> s \<and> s \<le> 604800 \<and> now \<le> t + s * ns_sec)"

definition key_ok :: "ResolvedKey \<Rightarrow> instant \<Rightarrow> bool" where
  "key_ok cred now \<longleftrightarrow>
     rk_AccountID cred \<noteq> [] \<and> rk_Secret cred \<noteq> [] \<and> rk_Status cred \<in> {[], ''Active''} \<and>
     (rk_ExpiresAt cred = zero_time \<or> now \<le> rk_ExpiresAt cred)"

definition signature_ok :: "http_request \<Rightarrow> string \<Rightarrow> authMaterial \<Rightarrow> ResolvedKey \<Rightarrow> bool" where
  "signature_ok r body mat cred \<longleftrightarrow>
     (\<exists>h. resolvePayloadHash r body mat = Inr h \<and>
          ToLower (am_signature mat) = ToLower (signature r mat (rk_Secret cred) h))"

definition accepts ::
  "http_request \<Rightarrow> string \<Rightarrow> instant \<Rightarrow> int \<Rightarrow> KeyLookup \<Rightarrow> authMaterial \<Rightarrow> ResolvedKey \<Rightarrow> instant \<Rightarrow> bool"
where
  "accepts r body now skew lookup mat cred t \<longleftrightarrow>
     extractAuth r = Inr mat \<and> signedHeadersIncludeHost (am_signedHeaders mat) \<and>
     parse_basic (am_amzDate mat) = Some t \<and> take 8 (am_amzDate mat) = am_date mat \<and>
     clock_ok now t skew \<and> presign_ok mat now t \<and>
     lookup (am_accessKeyID mat) = Some cred \<and> key_ok cred now \<and> check_token r cred \<and> signature_ok r body mat cred"

lemma digits_n_length: "digits_n n s acc = Some (x, r) \<Longrightarrow> length s = n + length r"
  by (induction n s acc rule: digits_n.induct) (auto split: if_splits)

lemma parse_basic_length: "parse_basic s = Some t \<Longrightarrow> 8 \<le> length s"
  unfolding parse_basic_def parse_time_def
  by (auto simp: literal_def bind_eq_Some_conv split: prod.splits dest!: digits_n_length)

lemma check_expires_None: "check_expires mat now t = None \<longleftrightarrow> presign_ok mat now t"
  by (auto simp: check_expires_def presign_ok_def not_less split: option.splits if_splits)

lemma verify_credentials_ok:
  "verify_credentials r body now lookup mat = Inr v \<longleftrightarrow>
     (\<exists>cred. lookup (am_accessKeyID mat) = Some cred \<and> key_ok cred now \<and> check_token r cred \<and>
        signature_ok r body mat cred \<and> v = verified_of mat cred)"
  by (auto simp: verify_credentials_def key_ok_def signature_ok_def not_less split: option.splits sum.splits)

lemma verify_request_ok:
  assumes "skew < 2 ^ 63 - 1"
  shows "verify_request r body now skew lookup = Inr v \<longleftrightarrow>
    (\<exists>mat cred t. accepts r body now skew lookup mat cred t \<and> v = verified_of mat cred)"
proof (cases "extractAuth r")
  case (Inl e)
  then show ?thesis by (simp add: verify_request_def accepts_def)
next
  case (Inr mat)
  show ?thesis
  proof (cases "parse_basic (am_amzDate mat)")
    case None
    then show ?thesis using Inr by (simp add: verify_request_def accepts_def)
  next
    case (Some t)
    have "verify_request r body now skew lookup = Inr v \<longleftrightarrow>
        signedHeadersIncludeHost (am_signedHeaders mat) \<and>
        \<not> (if skew < 0 then 0 else skew) < clock_delta now t \<and> check_expires mat now t = None \<and>
        take 8 (am_amzDate mat) = am_date mat \<and> verify_credentials r body now lookup mat = Inr v"
      using Inr Some parse_basic_length [OF Some] by (auto simp: verify_request_def split: option.splits)
    then show ?thesis
      unfolding clock_delta_le [OF assms] check_expires_None verify_credentials_ok
      using Inr Some by (auto simp: accepts_def)
  qed
qed


lemma Verify_Some: "Verify (Some r) body now skew (Some lookup) = verify_request r body now skew lookup"
  by (simp add: Verify_def)

text \<open>A request dated 292 years or more ahead never goes stale: if it is accepted once, it is accepted at
  every other time that is also 292 years or more before its date, as long as the key has not expired; the
  15-minute window and the expiry of a presigned URL do not stop it.\<close>

theorem future_date_never_stale:
  assumes "skew < 2 ^ 63 - 1" "Verify (Some r) body now skew (Some lookup) = Inr v"
    and "extractAuth r = Inr mat" "parse_basic (am_amzDate mat) = Some t"
    and "2 ^ 63 \<le> t - now'" "lookup (am_accessKeyID mat) = Some cred" "rk_ExpiresAt cred = zero_time"
  shows "Verify (Some r) body now' skew (Some lookup) = Inr v"
proof -
  from assms(2) obtain mat' cred' t' where a: "accepts r body now skew lookup mat' cred' t'" "v = verified_of mat' cred'"
    unfolding Verify_Some verify_request_ok [OF assms(1)] by blast
  then have e: "mat' = mat" "cred' = cred" "t' = t" using assms(3,4,6) by (auto simp: accepts_def)
  have "presign_ok mat now' t"
    using a(1) assms(5) by (auto simp: accepts_def e presign_ok_def time_simps)
  moreover have "key_ok cred now'" using a(1) assms(7) by (auto simp: accepts_def e key_ok_def)
  moreover have "clock_ok now' t skew" using assms(5) by (simp add: clock_ok_def)
  ultimately have "accepts r body now' skew lookup mat cred t" using a(1) by (simp add: accepts_def e)
  then show ?thesis unfolding Verify_Some verify_request_ok [OF assms(1)] using a(2) e by blast
qed

text \<open>The body is bound: if a request with a claimed content hash for a service other than S3 is accepted with
  two bodies, the bodies have the same SHA-256.\<close>

theorem body_bound:
  assumes "skew < 2 ^ 63 - 1" "extractAuth r = Inr mat" "\<not> EqualFold (am_service mat) ''s3''" "claimedContentSHA256 r \<noteq> []"
    and "Verify (Some r) body now skew (Some lookup) = Inr v" "Verify (Some r) body' now' skew (Some lookup') = Inr v'"
  shows "EqualFold (bodySHA256Hex body) (bodySHA256Hex body')"
proof -
  have "EqualFold (claimedContentSHA256 r) (bodySHA256Hex b)"
    if V: "Verify (Some r) b n skew (Some l) = Inr w" for b n l w
  proof -
    obtain h where "resolvePayloadHash r b mat = Inr h"
      using V assms(2) unfolding Verify_Some verify_request_ok [OF assms(1)] by (auto simp: accepts_def signature_ok_def)
    then show ?thesis
      using assms(3,4) by (auto simp: resolvePayloadHash_def allowUnsignedPayload_def Let_def split: if_splits)
  qed
  from this [OF assms(5)] this [OF assms(6)] show ?thesis by (metis EqualFold_sym EqualFold_trans)
qed

section \<open>A client that signs is accepted\<close>

lemma length_round: "length st = 8 \<Longrightarrow> length (sha256_round kw st) = 8"
  by (cases "(kw, st)" rule: sha256_round.cases) (auto simp: Let_def)

lemma length_rounds: "length st = 8 \<Longrightarrow> length (fold sha256_round kws st) = 8"
  by (induction kws arbitrary: st) (auto simp: length_round)

lemma length_block: "length st = 8 \<Longrightarrow> length (sha256_block b st) = 8"
  by (simp add: sha256_block_def Let_def length_rounds)

lemma length_blocks: "length st = 8 \<Longrightarrow> length (fold sha256_block bs st) = 8"
  by (induction bs arbitrary: st) (auto simp: length_block)

lemma length_sha256: "length (sha256 s) = 32"
proof -
  have "length (concat (map be_bytes ws)) = 4 * length ws" for ws by (induction ws) (auto simp: be_bytes_def)
  then show ?thesis using length_blocks [of sha256_init] by (simp add: sha256_def Let_def sha256_init_def)
qed

lemma hex_lower_all: "list_all (\<lambda>d. graphic (hex_char_lower d) \<and> hex_char_lower d \<notin> set '',= '') [0..<16]"
  by code_simp

lemma hex_encode_graphic: "c \<in> set (hex_encode s) \<Longrightarrow> graphic c \<and> c \<notin> set '',= ''"
  using hex_lower_all hex_digits by (auto simp: hex_encode_def list_all_iff)

lemma signature_hex:
  "signature r mat k h \<noteq> []" "c \<in> set (signature r mat k h) \<Longrightarrow> graphic c \<and> c \<notin> set '',= ''"
proof -
  have "hmac_sha256 a b \<noteq> []" for a b using length_sha256 by (simp add: hmac_sha256_def flip: length_greater_0_conv)
  then show "signature r mat k h \<noteq> []" by (simp add: signature_def hex_encode_def)
  show "c \<in> set (signature r mat k h) \<Longrightarrow> graphic c \<and> c \<notin> set '',= ''"
    unfolding signature_def by (rule hex_encode_graphic)
qed

text \<open>The values a client writes into the header: graphic characters other than the separators.\<close>

definition plain_value :: "string \<Rightarrow> bool" where
  "plain_value s \<longleftrightarrow> s \<noteq> [] \<and> list_all (\<lambda>c. graphic c \<and> c \<notin> set ''/,='') s"

definition plain_name :: "string \<Rightarrow> bool" where
  "plain_name s \<longleftrightarrow> s \<noteq> [] \<and> list_all (\<lambda>c. graphic c \<and> char_lower c = c \<and> c \<notin> set ''/,=;'') s"

definition auth_header :: "string \<Rightarrow> string \<Rightarrow> string \<Rightarrow> string \<Rightarrow> string list \<Rightarrow> string \<Rightarrow> string" where
  "auth_header akid date region service names sig =
     algorithmAWS4 @ '' Credential='' @ akid @ ''/'' @ date @ ''/'' @ region @ ''/'' @ service @ ''/aws4_request'' @
     '', SignedHeaders='' @ Join names '';'' @ '', Signature='' @ sig"

definition client_material :: "string \<Rightarrow> string \<Rightarrow> string \<Rightarrow> string \<Rightarrow> string list \<Rightarrow> string \<Rightarrow> string \<Rightarrow> authMaterial" where
  "client_material akid date region service names amz sig =
     \<lparr>am_accessKeyID = akid, am_date = date, am_region = region, am_service = service, am_signedHeaders = names,
      am_signature = sig, am_amzDate = amz, am_queryAuth = False, am_expires = []\<rparr>"

lemma TrimSpace_graphic_all: "list_all graphic s \<Longrightarrow> TrimSpace s = s"
proof (cases s)
  case (Cons c cs)
  assume "list_all graphic s"
  moreover have "last s \<in> set s" using Cons by simp
  ultimately show ?thesis using TrimSpace_graphic [of c cs] Cons by (auto simp: list_all_iff)
qed simp

lemma TrimSpace_space: "graphic c \<Longrightarrow> graphic (last (c # cs)) \<Longrightarrow> TrimSpace (CHR '' '' # c # cs) = c # cs"
proof -
  assume g: "graphic c" "graphic (last (c # cs))"
  have "trim_front space_runes (CHR '' '' # c # cs) = trim_front space_runes (c # cs)"
    by (subst trim_front.simps) (simp add: space_runes_def)
  then have "TrimSpace (CHR '' '' # c # cs) = TrimSpace (c # cs)" by (simp only: TrimSpace_def)
  then show ?thesis using TrimSpace_graphic [OF g] by simp
qed

lemma ToLower_id: "list_all (\<lambda>c. graphic c \<and> char_lower c = c) s \<Longrightarrow> ToLower s = s"
proof (induction s rule: ToLower.induct)
  case (1 a b c cs)
  then have "a \<noteq> CHR 0xE2" "a \<noteq> CHR 0xC4" by (auto simp: graphic_def less_eq_char_def)
  then show ?case using 1 by simp
next
  case (2 a b)
  then have "a \<noteq> CHR 0xC4" by (auto simp: graphic_def less_eq_char_def)
  then show ?case using 2 by simp
qed simp_all

lemma auth_part:
  assumes "list_all graphic k" "CHR ''='' \<notin> set k" "list_all graphic v"
  shows "(case Cut (TrimSpace (k @ CHR ''='' # v)) (CHR ''='') of
      (k, v, ok) \<Rightarrow> if ok then m(TrimSpace k := TrimSpace v) else m) = m(k := v)"
proof -
  have "list_all graphic (k @ CHR ''='' # v)" using assms by (simp add: graphic_def)
  then show ?thesis using assms by (simp add: TrimSpace_graphic_all Cut_append)
qed

lemma TrimSpace_space_all: "list_all graphic s \<Longrightarrow> s \<noteq> [] \<Longrightarrow> TrimSpace (CHR '' '' # s) = s"
  using TrimSpace_space [of "hd s" "tl s"] by (cases s) (auto simp: list_all_iff)

lemma splitAuthParts_header:
  assumes g: "list_all graphic a" "list_all graphic b" "list_all graphic c"
    and n: "CHR '','' \<notin> set a" "CHR '','' \<notin> set b" "CHR '','' \<notin> set c"
  shows "splitAuthParts (''Credential='' @ a @ '', SignedHeaders='' @ b @ '', Signature='' @ c) =
    (\<lambda>_. [])(''Credential'' := a, ''SignedHeaders'' := b, ''Signature'' := c)"
proof -
  let ?A = "''Credential'' @ CHR ''='' # a" and ?B = "''SignedHeaders'' @ CHR ''='' # b" and ?C = "''Signature'' @ CHR ''='' # c"
  have gB: "list_all graphic ?B" and gC: "list_all graphic ?C" using g by (simp_all add: graphic_def)
  have k: "list_all graphic ''Credential''" "list_all graphic ''SignedHeaders''" "list_all graphic ''Signature''"
    by (simp_all add: graphic_def)
  have t: "TrimSpace (CHR '' '' # ?B) = TrimSpace ?B" "TrimSpace (CHR '' '' # ?C) = TrimSpace ?C"
    using TrimSpace_space_all [OF gB] TrimSpace_space_all [OF gC] TrimSpace_graphic_all [OF gB] TrimSpace_graphic_all [OF gC]
    by simp_all
  have "Split (?A @ CHR '','' # (CHR '' '' # ?B) @ CHR '','' # CHR '' '' # ?C) (CHR '','') = [?A, CHR '' '' # ?B, CHR '' '' # ?C]"
    using n by (subst Split_append_sep, simp, subst Split_append_sep, simp, subst Split_single, simp_all)
  moreover have "''Credential='' @ a @ '', SignedHeaders='' @ b @ '', Signature='' @ c =
      ?A @ CHR '','' # (CHR '' '' # ?B) @ CHR '','' # CHR '' '' # ?C" by simp
  ultimately have "splitAuthParts (''Credential='' @ a @ '', SignedHeaders='' @ b @ '', Signature='' @ c) =
      fold (\<lambda>part m. case Cut (TrimSpace part) (CHR ''='') of
             (k, v, ok) \<Rightarrow> if ok then m(TrimSpace k := TrimSpace v) else m) [?A, CHR '' '' # ?B, CHR '' '' # ?C] (\<lambda>_. [])"
    unfolding splitAuthParts_def by (simp only:)
  also have "\<dots> = (\<lambda>_. [])(''Credential'' := a, ''SignedHeaders'' := b, ''Signature'' := c)"
    unfolding t fold_simps using auth_part [OF k(1) _ g(1)] auth_part [OF k(2) _ g(2)] auth_part [OF k(3) _ g(3)] by simp
  finally show ?thesis .
qed

definition with_auth :: "http_request \<Rightarrow> string \<Rightarrow> http_request" where
  "with_auth r h = r\<lparr>rq_Header := (rq_Header r)(''Authorization'' := [h])\<rparr>"

lemma with_auth_fields [simp]:
  "rq_Method (with_auth r h) = rq_Method r" "rq_Path (with_auth r h) = rq_Path r"
  "rq_RawPath (with_auth r h) = rq_RawPath r" "rq_RawQuery (with_auth r h) = rq_RawQuery r"
  "rq_Host (with_auth r h) = rq_Host r"
  by (simp_all add: with_auth_def)

lemma header_key_table:
  "map CanonicalHeaderKey [''Authorization'', ''X-Amz-Date'', ''x-amz-date'', ''Host'', ''X-Amz-Content-Sha256'',
     ''x-amz-content-sha256'', ''X-Amz-Security-Token''] =
   [''Authorization'', ''X-Amz-Date'', ''X-Amz-Date'', ''Host'', ''X-Amz-Content-Sha256'', ''X-Amz-Content-Sha256'',
     ''X-Amz-Security-Token'']"
  by code_simp

lemmas header_keys = header_key_table [unfolded list.map list.inject, simplified]

lemma with_auth_values:
  "CanonicalHeaderKey n \<noteq> ''Authorization'' \<Longrightarrow> Header_Values (with_auth r h) n = Header_Values r n"
  "Header_Get (with_auth r h) ''Authorization'' = h"
  by (simp_all add: Header_Values_def with_auth_def Header_Get_def header_keys)

lemma with_auth_get: "CanonicalHeaderKey n \<noteq> ''Authorization'' \<Longrightarrow> Header_Get (with_auth r h) n = Header_Get r n"
  by (simp add: Header_Get_def with_auth_values)

definition signable :: "string list \<Rightarrow> bool" where
  "signable names \<longleftrightarrow> ''host'' \<in> set names \<and> list_all (\<lambda>n. plain_name n \<and> CanonicalHeaderKey n \<noteq> ''Authorization'') names"

lemma plain_name_id: "plain_name n \<Longrightarrow> TrimSpace n = n \<and> ToLower n = n"
proof -
  assume "plain_name n"
  then have "list_all graphic n" "list_all (\<lambda>c. graphic c \<and> char_lower c = c) n"
    unfolding plain_name_def list_all_iff by blast+
  then show ?thesis using TrimSpace_graphic_all ToLower_id by blast
qed

lemma signable_names: "signable names \<Longrightarrow> signed_names names = names"
proof -
  assume "signable names"
  then have "\<forall>n\<in>set names. plain_name n" by (auto simp: signable_def list_all_iff)
  then show ?thesis
    by (induction names) (auto simp: signed_names_def plain_name_id, auto simp: plain_name_def)
qed

lemma signable_host: "signable names \<Longrightarrow> signedHeadersIncludeHost names"
proof -
  assume s: "signable names"
  then have "TrimSpace ''host'' = ''host''" using plain_name_id by (auto simp: signable_def list_all_iff)
  then show ?thesis
    using s by (auto simp: signable_def signedHeadersIncludeHost_def list_ex_iff intro!: bexI [of _ "''host''"])
qed

lemma Join_set: "set (Join ns [c]) \<subseteq> insert c (\<Union> (set ` set ns))"
  by (induction ns "[c]" rule: Join.induct) auto

lemma names_text:
  assumes "signable names"
  shows "list_all graphic (Join names '';'')" "CHR '','' \<notin> set (Join names '';'')" "ToLower (Join names '';'') = Join names '';''"
    "Split (Join names '';'') (CHR '';'') = names" "Join names '';'' \<noteq> []"
proof -
  have all: "\<forall>n\<in>set names. plain_name n" "names \<noteq> []" using assms by (auto simp: signable_def list_all_iff)
  have "set (Join names '';'') \<subseteq> insert (CHR '';'') (\<Union> (set ` set names))" by (rule Join_set)
  moreover have "graphic c \<and> char_lower c = c \<and> c \<noteq> CHR '',''" if "n \<in> set names" "c \<in> set n" for c n
    using all(1) that by (auto simp: plain_name_def list_all_iff)
  moreover have "graphic (CHR '';'') \<and> char_lower (CHR '';'') = CHR '';''" by code_simp
  ultimately have "\<forall>c\<in>set (Join names '';''). graphic c \<and> char_lower c = c \<and> c \<noteq> CHR '',''" by auto
  then have "list_all (\<lambda>c. graphic c \<and> char_lower c = c) (Join names '';'')" and g: "list_all graphic (Join names '';'')"
    and nc: "CHR '','' \<notin> set (Join names '';'')" unfolding list_all_iff by blast+
  then show "ToLower (Join names '';'') = Join names '';''" by (intro ToLower_id)
  show "list_all graphic (Join names '';'')" "CHR '','' \<notin> set (Join names '';'')" by (fact g nc)+
  show split: "Split (Join names '';'') (CHR '';'') = names"
    using all by (intro Split_Join) (auto simp: plain_name_def list_all_iff)
  show "Join names '';'' \<noteq> []"
    using all by (cases names rule: remdups_adj.cases) (auto simp: plain_name_def)
qed

lemma with_auth_same:
  assumes "signable (am_signedHeaders mat)"
  shows "buildCanonicalRequest (with_auth r a) mat h = buildCanonicalRequest r mat h"
    "resolvePayloadHash (with_auth r a) body mat = resolvePayloadHash r body mat"
    "check_token (with_auth r a) cred = check_token r cred"
proof -
  have q: "URL_Query (with_auth r a) = URL_Query r" by (simp add: URL_Query_def)
  have c: "claimedContentSHA256 (with_auth r a) = claimedContentSHA256 r"
    by (simp add: claimedContentSHA256_def with_auth_get header_keys Let_def)
  have e: "EscapedPath (with_auth r a) = EscapedPath r" by (simp add: EscapedPath_def)
  have u: "canonicalURI (with_auth r a) = canonicalURI r" by (simp add: canonicalURI_def e Let_def)
  have "headerValue (with_auth r a) n = headerValue r n" if "n \<in> set (am_signedHeaders mat)" for n
    using that assms by (auto simp: headerValue_def with_auth_values with_auth_get header_keys signable_def list_all_iff Let_def)
  then have "canonicalHeaders (with_auth r a) (am_signedHeaders mat) = canonicalHeaders r (am_signedHeaders mat)"
    by (auto simp: canonicalHeaders_def signable_names [OF assms] cong: map_cong)
  then show "buildCanonicalRequest (with_auth r a) mat h = buildCanonicalRequest r mat h"
    by (simp add: buildCanonicalRequest_def u canonicalQueryString_def q)
  show "resolvePayloadHash (with_auth r a) body mat = resolvePayloadHash r body mat"
    by (simp add: resolvePayloadHash_def c)
  show "check_token (with_auth r a) cred = check_token r cred"
    by (simp add: check_token_def with_auth_get header_keys q Let_def)
qed

lemma parse_client_credential:
  assumes "plain_value akid" "plain_value date" "plain_value region" "plain_value service"
  shows "parseCredential (akid @ ''/'' @ date @ ''/'' @ region @ ''/'' @ service @ ''/aws4_request'') = Inr (akid, date, region, service)"
proof -
  have "Split (Join [akid, date, region, service, ''aws4_request''] ''/'') (CHR ''/'') = [akid, date, region, service, ''aws4_request'']"
    using assms by (intro Split_Join) (auto simp: plain_value_def list_all_iff)
  then show ?thesis using assms by (simp add: parseCredential_def plain_value_def)
qed

lemma list_all_graphic_append: "list_all graphic (a @ b) \<longleftrightarrow> list_all graphic a \<and> list_all graphic b"
  by simp

lemma extract_client:
  assumes v: "plain_value akid" "plain_value date" "plain_value region" "plain_value service"
    and n: "signable names"
    and sig: "sig \<noteq> []" "\<And>c. c \<in> set sig \<Longrightarrow> graphic c \<and> c \<notin> set '',= ''"
    and d: "Header_Get r ''X-Amz-Date'' = amz" "amz \<noteq> []"
  shows "extractAuth (with_auth r (auth_header akid date region service names sig)) =
    Inr (client_material akid date region service names amz sig)"
proof -
  let ?h = "auth_header akid date region service names sig"
  let ?cred = "akid @ ''/'' @ date @ ''/'' @ region @ ''/'' @ service @ ''/aws4_request''"
  have gs: "graphic (last sig)" using sig last_in_set by blast
  have h: "?h = algorithmAWS4 @ CHR '' '' # CHR ''C'' # ''redential='' @ ?cred @ '', SignedHeaders='' @ Join names '';'' @ '', Signature='' @ sig"
    by (simp add: auth_header_def)
  have gA: "graphic (CHR ''A'')" "graphic (CHR ''C'')" by (simp_all add: graphic_def)
  have "TrimSpace ?h = ?h"
    using TrimSpace_graphic [of "CHR ''A''" "tl ?h"] gs gA sig(1) by (simp add: auth_header_def algorithmAWS4_def)
  have plain: "list_all graphic s \<and> CHR '','' \<notin> set s" if "plain_value s" for s
    using that by (auto simp: plain_value_def list_all_iff)
  have cred: "list_all graphic ?cred" "CHR '','' \<notin> set ?cred" using plain v by (simp_all add: graphic_def)
  have sg: "list_all graphic sig" "CHR '','' \<notin> set sig" using sig(2) by (auto simp: list_all_iff)
  have "TrimSpace (TrimPrefix ?h algorithmAWS4) = ''Credential='' @ ?cred @ '', SignedHeaders='' @ Join names '';'' @ '', Signature='' @ sig"
    using TrimSpace_space [OF gA(2), of "''redential='' @ ?cred @ '', SignedHeaders='' @ Join names '';'' @ '', Signature='' @ sig"] gs sig(1)
    by (simp add: h TrimPrefix_def)
  then have parts: "splitAuthParts (TrimSpace (TrimPrefix ?h algorithmAWS4)) =
      (\<lambda>_. [])(''Credential'' := ?cred, ''SignedHeaders'' := Join names '';'', ''Signature'' := sig)"
    using splitAuthParts_header [OF cred(1) names_text(1) [OF n] sg(1) cred(2) names_text(2) [OF n] sg(2)] by simp
  have "parseAuthorizationHeader (with_auth r ?h) ?h = Inr (client_material akid date region service names amz sig)"
    unfolding parseAuthorizationHeader_def parts Let_def fun_upd_def
    using parse_client_credential [OF v] names_text [OF n] sig(1) d
    by (simp add: HasPrefix_def h client_material_def with_auth_get header_keys)
  then show ?thesis
    using \<open>TrimSpace ?h = ?h\<close> by (simp add: extractAuth_def with_auth_values(2) Let_def) (simp add: auth_header_def algorithmAWS4_def)
qed

lemma signature_client:
  "signature r (client_material akid date region service names amz s1) k h =
   signature r (client_material akid date region service names amz s2) k h"
  by (simp add: signature_def client_material_def buildCanonicalRequest_def)

text \<open>What the client sends: the request with the signature over it in the header.\<close>

definition sign_request ::
  "http_request \<Rightarrow> string \<Rightarrow> string \<Rightarrow> string \<Rightarrow> string \<Rightarrow> string list \<Rightarrow> string \<Rightarrow> http_request"
where
  "sign_request r akid secret region service names h =
     (let amz = Header_Get r ''X-Amz-Date'';
          sig = signature r (client_material akid (take 8 amz) region service names amz []) secret h
      in with_auth r (auth_header akid (take 8 amz) region service names sig))"

lemma sign_request_accepts:
  assumes "plain_value akid" "plain_value (take 8 amz)" "plain_value region" "plain_value service" "signable names"
    and "Header_Get r ''X-Amz-Date'' = amz" "parse_basic amz = Some t" "clock_ok now t skew"
    and "lookup akid = Some cred" "key_ok cred now" "check_token r cred"
    and "resolvePayloadHash r body (client_material akid (take 8 amz) region service names amz []) = Inr h"
  shows "accepts (sign_request r akid (rk_Secret cred) region service names h) body now skew lookup
    (client_material akid (take 8 amz) region service names amz
       (signature r (client_material akid (take 8 amz) region service names amz []) (rk_Secret cred) h)) cred t"
proof -
  let ?m = "client_material akid (take 8 amz) region service names amz"
  define s where "s = signature r (?m []) (rk_Secret cred) h"
  let ?r = "with_auth r (auth_header akid (take 8 amz) region service names s)"
  have r: "sign_request r akid (rk_Secret cred) region service names h = ?r"
    using assms(6) by (simp add: sign_request_def s_def)
  have "amz \<noteq> []" using parse_basic_length [OF assms(7)] by auto
  then have ex: "extractAuth ?r = Inr (?m s)"
    using signature_hex(2) assms unfolding s_def by (intro extract_client signature_hex(1)) auto
  have sn: "signable (am_signedHeaders (?m s))" using assms(5) by (simp add: client_material_def)
  have "signature ?r (?m s) (rk_Secret cred) h = signature r (?m s) (rk_Secret cred) h"
    using with_auth_same(1) [OF sn] by (simp add: signature_def)
  also have "\<dots> = s" unfolding s_def by (rule signature_client)
  finally have same: "signature ?r (?m s) (rk_Secret cred) h = s" .
  have "resolvePayloadHash r body (?m s) = resolvePayloadHash r body (?m [])"
    by (simp add: resolvePayloadHash_def client_material_def allowUnsignedPayload_def Let_def)
  then have p: "resolvePayloadHash ?r body (?m s) = Inr h"
    using with_auth_same(2) [OF sn] assms(12) by simp
  have sg: "signature_ok ?r body (?m s) cred"
    unfolding signature_ok_def using p same by (auto simp: client_material_def)
  show ?thesis
    unfolding r s_def [symmetric] accepts_def
    using ex sg assms(5,7,8,9,10,11) with_auth_same(3) [OF sn] signable_host [OF assms(5)]
    by (simp add: client_material_def presign_ok_def)
qed


end
