(* ===== verification/Sigv4_Samples.thy ===== *)
theory Sigv4_Samples
  imports Sigv4_Props
begin

text \<open>A signed request on concrete values, and the properties of \<open>Verify\<close> applied to it.\<close>

definition sample_header :: "string \<Rightarrow> string \<Rightarrow> string list" where
  "sample_header amz n = (if n = ''X-Amz-Date'' then [amz]
     else if n = ''X-Amz-Content-Sha256'' then [emptyPayload] else [])"

definition sample_request :: "string \<Rightarrow> string \<Rightarrow> http_request" where
  "sample_request query amz = \<lparr>rq_Method = ''GET'', rq_Path = ''/'', rq_RawPath = [], rq_RawQuery = query,
     rq_Host = ''sqs.us-east-1.amazonaws.com'', rq_Header = sample_header amz\<rparr>"

definition sample_key :: ResolvedKey where
  "sample_key = \<lparr>rk_AccountID = ''111122223333'', rk_Secret = ''wJalrXUtnFEMI'', rk_IsRoot = False, rk_UserName = ''alice'',
     rk_Status = ''Active'', rk_SessionToken = [], rk_RoleARN = [], rk_SessionName = [], rk_FederatedUser = [],
     rk_SessionPolicy = [], rk_ExpiresAt = zero_time, rk_MFAAuthenticated = False, rk_MFAAuthenticatedAt = zero_time\<rparr>"

definition sample_lookup :: KeyLookup where
  "sample_lookup akid = (if akid = ''AKIDEXAMPLE'' then Some sample_key else None)"

definition sample_date :: string where "sample_date = ''20250101T000000Z''"
definition far_date :: string where "far_date = ''99991231T235959Z''"
definition sample_time :: instant where "sample_time = Date 2025 1 1 0 0 0 0"
definition far_time :: instant where "far_time = Date 9999 12 31 23 59 59 0"

abbreviation sample_material :: "string \<Rightarrow> string \<Rightarrow> authMaterial" where
  "sample_material amz sig \<equiv> client_material ''AKIDEXAMPLE'' (take 8 amz) ''us-east-1'' ''sqs'' [''host''] amz sig"

abbreviation sample_signed :: "string \<Rightarrow> string \<Rightarrow> http_request" where
  "sample_signed query amz \<equiv>
     sign_request (sample_request query amz) ''AKIDEXAMPLE'' (rk_Secret sample_key) ''us-east-1'' ''sqs'' [''host''] emptyPayload"

lemma sample_dates:
  "parse_basic sample_date = Some sample_time" "parse_basic far_date = Some far_time"
  by (code_simp, code_simp)

lemma sample_times: "sample_time = 1735689600000000000" "far_time = 253402300799000000000"
  by (code_simp, code_simp)

lemma sample_plain:
  "plain_value ''AKIDEXAMPLE''" "plain_value ''us-east-1''" "plain_value ''sqs''" "plain_value (take 8 sample_date)"
  "plain_value (take 8 far_date)" "signable [''host'']"
  by (code_simp, code_simp, code_simp, code_simp, code_simp, code_simp)

lemma sample_get: "Header_Get (sample_request q amz) ''X-Amz-Date'' = amz"
  by (simp add: Header_Get_def Header_Values_def header_keys sample_request_def sample_header_def)

lemma sample_key_ok: "key_ok sample_key now" "check_token r sample_key" "sample_lookup ''AKIDEXAMPLE'' = Some sample_key"
  by (simp_all add: key_ok_def check_token_def sample_key_def sample_lookup_def)

lemma sample_claimed: "claimedContentSHA256 (sample_request q amz) = emptyPayload"
proof -
  have "list_all graphic emptyPayload" by code_simp
  then have "TrimSpace emptyPayload = emptyPayload" by (rule TrimSpace_graphic_all)
  moreover have "emptyPayload \<noteq> []" by (simp add: emptyPayload_def)
  ultimately show ?thesis
    by (simp add: claimedContentSHA256_def Header_Get_def Header_Values_def header_keys sample_request_def
        sample_header_def Let_def)
qed

lemma sample_payload: "resolvePayloadHash (sample_request q amz) [] mat = Inr emptyPayload"
proof -
  have "\<not> EqualFold emptyPayload unsignedPayload" "\<not> isS3StreamingPayloadHash emptyPayload" "emptyPayload \<noteq> []" by (code_simp, code_simp, code_simp)
  then show ?thesis by (simp add: resolvePayloadHash_def sample_claimed bodySHA256Hex_def)
qed

lemma skew_small: "(900000000000::int) < 2 ^ 63 - 1" by simp

lemma sample_accepts:
  assumes "plain_value (take 8 amz)" "parse_basic amz = Some t" "clock_ok now t 900000000000"
  shows "accepts (sample_signed q amz) [] now 900000000000 sample_lookup
    (sample_material amz (signature (sample_request q amz) (sample_material amz []) (rk_Secret sample_key) emptyPayload))
    sample_key t"
  by (rule sign_request_accepts) (use assms sample_plain sample_get sample_key_ok sample_payload in simp_all)

lemma sample_verified:
  assumes "plain_value (take 8 amz)" "parse_basic amz = Some t" "clock_ok now t 900000000000"
  shows "Verify (Some (sample_signed q amz)) [] now 900000000000 (Some sample_lookup) =
    Inr (verified_of (sample_material amz (signature (sample_request q amz) (sample_material amz []) (rk_Secret sample_key) emptyPayload)) sample_key)"
  unfolding Verify_Some verify_request_ok [OF skew_small] using sample_accepts [OF assms] by metis

lemma sample_user:
  "vf_Principal (verified_of (sample_material amz sig) sample_key) = UserPrincipal ''111122223333'' ''alice'' ''AKIDEXAMPLE''"
  by (simp add: verified_of_def key_principal_def client_material_def sample_key_def)



theorem future_date_never_stale_witness:
  "\<exists>v. Verify (Some (sample_signed [] far_date)) [] sample_time 900000000000 (Some sample_lookup) = Inr v"
proof -
  have c: "clock_ok 0 far_time 900000000000" by (simp add: clock_ok_def sample_times)
  note e = sample_accepts [OF sample_plain(5) sample_dates(2) c, of "[]"]
  have "extractAuth (sample_signed [] far_date) =
      Inr (sample_material far_date (signature (sample_request [] far_date) (sample_material far_date []) (rk_Secret sample_key) emptyPayload))"
    using e by (simp add: accepts_def)
  then show ?thesis
    using future_date_never_stale [OF skew_small sample_verified [OF sample_plain(5) sample_dates(2) c], where mat = "sample_material far_date (signature (sample_request [] far_date) (sample_material far_date []) (rk_Secret sample_key) emptyPayload)" and t = far_time and now' = sample_time and cred = sample_key]
    by (simp add: client_material_def sample_dates sample_times sample_key_ok) (simp add: sample_key_def)
qed

theorem body_bound_witness:
  "(\<exists>v. Verify (Some (sample_signed [] sample_date)) [] sample_time 900000000000 (Some sample_lookup) = Inr v) \<and>
   EqualFold (bodySHA256Hex []) (bodySHA256Hex [])"
proof -
  have c: "clock_ok sample_time sample_time 900000000000" by (simp add: clock_ok_def)
  note v = sample_verified [OF sample_plain(4) sample_dates(1) c, of "[]"]
  note e = sample_accepts [OF sample_plain(4) sample_dates(1) c, of "[]"]
  have "claimedContentSHA256 (sample_signed [] sample_date) = claimedContentSHA256 (sample_request [] sample_date)"
    unfolding sign_request_def Let_def claimedContentSHA256_def by (simp add: with_auth_get header_keys)
  moreover have "emptyPayload \<noteq> []" "\<not> EqualFold ''sqs'' ''s3''" by (code_simp, code_simp)
  ultimately show ?thesis
    using body_bound [OF skew_small _ _ _ v v] e v by (simp add: accepts_def client_material_def sample_claimed)
qed

lemma sample_wire:
  "wire_request (sample_request ''b=2&a=1'' sample_date) (signed_names [''host'']) emptyPayload"
  "wire_request (sample_request ''a=1&b=2'' sample_date) (signed_names [''host'']) emptyPayload"
  by (code_simp, code_simp)

lemma sample_canonical:
  "buildCanonicalRequest (sample_request ''b=2&a=1'' sample_date) (sample_material sample_date []) emptyPayload =
   buildCanonicalRequest (sample_request ''a=1&b=2'' sample_date) (sample_material sample_date []) emptyPayload"
  by code_simp

theorem canonical_request_binds_witness:
  "URL_Query (sample_request ''b=2&a=1'' sample_date) \<noteq> URL_Query (sample_request ''a=1&b=2'' sample_date) \<and>
   mset (signed_query (sample_request ''b=2&a=1'' sample_date) False) =
     mset (signed_query (sample_request ''a=1&b=2'' sample_date) False)"
proof -
  have "URL_Query (sample_request ''b=2&a=1'' sample_date) \<noteq> URL_Query (sample_request ''a=1&b=2'' sample_date)"
    by code_simp
  moreover have "am_signedHeaders (sample_material sample_date []) = [''host'']" "\<not> am_queryAuth (sample_material sample_date [])"
    by (simp_all add: client_material_def)
  ultimately show ?thesis
    using canonical_request_binds [OF _ _ sample_canonical] sample_wire by simp
qed

end
