(* ===== verification/Access_Keys_Samples.thy ===== *)
theory Access_Keys_Samples
  imports Access_Keys_Props Sigv4_Samples
begin

text \<open>A run of the access key cache on concrete values, and its properties applied to it.\<close>

definition old_key :: string where "old_key = ''AKIAOLD''"

definition old_row :: key_row where
  "old_row = user_key_row old_key ''111122223333'' ''bob'' ''sealed''"

definition old_record :: "string \<Rightarrow> AccessKey" where
  "old_record st =
     \<lparr>ak_AccessKeyID = ''AKIAOLD'', ak_AccountID = ''111122223333'', ak_Secret = ''sealed'', ak_IsRoot = False,
      ak_UserName = ''bob'', ak_Status = st, ak_SessionToken = [], ak_RoleARN = [], ak_SessionName = [],
      ak_FederatedUser = [], ak_SessionPolicy = [], ak_ExpiresAt = zero_time, ak_MFAAuthenticated = False,
      ak_MFAAuthenticatedAt = zero_time\<rparr>"

definition keys_empty :: key_state where
  "keys_empty = \<lparr>ks_rows = [old_row], ks_cache = Map.empty, ks_invals = 0, ks_looking = [], ks_writing = []\<rparr>"

definition keys_filled :: key_state where
  "keys_filled = keys_empty\<lparr>ks_cache := [old_key \<mapsto> old_record ''Active'']\<rparr>"

definition keys_off :: key_state where
  "keys_off = keys_empty\<lparr>ks_rows := [old_row\<lparr>kr_status := ''Inactive''\<rparr>], ks_invals := 1\<rparr>"

lemma load_old:
  "loadAccessKeyRecordUncached Some [old_row] old_key = Some (old_record ''Active'')"
  "loadAccessKeyRecordUncached Some [old_row\<lparr>kr_status := ''Inactive''\<rparr>] old_key = Some (old_record ''Inactive'')"
  by (simp_all add: loadAccessKeyRecordUncached_def old_row_def user_key_row_def old_key_def record_of_def
      old_record_def null_text_def time_column_def)

lemma keys_empty_init: "key_init keys_empty"
  by (simp add: key_init_def keys_empty_def)

lemma lookup_old: "run (key_step Some) keys_empty [Miss old_key, Load old_key (old_record ''Active''), Fill old_key (old_record ''Active'')] keys_filled"
proof -
  let ?s1 = "keys_empty\<lparr>ks_looking := [Missed old_key 0]\<rparr>"
  let ?s2 = "keys_empty\<lparr>ks_looking := [Loaded old_key 0 (old_record ''Active'')]\<rparr>"
  have "key_step Some keys_empty (Miss old_key) ?s1"
    using missed [of keys_empty old_key Some] by (simp add: keys_empty_def)
  moreover have "key_step Some ?s1 (Load old_key (old_record ''Active'')) ?s2"
    using loaded [of ?s1 "[]" old_key 0 "[]" Some "old_record ''Active''"] load_old by (simp add: keys_empty_def)
  moreover have "key_step Some ?s2 (Fill old_key (old_record ''Active'')) keys_filled"
    using filled [of ?s2 "[]" old_key 0 "old_record ''Active''" "[]" Some]
    by (simp add: keys_filled_def keys_empty_def fill_def)
  ultimately show ?thesis by (auto simp: run_Cons_iff)
qed

lemma deactivate_old:
  "run (key_step Some) keys_filled [Write (UpdateKey old_key ''Inactive''), Invalidate old_key] keys_off"
proof -
  let ?s1 = "keys_filled\<lparr>ks_rows := [old_row\<lparr>kr_status := ''Inactive''\<rparr>], ks_writing := [old_key]\<rparr>"
  have "write_rows (UpdateKey old_key ''Inactive'') (ks_rows keys_filled) = Some [old_row\<lparr>kr_status := ''Inactive''\<rparr>]"
    by (simp add: keys_filled_def keys_empty_def update_key_rows_def valid_status_def sql_update_def old_row_def user_key_row_def)
  then have "key_step Some keys_filled (Write (UpdateKey old_key ''Inactive'')) ?s1"
    using written [of "UpdateKey old_key ''Inactive''" keys_filled _ Some] by (simp add: keys_filled_def keys_empty_def)
  moreover have "key_step Some ?s1 (Invalidate old_key) keys_off"
    using invalidated [of ?s1 "[]" old_key "[]" Some]
    by (simp add: keys_filled_def keys_empty_def keys_off_def invalidateAccessKeyCache_def)
  ultimately show ?thesis by (auto simp: run_Cons_iff)
qed

lemma keys_reachable: "reachable key_init (key_step Some) keys_empty" "reachable key_init (key_step Some) keys_filled"
  "reachable key_init (key_step Some) keys_off"
  using keys_empty_init reachable_run [OF lookup_old] reachable_run [OF deactivate_old] by (blast intro: reach_init)+

theorem no_stale_key_witness:
  "loadAccessKeyRecordUncached Some (ks_rows keys_filled) old_key = Some (old_record ''Active'')"
proof -
  have "key_step Some keys_filled (Hit old_key (old_record ''Active'')) keys_filled"
    by (rule hit) (simp add: keys_filled_def)
  from no_stale_key [OF keys_reachable(2) _ this] show ?thesis
    by (simp add: keys_filled_def keys_empty_def)
qed

theorem cached_lookup_is_load_witness:
  "fst (LookupAccessKeyRecord Some keys_filled old_key) = loadAccessKeyRecordUncached Some [old_row] old_key"
  using cached_lookup_is_load [OF keys_reachable(2), of old_key] by (simp add: keys_filled_def keys_empty_def)

definition two_keys :: KeyLookup where
  "two_keys = sample_lookup(old_key \<mapsto> resolved_key (old_record ''Inactive''))"

abbreviation good_material :: authMaterial where
  "good_material \<equiv> sample_material sample_date
     (signature (sample_request [] sample_date) (sample_material sample_date []) (rk_Secret sample_key) emptyPayload)"

lemma two_keys_verify:
  "Verify (Some (sample_signed [] sample_date)) [] sample_time 900000000000 (Some two_keys) =
   Inr (verified_of good_material sample_key)"
proof -
  have c: "clock_ok sample_time sample_time 900000000000" by (simp add: clock_ok_def)
  have "accepts (sample_signed [] sample_date) [] sample_time 900000000000 two_keys good_material sample_key sample_time"
    using sample_accepts [OF sample_plain(4) sample_dates(1) c, of "[]"] sample_key_ok(3)
    by (simp add: accepts_def two_keys_def old_key_def client_material_def)
  then show ?thesis unfolding Verify_Some verify_request_ok [OF skew_small] by metis
qed

theorem deactivated_key_refused_witness:
  "vf_AccessKeyID (verified_of good_material sample_key) \<noteq> old_key"
proof -
  let ?s1 = "keys_off\<lparr>ks_looking := [Missed old_key 1]\<rparr>"
  let ?s2 = "keys_off\<lparr>ks_looking := [Loaded old_key 1 (old_record ''Inactive'')]\<rparr>"
  have "key_step Some keys_off (Miss old_key) ?s1"
    using missed [of keys_off old_key Some] by (simp add: keys_off_def keys_empty_def)
  moreover have "key_step Some ?s1 (Load old_key (old_record ''Inactive'')) ?s2"
    using loaded [of ?s1 "[]" old_key 1 "[]" Some "old_record ''Inactive''"] load_old by (simp add: keys_off_def keys_empty_def)
  ultimately have r: "run (key_step Some) keys_off [Miss old_key, Load old_key (old_record ''Inactive'')] ?s2"
    by (auto simp: run_Cons_iff)
  have d: "deactivated old_key keys_off"
    by (simp add: deactivated_def keys_off_def keys_empty_def old_row_def user_key_row_def)
  have l: "two_keys old_key = Some (resolved_key (old_record ''Inactive''))" by (simp add: two_keys_def)
  show ?thesis
    by (rule deactivated_key_refused [OF keys_reachable(3) d r _ _ _ _ l two_keys_verify,
          where l = "Load old_key (old_record ''Inactive'')"])
      (simp_all add: keys_off_def)
qed

end
