(* ===== verification/Iam.thy ===== *)
theory Iam
  imports Go_Json Go_Numbers Access_Keys
begin

text \<open>
  The IAM tables and their operations: \<open>src/internal/store/users.go\<close>, \<open>roles.go\<close>, \<open>groups.go\<close>, \<open>policy.go\<close>,
  \<open>inline_policies.go\<close>, \<open>managed_policies.go\<close>, \<open>managed_policy_versions.go\<close>, \<open>boundaries.go\<close>, with the ARNs of
  \<open>arn.go\<close> and the checks of \<open>internal/validate\<close>.

  Tables are lists of rows. An operation that fails leaves the tables as they were. Random ids and the
  current time are arguments. The validator package the checks call is a parameter \<open>v\<close>: \<open>v tag s\<close> says
  whether \<open>s\<close> satisfies the tag. An error of SQLite itself is not modelled.
\<close>

section \<open>Validation\<close>

type_synonym validator = "string \<Rightarrow> string \<Rightarrow> bool"

definition validate_AccountID :: "validator \<Rightarrow> string \<Rightarrow> bool" where
  "validate_AccountID v acct = v ''required,len=12,numeric'' acct"

text \<open>\<open>iamNamePattern\<close>: \<open>^[\w+=,.@-]+$\<close>.\<close>

definition name_char :: "char \<Rightarrow> bool" where
  "name_char c \<longleftrightarrow>
     CHR ''A'' \<le> c \<and> c \<le> CHR ''Z'' \<or> is_digit c \<or> c \<in> set ''_+=,.@-'' \<or> CHR ''a'' \<le> c \<and> c \<le> CHR ''z''"

definition IAMName :: "validator \<Rightarrow> string \<Rightarrow> bool" where
  "IAMName v name \<longleftrightarrow> v ''required,min=1,max=64'' name \<and> name \<noteq> [] \<and> list_all name_char name"

text \<open>
  \<open>validate.PolicyDocument\<close>: a JSON object with a nonempty Version and a Statement that is not null. The
  members are matched ignoring case, a later one replaces an earlier one (a null Version leaves it).
\<close>

fun policy_members :: "string \<Rightarrow> json option \<Rightarrow> (string \<times> json) list \<Rightarrow> (string \<times> json option) option" where
  "policy_members ver stmt [] = Some (ver, stmt)"
| "policy_members ver stmt ((k, j) # kvs) =
     (if EqualFold k ''Version'' then
        (case dec_string ver j of None \<Rightarrow> None | Some ver' \<Rightarrow> policy_members ver' stmt kvs)
      else if EqualFold k ''Statement'' then policy_members ver (Some j) kvs
      else policy_members ver stmt kvs)"

definition validate_PolicyDocument :: "string \<Rightarrow> bool" where
  "validate_PolicyDocument doc \<longleftrightarrow>
     TrimSpace doc \<noteq> [] \<and>
     (case json_parse doc of
        Some (JObj kvs) \<Rightarrow>
          (case policy_members [] None kvs of
             Some (ver, Some stmt) \<Rightarrow> ver \<noteq> [] \<and> stmt \<noteq> JNull
           | _ \<Rightarrow> False)
      | _ \<Rightarrow> False)"

section \<open>Names\<close>

definition normalizeIAMPath :: "string \<Rightarrow> string" where
  "normalizeIAMPath path =
     (if path = [] then ''/''
      else (let p = (if HasPrefix path ''/'' then path else ''/'' @ path)
            in if HasSuffix p ''/'' then p else p @ ''/''))"

definition iamResourceARN :: "string \<Rightarrow> string \<Rightarrow> string \<Rightarrow> string \<Rightarrow> string" where
  "iamResourceARN account resourceType path name =
     (let p = normalizeIAMPath path
      in if p = ''/'' then ''arn:aws:iam::'' @ account @ '':'' @ resourceType @ ''/'' @ name
         else ''arn:aws:iam::'' @ account @ '':'' @ resourceType @ ''/'' @ Trim p ''/'' @ ''/'' @ name)"

definition UserARN :: "string \<Rightarrow> string \<Rightarrow> string \<Rightarrow> string" where
  "UserARN account path name = iamResourceARN account ''user'' path name"

definition PolicyARN :: "string \<Rightarrow> string \<Rightarrow> string \<Rightarrow> string" where
  "PolicyARN account path name = iamResourceARN account ''policy'' path name"

definition RoleARNWithPath :: "string \<Rightarrow> string \<Rightarrow> string \<Rightarrow> string" where
  "RoleARNWithPath account path name = iamResourceARN account ''role'' path name"

definition RoleARN :: "string \<Rightarrow> string \<Rightarrow> string" where
  "RoleARN account name = RoleARNWithPath account ''/'' name"

definition GroupARN :: "string \<Rightarrow> string \<Rightarrow> string \<Rightarrow> string" where
  "GroupARN account path name = iamResourceARN account ''group'' path name"

lemma normalize_root [simp]: "normalizeIAMPath ''/'' = ''/''"
  by (simp add: normalizeIAMPath_def HasPrefix_def HasSuffix_def)

section \<open>State\<close>

datatype iam_error =
    NoRows
  | Invalid
  | Constraint
  | KeysRemain
  | AttachmentsRemain
  | BadArgument
  | PolicyVersionLimit
  | DeleteDefaultPolicyVersion
  | NoSuchPolicyVersion

record User =
  us_account :: string
  us_name :: string
  us_id :: string
  us_arn :: string
  us_created :: string

record Role =
  ro_account :: string
  ro_name :: string
  ro_arn :: string
  ro_trust :: string
  ro_id :: "string option"
  ro_created :: "string option"
  ro_max :: int

record Group =
  gr_account :: string
  gr_name :: string
  gr_id :: string
  gr_arn :: string

record policy_row =
  po_id :: string
  po_document :: string
  po_name :: "string option"
  po_account :: "string option"
  po_arn :: "string option"
  po_version :: "string option"

record ManagedPolicy =
  mp_arn :: string
  mp_account :: string
  mp_name :: string
  mp_id :: string
  mp_default :: string
  mp_document :: string

record ManagedPolicyVersion =
  mv_arn :: string
  mv_version :: string
  mv_document :: string
  mv_default :: bool
  mv_created :: string

record InlinePolicy =
  ip_arn :: string
  ip_name :: string
  ip_document :: string

record boundary_row =
  bo_account :: string
  bo_type :: string
  bo_name :: string
  bo_arn :: string

record iam =
  i_users :: "User list"
  i_roles :: "Role list"
  i_groups :: "Group list"
  i_members :: "(string \<times> string \<times> string) list"
  i_policies :: "policy_row list"
  i_attached :: "(string \<times> string) list"
  i_managed :: "ManagedPolicy list"
  i_versions :: "ManagedPolicyVersion list"
  i_inline :: "InlinePolicy list"
  i_boundaries :: "boundary_row list"
  i_keys :: "key_row list"

text \<open>The rest of an operation after a look-up or a statement that may fail.\<close>

fun ok_or :: "'e \<Rightarrow> 'a option \<Rightarrow> ('a \<Rightarrow> ('e, 'b) result) \<Rightarrow> ('e, 'b) result" where
  "ok_or e None f = Inl e"
| "ok_or e (Some x) f = f x"

lemma ok_or_Inr: "ok_or e x f = Inr y \<longleftrightarrow> (\<exists>z. x = Some z \<and> f z = Inr y)"
  by (cases x) auto

section \<open>Users\<close>

definition find_user :: "iam \<Rightarrow> string \<Rightarrow> string \<Rightarrow> User option" where
  "find_user s account name = List.find (\<lambda>u. us_account u = account \<and> us_name u = name) (i_users s)"

definition GetUser :: "iam \<Rightarrow> string \<Rightarrow> string \<Rightarrow> (iam_error, User) result" where
  "GetUser s account name = ok_or NoRows (find_user s account name) Inr"

definition user_key :: "User \<Rightarrow> string \<times> string" where "user_key u = (us_account u, us_name u)"

definition CreateUser ::
  "validator \<Rightarrow> string \<Rightarrow> string \<Rightarrow> iam \<Rightarrow> string \<Rightarrow> string \<Rightarrow> (iam_error, User \<times> iam) result"
where
  "CreateUser v uid now s account name =
     (if \<not> validate_AccountID v account \<or> \<not> IAMName v name then Inl Invalid
      else (let u = \<lparr>us_account = account, us_name = name, us_id = uid, us_arn = UserARN account ''/'' name, us_created = now\<rparr>
            in ok_or Constraint (sql_insert user_key u (i_users s)) (\<lambda>us. Inr (u, s\<lparr>i_users := us\<rparr>))))"

definition ListUsers :: "iam \<Rightarrow> string \<Rightarrow> User list" where
  "ListUsers s account = sort_key us_name (filter (\<lambda>u. us_account u = account) (i_users s))"

definition DeleteUser :: "iam \<Rightarrow> string \<Rightarrow> string \<Rightarrow> (iam_error, iam) result" where
  "DeleteUser s account name =
     (if \<exists>k\<in>set (i_keys s). kr_account k = account \<and> kr_user k = Some name then Inl KeysRemain
      else ok_or NoRows (sql_delete (\<lambda>u. us_account u = account \<and> us_name u = name) (i_users s))
             (\<lambda>us. Inr (s\<lparr>i_users := us\<rparr>)))"

definition CreateUserAccessKey ::
  "(string \<Rightarrow> string) \<Rightarrow> string \<Rightarrow> string \<Rightarrow> iam \<Rightarrow> string \<Rightarrow> string \<Rightarrow> (iam_error, iam) result"
where
  "CreateUserAccessKey seal k secret s account name =
     ok_or NoRows (find_user s account name) (\<lambda>_.
       ok_or Constraint (insert_user_key k account name (seal secret) (i_keys s))
         (\<lambda>ks. Inr (s\<lparr>i_keys := ks\<rparr>)))"

definition ListAccessKeys :: "iam \<Rightarrow> string \<Rightarrow> string \<Rightarrow> (string \<times> string \<times> string) list" where
  "ListAccessKeys s account name =
     map (\<lambda>k. (kr_id k, name, if kr_status k = [] then ''Active'' else kr_status k))
       (sort_key kr_id (filter (\<lambda>k. kr_account k = account \<and> kr_user k = Some name) (i_keys s)))"

section \<open>Roles\<close>

definition find_role :: "iam \<Rightarrow> string \<Rightarrow> string \<Rightarrow> Role option" where
  "find_role s account name = List.find (\<lambda>r. ro_account r = account \<and> ro_name r = name) (i_roles s)"

definition GetRoleRecord :: "iam \<Rightarrow> string \<Rightarrow> string \<Rightarrow> (iam_error, Role) result" where
  "GetRoleRecord s account name =
     ok_or NoRows (find_role s account name) (\<lambda>r. Inr (if ro_max r \<le> 0 then r\<lparr>ro_max := 3600\<rparr> else r))"

definition GetRole :: "iam \<Rightarrow> string \<Rightarrow> string \<Rightarrow> (iam_error, string \<times> string) result" where
  "GetRole s account name =
     (case GetRoleRecord s account name of Inl e \<Rightarrow> Inl e | Inr r \<Rightarrow> Inr (ro_arn r, ro_trust r))"

definition role_key :: "Role \<Rightarrow> string \<times> string" where "role_key r = (ro_account r, ro_name r)"

definition PutRole :: "iam \<Rightarrow> string \<Rightarrow> string \<Rightarrow> string \<Rightarrow> string \<Rightarrow> iam" where
  "PutRole s account name arn trust =
     s\<lparr>i_roles := sql_upsert role_key (\<lambda>r. r\<lparr>ro_arn := arn, ro_trust := trust\<rparr>)
        \<lparr>ro_account = account, ro_name = name, ro_arn = arn, ro_trust = trust, ro_id = None, ro_created = None,
         ro_max = 3600\<rparr> (i_roles s)\<rparr>"

definition session_range :: "int \<Rightarrow> bool" where "session_range d \<longleftrightarrow> 3600 \<le> d \<and> d \<le> 43200"

definition CreateRoleOpts ::
  "validator \<Rightarrow> string \<Rightarrow> string \<Rightarrow> iam \<Rightarrow> string \<Rightarrow> string \<Rightarrow> string \<Rightarrow> int \<Rightarrow> (iam_error, string \<times> iam) result"
where
  "CreateRoleOpts v rid now s account name trust dur =
     (let dur = (if dur = 0 then 3600 else dur)
      in if \<not> validate_AccountID v account \<or> \<not> IAMName v name \<or> \<not> validate_PolicyDocument trust then Inl Invalid
         else if \<not> session_range dur then Inl BadArgument
         else ok_or Constraint
           (sql_insert role_key \<lparr>ro_account = account, ro_name = name, ro_arn = RoleARN account name, ro_trust = trust,
              ro_id = Some rid, ro_created = Some now, ro_max = dur\<rparr> (i_roles s))
           (\<lambda>rs. Inr (RoleARN account name, s\<lparr>i_roles := rs\<rparr>)))"

definition CreateRole ::
  "validator \<Rightarrow> string \<Rightarrow> string \<Rightarrow> iam \<Rightarrow> string \<Rightarrow> string \<Rightarrow> string \<Rightarrow> (iam_error, string \<times> iam) result"
where
  "CreateRole v rid now s account name trust = CreateRoleOpts v rid now s account name trust 3600"

definition update_role :: "iam \<Rightarrow> string \<Rightarrow> string \<Rightarrow> (Role \<Rightarrow> Role) \<Rightarrow> (iam_error, iam) result" where
  "update_role s account name upd =
     ok_or NoRows (sql_update (\<lambda>r. ro_account r = account \<and> ro_name r = name) upd (i_roles s))
       (\<lambda>rs. Inr (s\<lparr>i_roles := rs\<rparr>))"

definition UpdateRoleMaxSessionDuration :: "iam \<Rightarrow> string \<Rightarrow> string \<Rightarrow> int \<Rightarrow> (iam_error, iam) result" where
  "UpdateRoleMaxSessionDuration s account name dur =
     (if \<not> session_range dur then Inl BadArgument else update_role s account name (\<lambda>r. r\<lparr>ro_max := dur\<rparr>))"

definition UpdateAssumeRolePolicy :: "iam \<Rightarrow> string \<Rightarrow> string \<Rightarrow> string \<Rightarrow> (iam_error, iam) result" where
  "UpdateAssumeRolePolicy s account name trust =
     (if \<not> validate_PolicyDocument trust then Inl Invalid else update_role s account name (\<lambda>r. r\<lparr>ro_trust := trust\<rparr>))"

definition ListRoles :: "iam \<Rightarrow> string \<Rightarrow> Role list" where
  "ListRoles s account =
     map (\<lambda>r. if ro_max r \<le> 0 then r\<lparr>ro_max := 3600\<rparr> else r)
       (sort_key ro_name (filter (\<lambda>r. ro_account r = account) (i_roles s)))"

definition DeleteRole :: "iam \<Rightarrow> string \<Rightarrow> string \<Rightarrow> (iam_error, iam) result" where
  "DeleteRole s account name =
     ok_or NoRows (sql_delete (\<lambda>r. ro_account r = account \<and> ro_name r = name) (i_roles s))
       (\<lambda>rs. Inr (s\<lparr>i_roles := rs\<rparr>))"

section \<open>Attached policies\<close>

definition AttachPolicy :: "iam \<Rightarrow> string \<Rightarrow> string \<Rightarrow> iam" where
  "AttachPolicy s arn pid = s\<lparr>i_attached := sql_ignore id (arn, pid) (i_attached s)\<rparr>"

definition detachPolicy :: "iam \<Rightarrow> string \<Rightarrow> string \<Rightarrow> (iam_error, iam) result" where
  "detachPolicy s arn pid =
     ok_or NoRows (sql_delete (\<lambda>a. a = (arn, pid)) (i_attached s)) (\<lambda>as. Inr (s\<lparr>i_attached := as\<rparr>))"

definition PutPolicy :: "iam \<Rightarrow> string \<Rightarrow> string \<Rightarrow> iam" where
  "PutPolicy s pid doc =
     s\<lparr>i_policies := sql_upsert po_id (\<lambda>p. p\<lparr>po_document := doc\<rparr>)
        \<lparr>po_id = pid, po_document = doc, po_name = None, po_account = None, po_arn = None, po_version = None\<rparr>
        (i_policies s)\<rparr>"

text \<open>The attachments of one principal, and the documents an inner join with the policies gives.\<close>

definition attachments :: "iam \<Rightarrow> string \<Rightarrow> string list" where
  "attachments s arn = map snd (filter (\<lambda>a. fst a = arn) (i_attached s))"

definition join_policies :: "iam \<Rightarrow> string list \<Rightarrow> string list" where
  "join_policies s pids = concat (map (\<lambda>pid. map po_document (filter (\<lambda>p. po_id p = pid) (i_policies s))) pids)"

definition ListAttachedPolicyDocuments :: "iam \<Rightarrow> string \<Rightarrow> string list" where
  "ListAttachedPolicyDocuments s arn = join_policies s (sort_key id (attachments s arn))"

definition policyNameFromARN :: "string \<Rightarrow> string" where
  "policyNameFromARN arn = (case last_index_char (CHR ''/'') arn of None \<Rightarrow> arn | Some i \<Rightarrow> drop (i + 1) arn)"

definition ListAttachedPolicyRefs :: "iam \<Rightarrow> string \<Rightarrow> (string \<times> string) list" where
  "ListAttachedPolicyRefs s arn =
     map (\<lambda>pid. (pid,
        (let name = (case List.find (\<lambda>p. po_id p = pid) (i_policies s) of None \<Rightarrow> [] | Some p \<Rightarrow> null_text (po_name p))
         in if name = [] then policyNameFromARN pid else name)))
       (sort_key id (attachments s arn))"

definition AttachUserPolicy :: "iam \<Rightarrow> string \<Rightarrow> string \<Rightarrow> string \<Rightarrow> (iam_error, iam) result" where
  "AttachUserPolicy s account name parn =
     ok_or NoRows (find_user s account name) (\<lambda>u. Inr (AttachPolicy s (us_arn u) parn))"

definition DetachUserPolicy :: "iam \<Rightarrow> string \<Rightarrow> string \<Rightarrow> string \<Rightarrow> (iam_error, iam) result" where
  "DetachUserPolicy s account name parn =
     ok_or NoRows (find_user s account name) (\<lambda>u. detachPolicy s (us_arn u) parn)"

definition AttachRolePolicy :: "iam \<Rightarrow> string \<Rightarrow> string \<Rightarrow> string \<Rightarrow> (iam_error, iam) result" where
  "AttachRolePolicy s account name parn =
     (case GetRole s account name of Inl e \<Rightarrow> Inl e | Inr (arn, _) \<Rightarrow> Inr (AttachPolicy s arn parn))"

definition DetachRolePolicy :: "iam \<Rightarrow> string \<Rightarrow> string \<Rightarrow> string \<Rightarrow> (iam_error, iam) result" where
  "DetachRolePolicy s account name parn =
     (case GetRole s account name of Inl e \<Rightarrow> Inl e | Inr (arn, _) \<Rightarrow> detachPolicy s arn parn)"

section \<open>Inline policies\<close>

definition inline_key :: "InlinePolicy \<Rightarrow> string \<times> string" where "inline_key p = (ip_arn p, ip_name p)"

definition PutInlinePolicy :: "validator \<Rightarrow> iam \<Rightarrow> string \<Rightarrow> string \<Rightarrow> string \<Rightarrow> (iam_error, iam) result" where
  "PutInlinePolicy v s arn name doc =
     (if arn = [] then Inl BadArgument
      else if \<not> IAMName v name \<or> \<not> validate_PolicyDocument doc then Inl Invalid
      else Inr (s\<lparr>i_inline := sql_upsert inline_key (\<lambda>p. p\<lparr>ip_document := doc\<rparr>)
                    \<lparr>ip_arn = arn, ip_name = name, ip_document = doc\<rparr> (i_inline s)\<rparr>))"

definition GetInlinePolicy :: "iam \<Rightarrow> string \<Rightarrow> string \<Rightarrow> (iam_error, InlinePolicy) result" where
  "GetInlinePolicy s arn name = ok_or NoRows (List.find (\<lambda>p. ip_arn p = arn \<and> ip_name p = name) (i_inline s)) Inr"

definition DeleteInlinePolicy :: "iam \<Rightarrow> string \<Rightarrow> string \<Rightarrow> (iam_error, iam) result" where
  "DeleteInlinePolicy s arn name =
     ok_or NoRows (sql_delete (\<lambda>p. ip_arn p = arn \<and> ip_name p = name) (i_inline s))
       (\<lambda>ps. Inr (s\<lparr>i_inline := ps\<rparr>))"

definition ListInlinePolicies :: "iam \<Rightarrow> string \<Rightarrow> InlinePolicy list" where
  "ListInlinePolicies s arn = sort_key ip_name (filter (\<lambda>p. ip_arn p = arn) (i_inline s))"

section \<open>Groups\<close>

definition find_group :: "iam \<Rightarrow> string \<Rightarrow> string \<Rightarrow> Group option" where
  "find_group s account name = List.find (\<lambda>g. gr_account g = account \<and> gr_name g = name) (i_groups s)"

definition GetGroup :: "iam \<Rightarrow> string \<Rightarrow> string \<Rightarrow> (iam_error, Group) result" where
  "GetGroup s account name = ok_or NoRows (find_group s account name) Inr"

definition group_key :: "Group \<Rightarrow> string \<times> string" where "group_key g = (gr_account g, gr_name g)"

definition CreateGroup ::
  "validator \<Rightarrow> string \<Rightarrow> iam \<Rightarrow> string \<Rightarrow> string \<Rightarrow> (iam_error, Group \<times> iam) result"
where
  "CreateGroup v gid s account name =
     (if \<not> validate_AccountID v account \<or> \<not> IAMName v name then Inl Invalid
      else (let g = \<lparr>gr_account = account, gr_name = name, gr_id = gid, gr_arn = GroupARN account ''/'' name\<rparr>
            in ok_or Constraint (sql_insert group_key g (i_groups s)) (\<lambda>gs. Inr (g, s\<lparr>i_groups := gs\<rparr>))))"

text \<open>The memberships, attachments and inline policies of the group go with it.\<close>

definition DeleteGroup :: "iam \<Rightarrow> string \<Rightarrow> string \<Rightarrow> (iam_error, iam) result" where
  "DeleteGroup s account name =
     ok_or NoRows (find_group s account name) (\<lambda>g.
       Inr (s\<lparr>i_members := filter (\<lambda>(a, n, u). \<not> (a = account \<and> n = name)) (i_members s),
              i_attached := filter (\<lambda>a. fst a \<noteq> gr_arn g) (i_attached s),
              i_inline := filter (\<lambda>p. ip_arn p \<noteq> gr_arn g) (i_inline s),
              i_groups := filter (\<lambda>g. \<not> (gr_account g = account \<and> gr_name g = name)) (i_groups s)\<rparr>))"

definition ListGroups :: "iam \<Rightarrow> string \<Rightarrow> Group list" where
  "ListGroups s account = sort_key gr_name (filter (\<lambda>g. gr_account g = account) (i_groups s))"

definition AddUserToGroup :: "iam \<Rightarrow> string \<Rightarrow> string \<Rightarrow> string \<Rightarrow> (iam_error, iam) result" where
  "AddUserToGroup s account grp name =
     ok_or NoRows (find_group s account grp) (\<lambda>_. ok_or NoRows (find_user s account name) (\<lambda>_.
       Inr (s\<lparr>i_members := sql_ignore id (account, grp, name) (i_members s)\<rparr>)))"

definition RemoveUserFromGroup :: "iam \<Rightarrow> string \<Rightarrow> string \<Rightarrow> string \<Rightarrow> (iam_error, iam) result" where
  "RemoveUserFromGroup s account grp name =
     ok_or NoRows (find_group s account grp) (\<lambda>_.
       ok_or NoRows (sql_delete (\<lambda>m. m = (account, grp, name)) (i_members s)) (\<lambda>ms. Inr (s\<lparr>i_members := ms\<rparr>)))"

definition ListGroupMembers :: "iam \<Rightarrow> string \<Rightarrow> string \<Rightarrow> (iam_error, User list) result" where
  "ListGroupMembers s account grp =
     ok_or NoRows (find_group s account grp) (\<lambda>_.
       Inr (sort_key us_name (concat (map (\<lambda>(a, g, n).
              if a = account \<and> g = grp then filter (\<lambda>u. us_account u = a \<and> us_name u = n) (i_users s) else [])
              (i_members s)))))"

text \<open>The groups of a user, as the join of the memberships with the groups gives them.\<close>

definition user_groups :: "iam \<Rightarrow> string \<Rightarrow> string \<Rightarrow> Group list" where
  "user_groups s account name =
     concat (map (\<lambda>(a, g, n).
       if a = account \<and> n = name then filter (\<lambda>gr. gr_account gr = a \<and> gr_name gr = g) (i_groups s) else [])
       (i_members s))"

definition ListGroupsForUser :: "iam \<Rightarrow> string \<Rightarrow> string \<Rightarrow> Group list" where
  "ListGroupsForUser s account name = sort_key gr_name (user_groups s account name)"

definition AttachGroupPolicy :: "iam \<Rightarrow> string \<Rightarrow> string \<Rightarrow> string \<Rightarrow> (iam_error, iam) result" where
  "AttachGroupPolicy s account grp parn =
     ok_or NoRows (find_group s account grp) (\<lambda>g. Inr (AttachPolicy s (gr_arn g) parn))"

definition DetachGroupPolicy :: "iam \<Rightarrow> string \<Rightarrow> string \<Rightarrow> string \<Rightarrow> (iam_error, iam) result" where
  "DetachGroupPolicy s account grp parn =
     ok_or NoRows (find_group s account grp) (\<lambda>g. detachPolicy s (gr_arn g) parn)"

definition ListGroupPolicies :: "iam \<Rightarrow> string \<Rightarrow> string \<Rightarrow> (iam_error, string list) result" where
  "ListGroupPolicies s account grp =
     ok_or NoRows (find_group s account grp) (\<lambda>g. Inr (map fst (ListAttachedPolicyRefs s (gr_arn g))))"

definition PutGroupInlinePolicy ::
  "validator \<Rightarrow> iam \<Rightarrow> string \<Rightarrow> string \<Rightarrow> string \<Rightarrow> string \<Rightarrow> (iam_error, iam) result"
where
  "PutGroupInlinePolicy v s account grp name doc =
     ok_or NoRows (find_group s account grp) (\<lambda>g. PutInlinePolicy v s (gr_arn g) name doc)"

section \<open>The identity policies of a user\<close>

text \<open>The four parts of the UNION ALL. SQL promises no order here.\<close>

definition inline_docs :: "iam \<Rightarrow> string \<Rightarrow> string list" where
  "inline_docs s arn = map ip_document (filter (\<lambda>p. ip_arn p = arn) (i_inline s))"

definition IdentityPolicyDocsForUser :: "iam \<Rightarrow> string \<Rightarrow> string \<Rightarrow> (iam_error, string list) result" where
  "IdentityPolicyDocsForUser s account name =
     ok_or NoRows (find_user s account name) (\<lambda>u.
       Inr (join_policies s (attachments s (us_arn u)) @ inline_docs s (us_arn u)
         @ concat (map (\<lambda>g. join_policies s (attachments s (gr_arn g))) (user_groups s account name))
         @ concat (map (\<lambda>g. inline_docs s (gr_arn g)) (user_groups s account name))))"

definition identityPolicyDocsForUserSequential :: "iam \<Rightarrow> string \<Rightarrow> string \<Rightarrow> (iam_error, string list) result" where
  "identityPolicyDocsForUserSequential s account name =
     ok_or NoRows (find_user s account name) (\<lambda>u.
       Inr (ListAttachedPolicyDocuments s (us_arn u) @ map ip_document (ListInlinePolicies s (us_arn u))
         @ concat (map (\<lambda>g. ListAttachedPolicyDocuments s (gr_arn g) @ map ip_document (ListInlinePolicies s (gr_arn g)))
             (ListGroupsForUser s account name))))"

section \<open>Managed policies and their versions\<close>

definition version_key :: "ManagedPolicyVersion \<Rightarrow> string \<times> string" where
  "version_key w = (mv_arn w, mv_version w)"

definition CreateManagedPolicy ::
  "validator \<Rightarrow> string \<Rightarrow> string \<Rightarrow> iam \<Rightarrow> string \<Rightarrow> string \<Rightarrow> string \<Rightarrow> (iam_error, string \<times> iam) result"
where
  "CreateManagedPolicy v pid now s account name doc =
     (if \<not> validate_AccountID v account \<or> \<not> IAMName v name \<or> \<not> validate_PolicyDocument doc then Inl Invalid
      else (let arn = PolicyARN account ''/'' name in
        ok_or Constraint (sql_insert mp_arn \<lparr>mp_arn = arn, mp_account = account, mp_name = name, mp_id = pid,
            mp_default = ''v1'', mp_document = doc\<rparr> (i_managed s)) (\<lambda>ms.
        ok_or Constraint (sql_insert version_key \<lparr>mv_arn = arn, mv_version = ''v1'', mv_document = doc,
            mv_default = True, mv_created = now\<rparr> (i_versions s)) (\<lambda>ws.
        Inr (arn, s\<lparr>i_managed := ms, i_versions := ws,
          i_policies := sql_upsert po_id
            (\<lambda>p. p\<lparr>po_document := doc, po_name := Some name, po_account := Some account, po_arn := Some arn,
                   po_version := Some ''v1''\<rparr>)
            \<lparr>po_id = arn, po_document = doc, po_name = Some name, po_account = Some account, po_arn = Some arn,
             po_version = Some ''v1''\<rparr> (i_policies s)\<rparr>)))))"

definition find_managed :: "iam \<Rightarrow> string \<Rightarrow> ManagedPolicy option" where
  "find_managed s arn = List.find (\<lambda>p. mp_arn p = arn) (i_managed s)"

definition GetManagedPolicy :: "iam \<Rightarrow> string \<Rightarrow> (iam_error, ManagedPolicy) result" where
  "GetManagedPolicy s arn = ok_or NoRows (find_managed s arn) Inr"

definition ListManagedPolicies :: "iam \<Rightarrow> string \<Rightarrow> ManagedPolicy list" where
  "ListManagedPolicies s account = sort_key mp_name (filter (\<lambda>p. mp_account p = account) (i_managed s))"

definition DeleteManagedPolicy :: "iam \<Rightarrow> string \<Rightarrow> (iam_error, iam) result" where
  "DeleteManagedPolicy s arn =
     (if \<exists>a\<in>set (i_attached s). snd a = arn then Inl AttachmentsRemain
      else ok_or NoRows (sql_delete (\<lambda>p. mp_arn p = arn) (i_managed s)) (\<lambda>ms.
        Inr (s\<lparr>i_managed := ms, i_versions := filter (\<lambda>w. mv_arn w \<noteq> arn) (i_versions s),
               i_policies := filter (\<lambda>p. po_id p \<noteq> arn) (i_policies s)\<rparr>)))"

definition versions_of :: "iam \<Rightarrow> string \<Rightarrow> ManagedPolicyVersion list" where
  "versions_of s arn = filter (\<lambda>w. mv_arn w = arn) (i_versions s)"

definition version_number :: "string \<Rightarrow> int option" where
  "version_number w = (case w of c # cs \<Rightarrow> if c = CHR ''v'' then Atoi cs else None | [] \<Rightarrow> None)"

definition nextPolicyVersionID :: "iam \<Rightarrow> string \<Rightarrow> string" where
  "nextPolicyVersionID s arn =
     (let maxN = fold (\<lambda>w mx. case version_number (mv_version w) of None \<Rightarrow> mx | Some n \<Rightarrow> max mx n) (versions_of s arn) 0
      in ''v'' @ itoa (wrap64 (maxN + 1)))"

definition syncManagedPolicyDefault :: "string \<Rightarrow> string \<Rightarrow> string \<Rightarrow> iam \<Rightarrow> iam" where
  "syncManagedPolicyDefault arn version doc s =
     s\<lparr>i_managed := map (\<lambda>p. if mp_arn p = arn then p\<lparr>mp_default := version, mp_document := doc\<rparr> else p) (i_managed s),
       i_policies := map (\<lambda>p. if po_id p = arn then p\<lparr>po_document := doc, po_version := Some version\<rparr> else p) (i_policies s)\<rparr>"

definition clear_defaults :: "string \<Rightarrow> iam \<Rightarrow> iam" where
  "clear_defaults arn s =
     s\<lparr>i_versions := map (\<lambda>w. if mv_arn w = arn then w\<lparr>mv_default := False\<rparr> else w) (i_versions s)\<rparr>"

definition new_default :: "bool \<Rightarrow> string \<Rightarrow> string \<Rightarrow> string \<Rightarrow> iam \<Rightarrow> iam" where
  "new_default setAsDefault arn version doc s =
     (if setAsDefault then syncManagedPolicyDefault arn version doc (clear_defaults arn s) else s)"

definition CreateManagedPolicyVersion ::
  "string \<Rightarrow> iam \<Rightarrow> string \<Rightarrow> string \<Rightarrow> bool \<Rightarrow> (iam_error, ManagedPolicyVersion \<times> iam) result"
where
  "CreateManagedPolicyVersion now s arn doc setAsDefault =
     (if \<not> validate_PolicyDocument doc then Inl Invalid
      else ok_or NoRows (find_managed s arn) (\<lambda>_.
        if 5 \<le> length (versions_of s arn) then Inl PolicyVersionLimit
        else (let nextID = nextPolicyVersionID s arn;
                  s1 = new_default setAsDefault arn nextID doc s;
                  w = \<lparr>mv_arn = arn, mv_version = nextID, mv_document = doc, mv_default = setAsDefault, mv_created = now\<rparr>
              in ok_or Constraint (sql_insert version_key w (i_versions s1))
                   (\<lambda>ws. Inr (w, s1\<lparr>i_versions := ws\<rparr>)))))"

definition find_version :: "iam \<Rightarrow> string \<Rightarrow> string \<Rightarrow> ManagedPolicyVersion option" where
  "find_version s arn version = List.find (\<lambda>w. mv_arn w = arn \<and> mv_version w = version) (i_versions s)"

definition SetDefaultManagedPolicyVersion :: "iam \<Rightarrow> string \<Rightarrow> string \<Rightarrow> (iam_error, iam) result" where
  "SetDefaultManagedPolicyVersion s arn versionID =
     (let version = TrimSpace versionID
      in if version = [] then Inl BadArgument
         else ok_or NoRows (find_managed s arn) (\<lambda>_.
           ok_or NoSuchPolicyVersion (find_version s arn version) (\<lambda>w.
             (let s1 = clear_defaults arn s;
                  s2 = s1\<lparr>i_versions := map (\<lambda>w. if mv_arn w = arn \<and> mv_version w = version then w\<lparr>mv_default := True\<rparr> else w)
                                       (i_versions s1)\<rparr>
              in Inr (syncManagedPolicyDefault arn version (mv_document w) s2)))))"

definition GetManagedPolicyVersion :: "iam \<Rightarrow> string \<Rightarrow> string \<Rightarrow> (iam_error, ManagedPolicyVersion) result" where
  "GetManagedPolicyVersion s arn version = ok_or NoSuchPolicyVersion (find_version s arn version) Inr"

definition DeleteManagedPolicyVersion :: "iam \<Rightarrow> string \<Rightarrow> string \<Rightarrow> (iam_error, iam) result" where
  "DeleteManagedPolicyVersion s arn version =
     ok_or NoRows (find_managed s arn) (\<lambda>p.
       if mp_default p = version then Inl DeleteDefaultPolicyVersion
       else ok_or NoSuchPolicyVersion (sql_delete (\<lambda>w. mv_arn w = arn \<and> mv_version w = version) (i_versions s))
              (\<lambda>ws. Inr (s\<lparr>i_versions := ws\<rparr>)))"

section \<open>Permissions boundaries\<close>

definition policyDocumentByARN :: "iam \<Rightarrow> string \<Rightarrow> string option" where
  "policyDocumentByARN s arn =
     (case find_managed s arn of
        Some p \<Rightarrow> Some (mp_document p)
      | None \<Rightarrow> map_option po_document (List.find (\<lambda>p. po_id p = arn \<or> po_arn p = Some arn) (i_policies s)))"

definition boundary_key :: "boundary_row \<Rightarrow> string \<times> string \<times> string" where
  "boundary_key b = (bo_account b, bo_type b, bo_name b)"

definition putPermissionsBoundary :: "iam \<Rightarrow> string \<Rightarrow> string \<Rightarrow> string \<Rightarrow> string \<Rightarrow> (iam_error, iam) result" where
  "putPermissionsBoundary s account ptype name parn =
     (if parn = [] then Inl BadArgument
      else ok_or NoRows (policyDocumentByARN s parn) (\<lambda>_.
        Inr (s\<lparr>i_boundaries := sql_upsert boundary_key (\<lambda>b. b\<lparr>bo_arn := parn\<rparr>)
                \<lparr>bo_account = account, bo_type = ptype, bo_name = name, bo_arn = parn\<rparr> (i_boundaries s)\<rparr>)))"

definition PutUserPermissionsBoundary :: "iam \<Rightarrow> string \<Rightarrow> string \<Rightarrow> string \<Rightarrow> (iam_error, iam) result" where
  "PutUserPermissionsBoundary s account name parn =
     ok_or NoRows (find_user s account name) (\<lambda>_. putPermissionsBoundary s account ''user'' name parn)"

definition PutRolePermissionsBoundary :: "iam \<Rightarrow> string \<Rightarrow> string \<Rightarrow> string \<Rightarrow> (iam_error, iam) result" where
  "PutRolePermissionsBoundary s account name parn =
     ok_or NoRows (find_role s account name) (\<lambda>_. putPermissionsBoundary s account ''role'' name parn)"

definition getPermissionsBoundaryARN :: "iam \<Rightarrow> string \<Rightarrow> string \<Rightarrow> string \<Rightarrow> string option" where
  "getPermissionsBoundaryARN s account ptype name =
     map_option bo_arn (List.find (\<lambda>b. boundary_key b = (account, ptype, name)) (i_boundaries s))"

definition deletePermissionsBoundary :: "iam \<Rightarrow> string \<Rightarrow> string \<Rightarrow> string \<Rightarrow> (iam_error, iam) result" where
  "deletePermissionsBoundary s account ptype name =
     ok_or NoRows (sql_delete (\<lambda>b. boundary_key b = (account, ptype, name)) (i_boundaries s))
       (\<lambda>bs. Inr (s\<lparr>i_boundaries := bs\<rparr>))"

text \<open>The document of the boundary; the inner \<open>None\<close> says that no boundary is set.\<close>

definition PermissionsBoundaryDoc :: "iam \<Rightarrow> string \<Rightarrow> string \<Rightarrow> string \<Rightarrow> (iam_error, string option) result" where
  "PermissionsBoundaryDoc s account kind name =
     (if kind \<noteq> ''user'' \<and> kind \<noteq> ''role'' then Inl BadArgument
      else (case getPermissionsBoundaryARN s account kind name of
              None \<Rightarrow> Inr None
            | Some arn \<Rightarrow> ok_or NoRows (policyDocumentByARN s arn) (\<lambda>doc. Inr (Some doc))))"

end
