(* ===== verification/Iam_Props.thy ===== *)
theory Iam_Props
  imports Iam Transitions
begin

text \<open>
  What the IAM tables promise: the batched reader of a user's policies returns what the sequential one
  returns, the operative document of a managed policy is that of its one default version at every moment,
  and what deleting a principal leaves behind.
\<close>

section \<open>The batched reader\<close>

lemma mset_concat_map: "mset (concat (map f xs)) = sum_mset (image_mset (\<lambda>x. mset (f x)) (mset xs))"
  by (induction xs) auto

lemma mset_join_policies: "mset xs = mset ys \<Longrightarrow> mset (join_policies s xs) = mset (join_policies s ys)"
  by (simp only: join_policies_def mset_concat_map)

lemma mset_attached: "mset (ListAttachedPolicyDocuments s arn) = mset (join_policies s (attachments s arn))"
  unfolding ListAttachedPolicyDocuments_def by (rule mset_join_policies) simp

lemma mset_inline: "mset (map ip_document (ListInlinePolicies s arn)) = mset (inline_docs s arn)"
  by (simp add: ListInlinePolicies_def inline_docs_def mset_map)

lemma mset_concat_map_cong:
  "(\<And>x. mset (f x) = mset (g x)) \<Longrightarrow> mset xs = mset ys \<Longrightarrow> mset (concat (map f xs)) = mset (concat (map g ys))"
  by (simp only: mset_concat_map)

lemma mset_concat_map_append:
  "mset (concat (map (\<lambda>x. f x @ g x) xs)) = mset (concat (map f xs)) + mset (concat (map g xs))"
  by (induction xs) auto

text \<open>C18. The single query that reads a user's policies returns the same documents, each as often, as reading the
  attachments, inline policies and groups one after the other, and fails exactly when that fails.\<close>
theorem identity_docs_batched:
  "map_sum id mset (IdentityPolicyDocsForUser s account name) =
   map_sum id mset (identityPolicyDocsForUserSequential s account name)"
proof (cases "find_user s account name")
  case None
  then show ?thesis by (simp add: IdentityPolicyDocsForUser_def identityPolicyDocsForUserSequential_def)
next
  case (Some u)
  let ?gs = "user_groups s account name"
  have "mset (concat (map (\<lambda>g. ListAttachedPolicyDocuments s (gr_arn g) @ map ip_document (ListInlinePolicies s (gr_arn g)))
          (ListGroupsForUser s account name))) =
      mset (concat (map (\<lambda>g. join_policies s (attachments s (gr_arn g)) @ inline_docs s (gr_arn g)) ?gs))"
    by (rule mset_concat_map_cong) (simp_all only: mset_append mset_attached mset_inline, simp add: ListGroupsForUser_def)
  then show ?thesis
    using Some mset_concat_map_append [of "\<lambda>g. join_policies s (attachments s (gr_arn g))" "\<lambda>g. inline_docs s (gr_arn g)" ?gs]
    by (simp add: IdentityPolicyDocsForUser_def identityPolicyDocsForUserSequential_def mset_attached mset_inline
        del: mset_map mset_concat)
qed

section \<open>The steps\<close>

inductive iam_step :: "validator \<Rightarrow> iam \<Rightarrow> string \<Rightarrow> iam \<Rightarrow> bool" for v where
  "CreateUser v uid now s a n = Inr (u, s') \<Longrightarrow> iam_step v s ''CreateUser'' s'"
| "DeleteUser s a n = Inr s' \<Longrightarrow> iam_step v s ''DeleteUser'' s'"
| "CreateUserAccessKey seal k secret s a n = Inr s' \<Longrightarrow> iam_step v s ''CreateAccessKey'' s'"
| "write_rows w (i_keys s) = Some ks \<Longrightarrow> iam_step v s ''UpdateAccessKey'' (s\<lparr>i_keys := ks\<rparr>)"
| "iam_step v s ''PutRole'' (PutRole s a n arn trust)"
| "CreateRoleOpts v rid now s a n trust dur = Inr (arn, s') \<Longrightarrow> iam_step v s ''CreateRole'' s'"
| "UpdateRoleMaxSessionDuration s a n dur = Inr s' \<Longrightarrow> iam_step v s ''UpdateRole'' s'"
| "UpdateAssumeRolePolicy s a n trust = Inr s' \<Longrightarrow> iam_step v s ''UpdateAssumeRolePolicy'' s'"
| "DeleteRole s a n = Inr s' \<Longrightarrow> iam_step v s ''DeleteRole'' s'"
| "AttachUserPolicy s a n p = Inr s' \<Longrightarrow> iam_step v s ''AttachUserPolicy'' s'"
| "DetachUserPolicy s a n p = Inr s' \<Longrightarrow> iam_step v s ''DetachUserPolicy'' s'"
| "AttachRolePolicy s a n p = Inr s' \<Longrightarrow> iam_step v s ''AttachRolePolicy'' s'"
| "DetachRolePolicy s a n p = Inr s' \<Longrightarrow> iam_step v s ''DetachRolePolicy'' s'"
| "AttachGroupPolicy s a n p = Inr s' \<Longrightarrow> iam_step v s ''AttachGroupPolicy'' s'"
| "DetachGroupPolicy s a n p = Inr s' \<Longrightarrow> iam_step v s ''DetachGroupPolicy'' s'"
| "PutInlinePolicy v s arn n doc = Inr s' \<Longrightarrow> iam_step v s ''PutInlinePolicy'' s'"
| "DeleteInlinePolicy s arn n = Inr s' \<Longrightarrow> iam_step v s ''DeleteInlinePolicy'' s'"
| "CreateGroup v gid s a n = Inr (g, s') \<Longrightarrow> iam_step v s ''CreateGroup'' s'"
| "DeleteGroup s a n = Inr s' \<Longrightarrow> iam_step v s ''DeleteGroup'' s'"
| "AddUserToGroup s a g n = Inr s' \<Longrightarrow> iam_step v s ''AddUserToGroup'' s'"
| "RemoveUserFromGroup s a g n = Inr s' \<Longrightarrow> iam_step v s ''RemoveUserFromGroup'' s'"
| "pid \<notin> mp_arn ` set (i_managed s) \<Longrightarrow> iam_step v s ''PutPolicy'' (PutPolicy s pid doc)"
| "CreateManagedPolicy v pid now s a n doc = Inr (arn, s') \<Longrightarrow> iam_step v s ''CreatePolicy'' s'"
| "DeleteManagedPolicy s arn = Inr s' \<Longrightarrow> iam_step v s ''DeletePolicy'' s'"
| "CreateManagedPolicyVersion now s arn doc d = Inr (w, s') \<Longrightarrow> iam_step v s ''CreatePolicyVersion'' s'"
| "SetDefaultManagedPolicyVersion s arn version = Inr s' \<Longrightarrow> iam_step v s ''SetDefaultPolicyVersion'' s'"
| "DeleteManagedPolicyVersion s arn version = Inr s' \<Longrightarrow> iam_step v s ''DeletePolicyVersion'' s'"
| "PutUserPermissionsBoundary s a n p = Inr s' \<Longrightarrow> iam_step v s ''PutUserPermissionsBoundary'' s'"
| "PutRolePermissionsBoundary s a n p = Inr s' \<Longrightarrow> iam_step v s ''PutRolePermissionsBoundary'' s'"
| "deletePermissionsBoundary s a t n = Inr s' \<Longrightarrow> iam_step v s ''DeletePermissionsBoundary'' s'"

definition iam_init :: "iam \<Rightarrow> bool" where
  "iam_init s \<longleftrightarrow>
     i_users s = [] \<and> i_groups s = [] \<and> i_members s = [] \<and> i_policies s = [] \<and> i_managed s = [] \<and> i_versions s = []"

section \<open>Managed policies\<close>

text \<open>What the versions \<open>ws\<close> and the rows \<open>rs\<close> of one managed policy say of it.\<close>

definition operative :: "ManagedPolicyVersion list \<Rightarrow> policy_row list \<Rightarrow> ManagedPolicy \<Rightarrow> bool" where
  "operative ws rs p \<longleftrightarrow>
     length ws \<le> 5 \<and>
     (\<exists>w\<in>set ws. mv_version w = mp_default p \<and> mv_document w = mp_document p \<and> mv_default w) \<and>
     (\<forall>w\<in>set ws. mv_default w \<longrightarrow> mv_version w = mp_default p) \<and>
     (\<exists>r\<in>set rs. po_document r = mp_document p)"

abbreviation versions_for :: "iam \<Rightarrow> string \<Rightarrow> ManagedPolicyVersion list" where
  "versions_for s arn \<equiv> filter (\<lambda>w. mv_arn w = arn) (i_versions s)"

abbreviation rows_for :: "iam \<Rightarrow> string \<Rightarrow> policy_row list" where
  "rows_for s arn \<equiv> filter (\<lambda>r. po_id r = arn) (i_policies s)"

definition policy_sync :: "iam \<Rightarrow> bool" where
  "policy_sync s \<longleftrightarrow>
     distinct (map mp_arn (i_managed s)) \<and> distinct (map version_key (i_versions s)) \<and>
     distinct (map po_id (i_policies s)) \<and>
     (\<forall>w\<in>set (i_versions s). mv_arn w \<in> mp_arn ` set (i_managed s)) \<and>
     (\<forall>p\<in>set (i_managed s). operative (versions_for s (mp_arn p)) (rows_for s (mp_arn p)) p)"

lemma policy_syncI:
  assumes "distinct (map mp_arn (i_managed s))" "distinct (map version_key (i_versions s))"
    and "distinct (map po_id (i_policies s))"
    and "\<And>w. w \<in> set (i_versions s) \<Longrightarrow> mv_arn w \<in> mp_arn ` set (i_managed s)"
    and "\<And>p. p \<in> set (i_managed s) \<Longrightarrow> operative (versions_for s (mp_arn p)) (rows_for s (mp_arn p)) p"
  shows "policy_sync s"
  using assms by (simp add: policy_sync_def)

lemma policy_sync_cong:
  "i_managed s' = i_managed s \<Longrightarrow> i_versions s' = i_versions s \<Longrightarrow> i_policies s' = i_policies s \<Longrightarrow>
   policy_sync s' = policy_sync s"
  by (simp add: policy_sync_def)

lemma filter_map_if:
  assumes "\<And>r. key (f r) = key r"
  shows "filter (\<lambda>r. key r = k) (map (\<lambda>r. if key r = k' then f r else r) rows) =
    (if k = k' then map f (filter (\<lambda>r. key r = k) rows) else filter (\<lambda>r. key r = k) rows)"
  by (induction rows) (auto simp: assms)

lemma filter_map_same:
  "(\<And>r. key (f r) = key r) \<Longrightarrow> filter (\<lambda>r. key r = k) (map f rows) = map f (filter (\<lambda>r. key r = k) rows)"
  by (induction rows) auto

lemma filter_upsert_other:
  assumes "\<And>r. key (upd r) = key r" "key row \<noteq> k"
  shows "filter (\<lambda>r. key r = k) (sql_upsert key upd row rows) = filter (\<lambda>r. key r = k) rows"
  using filter_map_if [of key upd k "key row" rows, OF assms(1)] assms(2) by (simp add: sql_upsert_def)

lemma filter_upsert_same:
  assumes "\<And>r. key (upd r) = key r" "Q row" "\<And>r. Q (upd r)"
  shows "\<exists>r\<in>set (filter (\<lambda>r. key r = key row) (sql_upsert key upd row rows)). Q r"
proof (cases "key row \<in> key ` set rows")
  case True
  then obtain r where "r \<in> set rows" "key r = key row" by force
  then have "upd r \<in> set (filter (\<lambda>r. key r = key row) (sql_upsert key upd row rows))"
    using True assms(1) by (auto simp: sql_upsert_def intro!: rev_image_eqI [of r])
  then show ?thesis using assms(3) by blast
qed (simp add: sql_upsert_def assms(2))

lemma sync_CreateManagedPolicy:
  assumes "policy_sync s" "CreateManagedPolicy v pid now s a n doc = Inr (arn, s')"
  shows "policy_sync s'"
proof -
  let ?p = "\<lparr>mp_arn = arn, mp_account = a, mp_name = n, mp_id = pid, mp_default = ''v1'', mp_document = doc\<rparr>"
  let ?w = "\<lparr>mv_arn = arn, mv_version = ''v1'', mv_document = doc, mv_default = True, mv_created = now\<rparr>"
  let ?upd = "\<lambda>p. p\<lparr>po_document := doc, po_name := Some n, po_account := Some a, po_arn := Some arn, po_version := Some ''v1''\<rparr>"
  let ?r = "\<lparr>po_id = arn, po_document = doc, po_name = Some n, po_account = Some a, po_arn = Some arn, po_version = Some ''v1''\<rparr>"
  have new: "arn \<notin> mp_arn ` set (i_managed s)" and m: "i_managed s' = i_managed s @ [?p]"
    and ws: "i_versions s' = i_versions s @ [?w]" and k: "version_key ?w \<notin> version_key ` set (i_versions s)"
    and rs: "i_policies s' = sql_upsert po_id ?upd ?r (i_policies s)"
    using assms(2) by (auto simp: CreateManagedPolicy_def Let_def ok_or_Inr sql_insert_def split: if_splits)
  have none: "versions_for s arn = []"
    using assms(1) new by (auto simp: policy_sync_def filter_empty_conv)
  have row: "\<exists>r\<in>set (rows_for s' arn). po_document r = doc"
    unfolding rs using filter_upsert_same [of po_id ?upd "\<lambda>r. po_document r = doc" ?r "i_policies s"] by simp
  show ?thesis
  proof (rule policy_syncI)
    show "distinct (map mp_arn (i_managed s'))" using assms(1) new m by (auto simp: policy_sync_def)
    show "distinct (map version_key (i_versions s'))" using assms(1) ws k by (auto simp: policy_sync_def)
    show "distinct (map po_id (i_policies s'))"
      unfolding rs by (rule sql_upsert_distinct) (use assms(1) in \<open>simp_all add: policy_sync_def\<close>)
    show "mv_arn w \<in> mp_arn ` set (i_managed s')" if "w \<in> set (i_versions s')" for w
      using that assms(1) m ws by (auto simp: policy_sync_def)
    show "operative (versions_for s' (mp_arn p)) (rows_for s' (mp_arn p)) p" if "p \<in> set (i_managed s')" for p
    proof (cases "mp_arn p = arn")
      case True
      then have "p = ?p" using that m new by force
      then show ?thesis using ws none row by (simp add: operative_def)
    next
      case False
      then have "p \<in> set (i_managed s)" using that m by auto
      moreover have "rows_for s' (mp_arn p) = rows_for s (mp_arn p)"
        unfolding rs using False by (intro filter_upsert_other) auto
      ultimately show ?thesis using assms(1) False ws by (simp add: policy_sync_def)
    qed
  qed
qed

lemma sync_DeleteManagedPolicy:
  assumes "policy_sync s" "DeleteManagedPolicy s arn = Inr s'"
  shows "policy_sync s'"
proof -
  have m: "i_managed s' = filter (\<lambda>p. mp_arn p \<noteq> arn) (i_managed s)"
    and ws: "i_versions s' = filter (\<lambda>w. mv_arn w \<noteq> arn) (i_versions s)"
    and rs: "i_policies s' = filter (\<lambda>p. po_id p \<noteq> arn) (i_policies s)"
    using assms(2) by (auto simp: DeleteManagedPolicy_def ok_or_Inr sql_delete_def split: if_splits)
  have "filter (\<lambda>w. mv_arn w \<noteq> arn \<and> mv_arn w = x) xs = (if x = arn then [] else filter (\<lambda>w. mv_arn w = x) xs)"
    "filter (\<lambda>r. po_id r \<noteq> arn \<and> po_id r = x) ys = (if x = arn then [] else filter (\<lambda>r. po_id r = x) ys)" for x xs ys
    by (auto intro: filter_cong simp: filter_empty_conv)
  note filters = this
  show ?thesis
    using assms(1) by (intro policy_syncI) (auto simp: m ws rs filters policy_sync_def distinct_map_filter)
qed

lemma sync_DeleteManagedPolicyVersion:
  assumes "policy_sync s" "DeleteManagedPolicyVersion s arn version = Inr s'"
  shows "policy_sync s'"
proof -
  obtain p0 where p0: "find_managed s arn = Some p0" "mp_default p0 \<noteq> version"
    using assms(2) by (auto simp: DeleteManagedPolicyVersion_def ok_or_Inr split: if_splits)
  have ws: "i_versions s' = filter (\<lambda>w. \<not> (mv_arn w = arn \<and> mv_version w = version)) (i_versions s)"
    and same: "i_managed s' = i_managed s" "i_policies s' = i_policies s"
    using assms(2) by (auto simp: DeleteManagedPolicyVersion_def ok_or_Inr sql_delete_def split: if_splits)
  have in0: "p0 \<in> set (i_managed s)" "mp_arn p0 = arn" using p0(1) by (auto simp: find_managed_def dest: find_Some_iff')
  have keep: "operative (filter P ws) rs p" if "operative ws rs p" "\<And>w. mv_version w = mp_default p \<Longrightarrow> P w" for P ws rs p
    using that unfolding operative_def by (auto intro: le_trans [OF length_filter_le])
  show ?thesis
  proof (rule policy_syncI)
    show "operative (versions_for s' (mp_arn p)) (rows_for s' (mp_arn p)) p" if "p \<in> set (i_managed s')" for p
    proof -
      have p: "p \<in> set (i_managed s)" using that same by simp
      have same_p: "mp_arn p = arn \<Longrightarrow> p = p0"
        using p in0 assms(1) by (auto simp: policy_sync_def distinct_map inj_on_def)
      have "operative (filter (\<lambda>w. \<not> (mp_arn p = arn \<and> mv_version w = version)) (versions_for s (mp_arn p))) (rows_for s (mp_arn p)) p"
        by (rule keep) (use p assms(1) p0(2) same_p in \<open>auto simp: policy_sync_def\<close>)
      moreover have "versions_for s' (mp_arn p) = filter (\<lambda>w. \<not> (mp_arn p = arn \<and> mv_version w = version)) (versions_for s (mp_arn p))"
        unfolding ws by (auto intro: filter_cong)
      ultimately show ?thesis using same by simp
    qed
  qed (use assms(1) ws same in \<open>auto simp: policy_sync_def distinct_map_filter\<close>)
qed

text \<open>A new default version: the old defaults are cleared, the new one added or marked.\<close>

lemma versions_clear:
  "filter (\<lambda>w. mv_arn w = x) (i_versions (clear_defaults arn s)) =
   (if x = arn then map (\<lambda>w. w\<lparr>mv_default := False\<rparr>) (versions_for s x) else versions_for s x)"
  by (simp add: clear_defaults_def filter_map_if del: filter_map)

lemma set_mapE: "u \<in> set (map f xs) \<Longrightarrow> (\<And>x. x \<in> set xs \<Longrightarrow> u = f x \<Longrightarrow> R) \<Longrightarrow> R"
  by auto

lemma clear_defaults_versions:
  "i_versions (clear_defaults arn s) = map (\<lambda>w. if mv_arn w = arn then w\<lparr>mv_default := False\<rparr> else w) (i_versions s)"
  by (simp add: clear_defaults_def)

lemma clear_defaults_member:
  assumes "u \<in> set (i_versions (clear_defaults arn s))" "mv_arn u = arn"
  shows "\<not> mv_default u"
proof -
  obtain w where u: "u = (if mv_arn w = arn then w\<lparr>mv_default := False\<rparr> else w)"
    using assms(1) unfolding clear_defaults_versions by (rule set_mapE)
  show ?thesis
  proof (cases "mv_arn w = arn")
    case True
    then have "u = w\<lparr>mv_default := False\<rparr>" using u by simp
    then show ?thesis by simp
  next
    case False
    then have "u = w" using u by simp
    then show ?thesis using assms(2) False by simp
  qed
qed

lemma sync_default_fields:
  "i_versions (syncManagedPolicyDefault arn version doc s) = i_versions s"
  "i_managed (clear_defaults arn s) = i_managed s" "i_policies (clear_defaults arn s) = i_policies s"
  by (simp_all add: syncManagedPolicyDefault_def clear_defaults_def)

lemma rows_sync:
  "filter (\<lambda>r. po_id r = x) (i_policies (syncManagedPolicyDefault arn version doc s)) =
   (if x = arn then map (\<lambda>p. p\<lparr>po_document := doc, po_version := Some version\<rparr>) (rows_for s x) else rows_for s x)"
  by (simp add: syncManagedPolicyDefault_def filter_map_if del: filter_map)

lemma managed_sync:
  assumes "p \<in> set (i_managed (syncManagedPolicyDefault arn version doc s))"
  obtains p0 where "p0 \<in> set (i_managed s)" "mp_arn p = mp_arn p0"
    "mp_arn p0 = arn \<Longrightarrow> mp_default p = version \<and> mp_document p = doc" "mp_arn p0 \<noteq> arn \<Longrightarrow> p = p0"
  using assms by (auto simp: syncManagedPolicyDefault_def split: if_splits)

lemma sync_keys:
  "map mp_arn (i_managed (syncManagedPolicyDefault arn version doc s)) = map mp_arn (i_managed s)"
  "map po_id (i_policies (syncManagedPolicyDefault arn version doc s)) = map po_id (i_policies s)"
  "map version_key (i_versions (clear_defaults arn s)) = map version_key (i_versions s)"
  "map mv_arn (i_versions (clear_defaults arn s)) = map mv_arn (i_versions s)"
  by (simp_all add: syncManagedPolicyDefault_def clear_defaults_def version_key_def)

lemma sync_arns: "mp_arn ` set (i_managed (syncManagedPolicyDefault arn version doc s)) = mp_arn ` set (i_managed s)"
  using arg_cong [OF sync_keys(1), of set] by simp

text \<open>The policy whose default changes, and the others.\<close>

lemma sync_new_default:
  assumes "policy_sync s" "s' = (syncManagedPolicyDefault arn version doc s1)\<lparr>i_versions := ws\<rparr>"
    and "i_managed s1 = i_managed s" "i_policies s1 = i_policies s"
    and "distinct (map version_key ws)" "\<And>w. w \<in> set ws \<Longrightarrow> mv_arn w \<in> mp_arn ` set (i_managed s)"
    and other: "\<And>x. x \<noteq> arn \<Longrightarrow> filter (\<lambda>w. mv_arn w = x) ws = versions_for s x"
    and len: "length (filter (\<lambda>w. mv_arn w = arn) ws) \<le> 5"
    and dflt: "\<exists>w\<in>set ws. mv_arn w = arn \<and> mv_version w = version \<and> mv_document w = doc \<and> mv_default w"
    and only: "\<And>w. w \<in> set ws \<Longrightarrow> mv_arn w = arn \<Longrightarrow> mv_default w \<Longrightarrow> mv_version w = version"
  shows "policy_sync s'"
proof (rule policy_syncI)
  show "operative (versions_for s' (mp_arn p)) (rows_for s' (mp_arn p)) p" if "p \<in> set (i_managed s')" for p
  proof -
    note in_p = that
    obtain p0 where p0: "p0 \<in> set (i_managed s)" "mp_arn p = mp_arn p0"
      "mp_arn p0 = arn \<Longrightarrow> mp_default p = version \<and> mp_document p = doc" "mp_arn p0 \<noteq> arn \<Longrightarrow> p = p0"
    proof (rule managed_sync [of p arn version doc s1])
      show "p \<in> set (i_managed (syncManagedPolicyDefault arn version doc s1))" using in_p assms(2) by simp
    qed (use assms(3) in auto)
    have old: "operative (versions_for s (mp_arn p0)) (rows_for s (mp_arn p0)) p0"
      using assms(1) p0(1) by (simp add: policy_sync_def)
    show ?thesis
    proof (cases "mp_arn p0 = arn")
      case True
      have "rows_for s1 arn \<noteq> []" using old True assms(4) by (auto simp: operative_def filter_empty_conv)
      then have "\<exists>r\<in>set (rows_for s' (mp_arn p)). po_document r = doc"
        using True p0(2) rows_sync [of arn arn version doc s1] by (cases "rows_for s1 arn") (auto simp: assms(2))
      then show ?thesis using True p0(2,3) len dflt only by (auto simp: operative_def assms(2))
    next
      case False
      then show ?thesis
        using old p0 other [of "mp_arn p0"] rows_sync [of "mp_arn p0" arn version doc s1] assms(2,4) by simp
    qed
  qed
qed (use assms(1,5,6) sync_keys(1,2) [of arn version doc s1] sync_arns [of arn version doc s1] in
      \<open>simp_all add: policy_sync_def assms(2-4)\<close>)

lemma sync_SetDefault:
  assumes "policy_sync s" "SetDefaultManagedPolicyVersion s arn version = Inr s'"
  shows "policy_sync s'"
proof -
  let ?v = "TrimSpace version" and ?mark = "\<lambda>w. if mv_arn w = arn \<and> mv_version w = TrimSpace version then w\<lparr>mv_default := True\<rparr> else w"
  let ?s1 = "clear_defaults arn s" and ?ws = "map ?mark (i_versions (clear_defaults arn s))"
  obtain w where w: "find_version s arn ?v = Some w"
    and s': "s' = syncManagedPolicyDefault arn ?v (mv_document w) (?s1\<lparr>i_versions := ?ws\<rparr>)"
    using assms(2) by (auto simp: SetDefaultManagedPolicyVersion_def Let_def ok_or_Inr split: if_splits)
  have in_w: "w \<in> set (i_versions s)" "mv_arn w = arn" "mv_version w = ?v"
    using w by (auto simp: find_version_def dest: find_Some_iff')
  have keys: "map version_key ?ws = map version_key (i_versions s)"
    by (simp add: clear_defaults_def version_key_def)
  have ws: "filter (\<lambda>w. mv_arn w = x) ?ws = map ?mark (filter (\<lambda>w. mv_arn w = x) (i_versions ?s1))" for x
    by (rule filter_map_same) simp
  obtain p where p: "p \<in> set (i_managed s)" "mp_arn p = arn" using assms(1) in_w by (auto simp: policy_sync_def)
  show ?thesis
  proof (rule sync_new_default [OF assms(1),
        where s' = s' and arn = arn and version = ?v and doc = "mv_document w" and ?s1.0 = "?s1\<lparr>i_versions := ?ws\<rparr>" and ws = ?ws])
    show "filter (\<lambda>w. mv_arn w = x) ?ws = versions_for s x" if "x \<noteq> arn" for x
      using that unfolding ws versions_clear by (simp, intro map_idI) auto
    show "length (filter (\<lambda>w. mv_arn w = arn) ?ws) \<le> 5"
      unfolding ws versions_clear using assms(1) p by (auto simp: policy_sync_def operative_def)
    show "\<exists>u\<in>set ?ws. mv_arn u = arn \<and> mv_version u = ?v \<and> mv_document u = mv_document w \<and> mv_default u"
    proof -
      have "w\<lparr>mv_default := False\<rparr> \<in> set (i_versions ?s1)"
        using in_w by (auto simp: clear_defaults_def intro!: rev_image_eqI [of w])
      then have "?mark (w\<lparr>mv_default := False\<rparr>) \<in> set ?ws" unfolding set_map by (rule imageI)
      then have "w\<lparr>mv_default := True\<rparr> \<in> set ?ws" using in_w by simp
      then show ?thesis by (rule rev_bexI) (use in_w in simp)
    qed
    show "mv_arn u \<in> mp_arn ` set (i_managed s)" if "u \<in> set ?ws" for u
    proof -
      have "mv_arn u \<in> set (map mv_arn ?ws)" using imageI [OF that, of mv_arn] by (simp only: set_map)
      also have "map mv_arn ?ws = map mv_arn (i_versions s)" by (simp add: clear_defaults_def)
      finally show ?thesis using assms(1) by (auto simp: policy_sync_def)
    qed
    show "mv_version u = ?v" if "u \<in> set ?ws" "mv_arn u = arn" "mv_default u" for u
    proof -
      note in_u = that
      obtain x where x: "x \<in> set (i_versions ?s1)" "u = ?mark x" using in_u(1) by (rule set_mapE)
      then show ?thesis
        using that(2,3) clear_defaults_member [of x arn s] by (cases "mv_arn x = arn \<and> mv_version x = ?v") auto
    qed
    show "distinct (map version_key ?ws)" unfolding keys using assms(1) by (simp add: policy_sync_def)
  qed (simp_all add: s' clear_defaults_def syncManagedPolicyDefault_def)
qed

lemma sync_CreateVersion:
  assumes "policy_sync s" "CreateManagedPolicyVersion now s arn doc d = Inr (w, s')"
  shows "policy_sync s'"
proof -
  let ?s1 = "new_default d arn (nextPolicyVersionID s arn) doc s"
  let ?w = "\<lparr>mv_arn = arn, mv_version = nextPolicyVersionID s arn, mv_document = doc, mv_default = d, mv_created = now\<rparr>"
  have valid: "validate_PolicyDocument doc"
    using assms(2) by (simp add: CreateManagedPolicyVersion_def split: if_splits)
  obtain p where fp: "find_managed s arn = Some p"
    using assms(2) valid by (cases "find_managed s arn") (simp_all add: CreateManagedPolicyVersion_def)
  have len: "length (versions_of s arn) < 5"
    using assms(2) valid fp by (simp add: CreateManagedPolicyVersion_def not_le [symmetric] split: if_splits)
  have "ok_or Constraint (sql_insert version_key ?w (i_versions ?s1)) (\<lambda>ws. Inr (?w, ?s1\<lparr>i_versions := ws\<rparr>)) = Inr (w, s')"
    using assms(2) valid fp len by (simp add: CreateManagedPolicyVersion_def Let_def)
  from iffD1 [OF ok_or_Inr this] obtain ws where ws1: "sql_insert version_key ?w (i_versions ?s1) = Some ws"
    and "Inr (?w, ?s1\<lparr>i_versions := ws\<rparr>) = (Inr (w, s') :: (iam_error, ManagedPolicyVersion \<times> iam) result)" by blast
  then have ws2: "?w = w" "?s1\<lparr>i_versions := ws\<rparr> = s'" by (simp_all only: sum.inject prod.inject)
  note ws = ws1 ws2
  note w = ws(2) [symmetric]
  have new: "version_key w \<notin> version_key ` set (i_versions ?s1)" and wss: "ws = i_versions ?s1 @ [w]"
    using ws(1) unfolding ws(2) sql_insert_def by (simp_all split: if_splits)
  note s' = ws(3) [symmetric, unfolded wss]
  have p: "p \<in> set (i_managed s)" "mp_arn p = arn"
    using fp by (auto simp: find_managed_def dest: find_Some_iff')
  note len = len [unfolded versions_of_def]
  show ?thesis
  proof (cases d)
    case True
    let ?c = "clear_defaults arn s"
    show ?thesis
    proof (rule sync_new_default [OF assms(1),
        where s' = s' and arn = arn and version = "mv_version w" and doc = doc and ?s1.0 = ?c and ws = "i_versions ?c @ [w]"])
      show "filter (\<lambda>w. mv_arn w = x) (i_versions ?c @ [w]) = versions_for s x" if "x \<noteq> arn" for x
        using that w versions_clear [of x arn s] by simp
      show "length (filter (\<lambda>w. mv_arn w = arn) (i_versions ?c @ [w])) \<le> 5"
        using len w versions_clear [of arn arn s] by simp
      show "mv_arn u \<in> mp_arn ` set (i_managed s)" if "u \<in> set (i_versions ?c @ [w])" for u
      proof -
        have "mv_arn u \<in> set (map mv_arn (i_versions ?c @ [w]))" using imageI [OF that, of mv_arn] by (simp only: set_map)
        also have "map mv_arn (i_versions ?c @ [w]) = map mv_arn (i_versions s) @ [arn]" using sync_keys(4) w by simp
        finally show ?thesis using assms(1) p by (auto simp: policy_sync_def)
      qed
      show "mv_version u = mv_version w" if "u \<in> set (i_versions ?c @ [w])" "mv_arn u = arn" "mv_default u" for u
        using that clear_defaults_member [of u arn s] by auto
      have "distinct (map version_key (i_versions ?c))"
        unfolding sync_keys(3) using assms(1) by (simp add: policy_sync_def)
      then show "distinct (map version_key (i_versions ?c @ [w]))"
        using new True by (simp add: sync_default_fields new_default_def)
    qed (use True w in \<open>simp_all add: s' sync_default_fields new_default_def\<close>)
  next
    case False
    have "operative (versions_for s' (mp_arn q)) (rows_for s' (mp_arn q)) q" if "q \<in> set (i_managed s)" for q
      using that assms(1) False len w by (auto simp: s' policy_sync_def operative_def new_default_def)
    then show ?thesis using assms(1) False new p w by (intro policy_syncI) (auto simp: s' policy_sync_def new_default_def)
  qed
qed

lemma sync_PutPolicy:
  assumes "policy_sync s" "pid \<notin> mp_arn ` set (i_managed s)"
  shows "policy_sync (PutPolicy s pid doc)"
proof -
  let ?r = "\<lparr>po_id = pid, po_document = doc, po_name = None, po_account = None, po_arn = None, po_version = None\<rparr>"
  have "filter (\<lambda>r. po_id r = mp_arn p) (sql_upsert po_id (\<lambda>p. p\<lparr>po_document := doc\<rparr>) ?r (i_policies s)) = rows_for s (mp_arn p)"
    if "p \<in> set (i_managed s)" for p
    using that assms(2) by (intro filter_upsert_other) auto
  then show ?thesis
    using assms(1) by (intro policy_syncI) (auto simp: PutPolicy_def policy_sync_def intro!: sql_upsert_distinct)
qed

text \<open>The other operations leave the three tables alone.\<close>

lemmas user_role_defs = CreateUser_def DeleteUser_def CreateUserAccessKey_def PutRole_def CreateRoleOpts_def update_role_def
  UpdateRoleMaxSessionDuration_def UpdateAssumeRolePolicy_def DeleteRole_def
lemmas attach_defs = AttachPolicy_def detachPolicy_def AttachUserPolicy_def DetachUserPolicy_def AttachRolePolicy_def
  DetachRolePolicy_def AttachGroupPolicy_def DetachGroupPolicy_def PutInlinePolicy_def DeleteInlinePolicy_def
lemmas group_boundary_defs = CreateGroup_def DeleteGroup_def AddUserToGroup_def RemoveUserFromGroup_def
  putPermissionsBoundary_def PutUserPermissionsBoundary_def PutRolePermissionsBoundary_def deletePermissionsBoundary_def

definition policy_labels :: "string set" where
  "policy_labels = {''PutPolicy'', ''CreatePolicy'', ''DeletePolicy'', ''CreatePolicyVersion'', ''SetDefaultPolicyVersion'', ''DeletePolicyVersion''}"

lemma step_frame:
  assumes "iam_step v s l s'" "l \<notin> policy_labels"
  shows "i_managed s' = i_managed s \<and> i_versions s' = i_versions s \<and> i_policies s' = i_policies s"
  using assms(1)
  by cases (use assms(2) in \<open>auto simp: policy_labels_def user_role_defs attach_defs group_boundary_defs Let_def ok_or_Inr
    split: if_splits sum.splits\<close>)

lemma sync_step:
  assumes "iam_step v s l s'" "policy_sync s"
  shows "policy_sync s'"
proof (cases "l \<in> policy_labels")
  case True
  from assms(1) show ?thesis
    by cases (use True assms(2) in \<open>auto simp: policy_labels_def intro: sync_CreateManagedPolicy sync_DeleteManagedPolicy
      sync_CreateVersion sync_SetDefault sync_DeleteManagedPolicyVersion sync_PutPolicy\<close>)
next
  case False
  then show ?thesis using step_frame [OF assms(1)] policy_sync_cong [of s' s] assms(2) by simp
qed

interpretation iam_sync: invariant_system iam_init "iam_step v" policy_sync for v
proof unfold_locales
  show "policy_sync s" if "iam_init s" for s
    using that by (simp add: iam_init_def policy_sync_def)
qed (rule sync_step)

lemma only_element:
  assumes "distinct xs" "w \<in> set xs" "\<And>u. u \<in> set xs \<Longrightarrow> u = w"
  shows "xs = [w]"
proof (cases xs)
  case (Cons a ys)
  have "ys = []"
  proof (rule ccontr)
    assume "ys \<noteq> []"
    then obtain b where "b \<in> set ys" by (cases ys) auto
    then have "a = w" "b = w" using assms(3) Cons by simp_all
    then show False using assms(1) Cons \<open>b \<in> set ys\<close> by simp
  qed
  then show ?thesis using assms(3) [of a] Cons by simp
qed (use assms(2) in simp)


section \<open>What deleting leaves behind\<close>

text \<open>A user row carries the ARN made of its account and name.\<close>

definition arns_ok :: "iam \<Rightarrow> bool" where
  "arns_ok s \<longleftrightarrow>
     (\<forall>u\<in>set (i_users s). us_arn u = UserARN (us_account u) ''/'' (us_name u)) \<and>
     (\<forall>g\<in>set (i_groups s). gr_arn g = GroupARN (gr_account g) ''/'' (gr_name g)) \<and>
     distinct (map user_key (i_users s))"

lemma arns_step:
  assumes "iam_step v s l s'" "arns_ok s"
  shows "arns_ok s'"
  using assms(1)
  by cases (use assms(2) in \<open>auto simp: arns_ok_def user_role_defs attach_defs group_boundary_defs CreateManagedPolicy_def
    DeleteManagedPolicy_def CreateManagedPolicyVersion_def new_default_def SetDefaultManagedPolicyVersion_def
    DeleteManagedPolicyVersion_def syncManagedPolicyDefault_def clear_defaults_def PutPolicy_def
    sql_insert_def sql_delete_def distinct_map_filter Let_def ok_or_Inr split: if_splits sum.splits\<close>)

interpretation iam_arns: invariant_system iam_init "iam_step v" arns_ok for v
proof unfold_locales
  show "arns_ok s" if "iam_init s" for s
    using that by (simp add: iam_init_def arns_ok_def)
qed (rule arns_step)

lemma find_user_filter:
  "find_user (s\<lparr>i_users := filter (\<lambda>u. \<not> (us_account u = account \<and> us_name u = name)) us\<rparr>) account name = None"
  by (simp add: find_user_def find_filter_none)

text \<open>Deleting a user leaves its attached and inline policies, group memberships and boundary in the tables: a new
  user of the same name has, from its creation, the identity policies and the permissions boundary of the deleted one.\<close>
theorem recreated_user_inherits:
  assumes "reachable iam_init (iam_step v) s" "DeleteUser s account name = Inr s1"
    and "CreateUser v uid now s1 account name = Inr (u, s2)"
  shows "IdentityPolicyDocsForUser s2 account name = IdentityPolicyDocsForUser s account name \<and>
    PermissionsBoundaryDoc s2 account ''user'' name = PermissionsBoundaryDoc s account ''user'' name"
proof -
  have "\<exists>u\<in>set (i_users s). us_account u = account \<and> us_name u = name"
    using assms(2) by (auto simp: DeleteUser_def ok_or_Inr sql_delete_def split: if_splits)
  then obtain u0 where u0: "find_user s account name = Some u0"
    by (cases "find_user s account name") (auto simp: find_user_def find_None_iff)
  have s1: "s1 = s\<lparr>i_users := filter (\<lambda>u. \<not> (us_account u = account \<and> us_name u = name)) (i_users s)\<rparr>"
    using assms(2) by (auto simp: DeleteUser_def ok_or_Inr sql_delete_def split: if_splits)
  have u: "us_arn u = UserARN account ''/'' name" "us_account u = account" "us_name u = name"
    and s2: "s2 = s1\<lparr>i_users := i_users s1 @ [u]\<rparr>"
    using assms(3) by (auto simp: CreateUser_def Let_def ok_or_Inr sql_insert_def split: if_splits)
  have "arns_ok s" by (rule iam_arns.reachable_inv [OF assms(1)])
  then have arn: "us_arn u0 = us_arn u"
    using u0 u(1) by (auto simp: arns_ok_def find_user_def dest: find_Some_iff')
  have "find_user s2 account name = Some u"
    using find_user_filter [where s = s and account = account and name = name and us = "i_users s"] u s1 s2 by (simp add: find_user_def find_append)
  moreover have same: "i_groups s2 = i_groups s" "i_members s2 = i_members s" "i_policies s2 = i_policies s"
    "i_attached s2 = i_attached s" "i_inline s2 = i_inline s"
    "i_managed s2 = i_managed s" "i_boundaries s2 = i_boundaries s"
    by (simp_all add: s1 s2)
  moreover have "join_policies s2 = join_policies s" "attachments s2 = attachments s" "inline_docs s2 = inline_docs s"
    using same by (simp_all add: join_policies_def attachments_def inline_docs_def fun_eq_iff)
  moreover have "user_groups s2 account name = user_groups s account name"
    by (simp only: user_groups_def same)
  ultimately have docs: "IdentityPolicyDocsForUser s2 account name = IdentityPolicyDocsForUser s account name"
    using u0 arn by (simp only: IdentityPolicyDocsForUser_def ok_or.simps)
  have "policyDocumentByARN s2 = policyDocumentByARN s" "getPermissionsBoundaryARN s2 = getPermissionsBoundaryARN s"
    by (simp_all only: policyDocumentByARN_def getPermissionsBoundaryARN_def find_managed_def fun_eq_iff same) blast+
  then have "PermissionsBoundaryDoc s2 account ''user'' name = PermissionsBoundaryDoc s account ''user'' name"
    by (simp only: PermissionsBoundaryDoc_def)
  with docs show ?thesis by simp
qed

text \<open>Deleting a group takes everything of it along: afterwards no attachment, inline policy or membership of the
  group is left, so that a new group of the same name starts without policies and members.\<close>
theorem deleted_group_leaves_nothing:
  assumes "reachable iam_init (iam_step v) s" "DeleteGroup s account name = Inr s1"
    and "CreateGroup v gid s1 account name = Inr (g, s2)"
  shows "ListAttachedPolicyDocuments s2 (gr_arn g) = [] \<and> ListInlinePolicies s2 (gr_arn g) = [] \<and>
    ListGroupMembers s2 account name = Inr []"
proof -
  obtain g0 where g0: "find_group s account name = Some g0"
    using assms(2) by (auto simp: DeleteGroup_def ok_or_Inr)
  have "arns_ok s" by (rule iam_arns.reachable_inv [OF assms(1)])
  then have arn0: "gr_arn g0 = GroupARN account ''/'' name"
    using g0 by (auto simp: arns_ok_def find_group_def dest: find_Some_iff')
  have s1: "i_attached s1 = filter (\<lambda>a. fst a \<noteq> gr_arn g0) (i_attached s)"
    "i_inline s1 = filter (\<lambda>p. ip_arn p \<noteq> gr_arn g0) (i_inline s)"
    "i_members s1 = filter (\<lambda>(a, n, u). \<not> (a = account \<and> n = name)) (i_members s)"
    "i_groups s1 = filter (\<lambda>g. \<not> (gr_account g = account \<and> gr_name g = name)) (i_groups s)"
    using assms(2) g0 by (auto simp: DeleteGroup_def)
  have g: "gr_arn g = GroupARN account ''/'' name" "gr_account g = account" "gr_name g = name"
    and s2: "s2 = s1\<lparr>i_groups := i_groups s1 @ [g]\<rparr>"
    using assms(3) by (auto simp: CreateGroup_def Let_def ok_or_Inr sql_insert_def split: if_splits)
  have "find_group s2 account name = Some g"
    using g s1(4) s2 by (simp add: find_group_def find_append find_filter_none)
  moreover have "attachments s2 (gr_arn g) = []" "filter (\<lambda>p. ip_arn p = gr_arn g) (i_inline s2) = []"
    using s1 s2 g(1) arn0 by (auto simp: attachments_def filter_empty_conv)
  moreover have "(case m of (a, n, u) \<Rightarrow> if a = account \<and> n = name then f a u else []) = []" if "m \<in> set (i_members s2)"
    for m and f :: "string \<Rightarrow> string \<Rightarrow> User list"
    using that s1(3) s2 by (auto split: if_splits)
  then have "concat (map (\<lambda>(a, n, u). if a = account \<and> n = name then f a u else []) (i_members s2)) = []"
    for f :: "string \<Rightarrow> string \<Rightarrow> User list"
    by (simp only: concat_eq_Nil_conv) simp
  ultimately show ?thesis
    by (simp only: ListAttachedPolicyDocuments_def ListInlinePolicies_def ListGroupMembers_def join_policies_def ok_or.simps)
      (simp add: sort_key_simps)
qed

end
