(* ===== verification/Iam_Samples.thy ===== *)
theory Iam_Samples
  imports Iam_Props Samples
begin

text \<open>An account with a managed policy, a user and a group, and the properties of the IAM tables applied to it.\<close>

definition any :: validator where "any tag s = True"

definition acct :: string where "acct = ''111122223333''"
definition admin_arn :: string where "admin_arn = ''arn:aws:iam::111122223333:policy/Admin''"
definition alice_arn :: string where "alice_arn = ''arn:aws:iam::111122223333:user/alice''"
definition ops_arn :: string where "ops_arn = ''arn:aws:iam::111122223333:group/ops''"

definition iam_empty :: iam where
  "iam_empty = \<lparr>i_users = [], i_roles = [], i_groups = [], i_members = [], i_policies = [], i_attached = [], i_managed = [],
     i_versions = [], i_inline = [], i_boundaries = [], i_keys = []\<rparr>"

definition admin :: ManagedPolicy where
  "admin = \<lparr>mp_arn = admin_arn, mp_account = acct, mp_name = ''Admin'', mp_id = ''ANPA1'', mp_default = ''v1'',
     mp_document = doc_allow_all\<rparr>"

definition iam_policy :: iam where
  "iam_policy = iam_empty\<lparr>i_managed := [admin],
     i_versions := [\<lparr>mv_arn = admin_arn, mv_version = ''v1'', mv_document = doc_allow_all, mv_default = True, mv_created = ''t''\<rparr>],
     i_policies := [\<lparr>po_id = admin_arn, po_document = doc_allow_all, po_name = Some ''Admin'', po_account = Some acct,
                     po_arn = Some admin_arn, po_version = Some ''v1''\<rparr>]\<rparr>"

definition alice :: User where
  "alice = \<lparr>us_account = acct, us_name = ''alice'', us_id = ''AIDA1'', us_arn = alice_arn, us_created = ''t''\<rparr>"

definition ops :: Group where
  "ops = \<lparr>gr_account = acct, gr_name = ''ops'', gr_id = ''AGPA1'', gr_arn = ops_arn\<rparr>"

definition iam_user :: iam where "iam_user = iam_policy\<lparr>i_users := [alice]\<rparr>"
definition iam_attached :: iam where "iam_attached = iam_user\<lparr>i_attached := [(alice_arn, admin_arn)]\<rparr>"
definition iam_group :: iam where "iam_group = iam_attached\<lparr>i_groups := [ops]\<rparr>"
definition iam_group_attached :: iam where
  "iam_group_attached = iam_group\<lparr>i_attached := [(alice_arn, admin_arn), (ops_arn, admin_arn)]\<rparr>"
definition iam_member :: iam where
  "iam_member = iam_group_attached\<lparr>i_members := [(acct, ''ops'', ''alice'')]\<rparr>"

lemma sample_arns:
  "PolicyARN acct ''/'' ''Admin'' = admin_arn" "UserARN acct ''/'' ''alice'' = alice_arn" "GroupARN acct ''/'' ''ops'' = ops_arn"
  by (simp_all add: PolicyARN_def UserARN_def GroupARN_def iamResourceARN_def Let_def acct_def admin_arn_def alice_arn_def ops_arn_def)

lemma arns_differ: "alice_arn \<noteq> ops_arn" "alice_arn \<noteq> admin_arn" "ops_arn \<noteq> alice_arn"
  by (simp_all add: alice_arn_def ops_arn_def admin_arn_def)

lemma sample_valid:
  "validate_AccountID any acct" "IAMName any ''Admin''" "IAMName any ''alice''" "IAMName any ''ops''"
  "validate_PolicyDocument doc_allow_all"
  by (simp add: validate_AccountID_def any_def, code_simp, code_simp, code_simp, code_simp)

lemmas iam_state_defs = iam_empty_def iam_policy_def iam_user_def iam_attached_def iam_group_def iam_group_attached_def
  iam_member_def admin_def alice_def ops_def

lemma policy_created:
  "CreateManagedPolicy any ''ANPA1'' ''t'' iam_empty acct ''Admin'' doc_allow_all = Inr (admin_arn, iam_policy)"
  by (simp add: CreateManagedPolicy_def sample_valid sample_arns iam_state_defs sql_insert_def sql_upsert_def Let_def)

lemma user_created: "CreateUser any ''AIDA1'' ''t'' iam_policy acct ''alice'' = Inr (alice, iam_user)"
  by (simp add: CreateUser_def sample_valid sample_arns iam_state_defs sql_insert_def Let_def)

lemma user_attached: "AttachUserPolicy iam_user acct ''alice'' admin_arn = Inr iam_attached"
  by (simp add: AttachUserPolicy_def AttachPolicy_def find_user_def iam_state_defs sql_ignore_def)

lemma group_created: "CreateGroup any ''AGPA1'' iam_attached acct ''ops'' = Inr (ops, iam_group)"
  by (simp add: CreateGroup_def sample_valid sample_arns iam_state_defs sql_insert_def Let_def)

lemma group_attached: "AttachGroupPolicy iam_group acct ''ops'' admin_arn = Inr iam_group_attached"
  by (simp add: AttachGroupPolicy_def AttachPolicy_def find_group_def iam_state_defs sql_ignore_def arns_differ)

lemma member_added: "AddUserToGroup iam_group_attached acct ''ops'' ''alice'' = Inr iam_member"
  by (simp add: AddUserToGroup_def find_group_def find_user_def iam_state_defs sql_ignore_def)

lemma iam_reachable:
  "reachable iam_init (iam_step any) iam_policy" "reachable iam_init (iam_step any) iam_attached"
  "reachable iam_init (iam_step any) iam_member"
proof -
  have "reachable iam_init (iam_step any) iam_empty"
    by (rule reach_init) (simp add: iam_init_def iam_empty_def)
  then show 1: "reachable iam_init (iam_step any) iam_policy"
    using policy_created by (blast intro: reach_step iam_step.intros)
  then have "reachable iam_init (iam_step any) iam_user"
    using user_created by (blast intro: reach_step iam_step.intros)
  then show 2: "reachable iam_init (iam_step any) iam_attached"
    using user_attached by (blast intro: reach_step iam_step.intros)
  then have "reachable iam_init (iam_step any) iam_group"
    using group_created by (blast intro: reach_step iam_step.intros)
  then have "reachable iam_init (iam_step any) iam_group_attached"
    using group_attached by (blast intro: reach_step iam_step.intros)
  then show "reachable iam_init (iam_step any) iam_member"
    using member_added by (blast intro: reach_step iam_step.intros)
qed


lemma alice_deleted: "DeleteUser iam_attached acct ''alice'' = Inr (iam_attached\<lparr>i_users := []\<rparr>)"
  by (simp add: DeleteUser_def iam_state_defs sql_delete_def)

lemma alice_again:
  "CreateUser any ''AIDA2'' ''u'' (iam_attached\<lparr>i_users := []\<rparr>) acct ''alice'' =
   Inr (alice\<lparr>us_id := ''AIDA2'', us_created := ''u''\<rparr>,
        iam_attached\<lparr>i_users := [alice\<lparr>us_id := ''AIDA2'', us_created := ''u''\<rparr>]\<rparr>)"
  by (simp add: CreateUser_def sample_valid sample_arns iam_state_defs sql_insert_def Let_def)

theorem recreated_user_inherits_witness:
  "IdentityPolicyDocsForUser (iam_attached\<lparr>i_users := [alice\<lparr>us_id := ''AIDA2'', us_created := ''u''\<rparr>]\<rparr>) acct ''alice'' =
   Inr [doc_allow_all]"
proof -
  have "IdentityPolicyDocsForUser iam_attached acct ''alice'' = Inr [doc_allow_all]"
    by (simp add: IdentityPolicyDocsForUser_def find_user_def attachments_def join_policies_def inline_docs_def
        user_groups_def iam_state_defs)
  then show ?thesis
    using recreated_user_inherits [OF iam_reachable(2) alice_deleted alice_again] by simp
qed

theorem deleted_group_leaves_nothing_witness:
  "\<exists>s1 g s2. DeleteGroup iam_member acct ''ops'' = Inr s1 \<and> CreateGroup any ''AGPA2'' s1 acct ''ops'' = Inr (g, s2) \<and>
     ListAttachedPolicyDocuments s2 (gr_arn g) = [] \<and> ListGroupMembers s2 acct ''ops'' = Inr []"
proof -
  have d: "DeleteGroup iam_member acct ''ops'' = Inr (iam_member\<lparr>i_members := [], i_attached := [(alice_arn, admin_arn)], i_groups := []\<rparr>)"
    by (simp add: DeleteGroup_def find_group_def iam_state_defs arns_differ)
  obtain g s2 where c: "CreateGroup any ''AGPA2'' (iam_member\<lparr>i_members := [], i_attached := [(alice_arn, admin_arn)], i_groups := []\<rparr>) acct ''ops''
      = Inr (g, s2)"
    by (simp add: CreateGroup_def sample_valid sql_insert_def Let_def)
  show ?thesis using deleted_group_leaves_nothing [OF iam_reachable(3) d c] d c by blast
qed

end
