(* ===== verification/Orgs.thy ===== *)
theory Orgs
  imports Iam
begin

text \<open>
  The organization: accounts, organizational units, service and resource control policies and where they
  are attached. \<open>src/internal/store/orgs_depth.go\<close> and \<open>org.go\<close>. Random ids are arguments.
\<close>

section \<open>State\<close>

datatype org_error =
    OrgBadArgument
  | OrgInvalid
  | OrgNoRows
  | OrgConstraint
  | OrgNotFound
  | OrgCycle
  | OrgMismatch
  | OrgExhausted

record OrganizationalUnit =
  ou_id :: string
  ou_parent :: string
  ou_name :: string

record OrgPolicy =
  op_id :: string
  op_type :: string
  op_name :: string
  op_document :: string

record account_request =
  ar_id :: string
  ar_status :: string
  ar_name :: string
  ar_email :: string
  ar_account :: string
  ar_by :: string

record org =
  o_accounts :: "string list"
  o_requests :: "account_request list"
  o_ous :: "OrganizationalUnit list"
  o_policies :: "OrgPolicy list"
  o_attached :: "(string \<times> string \<times> string) list"
  o_enabled :: "(string \<times> string) list"
  o_parents :: "(string \<times> string) list"

definition ManagementAccountID :: string where "ManagementAccountID = ''000000000001''"
definition OrgRootID :: string where "OrgRootID = ''r-root''"

definition IsManagementAccount :: "string \<Rightarrow> bool" where
  "IsManagementAccount account \<longleftrightarrow> account = ManagementAccountID"

definition AccountExists :: "org \<Rightarrow> string \<Rightarrow> bool" where
  "AccountExists s account \<longleftrightarrow> account \<in> set (o_accounts s)"

definition ListAccounts :: "org \<Rightarrow> string list" where
  "ListAccounts s = sort_key id (o_accounts s)"

section \<open>Organizational units\<close>

text \<open>The parent of a new unit is not looked up.\<close>

definition CreateOrganizationalUnit :: "string \<Rightarrow> org \<Rightarrow> string \<Rightarrow> string \<Rightarrow> (org_error, string \<times> org) result" where
  "CreateOrganizationalUnit uid s parent name =
     (if parent = [] \<or> name = [] then Inl OrgBadArgument
      else ok_or OrgConstraint (sql_insert ou_id \<lparr>ou_id = uid, ou_parent = parent, ou_name = name\<rparr> (o_ous s))
             (\<lambda>us. Inr (uid, s\<lparr>o_ous := us\<rparr>)))"

definition ListOrganizationalUnitsForParent :: "org \<Rightarrow> string \<Rightarrow> (org_error, OrganizationalUnit list) result" where
  "ListOrganizationalUnitsForParent s parent =
     (if parent = [] then Inl OrgBadArgument
      else Inr (sort_key ou_name (filter (\<lambda>u. ou_parent u = parent) (o_ous s))))"

definition find_ou :: "org \<Rightarrow> string \<Rightarrow> OrganizationalUnit option" where
  "find_ou s uid = List.find (\<lambda>u. ou_id u = uid) (o_ous s)"

definition ouParentID :: "org \<Rightarrow> string \<Rightarrow> (org_error, string) result" where
  "ouParentID s uid = ok_or OrgNotFound (find_ou s uid) (\<lambda>u. Inr (ou_parent u))"

definition is_root :: "string \<Rightarrow> bool" where
  "is_root p \<longleftrightarrow> p = OrgRootID \<or> HasPrefix p ''r-''"

definition validateOrgParentID :: "org \<Rightarrow> string \<Rightarrow> org_error option" where
  "validateOrgParentID s parent =
     (if is_root parent then None
      else if \<not> HasPrefix parent ''ou-'' then Some OrgBadArgument
      else if find_ou s parent = None then Some OrgNotFound else None)"

section \<open>Where an account is placed\<close>

definition AccountParentID :: "org \<Rightarrow> string \<Rightarrow> (org_error, string) result" where
  "AccountParentID s account =
     (if account = [] then Inl OrgBadArgument
      else Inr (case map_of (o_parents s) account of
                  None \<Rightarrow> OrgRootID | Some p \<Rightarrow> if p = [] then OrgRootID else p))"

definition SetAccountParent :: "org \<Rightarrow> string \<Rightarrow> string \<Rightarrow> (org_error, org) result" where
  "SetAccountParent s account parent =
     (if account = [] \<or> parent = [] then Inl OrgBadArgument
      else (case validateOrgParentID s parent of
              Some e \<Rightarrow> Inl e
            | None \<Rightarrow> Inr (s\<lparr>o_parents := sql_upsert fst (\<lambda>(a, _). (a, parent)) (account, parent) (o_parents s)\<rparr>)))"

definition MoveAccount :: "org \<Rightarrow> string \<Rightarrow> string \<Rightarrow> string \<Rightarrow> (org_error, org) result" where
  "MoveAccount s account source destination =
     (if account = [] \<or> source = [] \<or> destination = [] then Inl OrgBadArgument
      else if \<not> AccountExists s account then Inl OrgNotFound
      else (case validateOrgParentID s source of
              Some e \<Rightarrow> Inl e
            | None \<Rightarrow>
                (case validateOrgParentID s destination of
                   Some e \<Rightarrow> Inl e
                 | None \<Rightarrow>
                     (case AccountParentID s account of
                        Inl e \<Rightarrow> Inl e
                      | Inr current \<Rightarrow>
                          if current \<noteq> source then Inl OrgMismatch
                          else if current = destination then Inl OrgMismatch
                          else SetAccountParent s account destination))))"

definition ListAccountsForParent :: "org \<Rightarrow> string \<Rightarrow> (org_error, string list) result" where
  "ListAccountsForParent s parent =
     (if parent = [] then Inl OrgBadArgument
      else (case validateOrgParentID s parent of
              Some e \<Rightarrow> Inl e
            | None \<Rightarrow>
                if \<exists>a\<in>set (o_accounts s). a = [] then Inl OrgBadArgument
                else Inr (filter (\<lambda>a. AccountParentID s a = Inr parent) (ListAccounts s))))"

text \<open>
  The loop of \<open>OUPathToRoot\<close>: it stops at a root, at a unit it has seen, or at one that does not exist. So
  every round but the last meets another existing unit.
\<close>

definition unit_ids :: "org \<Rightarrow> string set" where
  "unit_ids s = set (map ou_id (o_ous s))"

lemma find_ou_ids: "find_ou s p = Some u \<Longrightarrow> p \<in> unit_ids s"
  by (auto simp: find_ou_def unit_ids_def dest: find_Some_iff')

function ou_path :: "org \<Rightarrow> string \<Rightarrow> string list \<Rightarrow> (org_error, string list) result" where
  "ou_path s parent path =
     (if parent = [] \<or> is_root parent then Inr path
      else if parent \<in> set path then Inl OrgCycle
      else (case find_ou s parent of
              None \<Rightarrow> Inl OrgNotFound
            | Some u \<Rightarrow> ou_path s (ou_parent u) (path @ [parent])))"
  by pat_completeness auto
termination
proof (relation "measure (\<lambda>(s, parent, path). card (unit_ids s - set path))")
  fix s parent path u
  assume "\<not> (parent = [] \<or> is_root parent)" "parent \<notin> set path" "find_ou s parent = Some u"
  then have "parent \<in> unit_ids s - set path" by (simp add: find_ou_ids)
  then have "unit_ids s - set (path @ [parent]) \<subset> unit_ids s - set path" by auto
  then show "((s, ou_parent u, path @ [parent]), s, parent, path) \<in> measure (\<lambda>(s, parent, path). card (unit_ids s - set path))"
    by (simp add: psubset_card_mono unit_ids_def)
qed simp

declare ou_path.simps [simp del]

definition OUPathToRoot :: "org \<Rightarrow> string \<Rightarrow> (org_error, string list) result" where
  "OUPathToRoot s account =
     (case AccountParentID s account of Inl e \<Rightarrow> Inl e | Inr parent \<Rightarrow> ou_path s parent [])"

text \<open>\<open>ListParents\<close> walks up without a record of what it has seen; \<open>None\<close> would be a walk that never ends.\<close>

partial_function (option) list_parents ::
  "org \<Rightarrow> string \<Rightarrow> (string \<times> string) list \<Rightarrow> (org_error, (string \<times> string) list) result option"
where
  "list_parents s current parents =
     (if current = [] then Some (Inr parents)
      else if is_root current then Some (Inr (parents @ [(current, ''ROOT'')]))
      else if \<not> HasPrefix current ''ou-'' then Some (Inl OrgBadArgument)
      else (case find_ou s current of
              None \<Rightarrow> Some (Inl OrgNotFound)
            | Some u \<Rightarrow> list_parents s (ou_parent u) (parents @ [(current, ''ORGANIZATIONAL_UNIT'')])))"

definition ListParents :: "validator \<Rightarrow> org \<Rightarrow> string \<Rightarrow> (org_error, (string \<times> string) list) result option" where
  "ListParents v s childID =
     (let child = TrimSpace childID
      in if child = [] then Some (Inl OrgBadArgument)
         else if is_root child then Some (Inr [])
         else if HasPrefix child ''ou-'' then
           (case ouParentID s child of Inl e \<Rightarrow> Some (Inl e) | Inr p \<Rightarrow> list_parents s p [])
         else if length child = 12 then
           (if \<not> validate_AccountID v child then Some (Inl OrgInvalid)
            else (case AccountParentID s child of Inl e \<Rightarrow> Some (Inl e) | Inr p \<Rightarrow> list_parents s p []))
         else Some (Inl OrgBadArgument))"

section \<open>Policies\<close>

definition policy_type :: "string \<Rightarrow> bool" where
  "policy_type t \<longleftrightarrow> t = ''SCP'' \<or> t = ''RCP''"

definition target_type :: "string \<Rightarrow> bool" where
  "target_type t \<longleftrightarrow> t = ''root'' \<or> t = ''ou'' \<or> t = ''account''"

definition CreateOrgPolicy :: "string \<Rightarrow> org \<Rightarrow> string \<Rightarrow> string \<Rightarrow> string \<Rightarrow> (org_error, string \<times> org) result" where
  "CreateOrgPolicy pid s ptype name doc =
     (if \<not> policy_type ptype \<or> name = [] then Inl OrgBadArgument
      else if \<not> validate_PolicyDocument doc then Inl OrgInvalid
      else ok_or OrgConstraint
        (sql_insert op_id \<lparr>op_id = pid, op_type = ptype, op_name = name, op_document = doc\<rparr> (o_policies s))
        (\<lambda>ps. Inr (pid, s\<lparr>o_policies := ps\<rparr>)))"

definition find_org_policy :: "org \<Rightarrow> string \<Rightarrow> OrgPolicy option" where
  "find_org_policy s pid = List.find (\<lambda>p. op_id p = pid) (o_policies s)"

definition GetOrgPolicy :: "org \<Rightarrow> string \<Rightarrow> (org_error, OrgPolicy) result" where
  "GetOrgPolicy s pid = ok_or OrgNoRows (find_org_policy s pid) Inr"

definition AttachOrgPolicy :: "org \<Rightarrow> string \<Rightarrow> string \<Rightarrow> string \<Rightarrow> (org_error, org) result" where
  "AttachOrgPolicy s pid ttype tid =
     (if \<not> target_type ttype \<or> tid = [] then Inl OrgBadArgument
      else ok_or OrgNoRows (find_org_policy s pid)
             (\<lambda>_. Inr (s\<lparr>o_attached := sql_ignore id (pid, ttype, tid) (o_attached s)\<rparr>)))"

definition DetachOrgPolicy :: "org \<Rightarrow> string \<Rightarrow> string \<Rightarrow> string \<Rightarrow> (org_error, org) result" where
  "DetachOrgPolicy s pid ttype tid =
     (if \<not> target_type ttype \<or> tid = [] then Inl OrgBadArgument
      else ok_or OrgNotFound (sql_delete (\<lambda>a. a = (pid, ttype, tid)) (o_attached s))
             (\<lambda>as. Inr (s\<lparr>o_attached := as\<rparr>)))"

definition EnableOrgPolicyType :: "org \<Rightarrow> string \<Rightarrow> string \<Rightarrow> (org_error, org) result" where
  "EnableOrgPolicyType s rootID ptype =
     (if \<not> policy_type ptype \<or> rootID = [] then Inl OrgBadArgument
      else Inr (s\<lparr>o_enabled := sql_ignore id (rootID, ptype) (o_enabled s)\<rparr>))"

definition IsOrgPolicyTypeEnabled :: "org \<Rightarrow> string \<Rightarrow> string \<Rightarrow> bool" where
  "IsOrgPolicyTypeEnabled s rootID ptype \<longleftrightarrow> (rootID, ptype) \<in> set (o_enabled s)"

definition ListEnabledOrgPolicyTypes :: "org \<Rightarrow> string \<Rightarrow> string list" where
  "ListEnabledOrgPolicyTypes s rootID = sort_key id (map snd (filter (\<lambda>e. fst e = rootID) (o_enabled s)))"

definition ListOrgPolicies :: "org \<Rightarrow> string \<Rightarrow> OrgPolicy list" where
  "ListOrgPolicies s ptype =
     (let t = TrimSpace ptype in sort_key op_name (filter (\<lambda>p. t = [] \<or> op_type p = t) (o_policies s)))"

definition ListPoliciesForTarget :: "org \<Rightarrow> string \<Rightarrow> string \<Rightarrow> OrgPolicy list" where
  "ListPoliciesForTarget s ttype tid =
     sort_key op_name (filter (\<lambda>p. (op_id p, ttype, tid) \<in> set (o_attached s)) (o_policies s))"

section \<open>The policies that apply to an account\<close>

definition applies :: "org \<Rightarrow> string \<Rightarrow> string list \<Rightarrow> string \<Rightarrow> bool" where
  "applies s account path pid \<longleftrightarrow>
     (\<exists>(p, ttype, tid)\<in>set (o_attached s). p = pid \<and>
        (ttype = ''account'' \<and> tid = account \<or> ttype = ''root'' \<and> tid = OrgRootID \<or> ttype = ''ou'' \<and> tid \<in> set path))"

definition orgPolicyDocsForAccountWithPath :: "org \<Rightarrow> string \<Rightarrow> string \<Rightarrow> string list \<Rightarrow> string list" where
  "orgPolicyDocsForAccountWithPath s account ptype path =
     map op_document (sort_key op_id (filter (\<lambda>p. op_type p = ptype \<and> applies s account path (op_id p)) (o_policies s)))"

definition OrgFilterDocsForAccount :: "org \<Rightarrow> string \<Rightarrow> (org_error, string list \<times> string list) result" where
  "OrgFilterDocsForAccount s account =
     (case OUPathToRoot s account of
        Inl e \<Rightarrow> Inl e
      | Inr path \<Rightarrow> Inr (orgPolicyDocsForAccountWithPath s account ''SCP'' path,
                         orgPolicyDocsForAccountWithPath s account ''RCP'' path))"

definition orgPolicyDocsForAccount :: "org \<Rightarrow> string \<Rightarrow> string \<Rightarrow> (org_error, string list) result" where
  "orgPolicyDocsForAccount s account ptype =
     (case OUPathToRoot s account of
        Inl e \<Rightarrow> Inl e | Inr path \<Rightarrow> Inr (orgPolicyDocsForAccountWithPath s account ptype path))"

section \<open>Member accounts\<close>

definition OrganizationAccountAccessRoleTrustPolicy :: "string \<Rightarrow> string" where
  "OrganizationAccountAccessRoleTrustPolicy mgmt =
     ''{\"Version\":\"2012-10-17\",\"Statement\":[{\"Effect\":\"Allow\",\"Principal\":{\"AWS\":\"arn:aws:iam::'' @ mgmt @
     '':root\"},\"Action\":\"sts:AssumeRole\",\"Resource\":\"*\"}]}''"

text \<open>\<open>for n := start; n < 1_000_000_000_000; n++\<close>.\<close>

function allocate_from :: "string list \<Rightarrow> string \<Rightarrow> nat \<Rightarrow> string option" where
  "allocate_from accounts mgmt n =
     (if 10 ^ 12 \<le> n then None
      else if pad_nat 12 n = mgmt \<or> pad_nat 12 n \<in> set accounts then allocate_from accounts mgmt (n + 1)
      else Some (pad_nat 12 n))"
  by pat_completeness auto
termination by (relation "measure (\<lambda>(_, _, n). 10 ^ 12 - n)") auto

declare allocate_from.simps [simp del]

definition allocateAccountID :: "org \<Rightarrow> string \<Rightarrow> string option" where
  "allocateAccountID s mgmt = allocate_from (o_accounts s) mgmt 2"

definition CreateMemberAccount ::
  "validator \<Rightarrow> string \<Rightarrow> org \<Rightarrow> iam \<Rightarrow> string \<Rightarrow> string \<Rightarrow> string \<Rightarrow>
   (org_error, string \<times> org \<times> iam) result"
where
  "CreateMemberAccount v rid s t mgmt email name =
     (if \<not> validate_AccountID v mgmt \<or> \<not> IsManagementAccount mgmt then Inl OrgInvalid
      else if \<not> v ''required,email'' email \<or> \<not> v ''required,min=1,max=50'' name then Inl OrgInvalid
      else ok_or OrgExhausted (allocateAccountID s mgmt) (\<lambda>account.
        ok_or OrgConstraint (sql_insert id account (o_accounts s)) (\<lambda>accts.
        ok_or OrgConstraint (sql_insert ar_id \<lparr>ar_id = rid, ar_status = ''SUCCEEDED'', ar_name = name, ar_email = email,
            ar_account = account, ar_by = mgmt\<rparr> (o_requests s)) (\<lambda>reqs.
        ok_or OrgConstraint (sql_insert role_key \<lparr>ro_account = account, ro_name = ''OrganizationAccountAccessRole'',
            ro_arn = RoleARN account ''OrganizationAccountAccessRole'',
            ro_trust = OrganizationAccountAccessRoleTrustPolicy mgmt, ro_id = None, ro_created = None,
            ro_max = 3600\<rparr> (i_roles t)) (\<lambda>roles.
        ok_or OrgConstraint (sql_insert fst (account, OrgRootID) (o_parents s)) (\<lambda>parents.
        Inr (account, s\<lparr>o_accounts := accts, o_requests := reqs, o_parents := parents\<rparr>, t\<lparr>i_roles := roles\<rparr>)))))))"

definition DescribeCreateAccountStatus :: "org \<Rightarrow> string \<Rightarrow> (org_error, account_request) result" where
  "DescribeCreateAccountStatus s rid = ok_or OrgNoRows (List.find (\<lambda>r. ar_id r = rid) (o_requests s)) Inr"

definition IsOrgMemberAccount :: "org \<Rightarrow> string \<Rightarrow> string \<Rightarrow> bool" where
  "IsOrgMemberAccount s mgmt account \<longleftrightarrow>
     (\<exists>r\<in>set (o_requests s). ar_by r = mgmt \<and> ar_account r = account \<and> ar_status r = ''SUCCEEDED'')"

end
