(* ===== verification/Orgs_Props.thy ===== *)
theory Orgs_Props
  imports Orgs
begin

text \<open>
  What the walk up the organization finds, which control policies therefore apply to an account, and the
  ids new member accounts get.
\<close>

section \<open>Ancestors\<close>

text \<open>\<open>climbs s p x\<close>: the unit \<open>x\<close> is \<open>p\<close> or lies above it, short of the root.\<close>

abbreviation stops :: "string \<Rightarrow> bool" where
  "stops p \<equiv> p = [] \<or> is_root p"

inductive climbs :: "org \<Rightarrow> string \<Rightarrow> string \<Rightarrow> bool" for s where
  climb_here: "\<not> stops p \<Longrightarrow> climbs s p p"
| climb_up: "\<not> stops p \<Longrightarrow> find_ou s p = Some u \<Longrightarrow> climbs s (ou_parent u) x \<Longrightarrow> climbs s p x"

inductive_simps climbs_iff: "climbs s p x"

lemma ou_path_climbs: "ou_path s p path = Inr r \<Longrightarrow> set r = set path \<union> {x. climbs s p x}"
proof (induction s p path rule: ou_path.induct)
  case (1 s p path)
  show ?case
  proof (cases "stops p")
    case True
    then show ?thesis using 1(2) by (auto simp: ou_path.simps [of s p] climbs_iff [of s p])
  next
    case False
    then obtain u where u: "p \<notin> set path" "find_ou s p = Some u" "ou_path s (ou_parent u) (path @ [p]) = Inr r"
      using 1(2) by (auto simp: ou_path.simps [of s p] split: if_splits option.splits)
    have "{x. climbs s p x} = insert p {x. climbs s (ou_parent u) x}"
      using False u(2) by (auto simp: climbs_iff [of s p])
    then show ?thesis using 1(1) [OF False u] by auto
  qed
qed

lemma ou_path_distinct: "ou_path s p path = Inr r \<Longrightarrow> distinct path \<Longrightarrow> distinct r"
proof (induction s p path rule: ou_path.induct)
  case (1 s p path)
  then show ?case
    by (cases "stops p") (auto simp: ou_path.simps [of s p] split: if_splits option.splits)
qed

lemma ou_path_missing:
  "\<not> stops p \<Longrightarrow> p \<notin> set path \<Longrightarrow> find_ou s p = None \<Longrightarrow> ou_path s p path = Inl OrgNotFound"
  by (simp add: ou_path.simps)

section \<open>The policies that apply\<close>

definition placed_under :: "org \<Rightarrow> string \<Rightarrow> string \<Rightarrow> bool" where
  "placed_under s account x \<longleftrightarrow> (\<exists>p. AccountParentID s account = Inr p \<and> climbs s p x)"

definition attached_above :: "org \<Rightarrow> string \<Rightarrow> string \<Rightarrow> bool" where
  "attached_above s account pid \<longleftrightarrow>
     (pid, ''account'', account) \<in> set (o_attached s) \<or> (pid, ''root'', OrgRootID) \<in> set (o_attached s) \<or>
     (\<exists>x. placed_under s account x \<and> (pid, ''ou'', x) \<in> set (o_attached s))"

lemma path_units: "OUPathToRoot s account = Inr path \<Longrightarrow> x \<in> set path \<longleftrightarrow> placed_under s account x"
  using ou_path_climbs [of s _ "[]" path]
  by (auto simp: OUPathToRoot_def placed_under_def split: sum.splits)

lemma applies_attached:
  assumes "OUPathToRoot s account = Inr path"
  shows "applies s account path pid \<longleftrightarrow> attached_above s account pid"
proof -
  have "x \<in> set path \<longleftrightarrow> placed_under s account x" for x using path_units [OF assms] .
  then show ?thesis by (auto simp: applies_def attached_above_def)
qed

lemma org_docs_set:
  "OUPathToRoot s account = Inr path \<Longrightarrow>
   set (orgPolicyDocsForAccountWithPath s account t path) =
     op_document ` {p \<in> set (o_policies s). op_type p = t \<and> attached_above s account (op_id p)}"
  by (auto simp: orgPolicyDocsForAccountWithPath_def applies_attached)

text \<open>C24. The service and resource control policies that apply to an account are exactly those attached to the account
  itself, to the organization root, or to a unit the account lies under at any height; the walk that collects them
  visits every such unit once and always ends.\<close>
theorem org_docs_spec:
  assumes "OrgFilterDocsForAccount s account = Inr (scp, rcp)"
  shows "set scp = op_document ` {p \<in> set (o_policies s). op_type p = ''SCP'' \<and> attached_above s account (op_id p)} \<and>
    set rcp = op_document ` {p \<in> set (o_policies s). op_type p = ''RCP'' \<and> attached_above s account (op_id p)} \<and>
    (\<exists>path. OUPathToRoot s account = Inr path \<and> distinct path \<and> set path = {x. placed_under s account x})"
proof -
  obtain path where path: "OUPathToRoot s account = Inr path"
    and docs: "scp = orgPolicyDocsForAccountWithPath s account ''SCP'' path" "rcp = orgPolicyDocsForAccountWithPath s account ''RCP'' path"
    using assms by (auto simp: OrgFilterDocsForAccount_def split: sum.splits)
  have "distinct path"
    using path ou_path_distinct [of s _ "[]" path] by (auto simp: OUPathToRoot_def split: sum.splits)
  then show ?thesis using path path_units [OF path] docs org_docs_set [OF path] by auto
qed

text \<open>\<open>CreateOrganizationalUnit\<close> does not look its parent up: an account moved into a unit whose parent does not exist
  has no control policies to evaluate any more, as reading them fails from then on.\<close>
theorem dangling_unit_blocks:
  assumes "CreateOrganizationalUnit uid s parent name = Inr (uid', s1)" "HasPrefix uid ''ou-''"
    and "\<not> is_root parent" "find_ou s parent = None" "parent \<noteq> uid"
    and "MoveAccount s1 account source uid = Inr s2"
  shows "OrgFilterDocsForAccount s2 account = Inl OrgNotFound"
proof -
  let ?u = "\<lparr>ou_id = uid, ou_parent = parent, ou_name = name\<rparr>"
  have s1: "s1 = s\<lparr>o_ous := o_ous s @ [?u]\<rparr>" and new: "uid \<notin> ou_id ` set (o_ous s)" and ne: "parent \<noteq> []"
    using assms(1) by (auto simp: CreateOrganizationalUnit_def ok_or_Inr sql_insert_def split: if_splits)
  have nr: "\<not> is_root uid" "uid \<noteq> []"
    using assms(2) by (auto simp: is_root_def OrgRootID_def HasPrefix_def prefix_def)
  have s2: "s2 = s1\<lparr>o_parents := sql_upsert fst (\<lambda>(a, _). (a, uid)) (account, uid) (o_parents s1)\<rparr>" and acc: "account \<noteq> []"
    using assms(6) by (auto simp: MoveAccount_def SetAccountParent_def split: if_splits option.splits sum.splits)
  have placed: "map_of (sql_upsert fst (\<lambda>(a, _). (a, uid)) (account, uid) ps) account = Some uid" for ps :: "(string \<times> string) list"
  proof (cases "account \<in> fst ` set ps")
    case True
    then show ?thesis by (simp add: sql_upsert_def) (induction ps; auto)
  next
    case False
    then show ?thesis by (simp add: sql_upsert_def map_add_def map_of_eq_None_iff [THEN iffD2])
  qed
  have "find_ou s2 uid = Some ?u" "find_ou s2 parent = None"
    using new assms(4,5) unfolding s2 s1 find_ou_def
    by (auto simp: find_append find_None_iff split: option.splits dest: find_Some_iff')
  moreover have "AccountParentID s2 account = Inr uid" using acc nr by (simp add: AccountParentID_def s2 placed)
  ultimately show ?thesis
    using nr ne assms(3,5) by (simp add: OrgFilterDocsForAccount_def OUPathToRoot_def ou_path.simps [of s2 uid] ou_path_missing)
qed

section \<open>Account ids\<close>

lemma parse_zeros: "parse_digits 10 (replicate k (CHR ''0'') @ s) 0 = parse_digits 10 s 0"
proof -
  have "alnum_val (CHR ''0'') = Some 0" by code_simp
  then show ?thesis by (induction k) simp_all
qed

lemma pad_nat_inj: "pad_nat w m = pad_nat w n \<Longrightarrow> m = n"
  by (metis option.inject pad_nat_def parse_nat_digits parse_zeros)

lemma nat_digits_length: "n < 10 ^ Suc k \<Longrightarrow> length (nat_digits n) \<le> Suc k"
proof (induction k arbitrary: n)
  case 0
  then show ?case by (simp add: nat_digits.simps [of n])
next
  case (Suc k)
  have "n div 10 < 10 ^ Suc k" using Suc.prems by (simp add: div_less_iff_less_mult)
  then show ?case using Suc.IH [of "n div 10"] by (simp add: nat_digits.simps [of n])
qed

lemma pad_nat_length: "n < 10 ^ 12 \<Longrightarrow> length (pad_nat 12 n) = 12"
  using nat_digits_length [of n 11] by (simp add: pad_nat_def)

lemma allocate_from_sound:
  "allocate_from accounts mgmt n = Some a \<Longrightarrow>
   \<exists>k. n \<le> k \<and> k < 10 ^ 12 \<and> a = pad_nat 12 k \<and> a \<noteq> mgmt \<and> a \<notin> set accounts"
proof (induction accounts mgmt n rule: allocate_from.induct)
  case (1 accounts mgmt n)
  show ?case
  proof (cases "10 ^ 12 \<le> n \<or> pad_nat 12 n \<noteq> mgmt \<and> pad_nat 12 n \<notin> set accounts")
    case True
    then show ?thesis using 1(2) by (auto simp: allocate_from.simps [of accounts mgmt n] split: if_splits)
  next
    case False
    then have "allocate_from accounts mgmt (n + 1) = Some a"
      using 1(2) by (auto simp: allocate_from.simps [of accounts mgmt n])
    then obtain k where k: "n + 1 \<le> k \<and> k < 10 ^ 12 \<and> a = pad_nat 12 k \<and> a \<noteq> mgmt \<and> a \<notin> set accounts"
      using 1(1) False by auto
    then have "n \<le> k" by linarith
    then show ?thesis using k by blast
  qed
qed

lemma allocate_from_none:
  "allocate_from accounts mgmt n = None \<Longrightarrow> n \<le> k \<Longrightarrow> k < 10 ^ 12 \<Longrightarrow> pad_nat 12 k \<in> insert mgmt (set accounts)"
proof (induction accounts mgmt n rule: allocate_from.induct)
  case (1 accounts mgmt n)
  then show ?case
    by (cases "k = n") (auto simp: allocate_from.simps [of accounts mgmt n] split: if_splits)
qed

text \<open>Ids of member accounts: while fewer accounts exist than there are ids, \<open>allocateAccountID\<close> returns one, of twelve
  digits, that no account has and that is neither the requesting nor the management account.\<close>
theorem allocated_account_fresh:
  assumes "length (o_accounts s) < 10 ^ 12 - 3"
  shows "\<exists>account. allocateAccountID s mgmt = Some account \<and> length account = 12 \<and>
    \<not> AccountExists s account \<and> account \<noteq> mgmt \<and> \<not> IsManagementAccount account"
proof (cases "allocateAccountID s mgmt")
  case None
  have "pad_nat 12 ` {2..<10 ^ 12} \<subseteq> insert mgmt (set (o_accounts s))"
    by (rule image_subsetI, rule allocate_from_none [OF None [unfolded allocateAccountID_def]]) auto
  then have "card (pad_nat 12 ` {2..<10 ^ 12}) \<le> card (insert mgmt (set (o_accounts s)))"
    by (intro card_mono) auto
  moreover have "card (pad_nat 12 ` {2..<10 ^ 12}) = 10 ^ 12 - 2"
    using pad_nat_inj by (simp add: card_image inj_on_def)
  moreover have "card (insert mgmt (set (o_accounts s))) \<le> Suc (length (o_accounts s))"
    using card_insert_le_m1 [of "Suc (length (o_accounts s))" "set (o_accounts s)" mgmt] card_length [of "o_accounts s"] by simp
  ultimately have False using assms by simp
  then show ?thesis by simp
next
  case (Some account)
  then obtain k where k: "2 \<le> k" "k < 10 ^ 12" "account = pad_nat 12 k" "account \<noteq> mgmt" "account \<notin> set (o_accounts s)"
    using allocate_from_sound [of "o_accounts s" mgmt 2 account] by (auto simp: allocateAccountID_def)
  have "pad_nat 12 1 = ManagementAccountID" by (simp add: pad_nat_def nat_digits.simps digit_char_def ManagementAccountID_def) code_simp
  then have "account \<noteq> ManagementAccountID" using k(1,3) pad_nat_inj [of 12 k 1] by auto
  then show ?thesis using Some k pad_nat_length by (simp add: AccountExists_def IsManagementAccount_def)
qed

text \<open>The properties on an organization with one member account, in a unit with a control policy.\<close>

definition org_empty :: org where
  "org_empty = \<lparr>o_accounts = [''000000000001'', ''000000000002''], o_requests = [], o_ous = [], o_policies = [], o_attached = [],
     o_enabled = [], o_parents = [(''000000000002'', ''r-root'')]\<rparr>"

definition org_scp :: "string \<Rightarrow> org" where
  "org_scp doc = org_empty\<lparr>
     o_ous := [\<lparr>ou_id = ''ou-a'', ou_parent = ''r-root'', ou_name = ''A''\<rparr>, \<lparr>ou_id = ''ou-b'', ou_parent = ''ou-a'', ou_name = ''B''\<rparr>],
     o_policies := [\<lparr>op_id = ''p-1'', op_type = ''SCP'', op_name = ''scp'', op_document = doc\<rparr>],
     o_attached := [(''p-1'', ''ou'', ''ou-a'')], o_parents := [(''000000000002'', ''ou-b'')]\<rparr>"

lemma root_samples: "is_root ''r-root''" "\<not> is_root ''ou-a''" "\<not> is_root ''ou-b''" "\<not> is_root ''ou-x''"
  by (simp_all add: is_root_def OrgRootID_def HasPrefix_def)

lemma org_scp_path: "OUPathToRoot (org_scp doc) ''000000000002'' = Inr [''ou-b'', ''ou-a'']"
  by (simp add: OUPathToRoot_def AccountParentID_def org_scp_def org_empty_def ou_path.simps find_ou_def root_samples)

lemma org_scp_docs: "OrgFilterDocsForAccount (org_scp doc) ''000000000002'' = Inr ([doc], [])"
  unfolding OrgFilterDocsForAccount_def org_scp_path
  by (simp add: orgPolicyDocsForAccountWithPath_def applies_def) (simp add: org_scp_def)

theorem org_docs_spec_witness:
  "\<exists>path. OUPathToRoot (org_scp ''doc'') ''000000000002'' = Inr path \<and>
     set path = {x. placed_under (org_scp ''doc'') ''000000000002'' x}"
  using org_docs_spec [OF org_scp_docs [of "''doc''"]] by blast

theorem allocated_account_fresh_witness:
  "\<exists>account. allocateAccountID org_empty ''000000000001'' = Some account \<and> \<not> AccountExists org_empty account"
proof -
  have "length (o_accounts org_empty) < 10 ^ 12 - 3" by (simp add: org_empty_def)
  from allocated_account_fresh [OF this] show ?thesis by blast
qed

theorem dangling_unit_blocks_witness:
  "\<exists>s1 s2. CreateOrganizationalUnit ''ou-a'' org_empty ''ou-x'' ''A'' = Inr (''ou-a'', s1) \<and>
     MoveAccount s1 ''000000000002'' ''r-root'' ''ou-a'' = Inr s2 \<and>
     OrgFilterDocsForAccount s2 ''000000000002'' = Inl OrgNotFound"
proof -
  let ?s1 = "org_empty\<lparr>o_ous := [\<lparr>ou_id = ''ou-a'', ou_parent = ''ou-x'', ou_name = ''A''\<rparr>]\<rparr>"
  let ?s2 = "?s1\<lparr>o_parents := [(''000000000002'', ''ou-a'')]\<rparr>"
  have c: "CreateOrganizationalUnit ''ou-a'' org_empty ''ou-x'' ''A'' = Inr (''ou-a'', ?s1)"
    by (simp add: CreateOrganizationalUnit_def sql_insert_def org_empty_def)
  have m: "MoveAccount ?s1 ''000000000002'' ''r-root'' ''ou-a'' = Inr ?s2"
    by (simp add: MoveAccount_def SetAccountParent_def AccountExists_def validateOrgParentID_def find_ou_def AccountParentID_def
        sql_upsert_def org_empty_def root_samples HasPrefix_def)
  have "find_ou org_empty ''ou-x'' = None" by (simp add: find_ou_def org_empty_def)
  then have "OrgFilterDocsForAccount ?s2 ''000000000002'' = Inl OrgNotFound"
    using dangling_unit_blocks [OF c _ root_samples(4) _ _ m] by (simp add: HasPrefix_def)
  then show ?thesis using c m by blast
qed

end
