(* ===== verification/Tagging.thy ===== *)
theory Tagging
  imports Sql_Table Go_Strings
begin

text \<open>
  Tags on resources, \<open>src/internal/store/tagging.go\<close>: one table keyed by account, ARN and tag key. A Go map is a
  list of its entries in the order a \<open>range\<close> visits them; that order is not fixed, the theorems hold for each.
\<close>

section \<open>State\<close>

record tag_row =
  tg_account :: string
  tg_arn :: string
  tg_key :: string
  tg_value :: string

record ResourceTag =
  rt_Key :: string
  rt_Value :: string

record TaggedResource =
  tr_ResourceARN :: string
  tr_Tags :: "ResourceTag list"

record TagFilter =
  tf_Key :: string
  tf_Values :: "string list"

definition tag_id :: "tag_row \<Rightarrow> string \<times> string \<times> string" where
  "tag_id r = (tg_account r, tg_arn r, tg_key r)"

definition tag_of :: "tag_row \<Rightarrow> ResourceTag" where
  "tag_of r = \<lparr>rt_Key = tg_key r, rt_Value = tg_value r\<rparr>"

section \<open>Writing\<close>

text \<open>\<open>strings.SplitN(s, sep, n)\<close> for n at least 1: at most n parts, the last one unsplit.\<close>

fun SplitN :: "nat \<Rightarrow> string \<Rightarrow> char \<Rightarrow> string list" where
  "SplitN 0 s sep = []"
| "SplitN (Suc n) s sep =
     (if n = 0 then [s]
      else (case Cut s sep of (before, after, found) \<Rightarrow>
              if found then before # SplitN n after sep else [s]))"

definition resourceARNBelongsToAccount :: "string \<Rightarrow> string \<Rightarrow> bool" where
  "resourceARNBelongsToAccount arn account =
     (let parts = SplitN 6 arn CHR '':''
      in if length parts < 5 then False
         else if parts ! 4 = [] then HasPrefix arn ''arn:aws:s3:::''
         else parts ! 4 = account)"

definition set_tag :: "string \<Rightarrow> string \<Rightarrow> string \<times> string \<Rightarrow> tag_row list \<Rightarrow> tag_row list" where
  "set_tag account arn kv rows =
     (let k = TrimSpace (fst kv)
      in if k = [] then rows
         else sql_upsert tag_id (\<lambda>r. r\<lparr>tg_value := snd kv\<rparr>)
                \<lparr>tg_account = account, tg_arn = arn, tg_key = k, tg_value = snd kv\<rparr> rows)"

definition tag_resource ::
  "string \<Rightarrow> (string \<times> string) list \<Rightarrow> string \<Rightarrow> tag_row list \<times> string list \<Rightarrow> tag_row list \<times> string list"
where
  "tag_resource account tags resource s =
     (let arn = TrimSpace resource
      in if arn = [] then s
         else if \<not> resourceARNBelongsToAccount arn account then (fst s, snd s @ [arn])
         else (fold (set_tag account arn) tags (fst s),
               snd s @ (if \<exists>kv\<in>set tags. TrimSpace (fst kv) = [] then [arn] else [])))"

text \<open>The new table and the ARNs that failed; \<open>None\<close> when no tags are given.\<close>

definition TagResources ::
  "tag_row list \<Rightarrow> string \<Rightarrow> string list \<Rightarrow> (string \<times> string) list \<Rightarrow> (tag_row list \<times> string list) option"
where
  "TagResources rows account arns tags =
     (if tags = [] then None else Some (fold (tag_resource account tags) arns (rows, [])))"

definition untag_resource ::
  "string \<Rightarrow> string list \<Rightarrow> string \<Rightarrow> tag_row list \<times> string list \<Rightarrow> tag_row list \<times> string list"
where
  "untag_resource account tagKeys resource s =
     (let arn = TrimSpace resource
      in if arn = [] then s
         else if \<not> resourceARNBelongsToAccount arn account then (fst s, snd s @ [arn])
         else (filter (\<lambda>r. \<not> (tg_account r = account \<and> tg_arn r = arn \<and> tg_key r \<noteq> [] \<and>
                              tg_key r \<in> set (map TrimSpace tagKeys))) (fst s), snd s))"

definition UntagResources :: "tag_row list \<Rightarrow> string \<Rightarrow> string list \<Rightarrow> string list \<Rightarrow> tag_row list \<times> string list" where
  "UntagResources rows account arns tagKeys = fold (untag_resource account tagKeys) arns (rows, [])"

section \<open>Reading\<close>

definition ListResourceTags :: "tag_row list \<Rightarrow> string \<Rightarrow> string \<Rightarrow> ResourceTag list" where
  "ListResourceTags rows account resource =
     (let arn = TrimSpace resource
      in if account = [] \<or> arn = [] then []
         else map tag_of (sort_key tg_key (filter (\<lambda>r. tg_account r = account \<and> tg_arn r = arn) rows)))"

definition type_filter_matches :: "string \<Rightarrow> string \<Rightarrow> bool" where
  "type_filter_matches arn filt =
     (let f = TrimSpace filt; parts = SplitN 6 arn CHR '':''
      in if f = [] then False
         else if Contains (ToLower arn) (ToLower f) then True
         else if 3 \<le> length parts \<and> EqualFold (parts ! 2) f then True
         else 6 \<le> length parts \<and> EqualFold (parts ! 2 @ '':'' @ hd (SplitN 2 (parts ! 5) CHR ''/'')) f)"

definition resourceTypeMatches :: "string \<Rightarrow> string list \<Rightarrow> bool" where
  "resourceTypeMatches arn filters \<longleftrightarrow> filters = [] \<or> (\<exists>f\<in>set filters. type_filter_matches arn f)"

definition tagFiltersMatch :: "ResourceTag list \<Rightarrow> TagFilter list \<Rightarrow> bool" where
  "tagFiltersMatch tags filters \<longleftrightarrow>
     (let byKey = map_of (rev (map (\<lambda>t. (rt_Key t, rt_Value t)) tags))
      in \<forall>f\<in>set filters. case byKey (tf_Key f) of
             None \<Rightarrow> False
           | Some val \<Rightarrow> tf_Values f = [] \<or> val \<in> set (tf_Values f))"

definition GetResources :: "tag_row list \<Rightarrow> string \<Rightarrow> TagFilter list \<Rightarrow> string list \<Rightarrow> TaggedResource list" where
  "GetResources rows account tagFilters typeFilters =
     (let mine = sort_key tg_arn (sort_key tg_key (filter (\<lambda>r. tg_account r = account) rows));
          order = remdups (map tg_arn mine)
      in map (\<lambda>arn. \<lparr>tr_ResourceARN = arn, tr_Tags = map tag_of (filter (\<lambda>r. tg_arn r = arn) mine)\<rparr>)
           (filter (\<lambda>arn. resourceTypeMatches arn typeFilters \<and>
                          tagFiltersMatch (map tag_of (filter (\<lambda>r. tg_arn r = arn) mine)) tagFilters) order))"

section \<open>Only the account's own rows\<close>

lemma set_tag_distinct: "distinct (map tag_id rows) \<Longrightarrow> distinct (map tag_id (set_tag account arn kv rows))"
  by (auto simp: set_tag_def Let_def tag_id_def intro!: sql_upsert_distinct)

lemma set_tag_others:
  assumes "account' \<noteq> account"
  shows "filter (\<lambda>r. tg_account r = account') (set_tag account arn kv rows) = filter (\<lambda>r. tg_account r = account') rows"
proof -
  have "filter (\<lambda>r. tg_account r = account') (map (\<lambda>r. if tag_id r = i then r\<lparr>tg_value := v\<rparr> else r) rows) =
      filter (\<lambda>r. tg_account r = account') rows" if "fst i = account" for i v
    using assms that by (induction rows) (auto simp: tag_id_def)
  then show ?thesis using assms by (auto simp: set_tag_def Let_def sql_upsert_def tag_id_def)
qed

lemma fold_keeps: "(\<And>x s. f (g x s) = f s) \<Longrightarrow> f (fold g xs s) = f s"
  by (induction xs arbitrary: s) simp_all

lemma tag_resource_others:
  assumes "account' \<noteq> account"
  shows "filter (\<lambda>r. tg_account r = account') (fst (tag_resource account tags resource s)) =
         filter (\<lambda>r. tg_account r = account') (fst s)"
  using fold_keeps [where f = "filter (\<lambda>r. tg_account r = account')" and g = "set_tag account (TrimSpace resource)",
      OF set_tag_others [OF assms]]
  by (simp add: tag_resource_def Let_def)

lemma TagResources_others:
  assumes "account' \<noteq> account" "TagResources rows account arns tags = Some (rows', failed)"
  shows "filter (\<lambda>r. tg_account r = account') rows' = filter (\<lambda>r. tg_account r = account') rows"
proof -
  have "filter (\<lambda>r. tg_account r = account') (fst (fold (tag_resource account tags) arns (rows, []))) =
      filter (\<lambda>r. tg_account r = account') (fst (rows, []::string list))"
    by (rule fold_keeps [where f = "\<lambda>s. filter (\<lambda>r. tg_account r = account') (fst s)"])
      (rule tag_resource_others [OF assms(1)])
  then show ?thesis using assms(2) by (auto simp: TagResources_def split: if_splits)
qed

lemma untag_resource_others:
  assumes "account' \<noteq> account"
  shows "filter (\<lambda>r. tg_account r = account') (fst (untag_resource account ks resource s)) =
         filter (\<lambda>r. tg_account r = account') (fst s)"
  using assms by (auto simp: untag_resource_def Let_def filter_filter intro!: filter_cong)

lemma UntagResources_others:
  assumes "account' \<noteq> account"
  shows "filter (\<lambda>r. tg_account r = account') (fst (UntagResources rows account arns ks)) =
         filter (\<lambda>r. tg_account r = account') rows"
  using fold_keeps [where f = "\<lambda>s. filter (\<lambda>r. tg_account r = account') (fst s)" and g = "untag_resource account ks",
      OF untag_resource_others [OF assms], of arns "(rows, [])"]
  by (simp add: UntagResources_def)

lemma ListResourceTags_cong:
  "filter (\<lambda>r. tg_account r = account) rows = filter (\<lambda>r. tg_account r = account) rows' \<Longrightarrow>
   ListResourceTags rows account arn = ListResourceTags rows' account arn"
proof -
  assume "filter (\<lambda>r. tg_account r = account) rows = filter (\<lambda>r. tg_account r = account) rows'"
  then have "filter (\<lambda>r. tg_arn r = x) (filter (\<lambda>r. tg_account r = account) rows) =
      filter (\<lambda>r. tg_arn r = x) (filter (\<lambda>r. tg_account r = account) rows')" for x by (simp only:)
  then show ?thesis by (simp add: ListResourceTags_def Let_def filter_filter conj_commute)
qed

end
