(* ===== verification/Server_Auth.thy ===== *)
theory Server_Auth
  imports Authz Orgs Tagging Go_Float
begin

text \<open>
  How the server decides on a verified request, \<open>src/internal/server/handlers.go\<close>: it collects the policies of
  the principal, of its organization and of the session, and the condition keys of the request, and hands them
  to the evaluators. \<open>None\<close> in \<open>bool option\<close> is an evaluation that does not return (see \<open>Glob\<close>).
\<close>

section \<open>The state the decision reads\<close>

text \<open>\<open>sv_now\<close> is the server's clock, \<open>s.now()\<close>, which the lab interface may set.\<close>

record server =
  sv_iam :: iam
  sv_org :: org
  sv_tags :: "tag_row list"
  sv_TLSCertFile :: string
  sv_TLSKeyFile :: string
  sv_now :: instant

section \<open>Condition keys\<close>

definition secureTransportValue :: "server \<Rightarrow> string" where
  "secureTransportValue s =
     (if TrimSpace (sv_TLSCertFile s) \<noteq> [] \<and> TrimSpace (sv_TLSKeyFile s) \<noteq> [] then ''true'' else ''false'')"

definition principalTypeForCondition :: "principal \<Rightarrow> string" where
  "principalTypeForCondition p =
     (if IsRoot p \<or> p_kind p = KindRoot then ''Account''
      else (case p_kind p of
              KindUser \<Rightarrow> ''User''
            | KindRole \<Rightarrow> ''AssumedRole''
            | KindFederated \<Rightarrow> ''FederatedUser''
            | KindAnonymous \<Rightarrow> ''Anonymous''
            | _ \<Rightarrow> ''Unknown''))"

definition principalArnForCondition :: "principal \<Rightarrow> string" where
  "principalArnForCondition p =
     (if p_kind p = KindRole \<and> RoleName p \<noteq> [] then ''arn:aws:iam::'' @ AccountID p @ '':role/'' @ RoleName p
      else ARN p)"

text \<open>
  \<open>int(d.Seconds())\<close> of a duration that is not negative: the sum of two floats, truncated. For ages of more
  than about half a year the sum may round up to the next second.
\<close>

definition whole_seconds :: "int \<Rightarrow> int" where
  "whole_seconds d = \<lfloor>round_pos (of_int (d div ns_sec) + round_pos (of_int (d mod ns_sec) / 1000000000))\<rfloor>"

definition mfa_age :: "instant \<Rightarrow> instant \<Rightarrow> int" where
  "mfa_age now since = (let d = time_sub now since in if d < 0 then 0 else whole_seconds d)"

definition user_id_key :: "server \<Rightarrow> Verified \<Rightarrow> string option" where
  "user_id_key s v =
     (let p = vf_Principal v
      in if p_kind p = KindUser \<and> p_UserName p \<noteq> [] then
           (case GetUser (sv_iam s) (vf_AccountID v) (p_UserName p) of
              Inr u \<Rightarrow> if us_id u \<noteq> [] then Some (us_id u) else None
            | Inl _ \<Rightarrow> None)
         else if p_kind p = KindRole \<and> RoleName p \<noteq> [] then
           (case GetRoleRecord (sv_iam s) (vf_AccountID v) (RoleName p) of
              Inr r \<Rightarrow>
                if null_text (ro_id r) \<noteq> [] then
                  Some (if SessionName p \<noteq> [] then null_text (ro_id r) @ '':'' @ SessionName p else null_text (ro_id r))
                else None
            | Inl _ \<Rightarrow> None)
         else None)"

definition set_key :: "string \<Rightarrow> string option \<Rightarrow> cond_keys \<Rightarrow> cond_keys" where
  "set_key k v keys = (case v of None \<Rightarrow> keys | Some x \<Rightarrow> keys(k \<mapsto> x))"

definition only_if :: "bool \<Rightarrow> 'a \<Rightarrow> 'a option" where
  "only_if b x = (if b then Some x else None)"

definition conditionKeys :: "server \<Rightarrow> Verified \<Rightarrow> cond_keys" where
  "conditionKeys s v =
     (let p = vf_Principal v; now = sv_now s;
          arn = principalArnForCondition p; ip = TrimSpace (vf_SourceIP v);
          base = [''aws:PrincipalAccount'' \<mapsto> vf_AccountID v,
                  ''aws:RequestedRegion'' \<mapsto> vf_Region v,
                  ''aws:CurrentTime'' \<mapsto> format_RFC3339 now,
                  ''aws:EpochTime'' \<mapsto> itoa (now div ns_sec),
                  ''aws:SecureTransport'' \<mapsto> secureTransportValue s,
                  ''aws:PrincipalType'' \<mapsto> principalTypeForCondition p]
      in (set_key ''aws:MultiFactorAuthAge''
            (only_if (vf_MFAAuthenticated v \<and> vf_MFAAuthenticatedAt v \<noteq> zero_time)
              (itoa (mfa_age now (vf_MFAAuthenticatedAt v))))
          \<circ> set_key ''aws:MultiFactorAuthPresent'' (only_if (vf_MFAAuthenticated v) ''true'')
          \<circ> set_key ''aws:SourceIp'' (only_if (ip \<noteq> []) ip)
          \<circ> set_key ''aws:userid'' (user_id_key s v)
          \<circ> set_key ''aws:username'' (only_if (p_kind p = KindUser \<and> p_UserName p \<noteq> []) (p_UserName p))
          \<circ> set_key ''aws:PrincipalArn'' (only_if (arn \<noteq> []) arn)) base)"

definition resourceAccountIDFromARN :: "string \<Rightarrow> string" where
  "resourceAccountIDFromARN arn =
     (let parts = Split (TrimSpace arn) CHR '':''
      in if length parts < 5 \<or> parts ! 0 \<noteq> ''arn'' then [] else parts ! 4)"

definition serviceResourceTagKeyPrefix :: "string \<Rightarrow> string" where
  "serviceResourceTagKeyPrefix arn =
     (let parts = Split arn CHR '':''
      in if length parts < 3 then []
         else (let svc = ToLower (parts ! 2)
               in if svc = ''ecr'' then ''ecr:ResourceTag/''
                  else if svc = ''ssm'' then ''ssm:resourceTag/''
                  else if svc = ''secretsmanager'' then ''secretsmanager:ResourceTag/''
                  else if svc = ''iam'' then ''iam:ResourceTag/''
                  else if svc = ''ecs'' then ''ecs:ResourceTag/''
                  else []))"

definition tag_keys :: "string \<Rightarrow> ResourceTag \<Rightarrow> cond_keys \<Rightarrow> cond_keys" where
  "tag_keys svcPrefix t keys =
     (let k = TrimSpace (rt_Key t)
      in if k = [] then keys
         else set_key (svcPrefix @ k) (only_if (svcPrefix \<noteq> []) (rt_Value t)) (keys(''aws:ResourceTag/'' @ k \<mapsto> rt_Value t)))"

definition tag_account :: "string \<Rightarrow> string \<Rightarrow> string" where
  "tag_account account resource =
     (let a = resourceAccountIDFromARN resource in if a = [] then account else a)"

definition mergeResourceTagConditionKeys :: "server \<Rightarrow> string \<Rightarrow> string \<Rightarrow> cond_keys \<Rightarrow> cond_keys" where
  "mergeResourceTagConditionKeys s account res keys =
     (let resource = TrimSpace res
      in if resource = [] \<or> resource = ''*'' then keys
         else if tag_account account resource = [] then keys
         else fold (tag_keys (serviceResourceTagKeyPrefix resource))
                (ListResourceTags (sv_tags s) (tag_account account resource) resource) keys)"

definition requestContext :: "server \<Rightarrow> Verified \<Rightarrow> string \<Rightarrow> string \<Rightarrow> RequestContext" where
  "requestContext s v action resource =
     \<lparr>rc_Principal = vf_Principal v, rc_Action = action, rc_Resource = resource, rc_Region = vf_Region v,
      rc_ConditionKeys = mergeResourceTagConditionKeys s (vf_AccountID v) resource (conditionKeys s v)\<rparr>"

text \<open>The entries of the encryption context, a map: its keys are distinct.\<close>

definition mergeEncryptionContextKeys :: "(string \<times> string) list \<Rightarrow> cond_keys \<Rightarrow> cond_keys" where
  "mergeEncryptionContextKeys encCtx keys =
     (if encCtx = [] then keys
      else (fold (\<lambda>(k, v) m. m(''kms:EncryptionContext:'' @ k \<mapsto> v)) encCtx keys)
             (''kms:EncryptionContextKeys'' \<mapsto> Join (sort_key id (map fst encCtx)) '',''))"

section \<open>The policies of the caller\<close>

text \<open>The inner \<open>None\<close> is the nil slice of an anonymous caller.\<close>

definition identityDocs :: "server \<Rightarrow> principal \<Rightarrow> (iam_error, string list option) result" where
  "identityDocs s p =
     (if p_kind p = KindAnonymous then Inr None
      else if p_kind p = KindUser \<and> p_UserName p \<noteq> [] then
        (case IdentityPolicyDocsForUser (sv_iam s) (AccountID p) (p_UserName p) of
           Inl e \<Rightarrow> Inl e | Inr docs \<Rightarrow> Inr (Some docs))
      else
        (let arn = (if p_kind p = KindRole \<and> RoleName p \<noteq> [] then principalArnForCondition p else ARN p)
         in Inr (Some (ListAttachedPolicyDocuments (sv_iam s) arn @
                       map ip_document (ListInlinePolicies (sv_iam s) arn)))))"

definition sessionPolicyDocs :: "Verified \<Rightarrow> string list" where
  "sessionPolicyDocs v = (if vf_SessionPolicy v = [] then [] else [vf_SessionPolicy v])"

definition allow_all_doc :: string where
  "allow_all_doc = ''{\"Version\":\"2012-10-17\",\"Statement\":[{\"Effect\":\"Allow\",\"Action\":\"*\",\"Resource\":\"*\"}]}''"

definition empty_doc :: string where
  "empty_doc = ''{\"Version\":\"2012-10-17\",\"Statement\":[]}''"

definition federated_session :: "Verified \<Rightarrow> bool" where
  "federated_session v \<longleftrightarrow> p_kind (vf_Principal v) = KindFederated \<and> vf_FederatedUser v \<noteq> []"

text \<open>The identity policies: those of the principal, for a federation token those of the calling user.\<close>

definition caller_docs :: "server \<Rightarrow> Verified \<Rightarrow> (iam_error, string list option) result" where
  "caller_docs s v =
     (case identityDocs s (vf_Principal v) of
        Inl e \<Rightarrow> Inl e
      | Inr docs \<Rightarrow>
          if federated_session v then
            (if vf_UserName v \<noteq> [] then identityDocs s (UserPrincipal (vf_AccountID v) (vf_UserName v) (vf_AccessKeyID v))
             else if vf_IsRoot v then Inr (Some [allow_all_doc])
             else Inr None)
          else Inr docs)"

definition session_docs :: "Verified \<Rightarrow> string list" where
  "session_docs v =
     (if federated_session v \<and> vf_SessionPolicy v = [] then [empty_doc] else sessionPolicyDocs v)"

definition role_boundary :: "server \<Rightarrow> Verified \<Rightarrow> (iam_error, string option) result" where
  "role_boundary s v =
     (if p_kind (vf_Principal v) = KindRole \<and> RoleName (vf_Principal v) \<noteq> []
      then PermissionsBoundaryDoc (sv_iam s) (vf_AccountID v) ''role'' (RoleName (vf_Principal v)) else Inr None)"

definition boundary_user :: "Verified \<Rightarrow> string" where
  "boundary_user v =
     (if p_kind (vf_Principal v) = KindUser then p_UserName (vf_Principal v)
      else if federated_session v then vf_UserName v else [])"

definition boundary_doc :: "server \<Rightarrow> Verified \<Rightarrow> (iam_error, string option) result" where
  "boundary_doc s v =
     (case role_boundary s v of
        Inl e \<Rightarrow> Inl e
      | Inr d \<Rightarrow>
          if boundary_user v = [] then Inr d
          else (case PermissionsBoundaryDoc (sv_iam s) (vf_AccountID v) ''user'' (boundary_user v) of
                  Inl e \<Rightarrow> Inl e
                | Inr None \<Rightarrow> Inr d
                | Inr (Some doc) \<Rightarrow> Inr (Some doc)))"

definition evalInputs :: "server \<Rightarrow> Verified \<Rightarrow> EvalInputs option" where
  "evalInputs s v =
     (case caller_docs s v of
        Inl _ \<Rightarrow> None
      | Inr docs \<Rightarrow>
          (case boundary_doc s v of
             Inl _ \<Rightarrow> None
           | Inr boundary \<Rightarrow>
               (case OrgFilterDocsForAccount (sv_org s) (vf_AccountID v) of
                  Inl _ \<Rightarrow> None
                | Inr (scp, rcp) \<Rightarrow>
                    Some \<lparr>in_IdentityDocs = docs, in_BoundaryDoc = null_text boundary, in_SessionDocs = session_docs v,
                          in_SCPDocs = scp, in_RCPDocs = rcp,
                          in_IsManagementAccount = IsManagementAccount (vf_AccountID v)\<rparr>)))"

section \<open>Decisions\<close>

definition authorize :: "server \<Rightarrow> Verified \<Rightarrow> string \<Rightarrow> string \<Rightarrow> bool option" where
  "authorize s v action resource =
     (case evalInputs s v of
        None \<Rightarrow> Some False
      | Some inp \<Rightarrow> map_option (\<lambda>d. d = Allow) (EvaluateFull (requestContext s v action resource) inp))"

text \<open>The checks of a session policy and of a boundary that follow an evaluator's Allow.\<close>

definition session_allows :: "RequestContext \<Rightarrow> EvalInputs \<Rightarrow> bool option" where
  "session_allows ctx inp =
     (if in_SessionDocs inp \<noteq> [] then map_option (\<lambda>d. d = Allow) (Evaluate ctx (in_SessionDocs inp)) else Some True)"

definition boundary_allows :: "RequestContext \<Rightarrow> EvalInputs \<Rightarrow> bool option" where
  "boundary_allows ctx inp =
     (if \<not> IsRoot (rc_Principal ctx) \<and> TrimSpace (in_BoundaryDoc inp) \<noteq> []
      then map_option (\<lambda>d. d = Allow) (Evaluate ctx [in_BoundaryDoc inp]) else Some True)"

type_synonym evaluator = "RequestContext \<Rightarrow> string list \<Rightarrow> string \<Rightarrow> Decision option"

definition authorizeDataplaneOR ::
  "server \<Rightarrow> Verified \<Rightarrow> string \<Rightarrow> string \<Rightarrow> string \<Rightarrow> evaluator \<Rightarrow> bool option"
where
  "authorizeDataplaneOR s v action resource resourceAccountID ev =
     (case evalInputs s v of
        None \<Rightarrow> Some False
      | Some inp \<Rightarrow>
          (let ctx = requestContext s v action resource
           in do { org \<leftarrow> OrgFiltersDeny ctx inp;
                   if org then Some False
                   else do {
                     d \<leftarrow> ev ctx (identity_docs inp) resourceAccountID;
                     if d \<noteq> Allow then Some False
                     else do {
                       x \<leftarrow> SessionOrBoundaryExplicitDeny ctx inp;
                       if x then Some False
                       else do {
                         sess \<leftarrow> session_allows ctx inp;
                         if \<not> sess then Some False
                         else do {
                           ident \<leftarrow> Evaluate ctx (identity_docs inp);
                           if ident \<noteq> Allow then Some True else boundary_allows ctx inp } } } } }))"

definition authorizeDataplaneKMS ::
  "server \<Rightarrow> Verified \<Rightarrow> string \<Rightarrow> string \<Rightarrow> string \<Rightarrow> bool \<Rightarrow> (string \<times> string) list \<Rightarrow> bool option"
where
  "authorizeDataplaneKMS s v action resource keyPolicy grantSatisfied encCtx =
     (case evalInputs s v of
        None \<Rightarrow> Some False
      | Some inp \<Rightarrow>
          (let ctx0 = requestContext s v action resource;
               ctx = ctx0\<lparr>rc_ConditionKeys := mergeEncryptionContextKeys encCtx (rc_ConditionKeys ctx0)\<rparr>
           in do { org \<leftarrow> OrgFiltersDeny ctx inp;
                   if org then Some False
                   else do {
                     d \<leftarrow> EvaluateKMS \<lparr>kms_Caller = ctx, kms_IdentityDocs = identity_docs inp,
                                       kms_KeyPolicyDoc = keyPolicy, kms_GrantSatisfied = grantSatisfied\<rparr>;
                     if d \<noteq> Allow then Some False
                     else do {
                       b \<leftarrow> boundary_allows ctx inp;
                       if \<not> b then Some False else session_allows ctx inp } } }))"

datatype org_refusal = NotAuthorized | NotManagementAccount

definition authorizeOrgs :: "server \<Rightarrow> Verified \<Rightarrow> string \<Rightarrow> string \<Rightarrow> org_refusal option option" where
  "authorizeOrgs s v action resource =
     do { ok \<leftarrow> authorize s v action resource;
          Some (if \<not> ok then Some NotAuthorized
                else if action = ''organizations:DescribeCreateAccountStatus'' then None
                else if \<not> IsManagementAccount (vf_AccountID v) then Some NotManagementAccount
                else None) }"

definition isRoleChainingCaller :: "Verified \<Rightarrow> bool" where
  "isRoleChainingCaller v \<longleftrightarrow>
     TrimSpace (vf_SessionToken v) \<noteq> [] \<or> p_kind (vf_Principal v) = KindRole \<or> p_kind (vf_Principal v) = KindFederated"

end
