(* ===== verification/Mfa.thy ===== *)
theory Mfa
  imports Iam
begin

text \<open>
  Virtual MFA devices, \<open>src/internal/store/mfa.go\<close>, and their codes, \<open>src/internal/kernel/sts/mfa.go\<close>. Sealing
  under the master key is a pair of parameters.
\<close>

record mfa_row =
  mf_account :: string
  mf_serial :: string
  mf_user :: string
  mf_seed :: string
  mf_enabled :: int

record MFADevice =
  md_AccountID :: string
  md_Serial :: string
  md_UserName :: string
  md_Seed :: string
  md_Enabled :: bool

definition MFADeviceARN :: "string \<Rightarrow> string \<Rightarrow> string" where
  "MFADeviceARN account tail = ''arn:aws:iam::'' @ account @ '':mfa/'' @ tail"

definition mfa_key :: "mfa_row \<Rightarrow> string \<times> string" where "mfa_key r = (mf_account r, mf_serial r)"

definition CreateVirtualMFADevice ::
  "validator \<Rightarrow> (string \<Rightarrow> string) \<Rightarrow> string \<Rightarrow> mfa_row list \<Rightarrow> string \<Rightarrow> string \<Rightarrow> (iam_error, string \<times> mfa_row list) result"
where
  "CreateVirtualMFADevice v seal tail rows account seed =
     (if \<not> validate_AccountID v account then Inl Invalid
      else if seed = [] then Inl BadArgument
      else ok_or Constraint
        (sql_insert mfa_key \<lparr>mf_account = account, mf_serial = MFADeviceARN account tail, mf_user = [],
           mf_seed = seal seed, mf_enabled = 0\<rparr> rows)
        (\<lambda>rs. Inr (MFADeviceARN account tail, rs)))"

definition device_of :: "unseal \<Rightarrow> mfa_row \<Rightarrow> MFADevice option" where
  "device_of unseal r =
     map_option (\<lambda>seed. \<lparr>md_AccountID = mf_account r, md_Serial = mf_serial r, md_UserName = mf_user r,
                          md_Seed = seed, md_Enabled = (mf_enabled r = 1)\<rparr>) (unseal (mf_seed r))"

definition GetMFADevice :: "unseal \<Rightarrow> mfa_row list \<Rightarrow> string \<Rightarrow> string \<Rightarrow> MFADevice option" where
  "GetMFADevice unseal rows account serial =
     Option.bind (List.find (\<lambda>r. mf_account r = account \<and> mf_serial r = serial) rows) (device_of unseal)"

definition EnableMFADevice ::
  "unseal \<Rightarrow> iam \<Rightarrow> mfa_row list \<Rightarrow> string \<Rightarrow> string \<Rightarrow> string \<Rightarrow> (iam_error, mfa_row list) result"
where
  "EnableMFADevice unseal s rows account serial user =
     (case GetUser s account user of
        Inl e \<Rightarrow> Inl e
      | Inr _ \<Rightarrow>
          ok_or NoRows (GetMFADevice unseal rows account serial) (\<lambda>dev.
            if md_Enabled dev then Inl Constraint
            else ok_or NoRows
              (sql_update (\<lambda>r. mf_account r = account \<and> mf_serial r = serial \<and> mf_enabled r = 0)
                 (\<lambda>r. r\<lparr>mf_user := user, mf_enabled := 1\<rparr>) rows) Inr))"

text \<open>The whole list fails when one seed does not unseal.\<close>

definition ListMFADevices :: "unseal \<Rightarrow> mfa_row list \<Rightarrow> string \<Rightarrow> string \<Rightarrow> MFADevice list option" where
  "ListMFADevices unseal rows account user =
     those (map (device_of unseal)
       (sort_key mf_serial (filter (\<lambda>r. mf_account r = account \<and> (user = [] \<or> mf_user r = user)) rows)))"

definition DeactivateMFADevice :: "mfa_row list \<Rightarrow> string \<Rightarrow> string \<Rightarrow> string \<Rightarrow> mfa_row list option" where
  "DeactivateMFADevice rows account serial user =
     sql_update (\<lambda>r. mf_account r = account \<and> mf_serial r = serial \<and> mf_user r = user \<and> mf_enabled r = 1)
       (\<lambda>r. r\<lparr>mf_user := [], mf_enabled := 0\<rparr>) rows"

section \<open>Codes\<close>

text \<open>\<open>at.Unix() / 60\<close> truncates towards zero.\<close>

definition unix_minute :: "instant \<Rightarrow> int" where
  "unix_minute t = (let s = t div ns_sec in if s < 0 then - ((- s) div 60) else s div 60)"

definition LabTokenCode :: "string \<Rightarrow> instant \<Rightarrow> string" where
  "LabTokenCode seed t = take 6 (hex_encode (sha256 (seed @ '':'' @ itoa (unix_minute t))))"

definition ValidateLabTokenCode :: "string \<Rightarrow> string \<Rightarrow> instant \<Rightarrow> int \<Rightarrow> bool" where
  "ValidateLabTokenCode seed tokenCode t skew \<longleftrightarrow>
     (if tokenCode = [] \<or> seed = [] then False
      else (let k = (if skew < 0 then 0 else skew)
            in \<exists>d\<in>set [- k..k]. LabTokenCode seed (t + d * ns_min) = tokenCode))"

definition ValidateLabEnrollmentCodes :: "string \<Rightarrow> string \<Rightarrow> string \<Rightarrow> instant \<Rightarrow> bool" where
  "ValidateLabEnrollmentCodes seed code1 code2 t \<longleftrightarrow>
     (if code1 = [] \<or> code2 = [] \<or> code1 = code2 \<or> seed = [] then False
      else \<exists>d\<in>set [- 1, 0, 1]. LabTokenCode seed (t + d * ns_min) = code1 \<and>
             (code2 = LabTokenCode seed (t + d * ns_min - ns_min) \<or> code2 = LabTokenCode seed (t + d * ns_min + ns_min)))"

end
