(* ===== verification/Sts.thy ===== *)
theory Sts
  imports Server_Auth Mfa
begin

text \<open>
  The operations of the Security Token Service that hand out temporary credentials:
  \<open>src/internal/server/sts_handlers.go\<close>, \<open>handleAssumeRole\<close> of \<open>handlers.go\<close> and \<open>src/internal/kernel/sts/assume_role.go\<close>.
  The random parts of new credentials are arguments, and so is the wall clock, which the expiry goes by.
\<close>

section \<open>Requests and answers\<close>

text \<open>The decoded form; \<open>Get\<close> of a missing name is the empty text.\<close>

type_synonym form = "string \<Rightarrow> string"

datatype sts_error = ValidationError | AccessDenied | NoSuchEntity | InternalFailure

record minted =
  mt_AccessKeyID :: string
  mt_Secret :: string
  mt_SessionToken :: string

record credentials =
  cr_AccessKeyID :: string
  cr_Secret :: string
  cr_SessionToken :: string
  cr_Expiration :: instant

type_synonym issue = "(sts_error, credentials \<times> server) result"

definition no_opts :: MintTempOpts where
  "no_opts = \<lparr>mo_AccountID = [], mo_RoleARN = [], mo_SessionName = [], mo_UserName = [], mo_FederatedUser = [],
     mo_SessionPolicy = [], mo_Secret = [], mo_SessionToken = [], mo_Expires = zero_time, mo_IsRoot = False,
     mo_MFAAuthenticated = False, mo_MFAAuthenticatedAt = zero_time\<rparr>"

definition issue_key :: "(string \<Rightarrow> string) \<Rightarrow> minted \<Rightarrow> server \<Rightarrow> MintTempOpts \<Rightarrow> issue" where
  "issue_key seal m s opts =
     (let opts' = opts\<lparr>mo_Secret := mt_Secret m, mo_SessionToken := mt_SessionToken m\<rparr>
      in ok_or InternalFailure (MintTempCredentialsOpts seal (mt_AccessKeyID m) opts' (i_keys (sv_iam s)))
           (\<lambda>rows. Inr (\<lparr>cr_AccessKeyID = mt_AccessKeyID m, cr_Secret = mt_Secret m, cr_SessionToken = mt_SessionToken m,
                         cr_Expiration = mo_Expires opts\<rparr>,
                        s\<lparr>sv_iam := (sv_iam s)\<lparr>i_keys := rows\<rparr>\<rparr>)))"

section \<open>AssumeRole\<close>

definition ParseRoleARN :: "string \<Rightarrow> (string \<times> string) option" where
  "ParseRoleARN roleARN =
     (if length roleARN < 28 \<or> take 13 roleARN \<noteq> ''arn:aws:iam::'' then None
      else (let rest = drop 13 roleARN;
                (account, rest') = (case index_char CHR '':'' rest of
                                      None \<Rightarrow> ([], rest) | Some i \<Rightarrow> (take i rest, drop (i + 1) rest))
            in if length account \<noteq> 12 \<or> length rest' < 6 \<or> take 5 rest' \<noteq> ''role/'' then None
               else Some (account, drop 5 rest')))"

definition unescaped :: "string \<Rightarrow> string" where
  "unescaped p = (case QueryUnescape p of Some u \<Rightarrow> if u \<noteq> [] then u else p | None \<Rightarrow> p)"

definition requested_policy :: "server \<Rightarrow> form \<Rightarrow> (sts_error, string) result" where
  "requested_policy s f =
     (if f ''Policy'' \<noteq> [] then Inr (unescaped (f ''Policy''))
      else if f ''PolicyArns.member.1.arn'' \<noteq> [] then
        (case GetManagedPolicy (sv_iam s) (f ''PolicyArns.member.1.arn'') of
           Inl _ \<Rightarrow> Inl NoSuchEntity | Inr p \<Rightarrow> Inr (mp_document p))
      else Inr [])"

definition max_allowed :: "server \<Rightarrow> Verified \<Rightarrow> string \<Rightarrow> string \<Rightarrow> int" where
  "max_allowed s v account roleName =
     (let role = (case GetRoleRecord (sv_iam s) account roleName of
                    Inr r \<Rightarrow> if 0 < ro_max r then ro_max r else 3600 | Inl _ \<Rightarrow> 3600);
          capped = (if 43200 < role then 43200 else role)
      in if isRoleChainingCaller v \<and> 3600 < capped then 3600 else capped)"

definition session_seconds :: "int \<Rightarrow> string \<Rightarrow> (sts_error, int) result" where
  "session_seconds allowed text' =
     (let raw = TrimSpace text'
      in if raw \<noteq> [] then
           (case ParseInt 10 raw of
              None \<Rightarrow> Inl ValidationError
            | Some secs \<Rightarrow>
                if secs < 900 \<or> 43200 < secs then Inl ValidationError
                else if allowed < secs then Inl ValidationError else Inr secs)
         else Inr (if allowed < 3600 then allowed else 3600))"

definition trust_keys :: "server \<Rightarrow> Verified \<Rightarrow> form \<Rightarrow> cond_keys" where
  "trust_keys s v f =
     (let ext = TrimSpace (f ''ExternalId''); src = TrimSpace (f ''SourceIdentity'')
      in (set_key ''aws:SourceIdentity'' (only_if (src \<noteq> []) src)
          \<circ> set_key ''sts:SourceIdentity'' (only_if (src \<noteq> []) src)
          \<circ> set_key ''sts:ExternalId'' (only_if (ext \<noteq> []) ext)) (conditionKeys s v))"

definition trust_request :: "server \<Rightarrow> Verified \<Rightarrow> form \<Rightarrow> string \<Rightarrow> string \<Rightarrow> string list \<Rightarrow> CrossAccountRequest" where
  "trust_request s v f roleARN trust docs =
     \<lparr>ca_Caller = \<lparr>rc_Principal = vf_Principal v, rc_Action = ''sts:AssumeRole'', rc_Resource = roleARN,
                   rc_Region = vf_Region v, rc_ConditionKeys = trust_keys s v f\<rparr>,
      ca_CallerIdentityDocs = docs, ca_TrustPolicyDoc = trust\<rparr>"

text \<open>The role, or the error, and whether the caller may assume it.\<close>

definition assumed_role :: "server \<Rightarrow> form \<Rightarrow> (sts_error, string \<times> string \<times> string \<times> string) result" where
  "assumed_role s f =
     (if f ''RoleArn'' = [] \<or> f ''RoleSessionName'' = [] then Inl ValidationError
      else ok_or ValidationError (ParseRoleARN (f ''RoleArn'')) (\<lambda>(account, roleName).
        (case GetRole (sv_iam s) account roleName of
           Inl _ \<Rightarrow> Inl AccessDenied
         | Inr (stored, trust) \<Rightarrow> Inr (account, roleName, if stored \<noteq> [] then stored else f ''RoleArn'', trust))))"

definition may_assume :: "server \<Rightarrow> Verified \<Rightarrow> form \<Rightarrow> string \<Rightarrow> string \<Rightarrow> bool option" where
  "may_assume s v f roleARN trust =
     do { ok \<leftarrow> authorize s v ''sts:AssumeRole'' roleARN;
          if \<not> ok then Some False
          else (case identityDocs s (vf_Principal v) of
                  Inl _ \<Rightarrow> Some False
                | Inr docs \<Rightarrow>
                    map_option (\<lambda>d. d = Allow)
                      (EvaluateCrossAccount (trust_request s v f roleARN trust (case docs of None \<Rightarrow> [] | Some ds \<Rightarrow> ds)))) }"

definition role_opts :: "string \<Rightarrow> string \<Rightarrow> string \<Rightarrow> string \<Rightarrow> instant \<Rightarrow> MintTempOpts" where
  "role_opts account roleARN sessionName policy expires =
     no_opts\<lparr>mo_AccountID := account, mo_RoleARN := roleARN, mo_SessionName := sessionName,
             mo_SessionPolicy := policy, mo_Expires := expires\<rparr>"

definition AssumeRole ::
  "(string \<Rightarrow> string) \<Rightarrow> minted \<Rightarrow> instant \<Rightarrow> server \<Rightarrow> Verified \<Rightarrow> form \<Rightarrow> issue option"
where
  "AssumeRole seal m wall s v f =
     (case assumed_role s f of
        Inl e \<Rightarrow> Some (Inl e)
      | Inr (account, roleName, roleARN, trust) \<Rightarrow>
          do { ok \<leftarrow> may_assume s v f roleARN trust;
               Some (if \<not> ok then Inl AccessDenied
                     else (case requested_policy s f of
                             Inl e \<Rightarrow> Inl e
                           | Inr policy \<Rightarrow>
                               (case session_seconds (max_allowed s v account roleName) (f ''DurationSeconds'') of
                                  Inl e \<Rightarrow> Inl e
                                | Inr secs \<Rightarrow>
                                    issue_key seal m s
                                      (role_opts account roleARN (f ''RoleSessionName'') policy (wall + secs * ns_sec))))) })"

text \<open>The end of the federated AssumeRole operations, after their identity provider and trust policy have agreed.\<close>

definition mintAndWriteAssumeRole ::
  "(string \<Rightarrow> string) \<Rightarrow> minted \<Rightarrow> instant \<Rightarrow> server \<Rightarrow> string \<Rightarrow> string \<Rightarrow> string \<Rightarrow> issue"
where
  "mintAndWriteAssumeRole seal m wall s account roleARN sessionName =
     issue_key seal m s (role_opts account roleARN (if sessionName = [] then ''session'' else sessionName) []
       (wall + 3600 * ns_sec))"

section \<open>Sessions of a user\<close>

definition lookupGetSessionTokenSession :: "(string \<Rightarrow> AccessKey option) \<Rightarrow> Verified \<Rightarrow> AccessKey option" where
  "lookupGetSessionTokenSession lookup v =
     (if vf_SessionToken v = [] \<or> p_kind (vf_Principal v) = KindRole \<or> p_kind (vf_Principal v) = KindFederated then None
      else (case lookup (vf_AccessKeyID v) of
              None \<Rightarrow> None
            | Some ak \<Rightarrow> if ak_RoleARN ak \<noteq> [] \<or> ak_FederatedUser ak \<noteq> [] then None else Some ak))"

definition getSessionTokenSessionBlocksIAM :: "(string \<Rightarrow> AccessKey option) \<Rightarrow> Verified \<Rightarrow> bool" where
  "getSessionTokenSessionBlocksIAM lookup v \<longleftrightarrow>
     (case lookupGetSessionTokenSession lookup v of None \<Rightarrow> False | Some ak \<Rightarrow> \<not> ak_MFAAuthenticated ak)"

definition getSessionTokenSessionBlocksSTS :: "(string \<Rightarrow> AccessKey option) \<Rightarrow> Verified \<Rightarrow> string \<Rightarrow> bool" where
  "getSessionTokenSessionBlocksSTS lookup v action \<longleftrightarrow>
     (if lookupGetSessionTokenSession lookup v = None then False
      else action \<notin> set [''sts:AssumeRole'', ''AssumeRole'', ''sts:GetCallerIdentity'', ''GetCallerIdentity''])"

text \<open>Whether the MFA code is good; \<open>None\<close> when no code was given.\<close>

definition mfa_check :: "unseal \<Rightarrow> mfa_row list \<Rightarrow> server \<Rightarrow> Verified \<Rightarrow> form \<Rightarrow> (sts_error, bool) result" where
  "mfa_check unseal devices s v f =
     (let serial = f ''SerialNumber''; tokenCode = f ''TokenCode''
      in if serial = [] \<and> tokenCode = [] then Inr False
         else if serial = [] \<or> tokenCode = [] then Inl ValidationError
         else (case GetMFADevice unseal devices (vf_AccountID v) serial of
                 None \<Rightarrow> Inl AccessDenied
               | Some dev \<Rightarrow>
                   let callerUser = p_UserName (vf_Principal v)
                   in if \<not> md_Enabled dev then Inl AccessDenied
                      else if \<not> IsRoot (vf_Principal v) \<and> (callerUser = [] \<or> callerUser \<noteq> md_UserName dev) then Inl AccessDenied
                      else if \<not> ValidateLabTokenCode (md_Seed dev) tokenCode (sv_now s) 1 then Inl AccessDenied
                      else Inr True))"

definition user_opts :: "server \<Rightarrow> Verified \<Rightarrow> bool \<Rightarrow> instant \<Rightarrow> MintTempOpts" where
  "user_opts s v mfa expires =
     no_opts\<lparr>mo_AccountID := vf_AccountID v, mo_SessionName := ''session'', mo_UserName := p_UserName (vf_Principal v),
             mo_Expires := expires, mo_IsRoot := IsRoot (vf_Principal v), mo_MFAAuthenticated := mfa,
             mo_MFAAuthenticatedAt := (if mfa then sv_now s else zero_time)\<rparr>"

definition GetSessionToken ::
  "(string \<Rightarrow> string) \<Rightarrow> unseal \<Rightarrow> mfa_row list \<Rightarrow> minted \<Rightarrow> instant \<Rightarrow> server \<Rightarrow> Verified \<Rightarrow> form \<Rightarrow> issue"
where
  "GetSessionToken seal unseal devices m wall s v f =
     (if vf_SessionToken v \<noteq> [] \<or> p_kind (vf_Principal v) = KindRole \<or> p_kind (vf_Principal v) = KindFederated
      then Inl AccessDenied
      else (case mfa_check unseal devices s v f of
              Inl e \<Rightarrow> Inl e
            | Inr mfa \<Rightarrow> issue_key seal m s (user_opts s v mfa (wall + 3600 * ns_sec))))"

section \<open>Federation tokens\<close>

definition federation_policy :: "server \<Rightarrow> form \<Rightarrow> (sts_error, string) result" where
  "federation_policy s f =
     (let policy = (if f ''Policy'' = [] then f ''PolicyArns.member.1.arn'' else f ''Policy'')
      in if policy = [] then Inr []
         else if HasPrefix policy ''arn:'' then
           (case GetManagedPolicy (sv_iam s) policy of Inl _ \<Rightarrow> Inl NoSuchEntity | Inr p \<Rightarrow> Inr (mp_document p))
         else Inr (unescaped policy))"

definition federation_opts :: "Verified \<Rightarrow> string \<Rightarrow> string \<Rightarrow> instant \<Rightarrow> MintTempOpts" where
  "federation_opts v name policy expires =
     no_opts\<lparr>mo_AccountID := vf_AccountID v, mo_SessionName := name, mo_UserName := p_UserName (vf_Principal v),
             mo_FederatedUser := name, mo_SessionPolicy := policy, mo_Expires := expires,
             mo_IsRoot := IsRoot (vf_Principal v)\<rparr>"

definition GetFederationToken ::
  "(string \<Rightarrow> string) \<Rightarrow> (string \<Rightarrow> AccessKey option) \<Rightarrow> minted \<Rightarrow> instant \<Rightarrow> server \<Rightarrow> Verified \<Rightarrow> form \<Rightarrow> issue option"
where
  "GetFederationToken seal lookup m wall s v f =
     (if getSessionTokenSessionBlocksSTS lookup v ''sts:GetFederationToken'' then Some (Inl AccessDenied)
      else if f ''Name'' = [] then Some (Inl ValidationError)
      else do { ok \<leftarrow> authorize s v ''sts:GetFederationToken'' ''*'';
                Some (if \<not> ok then Inl AccessDenied
                      else (case federation_policy s f of
                              Inl e \<Rightarrow> Inl e
                            | Inr policy \<Rightarrow>
                                issue_key seal m s (federation_opts v (f ''Name'') policy (wall + 3600 * ns_sec)))) })"

section \<open>AssumeRoot\<close>

definition root_opts :: "string \<Rightarrow> instant \<Rightarrow> MintTempOpts" where
  "root_opts target expires =
     no_opts\<lparr>mo_AccountID := target, mo_SessionName := ''AssumeRoot'', mo_Expires := expires, mo_IsRoot := True\<rparr>"

definition AssumeRoot ::
  "(string \<Rightarrow> string) \<Rightarrow> (string \<Rightarrow> AccessKey option) \<Rightarrow> minted \<Rightarrow> instant \<Rightarrow> server \<Rightarrow> Verified \<Rightarrow> form \<Rightarrow> issue option"
where
  "AssumeRoot seal lookup m wall s v f =
     (let target = (if f ''TargetAccount'' = [] then f ''TargetPrincipal'' else f ''TargetAccount'')
      in if getSessionTokenSessionBlocksSTS lookup v ''sts:AssumeRoot'' then Some (Inl AccessDenied)
         else if \<not> IsManagementAccount (vf_AccountID v) then Some (Inl AccessDenied)
         else if \<not> IsRoot (vf_Principal v) \<or> \<not> IsOrgMemberAccount (sv_org s) (vf_AccountID v) target then Some (Inl AccessDenied)
         else do { ok \<leftarrow> authorize s v ''sts:AssumeRoot'' ''*'';
                   Some (if \<not> ok then Inl AccessDenied
                         else issue_key seal m s (root_opts target (wall + 3600 * ns_sec))) })"

end
