(* ===== verification/Server_Auth_Props.thy ===== *)
theory Server_Auth_Props
  imports Server_Auth Authz_Props Orgs_Props
begin

text \<open>
  What the decisions of the server rest on: the control policies above the account, the session policy, the
  documents that cannot be read, and which condition keys the tags of a resource may set.
\<close>

section \<open>The parts of a decision\<close>

lemma authorize_True:
  "authorize s v action resource = Some True \<longleftrightarrow>
     (\<exists>inp. evalInputs s v = Some inp \<and> EvaluateFull (requestContext s v action resource) inp = Some Allow)"
  by (auto simp: authorize_def split: option.splits)

lemma OrgFiltersDeny_False:
  "OrgFiltersDeny ctx inp = Some False \<longleftrightarrow>
     (in_RCPDocs inp = [] \<or> orgFilterAllows ctx (in_RCPDocs inp) = Some True) \<and>
     (in_IsManagementAccount inp \<or> in_SCPDocs inp = [] \<or> orgFilterAllows ctx (in_SCPDocs inp) = Some True)"
  by (auto simp: OrgFiltersDeny_def split: Option.bind_splits if_splits)

lemma session_allows_True:
  "session_allows ctx inp = Some True \<longleftrightarrow> in_SessionDocs inp = [] \<or> Evaluate ctx (in_SessionDocs inp) = Some Allow"
  by (auto simp: session_allows_def)

lemma boundary_allows_True:
  "boundary_allows ctx inp = Some True \<longleftrightarrow> (has_boundary ctx inp \<longrightarrow> Evaluate ctx [in_BoundaryDoc inp] = Some Allow)"
  by (auto simp: boundary_allows_def has_boundary_def)

lemma authorizeDataplaneOR_True:
  "authorizeDataplaneOR s v action resource acct ev = Some True \<longleftrightarrow>
     (\<exists>inp d. evalInputs s v = Some inp \<and>
        OrgFiltersDeny (requestContext s v action resource) inp = Some False \<and>
        ev (requestContext s v action resource) (identity_docs inp) acct = Some Allow \<and>
        SessionOrBoundaryExplicitDeny (requestContext s v action resource) inp = Some False \<and>
        session_allows (requestContext s v action resource) inp = Some True \<and>
        Evaluate (requestContext s v action resource) (identity_docs inp) = Some d \<and>
        (d = Allow \<longrightarrow> boundary_allows (requestContext s v action resource) inp = Some True))"
  by (auto simp: authorizeDataplaneOR_def Let_def split: option.splits Option.bind_splits if_splits)

lemma authorizeDataplaneKMS_True:
  "authorizeDataplaneKMS s v action resource key grant enc = Some True \<longleftrightarrow>
     (\<exists>inp ctx. evalInputs s v = Some inp \<and>
        ctx = (requestContext s v action resource)\<lparr>rc_ConditionKeys :=
                mergeEncryptionContextKeys enc (rc_ConditionKeys (requestContext s v action resource))\<rparr> \<and>
        OrgFiltersDeny ctx inp = Some False \<and>
        EvaluateKMS \<lparr>kms_Caller = ctx, kms_IdentityDocs = identity_docs inp, kms_KeyPolicyDoc = key,
                     kms_GrantSatisfied = grant\<rparr> = Some Allow \<and>
        boundary_allows ctx inp = Some True \<and> session_allows ctx inp = Some True)"
  by (auto simp: authorizeDataplaneKMS_def Let_def split: option.splits Option.bind_splits if_splits)

lemma evalInputs_Some:
  "evalInputs s v = Some inp \<longleftrightarrow>
     (\<exists>docs boundary scp rcp. caller_docs s v = Inr docs \<and> boundary_doc s v = Inr boundary \<and>
        OrgFilterDocsForAccount (sv_org s) (vf_AccountID v) = Inr (scp, rcp) \<and>
        inp = \<lparr>in_IdentityDocs = docs, in_BoundaryDoc = null_text boundary, in_SessionDocs = session_docs v,
               in_SCPDocs = scp, in_RCPDocs = rcp, in_IsManagementAccount = IsManagementAccount (vf_AccountID v)\<rparr>)"
  by (auto simp: evalInputs_def split: sum.splits)

lemma org_filters_pass:
  assumes "OrgFiltersDeny ctx inp = Some False \<or> EvaluateFull ctx inp = Some Allow"
  shows "d \<in> set (in_RCPDocs inp) \<Longrightarrow> evaluatePolicies ctx [d] = Some Allow"
    and "d \<in> set (in_SCPDocs inp) \<Longrightarrow> \<not> in_IsManagementAccount inp \<Longrightarrow> evaluatePolicies ctx [d] = Some Allow"
  using assms by (auto simp: OrgFiltersDeny_False EvaluateFull_chain orgFilterAllows_True)

lemma org_docs_inputs:
  assumes "evalInputs s v = Some inp"
  shows "set (in_SCPDocs inp) = op_document ` {p \<in> set (o_policies (sv_org s)). op_type p = ''SCP'' \<and>
           attached_above (sv_org s) (vf_AccountID v) (op_id p)}"
    and "set (in_RCPDocs inp) = op_document ` {p \<in> set (o_policies (sv_org s)). op_type p = ''RCP'' \<and>
           attached_above (sv_org s) (vf_AccountID v) (op_id p)}"
  using assms org_docs_set
  by (auto simp: evalInputs_Some OrgFilterDocsForAccount_def split: sum.splits)

section \<open>Control policies\<close>

definition binding_policy :: "org \<Rightarrow> string \<Rightarrow> OrgPolicy \<Rightarrow> bool" where
  "binding_policy s account p \<longleftrightarrow>
     p \<in> set (o_policies s) \<and> attached_above s account (op_id p) \<and>
     (op_type p = ''RCP'' \<or> op_type p = ''SCP'' \<and> \<not> IsManagementAccount account)"

lemma binding_policy_allows:
  assumes "binding_policy (sv_org s) (vf_AccountID v) p" "evalInputs s v = Some inp"
    and "OrgFiltersDeny ctx inp = Some False \<or> EvaluateFull ctx inp = Some Allow"
  shows "evaluatePolicies ctx [op_document p] = Some Allow"
proof -
  have m: "in_IsManagementAccount inp = IsManagementAccount (vf_AccountID v)"
    using assms(2) by (auto simp: evalInputs_Some)
  show ?thesis
    using assms(1) org_filters_pass [OF assms(3), of "op_document p"] m
    unfolding org_docs_inputs [OF assms(2)] binding_policy_def by auto
qed


section \<open>Documents that cannot be read\<close>

definition unreadable :: "server \<Rightarrow> Verified \<Rightarrow> bool" where
  "unreadable s v \<longleftrightarrow>
     (\<exists>e. PermissionsBoundaryDoc (sv_iam s) (vf_AccountID v)
            (if p_kind (vf_Principal v) = KindRole then ''role'' else ''user'')
            (if p_kind (vf_Principal v) = KindRole then RoleName (vf_Principal v) else boundary_user v) = Inl e \<and>
          (if p_kind (vf_Principal v) = KindRole then RoleName (vf_Principal v) else boundary_user v) \<noteq> []) \<or>
     (\<exists>e. caller_docs s v = Inl e) \<or> (\<exists>e. OUPathToRoot (sv_org s) (vf_AccountID v) = Inl e)"

lemma unreadable_inputs: "unreadable s v \<Longrightarrow> evalInputs s v = None"
  by (auto simp: unreadable_def evalInputs_def boundary_doc_def role_boundary_def boundary_user_def federated_session_def
      OrgFilterDocsForAccount_def split: sum.splits option.splits if_splits)

text \<open>C12. What cannot be read denies: a boundary whose policy was deleted, a user whose row is gone, or a place in the
  organization that leads nowhere refuse every request of the principal at every gate.\<close>
theorem unreadable_denies:
  assumes "unreadable s v"
  shows "authorize s v action resource = Some False \<and>
         authorizeDataplaneOR s v action resource acct ev = Some False \<and>
         authorizeDataplaneKMS s v action resource key grant enc = Some False \<and>
         authorizeOrgs s v action resource = Some (Some NotAuthorized)"
  using unreadable_inputs [OF assms]
  by (simp add: authorize_def authorizeDataplaneOR_def authorizeDataplaneKMS_def authorizeOrgs_def)

section \<open>Session policies\<close>


section \<open>Condition keys\<close>

lemma set_key_other: "k \<noteq> k' \<Longrightarrow> set_key k' v keys k = keys k"
  by (simp add: set_key_def split: option.splits)

lemma set_key_domD: "k \<in> dom (set_key k' v keys) \<Longrightarrow> k = k' \<or> k \<in> dom keys"
  by (auto simp: set_key_def split: option.splits if_splits)

lemma fold_fun_same: "(\<And>x m. x \<in> set xs \<Longrightarrow> f x m k = m k) \<Longrightarrow> fold f xs m k = m k"
  by (induction xs arbitrary: m) simp_all

lemma tag_keys_other:
  "\<not> prefix ''aws:ResourceTag/'' k \<Longrightarrow> p = [] \<or> \<not> prefix p k \<Longrightarrow> tag_keys p t keys k = keys k"
  by (auto simp: tag_keys_def Let_def only_if_def set_key_def split: if_splits)

lemma merged_tags_other:
  assumes "\<not> prefix ''aws:ResourceTag/'' k" "svc = serviceResourceTagKeyPrefix (TrimSpace resource)" "svc = [] \<or> \<not> prefix svc k"
  shows "mergeResourceTagConditionKeys s account resource keys k = keys k"
  using assms fold_fun_same [of _ "tag_keys svc" k keys] tag_keys_other [of k svc]
  by (simp add: mergeResourceTagConditionKeys_def Let_def)

text \<open>C13. The keys of a request: those that describe the caller, the connection and the time are among twelve names, and
  the tags of the resource, which others may write, add keys under \<open>aws:ResourceTag/\<close> and the like of the service
  only: they neither forge nor hide any other key.\<close>
theorem request_keys:
  assumes "\<not> prefix ''aws:ResourceTag/'' k"
    and "serviceResourceTagKeyPrefix (TrimSpace resource) = [] \<or> \<not> prefix (serviceResourceTagKeyPrefix (TrimSpace resource)) k"
  shows "rc_ConditionKeys (requestContext s v action resource) k = conditionKeys s v k \<and>
    (k \<in> dom (conditionKeys s v) \<longrightarrow>
     k \<in> {''aws:PrincipalAccount'', ''aws:RequestedRegion'', ''aws:CurrentTime'', ''aws:EpochTime'', ''aws:SecureTransport'',
          ''aws:PrincipalType'', ''aws:PrincipalArn'', ''aws:username'', ''aws:userid'', ''aws:SourceIp'',
          ''aws:MultiFactorAuthPresent'', ''aws:MultiFactorAuthAge''})" (is "_ \<and> (_ \<longrightarrow> _ \<in> ?names)")
proof
  show "rc_ConditionKeys (requestContext s v action resource) k = conditionKeys s v k"
    using merged_tags_other [OF assms(1) refl assms(2)] by (simp add: requestContext_def)
  show "k \<in> dom (conditionKeys s v) \<longrightarrow> k \<in> ?names"
    unfolding conditionKeys_def Let_def comp_def by (rule impI) ((drule set_key_domD, erule disjE, simp)+, auto)
qed

section \<open>Tags of buckets\<close>

lemma bucket_arn:
  "resourceAccountIDFromARN (''arn:aws:s3:::'' @ b) = []" if "TrimSpace (''arn:aws:s3:::'' @ b) = ''arn:aws:s3:::'' @ b"
  using that by (simp add: resourceAccountIDFromARN_def Let_def)

lemma bucket_prefix: "serviceResourceTagKeyPrefix (''arn:aws:s3:::'' @ b) = []"
  by (simp add: serviceResourceTagKeyPrefix_def Let_def)

lemma bucket_belongs: "resourceARNBelongsToAccount (''arn:aws:s3:::'' @ b) account"
  by (simp add: resourceARNBelongsToAccount_def Let_def eval_nat_numeral HasPrefix_def)

lemma fold_tag_keys:
  assumes "(\<exists>t\<in>set ts. rt_Key t = k) \<or> keys (''aws:ResourceTag/'' @ k) = Some val"
    and "\<forall>t\<in>set ts. TrimSpace (rt_Key t) = rt_Key t \<and> (rt_Key t = k \<longrightarrow> rt_Value t = val)" "k \<noteq> []"
  shows "fold (tag_keys []) ts keys (''aws:ResourceTag/'' @ k) = Some val"
  using assms
proof (induction ts arbitrary: keys)
  case (Cons t ts)
  have "tag_keys [] t keys (''aws:ResourceTag/'' @ k) = (if rt_Key t = k then Some (rt_Value t) else keys (''aws:ResourceTag/'' @ k))"
    using Cons.prems(2,3) by (simp add: tag_keys_def Let_def only_if_def set_key_def)
  then have "(\<exists>t\<in>set ts. rt_Key t = k) \<or> tag_keys [] t keys (''aws:ResourceTag/'' @ k) = Some val"
    using Cons.prems(1,2) by (metis set_ConsD list.set_intros(1))
  then show ?case using Cons.IH [of "tag_keys [] t keys"] Cons.prems(2,3) by simp
qed simp

lemma set_tag_value:
  assumes "TrimSpace k = k" "k \<noteq> []" "r \<in> set (set_tag account arn (k, val) rows)" "tag_id r = (account, arn, k)"
  shows "tg_value r = val"
proof (cases "(account, arn, k) \<in> tag_id ` set rows")
  case True
  then have "r \<in> (\<lambda>r. if tag_id r = (account, arn, k) then r\<lparr>tg_value := val\<rparr> else r) ` set rows"
    using assms(1-3) by (simp add: set_tag_def Let_def sql_upsert_def tag_id_def)
  then obtain r0 where r0: "r = (if tag_id r0 = (account, arn, k) then r0\<lparr>tg_value := val\<rparr> else r0)" by blast
  show ?thesis using assms(4) by (cases "tag_id r0 = (account, arn, k)") (simp_all add: r0)
next
  case False
  then have "r \<in> set rows \<or> tg_value r = val"
    using assms(1-3) by (auto simp: set_tag_def Let_def sql_upsert_def tag_id_def)
  then show ?thesis using False assms(4) by (auto intro: rev_image_eqI)
qed

lemma set_tag_present:
  assumes "TrimSpace k = k" "k \<noteq> []"
  shows "\<exists>r\<in>set (set_tag account arn (k, val) rows). tag_id r = (account, arn, k)"
proof (cases "(account, arn, k) \<in> tag_id ` set rows")
  case True
  then obtain r where r: "r \<in> set rows" "tag_id r = (account, arn, k)" by auto
  then have "r\<lparr>tg_value := val\<rparr> \<in> set (set_tag account arn (k, val) rows)"
    using True assms by (auto simp: set_tag_def Let_def sql_upsert_def tag_id_def intro!: image_eqI [of _ _ r])
  moreover have "tag_id (r\<lparr>tg_value := val\<rparr>) = (account, arn, k)" using r(2) by (simp add: tag_id_def)
  ultimately show ?thesis ..
next
  case False
  then show ?thesis using assms by (auto simp: set_tag_def Let_def sql_upsert_def tag_id_def)
qed

lemma set_tag_trimmed:
  "\<forall>r\<in>set rows. TrimSpace (tg_key r) = tg_key r \<Longrightarrow> TrimSpace (fst kv) = fst kv \<Longrightarrow>
   \<forall>r\<in>set (set_tag account arn kv rows). TrimSpace (tg_key r) = tg_key r"
  by (auto simp: set_tag_def Let_def sql_upsert_def)

text \<open>The tags that decide a request on a bucket are those the caller's own account put on the bucket's ARN, which
  carries no account: whoever tags a foreign bucket with \<open>k\<close> meets every condition on \<open>aws:ResourceTag/k\<close>, and
  the tags the owner sets have no effect on the request.\<close>
theorem caller_tags_decide:
  assumes "bucket = ''arn:aws:s3:::'' @ b" "TrimSpace bucket = bucket" "TrimSpace k = k" "k \<noteq> []" "vf_AccountID v \<noteq> []"
    and "\<forall>r\<in>set (sv_tags s). TrimSpace (tg_key r) = tg_key r"
    and "TagResources (sv_tags s) (vf_AccountID v) [bucket] [(k, val)] = Some (rows, failed)"
    and "owner \<noteq> vf_AccountID v" "TagResources rows owner [bucket] tags = Some (rows', failed')"
  shows "rc_ConditionKeys (requestContext (s\<lparr>sv_tags := rows'\<rparr>) v action bucket) (''aws:ResourceTag/'' @ k) = Some val \<and>
    rc_ConditionKeys (requestContext (s\<lparr>sv_tags := rows'\<rparr>) v action bucket) =
    rc_ConditionKeys (requestContext (s\<lparr>sv_tags := rows\<rparr>) v action bucket)"
proof -
  let ?a = "vf_AccountID v"
  have ne: "bucket \<noteq> []" "bucket \<noteq> ''*''" using assms(1) by simp_all
  have rows: "rows = set_tag ?a bucket (k, val) (sv_tags s)"
    using assms(2,7) ne bucket_belongs [of b ?a] assms(1)
    by (auto simp: TagResources_def tag_resource_def Let_def split: if_splits)
  have acct: "tag_account ?a bucket = ?a" using bucket_arn assms(1,2) by (simp add: tag_account_def)
  have keys: "rc_ConditionKeys (requestContext (s\<lparr>sv_tags := rs\<rparr>) v action bucket) =
      fold (tag_keys []) (ListResourceTags rs ?a bucket) (conditionKeys s v)" for rs
    using ne acct assms(1,2,5) bucket_prefix [of b]
    by (simp add: requestContext_def mergeResourceTagConditionKeys_def Let_def conditionKeys_def secureTransportValue_def user_id_key_def)
  have same: "ListResourceTags rows' ?a bucket = ListResourceTags rows ?a bucket"
    using TagResources_others [OF assms(8) [symmetric] assms(9)] by (rule ListResourceTags_cong)
  have members: "set (ListResourceTags rows ?a bucket) = tag_of ` {r \<in> set rows. tg_account r = ?a \<and> tg_arn r = bucket}"
    using ne assms(2,5) by (simp add: ListResourceTags_def Let_def)
  have present: "\<exists>t\<in>set (ListResourceTags rows ?a bucket). rt_Key t = k"
  proof -
    obtain r where "r \<in> set rows" "tag_id r = (?a, bucket, k)"
      using set_tag_present [OF assms(3,4), of ?a bucket val "sv_tags s"] rows by auto
    then have "tag_of r \<in> set (ListResourceTags rows ?a bucket)" "rt_Key (tag_of r) = k"
      unfolding members by (auto simp: tag_id_def tag_of_def)
    then show ?thesis ..
  qed
  have valued: "rt_Value t = val" if t: "t \<in> set (ListResourceTags rows ?a bucket)" "rt_Key t = k" for t
  proof -
    from t(1) obtain r where r: "r \<in> set rows" "tg_account r = ?a" "tg_arn r = bucket" "t = tag_of r"
      unfolding members by blast
    then have "tag_id r = (?a, bucket, k)" using t(2) by (simp add: tag_id_def tag_of_def)
    then show ?thesis using set_tag_value [OF assms(3,4)] r(1,4) rows by (simp add: tag_of_def)
  qed
  have trimmed: "TrimSpace (rt_Key t) = rt_Key t" if t: "t \<in> set (ListResourceTags rows ?a bucket)" for t
  proof -
    from t obtain r where "r \<in> set rows" "t = tag_of r" unfolding members by blast
    then show ?thesis using set_tag_trimmed [OF assms(6), of "(k, val)" ?a bucket] assms(3) rows by (simp add: tag_of_def)
  qed
  show ?thesis
    unfolding keys same using fold_tag_keys [OF disjI1 [OF present]] valued trimmed assms(4) by blast
qed

end
