(* ===== verification/Time_Text.thy ===== *)
theory Time_Text
  imports Calendar
begin

text \<open>
  What is printed in the RFC 3339 form, the form times are stored in, is read back to the second.
\<close>

lemma digits_n_add:
  "digits_n (m + k) s acc = Option.bind (digits_n m s acc) (\<lambda>(v, r). digits_n k r v)"
  by (induction m s acc rule: digits_n.induct) auto

lemma is_digit_digit_char: "d < 10 \<Longrightarrow> is_digit (digit_char d)"
  by (simp add: is_digit_char)

lemma digits_n_pad:
  "n < 10 ^ Suc w \<Longrightarrow> digits_n (Suc w) (pad_nat (Suc w) n @ r) acc = Some (acc * 10 ^ Suc w + int n, r)"
proof (induction w arbitrary: n r)
  case 0
  then show ?case by (simp add: pad_nat_def nat_digits.simps [of n] is_digit_digit_char)
next
  case (Suc w)
  have n: "n div 10 < 10 ^ Suc w" using Suc.prems by auto
  have "digits_n (Suc (Suc w)) (pad_nat (Suc (Suc w)) n @ r) acc =
      Option.bind (digits_n (Suc w) (pad_nat (Suc w) (n div 10) @ digit_char (n mod 10) # r) acc) (\<lambda>(v, r). digits_n 1 r v)"
    using digits_n_add [of "Suc w" 1] by (simp add: pad_nat_Suc)
  also have "\<dots> = Some ((acc * 10 ^ Suc w + int (n div 10)) * 10 + int (n mod 10), r)"
    unfolding Suc.IH [OF n] by (simp add: is_digit_digit_char)
  also have "(acc * 10 ^ Suc w + int (n div 10)) * 10 + int (n mod 10) = acc * 10 ^ Suc (Suc w) + int n"
    by (simp add: algebra_simps zdiv_int zmod_int)
  finally show ?case .
qed

lemma digits_four: "n < 10000 \<Longrightarrow> digits_n 4 (pad_nat 4 n @ r) 0 = Some (int n, r)"
  using digits_n_pad [of n 3 r 0] by simp

lemma digits_two: "n < 100 \<Longrightarrow> digits_n 2 (pad_nat 2 n @ r) 0 = Some (int n, r)"
  using digits_n_pad [of n 1 r 0] unfolding Suc_1 by simp

lemma pad_two_chars:
  assumes "n < 100"
  shows "pad_nat 2 n = [digit_char (n div 10), digit_char (n mod 10)]"
proof -
  have "pad_nat 2 n = pad_nat 1 (n div 10) @ [digit_char (n mod 10)]"
    using pad_nat_Suc [of 1 n] by (simp add: numeral_2_eq_2)
  moreover have "pad_nat 1 (n div 10) = [digit_char (n div 10)]"
    using assms by (simp add: pad_nat_def nat_digits.simps [of "n div 10"])
  ultimately show ?thesis by simp
qed

lemma one_or_two_pad: "n < 100 \<Longrightarrow> one_or_two (pad_nat 2 n @ r) = Some (int n, r)"
  using digits_two [of n r] by (simp add: one_or_two_def pad_two_chars is_digit_digit_char)

lemma literal_here: "literal lit (lit @ s) = Some s"
  by (simp add: literal_def)

lemma Date_of_fields:
  "Date (Year t) (Month t) (Day t) (Hour t) (Minute t) (Second t) 0 = t - t mod ns_sec"
proof -
  have "Date (Year t) (Month t) (Day t) (Hour t) (Minute t) (Second t) 0 =
      (days_of_civil (Year t) (Month t) 1 + (Day t - 1)) * ns_day + Hour t * ns_hour + Minute t * ns_min + Second t * ns_sec"
    using Month_Day_range(1,2) [of t] by (simp add: Date_def)
  also have "\<dots> = (day_number t * 86400 + Hour t * 3600 + Minute t * 60 + Second t) * ns_sec"
    using days_of_civil_shift [of "Year t" "Month t" "Day t"] days_of_fields [of t] by (simp add: time_simps algebra_simps)
  also have "\<dots> = t - t mod ns_sec"
    unfolding seconds_of_fields [symmetric] by (simp add: minus_mod_eq_div_mult)
  finally show ?thesis .
qed

theorem parse_format_RFC3339:
  assumes "rfc_range t"
  shows "parse_RFC3339 (format_RFC3339 t) = Some (t - t mod ns_sec)"
proof -
  note y = rfc_range_Year [OF assms]
  note md = Month_Day_range [of t]
  have nats: "nat (Year t) < 10000" "nat (Month t) < 100" "nat (Day t) < 100" "nat (Hour t) < 100" "nat (Minute t) < 100"
    "nat (Second t) < 100"
    using y md Hour_range [of t] Minute_range [of t] Second_range [of t] by linarith+
  have lits: "literal ''-'' (CHR ''-'' # s) = Some s" "literal ''T'' (CHR ''T'' # s) = Some s" "literal '':'' (CHR '':'' # s) = Some s" for s
    by (simp_all add: literal_def)
  have tail: "fraction ''Z'' = (0, ''Z'')" "zone_tail ZoneOffset ''Z'' = Some (0, [])"
    by (simp_all add: fraction_def zone_tail_def)
  have "parse_RFC3339 (format_RFC3339 t) = Some (Date (Year t) (Month t) (Day t) (Hour t) (Minute t) (Second t) 0)"
    unfolding parse_RFC3339_def format_RFC3339_def parse_time_def
    using nats y md Hour_range [of t] Minute_range [of t] Second_range [of t]
    by (simp add: digits_four digits_two one_or_two_pad lits tail)
  then show ?thesis by (simp add: Date_of_fields)
qed

end
