(* ===== verification/Sts_Props.thy ===== *)
theory Sts_Props
  imports Sts Server_Auth_Props Time_Text
begin

text \<open>
  What a temporary credential is worth: whom it authenticates, for how long, and what limits it, from the
  operation that mints it through \<open>Verify\<close> to the decisions of the server.
\<close>

section \<open>A minted key and its record\<close>

definition sealing :: "(string \<Rightarrow> string) \<Rightarrow> unseal \<Rightarrow> bool" where
  "sealing seal unseal \<longleftrightarrow> (\<forall>x. seal x \<noteq> [] \<and> unseal (seal x) = Some x)"

abbreviation key_record :: "unseal \<Rightarrow> server \<Rightarrow> string \<Rightarrow> AccessKey option" where
  "key_record unseal s k \<equiv> loadAccessKeyRecordUncached unseal (i_keys (sv_iam s)) k"

abbreviation key_lookup :: "unseal \<Rightarrow> server \<Rightarrow> KeyLookup" where
  "key_lookup unseal s k \<equiv> map_option resolved_key (key_record unseal s k)"

definition session_record :: "minted \<Rightarrow> MintTempOpts \<Rightarrow> AccessKey" where
  "session_record m opts =
     \<lparr>ak_AccessKeyID = mt_AccessKeyID m, ak_AccountID = mo_AccountID opts, ak_Secret = mt_Secret m,
      ak_IsRoot = mo_IsRoot opts, ak_UserName = mo_UserName opts, ak_Status = ''Active'',
      ak_SessionToken = mt_SessionToken m, ak_RoleARN = mo_RoleARN opts, ak_SessionName = mo_SessionName opts,
      ak_FederatedUser = mo_FederatedUser opts, ak_SessionPolicy = mo_SessionPolicy opts,
      ak_ExpiresAt = mo_Expires opts - mo_Expires opts mod ns_sec,
      ak_MFAAuthenticated = mo_MFAAuthenticated opts,
      ak_MFAAuthenticatedAt =
        (if mo_MFAAuthenticated opts
         then (let t = (if mo_MFAAuthenticatedAt opts = zero_time then mo_Expires opts else mo_MFAAuthenticatedAt opts)
               in t - t mod ns_sec)
         else zero_time)\<rparr>"

lemma null_text_nullIfEmpty [simp]: "null_text (nullIfEmpty x) = x" "null_text (Some x) = x" "null_text None = []"
  by (simp_all add: null_text_def nullIfEmpty_def)

lemma issue_key_Inr:
  assumes "issue_key seal m s opts = Inr (c, s')"
  shows "c = \<lparr>cr_AccessKeyID = mt_AccessKeyID m, cr_Secret = mt_Secret m, cr_SessionToken = mt_SessionToken m,
              cr_Expiration = mo_Expires opts\<rparr>"
    and "mt_AccessKeyID m \<notin> kr_id ` set (i_keys (sv_iam s))"
    and "s' = s\<lparr>sv_iam := (sv_iam s)\<lparr>i_keys := i_keys (sv_iam s) @
           [temp_key_row seal (mt_AccessKeyID m) (opts\<lparr>mo_Secret := mt_Secret m, mo_SessionToken := mt_SessionToken m\<rparr>)]\<rparr>\<rparr>"
  using assms
  by (auto simp: issue_key_def Let_def ok_or_Inr MintTempCredentialsOpts_def sql_insert_def temp_key_row_def split: if_splits)

lemma find_append_new: "\<forall>r\<in>set rows. \<not> P r \<Longrightarrow> P x \<Longrightarrow> List.find P (rows @ [x]) = Some x"
  by (induction rows) auto

lemma minted_key_loads:
  assumes "issue_key seal m s opts = Inr (c, s')" "sealing seal unseal" "rfc_range (mo_Expires opts)"
    and "rfc_range (mo_MFAAuthenticatedAt opts) \<or> \<not> mo_MFAAuthenticated opts"
  shows "key_record unseal s' (mt_AccessKeyID m) = Some (session_record m opts)"
proof -
  let ?row = "temp_key_row seal (mt_AccessKeyID m) (opts\<lparr>mo_Secret := mt_Secret m, mo_SessionToken := mt_SessionToken m\<rparr>)"
  have keys: "i_keys (sv_iam s') = i_keys (sv_iam s) @ [?row]" using issue_key_Inr(3) [OF assms(1)] by simp
  have "List.find (\<lambda>r. kr_id r = mt_AccessKeyID m) (i_keys (sv_iam s')) = Some ?row"
    unfolding keys using issue_key_Inr(2) [OF assms(1)] by (intro find_append_new) (auto simp: temp_key_row_def image_iff)
  moreover have "record_of unseal ?row = Some (session_record m opts)"
  proof -
    have u: "unseal (seal x) = Some x" "seal x \<noteq> []" for x using assms(2) by (simp_all add: sealing_def)
    have e: "time_column (Some (format_RFC3339 t)) = Some (t - t mod ns_sec)" if "rfc_range t" for t
      using parse_format_RFC3339 [OF that] by (simp add: time_column_def)
    have z: "\<not> rfc_range zero_time" by (simp add: rfc_range_def zero_time_def ns_sec_def)
    have n: "time_column None = Some zero_time" by (simp add: time_column_def)
    show ?thesis
      using assms(3,4) z
      by (auto simp: record_of_def temp_key_row_def session_record_def Let_def u e n)
  qed
  ultimately show ?thesis by (simp add: loadAccessKeyRecordUncached_def)
qed

lemma Verify_Inr:
  assumes "Verify (Some r) body now skew (Some lookup) = Inr w"
  obtains cred where "lookup (vf_AccessKeyID w) = Some cred" "vf_Principal w = key_principal cred (vf_AccessKeyID w)"
    "vf_AccountID w = rk_AccountID cred" "vf_SessionPolicy w = rk_SessionPolicy cred" "vf_SessionToken w = rk_SessionToken cred"
    "vf_UserName w = rk_UserName cred" "vf_FederatedUser w = rk_FederatedUser cred" "vf_IsRoot w = rk_IsRoot cred"
    "rk_ExpiresAt cred = zero_time \<or> now \<le> rk_ExpiresAt cred"
proof -
  obtain mat cred where "w = verified_of mat cred" "lookup (am_accessKeyID mat) = Some cred"
    "rk_ExpiresAt cred = zero_time \<or> now \<le> rk_ExpiresAt cred"
    using assms by (force simp: Verify_def verify_request_def verify_credentials_def split: sum.splits option.splits if_splits)
  then show ?thesis by (intro that) (simp_all add: verified_of_def)
qed

text \<open>A request under a minted key is accepted only as the session it was minted for and until it expires.\<close>

lemma minted_session:
  assumes "issue_key seal m s opts = Inr (c, s')" "sealing seal unseal" "rfc_range (mo_Expires opts)"
    and "rfc_range (mo_MFAAuthenticatedAt opts) \<or> \<not> mo_MFAAuthenticated opts"
    and "Verify (Some r) body now skew (Some (key_lookup unseal s')) = Inr w" "vf_AccessKeyID w = cr_AccessKeyID c"
  shows "vf_Principal w = key_principal (resolved_key (session_record m opts)) (mt_AccessKeyID m) \<and>
    vf_AccountID w = mo_AccountID opts \<and> vf_SessionPolicy w = mo_SessionPolicy opts \<and> vf_UserName w = mo_UserName opts \<and>
    vf_FederatedUser w = mo_FederatedUser opts \<and> vf_IsRoot w = mo_IsRoot opts \<and> vf_SessionToken w = mt_SessionToken m \<and>
    now \<le> mo_Expires opts"
proof -
  have id: "vf_AccessKeyID w = mt_AccessKeyID m" using assms(6) issue_key_Inr(1) [OF assms(1)] by simp
  note load = minted_key_loads [OF assms(1-4)]
  have "0 \<le> mo_Expires opts - mo_Expires opts mod ns_sec"
    using assms(3) by (simp add: rfc_range_def minus_mod_eq_mult_div ns_sec_def pos_imp_zdiv_nonneg_iff)
  then have nz: "mo_Expires opts - mo_Expires opts mod ns_sec \<noteq> zero_time" by (simp add: zero_time_def ns_sec_def)
  have le: "mo_Expires opts - mo_Expires opts mod ns_sec \<le> mo_Expires opts" by (simp add: ns_sec_def)
  from assms(5) obtain cred where cred: "map_option resolved_key (key_record unseal s' (mt_AccessKeyID m)) = Some cred"
    "vf_Principal w = key_principal cred (vf_AccessKeyID w)"
    "vf_AccountID w = rk_AccountID cred" "vf_SessionPolicy w = rk_SessionPolicy cred" "vf_SessionToken w = rk_SessionToken cred"
    "vf_UserName w = rk_UserName cred" "vf_FederatedUser w = rk_FederatedUser cred" "vf_IsRoot w = rk_IsRoot cred"
    "rk_ExpiresAt cred = zero_time \<or> now \<le> rk_ExpiresAt cred"
    using Verify_Inr id by metis
  then have "cred = resolved_key (session_record m opts)" using load by simp
  then show ?thesis
    using cred(2-9) id nz by (auto simp: resolved_key_def session_record_def intro: order_trans [OF _ le])
qed

section \<open>Sessions of a role\<close>

definition plain_account :: "string \<Rightarrow> bool" where
  "plain_account account \<longleftrightarrow> CHR '':'' \<notin> set account \<and> CHR ''/'' \<notin> set account"

text \<open>The roles as \<open>CreateRoleOpts\<close> and \<open>CreateMemberAccount\<close> write them.\<close>

definition role_rows :: "iam \<Rightarrow> bool" where
  "role_rows s \<longleftrightarrow> (\<forall>r\<in>set (i_roles s). ro_arn r = RoleARN (ro_account r) (ro_name r) \<and> plain_account (ro_account r))"

lemma RoleARN_text: "RoleARN account name = ''arn:aws:iam::'' @ account @ '':role/'' @ name"
  by (simp add: RoleARN_def RoleARNWithPath_def iamResourceARN_def Let_def)

lemma index_of_skip: "p = c # cs \<Longrightarrow> c \<notin> set xs \<Longrightarrow> index_of p (xs @ p @ ys) = Some (length xs)"
proof (induction xs)
  case Nil
  then show ?case by (cases "p @ ys") auto
qed auto

lemma account_then_role:
  assumes "plain_account account"
  shows "\<not> prefix '':role/'' (CHR '':'' # account @ '':role/'' @ name)"
proof
  assume "prefix '':role/'' (CHR '':'' # account @ '':role/'' @ name)"
  then obtain zs where e: "account @ '':role/'' @ name = ''role/'' @ zs" by (auto simp: prefix_def)
  have nth: "(account @ '':role/'' @ name) ! i = ''role/'' ! i" if "i < 5" for i
    unfolding e nth_append using that by simp
  have "CHR '':'' \<in> set ''role/'' \<or> CHR ''/'' \<in> set account"
  proof (cases "length account < 5")
    case True
    then have "''role/'' ! length account = CHR '':''" using nth [OF True] by (simp add: nth_append)
    then show ?thesis using True nth_mem [of "length account" "''role/''"] by simp
  next
    case False
    then have "account ! 4 = CHR ''/''" "4 < length account" using nth [of 4] by (simp_all add: nth_append)
    then show ?thesis by (metis nth_mem)
  qed
  then show False using assms by (simp add: plain_account_def)
qed

lemma parse_role_name:
  assumes "plain_account account"
  shows "parseRoleNameFromARN (RoleARN account name) = Some (account, name)"
proof -
  have "index_of '':role/'' (account @ '':role/'' @ name) = Some (length account)"
    using assms by (intro index_of_skip) (auto simp: plain_account_def)
  then have i: "index_of '':role/'' (''arn:aws:iam::'' @ account @ '':role/'' @ name) = Some (13 + length account)"
    using account_then_role [OF assms, of name] by simp
  define pre mid where "pre = ''arn:aws:iam::''" and "mid = '':role/''"
  have l: "length pre = 13" "length mid = 6" by (simp_all add: pre_def mid_def)
  have "parseRoleNameFromARN (pre @ account @ mid @ name) = Some (account, name)"
    using i unfolding parseRoleNameFromARN_def pre_def [symmetric] mid_def [symmetric]
    by (simp add: HasPrefix_def l)
  then show ?thesis by (simp only: RoleARN_text pre_def mid_def)
qed

lemma assumed_role_Inr:
  assumes "assumed_role s f = Inr (account, roleName, arn, trust)"
  obtains r where "find_role (sv_iam s) account roleName = Some r" "ro_trust r = trust" "ro_arn r \<noteq> [] \<longrightarrow> arn = ro_arn r"
    "ParseRoleARN (f ''RoleArn'') = Some (account, roleName)"
  using assms
  by (auto simp: assumed_role_def GetRole_def GetRoleRecord_def ok_or_Inr split: if_splits sum.splits)

lemma AssumeRole_Inr:
  assumes "AssumeRole seal m wall s v f = Some (Inr (c, s'))"
  obtains account roleName arn trust policy secs where
    "assumed_role s f = Inr (account, roleName, arn, trust)" "may_assume s v f arn trust = Some True"
    "requested_policy s f = Inr policy"
    "session_seconds (max_allowed s v account roleName) (f ''DurationSeconds'') = Inr secs"
    "issue_key seal m s (role_opts account arn (f ''RoleSessionName'') policy (wall + secs * ns_sec)) = Inr (c, s')"
  using assms
  by (auto simp: AssumeRole_def split: sum.splits Option.bind_splits if_splits)

lemma may_assume_True:
  "may_assume s v f arn trust = Some True \<longleftrightarrow>
     authorize s v ''sts:AssumeRole'' arn = Some True \<and>
     (\<exists>docs. identityDocs s (vf_Principal v) = Inr docs \<and>
        EvaluateCrossAccount (trust_request s v f arn trust (case docs of None \<Rightarrow> [] | Some ds \<Rightarrow> ds)) = Some Allow)"
  by (auto simp: may_assume_def split: sum.splits Option.bind_splits if_splits)

lemma session_seconds_bounds:
  "session_seconds allowed t = Inr secs \<Longrightarrow> secs \<le> allowed \<and> (900 \<le> allowed \<longrightarrow> 900 \<le> secs)"
  by (auto simp: session_seconds_def Let_def split: if_splits option.splits)

lemma max_allowed_bounds:
  "max_allowed s v account roleName \<le> 43200 \<and> (isRoleChainingCaller v \<longrightarrow> max_allowed s v account roleName \<le> 3600)"
  "find_role (sv_iam s) account roleName = Some r \<Longrightarrow> 0 < ro_max r \<Longrightarrow> max_allowed s v account roleName \<le> ro_max r"
  by (auto simp: max_allowed_def GetRoleRecord_def Let_def split: sum.splits)

text \<open>C15. How long an assumed role lasts: at most the maximum of the role, twelve hours, and one hour when the caller is itself
  a temporary session, counted from the wall clock; at least 15 minutes where the role's maximum allows that.\<close>
theorem session_lifetime:
  assumes "AssumeRole seal m wall s v f = Some (Inr (c, s'))" "ParseRoleARN (f ''RoleArn'') = Some (account, roleName)"
    and "find_role (sv_iam s) account roleName = Some r" "900 \<le> ro_max r"
  shows "\<exists>secs. cr_Expiration c = wall + secs * ns_sec \<and> 900 \<le> secs \<and> secs \<le> ro_max r \<and> secs \<le> 43200 \<and>
    (isRoleChainingCaller v \<longrightarrow> secs \<le> 3600)"
proof -
  from AssumeRole_Inr [OF assms(1)] obtain account' roleName' arn trust policy secs where
    *: "assumed_role s f = Inr (account', roleName', arn, trust)"
      "session_seconds (max_allowed s v account' roleName') (f ''DurationSeconds'') = Inr secs"
      "issue_key seal m s (role_opts account' arn (f ''RoleSessionName'') policy (wall + secs * ns_sec)) = Inr (c, s')"
    by metis
  have same: "account' = account" "roleName' = roleName" using assumed_role_Inr [OF *(1)] assms(2) by auto
  have "900 \<le> max_allowed s v account roleName"
    using assms(3,4) by (simp add: max_allowed_def GetRoleRecord_def Let_def)
  moreover have "cr_Expiration c = wall + secs * ns_sec" using issue_key_Inr(1) [OF *(3)] by (simp add: role_opts_def)
  ultimately show ?thesis
    using session_seconds_bounds [OF *(2)] max_allowed_bounds(1) [of s v account roleName] max_allowed_bounds(2) [of s account roleName r v] assms(3,4) unfolding same by force
qed

lemma max_allowed_pos: "0 < max_allowed s v account roleName"
  by (auto simp: max_allowed_def Let_def split: sum.splits)

lemma session_seconds_pos: "session_seconds allowed t = Inr secs \<Longrightarrow> 0 < allowed \<Longrightarrow> 0 < secs"
  by (auto simp: session_seconds_def Let_def split: if_splits option.splits)

lemma authorize_session:
  assumes "authorize s w action resource = Some True" "vf_SessionPolicy w \<noteq> []"
  shows "evaluatePolicies (requestContext s w action resource) [vf_SessionPolicy w] = Some Allow"
proof -
  have "session_docs w = [vf_SessionPolicy w]" using assms(2) by (simp add: session_docs_def sessionPolicyDocs_def)
  then show ?thesis using assms(1) by (auto simp: authorize_True EvaluateFull_chain evalInputs_Some)
qed

lemma role_session_principal:
  assumes "plain_account account"
  shows "key_principal (resolved_key (session_record m (role_opts account (RoleARN account name) session policy t))) k =
    RoleSessionPrincipal account name session k"
  using parse_role_name [OF assms, of name]
  by (simp add: key_principal_def resolved_key_def session_record_def role_opts_def no_opts_def RoleARN_text)

definition within_calendar :: "instant \<Rightarrow> bool" where
  "within_calendar wall \<longleftrightarrow> rfc_range wall \<and> rfc_range (wall + 43200 * ns_sec)"

lemma within_calendar_secs: "within_calendar wall \<Longrightarrow> 0 \<le> secs \<Longrightarrow> secs \<le> 43200 \<Longrightarrow> rfc_range (wall + secs * ns_sec)"
  by (auto simp: within_calendar_def rfc_range_def ns_sec_def)

text \<open>C10. From the request for a role to the decisions under it: when \<open>AssumeRole\<close> hands out a key, the caller's policies and
  the role's trust policy allowed it; a request \<open>Verify\<close> accepts under that key carries the session token, comes before the
  expiry and has the session of that role as its principal; and whatever the server then lets it do, the session policy
  asked for allows.\<close>
theorem assumed_role_session:
  assumes "AssumeRole seal m wall s v f = Some (Inr (c, s'))" "sealing seal unseal" "role_rows (sv_iam s)" "within_calendar wall"
    and "Verify (Some r) body now skew (Some (key_lookup unseal s')) = Inr w" "vf_AccessKeyID w = cr_AccessKeyID c"
  shows "\<exists>account roleName arn trust policy. ParseRoleARN (f ''RoleArn'') = Some (account, roleName) \<and>
    GetRole (sv_iam s) account roleName = Inr (arn, trust) \<and> requested_policy s f = Inr policy \<and>
    may_assume s v f arn trust = Some True \<and> now \<le> cr_Expiration c \<and> vf_SessionToken w = cr_SessionToken c \<and>
    vf_Principal w = RoleSessionPrincipal account roleName (f ''RoleSessionName'') (cr_AccessKeyID c) \<and>
    vf_AccountID w = account \<and>
    (policy \<noteq> [] \<and> authorize s2 w action resource = Some True \<longrightarrow>
       evaluatePolicies (requestContext s2 w action resource) [policy] = Some Allow)"
proof -
  from AssumeRole_Inr [OF assms(1)] obtain account roleName arn trust policy secs where
    *: "assumed_role s f = Inr (account, roleName, arn, trust)" "may_assume s v f arn trust = Some True"
      "requested_policy s f = Inr policy"
      "session_seconds (max_allowed s v account roleName) (f ''DurationSeconds'') = Inr secs"
      "issue_key seal m s (role_opts account arn (f ''RoleSessionName'') policy (wall + secs * ns_sec)) = Inr (c, s')"
    by metis
  obtain row where row: "find_role (sv_iam s) account roleName = Some row" "ro_trust row = trust" "ro_arn row \<noteq> [] \<longrightarrow> arn = ro_arn row"
    "ParseRoleARN (f ''RoleArn'') = Some (account, roleName)"
    using assumed_role_Inr [OF *(1)] by metis
  have "row \<in> set (i_roles (sv_iam s))" "ro_account row = account" "ro_name row = roleName"
    using row(1) by (auto simp: find_role_def dest: find_Some_iff')
  then have arn: "ro_arn row = RoleARN account roleName" "plain_account account" using assms(3) by (auto simp: role_rows_def)
  then have eq: "arn = RoleARN account roleName" using row(3) by (simp add: RoleARN_text)
  have secs: "0 \<le> secs" "secs \<le> 43200"
    using session_seconds_pos [OF *(4) max_allowed_pos] session_seconds_bounds [OF *(4)] max_allowed_bounds(1) [of s v account roleName]
    by auto
  let ?o = "role_opts account arn (f ''RoleSessionName'') policy (wall + secs * ns_sec)"
  have o: "rfc_range (mo_Expires ?o)" "rfc_range (mo_MFAAuthenticatedAt ?o) \<or> \<not> mo_MFAAuthenticated ?o"
    using within_calendar_secs [OF assms(4) secs] by (simp_all add: role_opts_def no_opts_def)
  note w = minted_session [OF *(5) assms(2) o assms(5,6)] and c = issue_key_Inr(1) [OF *(5)]
  have "GetRole (sv_iam s) account roleName = Inr (arn, trust)"
    using row(1,2) arn eq by (simp add: GetRole_def GetRoleRecord_def)
  moreover have "vf_Principal w = RoleSessionPrincipal account roleName (f ''RoleSessionName'') (cr_AccessKeyID c)"
    using w role_session_principal [OF arn(2)] unfolding eq by (simp add: c)
  moreover have "now \<le> cr_Expiration c" "vf_SessionToken w = cr_SessionToken c" "vf_AccountID w = account" "vf_SessionPolicy w = policy"
    using w by (simp_all add: c role_opts_def)
  ultimately show ?thesis using row(4) *(2,3) authorize_session [of s2 w action resource] by metis
qed

section \<open>Tokens of the root user\<close>

lemma GetFederationToken_Inr:
  assumes "GetFederationToken seal lookup m wall s v f = Some (Inr (c, s'))"
  obtains policy where "federation_policy s f = Inr policy" "f ''Name'' \<noteq> []"
    "authorize s v ''sts:GetFederationToken'' ''*'' = Some True"
    "issue_key seal m s (federation_opts v (f ''Name'') policy (wall + 3600 * ns_sec)) = Inr (c, s')"
  using assms by (auto simp: GetFederationToken_def split: sum.splits Option.bind_splits if_splits)

text \<open>C14. A federation token of the root user is the root user: its requests have the root principal, not a federated one, so
  that without a policy nothing limits it, where the token of a user could do nothing, and with one the data plane
  gates take any session policy as met.\<close>
theorem root_federation_is_root:
  assumes "GetFederationToken seal lookup m wall s v f = Some (Inr (c, s'))" "IsRoot (vf_Principal v)"
    and "sealing seal unseal" "within_calendar wall"
    and "Verify (Some r) body now skew (Some (key_lookup unseal s')) = Inr w" "vf_AccessKeyID w = cr_AccessKeyID c"
  shows "vf_Principal w = RootPrincipal (vf_AccountID v) (cr_AccessKeyID c) \<and> \<not> federated_session w \<and>
    (\<exists>policy. federation_policy s f = Inr policy \<and> session_docs w = (if policy = [] then [] else [policy])) \<and>
    session_allows (requestContext s2 w action resource) inp = Some True"
proof -
  from GetFederationToken_Inr [OF assms(1)] obtain policy where
    *: "federation_policy s f = Inr policy"
      "issue_key seal m s (federation_opts v (f ''Name'') policy (wall + 3600 * ns_sec)) = Inr (c, s')"
    by metis
  let ?o = "federation_opts v (f ''Name'') policy (wall + 3600 * ns_sec)"
  have o: "rfc_range (mo_Expires ?o)" "rfc_range (mo_MFAAuthenticatedAt ?o) \<or> \<not> mo_MFAAuthenticated ?o"
    using within_calendar_secs [OF assms(4), of 3600] by (simp_all add: federation_opts_def no_opts_def)
  note w = minted_session [OF *(2) assms(3) o assms(5,6)] and c = issue_key_Inr(1) [OF *(2)]
  have p: "vf_Principal w = RootPrincipal (vf_AccountID v) (cr_AccessKeyID c)"
    using w assms(2) by (simp add: c key_principal_def resolved_key_def session_record_def federation_opts_def no_opts_def)
  have sp: "vf_SessionPolicy w = policy" using w by (simp add: federation_opts_def)
  have f: "\<not> federated_session w" by (simp add: federated_session_def p principal_defs)
  then have "session_docs w = (if policy = [] then [] else [policy])"
    by (simp add: session_docs_def sessionPolicyDocs_def sp)
  moreover have "session_allows (requestContext s2 w action resource) inp = Some True"
    by (simp add: session_allows_True Evaluate_def requestContext_def p principal_defs)
  ultimately show ?thesis using p f *(1) by blast
qed

lemma AssumeRoot_Inr:
  assumes "AssumeRoot seal lookup m wall s v f = Some (Inr (c, s'))"
  obtains target where "IsOrgMemberAccount (sv_org s) (vf_AccountID v) target" "IsRoot (vf_Principal v)"
    "IsManagementAccount (vf_AccountID v)" "issue_key seal m s (root_opts target (wall + 3600 * ns_sec)) = Inr (c, s')"
  using assms by (auto simp: AssumeRoot_def Let_def split: Option.bind_splits if_splits)

text \<open>\<open>AssumeRoot\<close> gives the root user of the management account a root session of a member account; but the server takes that
  session for one of \<open>GetSessionToken\<close> without MFA, so that every IAM operation, which is what such sessions are for, is
  refused to it.\<close>
theorem assume_root_blocked:
  assumes "AssumeRoot seal lookup m wall s v f = Some (Inr (c, s'))" "mt_SessionToken m \<noteq> []"
    and "sealing seal unseal" "within_calendar wall"
    and "Verify (Some r) body now skew (Some (key_lookup unseal s')) = Inr w" "vf_AccessKeyID w = cr_AccessKeyID c"
  shows "\<exists>target. IsOrgMemberAccount (sv_org s) (vf_AccountID v) target \<and>
    vf_Principal w = RootPrincipal target (cr_AccessKeyID c) \<and> getSessionTokenSessionBlocksIAM (key_record unseal s') w"
proof -
  from AssumeRoot_Inr [OF assms(1)] obtain target where
    *: "IsOrgMemberAccount (sv_org s) (vf_AccountID v) target"
      "issue_key seal m s (root_opts target (wall + 3600 * ns_sec)) = Inr (c, s')"
    by metis
  let ?o = "root_opts target (wall + 3600 * ns_sec)"
  have o: "rfc_range (mo_Expires ?o)" "rfc_range (mo_MFAAuthenticatedAt ?o) \<or> \<not> mo_MFAAuthenticated ?o"
    using within_calendar_secs [OF assms(4), of 3600] by (simp_all add: root_opts_def no_opts_def)
  note w = minted_session [OF *(2) assms(3) o assms(5,6)] and c = issue_key_Inr(1) [OF *(2)]
  have p: "vf_Principal w = RootPrincipal target (cr_AccessKeyID c)"
    using w by (simp add: c key_principal_def resolved_key_def session_record_def root_opts_def no_opts_def)
  have tok: "vf_SessionToken w = mt_SessionToken m" using w by simp
  have "vf_AccessKeyID w = mt_AccessKeyID m" using assms(6) by (simp add: c)
  then have "lookupGetSessionTokenSession (key_record unseal s') w = Some (session_record m ?o)"
    using minted_key_loads [OF *(2) assms(3) o] tok assms(2)
    by (simp add: lookupGetSessionTokenSession_def p principal_defs session_record_def root_opts_def no_opts_def)
  then have "getSessionTokenSessionBlocksIAM (key_record unseal s') w"
    by (simp add: getSessionTokenSessionBlocksIAM_def session_record_def root_opts_def no_opts_def)
  then show ?thesis using *(1) p by blast
qed

end
