(* ===== verification/Server_Samples.thy ===== *)
theory Server_Samples
  imports Server_Auth_Props Iam_Samples
begin

text \<open>
  A server with one user, who may do everything, in an organization with one control policy at the root, and the
  properties of the decisions applied to it.
\<close>

definition org_root_scp :: "string \<Rightarrow> org" where
  "org_root_scp doc = org_empty\<lparr>
     o_policies := [\<lparr>op_id = ''p-1'', op_type = ''SCP'', op_name = ''scp'', op_document = doc\<rparr>],
     o_attached := [(''p-1'', ''root'', ''r-root'')]\<rparr>"

definition server :: "org \<Rightarrow> server" where
  "server o' = \<lparr>sv_iam = iam_attached, sv_org = o', sv_tags = [], sv_TLSCertFile = [], sv_TLSKeyFile = [], sv_now = 0\<rparr>"

definition alice_key :: "string \<Rightarrow> Verified" where
  "alice_key policy = \<lparr>vf_Principal = UserPrincipal acct ''alice'' ''AKIDALICE'', vf_AccessKeyID = ''AKIDALICE'', vf_SecretAccessKey = ''s'',
     vf_SessionToken = [], vf_Region = ''us-east-1'', vf_Service = ''s3'', vf_AccountID = acct, vf_SourceIP = [],
     vf_SessionPolicy = policy, vf_MFAAuthenticated = False, vf_MFAAuthenticatedAt = zero_time, vf_UserName = ''alice'',
     vf_IsRoot = False, vf_FederatedUser = []\<rparr>"

lemma alice_fields:
  "vf_AccountID (alice_key p) = acct" "vf_SessionPolicy (alice_key p) = p" "\<not> federated_session (alice_key p)"
  "\<not> IsManagementAccount acct" "sv_org (server o') = o'" "sv_tags (server o') = []"
  by (simp_all add: alice_key_def federated_session_def principal_defs IsManagementAccount_def ManagementAccountID_def acct_def server_def)

lemma doc_allow_all_nonempty: "doc_allow_all \<noteq> []"
  by (simp add: doc_allow_all_def)

lemma alice_documents: "caller_docs (server o') (alice_key p) = Inr (Some [doc_allow_all])"
  by (simp add: caller_docs_def federated_session_def identityDocs_def alice_key_def principal_defs server_def
      IdentityPolicyDocsForUser_def find_user_def iam_attached_def iam_user_def iam_policy_def iam_empty_def join_policies_def
      attachments_def inline_docs_def user_groups_def Iam_Samples.alice_def)

lemma alice_boundary: "boundary_doc (server o') (alice_key p) = Inr None"
  by (simp add: boundary_doc_def role_boundary_def boundary_user_def alice_key_def principal_defs server_def PermissionsBoundaryDoc_def
      getPermissionsBoundaryARN_def iam_attached_def iam_user_def iam_policy_def iam_empty_def)

lemma root_scp_docs: "OrgFilterDocsForAccount (org_root_scp doc) acct = Inr ([doc], [])"
proof -
  have "OUPathToRoot (org_root_scp doc) acct = Inr []"
    by (simp add: OUPathToRoot_def AccountParentID_def org_root_scp_def org_empty_def acct_def ou_path.simps root_samples OrgRootID_def)
  then show ?thesis
    unfolding OrgFilterDocsForAccount_def
    by (simp add: orgPolicyDocsForAccountWithPath_def applies_def) (simp add: org_root_scp_def OrgRootID_def)
qed

lemma alice_inputs:
  "evalInputs (server (org_root_scp doc)) (alice_key p) = Some \<lparr>in_IdentityDocs = Some [doc_allow_all], in_BoundaryDoc = [],
     in_SessionDocs = sessionPolicyDocs (alice_key p), in_SCPDocs = [doc], in_RCPDocs = [], in_IsManagementAccount = False\<rparr>"
  unfolding evalInputs_def alice_documents alice_boundary
  by (simp add: alice_fields root_scp_docs session_docs_def null_text_def)

lemma alice_context:
  "rc_Principal (requestContext s (alice_key p) a r) = UserPrincipal acct ''alice'' ''AKIDALICE''"
  "rc_Action (requestContext s (alice_key p) a r) = a" "rc_Resource (requestContext s (alice_key p) a r) = r"
  by (simp_all add: requestContext_def alice_key_def)

lemma alice_allowed:
  "authorize (server (org_root_scp doc_allow_all)) (alice_key doc_allow_all) ''s3:GetObject'' ''arn:aws:s3:::b/k'' = Some True"
  unfolding authorize_True alice_inputs
  by (simp add: sessionPolicyDocs_def alice_fields doc_allow_all_nonempty alice_context authz_simps parse_samples)

lemma deny_s3_sample:
  "evaluatePolicies (requestContext s (alice_key p) ''s3:GetObject'' ''arn:aws:s3:::b/k'') [doc_deny_s3] = Some Deny"
  by (simp add: alice_context authz_simps parse_samples)

lemma root_scp_binds: "binding_policy (sv_org (server (org_root_scp doc))) (vf_AccountID (alice_key p))
    \<lparr>op_id = ''p-1'', op_type = ''SCP'', op_name = ''scp'', op_document = doc\<rparr>"
proof -
  have "(''p-1'', ''root'', OrgRootID) \<in> set (o_attached (org_root_scp doc))" by (simp add: org_root_scp_def OrgRootID_def)
  then have "attached_above (org_root_scp doc) acct ''p-1''" unfolding attached_above_def by (intro disjI2 disjI1)
  moreover have "\<lparr>op_id = ''p-1'', op_type = ''SCP'', op_name = ''scp'', op_document = doc\<rparr> \<in> set (o_policies (org_root_scp doc))"
    by (simp add: org_root_scp_def)
  ultimately show ?thesis by (simp add: binding_policy_def alice_fields)
qed



theorem unreadable_denies_witness:
  "authorize ((server org_empty)\<lparr>sv_iam := iam_empty\<rparr>) (alice_key []) ''s3:GetObject'' ''*'' = Some False"
proof -
  have "caller_docs ((server org_empty)\<lparr>sv_iam := iam_empty\<rparr>) (alice_key []) = Inl NoRows"
    by (simp add: caller_docs_def identityDocs_def alice_key_def principal_defs IdentityPolicyDocsForUser_def find_user_def iam_empty_def)
  then have "unreadable ((server org_empty)\<lparr>sv_iam := iam_empty\<rparr>) (alice_key [])" by (simp add: unreadable_def)
  from unreadable_denies [OF this] show ?thesis by blast
qed

theorem request_keys_witness:
  "rc_ConditionKeys (requestContext (server org_empty) (alice_key []) ''s3:GetObject'' ''arn:aws:s3:::b'') ''aws:username'' =
   Some ''alice''"
proof -
  have t: "TrimSpace ''arn:aws:s3:::b'' = ''arn:aws:s3:::'' @ ''b''" by code_simp
  have "conditionKeys (server org_empty) (alice_key []) ''aws:username'' = Some ''alice''"
    by (simp add: conditionKeys_def Let_def set_key_def only_if_def alice_key_def principal_defs split: option.splits)
  then show ?thesis
    using request_keys [of "''aws:username''" "''arn:aws:s3:::b''" "server org_empty" "alice_key []"]
      bucket_prefix [of "''b''"] unfolding t by simp
qed

theorem caller_tags_decide_witness:
  "\<exists>rows. rc_ConditionKeys (requestContext ((server org_empty)\<lparr>sv_tags := rows\<rparr>) (alice_key []) ''s3:GetObject'' ''arn:aws:s3:::b'')
     (''aws:ResourceTag/'' @ ''public'') = Some ''yes'' \<and>
   \<lparr>tg_account = ''999988887777'', tg_arn = ''arn:aws:s3:::b'', tg_key = ''public'', tg_value = ''no''\<rparr> \<in> set rows"
proof -
  let ?b = "''arn:aws:s3:::b''"
  have b: "?b = ''arn:aws:s3:::'' @ ''b''" by simp
  have t: "TrimSpace ?b = ?b" "TrimSpace ''public'' = ''public''" by code_simp+
  have belongs: "resourceARNBelongsToAccount ?b a" for a using bucket_belongs [of "''b''" a] by simp
  let ?r1 = "\<lparr>tg_account = acct, tg_arn = ?b, tg_key = ''public'', tg_value = ''yes''\<rparr>"
  let ?r2 = "\<lparr>tg_account = ''999988887777'', tg_arn = ?b, tg_key = ''public'', tg_value = ''no''\<rparr>"
  have w1: "TagResources [] acct [?b] [(''public'', ''yes'')] = Some ([?r1], [])"
    by (simp add: TagResources_def tag_resource_def t belongs set_tag_def sql_upsert_def)
  have w2: "TagResources [?r1] ''999988887777'' [?b] [(''public'', ''no'')] = Some ([?r1, ?r2], [])"
    by (simp add: TagResources_def tag_resource_def t belongs set_tag_def sql_upsert_def tag_id_def acct_def Let_def)
  have s: "sv_tags (server org_empty) = []" "vf_AccountID (alice_key []) = acct" "acct \<noteq> []" "''999988887777'' \<noteq> acct"
    by (simp_all add: server_def alice_key_def acct_def)
  have "rc_ConditionKeys (requestContext ((server org_empty)\<lparr>sv_tags := [?r1, ?r2]\<rparr>) (alice_key []) ''s3:GetObject'' ?b)
     (''aws:ResourceTag/'' @ ''public'') = Some ''yes''"
    by (rule caller_tags_decide [where v = "alice_key []" and s = "server org_empty" and rows = "[?r1]" and tags = "[(''public'', ''no'')]"
        and owner = "''999988887777''", OF b t, THEN conjunct1]) (simp_all add: s(1-2) s(3) w1 w2 s(4) [unfolded s(2)])
  then show ?thesis by (intro exI [of _ "[?r1, ?r2]"]) simp
qed

end
