(* ===== verification/Sts_Samples.thy ===== *)
theory Sts_Samples
  imports Sts_Props Server_Samples Sigv4_Samples
begin

text \<open>
  A user who assumes a role and signs a request as the session, a root user with a federation token and one that
  assumes the root of a member account; and the properties of temporary credentials applied to them.
\<close>

section \<open>Signing under a temporary key\<close>

definition temp_key :: minted where
  "temp_key = \<lparr>mt_AccessKeyID = ''ASIATEMP'', mt_Secret = ''SECRET'', mt_SessionToken = ''TOKEN''\<rparr>"

definition seal :: "string \<Rightarrow> string" where "seal x = CHR ''#'' # x"
definition unseal :: unseal where "unseal c = (case c of [] \<Rightarrow> None | _ # r \<Rightarrow> Some r)"

definition temp_request :: http_request where
  "temp_request = \<lparr>rq_Method = ''GET'', rq_Path = ''/'', rq_RawPath = [], rq_RawQuery = [],
     rq_Host = ''sqs.us-east-1.amazonaws.com'',
     rq_Header = (\<lambda>n. if n = ''X-Amz-Security-Token'' then [''TOKEN''] else sample_header sample_date n)\<rparr>"

definition temp_signed :: http_request where
  "temp_signed = sign_request temp_request ''ASIATEMP'' ''SECRET'' ''us-east-1'' ''sqs'' [''host''] emptyPayload"

lemma sample_sealing: "sealing seal unseal"
  by (simp add: sealing_def seal_def unseal_def)

lemma temp_get: "Header_Get temp_request ''X-Amz-Date'' = sample_date" "Header_Get temp_request ''X-Amz-Security-Token'' = ''TOKEN''"
proof -
  have "CanonicalHeaderKey ''X-Amz-Date'' = ''X-Amz-Date''" "CanonicalHeaderKey ''X-Amz-Security-Token'' = ''X-Amz-Security-Token''"
    by (code_simp, code_simp)
  then show "Header_Get temp_request ''X-Amz-Date'' = sample_date" "Header_Get temp_request ''X-Amz-Security-Token'' = ''TOKEN''"
    by (simp_all add: Header_Get_def Header_Values_def temp_request_def sample_header_def)
qed

lemma temp_payload: "resolvePayloadHash temp_request [] mat = Inr emptyPayload"
proof -
  have e: "\<not> EqualFold emptyPayload unsignedPayload" "\<not> isS3StreamingPayloadHash emptyPayload" "emptyPayload \<noteq> []" by (code_simp, code_simp, code_simp)
  have "list_all graphic emptyPayload" by code_simp
  then have "TrimSpace emptyPayload = emptyPayload" by (rule TrimSpace_graphic_all)
  then have "claimedContentSHA256 temp_request = emptyPayload"
    using e(3) by (simp add: claimedContentSHA256_def Header_Get_def Header_Values_def header_keys temp_request_def sample_header_def Let_def)
  then show ?thesis using e by (simp add: resolvePayloadHash_def bodySHA256Hex_def)
qed

lemma temp_token: "rk_SessionToken cred = ''TOKEN'' \<Longrightarrow> check_token temp_request cred"
proof -
  assume "rk_SessionToken cred = ''TOKEN''"
  moreover have "TrimSpace ''TOKEN'' = ''TOKEN''" by code_simp
  ultimately show ?thesis by (simp add: check_token_def temp_get)
qed

lemma temp_verified:
  assumes "lookup ''ASIATEMP'' = Some cred" "rk_Secret cred = ''SECRET''" "rk_SessionToken cred = ''TOKEN''" "key_ok cred sample_time"
  shows "\<exists>w. Verify (Some temp_signed) [] sample_time 900000000000 (Some lookup) = Inr w \<and> vf_AccessKeyID w = ''ASIATEMP''"
proof -
  have plain: "plain_value ''ASIATEMP''" by code_simp
  have clock: "clock_ok sample_time sample_time 900000000000" by (simp add: clock_ok_def)
  have "accepts temp_signed [] sample_time 900000000000 lookup
      (client_material ''ASIATEMP'' (take 8 sample_date) ''us-east-1'' ''sqs'' [''host''] sample_date
         (signature temp_request (client_material ''ASIATEMP'' (take 8 sample_date) ''us-east-1'' ''sqs'' [''host''] sample_date []) (rk_Secret cred) emptyPayload))
      cred sample_time"
    using sign_request_accepts [where lookup = lookup and r = temp_request and akid = "''ASIATEMP''" and region = "''us-east-1''"
        and service = "''sqs''" and names = "[''host'']" and h = emptyPayload and amz = sample_date, OF plain sample_plain(4,2,3,6)
        temp_get(1) sample_dates(1) clock assms(1,4) temp_token [OF assms(3)] temp_payload]
    by (simp only: temp_signed_def assms(2))
  then obtain mat where "accepts temp_signed [] sample_time 900000000000 lookup mat cred sample_time" "am_accessKeyID mat = ''ASIATEMP''"
    by (force simp: client_material_def)
  then have "Verify (Some temp_signed) [] sample_time 900000000000 (Some lookup) = Inr (verified_of mat cred)"
    "vf_AccessKeyID (verified_of mat cred) = ''ASIATEMP''"
    unfolding Verify_Some verify_request_ok [OF skew_small] by (blast, simp add: verified_of_def)
  then show ?thesis by blast
qed

lemma sample_calendar: "within_calendar sample_time"
  by (simp add: within_calendar_def rfc_range_def sample_times ns_defs)

lemma issued_verified:
  assumes "issue_key seal temp_key s opts = Inr (c, s')" "mo_Expires opts = sample_time + 3600 * ns_sec"
    and "\<not> mo_MFAAuthenticated opts" "mo_AccountID opts \<noteq> []"
  shows "\<exists>w. Verify (Some temp_signed) [] sample_time 900000000000 (Some (key_lookup unseal s')) = Inr w \<and>
    vf_AccessKeyID w = cr_AccessKeyID c"
proof -
  have "rfc_range (mo_Expires opts)" using within_calendar_secs [OF sample_calendar, of 3600] assms(2) by simp
  then have k: "key_record unseal s' ''ASIATEMP'' = Some (session_record temp_key opts)"
    using minted_key_loads [OF assms(1) sample_sealing] assms(3) by (simp add: temp_key_def)
  have e: "sample_time \<le> mo_Expires opts - mo_Expires opts mod ns_sec"
    unfolding assms(2) sample_times ns_sec_def by simp
  have "\<exists>w. Verify (Some temp_signed) [] sample_time 900000000000 (Some (key_lookup unseal s')) = Inr w \<and> vf_AccessKeyID w = ''ASIATEMP''"
    by (rule temp_verified [where cred = "resolved_key (session_record temp_key opts)"])
      (use e assms(4) in \<open>simp_all add: k key_ok_def resolved_key_def session_record_def temp_key_def\<close>)
  then show ?thesis using issue_key_Inr(1) [OF assms(1)] by (simp add: temp_key_def)
qed

lemma issue_key_new:
  "mt_AccessKeyID m \<notin> kr_id ` set (i_keys (sv_iam s)) \<Longrightarrow> \<exists>c s'. issue_key seal m s opts = Inr (c, s')"
  by (simp add: issue_key_def Let_def MintTempCredentialsOpts_def sql_insert_def temp_key_row_def)

section \<open>A role\<close>

definition doc_trust_public :: string where
  "doc_trust_public = ''{\"Version\":\"2012-10-17\",\"Statement\":[{\"Effect\":\"Allow\",\"Principal\":\"*\",\"Action\":\"sts:AssumeRole\"}]}''"

lemma parse_doc_trust_public:
  "parsePolicyDocument doc_trust_public = Some \<lparr>pd_Version = ''2012-10-17'', pd_Statement =
   [\<lparr>st_Effect = ''Allow'', st_Action = [''sts:AssumeRole''], st_Resource = [],
     st_Principal = Some \<lparr>ps_All = True, ps_AWS = [], ps_Service = [], ps_Federated = []\<rparr>, st_Condition = None\<rparr>]\<rparr>"
  by code_simp

definition dev_role :: Role where
  "dev_role = \<lparr>ro_account = acct, ro_name = ''dev'', ro_arn = RoleARN acct ''dev'', ro_trust = doc_trust_public, ro_id = None,
     ro_created = None, ro_max = 7200\<rparr>"

definition role_server :: server where
  "role_server = (server (org_root_scp doc_allow_all))\<lparr>sv_iam := iam_attached\<lparr>i_roles := [dev_role]\<rparr>\<rparr>"

definition role_form :: form where
  "role_form n = (if n = ''RoleArn'' then ''arn:aws:iam::111122223333:role/dev''
     else if n = ''RoleSessionName'' then ''s1'' else if n = ''Policy'' then doc_deny_s3 else [])"

lemma dev_role_found: "find_role (sv_iam role_server) acct ''dev'' = Some dev_role"
  by (simp add: find_role_def role_server_def dev_role_def)

lemma role_arn_parsed: "ParseRoleARN (role_form ''RoleArn'') = Some (acct, ''dev'')"
  by (simp add: role_form_def acct_def) code_simp

lemma role_form_fields: "role_form ''RoleArn'' \<noteq> []" "role_form ''RoleSessionName'' \<noteq> []" "role_form ''DurationSeconds'' = []"
  "role_form ''ExternalId'' = []" "role_form ''SourceIdentity'' = []" "role_form ''Policy'' = doc_deny_s3"
  by (simp_all add: role_form_def)

lemma dev_role_assumed: "assumed_role role_server role_form = Inr (acct, ''dev'', RoleARN acct ''dev'', doc_trust_public)"
  using dev_role_found
  by (simp add: assumed_role_def role_form_fields role_arn_parsed GetRole_def GetRoleRecord_def) (simp add: dev_role_def RoleARN_text)

lemma alice_documents_role: "caller_docs role_server (alice_key p) = Inr (Some [doc_allow_all])"
  "identityDocs role_server (vf_Principal (alice_key p)) = Inr (Some [doc_allow_all])"
  by (simp_all add: caller_docs_def federated_session_def identityDocs_def alice_key_def principal_defs role_server_def server_def
      IdentityPolicyDocsForUser_def find_user_def iam_attached_def iam_user_def iam_policy_def iam_empty_def join_policies_def
      attachments_def inline_docs_def user_groups_def Iam_Samples.alice_def)

lemma alice_boundary_role: "boundary_doc role_server (alice_key p) = Inr None"
  by (simp add: boundary_doc_def role_boundary_def boundary_user_def alice_key_def principal_defs role_server_def server_def
      PermissionsBoundaryDoc_def getPermissionsBoundaryARN_def iam_attached_def iam_user_def iam_policy_def iam_empty_def)

lemma alice_inputs_role:
  "evalInputs role_server (alice_key []) = Some \<lparr>in_IdentityDocs = Some [doc_allow_all], in_BoundaryDoc = [],
     in_SessionDocs = [], in_SCPDocs = [doc_allow_all], in_RCPDocs = [], in_IsManagementAccount = False\<rparr>"
proof -
  have "sv_org role_server = org_root_scp doc_allow_all" by (simp add: role_server_def alice_fields)
  then show ?thesis
    unfolding evalInputs_def alice_documents_role alice_boundary_role
    by (simp add: alice_fields root_scp_docs session_docs_def sessionPolicyDocs_def null_text_def)
qed

lemma alice_may_assume: "may_assume role_server (alice_key []) role_form (RoleARN acct ''dev'') doc_trust_public = Some True"
proof -
  have "authorize role_server (alice_key []) ''sts:AssumeRole'' (RoleARN acct ''dev'') = Some True"
    unfolding authorize_True alice_inputs_role
    by (simp add: alice_context authz_simps parse_samples)
  moreover have "EvaluateCrossAccount (trust_request role_server (alice_key []) role_form (RoleARN acct ''dev'') doc_trust_public [doc_allow_all]) = Some Allow"
    by (simp add: EvaluateCrossAccount_def evaluateTrust_def trust_request_def alice_key_def authz_simps parse_samples parse_doc_trust_public)
      (simp add: doc_trust_public_def)
  ultimately show ?thesis unfolding may_assume_True using alice_documents_role(2) [of "[]"] by force
qed

lemma alice_session: "\<exists>c s'. AssumeRole seal temp_key sample_time role_server (alice_key []) role_form = Some (Inr (c, s')) \<and>
  issue_key seal temp_key role_server
    (role_opts acct (RoleARN acct ''dev'') ''s1'' (unescaped doc_deny_s3) (sample_time + 3600 * ns_sec)) = Inr (c, s')"
proof -
  have "requested_policy role_server role_form = Inr (unescaped doc_deny_s3)"
    by (simp add: requested_policy_def role_form_fields) (simp add: doc_deny_s3_def)
  moreover have "session_seconds (max_allowed role_server (alice_key []) acct ''dev'') (role_form ''DurationSeconds'') = Inr 3600"
  proof -
    have "max_allowed role_server (alice_key []) acct ''dev'' = 7200"
      using dev_role_found by (simp add: max_allowed_def GetRoleRecord_def isRoleChainingCaller_def alice_key_def principal_defs dev_role_def TrimSpace_Nil)
    then show ?thesis by (simp add: session_seconds_def role_form_fields TrimSpace_Nil)
  qed
  moreover obtain c s' where "issue_key seal temp_key role_server
    (role_opts acct (RoleARN acct ''dev'') ''s1'' (unescaped doc_deny_s3) (sample_time + 3600 * ns_sec)) = Inr (c, s')"
  proof -
    have "i_keys (sv_iam role_server) = []" by (simp add: role_server_def iam_attached_def iam_user_def iam_policy_def iam_empty_def)
    then show ?thesis using issue_key_new [of temp_key role_server] that by fastforce
  qed
  ultimately show ?thesis
    by (simp add: AssumeRole_def dev_role_assumed alice_may_assume) (simp add: role_form_def)
qed

theorem assumed_role_session_witness:
  "\<exists>w. vf_Principal w = RoleSessionPrincipal acct ''dev'' ''s1'' ''ASIATEMP'' \<and>
     Verify (Some temp_signed) [] sample_time 900000000000
       (Some (key_lookup unseal (snd (projr (the (AssumeRole seal temp_key sample_time role_server (alice_key []) role_form)))))) = Inr w"
proof -
  obtain c s' where a: "AssumeRole seal temp_key sample_time role_server (alice_key []) role_form = Some (Inr (c, s'))"
    and k: "issue_key seal temp_key role_server
      (role_opts acct (RoleARN acct ''dev'') ''s1'' (unescaped doc_deny_s3) (sample_time + 3600 * ns_sec)) = Inr (c, s')"
    using alice_session by blast
  obtain w where w: "Verify (Some temp_signed) [] sample_time 900000000000 (Some (key_lookup unseal s')) = Inr w"
    "vf_AccessKeyID w = cr_AccessKeyID c"
    using issued_verified [OF k] by (auto simp: role_opts_def no_opts_def acct_def)
  have rows: "role_rows (sv_iam role_server)"
    by (simp add: role_rows_def role_server_def dev_role_def plain_account_def acct_def)
  have "cr_AccessKeyID c = ''ASIATEMP''" using issue_key_Inr(1) [OF k] by (simp add: temp_key_def)
  then have "vf_Principal w = RoleSessionPrincipal acct ''dev'' ''s1'' ''ASIATEMP''"
    using assumed_role_session [OF a sample_sealing rows sample_calendar w] unfolding role_arn_parsed
    by (auto simp: role_form_def)
  then show ?thesis using w(1) a by auto
qed

theorem session_lifetime_witness:
  "\<exists>c s' secs. AssumeRole seal temp_key sample_time role_server (alice_key []) role_form = Some (Inr (c, s')) \<and>
     cr_Expiration c = sample_time + secs * ns_sec \<and> secs \<le> 7200"
proof -
  obtain c s' where a: "AssumeRole seal temp_key sample_time role_server (alice_key []) role_form = Some (Inr (c, s'))"
    using alice_session by blast
  have "900 \<le> ro_max dev_role" by (simp add: dev_role_def)
  from session_lifetime [OF a role_arn_parsed dev_role_found this]
  show ?thesis using a by (auto simp: dev_role_def)
qed

section \<open>The root user\<close>

definition org_member :: org where
  "org_member = org_empty\<lparr>o_requests := [\<lparr>ar_id = ''car-1'', ar_status = ''SUCCEEDED'', ar_name = ''m'', ar_email = ''m@x'',
     ar_account = ''000000000002'', ar_by = ''000000000001''\<rparr>]\<rparr>"

definition root_server :: server where
  "root_server = (server org_member)\<lparr>sv_iam := iam_empty\<rparr>"

definition root_key :: Verified where
  "root_key = (alice_key [])\<lparr>vf_Principal := RootPrincipal ''000000000001'' ''AKIDROOT'', vf_AccountID := ''000000000001'',
     vf_AccessKeyID := ''AKIDROOT'', vf_UserName := [], vf_IsRoot := True\<rparr>"

lemma root_inputs:
  "evalInputs root_server root_key = Some \<lparr>in_IdentityDocs = Some [], in_BoundaryDoc = [], in_SessionDocs = [],
     in_SCPDocs = [], in_RCPDocs = [], in_IsManagementAccount = True\<rparr>"
proof -
  have "caller_docs root_server root_key = Inr (Some [])"
    by (simp add: caller_docs_def federated_session_def identityDocs_def root_key_def principal_defs root_server_def server_def iam_empty_def
        ListAttachedPolicyDocuments_def ListInlinePolicies_def attachments_def join_policies_def)
  moreover have "boundary_doc root_server root_key = Inr None"
    by (simp add: boundary_doc_def role_boundary_def boundary_user_def root_key_def principal_defs federated_session_def)
  moreover have "OrgFilterDocsForAccount (sv_org root_server) (vf_AccountID root_key) = Inr ([], [])"
    by (simp add: OrgFilterDocsForAccount_def OUPathToRoot_def AccountParentID_def root_server_def server_def root_key_def org_member_def
        org_empty_def ou_path.simps root_samples OrgRootID_def orgPolicyDocsForAccountWithPath_def)
  ultimately show ?thesis
    by (simp add: evalInputs_def session_docs_def federated_session_def sessionPolicyDocs_def root_key_def principal_defs alice_fields null_text_def
        IsManagementAccount_def ManagementAccountID_def)
qed

lemma root_allowed: "authorize root_server root_key action ''*'' = Some True"
proof -
  have "IsRoot (rc_Principal (requestContext root_server root_key action ''*''))"
    by (simp add: requestContext_def root_key_def principal_defs)
  then show ?thesis unfolding authorize_True root_inputs by (simp add: authz_simps)
qed

definition no_sessions :: "string \<Rightarrow> AccessKey option" where "no_sessions k = None"

lemma root_not_blocked: "\<not> getSessionTokenSessionBlocksSTS no_sessions root_key action"
  by (simp add: getSessionTokenSessionBlocksSTS_def lookupGetSessionTokenSession_def no_sessions_def)

definition federation_form :: form where
  "federation_form n = (if n = ''Name'' then ''bob'' else [])"

definition member_form :: form where
  "member_form n = (if n = ''TargetAccount'' then ''000000000002'' else [])"

lemma root_issues: "\<exists>c s'. issue_key seal temp_key root_server opts = Inr (c, s')"
  using issue_key_new [of temp_key root_server opts] by (simp add: root_server_def iam_empty_def)

theorem root_federation_is_root_witness:
  "\<exists>w. vf_Principal w = RootPrincipal ''000000000001'' ''ASIATEMP'' \<and> session_docs w = []"
proof -
  obtain c s' where k: "issue_key seal temp_key root_server (federation_opts root_key ''bob'' [] (sample_time + 3600 * ns_sec)) = Inr (c, s')"
    using root_issues by blast
  then have a: "GetFederationToken seal no_sessions temp_key sample_time root_server root_key federation_form = Some (Inr (c, s'))"
    by (simp add: GetFederationToken_def root_not_blocked root_allowed federation_policy_def federation_form_def)
  obtain w where w: "Verify (Some temp_signed) [] sample_time 900000000000 (Some (key_lookup unseal s')) = Inr w"
    "vf_AccessKeyID w = cr_AccessKeyID c"
    using issued_verified [OF k] by (auto simp: federation_opts_def no_opts_def root_key_def)
  have r: "IsRoot (vf_Principal root_key)" "vf_AccountID root_key = ''000000000001''" by (simp_all add: root_key_def principal_defs)
  have "cr_AccessKeyID c = ''ASIATEMP''" using issue_key_Inr(1) [OF k] by (simp add: temp_key_def)
  then have p: "vf_Principal w = RootPrincipal ''000000000001'' ''ASIATEMP''"
    using root_federation_is_root [OF a r(1) sample_sealing sample_calendar w] r(2) by simp
  have "session_docs w = []"
    using root_federation_is_root [OF a r(1) sample_sealing sample_calendar w] by (simp add: federation_policy_def federation_form_def)
  with p show ?thesis by blast
qed

theorem assume_root_blocked_witness:
  "\<exists>c s' w. AssumeRoot seal no_sessions temp_key sample_time root_server root_key member_form = Some (Inr (c, s')) \<and>
     getSessionTokenSessionBlocksIAM (key_record unseal s') w"
proof -
  obtain c s' where k: "issue_key seal temp_key root_server (root_opts ''000000000002'' (sample_time + 3600 * ns_sec)) = Inr (c, s')"
    using root_issues by blast
  have member: "IsManagementAccount (vf_AccountID root_key)" "IsRoot (vf_Principal root_key)"
    "IsOrgMemberAccount (sv_org root_server) (vf_AccountID root_key) ''000000000002''"
    by (simp_all add: root_key_def principal_defs IsManagementAccount_def ManagementAccountID_def IsOrgMemberAccount_def root_server_def
        server_def org_member_def)
  have a: "AssumeRoot seal no_sessions temp_key sample_time root_server root_key member_form = Some (Inr (c, s'))"
    using k by (simp add: AssumeRoot_def root_not_blocked root_allowed member member_form_def)
  obtain w where w: "Verify (Some temp_signed) [] sample_time 900000000000 (Some (key_lookup unseal s')) = Inr w"
    "vf_AccessKeyID w = cr_AccessKeyID c"
    using issued_verified [OF k] by (auto simp: root_opts_def no_opts_def)
  have "mt_SessionToken temp_key \<noteq> []" by (simp add: temp_key_def)
  from assume_root_blocked [OF a this sample_sealing sample_calendar w] show ?thesis using a by blast
qed

end
