(* ===== verification/Event_Pattern.thy ===== *)
theory Event_Pattern
  imports Go_Json_Print Sqs
begin

text \<open>
  \<open>internal/store/events_pattern.go\<close>: the validation of event patterns when a rule is stored, and their
  matching when an event arrives. At the end, what a pattern means: a condition on the values at the
  paths of the event, which the matcher decides for every pattern the validation lets through.
\<close>

section \<open>Values of type any\<close>

text \<open>
  What \<open>json.Unmarshal\<close> puts into \<open>any\<close>, and the \<open>int64\<close> of \<open>normalizeJSONValue\<close>. A map is the list of its
  entries sorted by key: two maps are equal when the lists are.
\<close>

datatype any_value =
    ANil
  | ABool bool
  | AString string
  | AFloat rat
  | AInt int
  | ASlice "any_value list"
  | AMap "(string \<times> any_value) list"

fun decode_any :: "json \<Rightarrow> any_value option"
  and decode_list :: "json list \<Rightarrow> any_value list option"
  and decode_members :: "(string \<times> json) list \<Rightarrow> (string \<times> any_value) list option" where
  "decode_any JNull = Some ANil"
| "decode_any (JBool b) = Some (ABool b)"
| "decode_any (JStr s) = Some (AString s)"
| "decode_any (JNum t) = (case ParseFloat t of Some (Finite q) \<Rightarrow> Some (AFloat q) | _ \<Rightarrow> None)"
| "decode_any (JArr vs) = map_option ASlice (decode_list vs)"
| "decode_any (JObj kvs) = map_option (\<lambda>m. AMap (sort_key fst (last_wins m))) (decode_members kvs)"
| "decode_list [] = Some []"
| "decode_list (v # vs) = do { a \<leftarrow> decode_any v; as \<leftarrow> decode_list vs; Some (a # as) }"
| "decode_members [] = Some []"
| "decode_members ((k, v) # kvs) = do { a \<leftarrow> decode_any v; m \<leftarrow> decode_members kvs; Some ((k, a) # m) }"

text \<open>\<open>json.Unmarshal\<close> into a nil \<open>map[string]any\<close>.\<close>

definition unmarshal_map :: "string \<Rightarrow> (string \<times> any_value) list option" where
  "unmarshal_map t =
     (case Option.bind (json_parse t) decode_any of
        Some (AMap m) \<Rightarrow> Some m | Some ANil \<Rightarrow> Some [] | _ \<Rightarrow> None)"

fun normalizeJSONValue :: "any_value \<Rightarrow> any_value" where
  "normalizeJSONValue (AFloat q) = (if q = of_int (float_to_int q) then AInt (float_to_int q) else AFloat q)"
| "normalizeJSONValue (AMap m) = AMap (map (\<lambda>(k, v). (k, normalizeJSONValue v)) m)"
| "normalizeJSONValue (ASlice vs) = ASlice (map normalizeJSONValue vs)"
| "normalizeJSONValue v = v"

definition jsonValueEqual :: "any_value \<Rightarrow> any_value \<Rightarrow> bool" where
  "jsonValueEqual a b \<longleftrightarrow> normalizeJSONValue a = normalizeJSONValue b"

fun asFloat64 :: "any_value \<Rightarrow> float64 option" where
  "asFloat64 (AFloat q) = Some (Finite q)"
| "asFloat64 (AInt i) = round_f64 (i < 0) (of_int \<bar>i\<bar>)"
| "asFloat64 (AString s) = ParseFloat s"
| "asFloat64 _ = None"

section \<open>Validation\<close>

text \<open>
  The functions below answer whether the error is nil: the errors of a malformed pattern differ in
  their message only, and which of several is returned depends on the order a Go map is visited in.
\<close>

fun is_string :: "any_value \<Rightarrow> bool" where
  "is_string (AString s) = True"
| "is_string _ = False"

fun scalar :: "any_value \<Rightarrow> bool" where
  "scalar (AString s) = True"
| "scalar (AFloat q) = True"
| "scalar (ABool b) = True"
| "scalar ANil = True"
| "scalar _ = False"

fun validateAnythingButArg :: "any_value \<Rightarrow> bool" where
  "validateAnythingButArg (ASlice items) = list_all scalar items"
| "validateAnythingButArg (AMap m) =
     (case m of
        [(nested, nestedArg)] \<Rightarrow>
          if nested = ''prefix'' \<or> nested = ''suffix'' then
            (case nestedArg of
               AString s \<Rightarrow> True
             | ASlice items \<Rightarrow> list_all is_string items
             | _ \<Rightarrow> False)
          else False
      | _ \<Rightarrow> False)"
| "validateAnythingButArg v = scalar v"

definition comparison_known :: "string \<Rightarrow> bool" where
  "comparison_known c \<longleftrightarrow> c = ''='' \<or> c = ''>'' \<or> c = ''>='' \<or> c = ''<'' \<or> c = ''<=''"

fun validate_bounds :: "any_value list \<Rightarrow> bool" where
  "validate_bounds [] = True"
| "validate_bounds (c # b # rest) =
     (case c of
        AString opStr \<Rightarrow> if comparison_known opStr \<and> asFloat64 b \<noteq> None then validate_bounds rest else False
      | _ \<Rightarrow> False)"
| "validate_bounds [c] = False"

definition validateOperator :: "string \<Rightarrow> any_value \<Rightarrow> bool" where
  "validateOperator op arg =
     (if op = ''prefix'' \<or> op = ''suffix'' then is_string arg
      else if op = ''exists'' then (case arg of ABool b \<Rightarrow> True | _ \<Rightarrow> False)
      else if op = ''equals-ignore-case'' then is_string arg
      else if op = ''numeric'' then
        (case arg of
           ASlice arr \<Rightarrow> if arr = [] \<or> length arr mod 2 \<noteq> 0 then False else validate_bounds arr
         | _ \<Rightarrow> False)
      else if op = ''anything-but'' then validateAnythingButArg arg
      else False)"

fun validate_matcher :: "any_value \<Rightarrow> bool" where
  "validate_matcher (AMap m) = (case m of [(op, arg)] \<Rightarrow> validateOperator op arg | _ \<Rightarrow> False)"
| "validate_matcher v = scalar v"

definition validateMatcherArray :: "any_value list \<Rightarrow> bool" where
  "validateMatcherArray items = list_all validate_matcher items"

fun validatePatternValue :: "any_value \<Rightarrow> bool" where
  "validatePatternValue (AMap m) =
     list_all (\<lambda>(k, child).
       if k = ''$or'' then False
       else (case child of
               AMap c \<Rightarrow> validatePatternValue child
             | ASlice c \<Rightarrow> validateMatcherArray c
             | _ \<Rightarrow> False)) m"
| "validatePatternValue _ = False"

datatype pattern_error = PatternNotJSON | PatternNotObject | PatternUnsupported

definition validateEventPatternDeep :: "string \<Rightarrow> (pattern_error, unit) result" where
  "validateEventPatternDeep pat =
     (case Option.bind (json_parse pat) decode_any of
        None \<Rightarrow> Inl PatternNotJSON
      | Some doc \<Rightarrow>
          (case doc of
             AMap obj \<Rightarrow> if validatePatternValue doc then Inr () else Inl PatternUnsupported
           | _ \<Rightarrow> Inl PatternNotObject))"

section \<open>Matching\<close>

fun stringHasAnyPrefix :: "any_value \<Rightarrow> any_value \<Rightarrow> bool" where
  "stringHasAnyPrefix (AString s) (AString p) = HasPrefix s p"
| "stringHasAnyPrefix (AString s) (ASlice items) =
     list_ex (\<lambda>item. case item of AString p \<Rightarrow> HasPrefix s p | _ \<Rightarrow> False) items"
| "stringHasAnyPrefix _ _ = False"

fun stringHasAnySuffix :: "any_value \<Rightarrow> any_value \<Rightarrow> bool" where
  "stringHasAnySuffix (AString s) (AString p) = HasSuffix s p"
| "stringHasAnySuffix (AString s) (ASlice items) =
     list_ex (\<lambda>item. case item of AString p \<Rightarrow> HasSuffix s p | _ \<Rightarrow> False) items"
| "stringHasAnySuffix _ _ = False"

fun anythingButMatches :: "any_value \<Rightarrow> any_value \<Rightarrow> bool" where
  "anythingButMatches (AMap m) actual =
     (case m of
        [(nested, nestedArg)] \<Rightarrow>
          if nested = ''prefix'' then \<not> stringHasAnyPrefix actual nestedArg
          else if nested = ''suffix'' then \<not> stringHasAnySuffix actual nestedArg
          else False
      | _ \<Rightarrow> False)"
| "anythingButMatches (ASlice items) actual = (\<not> list_ex (\<lambda>item. jsonValueEqual item actual) items)"
| "anythingButMatches v actual = (\<not> jsonValueEqual v actual)"

definition compare_floats :: "string \<Rightarrow> float64 \<Rightarrow> float64 \<Rightarrow> bool" where
  "compare_floats c x y =
     (if c = ''='' then f_eq x y
      else if c = ''>'' then f_less y x
      else if c = ''>='' then f_le y x
      else if c = ''<'' then f_less x y
      else if c = ''<='' then f_le x y
      else False)"

fun bounds_hold :: "float64 \<Rightarrow> any_value list \<Rightarrow> bool" where
  "bounds_hold x [] = True"
| "bounds_hold x (c # b # rest) =
     (case c of
        AString op \<Rightarrow>
          (case asFloat64 b of
             Some y \<Rightarrow> if compare_floats op x y then bounds_hold x rest else False
           | None \<Rightarrow> False)
      | _ \<Rightarrow> False)"
| "bounds_hold x [c] = False"

definition numericMatches :: "any_value \<Rightarrow> any_value \<Rightarrow> bool" where
  "numericMatches arg actual =
     (case arg of
        ASlice arr \<Rightarrow>
          if arr = [] \<or> length arr mod 2 \<noteq> 0 then False
          else (case asFloat64 actual of None \<Rightarrow> False | Some value \<Rightarrow> bounds_hold value arr)
      | _ \<Rightarrow> False)"

text \<open>The value of the field, \<open>None\<close> where it is not present.\<close>

definition eventOperatorMatches :: "string \<Rightarrow> any_value \<Rightarrow> any_value option \<Rightarrow> bool" where
  "eventOperatorMatches op arg field =
     (if op = ''exists'' then (case arg of ABool want \<Rightarrow> (field \<noteq> None) = want | _ \<Rightarrow> False)
      else (case field of
              None \<Rightarrow> False
            | Some actual \<Rightarrow>
                if op = ''prefix'' then
                  (case (arg, actual) of (AString p, AString s) \<Rightarrow> HasPrefix s p | _ \<Rightarrow> False)
                else if op = ''suffix'' then
                  (case (arg, actual) of (AString p, AString s) \<Rightarrow> HasSuffix s p | _ \<Rightarrow> False)
                else if op = ''equals-ignore-case'' then
                  (case (arg, actual) of (AString want, AString s) \<Rightarrow> EqualFold s want | _ \<Rightarrow> False)
                else if op = ''numeric'' then numericMatches arg actual
                else if op = ''anything-but'' then anythingButMatches arg actual
                else False))"

fun leafMatcherMatches :: "any_value \<Rightarrow> any_value option \<Rightarrow> bool" where
  "leafMatcherMatches (AMap m) field = (case m of [(op, arg)] \<Rightarrow> eventOperatorMatches op arg field | _ \<Rightarrow> False)"
| "leafMatcherMatches v field = (case field of None \<Rightarrow> False | Some actual \<Rightarrow> jsonValueEqual v actual)"

definition matchLeafMatchers :: "any_value list \<Rightarrow> any_value option \<Rightarrow> bool" where
  "matchLeafMatchers matchers field = list_ex (\<lambda>m. leafMatcherMatches m field) matchers"

fun patternValueMatches :: "any_value \<Rightarrow> any_value \<Rightarrow> bool" where
  "patternValueMatches (ASlice typed) actual = matchLeafMatchers typed (Some actual)"
| "patternValueMatches typed actual = leafMatcherMatches typed (Some actual)"

fun matchPatternObject :: "(string \<times> any_value) list \<Rightarrow> (string \<times> any_value) list \<Rightarrow> bool" where
  "matchPatternObject [] event = True"
| "matchPatternObject ((key, expected) # pat) event =
     ((case expected of
         AMap obj \<Rightarrow>
           if key = ''$or'' then False
           else (case map_of event key of
                   Some (AMap actMap) \<Rightarrow> matchPatternObject obj actMap
                 | _ \<Rightarrow> False)
       | ASlice matchers \<Rightarrow> matchLeafMatchers matchers (map_of event key)
       | _ \<Rightarrow> False) \<and>
      matchPatternObject pat event)"

datatype match_error = BadPattern | BadDetail

definition envelope :: "string \<Rightarrow> string \<Rightarrow> (string \<times> any_value) list \<Rightarrow> (string \<times> any_value) list" where
  "envelope source detailType d =
     [(''detail'', AMap d), (''detail-type'', AString detailType), (''source'', AString source)]"

definition matchEventPatternJSON :: "string \<Rightarrow> string \<Rightarrow> string \<Rightarrow> string \<Rightarrow> (match_error, bool) result" where
  "matchEventPatternJSON patternJSON source detailType detailJSON =
     (case unmarshal_map patternJSON of
        None \<Rightarrow> Inl BadPattern
      | Some pat \<Rightarrow>
          if pat = [] then Inr False
          else if TrimSpace detailJSON \<noteq> [] then
            (case unmarshal_map detailJSON of
               None \<Rightarrow> Inl BadDetail
             | Some d \<Rightarrow> Inr (matchPatternObject pat (envelope source detailType d)))
          else Inr (matchPatternObject pat (envelope source detailType [])))"

section \<open>What a pattern means\<close>

datatype event_matcher =
    Literal any_value
  | Exists bool
  | StartsWith string
  | EndsWith string
  | EqualsIgnoringCase string
  | Within "(string \<times> float64) list"
  | NoneOf "any_value list"
  | NoPrefix "string list"
  | NoSuffix "string list"

datatype event_pattern = Fields "(string \<times> event_pattern) list" | Leaf "event_matcher list"

text \<open>A comparison of a number of the pattern with the number, or the numeric text, of the field.\<close>

fun satisfied :: "event_matcher \<Rightarrow> any_value option \<Rightarrow> bool" where
  "satisfied (Literal v) x = (x = Some v)"
| "satisfied (Exists b) x = ((x \<noteq> None) = b)"
| "satisfied (StartsWith p) x = (\<exists>s. x = Some (AString (p @ s)))"
| "satisfied (EndsWith p) x = (\<exists>s. x = Some (AString (s @ p)))"
| "satisfied (EqualsIgnoringCase t) x = (\<exists>s. x = Some (AString s) \<and> EqualFold s t)"
| "satisfied (Within bs) x = (\<exists>v f. x = Some v \<and> asFloat64 v = Some f \<and> (\<forall>(c, b)\<in>set bs. compare_floats c f b))"
| "satisfied (NoneOf vs) x = (\<exists>v. x = Some v \<and> v \<notin> set vs)"
| "satisfied (NoPrefix ps) x = (x \<noteq> None \<and> (\<forall>p\<in>set ps. \<forall>s. x \<noteq> Some (AString (p @ s))))"
| "satisfied (NoSuffix ps) x = (x \<noteq> None \<and> (\<forall>p\<in>set ps. \<forall>s. x \<noteq> Some (AString (s @ p))))"

text \<open>The paths to the objects of a pattern, and the matchers at the paths to its arrays.\<close>

fun branches :: "event_pattern \<Rightarrow> string list list" where
  "branches (Fields fs) = [] # concat (map (\<lambda>(k, p). map ((#) k) (branches p)) fs)"
| "branches (Leaf ms) = []"

fun leaves :: "event_pattern \<Rightarrow> (string list \<times> event_matcher list) list" where
  "leaves (Fields fs) = concat (map (\<lambda>(k, p). map (\<lambda>(path, ms). (k # path, ms)) (leaves p)) fs)"
| "leaves (Leaf ms) = [([], ms)]"

fun value_at :: "string list \<Rightarrow> any_value \<Rightarrow> any_value option" where
  "value_at [] v = Some v"
| "value_at (k # ks) (AMap m) = Option.bind (map_of m k) (value_at ks)"
| "value_at (k # ks) _ = None"

definition event_matches :: "event_pattern \<Rightarrow> any_value \<Rightarrow> bool" where
  "event_matches p v \<longleftrightarrow>
     (\<forall>path\<in>set (branches p). \<exists>m. value_at path v = Some (AMap m)) \<and>
     (\<forall>(path, ms)\<in>set (leaves p). \<exists>m\<in>set ms. satisfied m (value_at path v))"

text \<open>The reading of a pattern.\<close>

fun strings_of :: "any_value list \<Rightarrow> string list option" where
  "strings_of [] = Some []"
| "strings_of (AString s # vs) = map_option ((#) s) (strings_of vs)"
| "strings_of _ = None"

fun read_bounds :: "any_value list \<Rightarrow> (string \<times> float64) list option" where
  "read_bounds [] = Some []"
| "read_bounds (AString c # b # rest) =
     (if comparison_known c then do { f \<leftarrow> asFloat64 b; bs \<leftarrow> read_bounds rest; Some ((c, f) # bs) } else None)"
| "read_bounds _ = None"

definition read_exclusion :: "any_value \<Rightarrow> event_matcher option" where
  "read_exclusion arg =
     (case arg of
        ASlice vs \<Rightarrow> if list_all scalar vs then Some (NoneOf vs) else None
      | AMap [(k, AString s)] \<Rightarrow>
          if k = ''prefix'' then Some (NoPrefix [s]) else if k = ''suffix'' then Some (NoSuffix [s]) else None
      | AMap [(k, ASlice vs)] \<Rightarrow>
          if k = ''prefix'' then map_option NoPrefix (strings_of vs)
          else if k = ''suffix'' then map_option NoSuffix (strings_of vs) else None
      | v \<Rightarrow> if scalar v then Some (NoneOf [v]) else None)"

definition read_operator :: "string \<Rightarrow> any_value \<Rightarrow> event_matcher option" where
  "read_operator op arg =
     (if op = ''anything-but'' then read_exclusion arg
      else (case arg of
              AString s \<Rightarrow>
                if op = ''prefix'' then Some (StartsWith s)
                else if op = ''suffix'' then Some (EndsWith s)
                else if op = ''equals-ignore-case'' then Some (EqualsIgnoringCase s) else None
            | ABool b \<Rightarrow> if op = ''exists'' then Some (Exists b) else None
            | ASlice vs \<Rightarrow> if op = ''numeric'' \<and> vs \<noteq> [] then map_option Within (read_bounds vs) else None
            | _ \<Rightarrow> None))"

definition read_matcher :: "any_value \<Rightarrow> event_matcher option" where
  "read_matcher v =
     (case v of
        AMap [(op, arg)] \<Rightarrow> read_operator op arg
      | _ \<Rightarrow> if scalar v then Some (Literal v) else None)"

fun read_pattern :: "any_value \<Rightarrow> event_pattern option"
  and read_fields :: "(string \<times> any_value) list \<Rightarrow> (string \<times> event_pattern) list option" where
  "read_pattern (AMap m) = map_option Fields (read_fields m)"
| "read_pattern (ASlice vs) = map_option Leaf (those (map read_matcher vs))"
| "read_pattern _ = None"
| "read_fields [] = Some []"
| "read_fields ((k, v) # m) =
     (if k = ''$or'' then None else do { p \<leftarrow> read_pattern v; ps \<leftarrow> read_fields m; Some ((k, p) # ps) })"

text \<open>The pattern a rule stores as text: an object.\<close>

definition pattern_of_text :: "string \<Rightarrow> event_pattern option" where
  "pattern_of_text t =
     (case Option.bind (json_parse t) decode_any of Some (AMap m) \<Rightarrow> read_pattern (AMap m) | _ \<Rightarrow> None)"

end
