(* ===== verification/Event_Pattern_Props.thy ===== *)
theory Event_Pattern_Props
  imports Event_Pattern
begin

text \<open>
  The validation lets through exactly the patterns that have a meaning, and the matcher decides it.
\<close>

section \<open>Decoded values\<close>

text \<open>Unmarshalling gives no \<open>int64\<close>; on such values \<open>normalizeJSONValue\<close> loses nothing.\<close>

fun decoded :: "any_value \<Rightarrow> bool" where
  "decoded (AInt i) = False"
| "decoded (ASlice vs) = list_all decoded vs"
| "decoded (AMap m) = list_all (\<lambda>(k, v). decoded v) m"
| "decoded _ = True"

lemma decoded_map_of: "decoded (AMap m) \<Longrightarrow> map_of m k = Some v \<Longrightarrow> decoded v"
  by (induction m) (auto split: if_splits)

lemma decode_any_decoded:
  "decode_any j = Some v \<Longrightarrow> decoded v"
  "decode_list js = Some vs \<Longrightarrow> list_all decoded vs"
  "decode_members kvs = Some m \<Longrightarrow> list_all (\<lambda>(k, v). decoded v) m"
proof (induction j and js and kvs arbitrary: v and vs and m rule: decode_any_decode_list_decode_members.induct)
  case (6 kvs)
  then obtain m where m: "decode_members kvs = Some m" "v = AMap (sort_key fst (last_wins m))" by auto
  then have "\<forall>(k, v)\<in>set m. decoded v" using 6(1) by (auto simp: list_all_iff)
  then show ?case using last_wins_subset [of m] m(2) by (auto simp: list_all_iff)
qed (auto split: option.splits float64.splits Option.bind_splits)

lemma unmarshal_map_decoded: "unmarshal_map t = Some m \<Longrightarrow> decoded (AMap m)"
  using decode_any_decoded(1)
  by (auto simp: unmarshal_map_def Option.bind_eq_Some_conv split: option.splits any_value.splits) force+

lemma normalize_scalar:
  "scalar v \<Longrightarrow> decoded x \<Longrightarrow> normalizeJSONValue v = normalizeJSONValue x \<longleftrightarrow> x = v"
  by (cases v; cases x) (auto split: if_splits)

lemma jsonValueEqual_scalar: "scalar v \<Longrightarrow> decoded x \<Longrightarrow> jsonValueEqual v x \<longleftrightarrow> x = v"
  by (simp only: jsonValueEqual_def normalize_scalar)

section \<open>The validation\<close>

lemma strings_of_ok: "strings_of vs = None \<longleftrightarrow> \<not> list_all is_string vs"
  by (induction vs rule: strings_of.induct) auto

lemma read_bounds_ok: "read_bounds vs = None \<longleftrightarrow> \<not> validate_bounds vs"
proof (induction vs rule: validate_bounds.induct)
  case (2 c b rest)
  then show ?case by (cases c) (auto simp del: not_None_eq split: Option.bind_splits)
qed auto

lemma validate_bounds_even: "validate_bounds vs \<Longrightarrow> length vs mod 2 = 0"
  by (induction vs rule: validate_bounds.induct) (auto split: any_value.splits if_splits)

lemma read_exclusion_ok: "read_exclusion v = None \<longleftrightarrow> \<not> validateAnythingButArg v"
proof (cases v)
  case (AMap m)
  consider "m = []" | k a where "m = [(k, a)]" | kv kv' m' where "m = kv # kv' # m'"
    by (metis list.exhaust prod.exhaust)
  then show ?thesis using AMap
    by cases (simp_all add: read_exclusion_def strings_of_ok split: any_value.split prod.split)
qed (auto simp: read_exclusion_def)

lemma read_operator_ok: "read_operator op arg = None \<longleftrightarrow> \<not> validateOperator op arg"
proof (cases "op = ''anything-but''")
  case True
  then show ?thesis by (simp add: read_operator_def validateOperator_def read_exclusion_ok)
next
  case False
  then show ?thesis
    by (cases arg) (auto simp: read_operator_def validateOperator_def read_bounds_ok dest: validate_bounds_even)
qed

lemma read_matcher_ok: "read_matcher v = None \<longleftrightarrow> \<not> validate_matcher v"
  by (cases v) (simp_all add: read_matcher_def read_operator_ok split: list.split prod.split)

lemma read_matchers_ok: "those (map read_matcher vs) = None \<longleftrightarrow> \<not> validateMatcherArray vs"
proof (induction vs)
  case (Cons v vs)
  then show ?case using read_matcher_ok [of v]
    by (cases "read_matcher v") (simp_all add: validateMatcherArray_def del: not_None_eq)
qed (simp add: validateMatcherArray_def)

lemma validate_fields:
  "validatePatternValue (AMap [])"
  "validatePatternValue (AMap ((k, v) # m)) \<longleftrightarrow>
     k \<noteq> ''$or'' \<and> (validatePatternValue v \<or> (\<exists>vs. v = ASlice vs \<and> validateMatcherArray vs)) \<and>
     validatePatternValue (AMap m)"
  by (simp, cases v) auto

lemma read_pattern_ok:
  "read_pattern v = None \<longleftrightarrow> \<not> (validatePatternValue v \<or> (\<exists>vs. v = ASlice vs \<and> validateMatcherArray vs))"
  "read_fields m = None \<longleftrightarrow> \<not> validatePatternValue (AMap m)"
proof (induction v and m rule: read_pattern_read_fields.induct)
  case (2 vs)
  then show ?case by (simp add: read_matchers_ok)
next
  case (5 k v m)
  then show ?case
    by (cases "read_pattern v"; cases "read_fields m")
      (simp_all add: validate_fields del: not_None_eq validatePatternValue.simps)
qed (simp_all add: validate_fields del: validatePatternValue.simps(1))

lemma pattern_of_text_valid: "validateEventPatternDeep t = Inr () \<longleftrightarrow> pattern_of_text t \<noteq> None"
proof -
  have "read_pattern (AMap m) = None \<longleftrightarrow> \<not> validatePatternValue (AMap m)" for m
    using read_pattern_ok(1) [of "AMap m"] by simp
  then show ?thesis
    unfolding validateEventPatternDeep_def pattern_of_text_def
    by (simp del: not_None_eq validatePatternValue.simps read_pattern.simps split: option.split any_value.split)
qed

section \<open>The matcher\<close>

lemma HasPrefix_append: "HasPrefix s p \<longleftrightarrow> (\<exists>r. s = p @ r)"
  by (auto simp: HasPrefix_def prefix_def)

lemma HasSuffix_append: "HasSuffix s p \<longleftrightarrow> (\<exists>r. s = r @ p)"
  by (auto simp: HasSuffix_def suffix_def)

lemma strings_of_set: "strings_of vs = Some ps \<Longrightarrow> vs = map AString ps"
  by (induction vs arbitrary: ps rule: strings_of.induct) auto

lemma bounds_hold_iff:
  "read_bounds vs = Some bs \<Longrightarrow> bounds_hold f vs \<longleftrightarrow> (\<forall>(c, b)\<in>set bs. compare_floats c f b)"
  by (induction vs arbitrary: bs rule: read_bounds.induct) (auto split: if_splits Option.bind_splits)

lemma numericMatches_satisfied:
  assumes "read_bounds vs = Some bs" "vs \<noteq> []"
  shows "numericMatches (ASlice vs) v = satisfied (Within bs) (Some v)"
proof -
  have "validate_bounds vs" using assms(1) read_bounds_ok [of vs] by simp
  then show ?thesis using assms validate_bounds_even [of vs] bounds_hold_iff [of vs bs]
    by (auto simp: numericMatches_def split: option.splits)
qed

lemma stringHasAnyPrefix_iff:
  "stringHasAnyPrefix v (AString p) = (\<exists>s. v = AString (p @ s))"
  "stringHasAnyPrefix v (ASlice (map AString ps)) = (\<exists>p\<in>set ps. \<exists>s. v = AString (p @ s))"
  by (cases v; auto simp: HasPrefix_append list_ex_iff)+

lemma stringHasAnySuffix_iff:
  "stringHasAnySuffix v (AString p) = (\<exists>s. v = AString (s @ p))"
  "stringHasAnySuffix v (ASlice (map AString ps)) = (\<exists>p\<in>set ps. \<exists>s. v = AString (s @ p))"
  by (cases v; auto simp: HasSuffix_append list_ex_iff)+

lemma anythingBut_scalar:
  "scalar v \<Longrightarrow> anythingButMatches v x = (\<not> jsonValueEqual v x)"
  by (cases v) auto

lemma anythingButMatches_satisfied:
  assumes "read_exclusion a = Some m" "decoded v"
  shows "anythingButMatches a v = satisfied m (Some v)"
proof -
  consider vs where "a = ASlice vs" "list_all scalar vs" "m = NoneOf vs"
    | s where "a = AMap [(''prefix'', AString s)]" "m = NoPrefix [s]"
    | s where "a = AMap [(''suffix'', AString s)]" "m = NoSuffix [s]"
    | ps where "a = AMap [(''prefix'', ASlice (map AString ps))]" "m = NoPrefix ps"
    | ps where "a = AMap [(''suffix'', ASlice (map AString ps))]" "m = NoSuffix ps"
    | "scalar a" "m = NoneOf [a]"
    using assms(1)
    by (auto simp: read_exclusion_def dest: strings_of_set split: any_value.splits list.splits prod.splits if_splits)
  then show ?thesis
  proof cases
    case 1
    then show ?thesis using assms(2) by (auto simp: list_ex_iff list_all_iff jsonValueEqual_scalar)
  next
    case 6
    then show ?thesis using assms(2) by (auto simp: anythingBut_scalar jsonValueEqual_scalar)
  qed (simp_all add: stringHasAnyPrefix_iff stringHasAnySuffix_iff)
qed

lemma eventOperatorMatches_satisfied:
  assumes "read_operator op arg = Some m" "\<And>v. x = Some v \<Longrightarrow> decoded v"
  shows "eventOperatorMatches op arg x = satisfied m x"
proof (cases "op = ''anything-but''")
  case True
  then have r: "read_exclusion arg = Some m" using assms(1) by (simp add: read_operator_def)
  show ?thesis
  proof (cases x)
    case None
    then show ?thesis using True r
      by (auto simp: eventOperatorMatches_def read_exclusion_def split: any_value.splits list.splits prod.splits if_splits)
  next
    case (Some v)
    then show ?thesis using True anythingButMatches_satisfied [OF r] assms(2)
      by (simp add: eventOperatorMatches_def)
  qed
next
  case False
  consider b where "op = ''exists''" "arg = ABool b" "m = Exists b"
    | s where "op = ''prefix''" "arg = AString s" "m = StartsWith s"
    | s where "op = ''suffix''" "arg = AString s" "m = EndsWith s"
    | s where "op = ''equals-ignore-case''" "arg = AString s" "m = EqualsIgnoringCase s"
    | vs bs where "op = ''numeric''" "arg = ASlice vs" "vs \<noteq> []" "read_bounds vs = Some bs" "m = Within bs"
    using assms(1) False by (auto simp: read_operator_def split: any_value.splits if_splits)
  then show ?thesis
  proof cases
    case 5
    then show ?thesis using numericMatches_satisfied [OF 5(4) 5(3)]
      by (cases x) (simp_all add: eventOperatorMatches_def)
  qed (auto simp: eventOperatorMatches_def HasPrefix_append HasSuffix_append split: option.split any_value.split)
qed

lemma leafMatcher_scalar:
  "scalar v \<Longrightarrow> leafMatcherMatches v x = (case x of None \<Rightarrow> False | Some a \<Rightarrow> jsonValueEqual v a)"
  by (cases v) auto

lemma leafMatcherMatches_satisfied:
  assumes "read_matcher v = Some m" "\<And>a. x = Some a \<Longrightarrow> decoded a"
  shows "leafMatcherMatches v x = satisfied m x"
proof -
  consider op arg where "v = AMap [(op, arg)]" "read_operator op arg = Some m" | "scalar v" "m = Literal v"
    using assms(1) by (auto simp: read_matcher_def split: any_value.splits list.splits prod.splits if_splits)
  then show ?thesis
  proof cases
    case 1
    then show ?thesis using eventOperatorMatches_satisfied [OF 1(2) assms(2)] by simp
  next
    case 2
    then show ?thesis using assms(2)
      by (auto simp: leafMatcher_scalar jsonValueEqual_scalar split: option.split)
  qed
qed

lemma matchLeafMatchers_satisfied:
  assumes "those (map read_matcher vs) = Some ms" "\<And>a. x = Some a \<Longrightarrow> decoded a"
  shows "matchLeafMatchers vs x = (\<exists>m\<in>set ms. satisfied m x)"
  using assms(1)
proof (induction vs arbitrary: ms)
  case (Cons v vs)
  then obtain m ms' where "read_matcher v = Some m" "those (map read_matcher vs) = Some ms'" "ms = m # ms'"
    by (auto split: option.splits)
  then show ?case using Cons.IH [of ms'] leafMatcherMatches_satisfied [of v m x] assms(2)
    by (simp add: matchLeafMatchers_def)
qed (simp add: matchLeafMatchers_def)

text \<open>The condition of one field, as the conditions of its paths.\<close>

lemma event_matches_leaf: "event_matches (Leaf ms) v = (\<exists>m\<in>set ms. satisfied m (Some v))"
  by (simp add: event_matches_def)

definition field_matches :: "event_pattern \<Rightarrow> any_value option \<Rightarrow> bool" where
  "field_matches p x =
     ((\<forall>path\<in>set (branches p). \<exists>m. Option.bind x (value_at path) = Some (AMap m)) \<and>
      (\<forall>(path, ms)\<in>set (leaves p). \<exists>m\<in>set ms. satisfied m (Option.bind x (value_at path))))"

lemma field_matches_Some: "field_matches p (Some v) = event_matches p v"
  by (simp add: field_matches_def event_matches_def)

lemma field_matches_leaf: "field_matches (Leaf ms) x = (\<exists>m\<in>set ms. satisfied m x)"
  by (cases x) (simp_all add: field_matches_def)

lemma field_matches_fields: "field_matches (Fields fs) x \<Longrightarrow> \<exists>m. x = Some (AMap m)"
  by (auto simp: field_matches_def Option.bind_eq_Some_conv)

lemma event_matches_fields:
  "event_matches (Fields fs) (AMap e) = (\<forall>(k, p)\<in>set fs. field_matches p (map_of e k))"
  by (fastforce simp: event_matches_def field_matches_def)

lemma matchPatternObject_matches:
  "read_fields pat = Some fs \<Longrightarrow> decoded (AMap e) \<Longrightarrow>
   matchPatternObject pat e = event_matches (Fields fs) (AMap e)"
proof (induction pat e arbitrary: fs rule: matchPatternObject.induct)
  case (1 e)
  then show ?case by (simp add: event_matches_fields)
next
  case (2 key expected pat e)
  obtain p ps where p: "key \<noteq> ''$or''" "read_pattern expected = Some p" "read_fields pat = Some ps" "fs = (key, p) # ps"
    using 2(3) by (auto split: if_splits Option.bind_splits)
  have dec: "decoded v" if "map_of e key = Some v" for v using decoded_map_of [OF 2(4) that] .
  have rest: "matchPatternObject pat e = (\<forall>(k, p)\<in>set ps. field_matches p (map_of e k))"
    using 2(2) [OF p(3) 2(4)] by (simp only: event_matches_fields)
  consider obj qs where "expected = AMap obj" "read_fields obj = Some qs" "p = Fields qs"
    | ms rs where "expected = ASlice ms" "those (map read_matcher ms) = Some rs" "p = Leaf rs"
    using p(2) by (cases expected) auto
  then have "matchPatternObject [(key, expected)] e = field_matches p (map_of e key)"
  proof cases
    case 1
    show ?thesis
    proof (cases "\<exists>a. map_of e key = Some (AMap a)")
      case True
      then obtain a where a: "map_of e key = Some (AMap a)" by blast
      then show ?thesis using 2(1) [OF 1(1) p(1) a refl, of qs] 1 p(1) dec [OF a]
        by (simp add: field_matches_Some)
    next
      case False
      then show ?thesis using 1 p(1) field_matches_fields [of qs "map_of e key"]
        by (auto split: option.split any_value.split)
    qed
  next
    case 2
    then show ?thesis using matchLeafMatchers_satisfied [OF 2(2) dec] by (simp add: field_matches_leaf)
  qed
  then show ?case using rest p(4) by (simp add: event_matches_fields)
qed

end
