(* ===== verification/Event_Bus.thy ===== *)
theory Event_Bus
  imports Event_Pattern_Props Sql_Table
begin

text \<open>
  The tables of \<open>internal/store/events.go\<close> and the operations on event buses, rules and targets. Every
  operation of the database is a statement on lists of rows; random ids and readings of the clock are
  arguments. Errors of SQLite itself are not modelled.
\<close>

section \<open>State\<close>

datatype event_error =
    ErrEventBusAlreadyExists
  | ErrNoSuchEventBus
  | ErrCannotDeleteDefaultEventBus
  | ErrNoSuchEventRule
  | ErrNoSuchEventTarget
  | ErrNoSuchEventEntry
  | ErrEventTargetRoleArnRequired
  | ErrNameRequired
  | ErrInvalidPattern pattern_error
  | ErrTargetIncomplete
  | ErrTransformerCombined
  | ErrDetailNotJSON
  | ErrMatch match_error
  | ErrDuplicateKey

record EventBus =
  eb_AccountID :: string
  eb_Name :: string
  eb_ARN :: string
  eb_Policy :: string
  eb_CreationDate :: string

record EventRule =
  er_AccountID :: string
  er_BusName :: string
  er_Name :: string
  er_ARN :: string
  er_Pattern :: string
  er_State :: string
  er_Description :: string

record EventTarget =
  et_AccountID :: string
  et_BusName :: string
  et_RuleName :: string
  et_ID :: string
  et_ARN :: string
  et_RoleARN :: string
  et_Input :: string
  et_InputPath :: string
  et_InputTransformerJSON :: string
  et_DeadLetterARN :: string

text \<open>The map of an \<open>EventBridgeInputTransformer\<close> as its entries.\<close>

record EventBridgeInputTransformer =
  tr_InputPathsMap :: "(string \<times> string) list"
  tr_InputTemplate :: string

record EventTargetInput =
  ti_ID :: string
  ti_ARN :: string
  ti_RoleARN :: string
  ti_Input :: string
  ti_InputPath :: string
  ti_InputTransformer :: "EventBridgeInputTransformer option"
  ti_DeadLetterARN :: string

record event_entry =
  ee_entry_id :: string
  ee_account :: string
  ee_bus :: string
  ee_source :: string
  ee_detail_type :: string
  ee_detail :: string
  ee_created :: string

record event_match =
  em_match_id :: string
  em_EntryID :: string
  em_RuleARN :: string
  em_TargetARN :: string
  em_TargetID :: string
  em_created :: string

record event_delivery =
  ed_delivery_id :: string
  ed_account :: string
  ed_bus :: string
  ed_rule :: string
  ed_EntryID :: string
  ed_TargetID :: string
  ed_TargetARN :: string
  ed_Status :: string
  ed_ErrorMessage :: string
  ed_DLQSent :: bool
  ed_CreatedAt :: string

record events =
  ev_buses :: "EventBus list"
  ev_rules :: "EventRule list"
  ev_targets :: "EventTarget list"
  ev_entries :: "event_entry list"
  ev_matches :: "event_match list"
  ev_deliveries :: "event_delivery list"

section \<open>Names\<close>

definition DefaultEventBusName :: string where "DefaultEventBusName = ''default''"
definition RuleStateEnabled :: string where "RuleStateEnabled = ''ENABLED''"
definition RuleStateDisabled :: string where "RuleStateDisabled = ''DISABLED''"

definition EventBusARN :: "string \<Rightarrow> string \<Rightarrow> string \<Rightarrow> string" where
  "EventBusARN region account busName =
     ''arn:aws:events:'' @ (if region = [] then ''us-east-1'' else region) @ '':'' @ account @ '':event-bus/'' @ busName"

definition EventRuleARN :: "string \<Rightarrow> string \<Rightarrow> string \<Rightarrow> string \<Rightarrow> string" where
  "EventRuleARN region account bus ruleName =
     (let r = (if region = [] then ''us-east-1'' else region); busName = TrimSpace bus;
          stem = ''arn:aws:events:'' @ r @ '':'' @ account @ '':rule/''
      in if busName = [] \<or> busName = DefaultEventBusName then stem @ ruleName
         else stem @ busName @ ''/'' @ ruleName)"

definition normalizeEventBusName :: "string \<Rightarrow> string" where
  "normalizeEventBusName name = (let n = TrimSpace name in if n = [] then DefaultEventBusName else n)"

definition normalizeRuleState :: "string \<Rightarrow> string" where
  "normalizeRuleState st =
     (if TrimSpace (ToUpper st) = RuleStateDisabled then RuleStateDisabled else RuleStateEnabled)"

section \<open>Buses\<close>

definition bus_key :: "EventBus \<Rightarrow> string \<times> string" where
  "bus_key b = (eb_AccountID b, eb_Name b)"

definition GetEventBus :: "events \<Rightarrow> string \<Rightarrow> string \<Rightarrow> (event_error, EventBus) result" where
  "GetEventBus ev account bus =
     (case List.find (\<lambda>b. bus_key b = (account, normalizeEventBusName bus)) (ev_buses ev) of
        None \<Rightarrow> Inl ErrNoSuchEventBus | Some b \<Rightarrow> Inr b)"

definition new_bus :: "instant \<Rightarrow> string \<Rightarrow> string \<Rightarrow> string \<Rightarrow> EventBus" where
  "new_bus now region account name =
     \<lparr>eb_AccountID = account, eb_Name = name, eb_ARN = EventBusARN region account name, eb_Policy = [],
      eb_CreationDate = format_RFC3339 now\<rparr>"

definition ensureDefaultEventBus :: "instant \<Rightarrow> events \<Rightarrow> string \<Rightarrow> string \<Rightarrow> events" where
  "ensureDefaultEventBus now ev account region =
     (case GetEventBus ev account DefaultEventBusName of
        Inr _ \<Rightarrow> ev
      | Inl _ \<Rightarrow> ev\<lparr>ev_buses := ev_buses ev @ [new_bus now region account DefaultEventBusName]\<rparr>)"

definition CreateEventBus ::
  "instant \<Rightarrow> events \<Rightarrow> string \<Rightarrow> string \<Rightarrow> string \<Rightarrow> (event_error, EventBus \<times> events) result"
where
  "CreateEventBus now ev account region name =
     (let busName = TrimSpace name
      in if busName = [] then Inl ErrNameRequired
         else if busName = DefaultEventBusName then
           (let ev' = ensureDefaultEventBus now ev account region
            in case GetEventBus ev' account DefaultEventBusName of Inl e \<Rightarrow> Inl e | Inr b \<Rightarrow> Inr (b, ev'))
         else (case sql_insert bus_key (new_bus now region account busName) (ev_buses ev) of
                 None \<Rightarrow> Inl ErrEventBusAlreadyExists
               | Some bs \<Rightarrow> Inr (new_bus now region account busName, ev\<lparr>ev_buses := bs\<rparr>)))"

definition DescribeEventBus ::
  "instant \<Rightarrow> events \<Rightarrow> string \<Rightarrow> string \<Rightarrow> (event_error, EventBus) result \<times> events"
where
  "DescribeEventBus now ev account bus =
     (let busName = normalizeEventBusName bus;
          ev' = (if busName = DefaultEventBusName then ensureDefaultEventBus now ev account [] else ev)
      in (GetEventBus ev' account busName, ev'))"

definition ListEventBuses :: "instant \<Rightarrow> events \<Rightarrow> string \<Rightarrow> EventBus list \<times> events" where
  "ListEventBuses now ev account =
     (let ev' = ensureDefaultEventBus now ev account []
      in (sort_key eb_Name (filter (\<lambda>b. eb_AccountID b = account) (ev_buses ev')), ev'))"

definition DeleteEventBus :: "events \<Rightarrow> string \<Rightarrow> string \<Rightarrow> (event_error, events) result" where
  "DeleteEventBus ev account bus =
     (let busName = normalizeEventBusName bus
      in if busName = DefaultEventBusName then Inl ErrCannotDeleteDefaultEventBus
         else (case GetEventBus ev account busName of
                 Inl e \<Rightarrow> Inl e
               | Inr _ \<Rightarrow>
                   Inr (ev\<lparr>ev_targets := filter (\<lambda>t. \<not> (et_AccountID t = account \<and> et_BusName t = busName)) (ev_targets ev),
                           ev_rules := filter (\<lambda>r. \<not> (er_AccountID r = account \<and> er_BusName r = busName)) (ev_rules ev),
                           ev_buses := filter (\<lambda>b. bus_key b \<noteq> (account, busName)) (ev_buses ev)\<rparr>)))"

section \<open>Rules\<close>

definition rule_key :: "EventRule \<Rightarrow> string \<times> string \<times> string" where
  "rule_key r = (er_AccountID r, er_BusName r, er_Name r)"

definition PutRule ::
  "instant \<Rightarrow> events \<Rightarrow> string \<Rightarrow> string \<Rightarrow> string \<Rightarrow> string \<Rightarrow> string \<Rightarrow> string \<Rightarrow> string \<Rightarrow>
   (event_error, EventRule \<times> events) result"
where
  "PutRule now ev account region bus rule pat description st =
     (let busName = normalizeEventBusName bus; ruleName = TrimSpace rule;
          pattern = (if TrimSpace pat = [] then ''{}'' else pat)
      in if ruleName = [] then Inl ErrNameRequired
         else (case validateEventPatternDeep pattern of
                 Inl e \<Rightarrow> Inl (ErrInvalidPattern e)
               | Inr _ \<Rightarrow>
                   (case (if busName = DefaultEventBusName then Inr (ensureDefaultEventBus now ev account region)
                          else (case GetEventBus ev account busName of Inl e \<Rightarrow> Inl e | Inr _ \<Rightarrow> Inr ev)) of
                      Inl e \<Rightarrow> Inl e
                    | Inr ev' \<Rightarrow>
                        (let r = \<lparr>er_AccountID = account, er_BusName = busName, er_Name = ruleName,
                                  er_ARN = EventRuleARN region account busName ruleName, er_Pattern = pattern,
                                  er_State = normalizeRuleState st, er_Description = TrimSpace description\<rparr>
                         in Inr (r, ev'\<lparr>ev_rules := sql_upsert rule_key (\<lambda>_. r) r (ev_rules ev')\<rparr>)))))"

definition DescribeRule :: "events \<Rightarrow> string \<Rightarrow> string \<Rightarrow> string \<Rightarrow> (event_error, EventRule) result" where
  "DescribeRule ev account bus ruleName =
     (case List.find (\<lambda>r. rule_key r = (account, normalizeEventBusName bus, ruleName)) (ev_rules ev) of
        None \<Rightarrow> Inl ErrNoSuchEventRule | Some r \<Rightarrow> Inr r)"

definition rules_of :: "events \<Rightarrow> string \<Rightarrow> string \<Rightarrow> EventRule list" where
  "rules_of ev account busName =
     sort_key er_Name (filter (\<lambda>r. er_AccountID r = account \<and> er_BusName r = busName) (ev_rules ev))"

definition ListRules :: "instant \<Rightarrow> events \<Rightarrow> string \<Rightarrow> string \<Rightarrow> EventRule list \<times> events" where
  "ListRules now ev account bus =
     (let busName = normalizeEventBusName bus;
          ev' = (if busName = DefaultEventBusName then ensureDefaultEventBus now ev account [] else ev)
      in (rules_of ev' account busName, ev'))"

definition target_of_rule :: "string \<Rightarrow> string \<Rightarrow> string \<Rightarrow> EventTarget \<Rightarrow> bool" where
  "target_of_rule account busName ruleName t \<longleftrightarrow>
     et_AccountID t = account \<and> et_BusName t = busName \<and> et_RuleName t = ruleName"

definition DeleteRule :: "events \<Rightarrow> string \<Rightarrow> string \<Rightarrow> string \<Rightarrow> (event_error, events) result" where
  "DeleteRule ev account bus ruleName =
     (case DescribeRule ev account bus ruleName of
        Inl e \<Rightarrow> Inl e
      | Inr _ \<Rightarrow>
          (let busName = normalizeEventBusName bus
           in Inr (ev\<lparr>ev_targets := filter (\<lambda>t. \<not> target_of_rule account busName ruleName t) (ev_targets ev),
                      ev_rules := filter (\<lambda>r. rule_key r \<noteq> (account, busName, ruleName)) (ev_rules ev)\<rparr>)))"

definition setRuleState :: "events \<Rightarrow> string \<Rightarrow> string \<Rightarrow> string \<Rightarrow> string \<Rightarrow> (event_error, events) result" where
  "setRuleState ev account bus ruleName st =
     (case DescribeRule ev account bus ruleName of
        Inl e \<Rightarrow> Inl e
      | Inr _ \<Rightarrow>
          (let busName = normalizeEventBusName bus
           in Inr (ev\<lparr>ev_rules := map (\<lambda>r. if rule_key r = (account, busName, ruleName) then r\<lparr>er_State := st\<rparr> else r)
                                    (ev_rules ev)\<rparr>)))"

definition EnableRule :: "events \<Rightarrow> string \<Rightarrow> string \<Rightarrow> string \<Rightarrow> (event_error, events) result" where
  "EnableRule ev account bus ruleName = setRuleState ev account bus ruleName RuleStateEnabled"

definition DisableRule :: "events \<Rightarrow> string \<Rightarrow> string \<Rightarrow> string \<Rightarrow> (event_error, events) result" where
  "DisableRule ev account bus ruleName = setRuleState ev account bus ruleName RuleStateDisabled"

section \<open>Targets\<close>

text \<open>\<open>internal/store/events_inputtransformer.go\<close>: what is stored of a transformer.\<close>

definition marshalEventBridgeInputTransformer :: "EventBridgeInputTransformer option \<Rightarrow> string" where
  "marshalEventBridgeInputTransformer tr =
     (case tr of
        None \<Rightarrow> []
      | Some t \<Rightarrow>
          if TrimSpace (tr_InputTemplate t) = [] then []
          else ''{'' @ quote ''InputPathsMap'' @ '':'' @ marshal_map (tr_InputPathsMap t) @ '','' @
               quote ''InputTemplate'' @ '':'' @ quote (tr_InputTemplate t) @ ''}'')"

text \<open>No type of target requires a role any more.\<close>

definition eventTargetRequiresRoleARN :: "string \<Rightarrow> bool" where
  "eventTargetRequiresRoleARN targetARN = False"

definition target_key :: "EventTarget \<Rightarrow> string \<times> string \<times> string \<times> string" where
  "target_key t = (et_AccountID t, et_BusName t, et_RuleName t, et_ID t)"

definition target_row :: "string \<Rightarrow> string \<Rightarrow> string \<Rightarrow> EventTargetInput \<Rightarrow> (event_error, EventTarget) result" where
  "target_row account busName ruleName tgt =
     (let id = TrimSpace (ti_ID tgt); arn = TrimSpace (ti_ARN tgt); roleARN = TrimSpace (ti_RoleARN tgt);
          transformerJSON = marshalEventBridgeInputTransformer (ti_InputTransformer tgt)
      in if id = [] \<or> arn = [] then Inl ErrTargetIncomplete
         else if roleARN = [] \<and> eventTargetRequiresRoleARN arn then Inl ErrEventTargetRoleArnRequired
         else if transformerJSON \<noteq> [] \<and> (TrimSpace (ti_Input tgt) \<noteq> [] \<or> TrimSpace (ti_InputPath tgt) \<noteq> [])
         then Inl ErrTransformerCombined
         else Inr \<lparr>et_AccountID = account, et_BusName = busName, et_RuleName = ruleName, et_ID = id, et_ARN = arn,
                   et_RoleARN = roleARN, et_Input = TrimSpace (ti_Input tgt), et_InputPath = TrimSpace (ti_InputPath tgt),
                   et_InputTransformerJSON = transformerJSON, et_DeadLetterARN = TrimSpace (ti_DeadLetterARN tgt)\<rparr>)"

fun put_target_rows ::
  "string \<Rightarrow> string \<Rightarrow> string \<Rightarrow> EventTargetInput list \<Rightarrow> EventTarget list \<Rightarrow> (event_error, EventTarget list) result"
where
  "put_target_rows account busName ruleName [] rows = Inr rows"
| "put_target_rows account busName ruleName (tgt # tgts) rows =
     (case target_row account busName ruleName tgt of
        Inl e \<Rightarrow> Inl e
      | Inr t \<Rightarrow> put_target_rows account busName ruleName tgts (sql_upsert target_key (\<lambda>_. t) t rows))"

text \<open>One transaction: after an error nothing of it stays.\<close>

definition PutTargets :: "events \<Rightarrow> string \<Rightarrow> string \<Rightarrow> string \<Rightarrow> EventTargetInput list \<Rightarrow> (event_error, events) result" where
  "PutTargets ev account bus ruleName tgts =
     (case DescribeRule ev account bus ruleName of
        Inl e \<Rightarrow> Inl e
      | Inr _ \<Rightarrow>
          (case put_target_rows account (normalizeEventBusName bus) ruleName tgts (ev_targets ev) of
             Inl e \<Rightarrow> Inl e
           | Inr rows \<Rightarrow> Inr (ev\<lparr>ev_targets := rows\<rparr>)))"

text \<open>No transaction: the targets before an unknown one are gone.\<close>

fun remove_target_rows ::
  "string \<Rightarrow> string \<Rightarrow> string \<Rightarrow> string list \<Rightarrow> EventTarget list \<Rightarrow> EventTarget list \<times> event_error option"
where
  "remove_target_rows account busName ruleName [] rows = (rows, None)"
| "remove_target_rows account busName ruleName (raw # ids) rows =
     (let id = TrimSpace raw
      in if id = [] then remove_target_rows account busName ruleName ids rows
         else (case sql_delete (\<lambda>t. target_key t = (account, busName, ruleName, id)) rows of
                 None \<Rightarrow> (rows, Some ErrNoSuchEventTarget)
               | Some rows' \<Rightarrow> remove_target_rows account busName ruleName ids rows'))"

definition RemoveTargets :: "events \<Rightarrow> string \<Rightarrow> string \<Rightarrow> string \<Rightarrow> string list \<Rightarrow> events \<times> event_error option" where
  "RemoveTargets ev account bus ruleName ids =
     (case DescribeRule ev account bus ruleName of
        Inl e \<Rightarrow> (ev, Some e)
      | Inr _ \<Rightarrow>
          (case remove_target_rows account (normalizeEventBusName bus) ruleName ids (ev_targets ev) of
             (rows, err) \<Rightarrow> (ev\<lparr>ev_targets := rows\<rparr>, err)))"

definition targets_of :: "events \<Rightarrow> string \<Rightarrow> string \<Rightarrow> string \<Rightarrow> EventTarget list" where
  "targets_of ev account busName ruleName =
     sort_key et_ID (filter (target_of_rule account busName ruleName) (ev_targets ev))"

definition ListTargetsByRule :: "events \<Rightarrow> string \<Rightarrow> string \<Rightarrow> string \<Rightarrow> (event_error, EventTarget list) result" where
  "ListTargetsByRule ev account bus ruleName =
     (case DescribeRule ev account bus ruleName of
        Inl e \<Rightarrow> Inl e | Inr _ \<Rightarrow> Inr (targets_of ev account (normalizeEventBusName bus) ruleName))"

section \<open>What happened\<close>

definition GetPutEventsMatches :: "events \<Rightarrow> string \<Rightarrow> (event_error, event_match list) result" where
  "GetPutEventsMatches ev entryID =
     (if \<exists>e\<in>set (ev_entries ev). ee_entry_id e = entryID
      then Inr (sort_key em_TargetID (filter (\<lambda>m. em_EntryID m = entryID) (ev_matches ev)))
      else Inl ErrNoSuchEventEntry)"

definition ListEventTargetDeliveryHistory ::
  "events \<Rightarrow> string \<Rightarrow> string \<Rightarrow> string \<Rightarrow> int \<Rightarrow> (event_error, event_delivery list) result"
where
  "ListEventTargetDeliveryHistory ev account bus ruleName limit =
     (case DescribeRule ev account bus ruleName of
        Inl e \<Rightarrow> Inl e
      | Inr _ \<Rightarrow>
          (let busName = normalizeEventBusName bus; n = (if limit \<le> 0 then 50 else limit);
               rows = filter (\<lambda>d. ed_account d = account \<and> ed_bus d = busName \<and> ed_rule d = ruleName) (ev_deliveries ev)
           in Inr (take (nat n) (rev (sort_key (\<lambda>d. (ed_CreatedAt d, ed_delivery_id d)) rows)))))"

end
