(* ===== verification/Event_Input.thy ===== *)
theory Event_Input
  imports Event_Bus
begin

text \<open>
  What a target receives: \<open>internal/store/lab_jsonpath.go\<close> (a subset of JSONPath), \<open>events_inputpath.go\<close>,
  \<open>events_inputtransformer.go\<close> and the body of an event of \<open>events.go\<close>. \<open>None\<close> is an error, except where a
  type of errors is declared.
\<close>

section \<open>Paths\<close>

datatype path_error = PathUnsupported | PathNotObject | PathMissingKey

datatype LabPathProfile = LabPathTopLevelOnly | LabPathNested

text \<open>The member of an object that \<open>Unmarshal\<close> keeps.\<close>

definition member :: "string \<Rightarrow> json \<Rightarrow> (path_error, json) result" where
  "member k j =
     (case j of
        JObj kvs \<Rightarrow> (case map_of (last_wins kvs) k of None \<Rightarrow> Inl PathMissingKey | Some v \<Rightarrow> Inr v)
      | _ \<Rightarrow> Inl PathNotObject)"

definition labJSONPathTopLevel :: "json \<Rightarrow> string \<Rightarrow> (path_error, json) result" where
  "labJSONPathTopLevel data rest =
     (let field = TrimPrefix rest ''.''
      in if \<not> HasPrefix rest ''.'' \<or> field = [] \<or> Contains field ''.'' \<or> ContainsAny field ''['' then Inl PathUnsupported
         else member field data)"

fun walk_segments :: "json \<Rightarrow> string list \<Rightarrow> (path_error, json) result" where
  "walk_segments cur [] = Inr cur"
| "walk_segments cur (seg # segs) =
     (if seg = [] then Inl PathUnsupported
      else (case member seg cur of Inl e \<Rightarrow> Inl e | Inr v \<Rightarrow> walk_segments v segs))"

definition labJSONPathNested :: "json \<Rightarrow> string \<Rightarrow> (path_error, json) result" where
  "labJSONPathNested data rest =
     (if \<not> HasPrefix rest ''.'' then Inl PathUnsupported
      else walk_segments data (Split (TrimPrefix rest ''.'') CHR ''.''))"

definition LabJSONPathExtract :: "json \<Rightarrow> string \<Rightarrow> LabPathProfile \<Rightarrow> (path_error, json) result" where
  "LabJSONPathExtract data path0 profile =
     (let path = TrimSpace path0
      in if path = [] \<or> path = ''$'' then Inr data
         else if \<not> HasPrefix path ''$'' \<or> ContainsAny path ''[]*'' then Inl PathUnsupported
         else (let rest = TrimPrefix path ''$''
               in if rest = [] then Inr data
                  else (case profile of
                          LabPathTopLevelOnly \<Rightarrow> labJSONPathTopLevel data rest
                        | LabPathNested \<Rightarrow> labJSONPathNested data rest)))"

text \<open>
  \<open>json.Unmarshal\<close> of the event into \<open>any\<close>, which fails on a number out of range, and \<open>json.Marshal\<close> of the
  part at the path.
\<close>

definition applyEventBridgeInputPath :: "string \<Rightarrow> string \<Rightarrow> string option" where
  "applyEventBridgeInputPath eventJSON path0 =
     (let inputPath = TrimSpace path0
      in if inputPath = [] \<or> inputPath = ''$'' then Some eventJSON
         else do { root \<leftarrow> json_parse eventJSON;
                   if \<not> numbers_ok root then None
                   else (case LabJSONPathExtract root inputPath LabPathNested of
                           Inl _ \<Rightarrow> None | Inr cur \<Rightarrow> marshal_any cur) })"

section \<open>Transformers\<close>

text \<open>\<open>strings.ReplaceAll\<close> of a pattern that is not empty.\<close>

function ReplaceAll :: "string \<Rightarrow> string \<Rightarrow> string \<Rightarrow> string" where
  "ReplaceAll [] old new = []"
| "ReplaceAll (c # cs) old new =
     (if old \<noteq> [] \<and> prefix old (c # cs) then new @ ReplaceAll (drop (length old) (c # cs)) old new
      else c # ReplaceAll cs old new)"
  by pat_completeness auto
termination
  by (relation "measure (\<lambda>(s, old, new). length s)") auto

definition placeholder :: "string \<Rightarrow> string" where
  "placeholder name = ''<'' @ name @ ''>''"

text \<open>The loop over \<open>InputPathsMap\<close>, its entries in the order visited.\<close>

fun extract_vars :: "string \<Rightarrow> (string \<times> string) list \<Rightarrow> (string \<times> string) list \<Rightarrow> (string \<times> string) list option" where
  "extract_vars eventJSON [] vars = Some vars"
| "extract_vars eventJSON ((n, p) # paths) vars =
     (let name = TrimSpace n; path = TrimSpace p
      in if name = [] \<or> path = [] then None
         else do { extracted \<leftarrow> applyEventBridgeInputPath eventJSON path;
                   extract_vars eventJSON paths (AList.update name extracted vars) })"

definition substitute :: "(string \<times> string) list \<Rightarrow> string \<Rightarrow> string" where
  "substitute vars template = fold (\<lambda>(name, value) s. ReplaceAll s (placeholder name) value) vars template"

text \<open>\<open>visit\<close> is the order in which the two loops over maps visit them.\<close>

definition applyEventBridgeInputTransformer ::
  "((string \<times> string) list \<Rightarrow> (string \<times> string) list) \<Rightarrow> string \<Rightarrow> EventBridgeInputTransformer \<Rightarrow> string option"
where
  "applyEventBridgeInputTransformer visit eventJSON tr =
     (let template = TrimSpace (tr_InputTemplate tr)
      in if template = [] then None
         else do { vars \<leftarrow> extract_vars eventJSON (visit (tr_InputPathsMap tr)) [];
                   let out = substitute (visit vars) template
                   in if list_ex (\<lambda>(name, value). Contains out (placeholder name)) vars then None
                      else Some (if json_parse out = None then quote out else out) })"

definition dec_transformer_field ::
  "EventBridgeInputTransformer \<Rightarrow> string \<times> json \<Rightarrow> EventBridgeInputTransformer option"
where
  "dec_transformer_field t kv =
     (case kv of (k, v) \<Rightarrow>
        if EqualFold k ''InputPathsMap'' then
          (if v = JNull then Some (t\<lparr>tr_InputPathsMap := []\<rparr>)
           else map_option (\<lambda>m. t\<lparr>tr_InputPathsMap := last_wins (tr_InputPathsMap t @ m)\<rparr>) (dec_string_map v))
        else if EqualFold k ''InputTemplate'' then
          map_option (\<lambda>s. t\<lparr>tr_InputTemplate := s\<rparr>) (dec_string (tr_InputTemplate t) v)
        else Some t)"

text \<open>The inner \<open>None\<close> says that no transformer is set.\<close>

definition parseEventBridgeInputTransformerJSON :: "string \<Rightarrow> EventBridgeInputTransformer option option" where
  "parseEventBridgeInputTransformerJSON raw0 =
     (let raw = TrimSpace raw0
      in if raw = [] then Some None
         else do { j \<leftarrow> json_parse raw;
                   t \<leftarrow> dec_struct dec_transformer_field \<lparr>tr_InputPathsMap = [], tr_InputTemplate = []\<rparr> j;
                   if TrimSpace (tr_InputTemplate t) = [] then None else Some (Some t) })"

section \<open>The body\<close>

text \<open>A detail that does not decode is sent as an empty object.\<close>

definition detail_text :: "string \<Rightarrow> string" where
  "detail_text detailJSON =
     (case Option.bind (json_parse detailJSON) marshal_any of None \<Rightarrow> ''{}'' | Some t \<Rightarrow> t)"

definition eventBridgeDeliveryBody :: "event_entry \<Rightarrow> string" where
  "eventBridgeDeliveryBody e =
     marshal_members
       [(''version'', quote ''0''), (''id'', quote (ee_entry_id e)), (''detail-type'', quote (ee_detail_type e)),
        (''source'', quote (ee_source e)), (''account'', quote (ee_account e)), (''time'', quote (ee_created e)),
        (''region'', quote ''us-east-1''), (''resources'', ''[]''), (''detail'', detail_text (ee_detail e))]"

text \<open>A constant input, else the transformer, else the path; \<open>None\<close> where nothing is delivered.\<close>

definition delivery_input ::
  "((string \<times> string) list \<Rightarrow> (string \<times> string) list) \<Rightarrow> event_entry \<Rightarrow> EventTarget \<Rightarrow> string option"
where
  "delivery_input visit e tgt =
     (let body = eventBridgeDeliveryBody e; input = TrimSpace (et_Input tgt); path = TrimSpace (et_InputPath tgt)
      in if input \<noteq> [] then Some input
         else do { t \<leftarrow> parseEventBridgeInputTransformerJSON (et_InputTransformerJSON tgt);
                   case t of
                     Some tr \<Rightarrow> applyEventBridgeInputTransformer visit body tr
                   | None \<Rightarrow> if path \<noteq> [] then applyEventBridgeInputPath body path else Some body })"

text \<open>
  Nested brackets make the result depend on the order in which Go visits the map: a placeholder that
  a substitution completes is substituted when its turn comes later, and an error when it came before.
\<close>

lemma transformer_order:
  "substitute [(''a1'', ''2''), (''b'', ''1'')] ''<a<b>>'' = ''<a1>''"
  "substitute [(''b'', ''1''), (''a1'', ''2'')] ''<a<b>>'' = ''2''"
  by (simp_all add: substitute_def placeholder_def)

end
