(* ===== verification/Delivery.thy ===== *)
theory Delivery
  imports PassRole Sts Sqs
begin

text \<open>
  Who may receive what a service sends: \<open>internal/store/delivery_authz.go\<close>, \<open>delivery_condition_keys.go\<close>,
  \<open>logs_resource_policy.go\<close> and \<open>dlq_helpers.go\<close>. A delivery with a role mints a session of the role and
  asks the policies of the role; one without asks the resource policy of the destination.

  The stores of the destinations other than queues and log groups (functions, topics, buckets, streams, state
  machines) are the component \<open>w_rest\<close> of the state, of any type; what the code asks of them is the
  record \<open>services\<close>.
\<close>

section \<open>Resource policies of log groups\<close>

record LogsResourcePolicy =
  lp_account :: string
  lp_PolicyName :: string
  lp_PolicyDocument :: string
  lp_LastUpdated :: int

datatype logs_error = LogsPolicyNotFound | LogsPolicyLimit | LogsPolicyInvalid

definition LabLogsResourcePolicySoftCap :: nat where
  "LabLogsResourcePolicySoftCap = 10"

definition logs_policy_key :: "LogsResourcePolicy \<Rightarrow> string \<times> string" where
  "logs_policy_key p = (lp_account p, lp_PolicyName p)"

definition GetLogsResourcePolicy ::
  "LogsResourcePolicy list \<Rightarrow> string \<Rightarrow> string \<Rightarrow> (logs_error, LogsResourcePolicy) result"
where
  "GetLogsResourcePolicy rows account name =
     (let n = TrimSpace name
      in if n = [] then Inl LogsPolicyInvalid
         else ok_or LogsPolicyNotFound (List.find (\<lambda>p. logs_policy_key p = (account, n)) rows) Inr)"

definition countLogsResourcePolicies :: "LogsResourcePolicy list \<Rightarrow> string \<Rightarrow> nat" where
  "countLogsResourcePolicies rows account = length (filter (\<lambda>p. lp_account p = account) rows)"

definition PutLogsResourcePolicy ::
  "LogsResourcePolicy list \<Rightarrow> instant \<Rightarrow> string \<Rightarrow> string \<Rightarrow> string \<Rightarrow>
   (logs_error, LogsResourcePolicy \<times> LogsResourcePolicy list) result"
where
  "PutLogsResourcePolicy rows now account name document =
     (let policyName = TrimSpace name; doc = TrimSpace document
      in if policyName = [] \<or> doc = [] \<or> ValidateResourcePolicyDocument doc \<noteq> Inr () then Inl LogsPolicyInvalid
         else if GetLogsResourcePolicy rows account policyName = Inl LogsPolicyNotFound \<and>
                 LabLogsResourcePolicySoftCap \<le> countLogsResourcePolicies rows account then Inl LogsPolicyLimit
         else (let p = \<lparr>lp_account = account, lp_PolicyName = policyName, lp_PolicyDocument = doc,
                        lp_LastUpdated = now div 1000000\<rparr>
               in Inr (p, sql_upsert logs_policy_key
                            (\<lambda>r. r\<lparr>lp_PolicyDocument := doc, lp_LastUpdated := lp_LastUpdated p\<rparr>) p rows)))"

definition DeleteLogsResourcePolicy ::
  "LogsResourcePolicy list \<Rightarrow> string \<Rightarrow> string \<Rightarrow> (logs_error, LogsResourcePolicy list) result"
where
  "DeleteLogsResourcePolicy rows account name =
     (let policyName = TrimSpace name
      in if policyName = [] then Inl LogsPolicyInvalid
         else ok_or LogsPolicyNotFound (sql_delete (\<lambda>p. logs_policy_key p = (account, policyName)) rows) Inr)"

definition DescribeLogsResourcePolicies :: "LogsResourcePolicy list \<Rightarrow> string \<Rightarrow> LogsResourcePolicy list" where
  "DescribeLogsResourcePolicies rows account = sort_key lp_PolicyName (filter (\<lambda>p. lp_account p = account) rows)"

text \<open>Whether some policy allows it: any one, each by itself, for the name with and without \<open>:*\<close>.\<close>

definition logsResourcePolicyAllowsDelivery ::
  "LogsResourcePolicy list \<Rightarrow> string \<Rightarrow> string \<Rightarrow> string \<Rightarrow> string \<Rightarrow> string \<Rightarrow> bool option"
where
  "logsResourcePolicyAllowsDelivery rows account logGroupARN action servicePrincipal sourceARN =
     (let candidates = logGroupARN # (if HasSuffix logGroupARN '':*'' then [] else [logGroupARN @ '':*''])
      in any_opt (\<lambda>p. any_opt (\<lambda>res. EventTargetResourcePolicyAllows (lp_PolicyDocument p) action res servicePrincipal
                                       account (DeliverySourceConditionKeys sourceARN [])) candidates)
           (DescribeLogsResourcePolicies rows account))"

section \<open>The state\<close>

text \<open>
  \<open>w_drawn\<close> counts the draws: of random ids, of new credentials and of the clock. \<open>sc_policy\<close> is the resource
  policy of a function, topic, bucket, stream or state machine in an account, \<open>None\<close> where reading it
  fails; \<open>sc_deliver\<close> is the delivery, for an account, to one of them or to a log group of a body, for an event
  of an id and a time: the message of the error, if any, and the new state. \<open>sc_error\<close> is the message of an
  error of the queues (\<open>None\<close>: the endpoint does not resolve), and \<open>sc_visit\<close> the order in which a Go map is
  visited.
\<close>

record 'r world =
  w_server :: server
  w_sqs :: db
  w_logs :: "LogsResourcePolicy list"
  w_drawn :: nat
  w_rest :: 'r

record 'r services =
  sc_uuid :: uuid
  sc_clock :: "nat \<Rightarrow> instant"
  sc_mint :: "nat \<Rightarrow> minted"
  sc_seal :: "string \<Rightarrow> string"
  sc_policy :: "'r \<Rightarrow> string \<Rightarrow> string \<Rightarrow> string option"
  sc_deliver :: "'r \<Rightarrow> string \<Rightarrow> string \<Rightarrow> string \<Rightarrow> string \<Rightarrow> string \<Rightarrow> string option \<times> 'r"
  sc_error :: "sqs_error option \<Rightarrow> string"
  sc_visit :: "(string \<times> string) list \<Rightarrow> (string \<times> string) list"

section \<open>The resource policy of the destination\<close>

definition resourceOwnerAccountFromARN :: "string \<Rightarrow> string" where
  "resourceOwnerAccountFromARN arn = null_text (arnAccountID arn)"

definition delivery_policy_account :: "string \<Rightarrow> string \<Rightarrow> string" where
  "delivery_policy_account account targetARN =
     (let owner = resourceOwnerAccountFromARN targetARN in if owner \<noteq> [] then owner else account)"

definition other_destination :: "string \<Rightarrow> bool" where
  "other_destination arn \<longleftrightarrow>
     HasPrefix arn ''arn:aws:lambda:'' \<or> HasPrefix arn ''arn:aws:sns:'' \<or> HasPrefix arn ''arn:aws:s3:::'' \<or>
     HasPrefix arn ''arn:aws:kinesis:'' \<or> Contains arn '':stateMachine:''"

definition deliveryTargetResourcePolicyDoc ::
  "('r, 'x) services_scheme \<Rightarrow> ('r, 'y) world_scheme \<Rightarrow> string \<Rightarrow> string \<Rightarrow> string option"
where
  "deliveryTargetResourcePolicyDoc sc w account targetARN =
     (if HasPrefix targetARN ''arn:aws:sqs:'' then
        do { name \<leftarrow> queueNameFromARN targetARN;
             (case GetQueueAttributes (w_sqs w) account name of
                Inl _ \<Rightarrow> None | Inr attrs \<Rightarrow> Some (null_text (map_of attrs ''Policy''))) }
      else if other_destination targetARN then sc_policy sc (w_rest w) account targetARN
      else None)"

definition deliveryTargetResourcePolicyAllows ::
  "('r, 'x) services_scheme \<Rightarrow> ('r, 'y) world_scheme \<Rightarrow> string \<Rightarrow> string \<Rightarrow> string \<Rightarrow> string \<Rightarrow> string \<Rightarrow> bool option"
where
  "deliveryTargetResourcePolicyAllows sc w account targetARN action servicePrincipal sourceARN =
     (let policyAccount = delivery_policy_account account targetARN
      in if HasPrefix targetARN ''arn:aws:logs:'' then
           logsResourcePolicyAllowsDelivery (w_logs w) policyAccount targetARN action servicePrincipal sourceARN
         else (case deliveryTargetResourcePolicyDoc sc w policyAccount targetARN of
                 None \<Rightarrow> Some False
               | Some policyDoc \<Rightarrow>
                   EventTargetResourcePolicyAllows policyDoc action targetARN servicePrincipal policyAccount
                     (DeliverySourceConditionKeys sourceARN [])))"

section \<open>The session of the role\<close>

definition identityPolicyDocsForRoleARN :: "iam \<Rightarrow> string \<Rightarrow> string list" where
  "identityPolicyDocsForRoleARN s roleARN =
     ListAttachedPolicyDocuments s roleARN @ map ip_document (ListInlinePolicies s roleARN)"

definition mergeDeliveryResourceTagKeys :: "tag_row list \<Rightarrow> cond_keys \<Rightarrow> string \<Rightarrow> string \<Rightarrow> cond_keys" where
  "mergeDeliveryResourceTagKeys tags keys account res =
     (let resource = TrimSpace res
      in if resource = [] \<or> resource = ''*'' then keys
         else if delivery_policy_account account resource = [] then keys
         else fold (tag_keys (serviceResourceTagKeyPrefix resource))
                (ListResourceTags tags (delivery_policy_account account resource) resource) keys)"

definition DefaultEventsRegion :: string where "DefaultEventsRegion = ''us-east-1''"

definition delivery_region :: "string \<Rightarrow> string" where
  "delivery_region region = (if region = [] then DefaultEventsRegion else region)"

definition deliveryRoleSessionConditionKeys ::
  "tag_row list \<Rightarrow> string \<Rightarrow> string \<Rightarrow> string \<Rightarrow> string \<Rightarrow> cond_keys"
where
  "deliveryRoleSessionConditionKeys tags account roleName targetARN region =
     (let base = [''aws:PrincipalAccount'' \<mapsto> account, ''aws:RequestedRegion'' \<mapsto> delivery_region region,
                  ''aws:PrincipalType'' \<mapsto> ''AssumedRole''];
          keys = (if roleName \<noteq> [] \<and> account \<noteq> []
                  then base(''aws:PrincipalArn'' \<mapsto> ''arn:aws:iam::'' @ account @ '':role/'' @ roleName) else base)
      in mergeDeliveryResourceTagKeys tags keys account targetARN)"

text \<open>A boundary that cannot be read is no boundary here.\<close>

definition delivery_boundary :: "iam \<Rightarrow> string \<Rightarrow> string \<Rightarrow> string" where
  "delivery_boundary s account roleName =
     (case PermissionsBoundaryDoc s account ''role'' roleName of Inr (Some doc) \<Rightarrow> doc | _ \<Rightarrow> [])"

definition delivery_context ::
  "server \<Rightarrow> string \<Rightarrow> string \<Rightarrow> string \<Rightarrow> string \<Rightarrow> string \<Rightarrow> string \<Rightarrow> string \<Rightarrow> string \<Rightarrow> RequestContext"
where
  "delivery_context s account roleName action targetARN sessionName region sourceARN accessKeyID =
     \<lparr>rc_Principal = RoleSessionPrincipal account roleName sessionName accessKeyID, rc_Action = action,
      rc_Resource = targetARN, rc_Region = delivery_region region,
      rc_ConditionKeys = deliveryRoleSessionConditionKeys (sv_tags s) account roleName targetARN (delivery_region region)
        ++ DeliverySourceConditionKeys sourceARN []\<rparr>"

definition delivery_inputs :: "server \<Rightarrow> string \<Rightarrow> string \<Rightarrow> string \<Rightarrow> EvalInputs option" where
  "delivery_inputs s account roleARN roleName =
     (case (orgPolicyDocsForAccount (sv_org s) account ''SCP'', orgPolicyDocsForAccount (sv_org s) account ''RCP'') of
        (Inr scp, Inr rcp) \<Rightarrow>
          Some \<lparr>in_IdentityDocs = Some (identityPolicyDocsForRoleARN (sv_iam s) roleARN),
                in_BoundaryDoc = delivery_boundary (sv_iam s) account roleName, in_SessionDocs = [],
                in_SCPDocs = scp, in_RCPDocs = rcp, in_IsManagementAccount = IsManagementAccount account\<rparr>
      | _ \<Rightarrow> None)"

text \<open>The credentials are stored before the policies are asked, and stay whatever the answer.\<close>

definition deliveryRoleSessionAllows ::
  "('r, 'x) services_scheme \<Rightarrow> ('r, 'y) world_scheme \<Rightarrow> string \<Rightarrow> string \<Rightarrow> string \<Rightarrow> string \<Rightarrow> string \<Rightarrow> string \<Rightarrow>
   string \<Rightarrow> (bool \<times> ('r, 'y) world_scheme) option"
where
  "deliveryRoleSessionAllows sc w account roleARN action targetARN sessionName region sourceARN =
     (case ParseRoleARN roleARN of
        None \<Rightarrow> Some (False, w)
      | Some (roleAccount, roleName) \<Rightarrow>
          if roleAccount \<noteq> account then Some (False, w)
          else (case GetRole (sv_iam (w_server w)) account roleName of
                  Inl _ \<Rightarrow> Some (False, w)
                | Inr _ \<Rightarrow>
                    (let n = w_drawn w; m = sc_mint sc n; w1 = w\<lparr>w_drawn := Suc n\<rparr>;
                         opts = role_opts account roleARN sessionName [] (sc_clock sc n + ns_hour)
                     in case issue_key (sc_seal sc) m (w_server w1) opts of
                          Inl _ \<Rightarrow> Some (False, w1)
                        | Inr (cred, s) \<Rightarrow>
                            (let w2 = w1\<lparr>w_server := s\<rparr>
                             in case delivery_inputs s account roleARN roleName of
                                  None \<Rightarrow> Some (False, w2)
                                | Some inp \<Rightarrow>
                                    map_option (\<lambda>d. (d = Allow, w2))
                                      (EvaluateFull (delivery_context s account roleName action targetARN sessionName
                                         region sourceARN (cr_AccessKeyID cred)) inp)))))"

definition deliveryTargetSupportsResourcePolicy :: "string \<Rightarrow> bool" where
  "deliveryTargetSupportsResourcePolicy targetARN \<longleftrightarrow>
     HasPrefix targetARN ''arn:aws:sqs:'' \<or> HasPrefix targetARN ''arn:aws:lambda:'' \<or>
     HasPrefix targetARN ''arn:aws:sns:'' \<or> HasPrefix targetARN ''arn:aws:s3:::'' \<or>
     HasPrefix targetARN ''arn:aws:logs:'' \<or> HasPrefix targetARN ''arn:aws:kinesis:'' \<or>
     Contains targetARN '':stateMachine:''"

definition deliveryAuthorizedRoleAndResource ::
  "('r, 'x) services_scheme \<Rightarrow> ('r, 'y) world_scheme \<Rightarrow> string \<Rightarrow> string \<Rightarrow> string \<Rightarrow> string \<Rightarrow> string \<Rightarrow> string \<Rightarrow>
   string \<Rightarrow> string \<Rightarrow> (bool \<times> ('r, 'y) world_scheme) option"
where
  "deliveryAuthorizedRoleAndResource sc w account role action targetARN servicePrincipal sourceARN sessionName region =
     (let roleARN = TrimSpace role;
          ask = (\<lambda>w'. map_option (\<lambda>b. (b, w'))
                   (deliveryTargetResourcePolicyAllows sc w' account targetARN action servicePrincipal sourceARN))
      in if roleARN = [] then ask w
         else do { (ok, w') \<leftarrow> deliveryRoleSessionAllows sc w account roleARN action targetARN sessionName region sourceARN;
                   if \<not> ok then Some (False, w')
                   else (let owner = resourceOwnerAccountFromARN targetARN
                         in if owner = [] \<or> owner = account \<or> \<not> deliveryTargetSupportsResourcePolicy targetARN
                            then Some (True, w') else ask w') })"

definition deliveryActionForARN :: "string \<Rightarrow> string option" where
  "deliveryActionForARN targetARN =
     (if HasPrefix targetARN ''arn:aws:sqs:'' then Some ''sqs:SendMessage''
      else if HasPrefix targetARN ''arn:aws:lambda:'' then Some ''lambda:InvokeFunction''
      else if HasPrefix targetARN ''arn:aws:sns:'' then Some ''sns:Publish''
      else if HasPrefix targetARN ''arn:aws:s3:::'' then Some ''s3:PutObject''
      else if HasPrefix targetARN ''arn:aws:logs:'' then Some ''logs:PutLogEvents''
      else if HasPrefix targetARN ''arn:aws:kinesis:'' then Some ''kinesis:PutRecord''
      else if Contains targetARN '':stateMachine:'' then Some ''states:StartExecution''
      else None)"

section \<open>Queues as destinations\<close>

text \<open>\<open>resolveSQSEndpoint\<close> of \<open>internal/store/sns.go\<close>: an ARN, a URL or a name. \<open>None\<close> is an error.\<close>

definition resolveSQSEndpoint :: "db \<Rightarrow> string \<Rightarrow> string \<Rightarrow> (string \<times> string) option" where
  "resolveSQSEndpoint d account endpoint =
     (let e = TrimSpace endpoint; there = (\<lambda>a n. case GetQueue d a n of Inl _ \<Rightarrow> None | Inr _ \<Rightarrow> Some (a, n))
      in if HasPrefix e ''arn:aws:sqs:'' then
           do { a \<leftarrow> queueAccountFromARN e; n \<leftarrow> queueNameFromARN e; there a n }
         else if Contains e ''://'' then
           (case GetQueueByURL d e of
              Inl _ \<Rightarrow> None
            | Inr q \<Rightarrow> if q_account q \<noteq> account then None else Some (q_account q, q_name q))
         else there account e)"

text \<open>\<open>SendMessage\<close> with a plain body and no options; the clock is drawn.\<close>

definition send_plain ::
  "('r, 'x) services_scheme \<Rightarrow> ('r, 'y) world_scheme \<Rightarrow> string \<Rightarrow> string \<Rightarrow> string \<Rightarrow>
   sqs_error option \<times> ('r, 'y) world_scheme"
where
  "send_plain sc w account name body =
     (let w' = w\<lparr>w_drawn := Suc (w_drawn w)\<rparr>
      in case SendMessage (sc_uuid sc) (w_sqs w) (sc_clock sc (w_drawn w)) account name body False [] [] None of
           Inl e \<Rightarrow> (Some e, w') | Inr (m, d) \<Rightarrow> (None, w'\<lparr>w_sqs := d\<rparr>))"

definition labDLQServicePrincipals :: "string list" where
  "labDLQServicePrincipals =
     [ServicePrincipalEvents, ServicePrincipalSNS, ServicePrincipalPipes, ServicePrincipalLambda]"

definition labDLQDeliveryAllowed ::
  "('r, 'x) services_scheme \<Rightarrow> ('r, 'y) world_scheme \<Rightarrow> string \<Rightarrow> Queue \<Rightarrow> bool option"
where
  "labDLQDeliveryAllowed sc w ownerAccount q =
     (case parseRedriveAllowPolicy (q_attrs q) of
        (allow, hasAllow) \<Rightarrow>
          if hasAllow \<and> \<not> allowsSource allow [] then Some False
          else if q_account q = ownerAccount then Some True
          else any_opt (\<lambda>sp. deliveryTargetResourcePolicyAllows sc w ownerAccount (q_arn q) ''sqs:SendMessage'' sp [])
                 labDLQServicePrincipals)"

definition sendLabDLQMessage ::
  "('r, 'x) services_scheme \<Rightarrow> ('r, 'y) world_scheme \<Rightarrow> string \<Rightarrow> string \<Rightarrow> string \<Rightarrow> (bool \<times> ('r, 'y) world_scheme) option"
where
  "sendLabDLQMessage sc w ownerAccount dlq body =
     (let dlqARN = TrimSpace dlq
      in if dlqARN = [] then Some (False, w)
         else (case resolveSQSEndpoint (w_sqs w) ownerAccount dlqARN of
                 None \<Rightarrow> Some (False, w)
               | Some (queueAccount, queueName) \<Rightarrow>
                   (case GetQueue (w_sqs w) queueAccount queueName of
                      Inl _ \<Rightarrow> Some (False, w)
                    | Inr q \<Rightarrow>
                        map_option (\<lambda>ok. if \<not> ok then (False, w)
                                          else (case send_plain sc w queueAccount queueName body of (err, w') \<Rightarrow> (err = None, w')))
                          (labDLQDeliveryAllowed sc w ownerAccount q))))"

end
