(* ===== verification/Event_Delivery.thy ===== *)
theory Event_Delivery
  imports Event_Input Delivery
begin

text \<open>
  \<open>PutEvents\<close> of \<open>internal/store/events.go\<close>: an entry is stored, the enabled rules of its bus are matched, and for
  each target of a matching rule that may receive it the match is recorded and the event delivered.
\<close>

section \<open>State\<close>

record 'r event_world = "'r world" +
  w_events :: events

type_synonym 'r env = "'r services"

definition draw :: "('r, 'y) world_scheme \<Rightarrow> ('r, 'y) world_scheme" where
  "draw w = w\<lparr>w_drawn := Suc (w_drawn w)\<rparr>"

section \<open>Who may receive\<close>

definition eventTargetDeliveryAction :: "string \<Rightarrow> string option" where
  "eventTargetDeliveryAction targetARN =
     (if HasPrefix targetARN ''arn:aws:sqs:'' then Some ''sqs:SendMessage''
      else if HasPrefix targetARN ''arn:aws:lambda:'' then Some ''lambda:InvokeFunction''
      else if HasPrefix targetARN ''arn:aws:sns:'' then Some ''sns:Publish''
      else if HasPrefix targetARN ''arn:aws:logs:'' then Some ''logs:PutLogEvents''
      else if HasPrefix targetARN ''arn:aws:kinesis:'' then Some ''kinesis:PutRecord''
      else if Contains targetARN '':stateMachine:'' then Some ''states:StartExecution''
      else None)"

definition eventTargetDeliveryAuthorized ::
  "('r, 'x) services_scheme \<Rightarrow> ('r, 'y) world_scheme \<Rightarrow> string \<Rightarrow> string \<Rightarrow> EventTarget \<Rightarrow>
   (bool \<times> ('r, 'y) world_scheme) option"
where
  "eventTargetDeliveryAuthorized sc w account ruleARN tgt =
     (let arn = TrimSpace (et_ARN tgt); roleARN = TrimSpace (et_RoleARN tgt)
      in case eventTargetDeliveryAction arn of
           None \<Rightarrow> Some (False, w)
         | Some action \<Rightarrow>
             if roleARN = [] then
               (if eventTargetRequiresRoleARN arn then Some (False, w)
                else map_option (\<lambda>b. (b, w))
                       (deliveryTargetResourcePolicyAllows sc w account arn action ServicePrincipalEvents ruleARN))
             else deliveryAuthorizedRoleAndResource sc w account roleARN action arn ServicePrincipalEvents ruleARN
                    ''events-delivery'' DefaultEventsRegion)"

section \<open>Delivering\<close>

definition delivery_row ::
  "('r, 'x) services_scheme \<Rightarrow> nat \<Rightarrow> event_entry \<Rightarrow> EventRule \<Rightarrow> EventTarget \<Rightarrow> string option \<Rightarrow> bool \<Rightarrow> event_delivery"
where
  "delivery_row sc n e rule tgt err dlqSent =
     \<lparr>ed_delivery_id = sc_uuid sc n, ed_account = ee_account e, ed_bus = normalizeEventBusName (er_BusName rule),
      ed_rule = er_Name rule, ed_EntryID = ee_entry_id e, ed_TargetID = et_ID tgt, ed_TargetARN = et_ARN tgt,
      ed_Status = (if err = None then ''SUCCESS'' else ''FAILED''), ed_ErrorMessage = null_text err,
      ed_DLQSent = dlqSent, ed_CreatedAt = format_RFC3339 (sc_clock sc n)\<rparr>"

definition dlq_body :: "event_entry \<Rightarrow> EventTarget \<Rightarrow> string \<Rightarrow> string" where
  "dlq_body e tgt err =
     marshal_members [(''entryId'', quote (ee_entry_id e)), (''targetArn'', quote (et_ARN tgt)), (''error'', quote err)]"

text \<open>A row that cannot be inserted is only logged.\<close>

definition recordEventTargetDelivery ::
  "('r, 'x) services_scheme \<Rightarrow> 'r event_world \<Rightarrow> event_entry \<Rightarrow> EventRule \<Rightarrow> EventTarget \<Rightarrow> string option \<Rightarrow>
   'r event_world option"
where
  "recordEventTargetDelivery sc w e rule tgt err =
     do { (dlqSent, w1) \<leftarrow> (case err of
             Some msg \<Rightarrow> sendLabDLQMessage sc w (ee_account e) (et_DeadLetterARN tgt) (dlq_body e tgt msg)
           | None \<Rightarrow> Some (False, w));
          let ev = w_events w1;
              rows = sql_ignore ed_delivery_id (delivery_row sc (w_drawn w1) e rule tgt err dlqSent) (ev_deliveries ev)
          in Some (draw (w1\<lparr>w_events := ev\<lparr>ev_deliveries := rows\<rparr>\<rparr>)) }"

definition deliver_to_queue ::
  "('r, 'x) services_scheme \<Rightarrow> 'r event_world \<Rightarrow> string \<Rightarrow> string \<Rightarrow> string \<Rightarrow> string option \<times> 'r event_world"
where
  "deliver_to_queue sc w account arn body =
     (case resolveSQSEndpoint (w_sqs w) account arn of
        None \<Rightarrow> (Some (sc_error sc None), w)
      | Some (queueAccount, queueName) \<Rightarrow>
          (case send_plain sc w queueAccount queueName body of
             (err, w') \<Rightarrow> (map_option (\<lambda>e. sc_error sc (Some e)) err, w')))"

definition deliverEventTarget ::
  "('r, 'x) services_scheme \<Rightarrow> 'r event_world \<Rightarrow> event_entry \<Rightarrow> EventRule \<Rightarrow> EventTarget \<Rightarrow> 'r event_world option"
where
  "deliverEventTarget sc w e rule tgt =
     (case delivery_input (sc_visit sc) e tgt of
        None \<Rightarrow> Some w
      | Some body \<Rightarrow>
          (let arn = TrimSpace (et_ARN tgt)
           in if HasPrefix arn ''arn:aws:sqs:'' then
                (case deliver_to_queue sc w (ee_account e) arn body of
                   (err, w') \<Rightarrow> recordEventTargetDelivery sc w' e rule tgt err)
              else if eventTargetDeliveryAction arn \<noteq> None then
                (case sc_deliver sc (w_rest w) (ee_account e) arn body (ee_entry_id e) (ee_created e) of
                   (err, rest') \<Rightarrow> recordEventTargetDelivery sc (w\<lparr>w_rest := rest'\<rparr>) e rule tgt err)
              else Some w))"

section \<open>Matching\<close>

definition match_row :: "string \<Rightarrow> event_entry \<Rightarrow> EventRule \<Rightarrow> EventTarget \<Rightarrow> event_match" where
  "match_row mid e rule tgt =
     \<lparr>em_match_id = mid, em_EntryID = ee_entry_id e, em_RuleARN = er_ARN rule, em_TargetARN = et_ARN tgt,
      em_TargetID = et_ID tgt, em_created = ee_created e\<rparr>"

definition recordEventRuleMatch ::
  "('r, 'x) services_scheme \<Rightarrow> 'r event_world \<Rightarrow> event_entry \<Rightarrow> EventRule \<Rightarrow> EventTarget \<Rightarrow> 'r event_world option"
where
  "recordEventRuleMatch sc w e rule tgt =
     (let ev = w_events w
      in map_option (\<lambda>rows. draw (w\<lparr>w_events := ev\<lparr>ev_matches := rows\<rparr>\<rparr>))
           (sql_insert em_match_id (match_row (sc_uuid sc (w_drawn w)) e rule tgt) (ev_matches ev)))"

fun match_targets ::
  "('r, 'x) services_scheme \<Rightarrow> event_entry \<Rightarrow> EventRule \<Rightarrow> EventTarget list \<Rightarrow> 'r event_world \<Rightarrow>
   (event_error option \<times> 'r event_world) option"
where
  "match_targets sc e rule [] w = Some (None, w)"
| "match_targets sc e rule (tgt # tgts) w =
     do { (ok, w1) \<leftarrow> eventTargetDeliveryAuthorized sc w (ee_account e) (er_ARN rule) tgt;
          if \<not> ok then match_targets sc e rule tgts w1
          else (case recordEventRuleMatch sc w1 e rule tgt of
                  None \<Rightarrow> Some (Some ErrDuplicateKey, draw w1)
                | Some w2 \<Rightarrow> do { w3 \<leftarrow> deliverEventTarget sc w2 e rule tgt; match_targets sc e rule tgts w3 }) }"

fun match_rules ::
  "('r, 'x) services_scheme \<Rightarrow> event_entry \<Rightarrow> EventRule list \<Rightarrow> 'r event_world \<Rightarrow>
   (event_error option \<times> 'r event_world) option"
where
  "match_rules sc e [] w = Some (None, w)"
| "match_rules sc e (rule # rules) w =
     (if er_State rule \<noteq> RuleStateEnabled then match_rules sc e rules w
      else (case matchEventPatternJSON (er_Pattern rule) (ee_source e) (ee_detail_type e) (ee_detail e) of
              Inl err \<Rightarrow> Some (Some (ErrMatch err), w)
            | Inr ok \<Rightarrow>
                if \<not> ok then match_rules sc e rules w
                else (case ListTargetsByRule (w_events w) (ee_account e) (ee_bus e) (er_Name rule) of
                        Inl err \<Rightarrow> Some (Some err, w)
                      | Inr tgts \<Rightarrow>
                          do { (err, w') \<leftarrow> match_targets sc e rule tgts w;
                               if err \<noteq> None then Some (err, w') else match_rules sc e rules w' })))"

definition matchAndRecordEventTargets ::
  "('r, 'x) services_scheme \<Rightarrow> event_entry \<Rightarrow> 'r event_world \<Rightarrow> (event_error option \<times> 'r event_world) option"
where
  "matchAndRecordEventTargets sc e w =
     (case ListRules (sc_clock sc (w_drawn w)) (w_events w) (ee_account e) (ee_bus e) of
        (rules, ev) \<Rightarrow> match_rules sc e rules (draw (w\<lparr>w_events := ev\<rparr>)))"

section \<open>PutEvents\<close>

record PutEventsEntry =
  pe_Source :: string
  pe_DetailType :: string
  pe_Detail :: string
  pe_EventBusName :: string
  pe_Time :: string

definition new_entry :: "('r, 'x) services_scheme \<Rightarrow> nat \<Rightarrow> string \<Rightarrow> string \<Rightarrow> PutEventsEntry \<Rightarrow> event_entry" where
  "new_entry sc n account busName entry =
     \<lparr>ee_entry_id = sc_uuid sc n, ee_account = account, ee_bus = busName, ee_source = TrimSpace (pe_Source entry),
      ee_detail_type = TrimSpace (pe_DetailType entry),
      ee_detail = (if TrimSpace (pe_Detail entry) = [] then ''{}'' else TrimSpace (pe_Detail entry)),
      ee_created = format_RFC3339 (sc_clock sc n)\<rparr>"

definition entry_bus ::
  "instant \<Rightarrow> events \<Rightarrow> string \<Rightarrow> string \<Rightarrow> (event_error, events) result"
where
  "entry_bus now ev account busName =
     (if busName = DefaultEventBusName then Inr (ensureDefaultEventBus now ev account [])
      else (case GetEventBus ev account busName of Inl e \<Rightarrow> Inl e | Inr _ \<Rightarrow> Inr ev))"

definition putEventsEntry ::
  "('r, 'x) services_scheme \<Rightarrow> string \<Rightarrow> PutEventsEntry \<Rightarrow> 'r event_world \<Rightarrow>
   ((event_error, string) result \<times> 'r event_world) option"
where
  "putEventsEntry sc account entry w =
     (let busName = normalizeEventBusName (pe_EventBusName entry)
      in case entry_bus (sc_clock sc (w_drawn w)) (w_events w) account busName of
           Inl err \<Rightarrow> Some (Inl err, w)
         | Inr ev \<Rightarrow>
             (let w1 = draw (w\<lparr>w_events := ev\<rparr>); e = new_entry sc (w_drawn w1) account busName entry
              in if json_parse (ee_detail e) = None then Some (Inl ErrDetailNotJSON, w1)
                 else (case sql_insert ee_entry_id e (ev_entries ev) of
                         None \<Rightarrow> Some (Inl ErrDuplicateKey, draw w1)
                       | Some rows \<Rightarrow>
                           map_option (\<lambda>(err, w'). (case err of None \<Rightarrow> Inr (ee_entry_id e) | Some x \<Rightarrow> Inl x, w'))
                             (matchAndRecordEventTargets sc e (draw (w1\<lparr>w_events := ev\<lparr>ev_entries := rows\<rparr>\<rparr>))))))"

text \<open>The outcome of every entry, in order: its id, or the error; an error does not stop the others.\<close>

fun PutEvents ::
  "('r, 'x) services_scheme \<Rightarrow> string \<Rightarrow> PutEventsEntry list \<Rightarrow> 'r event_world \<Rightarrow>
   ((event_error, string) result list \<times> 'r event_world) option"
where
  "PutEvents sc account [] w = Some ([], w)"
| "PutEvents sc account (entry # entries) w =
     do { (out, w1) \<leftarrow> putEventsEntry sc account entry w;
          (outs, w2) \<leftarrow> PutEvents sc account entries w1;
          Some (out # outs, w2) }"

definition FailedEntryCount :: "(event_error, string) result list \<Rightarrow> nat" where
  "FailedEntryCount outs = length (filter (\<lambda>r. case r of Inl _ \<Rightarrow> True | Inr _ \<Rightarrow> False) outs)"

end
