(* ===== verification/Event_Props.thy ===== *)
theory Event_Props
  imports Event_Delivery Transitions
begin

text \<open>
  What the event bus promises: what the tables keep at every moment, and which targets an event reaches.
\<close>

section \<open>Patterns\<close>

definition event_detail :: "string \<Rightarrow> (string \<times> any_value) list option" where
  "event_detail t = (if TrimSpace t = [] then Some [] else unmarshal_map t)"

lemma event_detail_decoded: "event_detail t = Some d \<Longrightarrow> decoded (AMap d)"
  using unmarshal_map_decoded [of t d] by (cases "TrimSpace t = []") (simp_all add: event_detail_def)

lemma pattern_of_text_Some:
  assumes "pattern_of_text t = Some p"
  obtains m fs where "unmarshal_map t = Some m" "read_fields m = Some fs" "p = Fields fs"
  using assms by (auto simp: pattern_of_text_def unmarshal_map_def split: option.splits any_value.splits)

lemma matchEventPatternJSON_cases:
  assumes "pattern_of_text t = Some p"
  shows "matchEventPatternJSON t source detailType detail =
    (if p = Fields [] then Inr False
     else (case event_detail detail of
             None \<Rightarrow> Inl BadDetail
           | Some d \<Rightarrow> Inr (event_matches p (AMap (envelope source detailType d)))))"
proof -
  obtain m fs where m: "unmarshal_map t = Some m" "read_fields m = Some fs" "p = Fields fs"
    using assms by (rule pattern_of_text_Some)
  have e: "m = [] \<longleftrightarrow> p = Fields []"
    using m(2,3) by (cases m) (auto split: if_splits Option.bind_splits)
  have match: "matchPatternObject m (envelope source detailType d) = event_matches p (AMap (envelope source detailType d))"
    if "decoded (AMap d)" for d
    using matchPatternObject_matches [OF m(2), of "envelope source detailType d"] that m(3)
    by (simp add: envelope_def)
  show ?thesis
    using e m(1) match event_detail_decoded [of detail]
    by (auto simp: matchEventPatternJSON_def event_detail_def split: option.splits if_splits)
qed

text \<open>C30. The validation of a rule accepts exactly the patterns that have a meaning, and for every event the matcher
  decides it: nothing matches an empty pattern; otherwise an event matches when at the path of every object of
  the pattern it has an object, and at the path of every array a value, or its absence, that one of the matchers
  of the array accepts. The one error left is a detail that is not a JSON object.\<close>
theorem event_pattern_spec:
  "case pattern_of_text t of
     None \<Rightarrow> validateEventPatternDeep t \<noteq> Inr ()
   | Some p \<Rightarrow>
       validateEventPatternDeep t = Inr () \<and>
       matchEventPatternJSON t source detailType detail =
         (if p = Fields [] then Inr False
          else (case event_detail detail of
                  None \<Rightarrow> Inl BadDetail
                | Some d \<Rightarrow> Inr (event_matches p (AMap (envelope source detailType d)))))"
  using pattern_of_text_valid [of t] matchEventPatternJSON_cases [of t]
  by (cases "pattern_of_text t") auto

section \<open>The tables\<close>

text \<open>Trimming twice is trimming once, so a name that was normalized is found under itself.\<close>

lemma strip_one_None: "strip_one ps s = None \<longleftrightarrow> (\<forall>p\<in>set ps. p = [] \<or> \<not> prefix p s)"
  by (induction ps) auto

lemma trim_front_suffix: "\<exists>t. s = t @ trim_front ps s"
proof (induction ps s rule: trim_front.induct)
  case (1 ps s)
  show ?case
  proof (cases "strip_one ps s")
    case (Some r)
    have "\<exists>t. s = t @ r" using Some by (induction ps) (auto simp: prefix_def split: if_splits)
    moreover obtain t' where "r = t' @ trim_front ps r" using 1 Some by blast
    ultimately show ?thesis using Some by (metis append.assoc option.simps(5) trim_front.simps)
  qed (simp add: trim_front.simps)
qed

lemma trim_front_done: "strip_one ps (trim_front ps s) = None"
proof (induction ps s rule: trim_front.induct)
  case (1 ps s)
  then show ?case by (cases "strip_one ps s") (simp_all add: trim_front.simps [of ps s])
qed

lemma TrimSpace_idem: "TrimSpace (TrimSpace s) = TrimSpace s"
proof -
  let ?f = "trim_front space_runes s" and ?b = "map rev space_runes"
  let ?t = "rev (trim_front ?b (rev ?f))"
  obtain u where "rev ?f = u @ trim_front ?b (rev ?f)" using trim_front_suffix by blast
  then have "?f = ?t @ rev u" by (metis rev_append rev_rev_ident)
  then have "prefix ?t ?f" by (metis prefixI)
  then have "strip_one space_runes ?t = None"
    using trim_front_done [of space_runes s] unfolding strip_one_None by (metis prefix_order.trans)
  then have "trim_front space_runes ?t = ?t" by (subst trim_front.simps) simp
  moreover have "trim_front ?b (rev ?t) = rev ?t"
    using trim_front_done [of ?b "rev ?f"] by (subst trim_front.simps) simp
  ultimately show ?thesis by (simp add: TrimSpace_def)
qed

lemma normalize_idem [simp]: "normalizeEventBusName (normalizeEventBusName n) = normalizeEventBusName n"
proof -
  have "TrimSpace DefaultEventBusName = DefaultEventBusName"
    by (simp add: DefaultEventBusName_def TrimSpace_graphic graphic_def)
  then show ?thesis by (simp add: normalizeEventBusName_def Let_def TrimSpace_idem)
qed

definition rule_ok :: "events \<Rightarrow> EventRule \<Rightarrow> bool" where
  "rule_ok ev r \<longleftrightarrow>
     pattern_of_text (er_Pattern r) \<noteq> None \<and> er_State r \<in> {RuleStateEnabled, RuleStateDisabled} \<and>
     (er_AccountID r, er_BusName r) \<in> bus_key ` set (ev_buses ev)"

definition target_ok :: "events \<Rightarrow> EventTarget \<Rightarrow> bool" where
  "target_ok ev t \<longleftrightarrow>
     et_ID t \<noteq> [] \<and> et_ARN t \<noteq> [] \<and>
     (et_AccountID t, et_BusName t, et_RuleName t) \<in> rule_key ` set (ev_rules ev)"

definition events_ok :: "events \<Rightarrow> bool" where
  "events_ok ev \<longleftrightarrow>
     distinct (map bus_key (ev_buses ev)) \<and> distinct (map rule_key (ev_rules ev)) \<and>
     distinct (map target_key (ev_targets ev)) \<and>
     (\<forall>r\<in>set (ev_rules ev). rule_ok ev r) \<and> (\<forall>t\<in>set (ev_targets ev). target_ok ev t)"

definition no_events :: events where
  "no_events = \<lparr>ev_buses = [], ev_rules = [], ev_targets = [], ev_entries = [], ev_matches = [], ev_deliveries = []\<rparr>"

text \<open>The operations, with any arguments at any time; \<open>Other\<close> stands for what other services do.\<close>

inductive event_step :: "('r, 'x) services_scheme \<Rightarrow> 'r event_world \<Rightarrow> string \<Rightarrow> 'r event_world \<Rightarrow> bool" for sc where
  "CreateEventBus now (w_events w) a region n = Inr (b, ev) \<Longrightarrow> event_step sc w ''CreateEventBus'' (w\<lparr>w_events := ev\<rparr>)"
| "DescribeEventBus now (w_events w) a n = (b, ev) \<Longrightarrow> event_step sc w ''DescribeEventBus'' (w\<lparr>w_events := ev\<rparr>)"
| "ListEventBuses now (w_events w) a = (bs, ev) \<Longrightarrow> event_step sc w ''ListEventBuses'' (w\<lparr>w_events := ev\<rparr>)"
| "DeleteEventBus (w_events w) a n = Inr ev \<Longrightarrow> event_step sc w ''DeleteEventBus'' (w\<lparr>w_events := ev\<rparr>)"
| "PutRule now (w_events w) a region bus n pat d st = Inr (r, ev) \<Longrightarrow> event_step sc w ''PutRule'' (w\<lparr>w_events := ev\<rparr>)"
| "ListRules now (w_events w) a bus = (rs, ev) \<Longrightarrow> event_step sc w ''ListRules'' (w\<lparr>w_events := ev\<rparr>)"
| "DeleteRule (w_events w) a bus n = Inr ev \<Longrightarrow> event_step sc w ''DeleteRule'' (w\<lparr>w_events := ev\<rparr>)"
| "EnableRule (w_events w) a bus n = Inr ev \<Longrightarrow> event_step sc w ''EnableRule'' (w\<lparr>w_events := ev\<rparr>)"
| "DisableRule (w_events w) a bus n = Inr ev \<Longrightarrow> event_step sc w ''DisableRule'' (w\<lparr>w_events := ev\<rparr>)"
| "PutTargets (w_events w) a bus n tgts = Inr ev \<Longrightarrow> event_step sc w ''PutTargets'' (w\<lparr>w_events := ev\<rparr>)"
| "RemoveTargets (w_events w) a bus n ids = (ev, err) \<Longrightarrow> event_step sc w ''RemoveTargets'' (w\<lparr>w_events := ev\<rparr>)"
| "PutEvents sc a entries w = Some (outs, w') \<Longrightarrow> event_step sc w ''PutEvents'' w'"
| "w_events w' = w_events w \<Longrightarrow> event_step sc w ''Other'' w'"

definition event_init :: "'r event_world \<Rightarrow> bool" where
  "event_init w \<longleftrightarrow> w_events w = no_events"

lemma events_ok_cong:
  "ev_buses ev' = ev_buses ev \<Longrightarrow> ev_rules ev' = ev_rules ev \<Longrightarrow> ev_targets ev' = ev_targets ev \<Longrightarrow>
   events_ok ev' = events_ok ev"
  by (simp add: events_ok_def rule_ok_def target_ok_def)

lemma events_ok_bus:
  assumes "events_ok ev" "bus_key b \<notin> bus_key ` set (ev_buses ev)"
  shows "events_ok (ev\<lparr>ev_buses := ev_buses ev @ [b]\<rparr>)"
  using assms by (auto simp: events_ok_def rule_ok_def target_ok_def)

lemma find_key_in: "List.find (\<lambda>x. f x = k) xs = Some x \<Longrightarrow> k \<in> f ` set xs"
  by (drule find_Some_iff') (auto intro: rev_image_eqI)

lemma GetEventBus_Inl: "GetEventBus ev a n = Inl e \<Longrightarrow> (a, normalizeEventBusName n) \<notin> bus_key ` set (ev_buses ev)"
  by (auto simp: GetEventBus_def find_None_iff split: option.splits)

lemma GetEventBus_Inr: "GetEventBus ev a n = Inr b \<Longrightarrow> (a, normalizeEventBusName n) \<in> bus_key ` set (ev_buses ev)"
  by (auto simp: GetEventBus_def dest: find_key_in split: option.splits)

lemma normalize_default [simp]: "normalizeEventBusName DefaultEventBusName = DefaultEventBusName"
  using normalize_idem [of "[]"] by (simp add: normalizeEventBusName_def [of "[]"])

lemma ensureDefault_ok: "events_ok ev \<Longrightarrow> events_ok (ensureDefaultEventBus now ev a region)"
  using GetEventBus_Inl [of ev a DefaultEventBusName]
  by (auto simp: ensureDefaultEventBus_def new_bus_def bus_key_def intro!: events_ok_bus split: sum.split)

lemma ensureDefault_bus: "(a, DefaultEventBusName) \<in> bus_key ` set (ev_buses (ensureDefaultEventBus now ev a region))"
  using GetEventBus_Inr [of ev a DefaultEventBusName]
  by (auto simp: ensureDefaultEventBus_def new_bus_def bus_key_def split: sum.split)

lemma ensureDefault_tables [simp]:
  "ev_rules (ensureDefaultEventBus now ev a region) = ev_rules ev"
  "ev_targets (ensureDefaultEventBus now ev a region) = ev_targets ev"
  "ev_entries (ensureDefaultEventBus now ev a region) = ev_entries ev"
  "ev_matches (ensureDefaultEventBus now ev a region) = ev_matches ev"
  by (simp_all add: ensureDefaultEventBus_def split: sum.split)

lemma rule_ok_buses:
  "rule_ok ev r \<Longrightarrow> bus_key ` set (ev_buses ev) \<subseteq> bus_key ` set (ev_buses ev') \<Longrightarrow> rule_ok ev' r"
  by (auto simp: rule_ok_def)

lemma entry_bus_ok:
  assumes "entry_bus now ev a bus = Inr ev'" "events_ok ev"
  shows "events_ok ev'" "ev_rules ev' = ev_rules ev" "ev_targets ev' = ev_targets ev" "ev_entries ev' = ev_entries ev"
    "ev_matches ev' = ev_matches ev"
  using assms ensureDefault_ok [of ev now a "[]"] by (auto simp: entry_bus_def split: if_splits sum.splits)

lemma rule_bus:
  assumes "(if normalizeEventBusName n = DefaultEventBusName then Inr (ensureDefaultEventBus now ev a region)
            else (case GetEventBus ev a (normalizeEventBusName n) of Inl e \<Rightarrow> Inl e | Inr _ \<Rightarrow> Inr ev)) = Inr ev'"
    and "events_ok ev"
  shows "events_ok ev' \<and> (a, normalizeEventBusName n) \<in> bus_key ` set (ev_buses ev')"
proof (cases "normalizeEventBusName n = DefaultEventBusName")
  case True
  then show ?thesis using assms ensureDefault_ok [of ev now a region] ensureDefault_bus [of a now ev region] by simp
next
  case False
  then have "ev' = ev" "\<exists>b. GetEventBus ev a (normalizeEventBusName n) = Inr b" using assms(1) by (auto split: sum.splits)
  then show ?thesis using assms(2) GetEventBus_Inr [of ev a "normalizeEventBusName n"] by (simp only: normalize_idem) blast
qed

text \<open>What stores a rule, and what deletes rows.\<close>

lemma events_ok_rule:
  assumes "events_ok ev" "rule_ok ev r"
  shows "events_ok (ev\<lparr>ev_rules := sql_upsert rule_key (\<lambda>_. r) r (ev_rules ev)\<rparr>)"
proof -
  let ?rows = "sql_upsert rule_key (\<lambda>_. r) r (ev_rules ev)"
  have rows: "set ?rows \<subseteq> insert r (set (ev_rules ev))" by (auto simp: sql_upsert_def)
  have keys: "rule_key ` set (ev_rules ev) \<subseteq> rule_key ` set ?rows"
  proof
    fix k assume "k \<in> rule_key ` set (ev_rules ev)"
    then obtain x where "x \<in> set (ev_rules ev)" "k = rule_key x" by blast
    then show "k \<in> rule_key ` set ?rows"
      by (cases "rule_key x = rule_key r") (force simp: sql_upsert_def)+
  qed
  have "distinct (map rule_key ?rows)"
  proof (cases "rule_key r \<in> rule_key ` set (ev_rules ev)")
    case True
    then have "map rule_key ?rows = map rule_key (ev_rules ev)"
      by (auto simp: sql_upsert_def)
    then show ?thesis using assms(1) by (simp add: events_ok_def)
  next
    case False
    then show ?thesis using assms(1) by (auto simp: events_ok_def sql_upsert_def)
  qed
  moreover have "\<forall>t\<in>set (ev_targets ev). target_ok (ev\<lparr>ev_rules := ?rows\<rparr>) t"
    using assms(1) keys by (auto simp: events_ok_def target_ok_def)
  moreover have "\<forall>x\<in>set ?rows. rule_ok (ev\<lparr>ev_rules := ?rows\<rparr>) x"
    using assms rows by (auto simp: events_ok_def rule_ok_def)
  ultimately show ?thesis using assms(1) by (simp add: events_ok_def target_ok_def)
qed

lemma events_ok_delete_targets:
  assumes "events_ok ev" "rows = filter P (ev_targets ev)"
  shows "events_ok (ev\<lparr>ev_targets := rows\<rparr>)"
  using assms by (auto simp: events_ok_def rule_ok_def target_ok_def distinct_map_filter)

lemma events_ok_put_target:
  assumes "events_ok ev" "target_ok ev t"
  shows "events_ok (ev\<lparr>ev_targets := sql_upsert target_key (\<lambda>_. t) t (ev_targets ev)\<rparr>)"
proof -
  let ?rows = "sql_upsert target_key (\<lambda>_. t) t (ev_targets ev)"
  have rows: "set ?rows \<subseteq> insert t (set (ev_targets ev))" by (auto simp: sql_upsert_def)
  have "distinct (map target_key ?rows)"
  proof (cases "target_key t \<in> target_key ` set (ev_targets ev)")
    case True
    then have "map target_key ?rows = map target_key (ev_targets ev)" by (auto simp: sql_upsert_def)
    then show ?thesis using assms(1) by (simp add: events_ok_def)
  next
    case False
    then show ?thesis using assms(1) by (auto simp: events_ok_def sql_upsert_def)
  qed
  then show ?thesis using assms rows by (auto simp: events_ok_def rule_ok_def target_ok_def)
qed


section \<open>Every operation keeps the tables\<close>

lemma CreateEventBus_ok:
  assumes "CreateEventBus now ev a region n = Inr (b, ev')" "events_ok ev"
  shows "events_ok ev'"
proof (cases "TrimSpace n = DefaultEventBusName")
  case True
  then show ?thesis using assms ensureDefault_ok [OF assms(2), of now a region]
    by (auto simp: CreateEventBus_def Let_def split: if_splits sum.splits)
next
  case False
  then show ?thesis using assms events_ok_bus [of ev "new_bus now region a (TrimSpace n)"]
    by (auto simp: CreateEventBus_def Let_def sql_insert_def split: if_splits)
qed

lemma DeleteEventBus_ok:
  assumes "DeleteEventBus ev a n = Inr ev'" "events_ok ev"
  shows "events_ok ev'"
proof -
  let ?bus = "normalizeEventBusName n"
  let ?rules = "filter (\<lambda>r. \<not> (er_AccountID r = a \<and> er_BusName r = ?bus)) (ev_rules ev)"
  let ?targets = "filter (\<lambda>t. \<not> (et_AccountID t = a \<and> et_BusName t = ?bus)) (ev_targets ev)"
  let ?buses = "filter (\<lambda>b. bus_key b \<noteq> (a, ?bus)) (ev_buses ev)"
  have ev': "ev' = ev\<lparr>ev_targets := ?targets, ev_rules := ?rules, ev_buses := ?buses\<rparr>"
    using assms(1) by (auto simp: DeleteEventBus_def Let_def split: if_splits sum.splits)
  have "rule_ok ev' r" if "r \<in> set ?rules" for r
    using that assms(2) unfolding ev' events_ok_def rule_ok_def by (fastforce simp: bus_key_def)
  moreover have "target_ok ev' t" if "t \<in> set ?targets" for t
    using that assms(2) unfolding ev' events_ok_def target_ok_def by (fastforce simp: rule_key_def)
  ultimately show ?thesis using assms(2) unfolding events_ok_def ev' by (simp add: distinct_map_filter)
qed

lemma normalizeRuleState_known: "normalizeRuleState st \<in> {RuleStateEnabled, RuleStateDisabled}"
  by (simp add: normalizeRuleState_def)

lemma PutRule_ok:
  assumes "PutRule now ev a region bus n pat d st = Inr (r, ev')" "events_ok ev"
  shows "events_ok ev'"
proof -
  let ?bus = "normalizeEventBusName bus"
  let ?pat = "if TrimSpace pat = [] then ''{}'' else pat"
  obtain ev1 where ev1: "(if ?bus = DefaultEventBusName then Inr (ensureDefaultEventBus now ev a region)
            else (case GetEventBus ev a ?bus of Inl e \<Rightarrow> Inl e | Inr _ \<Rightarrow> Inr ev)) = Inr ev1"
      "ev' = ev1\<lparr>ev_rules := sql_upsert rule_key (\<lambda>_. r) r (ev_rules ev1)\<rparr>"
      "validateEventPatternDeep ?pat = Inr ()"
      "er_AccountID r = a" "er_BusName r = ?bus" "er_Pattern r = ?pat" "er_State r = normalizeRuleState st"
    using assms(1) unfolding PutRule_def Let_def by (auto split: if_splits sum.splits)
  have "events_ok ev1" "(a, ?bus) \<in> bus_key ` set (ev_buses ev1)" using rule_bus [OF ev1(1) assms(2)] by simp_all
  moreover from this have "rule_ok ev1 r"
    using ev1(3-7) normalizeRuleState_known [of st] pattern_of_text_valid [of ?pat] by (simp add: rule_ok_def)
  ultimately show ?thesis unfolding ev1(2) by (rule_tac events_ok_rule)
qed

lemma DeleteRule_ok:
  assumes "DeleteRule ev a bus n = Inr ev'" "events_ok ev"
  shows "events_ok ev'"
proof -
  let ?k = "(a, normalizeEventBusName bus, n)"
  have ev': "ev' = ev\<lparr>ev_targets := filter (\<lambda>t. \<not> target_of_rule a (normalizeEventBusName bus) n t) (ev_targets ev),
      ev_rules := filter (\<lambda>r. rule_key r \<noteq> ?k) (ev_rules ev)\<rparr>"
    using assms(1) by (auto simp: DeleteRule_def Let_def split: sum.splits)
  have "target_ok ev' t" if "t \<in> set (ev_targets ev')" for t
    using that assms(2) unfolding ev' events_ok_def target_ok_def target_of_rule_def by (fastforce simp: rule_key_def)
  moreover have "rule_ok ev' r" if "r \<in> set (ev_rules ev')" for r
    using that assms(2) unfolding ev' events_ok_def rule_ok_def by auto
  ultimately show ?thesis using assms(2) unfolding events_ok_def ev' by (simp add: distinct_map_filter)
qed

lemma setRuleState_ok:
  assumes "setRuleState ev a bus n st = Inr ev'" "events_ok ev" "st \<in> {RuleStateEnabled, RuleStateDisabled}"
  shows "events_ok ev'"
proof -
  let ?f = "\<lambda>r. if rule_key r = (a, normalizeEventBusName bus, n) then r\<lparr>er_State := st\<rparr> else r"
  have ev': "ev' = ev\<lparr>ev_rules := map ?f (ev_rules ev)\<rparr>"
    using assms(1) by (auto simp: setRuleState_def Let_def split: sum.splits)
  have f1: "rule_key (?f r) = rule_key r" for r by (simp add: rule_key_def)
  have f2: "rule_ok ev' (?f r)" if "rule_ok ev r" for r
    using that assms(3) by (cases "rule_key r = (a, normalizeEventBusName bus, n)") (simp_all add: rule_ok_def ev')
  have keys: "map rule_key (ev_rules ev') = map rule_key (ev_rules ev)" using f1 by (simp add: ev')
  then have "rule_key ` set (ev_rules ev') = rule_key ` set (ev_rules ev)" by (metis list.set_map)
  then have "\<forall>t\<in>set (ev_targets ev). target_ok ev' t" using assms(2) by (simp add: events_ok_def target_ok_def ev')
  moreover have "\<forall>x\<in>set (ev_rules ev'). rule_ok ev' x"
  proof
    fix x assume "x \<in> set (ev_rules ev')"
    then have "x \<in> ?f ` set (ev_rules ev)" by (simp add: ev')
    then obtain r where r: "r \<in> set (ev_rules ev)" "x = ?f r" by blast
    have "rule_ok ev r" using r(1) assms(2) by (simp add: events_ok_def)
    then show "rule_ok ev' x" unfolding r(2) by (rule f2)
  qed
  moreover have "distinct (map rule_key (ev_rules ev'))" using keys assms(2) by (simp only: events_ok_def)
  ultimately show ?thesis using assms(2) by (simp add: events_ok_def ev')
qed

lemma put_target_rows_ok:
  "put_target_rows a bus n tgts (ev_targets ev) = Inr rows \<Longrightarrow> events_ok ev \<Longrightarrow>
   (a, bus, n) \<in> rule_key ` set (ev_rules ev) \<Longrightarrow> events_ok (ev\<lparr>ev_targets := rows\<rparr>)"
proof (induction tgts arbitrary: ev)
  case (Cons tgt tgts)
  obtain t where t: "target_row a bus n tgt = Inr t"
      "put_target_rows a bus n tgts (sql_upsert target_key (\<lambda>_. t) t (ev_targets ev)) = Inr rows"
    using Cons.prems(1) by (auto split: sum.splits)
  let ?ev = "ev\<lparr>ev_targets := sql_upsert target_key (\<lambda>_. t) t (ev_targets ev)\<rparr>"
  have "target_ok ev t" using t(1) Cons.prems(3) by (auto simp: target_row_def Let_def target_ok_def split: if_splits)
  then have "events_ok ?ev" using Cons.prems(2) by (rule_tac events_ok_put_target)
  then show ?case using Cons.IH [of ?ev] t(2) Cons.prems(3) by simp
next
  case Nil
  then have "ev\<lparr>ev_targets := rows\<rparr> = ev" by auto
  with Nil.prems(2) show ?case by (simp only:)
qed

lemma DescribeRule_Inr: "DescribeRule ev a bus n = Inr r \<Longrightarrow> (a, normalizeEventBusName bus, n) \<in> rule_key ` set (ev_rules ev)"
  by (auto simp: DescribeRule_def dest: find_key_in split: option.splits)

lemma PutTargets_ok:
  assumes "PutTargets ev a bus n tgts = Inr ev'" "events_ok ev"
  shows "events_ok ev'"
proof -
  obtain r rows where "DescribeRule ev a bus n = Inr r" "ev' = ev\<lparr>ev_targets := rows\<rparr>"
      "put_target_rows a (normalizeEventBusName bus) n tgts (ev_targets ev) = Inr rows"
    using assms(1) by (auto simp: PutTargets_def split: sum.splits)
  then show ?thesis using put_target_rows_ok [OF _ assms(2)] DescribeRule_Inr by simp
qed

lemma remove_target_rows_filter:
  "remove_target_rows a bus n ids rows = (rows', err) \<Longrightarrow> \<exists>P. rows' = filter P rows"
proof (induction ids arbitrary: rows)
  case Nil
  then show ?case by (auto intro: exI [of _ "\<lambda>_. True"])
next
  case (Cons raw ids)
  show ?case
  proof (cases "TrimSpace raw = []")
    case False
    show ?thesis
    proof (cases "sql_delete (\<lambda>t. target_key t = (a, bus, n, TrimSpace raw)) rows")
      case None
      then show ?thesis using Cons.prems False by (auto intro: exI [of _ "\<lambda>_. True"])
    next
      case (Some rows1)
      then obtain P where "rows' = filter P rows1" using Cons False by auto
      then show ?thesis using Some by (auto simp: sql_delete_def split: if_splits)
    qed
  qed (use Cons in auto)
qed

lemma RemoveTargets_ok:
  assumes "RemoveTargets ev a bus n ids = (ev', err)" "events_ok ev"
  shows "events_ok ev'"
proof (cases "DescribeRule ev a bus n")
  case (Inr r)
  obtain rows where rows: "remove_target_rows a (normalizeEventBusName bus) n ids (ev_targets ev) = (rows, err)"
      "ev' = ev\<lparr>ev_targets := rows\<rparr>"
    using assms(1) Inr by (auto simp: RemoveTargets_def split: prod.splits)
  then show ?thesis using remove_target_rows_filter [OF rows(1)] events_ok_delete_targets [OF assms(2)] by blast
qed (use assms in \<open>simp add: RemoveTargets_def\<close>)

section \<open>What a delivery changes\<close>

text \<open>
  Two states in which every delivery is decided alike, up to the credentials minted for it: the same users,
  roles and policies, the same organization, tags, queues and policies of the destinations.
\<close>

definition same_policies :: "('r, 'x) services_scheme \<Rightarrow> ('r, 'y) world_scheme \<Rightarrow> ('r, 'y) world_scheme \<Rightarrow> bool" where
  "same_policies sc w w' \<longleftrightarrow>
     (\<exists>ks. w_server w' = (w_server w)\<lparr>sv_iam := (sv_iam (w_server w))\<lparr>i_keys := ks\<rparr>\<rparr>) \<and>
     db_queues (w_sqs w') = db_queues (w_sqs w) \<and> w_logs w' = w_logs w \<and>
     sc_policy sc (w_rest w') = sc_policy sc (w_rest w)"

lemma same_policies_refl: "same_policies sc w w"
  by (auto simp: same_policies_def intro!: exI [of _ "i_keys (sv_iam (w_server w))"])

lemma same_policies_trans:
  assumes "same_policies sc w w1" "same_policies sc w1 w2"
  shows "same_policies sc w w2"
proof -
  obtain ks ks' where "w_server w1 = (w_server w)\<lparr>sv_iam := (sv_iam (w_server w))\<lparr>i_keys := ks\<rparr>\<rparr>"
      "w_server w2 = (w_server w1)\<lparr>sv_iam := (sv_iam (w_server w1))\<lparr>i_keys := ks'\<rparr>\<rparr>"
    using assms by (auto simp: same_policies_def)
  then have "w_server w2 = (w_server w)\<lparr>sv_iam := (sv_iam (w_server w))\<lparr>i_keys := ks'\<rparr>\<rparr>" by simp
  then show ?thesis using assms by (auto simp: same_policies_def)
qed

lemma same_policies_draw: "same_policies sc w (w\<lparr>w_drawn := n\<rparr>)"
  using same_policies_refl [of sc w] by (simp add: same_policies_def)

lemma deliveryTargetResourcePolicyAllows_same:
  assumes "same_policies sc w w'"
  shows "deliveryTargetResourcePolicyAllows sc w' a arn act sp src = deliveryTargetResourcePolicyAllows sc w a arn act sp src"
proof -
  have "GetQueueAttributes (w_sqs w') acc n = GetQueueAttributes (w_sqs w) acc n" for acc n
    using assms by (simp add: same_policies_def GetQueueAttributes_def GetQueue_def)
  then have "deliveryTargetResourcePolicyDoc sc w' acc arn = deliveryTargetResourcePolicyDoc sc w acc arn" for acc
    using assms by (simp add: same_policies_def deliveryTargetResourcePolicyDoc_def)
  then show ?thesis using assms by (simp add: same_policies_def deliveryTargetResourcePolicyAllows_def Let_def)
qed

lemma issue_key_server:
  "issue_key seal m s opts = Inr (cred, s') \<Longrightarrow> \<exists>ks. s' = s\<lparr>sv_iam := (sv_iam s)\<lparr>i_keys := ks\<rparr>\<rparr>"
  by (auto simp: issue_key_def Let_def ok_or_Inr)

lemma deliveryRoleSessionAllows_frame:
  assumes "deliveryRoleSessionAllows sc w a role act arn sn reg src = Some (b, w')"
  shows "same_policies sc w w' \<and> world.more w' = world.more w"
proof (cases "\<exists>rn r. ParseRoleARN role = Some (a, rn) \<and> GetRole (sv_iam (w_server w)) a rn = Inr r")
  case True
  let ?w1 = "w\<lparr>w_drawn := Suc (w_drawn w)\<rparr>"
  let ?issue = "issue_key (sc_seal sc) (sc_mint sc (w_drawn w)) (w_server w)
      (role_opts a role sn [] (sc_clock sc (w_drawn w) + ns_hour))"
  show ?thesis
  proof (cases ?issue)
    case (Inl e)
    then show ?thesis using assms True by (auto simp: deliveryRoleSessionAllows_def Let_def same_policies_draw)
  next
    case (Inr cs)
    obtain cred s where cs: "cs = (cred, s)" by (cases cs)
    then have "w' = ?w1\<lparr>w_server := s\<rparr>"
      using assms True Inr by (auto simp: deliveryRoleSessionAllows_def Let_def split: option.splits)
    then show ?thesis using issue_key_server [OF Inr [unfolded cs]] by (auto simp: same_policies_def)
  qed
next
  case False
  then have "w' = w"
    using assms by (auto simp: deliveryRoleSessionAllows_def split: option.splits sum.splits if_splits)
  then show ?thesis by (simp add: same_policies_refl)
qed

lemma deliveryAuthorized_frame:
  assumes "deliveryAuthorizedRoleAndResource sc w a role act arn sp src sn reg = Some (b, w')"
  shows "same_policies sc w w' \<and> world.more w' = world.more w"
proof (cases "TrimSpace role = []")
  case True
  then show ?thesis using assms by (auto simp: deliveryAuthorizedRoleAndResource_def same_policies_refl)
next
  case False
  then obtain ok where "deliveryRoleSessionAllows sc w a (TrimSpace role) act arn sn reg src = Some (ok, w')"
    using assms unfolding deliveryAuthorizedRoleAndResource_def Let_def
    by (auto simp: Option.bind_eq_Some_conv split: if_splits)
  then show ?thesis by (rule deliveryRoleSessionAllows_frame)
qed

lemma eventTargetDeliveryAuthorized_frame:
  "eventTargetDeliveryAuthorized sc w a r tgt = Some (b, w') \<Longrightarrow> same_policies sc w w' \<and> world.more w' = world.more w"
  by (auto simp: eventTargetDeliveryAuthorized_def Let_def same_policies_refl dest: deliveryAuthorized_frame
      split: option.splits if_splits)

lemma more_events: "world.more w' = world.more w \<Longrightarrow> w_events w' = w_events w"
  by (cases w; cases w') simp

lemma SendMessage_queues: "SendMessage u d now a n body sealed dek ats opts = Inr (m, d') \<Longrightarrow> db_queues d' = db_queues d"
  by (auto simp: SendMessage_def send_prepare_def send_commit_def insert_message_def Let_def
      split: sum.splits option.splits if_splits prod.splits)

lemma send_plain_frame:
  assumes "send_plain sc w a n body = (err, w')"
  shows "same_policies sc w w' \<and> world.more w' = world.more w"
proof -
  have "w_server w' = w_server w" "w_logs w' = w_logs w" "w_rest w' = w_rest w" "world.more w' = world.more w"
    "db_queues (w_sqs w') = db_queues (w_sqs w)"
    using assms by (auto simp: send_plain_def Let_def dest: SendMessage_queues split: sum.splits)
  then show ?thesis using same_policies_refl [of sc w] by (simp add: same_policies_def)
qed

lemma sendLabDLQMessage_frame:
  "sendLabDLQMessage sc w a dlq body = Some (b, w') \<Longrightarrow> same_policies sc w w' \<and> world.more w' = world.more w"
  by (auto simp: sendLabDLQMessage_def Let_def same_policies_refl dest!: send_plain_frame
      split: if_splits option.splits sum.splits prod.splits)

text \<open>The rules, targets and entries, which no delivery changes.\<close>

definition same_tables :: "events \<Rightarrow> events \<Rightarrow> bool" where
  "same_tables ev ev' \<longleftrightarrow>
     ev_buses ev' = ev_buses ev \<and> ev_rules ev' = ev_rules ev \<and> ev_targets ev' = ev_targets ev \<and> ev_entries ev' = ev_entries ev"

lemma same_tables_refl: "same_tables ev ev"
  by (simp add: same_tables_def)

lemma same_tables_trans: "same_tables ev ev1 \<Longrightarrow> same_tables ev1 ev2 \<Longrightarrow> same_tables ev ev2"
  by (simp add: same_tables_def)

text \<open>A delivery to another service changes none of the policies that decide deliveries.\<close>

definition deliveries_keep_policies :: "('r, 'x) services_scheme \<Rightarrow> bool" where
  "deliveries_keep_policies sc \<longleftrightarrow>
     (\<forall>r a arn b e c. sc_policy sc (snd (sc_deliver sc r a arn b e c)) = sc_policy sc r)"

lemma same_policies_events: "same_policies sc (w\<lparr>w_events := ev\<rparr>) w' = same_policies sc w w'"
  "same_policies sc w (w'\<lparr>w_events := ev\<rparr>) = same_policies sc w w'" "same_policies sc w (draw w') = same_policies sc w w'"
  by (simp_all add: same_policies_def draw_def)

lemma recordEventTargetDelivery_frame:
  assumes "recordEventTargetDelivery sc w e rule tgt err = Some w'"
  shows "same_policies sc w w' \<and> same_tables (w_events w) (w_events w') \<and> ev_matches (w_events w') = ev_matches (w_events w)"
proof -
  obtain b w1 rows where w1: "(case err of Some msg \<Rightarrow> sendLabDLQMessage sc w (ee_account e) (et_DeadLetterARN tgt) (dlq_body e tgt msg)
      | None \<Rightarrow> Some (False, w)) = Some (b, w1)" "w' = draw (w1\<lparr>w_events := (w_events w1)\<lparr>ev_deliveries := rows\<rparr>\<rparr>)"
    using assms by (auto simp: recordEventTargetDelivery_def Let_def Option.bind_eq_Some_conv)
  have "same_policies sc w w1 \<and> world.more w1 = world.more w"
    using w1(1) by (auto simp: same_policies_refl dest: sendLabDLQMessage_frame split: option.splits)
  then show ?thesis using more_events [of w1 w] by (simp add: w1(2) same_policies_events) (simp add: draw_def same_tables_def)
qed

lemma deliver_to_queue_frame:
  "deliver_to_queue sc w a arn body = (err, w') \<Longrightarrow> same_policies sc w w' \<and> world.more w' = world.more w"
  by (auto simp: deliver_to_queue_def same_policies_refl dest!: send_plain_frame split: option.splits prod.splits)

lemma deliverEventTarget_frame:
  assumes "deliverEventTarget sc w e rule tgt = Some w'"
  shows "same_tables (w_events w) (w_events w') \<and> ev_matches (w_events w') = ev_matches (w_events w) \<and>
    (deliveries_keep_policies sc \<longrightarrow> same_policies sc w w')"
proof (cases "delivery_input (sc_visit sc) e tgt")
  case None
  then show ?thesis using assms by (simp add: deliverEventTarget_def same_tables_refl same_policies_refl)
next
  case (Some body)
  let ?arn = "TrimSpace (et_ARN tgt)"
  consider "HasPrefix ?arn ''arn:aws:sqs:''" | "\<not> HasPrefix ?arn ''arn:aws:sqs:''" "eventTargetDeliveryAction ?arn \<noteq> None"
    | "\<not> HasPrefix ?arn ''arn:aws:sqs:''" "eventTargetDeliveryAction ?arn = None" by blast
  then show ?thesis
  proof cases
    case 1
    obtain err w1 where w1: "deliver_to_queue sc w (ee_account e) ?arn body = (err, w1)" by (meson surj_pair)
    then have "recordEventTargetDelivery sc w1 e rule tgt err = Some w'"
      using assms Some 1 by (simp add: deliverEventTarget_def Let_def)
    from recordEventTargetDelivery_frame [OF this] deliver_to_queue_frame [OF w1] more_events [of w1 w]
    show ?thesis using same_policies_trans [of sc w w1 w'] by simp
  next
    case 2
    obtain err rest' where r: "sc_deliver sc (w_rest w) (ee_account e) ?arn body (ee_entry_id e) (ee_created e) = (err, rest')"
      by (meson surj_pair)
    let ?w1 = "w\<lparr>w_rest := rest'\<rparr>"
    have "recordEventTargetDelivery sc ?w1 e rule tgt err = Some w'"
      using assms Some 2 r by (simp add: deliverEventTarget_def Let_def)
    note f = recordEventTargetDelivery_frame [OF this]
    have "same_policies sc w ?w1" if "deliveries_keep_policies sc"
    proof -
      have "sc_policy sc rest' = sc_policy sc (w_rest w)" using that r unfolding deliveries_keep_policies_def by (metis snd_conv)
      then show ?thesis using same_policies_refl [of sc w] by (simp add: same_policies_def)
    qed
    then show ?thesis using f same_policies_trans [of sc w ?w1 w'] by simp
  next
    case 3
    then show ?thesis using assms Some by (simp add: deliverEventTarget_def same_tables_refl same_policies_refl)
  qed
qed

section \<open>Which targets an event reaches\<close>

text \<open>
  The match of a target is recorded where the target may receive it: in a state with the policies of \<open>w\<close>
  (between the two other targets may have been served and credentials minted).
\<close>

definition reached ::
  "('r, 'x) services_scheme \<Rightarrow> 'r event_world \<Rightarrow> event_entry \<Rightarrow> EventRule \<Rightarrow> EventTarget \<Rightarrow> event_match \<Rightarrow> bool"
where
  "reached sc w e rule tgt m \<longleftrightarrow>
     (\<exists>mid. m = match_row mid e rule tgt) \<and>
     (\<exists>w1 w2. same_policies sc w w1 \<and> eventTargetDeliveryAuthorized sc w1 (ee_account e) (er_ARN rule) tgt = Some (True, w2))"

lemma reached_earlier: "same_policies sc w w1 \<Longrightarrow> reached sc w1 e rule tgt m \<Longrightarrow> reached sc w e rule tgt m"
  by (auto simp: reached_def intro: same_policies_trans)

lemma recordEventRuleMatch_frame:
  assumes "recordEventRuleMatch sc w e rule tgt = Some w'"
  shows "same_policies sc w w' \<and> same_tables (w_events w) (w_events w') \<and>
    ev_matches (w_events w') = ev_matches (w_events w) @ [match_row (sc_uuid sc (w_drawn w)) e rule tgt]"
  using assms by (auto simp: recordEventRuleMatch_def Let_def sql_insert_def same_policies_events same_policies_refl
      split: if_splits) (simp_all add: draw_def same_tables_def)

definition new_matches :: "'r event_world \<Rightarrow> 'r event_world \<Rightarrow> event_match set" where
  "new_matches w w' = set (ev_matches (w_events w')) - set (ev_matches (w_events w))"

lemma match_targets_frame:
  "match_targets sc e rule tgts w = Some (err, w') \<Longrightarrow>
   same_tables (w_events w) (w_events w') \<and>
   (deliveries_keep_policies sc \<longrightarrow>
     same_policies sc w w' \<and> (\<forall>m\<in>new_matches w w'. \<exists>tgt\<in>set tgts. reached sc w e rule tgt m))"
proof (induction tgts arbitrary: w)
  case Nil
  then show ?case by (simp add: same_tables_refl same_policies_refl new_matches_def)
next
  case (Cons tgt tgts)
  obtain ok w1 where w1: "eventTargetDeliveryAuthorized sc w (ee_account e) (er_ARN rule) tgt = Some (ok, w1)"
    using Cons.prems by (auto simp: Option.bind_eq_Some_conv)
  note f1 = eventTargetDeliveryAuthorized_frame [OF w1]
  have e1: "w_events w1 = w_events w" using f1 more_events by blast
  have p1: "same_policies sc w w1" using f1 by simp
  consider "\<not> ok" "match_targets sc e rule tgts w1 = Some (err, w')"
    | ok "recordEventRuleMatch sc w1 e rule tgt = None" "w' = draw w1"
    | w2 w3 where ok "recordEventRuleMatch sc w1 e rule tgt = Some w2" "deliverEventTarget sc w2 e rule tgt = Some w3"
        "match_targets sc e rule tgts w3 = Some (err, w')"
    using Cons.prems w1 by (auto simp: Option.bind_eq_Some_conv split: if_splits option.splits)
  then show ?case
  proof cases
    case 1
    have "new_matches w w' = new_matches w1 w'" by (simp add: new_matches_def e1)
    then show ?thesis using Cons.IH [OF 1(2)] e1 p1 same_policies_trans [of sc w w1 w'] reached_earlier [OF p1] by fastforce
  next
    case 2
    then show ?thesis using e1 p1
      by (simp add: new_matches_def same_policies_events) (simp add: draw_def same_tables_refl)
  next
    case 3
    note r = recordEventRuleMatch_frame [OF 3(2)] and d = deliverEventTarget_frame [OF 3(3)] and ih = Cons.IH [OF 3(4)]
    let ?m = "match_row (sc_uuid sc (w_drawn w1)) e rule tgt"
    have tables: "same_tables (w_events w) (w_events w')"
      using r d ih e1 same_tables_trans by metis
    have new: "new_matches w w' \<subseteq> insert ?m (new_matches w3 w')"
      using r d e1 by (auto simp: new_matches_def)
    have this_target: "reached sc w e rule tgt ?m"
      using w1 3(1) same_policies_refl [of sc w] by (auto simp: reached_def)
    have "same_policies sc w w' \<and> (\<forall>m\<in>new_matches w w'. \<exists>t\<in>set (tgt # tgts). reached sc w e rule t m)"
      if k: "deliveries_keep_policies sc"
    proof -
      have p3: "same_policies sc w w3" using p1 r d k by (metis same_policies_trans)
      then have "same_policies sc w w'" using ih k by (metis same_policies_trans)
      moreover have "\<exists>t\<in>set (tgt # tgts). reached sc w e rule t m" if "m \<in> new_matches w w'" for m
      proof (cases "m = ?m")
        case False
        then have "m \<in> new_matches w3 w'" using new that by blast
        then obtain t where "t \<in> set tgts" "reached sc w3 e rule t m" using ih k by blast
        then show ?thesis using reached_earlier [OF p3, of e rule t m] by auto
      qed (use this_target in auto)
      ultimately show ?thesis by blast
    qed
    then show ?thesis using tables by blast
  qed
qed

text \<open>A rule an event is due to: enabled, with a pattern the event matches.\<close>

definition rule_matches :: "event_entry \<Rightarrow> EventRule \<Rightarrow> bool" where
  "rule_matches e r \<longleftrightarrow>
     er_State r = RuleStateEnabled \<and>
     (\<exists>p d. pattern_of_text (er_Pattern r) = Some p \<and> p \<noteq> Fields [] \<and> event_detail (ee_detail e) = Some d \<and>
            event_matches p (AMap (envelope (ee_source e) (ee_detail_type e) d)))"

lemma match_rules_frame:
  "match_rules sc e rules w = Some (err, w') \<Longrightarrow> (\<forall>r\<in>set rules. pattern_of_text (er_Pattern r) \<noteq> None) \<Longrightarrow>
   same_tables (w_events w) (w_events w') \<and>
   (deliveries_keep_policies sc \<longrightarrow>
     same_policies sc w w' \<and>
     (\<forall>m\<in>new_matches w w'. \<exists>r\<in>set rules. rule_matches e r \<and>
        (\<exists>tgt\<in>set (targets_of (w_events w) (ee_account e) (normalizeEventBusName (ee_bus e)) (er_Name r)).
           reached sc w e r tgt m)))"
proof (induction rules arbitrary: w)
  case Nil
  then show ?case by (simp add: same_tables_refl same_policies_refl new_matches_def)
next
  case (Cons r rules)
  obtain p where p: "pattern_of_text (er_Pattern r) = Some p" using Cons.prems(2) by auto
  note match = matchEventPatternJSON_cases [OF p, of "ee_source e" "ee_detail_type e" "ee_detail e"]
  let ?tgts = "targets_of (w_events w) (ee_account e) (normalizeEventBusName (ee_bus e)) (er_Name r)"
  consider "match_rules sc e rules w = Some (err, w')"
    | "w' = w"
    | err1 w1 where "rule_matches e r" "match_targets sc e r ?tgts w = Some (err1, w1)"
        "err1 \<noteq> None \<and> w' = w1 \<or> match_rules sc e rules w1 = Some (err, w')"
    using Cons.prems(1) p match
    by (auto simp: rule_matches_def ListTargetsByRule_def Option.bind_eq_Some_conv split: if_splits sum.splits option.splits)
  then show ?case
  proof cases
    case 1
    then show ?thesis using Cons.IH [OF 1] Cons.prems(2) by auto
  next
    case 2
    then show ?thesis by (simp add: same_tables_refl same_policies_refl new_matches_def)
  next
    case 3
    note t = match_targets_frame [OF 3(2)]
    from 3(3) show ?thesis
    proof
      assume "err1 \<noteq> None \<and> w' = w1"
      then show ?thesis using t 3(1) by auto
    next
      assume ih: "match_rules sc e rules w1 = Some (err, w')"
      have f: "same_tables (w_events w1) (w_events w') \<and>
         (deliveries_keep_policies sc \<longrightarrow> same_policies sc w1 w' \<and>
           (\<forall>m\<in>new_matches w1 w'. \<exists>r\<in>set rules. rule_matches e r \<and>
              (\<exists>tgt\<in>set (targets_of (w_events w1) (ee_account e) (normalizeEventBusName (ee_bus e)) (er_Name r)).
                 reached sc w1 e r tgt m)))"
        using Cons.IH [OF ih] Cons.prems(2) by simp
      have targets: "targets_of (w_events w1) a b n = targets_of (w_events w) a b n" for a b n
        using t by (simp add: targets_of_def same_tables_def)
      have "new_matches w w' \<subseteq> new_matches w w1 \<union> new_matches w1 w'" by (auto simp: new_matches_def)
      moreover have "\<exists>x\<in>set (r # rules). rule_matches e x \<and>
          (\<exists>tgt\<in>set (targets_of (w_events w) (ee_account e) (normalizeEventBusName (ee_bus e)) (er_Name x)). reached sc w e x tgt m)"
        if k: "deliveries_keep_policies sc" and m: "m \<in> new_matches w w1 \<union> new_matches w1 w'" for m
        using m
      proof
        assume "m \<in> new_matches w w1"
        then show ?thesis using t k 3(1) by auto
      next
        assume "m \<in> new_matches w1 w'"
        then obtain x tgt where "x \<in> set rules" "rule_matches e x" "reached sc w1 e x tgt m"
            "tgt \<in> set (targets_of (w_events w) (ee_account e) (normalizeEventBusName (ee_bus e)) (er_Name x))"
          using f k unfolding targets by blast
        then show ?thesis using t k reached_earlier [of sc w w1 e x tgt m] by auto
      qed
      moreover have "same_tables (w_events w) (w_events w')" using t f by (blast intro: same_tables_trans)
      moreover have "same_policies sc w w'" if "deliveries_keep_policies sc" using t f that by (blast intro: same_policies_trans)
      ultimately show ?thesis by blast
    qed
  qed
qed

section \<open>At every moment\<close>

lemma events_ok_tables: "events_ok ev \<Longrightarrow> same_tables ev ev' \<Longrightarrow> events_ok ev'"
  using events_ok_cong [of ev' ev] by (simp add: same_tables_def)

lemma rules_of_in: "r \<in> set (rules_of ev a b) \<longleftrightarrow> r \<in> set (ev_rules ev) \<and> er_AccountID r = a \<and> er_BusName r = b"
  by (auto simp: rules_of_def)

lemma targets_of_in: "t \<in> set (targets_of ev a b n) \<longleftrightarrow> t \<in> set (ev_targets ev) \<and> target_of_rule a b n t"
  by (auto simp: targets_of_def)

lemma ListRules_ok:
  assumes "ListRules now ev a bus = (rs, ev')" "events_ok ev"
  shows "events_ok ev'" "rs = rules_of ev a (normalizeEventBusName bus)" "ev_rules ev' = ev_rules ev"
    "ev_targets ev' = ev_targets ev" "ev_entries ev' = ev_entries ev" "ev_matches ev' = ev_matches ev"
  using assms ensureDefault_ok [OF assms(2), of now a "[]"]
  by (auto simp: ListRules_def Let_def rules_of_def split: if_splits)

lemma events_ok_patterns: "events_ok ev \<Longrightarrow> r \<in> set (ev_rules ev) \<Longrightarrow> pattern_of_text (er_Pattern r) \<noteq> None"
  by (simp add: events_ok_def rule_ok_def)

text \<open>What an entry passes through before its event is matched.\<close>

lemma putEventsEntry_cases:
  assumes "putEventsEntry sc a entry w = Some (out, w')" "events_ok (w_events w)"
  obtains "same_tables (w_events w) (w_events w')" "new_matches w w' = {}"
  | ev where "events_ok ev" "w_events w' = ev" "new_matches w w' = {}"
  | ev e err w1 where "e = new_entry sc (Suc (w_drawn w)) a (normalizeEventBusName (pe_EventBusName entry)) entry"
      "events_ok ev" "ev_rules ev = ev_rules (w_events w)" "ev_targets ev = ev_targets (w_events w)"
      "ev_matches ev = ev_matches (w_events w)" "e \<in> set (ev_entries ev)"
      "w1 = (w\<lparr>w_drawn := w_drawn w1\<rparr>)\<lparr>w_events := ev\<rparr>"
      "matchAndRecordEventTargets sc e w1 = Some (err, w')"
proof -
  let ?bus = "normalizeEventBusName (pe_EventBusName entry)"
  let ?e = "new_entry sc (Suc (w_drawn w)) a ?bus entry"
  show thesis
  proof (cases "entry_bus (sc_clock sc (w_drawn w)) (w_events w) a ?bus")
    case (Inl err)
    then show thesis using assms that(1) by (auto simp: putEventsEntry_def Let_def same_tables_refl new_matches_def)
  next
    case (Inr ev)
    note b = entry_bus_ok [OF Inr assms(2)]
    let ?w1 = "draw (w\<lparr>w_events := ev\<rparr>)"
    consider "w' = ?w1" | "w' = draw ?w1"
      | err rows where "sql_insert ee_entry_id ?e (ev_entries ev) = Some rows"
          "matchAndRecordEventTargets sc ?e (draw (?w1\<lparr>w_events := ev\<lparr>ev_entries := rows\<rparr>\<rparr>)) = Some (err, w')"
      using assms(1) Inr by (auto simp: putEventsEntry_def Let_def draw_def split: if_splits option.splits)
    then show thesis
    proof cases
      case 3
      then show thesis using b
        by (intro that(3) [of ?e "ev\<lparr>ev_entries := rows\<rparr>" "draw (?w1\<lparr>w_events := ev\<lparr>ev_entries := rows\<rparr>\<rparr>)" err])
          (auto simp: draw_def sql_insert_def events_ok_def rule_ok_def target_ok_def split: if_splits)
    qed (use b in \<open>auto simp: draw_def new_matches_def intro: that(2)\<close>)
  qed
qed

lemma matchAndRecord_frame:
  assumes "matchAndRecordEventTargets sc e w = Some (err, w')" "events_ok (w_events w)"
  shows "events_ok (w_events w') \<and> set (ev_entries (w_events w')) = set (ev_entries (w_events w)) \<and>
    (deliveries_keep_policies sc \<longrightarrow>
      (\<forall>m\<in>new_matches w w'. \<exists>r\<in>set (rules_of (w_events w) (ee_account e) (normalizeEventBusName (ee_bus e))). rule_matches e r \<and>
         (\<exists>tgt\<in>set (targets_of (w_events w) (ee_account e) (normalizeEventBusName (ee_bus e)) (er_Name r)). reached sc w e r tgt m)))"
proof -
  obtain rs ev where r: "ListRules (sc_clock sc (w_drawn w)) (w_events w) (ee_account e) (ee_bus e) = (rs, ev)"
    by (meson surj_pair)
  note l = ListRules_ok [OF r assms(2)]
  let ?w1 = "draw (w\<lparr>w_events := ev\<rparr>)"
  have ev1: "w_events ?w1 = ev" by (simp add: draw_def)
  have "match_rules sc e rs ?w1 = Some (err, w')" using assms(1) r by (simp add: matchAndRecordEventTargets_def)
  moreover have "\<forall>r\<in>set rs. pattern_of_text (er_Pattern r) \<noteq> None"
    using l(2) events_ok_patterns [OF assms(2)] by (auto simp: rules_of_in)
  ultimately have f: "same_tables ev (w_events w') \<and>
   (deliveries_keep_policies sc \<longrightarrow>
     (\<forall>m\<in>new_matches ?w1 w'. \<exists>r\<in>set rs. rule_matches e r \<and>
        (\<exists>tgt\<in>set (targets_of ev (ee_account e) (normalizeEventBusName (ee_bus e)) (er_Name r)). reached sc ?w1 e r tgt m)))"
    using match_rules_frame [of sc e rs ?w1 err w'] unfolding ev1 by blast
  have p: "same_policies sc w ?w1" by (simp add: same_policies_events same_policies_refl)
  have n: "new_matches ?w1 w' = new_matches w w'" using l(6) by (simp add: new_matches_def ev1)
  have t: "targets_of ev a b n = targets_of (w_events w) a b n" for a b n using l(4) by (simp add: targets_of_def)
  have "events_ok (w_events w')" using f l(1) by (blast intro: events_ok_tables)
  moreover have "ev_entries (w_events w') = ev_entries (w_events w)" using f l(5) by (simp add: same_tables_def)
  ultimately show ?thesis using f reached_earlier [OF p] unfolding n t l(2) by fastforce
qed

lemma putEventsEntry_ok:
  assumes "putEventsEntry sc a entry w = Some (out, w')" "events_ok (w_events w)"
  shows "events_ok (w_events w')"
  using assms
proof (cases rule: putEventsEntry_cases)
  case 1
  then show ?thesis using assms(2) by (blast intro: events_ok_tables)
next
  case (3 ev e err w1)
  then have "w_events w1 = ev" by (metis event_world.select_convs(1) event_world.surjective event_world.update_convs(1))
  then show ?thesis using matchAndRecord_frame [OF 3(8)] 3(2) by simp
qed simp

lemma PutEvents_ok:
  "PutEvents sc a entries w = Some (outs, w') \<Longrightarrow> events_ok (w_events w) \<Longrightarrow> events_ok (w_events w')"
  by (induction entries arbitrary: w outs) (auto simp: Option.bind_eq_Some_conv dest: putEventsEntry_ok)

lemma event_step_ok: "event_step sc w l w' \<Longrightarrow> events_ok (w_events w) \<Longrightarrow> events_ok (w_events w')"
proof (induction rule: event_step.induct)
  case (2 now w a n b ev)
  then show ?case by (auto simp: DescribeEventBus_def Let_def intro: ensureDefault_ok split: if_splits)
next
  case (3 now w a bs ev)
  then show ?case by (auto simp: ListEventBuses_def Let_def intro: ensureDefault_ok)
qed (auto simp: EnableRule_def DisableRule_def dest: CreateEventBus_ok DeleteEventBus_ok PutRule_ok ListRules_ok(1)
      DeleteRule_ok setRuleState_ok PutTargets_ok RemoveTargets_ok PutEvents_ok)

lemma event_init_ok: "event_init w \<Longrightarrow> events_ok (w_events w)"
  by (simp add: event_init_def no_events_def events_ok_def)

interpretation bus: invariant_system event_init "event_step sc" "\<lambda>w. events_ok (w_events w)" for sc
  by unfold_locales (blast intro: event_init_ok event_step_ok)+



section \<open>A detail that is no object\<close>

definition asks_detail :: "EventRule \<Rightarrow> bool" where
  "asks_detail r \<longleftrightarrow> er_State r = RuleStateEnabled \<and> pattern_of_text (er_Pattern r) \<noteq> Some (Fields [])"

lemma match_rules_bad_detail:
  "event_detail (ee_detail e) = None \<Longrightarrow> (\<forall>r\<in>set rules. pattern_of_text (er_Pattern r) \<noteq> None) \<Longrightarrow>
   match_rules sc e rules w = Some (if \<exists>r\<in>set rules. asks_detail r then Some (ErrMatch BadDetail) else None, w)"
proof (induction rules)
  case (Cons x rules)
  obtain p where p: "pattern_of_text (er_Pattern x) = Some p" using Cons.prems(2) by auto
  note match = matchEventPatternJSON_cases [OF p, of "ee_source e" "ee_detail_type e" "ee_detail e"]
  show ?case using match Cons p by (cases "asks_detail x") (auto simp: asks_detail_def)
qed simp

lemma events_update_id: "w_events v = ev \<Longrightarrow> v\<lparr>w_events := ev\<rparr> = v"
  by (cases v) simp

lemma json_parse_Nil: "json_parse [] = None"
  by (simp add: json_parse_def)

text \<open>An entry whose detail is JSON but not an object, say a list, is stored and then reported as failed, without being
  matched, when some enabled rule of the bus has a pattern that is not empty, and reported as accepted when there
  is none: whether the entry of one caller fails is decided by the rules of others.\<close>
theorem bad_detail_depends_on_rules:
  assumes "reachable event_init (event_step sc) w" "sc_uuid sc (Suc (w_drawn w)) \<notin> ee_entry_id ` set (ev_entries (w_events w))"
    and "json_parse (TrimSpace (pe_Detail entry)) \<noteq> None" "unmarshal_map (TrimSpace (pe_Detail entry)) = None"
    and "GetEventBus (w_events w) account (pe_EventBusName entry) = Inr b"
  shows "\<exists>w' e. ev_entries (w_events w') = ev_entries (w_events w) @ [e] \<and> new_matches w w' = {} \<and>
    putEventsEntry sc account entry w =
      Some (if list_ex (\<lambda>r. er_AccountID r = account \<and> er_BusName r = normalizeEventBusName (pe_EventBusName entry) \<and>
                  er_State r = ''ENABLED'' \<and> pattern_of_text (er_Pattern r) \<noteq> Some (Fields [])) (ev_rules (w_events w))
            then Inl (ErrMatch BadDetail) else Inr (ee_entry_id e), w')"
proof -
  have ok: "events_ok (w_events w)" using assms(1) by (rule bus.reachable_inv)
  let ?bus = "normalizeEventBusName (pe_EventBusName entry)"
  let ?e = "new_entry sc (Suc (w_drawn w)) account ?bus entry"
  let ?ev = "(w_events w)\<lparr>ev_entries := ev_entries (w_events w) @ [?e]\<rparr>"
  let ?w1 = "draw ((draw w)\<lparr>w_events := ?ev\<rparr>)"
  have draw: "w_drawn (draw v) = Suc (w_drawn v)" "w_events (draw v) = w_events v" for v :: "'a event_world"
    by (simp_all add: draw_def)
  have detail: "ee_detail ?e = TrimSpace (pe_Detail entry)" "TrimSpace (pe_Detail entry) \<noteq> []"
    using assms(3) by (auto simp: new_entry_def json_parse_Nil)
  have fields: "ee_account ?e = account" "ee_bus ?e = ?bus" by (simp_all add: new_entry_def)
  have bus: "GetEventBus (w_events w) account ?bus = Inr b" using assms(5) by (simp add: GetEventBus_def)
  then have b: "entry_bus now (w_events w) account ?bus = Inr (w_events w)" for now
    by (auto simp: entry_bus_def ensureDefaultEventBus_def)
  have ev1: "GetEventBus ?ev account ?bus = Inr b" using bus by (simp add: GetEventBus_def)
  have l: "ListRules now ?ev account ?bus = (rules_of ?ev account ?bus, ?ev)" for now
    using ev1 by (auto simp: ListRules_def ensureDefaultEventBus_def Let_def)
  have put: "putEventsEntry sc account entry w =
      map_option (\<lambda>(err, w'). (case err of None \<Rightarrow> Inr (ee_entry_id ?e) | Some x \<Rightarrow> Inl x, w')) (matchAndRecordEventTargets sc ?e ?w1)"
  proof -
    obtain j where "json_parse (ee_detail ?e) = Some j" using assms(3) detail(1) by auto
    moreover have "sql_insert ee_entry_id ?e (ev_entries (w_events w)) = Some (ev_entries (w_events w) @ [?e])"
      using assms(2) by (simp add: sql_insert_def) (simp add: new_entry_def)
    ultimately show ?thesis using b by (simp add: putEventsEntry_def Let_def draw cong: option.case_cong)
  qed
  have "matchAndRecordEventTargets sc ?e ?w1 = match_rules sc ?e (rules_of ?ev account ?bus) (draw ?w1)"
  proof -
    have ev: "w_events ?w1 = ?ev" by (simp add: draw)
    then have id: "?w1\<lparr>w_events := ?ev\<rparr> = ?w1" by (rule events_update_id)
    show ?thesis by (simp only: matchAndRecordEventTargets_def ev fields l prod.case id)
  qed
  moreover have "event_detail (ee_detail ?e) = None"
    using assms(4) detail by (simp add: event_detail_def TrimSpace_idem)
  moreover have "\<forall>r\<in>set (rules_of ?ev account ?bus). pattern_of_text (er_Pattern r) \<noteq> None"
    using events_ok_patterns [OF ok] by (simp add: rules_of_in)
  ultimately have "matchAndRecordEventTargets sc ?e ?w1 =
      Some (if \<exists>r\<in>set (rules_of ?ev account ?bus). asks_detail r then Some (ErrMatch BadDetail) else None, draw ?w1)"
    using match_rules_bad_detail [of ?e "rules_of ?ev account ?bus" sc "draw ?w1"] by (simp only: simp_thms)
  moreover have "(\<exists>r\<in>set (rules_of ?ev account ?bus). asks_detail r) =
      list_ex (\<lambda>r. er_AccountID r = account \<and> er_BusName r = ?bus \<and> er_State r = ''ENABLED'' \<and>
                  pattern_of_text (er_Pattern r) \<noteq> Some (Fields [])) (ev_rules (w_events w))"
    by (auto simp: list_ex_iff rules_of_in asks_detail_def RuleStateEnabled_def)
  ultimately show ?thesis
    by (intro exI [of _ "draw ?w1"] exI [of _ ?e]) (simp add: put draw new_matches_def)
qed

end
