(* ===== verification/Delivery_Props.thy ===== *)
theory Delivery_Props
  imports Delivery Server_Auth_Props
begin

text \<open>
  Two ways in which a delivery is decided more generously than a request of the same principal: a boundary
  that cannot be read, and the root of the account that owns the destination.
\<close>

section \<open>The boundary of the role\<close>

text \<open>The state in which the role has no boundary set.\<close>

definition without_boundary :: "string \<Rightarrow> string \<Rightarrow> iam \<Rightarrow> iam" where
  "without_boundary account roleName s =
     s\<lparr>i_boundaries := filter (\<lambda>b. boundary_key b \<noteq> (account, ''role'', roleName)) (i_boundaries s)\<rparr>"

lemma without_boundary_fields:
  "i_attached (without_boundary a n s) = i_attached s" "i_policies (without_boundary a n s) = i_policies s"
  "i_inline (without_boundary a n s) = i_inline s" "i_keys (without_boundary a n s) = i_keys s"
  "GetRole (without_boundary a n s) a' n' = GetRole s a' n'"
  by (simp_all add: without_boundary_def GetRole_def GetRoleRecord_def find_role_def)

lemma without_boundary_docs:
  "identityPolicyDocsForRoleARN (without_boundary a n s) arn = identityPolicyDocsForRoleARN s arn"
  by (simp add: identityPolicyDocsForRoleARN_def ListAttachedPolicyDocuments_def ListInlinePolicies_def join_policies_def
      attachments_def without_boundary_fields)

lemma without_boundary_none: "delivery_boundary (without_boundary a n s) a n = []"
proof -
  have "getPermissionsBoundaryARN (without_boundary a n s) a ''role'' n = None"
    by (simp add: getPermissionsBoundaryARN_def without_boundary_def find_None_iff)
  then show ?thesis by (simp add: delivery_boundary_def PermissionsBoundaryDoc_def)
qed

lemma boundary_keys [simp]:
  "PermissionsBoundaryDoc (s\<lparr>i_keys := ks\<rparr>) a k n = PermissionsBoundaryDoc s a k n"
proof -
  have "policyDocumentByARN (s\<lparr>i_keys := ks\<rparr>) = policyDocumentByARN s"
    by (rule ext) (simp add: policyDocumentByARN_def find_managed_def cong: option.case_cong)
  then show ?thesis by (simp add: PermissionsBoundaryDoc_def getPermissionsBoundaryARN_def cong: option.case_cong)
qed

definition in_iam :: "(iam \<Rightarrow> iam) \<Rightarrow> ('r, 'y) world_scheme \<Rightarrow> ('r, 'y) world_scheme" where
  "in_iam f w = w\<lparr>w_server := (w_server w)\<lparr>sv_iam := f (sv_iam (w_server w))\<rparr>\<rparr>"

text \<open>C34. A permissions boundary whose policy was deleted refuses every request of the role's sessions, yet for deliveries
  with the role it is as if no boundary had ever been set: the service then does with the role what the role
  itself may not.\<close>
theorem delivery_boundary_fails_open:
  assumes "ParseRoleARN roleARN = Some (account, roleName)" "roleName \<noteq> []"
    and "PermissionsBoundaryDoc (sv_iam (w_server w)) account ''role'' roleName = Inl e"
    and "p_kind (vf_Principal v) = KindRole" "RoleName (vf_Principal v) = roleName" "vf_AccountID v = account"
  shows "map_option fst (deliveryRoleSessionAllows sc w account roleARN action targetARN sessionName region sourceARN) =
           map_option fst (deliveryRoleSessionAllows sc (in_iam (without_boundary account roleName) w) account roleARN action
             targetARN sessionName region sourceARN) \<and>
         authorize (w_server w) v action targetARN = Some False"
proof
  let ?s = "w_server w" and ?f = "without_boundary account roleName"
  have none: "delivery_boundary ((sv_iam ?s)\<lparr>i_keys := ks\<rparr>) account roleName = []" for ks
    using assms(3) by (simp add: delivery_boundary_def)
  have none': "delivery_boundary ((?f (sv_iam ?s))\<lparr>i_keys := ks\<rparr>) account roleName = []" for ks
    using without_boundary_none [of account roleName "sv_iam ?s"] by (simp add: delivery_boundary_def)
  have docs: "identityPolicyDocsForRoleARN (s\<lparr>i_keys := ks\<rparr>) roleARN = identityPolicyDocsForRoleARN s roleARN" for s ks
    by (simp add: identityPolicyDocsForRoleARN_def ListAttachedPolicyDocuments_def ListInlinePolicies_def join_policies_def
        attachments_def)
  show "map_option fst (deliveryRoleSessionAllows sc w account roleARN action targetARN sessionName region sourceARN) =
      map_option fst (deliveryRoleSessionAllows sc (in_iam ?f w) account roleARN action targetARN sessionName region sourceARN)"
  proof (cases "\<exists>r. GetRole (sv_iam ?s) account roleName = Inr r")
    case True
    let ?m = "sc_mint sc (w_drawn w)"
    let ?mint = "MintTempCredentialsOpts (sc_seal sc) (mt_AccessKeyID ?m)
        ((role_opts account roleARN sessionName [] (sc_clock sc (w_drawn w) + ns_hour))
           \<lparr>mo_Secret := mt_Secret ?m, mo_SessionToken := mt_SessionToken ?m\<rparr>) (i_keys (sv_iam ?s))"
    show ?thesis
    proof (cases ?mint)
      case None
      then show ?thesis using assms(1) True
        by (auto simp: deliveryRoleSessionAllows_def in_iam_def issue_key_def Let_def without_boundary_fields)
    next
      case (Some rows)
      then show ?thesis using assms(1) True
        by (auto simp: deliveryRoleSessionAllows_def in_iam_def issue_key_def Let_def without_boundary_fields delivery_inputs_def
            delivery_context_def none none' docs without_boundary_docs option.map_comp comp_def split: sum.split)
    qed
  next
    case False
    then have "\<exists>e. GetRole (sv_iam ?s) account roleName = Inl e" by (metis sum.exhaust)
    then show ?thesis using assms(1)
      by (auto simp: deliveryRoleSessionAllows_def in_iam_def without_boundary_fields)
  qed
  have "unreadable ?s v" using assms(2-6) by (simp add: unreadable_def)
  then show "authorize ?s v action targetARN = Some False" using unreadable_inputs by (simp add: authorize_def)
qed

section \<open>The root of the owner\<close>

lemma owner_root_allows:
  assumes "GetQueue (w_sqs w) owner name = Inr q" "map_of (q_attrs q) ''Policy'' = Some policy"
    and "queueNameFromARN arn = Some name" "resourceOwnerAccountFromARN arn = owner" "owner \<noteq> []" "arn \<noteq> []"
    and "HasPrefix arn ''arn:aws:sqs:''" "TrimSpace policy \<noteq> []"
    and "parsePolicyDocument (TrimSpace policy) = Some doc" "pd_Statement doc = [st]"
    and "st_Effect st = ''Allow''" "st_Action st = [''sqs:SendMessage'']" "st_Resource st = [arn]" "st_Condition st = None"
    and "st_Principal st = Some \<lparr>ps_All = False, ps_AWS = [''arn:aws:iam::'' @ owner @ '':root''], ps_Service = [], ps_Federated = []\<rparr>"
    and "resourcesMatch [arn] arn = Some True" "servicePrincipal \<noteq> []"
  shows "deliveryTargetResourcePolicyAllows sc w anyAccount arn ''sqs:SendMessage'' servicePrincipal sourceARN = Some True"
proof -
  have action: "actionsMatch [''sqs:SendMessage''] ''sqs:SendMessage'' = Some True" by code_simp
  have cond: "conditionCatalogUnknown None = Some False" "conditionApplies None keys = Some condMatch" for keys
    by (simp_all add: conditionCatalogUnknown_def conditionApplies_def)
  have root: "principalRootMatches (the (st_Principal st)) owner"
    using assms(15) by (simp add: principalRootMatches_def)
  have stmt: "resourcePrincipalStatementMatches st ''sqs:SendMessage'' arn keys (\<lambda>spec. principalRootMatches spec owner) = Some True" for keys
    using assms(11-16) root action cond by (simp add: resourcePrincipalStatementMatches_def effect_known_def EqualFold_def)
  have service: "resourcePrincipalStatementMatches st ''sqs:SendMessage'' arn keys (\<lambda>spec. principalServiceMatches spec servicePrincipal) = Some False" for keys
    using assms(11,15) by (simp add: resourcePrincipalStatementMatches_def principalServiceMatches_def)
  have "EventTargetResourcePolicyAllows policy ''sqs:SendMessage'' arn servicePrincipal owner keys = Some True" for keys
    using assms(5,6,8-11,14,17) stmt service cond
    by (simp add: EventTargetResourcePolicyAllows_def Let_def eventTargetPathAllowed_def EqualFold_def)
  moreover have "deliveryTargetResourcePolicyDoc sc w owner arn = Some policy"
    using assms(1-3,7) by (simp add: deliveryTargetResourcePolicyDoc_def GetQueueAttributes_def null_text_def)
  moreover have "\<not> HasPrefix arn ''arn:aws:logs:''"
    using assms(7) by (auto simp: HasPrefix_def prefix_def)
  ultimately show ?thesis using assms(4,5)
    by (simp add: deliveryTargetResourcePolicyAllows_def delivery_policy_account_def Let_def)
qed

text \<open>A queue whose policy allows nothing but its own account's root, which the documentation says names only that
  root user, is open to the deliveries of every account: the rule of any other account may be sent to it, without
  a role and whatever its name. The account that delivers is not part of the decision.\<close>
theorem owner_root_opens_queue:
  assumes "GetQueue (w_sqs w) owner name = Inr q" "map_of (q_attrs q) ''Policy'' = Some policy"
    and "queueNameFromARN arn = Some name" "resourceOwnerAccountFromARN arn = owner" "owner \<noteq> []" "arn \<noteq> []"
    and "HasPrefix arn ''arn:aws:sqs:''" "TrimSpace policy \<noteq> []"
    and "parsePolicyDocument (TrimSpace policy) = Some doc" "pd_Statement doc = [st]"
    and "st_Effect st = ''Allow''" "st_Action st = [''sqs:SendMessage'']" "st_Resource st = [arn]" "st_Condition st = None"
    and "st_Principal st = Some \<lparr>ps_All = False, ps_AWS = [''arn:aws:iam::'' @ owner @ '':root''], ps_Service = [], ps_Federated = []\<rparr>"
    and "resourcesMatch [arn] arn = Some True" "servicePrincipal \<noteq> []"
  shows "deliveryAuthorizedRoleAndResource sc w anyAccount [] ''sqs:SendMessage'' arn servicePrincipal sourceARN sn region =
    Some (True, w)"
  by (simp add: deliveryAuthorizedRoleAndResource_def owner_root_allows [OF assms])

end
