(* ===== verification/Event_Samples.thy ===== *)
theory Event_Samples
  imports Event_Props Delivery_Props Server_Samples
begin

text \<open>
  Two accounts: one owns a queue that allows its own root to send, the other has a rule with that queue as
  target. The properties of the event bus and of deliveries, applied to them.
\<close>

section \<open>The services\<close>

definition lab :: "unit services" where
  "lab = \<lparr>sc_uuid = (\<lambda>n. replicate n CHR ''u''), sc_clock = (\<lambda>_. 0),
     sc_mint = (\<lambda>n. \<lparr>mt_AccessKeyID = replicate n CHR ''K'', mt_Secret = ''s'', mt_SessionToken = ''t''\<rparr>), sc_seal = id,
     sc_policy = (\<lambda>_ _ _. None), sc_deliver = (\<lambda>r _ _ _ _ _. (None, r)), sc_error = (\<lambda>_. ''error''), sc_visit = id\<rparr>"

lemma lab_keeps: "deliveries_keep_policies lab"
  by (simp add: deliveries_keep_policies_def lab_def)

section \<open>The queue of the other account\<close>

definition owner :: string where "owner = ''444455556666''"
definition jobs_arn :: string where "jobs_arn = ''arn:aws:sqs:us-east-1:444455556666:jobs''"

definition doc_owner_root :: string where
  "doc_owner_root = ''{\"Version\":\"2012-10-17\",\"Statement\":[{\"Effect\":\"Allow\",\"Principal\":{\"AWS\":\"arn:aws:iam::444455556666:root\"},\"Action\":\"sqs:SendMessage\",\"Resource\":\"arn:aws:sqs:us-east-1:444455556666:jobs\"}]}''"

definition owner_root_statement :: statement where
  "owner_root_statement =
     \<lparr>st_Effect = ''Allow'', st_Action = [''sqs:SendMessage''], st_Resource = [jobs_arn],
      st_Principal = Some \<lparr>ps_All = False, ps_AWS = [''arn:aws:iam::'' @ owner @ '':root''], ps_Service = [], ps_Federated = []\<rparr>,
      st_Condition = None\<rparr>"

lemma parse_doc_owner_root:
  "parsePolicyDocument doc_owner_root = Some \<lparr>pd_Version = ''2012-10-17'', pd_Statement = [owner_root_statement]\<rparr>"
  by code_simp

lemma jobs_trim: "TrimSpace jobs_arn = jobs_arn" "TrimSpace doc_owner_root = doc_owner_root"
  by (code_simp, code_simp)

lemma jobs_names:
  "queueNameFromARN jobs_arn = Some ''jobs''" "resourceOwnerAccountFromARN jobs_arn = owner"
  "HasPrefix jobs_arn ''arn:aws:sqs:''" "resourcesMatch [jobs_arn] jobs_arn = Some True"
  by (code_simp, code_simp, code_simp, code_simp)

definition jobs :: Queue where
  "jobs = \<lparr>q_account = owner, q_name = ''jobs'', q_url = ''http://lab/444455556666/jobs'', q_arn = jobs_arn,
     q_attrs = [(''Policy'', doc_owner_root)], q_created = []\<rparr>"

definition world0 :: "unit event_world" where
  "world0 = \<lparr>w_server = server org_empty, w_sqs = \<lparr>db_queues = [jobs], db_messages = [], db_drawn = 0\<rparr>, w_logs = [],
     w_drawn = 0, w_rest = (), w_events = no_events\<rparr>"

lemma jobs_queue:
  "GetQueue (w_sqs world0) owner ''jobs'' = Inr jobs" "map_of (q_attrs jobs) ''Policy'' = Some doc_owner_root"
  "queueNameFromARN jobs_arn = Some ''jobs''" "resourceOwnerAccountFromARN jobs_arn = owner" "owner \<noteq> []" "jobs_arn \<noteq> []"
  "HasPrefix jobs_arn ''arn:aws:sqs:''" "TrimSpace doc_owner_root \<noteq> []"
  "parsePolicyDocument (TrimSpace doc_owner_root) = Some \<lparr>pd_Version = ''2012-10-17'', pd_Statement = [owner_root_statement]\<rparr>"
  "pd_Statement \<lparr>pd_Version = ''2012-10-17'', pd_Statement = [owner_root_statement]\<rparr> = [owner_root_statement]"
  "st_Effect owner_root_statement = ''Allow''" "st_Action owner_root_statement = [''sqs:SendMessage'']"
  "st_Resource owner_root_statement = [jobs_arn]" "st_Condition owner_root_statement = None"
  "st_Principal owner_root_statement =
     Some \<lparr>ps_All = False, ps_AWS = [''arn:aws:iam::'' @ owner @ '':root''], ps_Service = [], ps_Federated = []\<rparr>"
  "resourcesMatch [jobs_arn] jobs_arn = Some True" "ServicePrincipalEvents \<noteq> []"
  unfolding jobs_trim
  by (simp_all only: parse_doc_owner_root jobs_names)
    (simp_all add: world0_def GetQueue_def jobs_def owner_def jobs_arn_def doc_owner_root_def owner_root_statement_def ServicePrincipalEvents_def)

theorem owner_root_opens_queue_witness:
  "deliveryAuthorizedRoleAndResource lab world0 ''111122223333'' [] ''sqs:SendMessage'' jobs_arn ServicePrincipalEvents
     ''arn:aws:events:us-east-1:111122223333:rule/r'' ''events-delivery'' ''us-east-1'' = Some (True, world0)"
  by (rule owner_root_opens_queue [OF jobs_queue])

section \<open>A rule and its target\<close>

definition lab_pattern :: string where "lab_pattern = ''{\"source\":[\"lab\"]}''"

lemma lab_pattern_reads: "pattern_of_text lab_pattern = Some (Fields [(''source'', Leaf [Literal (AString ''lab'')])])"
  by code_simp

definition lab_rule :: EventRule where
  "lab_rule = \<lparr>er_AccountID = ''111122223333'', er_BusName = ''default'', er_Name = ''r'',
     er_ARN = ''arn:aws:events:us-east-1:111122223333:rule/r'', er_Pattern = lab_pattern, er_State = ''ENABLED'', er_Description = []\<rparr>"

definition lab_bus :: EventBus where
  "lab_bus = new_bus 0 [] ''111122223333'' ''default''"

definition lab_target :: EventTarget where
  "lab_target = \<lparr>et_AccountID = ''111122223333'', et_BusName = ''default'', et_RuleName = ''r'', et_ID = ''t'', et_ARN = jobs_arn,
     et_RoleARN = [], et_Input = ''{}'', et_InputPath = [], et_InputTransformerJSON = [], et_DeadLetterARN = []\<rparr>"

definition world1 :: "unit event_world" where
  "world1 = world0\<lparr>w_events := no_events\<lparr>ev_buses := [lab_bus], ev_rules := [lab_rule]\<rparr>\<rparr>"

definition world2 :: "unit event_world" where
  "world2 = world1\<lparr>w_events := (w_events world1)\<lparr>ev_targets := [lab_target]\<rparr>\<rparr>"

lemma trims: "TrimSpace ''default'' = ''default''" "TrimSpace ''r'' = ''r''" "TrimSpace ''ENABLED'' = ''ENABLED''"
  "TrimSpace ''lab'' = ''lab''" "TrimSpace ''t'' = ''t''" "TrimSpace ''{}'' = ''{}''"
  by (simp_all add: TrimSpace_graphic graphic_def)

lemma lab_pattern_trim: "TrimSpace lab_pattern = lab_pattern"
  by code_simp

lemma normalize_names: "normalizeEventBusName ''default'' = ''default''" "normalizeEventBusName [] = ''default''"
  by (simp_all add: normalizeEventBusName_def trims DefaultEventBusName_def)

lemma put_lab_rule:
  "PutRule 0 (w_events world0) ''111122223333'' [] [] ''r'' lab_pattern [] ''ENABLED'' = Inr (lab_rule, w_events world1)"
proof -
  have "validateEventPatternDeep lab_pattern = Inr ()" using lab_pattern_reads pattern_of_text_valid by simp
  moreover have "lab_pattern \<noteq> []" by (simp add: lab_pattern_def)
  moreover have "normalizeRuleState ''ENABLED'' = ''ENABLED''" by code_simp
  ultimately show ?thesis
    by (simp add: PutRule_def Let_def lab_pattern_trim normalize_names trims DefaultEventBusName_def world0_def world1_def
        no_events_def ensureDefaultEventBus_def GetEventBus_def sql_upsert_def EventRuleARN_def lab_rule_def lab_bus_def new_bus_def
        EventBusARN_def)
qed

lemma put_lab_target:
  "PutTargets (w_events world1) ''111122223333'' [] ''r'' [\<lparr>ti_ID = ''t'', ti_ARN = jobs_arn, ti_RoleARN = [], ti_Input = ''{}'',
     ti_InputPath = [], ti_InputTransformer = None, ti_DeadLetterARN = []\<rparr>] = Inr (w_events world2)"
proof -
  have "jobs_arn \<noteq> []" by (simp add: jobs_arn_def)
  then show ?thesis
    by (simp add: PutTargets_def DescribeRule_def world1_def world2_def no_events_def normalize_names rule_key_def lab_rule_def
        target_row_def Let_def trims jobs_trim marshalEventBridgeInputTransformer_def eventTargetRequiresRoleARN_def
        sql_upsert_def lab_target_def)
qed

lemma world2_reachable: "reachable event_init (event_step lab) world2"
proof -
  have "reachable event_init (event_step lab) world0"
    by (rule reach_init) (simp add: event_init_def world0_def)
  moreover have "event_step lab world0 ''PutRule'' world1"
    using event_step.intros(5) [OF put_lab_rule, of lab] by (simp add: world1_def)
  moreover have "event_step lab world1 ''PutTargets'' world2"
    using event_step.intros(10) [OF put_lab_target, of lab] by (simp add: world2_def)
  ultimately show ?thesis by (blast intro: reach_step)
qed


section \<open>Events\<close>

definition lab_entry :: PutEventsEntry where
  "lab_entry = \<lparr>pe_Source = ''lab'', pe_DetailType = [], pe_Detail = [], pe_EventBusName = [], pe_Time = []\<rparr>"

definition stored_entry :: event_entry where
  "stored_entry = \<lparr>ee_entry_id = ''u'', ee_account = ''111122223333'', ee_bus = ''default'', ee_source = ''lab'', ee_detail_type = [],
     ee_detail = ''{}'', ee_created = format_RFC3339 0\<rparr>"

lemma empty_object: "json_parse ''{}'' = Some (JObj [])" "event_detail ''{}'' = Some []"
  by (code_simp, simp add: event_detail_def trims unmarshal_map_def, code_simp)

lemma world2_events:
  "ev_buses (w_events world2) = [lab_bus]" "ev_rules (w_events world2) = [lab_rule]" "ev_targets (w_events world2) = [lab_target]"
  "ev_entries (w_events world2) = []" "ev_matches (w_events world2) = []" "w_drawn world2 = 0"
  by (simp_all add: world2_def world1_def world0_def no_events_def)

lemma world2_bus: "GetEventBus (w_events world2) ''111122223333'' n = Inr lab_bus" if "normalizeEventBusName n = ''default''" for n
  using that by (simp add: GetEventBus_def world2_events lab_bus_def new_bus_def bus_key_def)

lemma jobs_delivery:
  assumes "same_policies lab world0 w"
  shows "eventTargetDeliveryAuthorized lab w ''111122223333'' (er_ARN lab_rule) lab_target = Some (True, w)"
proof -
  have "deliveryTargetResourcePolicyAllows lab w ''111122223333'' jobs_arn ''sqs:SendMessage'' ServicePrincipalEvents (er_ARN lab_rule) = Some True"
    unfolding deliveryTargetResourcePolicyAllows_same [OF assms] by (rule owner_root_allows [OF jobs_queue])
  then show ?thesis
    by (simp add: eventTargetDeliveryAuthorized_def lab_target_def jobs_trim eventTargetDeliveryAction_def jobs_names
        eventTargetRequiresRoleARN_def)
qed

lemma delivered_somehow:
  assumes "et_DeadLetterARN tgt = []"
  shows "\<exists>w'. deliverEventTarget sc w e rule tgt = Some w'"
proof -
  have "\<exists>w'. recordEventTargetDelivery sc v e rule tgt err = Some w'" for v err
    using assms by (auto simp: recordEventTargetDelivery_def sendLabDLQMessage_def Let_def split: option.split)
  then show ?thesis
    by (auto simp: deliverEventTarget_def Let_def split: option.split prod.split)
qed

lemma lab_rule_matches: "rule_matches stored_entry lab_rule"
  using lab_pattern_reads empty_object
  by (simp add: rule_matches_def lab_rule_def stored_entry_def RuleStateEnabled_def event_matches_def envelope_def)

lemma lab_match:
  "matchEventPatternJSON (er_Pattern lab_rule) (ee_source stored_entry) (ee_detail_type stored_entry) (ee_detail stored_entry) = Inr True"
proof -
  have "pattern_of_text (er_Pattern lab_rule) = Some (Fields [(''source'', Leaf [Literal (AString ''lab'')])])"
    using lab_pattern_reads by (simp add: lab_rule_def)
  from matchEventPatternJSON_cases [OF this] show ?thesis
    using empty_object by (simp add: stored_entry_def event_matches_def envelope_def)
qed

lemma lab_reaches_queue:
  assumes "same_policies lab world0 w" "ev_matches (w_events w) = []"
    and "ev_rules (w_events w) = [lab_rule]" "ev_targets (w_events w) = [lab_target]"
  shows "\<exists>w' m. match_rules lab stored_entry [lab_rule] w = Some (None, w') \<and> m \<in> set (ev_matches (w_events w'))"
proof -
  let ?m = "match_row (sc_uuid lab (w_drawn w)) stored_entry lab_rule lab_target"
  have auth: "eventTargetDeliveryAuthorized lab w (ee_account stored_entry) (er_ARN lab_rule) lab_target = Some (True, w)"
    using jobs_delivery [OF assms(1)] by (simp add: stored_entry_def)
  obtain w2 where w2: "recordEventRuleMatch lab w stored_entry lab_rule lab_target = Some w2"
    using assms(2) by (auto simp: recordEventRuleMatch_def sql_insert_def Let_def)
  obtain w3 where w3: "deliverEventTarget lab w2 stored_entry lab_rule lab_target = Some w3"
    using delivered_somehow [of lab_target lab w2 stored_entry lab_rule] by (auto simp: lab_target_def)
  have "?m \<in> set (ev_matches (w_events w3))"
    using recordEventRuleMatch_frame [OF w2] deliverEventTarget_frame [OF w3] by simp
  moreover have "ListTargetsByRule (w_events w) (ee_account stored_entry) (ee_bus stored_entry) (er_Name lab_rule) = Inr [lab_target]"
    using assms(3,4)
    by (simp add: ListTargetsByRule_def DescribeRule_def targets_of_def target_of_rule_def stored_entry_def normalize_names
        rule_key_def lab_rule_def lab_target_def)
  moreover have "er_State lab_rule = RuleStateEnabled" by (simp add: lab_rule_def RuleStateEnabled_def)
  ultimately show ?thesis using auth w2 w3 lab_match by (intro exI [of _ w3] exI [of _ ?m]) simp
qed

lemma lab_event: "\<exists>out w' m. putEventsEntry lab ''111122223333'' lab_entry world2 = Some (out, w') \<and> m \<in> new_matches world2 w'"
proof -
  let ?ev = "(w_events world2)\<lparr>ev_entries := [stored_entry]\<rparr>"
  let ?w1 = "draw ((draw world2)\<lparr>w_events := ?ev\<rparr>)"
  have draw: "w_drawn (draw v) = Suc (w_drawn v)" "w_events (draw v) = w_events v" for v :: "unit event_world"
    by (simp_all add: draw_def)
  have e: "new_entry lab (Suc 0) ''111122223333'' ''default'' lab_entry = stored_entry"
    by (simp add: new_entry_def lab_entry_def stored_entry_def lab_def trims)
  have b: "entry_bus now (w_events world2) ''111122223333'' ''default'' = Inr (w_events world2)" for now
    using world2_bus [OF normalize_names(1)] by (simp add: entry_bus_def DefaultEventBusName_def ensureDefaultEventBus_def)
  have ev: "w_events ?w1 = ?ev" by (simp add: draw)
  then have id: "?w1\<lparr>w_events := ?ev\<rparr> = ?w1" by (rule events_update_id)
  have "GetEventBus ?ev ''111122223333'' ''default'' = Inr lab_bus"
    using world2_bus [OF normalize_names(1)] by (simp add: GetEventBus_def)
  then have l: "ListRules now ?ev ''111122223333'' ''default'' = ([lab_rule], ?ev)" for now
    by (simp add: ListRules_def Let_def normalize_names DefaultEventBusName_def ensureDefaultEventBus_def rules_of_def world2_events)
      (simp add: lab_rule_def)
  have fields: "ee_account stored_entry = ''111122223333''" "ee_bus stored_entry = ''default''" by (simp_all add: stored_entry_def)
  have m: "matchAndRecordEventTargets lab stored_entry ?w1 = match_rules lab stored_entry [lab_rule] (draw ?w1)"
    by (simp only: matchAndRecordEventTargets_def ev fields l prod.case id)
  have "same_policies lab world0 (draw ?w1)"
    by (simp only: same_policies_events) (simp add: same_policies_def world2_def world1_def, rule exI [of _ "i_keys (sv_iam (w_server world0))"], simp)
  then obtain w' x where r: "match_rules lab stored_entry [lab_rule] (draw ?w1) = Some (None, w')" "x \<in> set (ev_matches (w_events w'))"
    using lab_reaches_queue [of "draw ?w1"] by (auto simp: draw world2_events)
  have "sql_insert ee_entry_id stored_entry (ev_entries (w_events world2)) = Some [stored_entry]"
    by (simp add: sql_insert_def world2_events)
  moreover have "json_parse (ee_detail stored_entry) = Some (JObj [])" by (simp add: stored_entry_def empty_object)
  ultimately have "putEventsEntry lab ''111122223333'' lab_entry world2 = Some (Inr (ee_entry_id stored_entry), w')"
    using b e m r(1) by (simp add: putEventsEntry_def Let_def draw world2_events normalize_names lab_entry_def cong: option.case_cong)
  then show ?thesis using r(2) by (auto simp: new_matches_def world2_events)
qed


definition list_entry :: PutEventsEntry where
  "list_entry = \<lparr>pe_Source = ''lab'', pe_DetailType = [], pe_Detail = ''[]'', pe_EventBusName = [], pe_Time = []\<rparr>"

lemma list_detail: "json_parse (TrimSpace ''[]'') \<noteq> None" "unmarshal_map (TrimSpace ''[]'') = None"
  by (code_simp, code_simp)

theorem bad_detail_depends_on_rules_witness:
  "\<exists>w'. putEventsEntry lab ''111122223333'' list_entry world2 = Some (Inl (ErrMatch BadDetail), w') \<and> new_matches world2 w' = {}"
proof -
  have "list_ex (\<lambda>r. er_AccountID r = ''111122223333'' \<and> er_BusName r = normalizeEventBusName (pe_EventBusName list_entry) \<and>
      er_State r = ''ENABLED'' \<and> pattern_of_text (er_Pattern r) \<noteq> Some (Fields [])) (ev_rules (w_events world2))"
    using lab_pattern_reads by (simp add: world2_events lab_rule_def list_entry_def normalize_names)
  then show ?thesis
    using bad_detail_depends_on_rules [OF world2_reachable, where entry = list_entry and account = "''111122223333''" and b = lab_bus]
      world2_bus [of "[]"] list_detail
    by (auto simp: world2_events list_entry_def normalize_names)
qed

section \<open>A role whose boundary is gone\<close>

definition relay_arn :: string where "relay_arn = ''arn:aws:iam::111122223333:role/relay''"

definition relay_role :: Role where
  "relay_role = \<lparr>ro_account = acct, ro_name = ''relay'', ro_arn = relay_arn, ro_trust = [], ro_id = None, ro_created = None, ro_max = 3600\<rparr>"

definition relay_iam :: iam where
  "relay_iam = iam_policy\<lparr>i_roles := [relay_role], i_attached := [(relay_arn, admin_arn)],
     i_boundaries := [\<lparr>bo_account = acct, bo_type = ''role'', bo_name = ''relay'', bo_arn = ''gone''\<rparr>]\<rparr>"

definition relay_world :: "unit event_world" where
  "relay_world = world0\<lparr>w_server := (server (org_root_scp doc_allow_all))\<lparr>sv_iam := relay_iam\<rparr>\<rparr>"

definition relay_session :: Verified where
  "relay_session = (alice_key [])\<lparr>vf_Principal := RoleSessionPrincipal acct ''relay'' ''s'' ''K''\<rparr>"

lemma relay_parsed: "ParseRoleARN relay_arn = Some (acct, ''relay'')"
  by code_simp

lemma relay_boundary: "PermissionsBoundaryDoc (sv_iam (w_server relay_world)) acct ''role'' ''relay'' = Inl NoRows"
  by (simp add: relay_world_def relay_iam_def PermissionsBoundaryDoc_def getPermissionsBoundaryARN_def boundary_key_def
      policyDocumentByARN_def find_managed_def iam_policy_def admin_def admin_arn_def)

definition relay_inputs :: EvalInputs where
  "relay_inputs = \<lparr>in_IdentityDocs = Some [doc_allow_all], in_BoundaryDoc = [], in_SessionDocs = [],
     in_SCPDocs = [doc_allow_all], in_RCPDocs = [], in_IsManagementAccount = False\<rparr>"

lemma relay_scp: "orgPolicyDocsForAccount (org_root_scp doc) acct ''SCP'' = Inr [doc]" "orgPolicyDocsForAccount (org_root_scp doc) acct ''RCP'' = Inr []"
  using root_scp_docs [of doc] by (auto simp: orgPolicyDocsForAccount_def OrgFilterDocsForAccount_def split: sum.splits)

lemma relay_delivers:
  "map_option fst (deliveryRoleSessionAllows lab relay_world acct relay_arn ''sqs:SendMessage'' jobs_arn ''s'' [] []) = Some True"
proof -
  have iam: "sv_iam (w_server relay_world) = relay_iam" "i_keys relay_iam = []"
    by (simp_all add: relay_world_def relay_iam_def iam_policy_def iam_empty_def)
  have role: "GetRole (sv_iam (w_server relay_world)) acct ''relay'' = Inr (relay_arn, [])"
    by (simp add: relay_world_def relay_iam_def relay_role_def GetRole_def GetRoleRecord_def find_role_def)
  have inp: "delivery_inputs ((w_server relay_world)\<lparr>sv_iam := relay_iam\<lparr>i_keys := ks\<rparr>\<rparr>) acct relay_arn ''relay'' = Some relay_inputs" for ks
  proof -
    have "identityPolicyDocsForRoleARN (relay_iam\<lparr>i_keys := ks\<rparr>) relay_arn = [doc_allow_all]"
      by (simp add: identityPolicyDocsForRoleARN_def ListAttachedPolicyDocuments_def ListInlinePolicies_def join_policies_def
          attachments_def relay_iam_def iam_policy_def iam_empty_def admin_arn_def)
    moreover have "delivery_boundary (relay_iam\<lparr>i_keys := ks\<rparr>) acct ''relay'' = []"
      using relay_boundary by (simp add: delivery_boundary_def relay_world_def)
    ultimately show ?thesis
      by (simp add: delivery_inputs_def relay_world_def alice_fields relay_scp relay_inputs_def)
  qed
  have "EvaluateFull (delivery_context s acct ''relay'' ''sqs:SendMessage'' jobs_arn ''s'' [] [] k) relay_inputs = Some Allow" for s k
    by (simp add: delivery_context_def relay_inputs_def authz_simps parse_samples)
  then show ?thesis
    using role relay_parsed inp iam
    by (simp add: deliveryRoleSessionAllows_def Let_def issue_key_def lab_def MintTempCredentialsOpts_def sql_insert_def)
qed

theorem delivery_boundary_fails_open_witness:
  "map_option fst (deliveryRoleSessionAllows lab (in_iam (without_boundary acct ''relay'') relay_world) acct relay_arn
     ''sqs:SendMessage'' jobs_arn ''s'' [] []) = Some True \<and>
   authorize (w_server relay_world) relay_session ''sqs:SendMessage'' jobs_arn = Some False"
proof -
  have "p_kind (vf_Principal relay_session) = KindRole" "RoleName (vf_Principal relay_session) = ''relay''" "vf_AccountID relay_session = acct"
    by (simp_all add: relay_session_def principal_defs alice_fields)
  from delivery_boundary_fails_open [OF relay_parsed _ relay_boundary this, of lab "''sqs:SendMessage''" jobs_arn "''s''" "[]" "[]"]
  show ?thesis using relay_delivers by simp
qed

end
