(* ===== verification/Kms_Crypto.thy ===== *)
theory Kms_Crypto
  imports Sql_Table Go_Json Access_Keys
begin

text \<open>
  The envelopes of \<open>internal/store/crypto.go\<close>: material sealed under the master key, and ciphertexts under the
  material of a key, bound to an encryption context.

  The two authenticated ciphers are parameters: ChaCha20-Poly1305 under the master key of the process (\<open>ci_wrap\<close>,
  \<open>ci_unwrap\<close>, from nonce and text) and AES-256-GCM (\<open>ci_seal\<close>, \<open>ci_open\<close>, from key, nonce, text and additional
  data), with what their documentation says, that what was sealed is opened with the same arguments.
  RSA is a parameter too: whether a text is a private key (\<open>ci_rsa_key\<close>), its signature of a digest with an algorithm and
  drawn salt, the verification, and the public key. Byte strings are \<^typ>\<open>string\<close>.
\<close>

record ciphers =
  ci_wrap :: "string \<Rightarrow> string \<Rightarrow> string"
  ci_unwrap :: "string \<Rightarrow> string \<Rightarrow> string option"
  ci_seal :: "string \<Rightarrow> string \<Rightarrow> string \<Rightarrow> string \<Rightarrow> string"
  ci_open :: "string \<Rightarrow> string \<Rightarrow> string \<Rightarrow> string \<Rightarrow> string option"
  ci_rsa_key :: "string \<Rightarrow> bool"
  ci_rsa_sign :: "string \<Rightarrow> string \<Rightarrow> string \<Rightarrow> string \<Rightarrow> string option"
  ci_rsa_verify :: "string \<Rightarrow> string \<Rightarrow> string \<Rightarrow> string \<Rightarrow> bool"
  ci_rsa_public :: "string \<Rightarrow> string"

definition ciphers_correct :: "('a) ciphers_scheme \<Rightarrow> bool" where
  "ciphers_correct ci \<longleftrightarrow>
     (\<forall>n p. length n = 12 \<longrightarrow> ci_unwrap ci n (ci_wrap ci n p) = Some p) \<and>
     (\<forall>k n p a. length k = 32 \<longrightarrow> length n = 12 \<longrightarrow> ci_open ci k n (ci_seal ci k n p a) a = Some p)"

section \<open>Sealing under the master key\<close>

definition nonceSize :: nat where "nonceSize = 12"

definition Seal :: "'a ciphers_scheme \<Rightarrow> string \<Rightarrow> string \<Rightarrow> string" where
  "Seal ci nonce plaintext = nonce @ ci_wrap ci nonce plaintext"

definition Unseal :: "'a ciphers_scheme \<Rightarrow> string \<Rightarrow> string option" where
  "Unseal ci ciphertext =
     (if length ciphertext < nonceSize then None
      else ci_unwrap ci (take nonceSize ciphertext) (drop nonceSize ciphertext))"

section \<open>Encryption contexts\<close>

text \<open>A Go map from strings to strings is a list of pairs without duplicate keys; a nil map is the empty list.\<close>

type_synonym enc_context = "(string \<times> string) list"

definition EncryptionContextAAD :: "enc_context \<Rightarrow> string" where
  "EncryptionContextAAD ctx = concat (map (\<lambda>(k, v). k @ [CHR 0x00] @ v @ [CHR 0x00]) (sort_key fst ctx))"

section \<open>Ciphertexts\<close>

definition EncryptUnderCMK ::
  "'a ciphers_scheme \<Rightarrow> string \<Rightarrow> string \<Rightarrow> string \<Rightarrow> string \<Rightarrow> enc_context \<Rightarrow> string option"
where
  "EncryptUnderCMK ci nonce cmk keyID plaintext ctx =
     (if length cmk \<noteq> 32 then None
      else if keyID = [] \<or> 255 < length keyID then None
      else Some (char_byte 2 # char_byte (length keyID) # keyID @ nonce
                   @ ci_seal ci cmk nonce plaintext (EncryptionContextAAD ctx)))"

text \<open>The nonce and the sealed text: of a blob of the first version after the version byte, of the second after the key id.\<close>

definition blob_rest :: "string \<Rightarrow> string option" where
  "blob_rest blob =
     (case blob of
        [] \<Rightarrow> None
      | version # b \<Rightarrow>
          if version = char_byte 1 then Some b
          else if version = char_byte 2 then
            (case b of [] \<Rightarrow> None | n # r \<Rightarrow> if length r < byte_of n then None else Some (drop (byte_of n) r))
          else None)"

definition DecryptUnderCMK :: "'a ciphers_scheme \<Rightarrow> string \<Rightarrow> string \<Rightarrow> enc_context \<Rightarrow> string option" where
  "DecryptUnderCMK ci cmk blob ctx =
     (if length cmk \<noteq> 32 then None
      else do { rest \<leftarrow> blob_rest blob;
                if length rest < nonceSize then None
                else ci_open ci cmk (take nonceSize rest) (drop nonceSize rest) (EncryptionContextAAD ctx) })"

definition KeyIDFromCiphertext :: "string \<Rightarrow> string option" where
  "KeyIDFromCiphertext blob =
     (case blob of
        v # n # r \<Rightarrow>
          if v \<noteq> char_byte 2 then None
          else if byte_of n = 0 \<or> length r < byte_of n then None else Some (take (byte_of n) r)
      | _ \<Rightarrow> None)"

section \<open>What is sealed is opened\<close>

lemma Unseal_Seal: "ciphers_correct ci \<Longrightarrow> length nonce = 12 \<Longrightarrow> Unseal ci (Seal ci nonce p) = Some p"
  by (simp add: Unseal_def Seal_def nonceSize_def ciphers_correct_def)

lemma byte_of_len: "n < 256 \<Longrightarrow> byte_of (char_byte n) = n"
  by (simp add: byte_of_def char_byte_def)

lemma version_bytes: "char_byte 2 \<noteq> char_byte (Suc 0)"
proof
  assume "char_byte 2 = char_byte (Suc 0)"
  then have "byte_of (char_byte 2) = byte_of (char_byte (Suc 0))" by simp
  then show False by (simp add: byte_of_len)
qed

lemma blob_rest_encrypted:
  "length keyID \<le> 255 \<Longrightarrow> blob_rest (char_byte 2 # char_byte (length keyID) # keyID @ r) = Some r"
  by (simp add: blob_rest_def byte_of_len version_bytes)

lemma EncryptUnderCMK_length: "EncryptUnderCMK ci nonce cmk keyID p ctx = Some blob \<Longrightarrow> length cmk = 32 \<and> keyID \<noteq> [] \<and> length keyID \<le> 255"
  by (auto simp: EncryptUnderCMK_def split: if_splits)

lemma Decrypt_Encrypt:
  assumes "ciphers_correct ci" "length nonce = 12" "EncryptUnderCMK ci nonce cmk keyID p ctx = Some blob"
    and "EncryptionContextAAD ctx' = EncryptionContextAAD ctx"
  shows "DecryptUnderCMK ci cmk blob ctx' = Some p"
proof -
  let ?sealed = "ci_seal ci cmk nonce p (EncryptionContextAAD ctx)"
  have l: "length cmk = 32" "length keyID \<le> 255" using EncryptUnderCMK_length [OF assms(3)] by simp_all
  have "blob = char_byte 2 # char_byte (length keyID) # keyID @ (nonce @ ?sealed)"
    using assms(3) by (simp add: EncryptUnderCMK_def split: if_splits)
  then have "blob_rest blob = Some (nonce @ ?sealed)" using blob_rest_encrypted [OF l(2)] by (simp only:)
  moreover have "ci_open ci cmk nonce ?sealed (EncryptionContextAAD ctx) = Some p"
    using assms(1,2) l(1) by (simp add: ciphers_correct_def)
  ultimately show ?thesis using assms(2,4) l(1) by (simp add: DecryptUnderCMK_def nonceSize_def)
qed

lemma KeyID_of_Encrypt: "EncryptUnderCMK ci nonce cmk keyID p ctx = Some blob \<Longrightarrow> KeyIDFromCiphertext blob = Some keyID"
  by (simp add: EncryptUnderCMK_def KeyIDFromCiphertext_def byte_of_len split: if_splits) (auto simp: byte_of_len)

section \<open>What the additional data say of the context\<close>

definition nul_free :: "enc_context \<Rightarrow> bool" where
  "nul_free ctx \<longleftrightarrow> list_all (\<lambda>(k, v). CHR 0x00 \<notin> set k \<and> CHR 0x00 \<notin> set v) ctx"

lemma nul_terminated:
  "CHR 0x00 \<notin> set a \<Longrightarrow> CHR 0x00 \<notin> set b \<Longrightarrow> a @ CHR 0x00 # r = b @ CHR 0x00 # s \<longleftrightarrow> a = b \<and> r = s"
proof (induction a arbitrary: b)
  case Nil
  then show ?case by (cases b) auto
next
  case (Cons x a)
  then show ?case by (cases b) auto
qed

lemma pairs_text_inj:
  "nul_free xs \<Longrightarrow> nul_free ys \<Longrightarrow>
   concat (map (\<lambda>(k, v). k @ [CHR 0x00] @ v @ [CHR 0x00]) xs) = concat (map (\<lambda>(k, v). k @ [CHR 0x00] @ v @ [CHR 0x00]) ys) \<longleftrightarrow>
   xs = ys"
proof (induction xs arbitrary: ys)
  case Nil
  then show ?case by (cases ys) auto
next
  case (Cons x xs)
  then show ?case
    by (cases ys; cases x) (auto simp: nul_free_def nul_terminated)
qed

lemma nul_free_sort: "nul_free (sort_key f ctx) = nul_free ctx"
  by (simp add: nul_free_def list_all_iff)

lemma sorted_pairs_eq:
  fixes xs ys :: "('k :: linorder \<times> 'v) list"
  assumes "distinct (map fst xs)" "distinct (map fst ys)"
  shows "sort_key fst xs = sort_key fst ys \<longleftrightarrow> map_of xs = map_of ys"
proof
  assume "sort_key fst xs = sort_key fst ys"
  then have "set xs = set ys" by (metis set_sort)
  then show "map_of xs = map_of ys" using assms by (simp add: map_of_inject_set)
next
  assume "map_of xs = map_of ys"
  then have s: "set xs = set ys" using assms by (simp add: map_of_inject_set)
  have d: "distinct (map fst (sort_key fst zs))" if "distinct (map fst zs)" for zs :: "('k \<times> 'v) list"
    using that by (simp add: distinct_map)
  have "inj_on fst (set (sort_key fst xs) \<union> set (sort_key fst ys))"
    using s assms(1) by (simp add: distinct_map)
  then show "sort_key fst xs = sort_key fst ys"
    by (rule map_sorted_distinct_set_unique) (simp_all add: s d assms)
qed

lemma AAD_contexts:
  assumes "distinct (map fst c)" "distinct (map fst d)" "nul_free c" "nul_free d"
  shows "EncryptionContextAAD c = EncryptionContextAAD d \<longleftrightarrow> map_of c = map_of d"
proof -
  have "EncryptionContextAAD c = EncryptionContextAAD d \<longleftrightarrow> sort_key fst c = sort_key fst d"
    unfolding EncryptionContextAAD_def by (rule pairs_text_inj) (simp_all add: nul_free_sort assms)
  then show ?thesis using assms by (simp add: sorted_pairs_eq)
qed

lemma AAD_collision:
  assumes "a < c"
  shows "EncryptionContextAAD [(a, b), (c, d)] = EncryptionContextAAD [(a, b @ [CHR 0x00] @ c @ [CHR 0x00] @ d)]"
proof -
  have "a \<le> c" using assms by (rule less_imp_le)
  then show ?thesis by (simp add: EncryptionContextAAD_def)
qed

end
