(* ===== verification/Kms.thy ===== *)
theory Kms
  imports Kms_Crypto Go_Json_Print Time_Text
begin

text \<open>
  The key store, \<open>internal/store/kms.go\<close> and \<open>kms_rotation.go\<close>: keys with their state and sealed material, the
  archived generations of the material, aliases, and grants with their constraints.

  Every operation that reads a key first deletes the keys whose deletion date has passed, so that reads change
  the state too: an operation returns its result together with the state. One operation runs at one instant \<open>now\<close>.
  What is drawn at random is the argument \<open>fresh\<close>. The columns \<open>operations\<close> and \<open>constraints_json\<close> of a grant,
  which hold the JSON of what \<open>CreateGrant\<close> was given and are only read back, are those values.
\<close>

section \<open>The tables\<close>

record Key =
  k_KeyID :: string
  k_AccountID :: string
  k_ARN :: string
  k_KeyState :: string
  k_KeyUsage :: string
  k_KeySpec :: string
  k_KeyPolicy :: string
  k_CreationDate :: string
  k_DeletionDate :: string
  k_PendingWindowInDays :: int
  k_KeyRotationEnabled :: bool
  k_LastRotationDate :: string
  k_RotationPeriodDays :: int

text \<open>A row of \<open>kms_keys\<close>; the window is not a column of it and stays 0.\<close>

record kms_row = Key +
  k_sealed :: string

record Alias =
  al_AliasName :: string
  al_AccountID :: string
  al_TargetKeyID :: string

record GrantConstraints =
  gc_Equals :: enc_context
  gc_Subset :: enc_context

record Grant =
  kg_GrantID :: string
  kg_KeyID :: string
  kg_AccountID :: string
  kg_GranteePrincipal :: string
  kg_RetiringPrincipal :: string
  kg_Operations :: "string list"
  kg_Name :: string
  kg_Constraints :: GrantConstraints

record key_material =
  km_key :: string
  km_generation :: nat
  km_sealed :: string
  km_created :: string

record kms =
  kms_keys :: "kms_row list"
  kms_aliases :: "Alias list"
  kms_grants :: "Grant list"
  kms_materials :: "key_material list"

datatype kms_error =
    KmsNoRows
  | ErrInvalidKeyState
  | ErrUnsupportedKeyRotation
  | ErrInvalidKeyUsage
  | ErrUnsupportedKeySpec
  | KmsUnsupportedUsage
  | KmsInvalid
  | KmsConstraint
  | KmsNotAuthorized
  | KmsUnseal
  | KmsDecrypt

type_synonym 'a kres = "(kms_error, 'a) result \<times> kms"

text \<open>What \<open>rand.Reader\<close>, \<open>uuid.NewString\<close> and \<open>rsa.GenerateKey\<close> give one operation.\<close>

record fresh =
  fr_id :: string
  fr_nonce :: string
  fr_cmk :: string
  fr_pkcs8 :: string

definition fresh_ok :: "fresh \<Rightarrow> bool" where
  "fresh_ok fr \<longleftrightarrow> length (fr_id fr) = 36 \<and> length (fr_nonce fr) = 12 \<and> length (fr_cmk fr) = 32"

section \<open>Names\<close>

definition DefaultKMSRegion :: string where "DefaultKMSRegion = ''us-east-1''"
definition KeyStateEnabled :: string where "KeyStateEnabled = ''Enabled''"
definition KeyStateDisabled :: string where "KeyStateDisabled = ''Disabled''"
definition KeyStatePendingDeletion :: string where "KeyStatePendingDeletion = ''PendingDeletion''"
definition KeyUsageEncryptDecrypt :: string where "KeyUsageEncryptDecrypt = ''ENCRYPT_DECRYPT''"
definition KeyUsageSignVerify :: string where "KeyUsageSignVerify = ''SIGN_VERIFY''"
definition KeySpecSymmetricDefault :: string where "KeySpecSymmetricDefault = ''SYMMETRIC_DEFAULT''"
definition KeySpecRSA2048 :: string where "KeySpecRSA2048 = ''RSA_2048''"
definition DefaultLabRotationPeriodDays :: int where "DefaultLabRotationPeriodDays = 365"

lemmas kms_names = KeyStateEnabled_def KeyStateDisabled_def KeyStatePendingDeletion_def KeyUsageEncryptDecrypt_def
  KeyUsageSignVerify_def KeySpecSymmetricDefault_def KeySpecRSA2048_def

definition awsManagedConvenienceAliases :: "string list" where
  "awsManagedConvenienceAliases = [''alias/aws/s3'', ''alias/aws/dynamodb'', ''alias/aws/sqs'']"

definition isIAMUserARN :: "string \<Rightarrow> bool" where
  "isIAMUserARN arn = Contains arn '':user/''"

definition allow_all_kms :: "string \<Rightarrow> string \<Rightarrow> json" where
  "allow_all_kms sid who =
     JObj [(''Sid'', JStr sid), (''Effect'', JStr ''Allow''), (''Principal'', JObj [(''AWS'', JStr who)]),
           (''Action'', JStr ''kms:*''), (''Resource'', JStr ''*'')]"

definition DefaultKeyPolicy :: "string \<Rightarrow> string \<Rightarrow> string" where
  "DefaultKeyPolicy account creator =
     null_text (marshal_any (JObj
       [(''Version'', JStr ''2012-10-17''), (''Id'', JStr ''key-default-1''),
        (''Statement'', JArr
           (allow_all_kms ''Enable IAM User Permissions'' (''arn:aws:iam::'' @ account @ '':root'')
            # (if isIAMUserARN creator then [allow_all_kms ''Allow Key Creator'' creator] else [])))]))"

definition KeyARN :: "string \<Rightarrow> string \<Rightarrow> string \<Rightarrow> string" where
  "KeyARN region account keyID =
     ''arn:aws:kms:'' @ (if region = [] then DefaultKMSRegion else region) @ '':'' @ account @ '':key/'' @ keyID"

definition AliasARN :: "string \<Rightarrow> string \<Rightarrow> string \<Rightarrow> string" where
  "AliasARN region account aliasName =
     ''arn:aws:kms:'' @ (if region = [] then DefaultKMSRegion else region) @ '':'' @ account @ '':alias/''
       @ TrimPrefix aliasName ''alias/''"

definition normalizeStoredKeySpec :: "string \<Rightarrow> string \<Rightarrow> string" where
  "normalizeStoredKeySpec spec usage =
     (let s = TrimSpace spec
      in if s \<noteq> [] then s else if usage = KeyUsageSignVerify then KeySpecRSA2048 else KeySpecSymmetricDefault)"

definition normalizeAliasName :: "string \<Rightarrow> string" where
  "normalizeAliasName raw =
     (let name = TrimSpace raw; parts = Split name CHR '':''
      in if name = [] then name
         else if HasPrefix name ''arn:aws:kms:'' \<and> 6 \<le> length parts \<and> HasPrefix (parts ! 5) ''alias/''
         then ''alias/'' @ TrimPrefix (parts ! 5) ''alias/''
         else if \<not> HasPrefix name ''alias/'' then ''alias/'' @ name else name)"

definition isAWSManagedConvenienceAlias :: "string \<Rightarrow> bool" where
  "isAWSManagedConvenienceAlias aliasName = (normalizeAliasName aliasName \<in> set awsManagedConvenienceAliases)"

definition KeyUsableForCrypto :: "string \<Rightarrow> bool" where
  "KeyUsableForCrypto st = (st = KeyStateEnabled)"

definition IsAsymmetricSignVerify :: "'a Key_scheme \<Rightarrow> bool" where
  "IsAsymmetricSignVerify k \<longleftrightarrow> k_KeyUsage k = KeyUsageSignVerify \<and> k_KeySpec k = KeySpecRSA2048"

section \<open>Reading and deleting keys\<close>

definition getKeyRaw :: "kms \<Rightarrow> string \<Rightarrow> (kms_error, Key) result" where
  "getKeyRaw s keyID =
     (case List.find (\<lambda>r. k_KeyID r = keyID) (kms_keys s) of
        None \<Rightarrow> Inl KmsNoRows
      | Some r \<Rightarrow> Inr (Key.truncate (r\<lparr>k_KeySpec := normalizeStoredKeySpec (k_KeySpec r) (k_KeyUsage r)\<rparr>)))"

definition purgeKey :: "kms \<Rightarrow> string \<Rightarrow> kms option" where
  "purgeKey s keyID =
     map_option (\<lambda>rows. s\<lparr>kms_grants := filter (\<lambda>g. kg_KeyID g \<noteq> keyID) (kms_grants s),
                          kms_aliases := filter (\<lambda>a. al_TargetKeyID a \<noteq> keyID) (kms_aliases s),
                          kms_materials := filter (\<lambda>m. km_key m \<noteq> keyID) (kms_materials s), kms_keys := rows\<rparr>)
       (sql_delete (\<lambda>r. k_KeyID r = keyID) (kms_keys s))"

definition deletion_due :: "instant \<Rightarrow> 'a Key_scheme \<Rightarrow> bool" where
  "deletion_due now k \<longleftrightarrow>
     k_KeyState k = KeyStatePendingDeletion \<and> k_DeletionDate k \<noteq> [] \<and> k_DeletionDate k \<le> format_RFC3339 now"

fun purge_keys :: "string list \<Rightarrow> nat \<Rightarrow> kms \<Rightarrow> nat kres" where
  "purge_keys [] deleted s = (Inr deleted, s)"
| "purge_keys (keyID # ids) deleted s =
     (case purgeKey s keyID of
        None \<Rightarrow> (Inl KmsNoRows, s)
      | Some s' \<Rightarrow> purge_keys ids (Suc deleted) s')"

definition SweepExpiredPendingKeys :: "instant \<Rightarrow> kms \<Rightarrow> nat kres" where
  "SweepExpiredPendingKeys now s = purge_keys (map k_KeyID (filter (deletion_due now) (kms_keys s))) 0 s"

definition GetKey :: "instant \<Rightarrow> kms \<Rightarrow> string \<Rightarrow> Key kres" where
  "GetKey now s keyID =
     (case SweepExpiredPendingKeys now s of
        (Inl e, s') \<Rightarrow> (Inl e, s')
      | (Inr _, s') \<Rightarrow> (getKeyRaw s' keyID, s'))"

definition with_key :: "instant \<Rightarrow> kms \<Rightarrow> string \<Rightarrow> (Key \<Rightarrow> kms \<Rightarrow> 'a kres) \<Rightarrow> 'a kres" where
  "with_key now s keyID f =
     (case GetKey now s keyID of (Inl e, s') \<Rightarrow> (Inl e, s') | (Inr k, s') \<Rightarrow> f k s')"

definition ListKeys :: "instant \<Rightarrow> kms \<Rightarrow> string \<Rightarrow> Key list kres" where
  "ListKeys now s account =
     (case SweepExpiredPendingKeys now s of
        (Inl e, s') \<Rightarrow> (Inl e, s')
      | (Inr _, s') \<Rightarrow>
          (Inr (map (\<lambda>r. Key.truncate (r\<lparr>k_KeySpec := normalizeStoredKeySpec (k_KeySpec r) (k_KeyUsage r)\<rparr>))
                  (sort_key (\<lambda>r. (k_CreationDate r, k_KeyID r)) (filter (\<lambda>r. k_AccountID r = account) (kms_keys s')))), s'))"

section \<open>Creating keys\<close>

definition generateKeyMaterial :: "fresh \<Rightarrow> string \<Rightarrow> string \<Rightarrow> (kms_error, string \<times> string \<times> string) result" where
  "generateKeyMaterial fr keyUsage keySpec =
     (let usage0 = TrimSpace keyUsage; spec0 = TrimSpace keySpec;
          usage1 = (if spec0 = KeySpecRSA2048 \<and> usage0 = [] then KeyUsageSignVerify else usage0);
          usage = (if usage1 = [] then KeyUsageEncryptDecrypt else usage1);
          spec = (if spec0 \<noteq> [] then spec0 else if usage = KeyUsageSignVerify then KeySpecRSA2048 else KeySpecSymmetricDefault)
      in if usage = KeyUsageEncryptDecrypt then
           (if spec \<noteq> KeySpecSymmetricDefault then Inl ErrUnsupportedKeySpec else Inr (usage, spec, fr_cmk fr))
         else if usage = KeyUsageSignVerify then
           (if spec \<noteq> KeySpecRSA2048 then Inl ErrUnsupportedKeySpec else Inr (usage, spec, fr_pkcs8 fr))
         else Inl KmsUnsupportedUsage)"

record CreateKeyParams =
  ck_AccountID :: string
  ck_CreatorARN :: string
  ck_PolicyOverride :: string
  ck_KeyUsage :: string
  ck_KeySpec :: string

definition createKeyTx :: "'c ciphers_scheme \<Rightarrow> fresh \<Rightarrow> instant \<Rightarrow> kms \<Rightarrow> CreateKeyParams \<Rightarrow> Key kres" where
  "createKeyTx ci fr now s p =
     (case generateKeyMaterial fr (ck_KeyUsage p) (ck_KeySpec p) of
        Inl e \<Rightarrow> (Inl e, s)
      | Inr (usage, spec, material) \<Rightarrow>
          (let policy0 = TrimSpace (ck_PolicyOverride p);
               policy = (if policy0 = [] then DefaultKeyPolicy (ck_AccountID p) (ck_CreatorARN p) else policy0);
               k = \<lparr>k_KeyID = fr_id fr, k_AccountID = ck_AccountID p, k_ARN = KeyARN DefaultKMSRegion (ck_AccountID p) (fr_id fr),
                    k_KeyState = KeyStateEnabled, k_KeyUsage = usage, k_KeySpec = spec, k_KeyPolicy = policy,
                    k_CreationDate = format_RFC3339 now, k_DeletionDate = [], k_PendingWindowInDays = 0,
                    k_KeyRotationEnabled = False, k_LastRotationDate = [], k_RotationPeriodDays = 0\<rparr>;
               row = Key.extend (k\<lparr>k_RotationPeriodDays := DefaultLabRotationPeriodDays\<rparr>)
                       (kms_row.fields (Seal ci (fr_nonce fr) material))
           in case sql_insert k_KeyID row (kms_keys s) of
                None \<Rightarrow> (Inl KmsConstraint, s)
              | Some rows \<Rightarrow> (Inr k, s\<lparr>kms_keys := rows\<rparr>)))"

definition CreateKeyWithParams :: "'c ciphers_scheme \<Rightarrow> fresh \<Rightarrow> instant \<Rightarrow> kms \<Rightarrow> CreateKeyParams \<Rightarrow> Key kres" where
  "CreateKeyWithParams = createKeyTx"

section \<open>The state of a key\<close>

definition update_key :: "string \<Rightarrow> (kms_row \<Rightarrow> kms_row) \<Rightarrow> kms \<Rightarrow> unit kres" where
  "update_key keyID f s =
     (case sql_update (\<lambda>r. k_KeyID r = keyID) f (kms_keys s) of
        None \<Rightarrow> (Inl KmsNoRows, s)
      | Some rows \<Rightarrow> (Inr (), s\<lparr>kms_keys := rows\<rparr>))"

definition SetKeyState :: "instant \<Rightarrow> kms \<Rightarrow> string \<Rightarrow> string \<Rightarrow> unit kres" where
  "SetKeyState now s keyID st =
     (if st \<noteq> KeyStateEnabled \<and> st \<noteq> KeyStateDisabled then (Inl KmsInvalid, s)
      else with_key now s keyID (\<lambda>k s'.
             if k_KeyState k = KeyStatePendingDeletion then (Inl ErrInvalidKeyState, s')
             else update_key keyID (\<lambda>r. r\<lparr>k_KeyState := st\<rparr>) s'))"

definition pending_days :: "int \<Rightarrow> int" where
  "pending_days window = (let days = (if window \<le> 0 then 30 else window) in min 30 (max 7 days))"

definition ScheduleKeyDeletion :: "instant \<Rightarrow> kms \<Rightarrow> string \<Rightarrow> int \<Rightarrow> Key kres" where
  "ScheduleKeyDeletion now s keyID window =
     with_key now s keyID (\<lambda>k s'.
       if k_KeyState k \<noteq> KeyStateEnabled \<and> k_KeyState k \<noteq> KeyStateDisabled then (Inl ErrInvalidKeyState, s')
       else (let days = pending_days window; date = format_RFC3339 (now + days * ns_day)
             in case update_key keyID (\<lambda>r. r\<lparr>k_KeyState := KeyStatePendingDeletion, k_DeletionDate := date\<rparr>) s' of
                  (Inl e, s'') \<Rightarrow> (Inl e, s'')
                | (Inr _, s'') \<Rightarrow>
                    (Inr (k\<lparr>k_KeyState := KeyStatePendingDeletion, k_DeletionDate := date, k_PendingWindowInDays := days\<rparr>), s'')))"

definition CancelKeyDeletion :: "instant \<Rightarrow> kms \<Rightarrow> string \<Rightarrow> unit kres" where
  "CancelKeyDeletion now s keyID =
     with_key now s keyID (\<lambda>k s'.
       if k_KeyState k \<noteq> KeyStatePendingDeletion then (Inl ErrInvalidKeyState, s')
       else update_key keyID (\<lambda>r. r\<lparr>k_KeyState := KeyStateDisabled, k_DeletionDate := []\<rparr>) s')"

definition SetPendingDeletionDate :: "instant \<Rightarrow> kms \<Rightarrow> string \<Rightarrow> instant \<Rightarrow> unit kres" where
  "SetPendingDeletionDate now s keyID date =
     with_key now s keyID (\<lambda>k s'.
       if k_KeyState k \<noteq> KeyStatePendingDeletion then (Inl ErrInvalidKeyState, s')
       else (Inr (), snd (update_key keyID (\<lambda>r. r\<lparr>k_DeletionDate := format_RFC3339 date\<rparr>) s')))"

definition GetKeyPolicy :: "kms \<Rightarrow> string \<Rightarrow> (kms_error, string) result" where
  "GetKeyPolicy s keyID =
     (case List.find (\<lambda>r. k_KeyID r = keyID) (kms_keys s) of None \<Rightarrow> Inl KmsNoRows | Some r \<Rightarrow> Inr (k_KeyPolicy r))"

definition PutKeyPolicy :: "kms \<Rightarrow> string \<Rightarrow> string \<Rightarrow> unit kres" where
  "PutKeyPolicy s keyID policy =
     (if TrimSpace policy = [] \<or> json_parse policy = None then (Inl KmsInvalid, s)
      else update_key keyID (\<lambda>r. r\<lparr>k_KeyPolicy := policy\<rparr>) s)"

section \<open>Material and its rotation\<close>

definition UnsealKeyMaterial :: "'c ciphers_scheme \<Rightarrow> kms \<Rightarrow> string \<Rightarrow> (kms_error, string) result" where
  "UnsealKeyMaterial ci s keyID =
     (case List.find (\<lambda>r. k_KeyID r = keyID) (kms_keys s) of
        None \<Rightarrow> Inl KmsNoRows
      | Some r \<Rightarrow> (case Unseal ci (k_sealed r) of None \<Rightarrow> Inl KmsUnseal | Some m \<Rightarrow> Inr m))"

definition material_key :: "key_material \<Rightarrow> string \<times> nat" where
  "material_key m = (km_key m, km_generation m)"

definition next_generation :: "kms \<Rightarrow> string \<Rightarrow> nat" where
  "next_generation s keyID =
     Suc (fold max (map km_generation (filter (\<lambda>m. km_key m = keyID) (kms_materials s))) 0)"

definition RotateKeyMaterial :: "'c ciphers_scheme \<Rightarrow> fresh \<Rightarrow> instant \<Rightarrow> kms \<Rightarrow> string \<Rightarrow> unit kres" where
  "RotateKeyMaterial ci fr now s keyID =
     with_key now s keyID (\<lambda>k s'.
       if k_KeyUsage k \<noteq> KeyUsageEncryptDecrypt then (Inl ErrUnsupportedKeyRotation, s')
       else if k_KeyState k = KeyStatePendingDeletion then (Inl ErrInvalidKeyState, s')
       else (case List.find (\<lambda>r. k_KeyID r = keyID) (kms_keys s') of
               None \<Rightarrow> (Inl KmsNoRows, s')
             | Some r \<Rightarrow>
                 (let created = format_RFC3339 now;
                      archived = \<lparr>km_key = keyID, km_generation = next_generation s' keyID, km_sealed = k_sealed r, km_created = created\<rparr>;
                      rotated = (\<lambda>r. r\<lparr>k_sealed := Seal ci (fr_nonce fr) (fr_cmk fr), k_LastRotationDate := created\<rparr>)
                  in case sql_insert material_key archived (kms_materials s') of
                       None \<Rightarrow> (Inl KmsConstraint, s')
                     | Some ms \<Rightarrow> (Inr (), snd (update_key keyID rotated (s'\<lparr>kms_materials := ms\<rparr>))))))"

definition SetKeyRotationEnabled :: "'c ciphers_scheme \<Rightarrow> fresh \<Rightarrow> instant \<Rightarrow> kms \<Rightarrow> string \<Rightarrow> bool \<Rightarrow> unit kres" where
  "SetKeyRotationEnabled ci fr now s keyID enabled =
     with_key now s keyID (\<lambda>k s'.
       if k_KeyUsage k \<noteq> KeyUsageEncryptDecrypt then (Inl ErrUnsupportedKeyRotation, s')
       else if k_KeyState k = KeyStatePendingDeletion then (Inl ErrInvalidKeyState, s')
       else (let s'' = snd (update_key keyID (\<lambda>r. r\<lparr>k_KeyRotationEnabled := enabled\<rparr>) s')
             in if enabled then RotateKeyMaterial ci fr now s'' keyID else (Inr (), s'')))"

definition GetKeyRotationEnabled :: "instant \<Rightarrow> kms \<Rightarrow> string \<Rightarrow> bool kres" where
  "GetKeyRotationEnabled now s keyID = with_key now s keyID (\<lambda>k s'. (Inr (k_KeyRotationEnabled k), s'))"

text \<open>A date that cannot be read counts as now.\<close>

definition rotation_due :: "instant \<Rightarrow> Key \<Rightarrow> bool" where
  "rotation_due now k \<longleftrightarrow>
     (let days = (if k_RotationPeriodDays k \<le> 0 then DefaultLabRotationPeriodDays else k_RotationPeriodDays k);
          anchor = (if k_LastRotationDate k = [] then k_CreationDate k else k_LastRotationDate k);
          last = (case parse_RFC3339 anchor of None \<Rightarrow> now | Some t \<Rightarrow> t)
      in \<not> time_sub now last < wrap64 (wrap64 (days * 24) * ns_hour))"

definition MaybeAutoRotate :: "'c ciphers_scheme \<Rightarrow> fresh \<Rightarrow> instant \<Rightarrow> kms \<Rightarrow> string \<Rightarrow> unit kres" where
  "MaybeAutoRotate ci fr now s keyID =
     (case getKeyRaw s keyID of
        Inl e \<Rightarrow> (Inl e, s)
      | Inr k \<Rightarrow>
          if \<not> k_KeyRotationEnabled k then (Inr (), s)
          else if k_KeyState k = KeyStatePendingDeletion then (Inr (), s)
          else if \<not> rotation_due now k then (Inr (), s)
          else RotateKeyMaterial ci fr now s keyID)"

definition SetLastRotationDate :: "kms \<Rightarrow> string \<Rightarrow> instant \<Rightarrow> unit kres" where
  "SetLastRotationDate s keyID date =
     (Inr (), snd (update_key keyID (\<lambda>r. r\<lparr>k_LastRotationDate := format_RFC3339 date\<rparr>) s))"

definition SetRotationPeriodDays :: "kms \<Rightarrow> string \<Rightarrow> int \<Rightarrow> unit kres" where
  "SetRotationPeriodDays s keyID days =
     (Inr (), snd (update_key keyID (\<lambda>r. r\<lparr>k_RotationPeriodDays := (if days \<le> 0 then DefaultLabRotationPeriodDays else days)\<rparr>) s))"

text \<open>The current material first, then the archived generations from the newest.\<close>

definition UnsealAllKeyMaterials :: "'c ciphers_scheme \<Rightarrow> kms \<Rightarrow> string \<Rightarrow> (kms_error, string list) result" where
  "UnsealAllKeyMaterials ci s keyID =
     (case UnsealKeyMaterial ci s keyID of
        Inl e \<Rightarrow> Inl e
      | Inr current \<Rightarrow>
          (case those (map (\<lambda>m. Unseal ci (km_sealed m))
                  (rev (sort_key km_generation (filter (\<lambda>m. km_key m = keyID) (kms_materials s))))) of
             None \<Rightarrow> Inl KmsUnseal
           | Some older \<Rightarrow> Inr (current # older)))"

fun first_opened :: "('m \<Rightarrow> 'p option) \<Rightarrow> 'm list \<Rightarrow> 'p option" where
  "first_opened f [] = None"
| "first_opened f (m # ms) = (case f m of None \<Rightarrow> first_opened f ms | Some p \<Rightarrow> Some p)"

definition DecryptBlobWithKeyContext ::
  "'c ciphers_scheme \<Rightarrow> kms \<Rightarrow> string \<Rightarrow> string \<Rightarrow> enc_context \<Rightarrow> (kms_error, string) result"
where
  "DecryptBlobWithKeyContext ci s keyID blob ctx =
     (case UnsealAllKeyMaterials ci s keyID of
        Inl e \<Rightarrow> Inl e
      | Inr materials \<Rightarrow>
          (case first_opened (\<lambda>cmk. DecryptUnderCMK ci cmk blob ctx) materials of
             None \<Rightarrow> Inl KmsDecrypt | Some plain \<Rightarrow> Inr plain))"

definition UnsealRSAPrivateKey :: "'c ciphers_scheme \<Rightarrow> instant \<Rightarrow> kms \<Rightarrow> string \<Rightarrow> string kres" where
  "UnsealRSAPrivateKey ci now s keyID =
     with_key now s keyID (\<lambda>k s'.
       if k_KeyUsage k \<noteq> KeyUsageSignVerify \<or> k_KeySpec k \<noteq> KeySpecRSA2048 then (Inl ErrInvalidKeyUsage, s')
       else (case UnsealKeyMaterial ci s' keyID of
               Inl e \<Rightarrow> (Inl e, s')
             | Inr plain \<Rightarrow> if ci_rsa_key ci plain then (Inr plain, s') else (Inl KmsUnseal, s')))"

section \<open>Aliases\<close>

definition alias_key :: "Alias \<Rightarrow> string \<times> string" where
  "alias_key a = (al_AccountID a, al_AliasName a)"

definition lookupAliasTarget :: "Alias list \<Rightarrow> string \<Rightarrow> string \<Rightarrow> string option" where
  "lookupAliasTarget rows account aliasName =
     map_option al_TargetKeyID (List.find (\<lambda>a. alias_key a = (account, aliasName)) rows)"

definition CreateAlias :: "instant \<Rightarrow> kms \<Rightarrow> string \<Rightarrow> string \<Rightarrow> string \<Rightarrow> unit kres" where
  "CreateAlias now s account raw targetKeyID =
     (let aliasName = normalizeAliasName raw
      in if \<not> HasPrefix aliasName ''alias/'' \<or> aliasName = ''alias/'' then (Inl KmsInvalid, s)
         else with_key now s targetKeyID (\<lambda>k s'.
                case sql_insert alias_key \<lparr>al_AliasName = aliasName, al_AccountID = account, al_TargetKeyID = targetKeyID\<rparr>
                       (kms_aliases s') of
                  None \<Rightarrow> (Inl KmsConstraint, s')
                | Some rows \<Rightarrow> (Inr (), s'\<lparr>kms_aliases := rows\<rparr>)))"

definition ListAliases :: "kms \<Rightarrow> string \<Rightarrow> Alias list" where
  "ListAliases s account = sort_key al_AliasName (filter (\<lambda>a. al_AccountID a = account) (kms_aliases s))"

definition DeleteAlias :: "kms \<Rightarrow> string \<Rightarrow> string \<Rightarrow> unit kres" where
  "DeleteAlias s account raw =
     (case sql_delete (\<lambda>a. alias_key a = (account, normalizeAliasName raw)) (kms_aliases s) of
        None \<Rightarrow> (Inl KmsNoRows, s)
      | Some rows \<Rightarrow> (Inr (), s\<lparr>kms_aliases := rows\<rparr>))"

definition UpdateAlias :: "instant \<Rightarrow> kms \<Rightarrow> string \<Rightarrow> string \<Rightarrow> string \<Rightarrow> unit kres" where
  "UpdateAlias now s account raw targetKeyID =
     with_key now s targetKeyID (\<lambda>k s'.
       case sql_update (\<lambda>a. alias_key a = (account, normalizeAliasName raw)) (\<lambda>a. a\<lparr>al_TargetKeyID := targetKeyID\<rparr>)
              (kms_aliases s') of
         None \<Rightarrow> (Inl KmsNoRows, s')
       | Some rows \<Rightarrow> (Inr (), s'\<lparr>kms_aliases := rows\<rparr>))"

definition seed_alias :: "string \<Rightarrow> string \<Rightarrow> string \<Rightarrow> Alias list \<Rightarrow> Alias list" where
  "seed_alias account keyID aliasName rows =
     sql_upsert alias_key (\<lambda>a. a\<lparr>al_TargetKeyID := keyID\<rparr>)
       \<lparr>al_AliasName = aliasName, al_AccountID = account, al_TargetKeyID = keyID\<rparr> rows"

definition existing_alias_target :: "kms \<Rightarrow> string \<Rightarrow> string" where
  "existing_alias_target s account =
     null_text (first_opened (lookupAliasTarget (kms_aliases s) account) awsManagedConvenienceAliases)"

definition EnsureAWSManagedConvenienceAliases ::
  "'c ciphers_scheme \<Rightarrow> fresh \<Rightarrow> instant \<Rightarrow> kms \<Rightarrow> string \<Rightarrow> string kres"
where
  "EnsureAWSManagedConvenienceAliases ci fr now s account =
     (if TrimSpace account = [] then (Inl KmsInvalid, s)
      else (let existing = existing_alias_target s account;
                created = (if existing \<noteq> [] then (Inr existing, s)
                           else (case createKeyTx ci fr now s
                                        \<lparr>ck_AccountID = account, ck_CreatorARN = ''arn:aws:iam::'' @ account @ '':root'',
                                         ck_PolicyOverride = [], ck_KeyUsage = [], ck_KeySpec = []\<rparr> of
                                   (Inl e, s') \<Rightarrow> (Inl e, s')
                                 | (Inr k, s') \<Rightarrow> (Inr (k_KeyID k), s')))
            in case created of
                 (Inl e, _) \<Rightarrow> (Inl e, s)
               | (Inr keyID, s') \<Rightarrow>
                   (Inr keyID, s'\<lparr>kms_aliases := fold (seed_alias account keyID) awsManagedConvenienceAliases (kms_aliases s')\<rparr>)))"

definition resolveAlias :: "'c ciphers_scheme \<Rightarrow> fresh \<Rightarrow> instant \<Rightarrow> kms \<Rightarrow> string \<Rightarrow> string \<Rightarrow> string kres" where
  "resolveAlias ci fr now s account raw =
     (let aliasName = normalizeAliasName raw
      in case lookupAliasTarget (kms_aliases s) account aliasName of
           Some keyID \<Rightarrow> (Inr keyID, s)
         | None \<Rightarrow>
             if isAWSManagedConvenienceAlias aliasName then
               (case EnsureAWSManagedConvenienceAliases ci fr now s account of
                  (Inl e, s') \<Rightarrow> (Inl e, s')
                | (Inr _, s') \<Rightarrow>
                    (case lookupAliasTarget (kms_aliases s') account aliasName of
                       None \<Rightarrow> (Inl KmsNoRows, s') | Some keyID \<Rightarrow> (Inr keyID, s')))
             else (Inl KmsNoRows, s))"

definition ResolveKeyID :: "'c ciphers_scheme \<Rightarrow> fresh \<Rightarrow> instant \<Rightarrow> kms \<Rightarrow> string \<Rightarrow> string \<Rightarrow> string kres" where
  "ResolveKeyID ci fr now s account raw =
     (let id = TrimSpace raw; parts = Split id CHR '':''; arnAccount = parts ! 4; resource = parts ! 5
      in if id = [] then (Inl KmsInvalid, s)
         else if HasPrefix id ''arn:aws:kms:'' then
           (if length parts < 6 then (Inl KmsInvalid, s)
            else if HasPrefix resource ''key/'' then
              (let keyID = TrimPrefix resource ''key/''
               in with_key now s keyID (\<lambda>k s'.
                    if arnAccount \<noteq> [] \<and> k_AccountID k \<noteq> arnAccount then (Inl KmsNoRows, s') else (Inr keyID, s')))
            else if HasPrefix resource ''alias/'' then
              resolveAlias ci fr now s (if arnAccount = [] then account else arnAccount) (''alias/'' @ TrimPrefix resource ''alias/'')
            else (Inl KmsInvalid, s))
         else if HasPrefix id ''alias/'' then resolveAlias ci fr now s account id
         else with_key now s id (\<lambda>k s'. (Inr id, s')))"

section \<open>Grants\<close>

definition CreateGrantWithConstraints ::
  "fresh \<Rightarrow> instant \<Rightarrow> kms \<Rightarrow> string \<Rightarrow> string \<Rightarrow> string \<Rightarrow> string \<Rightarrow> string list \<Rightarrow> string \<Rightarrow> GrantConstraints \<Rightarrow> Grant kres"
where
  "CreateGrantWithConstraints fr now s account keyID grantee retiring ops name constraints =
     with_key now s keyID (\<lambda>k s'.
       if ops = [] \<or> TrimSpace grantee = [] then (Inl KmsInvalid, s')
       else (let g = \<lparr>kg_GrantID = fr_id fr, kg_KeyID = keyID, kg_AccountID = account, kg_GranteePrincipal = grantee,
                      kg_RetiringPrincipal = retiring, kg_Operations = ops, kg_Name = name, kg_Constraints = constraints\<rparr>;
                 row = g\<lparr>kg_RetiringPrincipal := (if TrimSpace retiring = [] then [] else retiring),
                         kg_Name := (if TrimSpace name = [] then [] else name)\<rparr>
             in case sql_insert kg_GrantID row (kms_grants s') of
                  None \<Rightarrow> (Inl KmsConstraint, s')
                | Some rows \<Rightarrow> (Inr g, s'\<lparr>kms_grants := rows\<rparr>)))"

definition ListGrants :: "kms \<Rightarrow> string \<Rightarrow> Grant list" where
  "ListGrants s keyID = sort_key kg_GrantID (filter (\<lambda>g. kg_KeyID g = keyID) (kms_grants s))"

definition deleteGrant :: "kms \<Rightarrow> (Grant \<Rightarrow> bool) \<Rightarrow> unit kres" where
  "deleteGrant s P =
     (case sql_delete P (kms_grants s) of None \<Rightarrow> (Inl KmsNoRows, s) | Some rows \<Rightarrow> (Inr (), s\<lparr>kms_grants := rows\<rparr>))"

text \<open>A retiring principal that was empty is null, and no caller's.\<close>

definition RetireGrant :: "kms \<Rightarrow> string \<Rightarrow> string \<Rightarrow> unit kres" where
  "RetireGrant s grantID callerARN =
     (case List.find (\<lambda>g. kg_GrantID g = grantID) (kms_grants s) of
        None \<Rightarrow> (Inl KmsNoRows, s)
      | Some g \<Rightarrow>
          if kg_GranteePrincipal g = callerARN \<or> kg_RetiringPrincipal g \<noteq> [] \<and> kg_RetiringPrincipal g = callerARN
          then deleteGrant s (\<lambda>g. kg_GrantID g = grantID) else (Inl KmsNotAuthorized, s))"

definition RevokeGrant :: "kms \<Rightarrow> string \<Rightarrow> unit kres" where
  "RevokeGrant s grantID = deleteGrant s (\<lambda>g. kg_GrantID g = grantID)"

definition RevokeGrantOnKey :: "kms \<Rightarrow> string \<Rightarrow> string \<Rightarrow> unit kres" where
  "RevokeGrantOnKey s rawKey rawGrant =
     (let keyID = TrimSpace rawKey; grantID = TrimSpace rawGrant
      in if keyID = [] \<or> grantID = [] then (Inl KmsNoRows, s)
         else deleteGrant s (\<lambda>g. kg_GrantID g = grantID \<and> kg_KeyID g = keyID))"

definition normalizeGrantOp :: "string \<Rightarrow> string" where
  "normalizeGrantOp raw =
     (let op = TrimSpace raw in case index_char CHR '':'' op of None \<Rightarrow> op | Some i \<Rightarrow> drop (Suc i) op)"

definition holds_pair :: "enc_context \<Rightarrow> string \<times> string \<Rightarrow> bool" where
  "holds_pair ctx kv = (null_text (map_of ctx (fst kv)) = snd kv)"

definition grantConstraintsAllow :: "GrantConstraints \<Rightarrow> enc_context \<Rightarrow> bool" where
  "grantConstraintsAllow c ctx =
     (if gc_Equals c = [] \<and> gc_Subset c = [] then True
      else if gc_Equals c \<noteq> [] \<and> (length ctx \<noteq> length (gc_Equals c) \<or> \<not> list_all (holds_pair ctx) (gc_Equals c)) then False
      else list_all (holds_pair ctx) (gc_Subset c))"

definition grant_matches :: "string \<Rightarrow> string \<Rightarrow> enc_context \<Rightarrow> Grant \<Rightarrow> bool" where
  "grant_matches principalARN operation ctx g \<longleftrightarrow>
     kg_GranteePrincipal g = principalARN \<and>
     list_ex (\<lambda>op. normalizeGrantOp op = normalizeGrantOp operation) (kg_Operations g) \<and>
     grantConstraintsAllow (kg_Constraints g) ctx"

definition FindMatchingGrantWithContext :: "kms \<Rightarrow> string \<Rightarrow> string \<Rightarrow> string \<Rightarrow> enc_context \<Rightarrow> bool" where
  "FindMatchingGrantWithContext s keyID principalARN operation ctx =
     list_ex (grant_matches principalARN operation ctx) (ListGrants s keyID)"

end
