(* ===== verification/Kms_Props.thy ===== *)
theory Kms_Props
  imports Kms Transitions
begin

text \<open>
  What the key store promises: its operations as a transition system, what its tables keep at every moment,
  that rotation loses no ciphertext, and that a deletion happens on its day.
\<close>

section \<open>The operations as transitions\<close>

datatype kms_call =
    Create_Key fresh CreateKeyParams
  | Read_Key string
  | List_Keys string
  | Set_State string string
  | Schedule_Deletion string int
  | Cancel_Deletion string
  | Set_Deletion_Date string instant
  | Put_Policy string string
  | Rotate fresh string
  | Set_Rotation fresh string bool
  | Auto_Rotate fresh string
  | Set_Last_Rotation string instant
  | Set_Period string int
  | Create_Alias string string string
  | Update_Alias string string string
  | Delete_Alias string string
  | Ensure_Aliases fresh string
  | Resolve fresh string string
  | Create_Grant fresh string string string string "string list" string GrantConstraints
  | Retire_Grant string string
  | Revoke_Grant string
  | Revoke_On_Key string string

fun kms_after :: "'c ciphers_scheme \<Rightarrow> instant \<Rightarrow> kms \<Rightarrow> kms_call \<Rightarrow> kms" where
  "kms_after ci now s (Create_Key fr p) = snd (CreateKeyWithParams ci fr now s p)"
| "kms_after ci now s (Read_Key keyID) = snd (GetKey now s keyID)"
| "kms_after ci now s (List_Keys account) = snd (ListKeys now s account)"
| "kms_after ci now s (Set_State keyID st) = snd (SetKeyState now s keyID st)"
| "kms_after ci now s (Schedule_Deletion keyID w) = snd (ScheduleKeyDeletion now s keyID w)"
| "kms_after ci now s (Cancel_Deletion keyID) = snd (CancelKeyDeletion now s keyID)"
| "kms_after ci now s (Set_Deletion_Date keyID t) = snd (SetPendingDeletionDate now s keyID t)"
| "kms_after ci now s (Put_Policy keyID policy) = snd (PutKeyPolicy s keyID policy)"
| "kms_after ci now s (Rotate fr keyID) = snd (RotateKeyMaterial ci fr now s keyID)"
| "kms_after ci now s (Set_Rotation fr keyID b) = snd (SetKeyRotationEnabled ci fr now s keyID b)"
| "kms_after ci now s (Auto_Rotate fr keyID) = snd (MaybeAutoRotate ci fr now s keyID)"
| "kms_after ci now s (Set_Last_Rotation keyID t) = snd (SetLastRotationDate s keyID t)"
| "kms_after ci now s (Set_Period keyID days) = snd (SetRotationPeriodDays s keyID days)"
| "kms_after ci now s (Create_Alias account name target) = snd (CreateAlias now s account name target)"
| "kms_after ci now s (Update_Alias account name target) = snd (UpdateAlias now s account name target)"
| "kms_after ci now s (Delete_Alias account name) = snd (DeleteAlias s account name)"
| "kms_after ci now s (Ensure_Aliases fr account) = snd (EnsureAWSManagedConvenienceAliases ci fr now s account)"
| "kms_after ci now s (Resolve fr account t) = snd (ResolveKeyID ci fr now s account t)"
| "kms_after ci now s (Create_Grant fr account keyID grantee retiring ops name c) =
     snd (CreateGrantWithConstraints fr now s account keyID grantee retiring ops name c)"
| "kms_after ci now s (Retire_Grant grantID caller) = snd (RetireGrant s grantID caller)"
| "kms_after ci now s (Revoke_Grant grantID) = snd (RevokeGrant s grantID)"
| "kms_after ci now s (Revoke_On_Key keyID grantID) = snd (RevokeGrantOnKey s keyID grantID)"

text \<open>What a call draws, where it draws.\<close>

fun drawn_by :: "kms_call \<Rightarrow> fresh option" where
  "drawn_by (Create_Key fr p) = Some fr"
| "drawn_by (Rotate fr keyID) = Some fr"
| "drawn_by (Set_Rotation fr keyID b) = Some fr"
| "drawn_by (Auto_Rotate fr keyID) = Some fr"
| "drawn_by (Ensure_Aliases fr account) = Some fr"
| "drawn_by (Resolve fr account t) = Some fr"
| "drawn_by (Create_Grant fr account keyID grantee retiring ops name c) = Some fr"
| "drawn_by _ = None"

definition kms_init :: "kms \<Rightarrow> bool" where
  "kms_init s \<longleftrightarrow> s = \<lparr>kms_keys = [], kms_aliases = [], kms_grants = [], kms_materials = []\<rparr>"

inductive kms_step :: "'c ciphers_scheme \<Rightarrow> kms \<Rightarrow> instant \<times> kms_call \<Rightarrow> kms \<Rightarrow> bool" for ci where
  kms_call: "pred_option fresh_ok (drawn_by c) \<Longrightarrow> s' = kms_after ci now s c \<Longrightarrow> kms_step ci s (now, c) s'"

inductive_cases kms_stepE: "kms_step ci s l s'"

section \<open>The invariant\<close>

definition key_ids :: "kms \<Rightarrow> string set" where
  "key_ids s = k_KeyID ` set (kms_keys s)"

definition material_ok :: "'c ciphers_scheme \<Rightarrow> string \<Rightarrow> bool" where
  "material_ok ci sealed \<longleftrightarrow> (\<exists>m. Unseal ci sealed = Some m \<and> length m = 32)"

definition row_ok :: "'c ciphers_scheme \<Rightarrow> kms_row \<Rightarrow> bool" where
  "row_ok ci r \<longleftrightarrow>
     length (k_KeyID r) = 36 \<and> k_ARN r = KeyARN DefaultKMSRegion (k_AccountID r) (k_KeyID r) \<and>
     (k_KeyState r = ''Enabled'' \<or> k_KeyState r = ''Disabled'' \<or> k_KeyState r = ''PendingDeletion'') \<and>
     (k_DeletionDate r = [] \<longleftrightarrow> k_KeyState r \<noteq> ''PendingDeletion'') \<and>
     (k_KeyUsage r = ''ENCRYPT_DECRYPT'' \<and> k_KeySpec r = ''SYMMETRIC_DEFAULT'' \<and> material_ok ci (k_sealed r) \<or>
      k_KeyUsage r = ''SIGN_VERIFY'' \<and> k_KeySpec r = ''RSA_2048'' \<and> Unseal ci (k_sealed r) \<noteq> None)"

definition kms_ok :: "'c ciphers_scheme \<Rightarrow> kms \<Rightarrow> bool" where
  "kms_ok ci s \<longleftrightarrow>
     distinct (map k_KeyID (kms_keys s)) \<and> distinct (map alias_key (kms_aliases s)) \<and>
     distinct (map kg_GrantID (kms_grants s)) \<and> distinct (map material_key (kms_materials s)) \<and>
     (\<forall>r\<in>set (kms_keys s). row_ok ci r) \<and>
     (\<forall>a\<in>set (kms_aliases s). al_TargetKeyID a \<in> key_ids s) \<and>
     (\<forall>g\<in>set (kms_grants s). kg_KeyID g \<in> key_ids s) \<and>
     (\<forall>m\<in>set (kms_materials s). km_key m \<in> key_ids s \<and> material_ok ci (km_sealed m))"

lemma row_ok_update:
  "row_ok ci (r\<lparr>k_KeyPolicy := p\<rparr>) = row_ok ci r" "row_ok ci (r\<lparr>k_KeyRotationEnabled := b\<rparr>) = row_ok ci r"
  "row_ok ci (r\<lparr>k_LastRotationDate := t\<rparr>) = row_ok ci r" "row_ok ci (r\<lparr>k_RotationPeriodDays := d\<rparr>) = row_ok ci r"
  by (simp_all add: row_ok_def)

section \<open>The sweep\<close>

definition drop_keys :: "string set \<Rightarrow> kms \<Rightarrow> kms" where
  "drop_keys D s =
     \<lparr>kms_keys = filter (\<lambda>r. k_KeyID r \<notin> D) (kms_keys s),
      kms_aliases = filter (\<lambda>a. al_TargetKeyID a \<notin> D) (kms_aliases s),
      kms_grants = filter (\<lambda>g. kg_KeyID g \<notin> D) (kms_grants s),
      kms_materials = filter (\<lambda>m. km_key m \<notin> D) (kms_materials s)\<rparr>"

lemma drop_keys_empty: "drop_keys {} s = s"
  by (simp add: drop_keys_def)

lemma drop_keys_twice: "drop_keys D (drop_keys E s) = drop_keys (E \<union> D) s"
  by (simp add: drop_keys_def conj_commute)

lemma purgeKey_drop: "keyID \<in> key_ids s \<Longrightarrow> purgeKey s keyID = Some (drop_keys {keyID} s)"
  by (auto simp: purgeKey_def sql_delete_def drop_keys_def key_ids_def)

lemma key_ids_drop: "key_ids (drop_keys D s) = key_ids s - D"
  by (auto simp: key_ids_def drop_keys_def)

lemma purge_keys_drop:
  "distinct ids \<Longrightarrow> set ids \<subseteq> key_ids s \<Longrightarrow> purge_keys ids n s = (Inr (n + length ids), drop_keys (set ids) s)"
proof (induction ids arbitrary: n s)
  case (Cons x ids)
  then have "set ids \<subseteq> key_ids (drop_keys {x} s)" by (auto simp: key_ids_drop)
  with Cons show ?case by (simp add: purgeKey_drop drop_keys_twice)
qed (simp add: drop_keys_empty)

definition due_keys :: "instant \<Rightarrow> kms \<Rightarrow> string set" where
  "due_keys now s = k_KeyID ` {r \<in> set (kms_keys s). deletion_due now r}"

definition swept :: "instant \<Rightarrow> kms \<Rightarrow> kms" where
  "swept now s = drop_keys (due_keys now s) s"

lemma Sweep_swept:
  assumes "distinct (map k_KeyID (kms_keys s))"
  shows "SweepExpiredPendingKeys now s = (Inr (length (filter (deletion_due now) (kms_keys s))), swept now s)"
proof -
  let ?ids = "map k_KeyID (filter (deletion_due now) (kms_keys s))"
  have "distinct ?ids" using assms by (simp add: distinct_map_filter)
  moreover have "set ?ids = due_keys now s" by (auto simp: due_keys_def)
  moreover have "set ?ids \<subseteq> key_ids s" by (auto simp: key_ids_def)
  ultimately show ?thesis using purge_keys_drop [of ?ids s 0]
    by (simp add: SweepExpiredPendingKeys_def swept_def)
qed

lemma kms_ok_drop: "kms_ok ci s \<Longrightarrow> kms_ok ci (drop_keys D s)"
  by (auto simp: kms_ok_def key_ids_drop) (auto simp: drop_keys_def distinct_map_filter)

lemma kms_ok_swept: "kms_ok ci s \<Longrightarrow> kms_ok ci (swept now s)"
  by (simp add: swept_def kms_ok_drop)

lemma kms_ok_distinct: "kms_ok ci s \<Longrightarrow> distinct (map k_KeyID (kms_keys s))"
  by (simp add: kms_ok_def)

lemma GetKey_swept: "kms_ok ci s \<Longrightarrow> GetKey now s keyID = (getKeyRaw (swept now s) keyID, swept now s)"
  by (simp add: GetKey_def Sweep_swept [OF kms_ok_distinct])

lemma with_key_swept:
  "kms_ok ci s \<Longrightarrow>
   with_key now s keyID f =
     (case getKeyRaw (swept now s) keyID of Inl e \<Rightarrow> (Inl e, swept now s) | Inr k \<Rightarrow> f k (swept now s))"
  by (simp add: with_key_def GetKey_swept)

lemma getKeyRaw_Inr:
  "getKeyRaw s keyID = Inr k \<longleftrightarrow>
     (\<exists>r. List.find (\<lambda>r. k_KeyID r = keyID) (kms_keys s) = Some r \<and>
          k = Key.truncate (r\<lparr>k_KeySpec := normalizeStoredKeySpec (k_KeySpec r) (k_KeyUsage r)\<rparr>))"
  by (auto simp: getKeyRaw_def split: option.splits)

lemma getKeyRaw_in: "getKeyRaw s keyID = Inr k \<Longrightarrow> keyID \<in> key_ids s"
  by (auto simp: getKeyRaw_Inr key_ids_def dest: find_Some_iff')

section \<open>Every operation keeps the invariant\<close>

lemma snd_with_key:
  assumes "kms_ok ci s" "P (swept now s)"
    and "\<And>k. getKeyRaw (swept now s) keyID = Inr k \<Longrightarrow> P (snd (f k (swept now s)))"
  shows "P (snd (with_key now s keyID f))"
  using assms by (simp add: with_key_swept split: sum.split)

lemma with_key_ok:
  assumes "kms_ok ci s"
    and "\<And>k s'. kms_ok ci s' \<Longrightarrow> getKeyRaw s' keyID = Inr k \<Longrightarrow> kms_ok ci (snd (f k s'))"
  shows "kms_ok ci (snd (with_key now s keyID f))"
  using assms kms_ok_swept [OF assms(1)] by (intro snd_with_key [OF assms(1), where P = "kms_ok ci"]) simp_all

lemma snd_update_key:
  "snd (update_key keyID f s) = s\<lparr>kms_keys := map (\<lambda>r. if k_KeyID r = keyID then f r else r) (kms_keys s)\<rparr>"
proof (cases "\<exists>r\<in>set (kms_keys s). k_KeyID r = keyID")
  case False
  then have "map (\<lambda>r. if k_KeyID r = keyID then f r else r) (kms_keys s) = kms_keys s"
    by (intro map_idI) auto
  with False show ?thesis by (simp add: update_key_def sql_update_def)
qed (auto simp: update_key_def sql_update_def)

definition update_rows :: "string \<Rightarrow> (kms_row \<Rightarrow> kms_row) \<Rightarrow> kms_row list \<Rightarrow> kms_row list" where
  "update_rows keyID f rows = map (\<lambda>r. if k_KeyID r = keyID then f r else r) rows"

lemma snd_update_rows: "snd (update_key keyID f s) = s\<lparr>kms_keys := update_rows keyID f (kms_keys s)\<rparr>"
  by (simp add: snd_update_key update_rows_def)

lemma update_rows_ids: "(\<And>r. k_KeyID (f r) = k_KeyID r) \<Longrightarrow> map k_KeyID (update_rows keyID f rows) = map k_KeyID rows"
  by (simp add: update_rows_def)

lemma update_rows_id_set: "(\<And>r. k_KeyID (f r) = k_KeyID r) \<Longrightarrow> k_KeyID ` set (update_rows keyID f rows) = k_KeyID ` set rows"
  by (metis list.set_map update_rows_ids)

lemma key_ids_update:
  "(\<And>r. k_KeyID (f r) = k_KeyID r) \<Longrightarrow> key_ids (s\<lparr>kms_keys := update_rows keyID f (kms_keys s)\<rparr>) = key_ids s"
  by (simp add: key_ids_def update_rows_id_set)

lemma update_key_ok:
  assumes "kms_ok ci s" "\<And>r. k_KeyID (f r) = k_KeyID r"
    and "\<And>r. r \<in> set (kms_keys s) \<Longrightarrow> k_KeyID r = keyID \<Longrightarrow> row_ok ci r \<Longrightarrow> row_ok ci (f r)"
  shows "kms_ok ci (snd (update_key keyID f s))"
proof -
  have "\<forall>r\<in>set (update_rows keyID f (kms_keys s)). row_ok ci r"
    using assms(1,3) by (auto simp: kms_ok_def update_rows_def)
  then show ?thesis
    using assms(1) key_ids_update [where f = f and s = s and keyID = keyID, OF assms(2)] update_rows_ids [of f keyID "kms_keys s", OF assms(2)]
    unfolding snd_update_rows kms_ok_def by simp
qed

text \<open>What is read of a key is its one row.\<close>

lemma key_of_row:
  assumes "kms_ok ci s" "getKeyRaw s keyID = Inr k" "r \<in> set (kms_keys s)" "k_KeyID r = keyID"
  shows "k = Key.truncate (r\<lparr>k_KeySpec := normalizeStoredKeySpec (k_KeySpec r) (k_KeyUsage r)\<rparr>)"
proof -
  have "List.find (\<lambda>r. k_KeyID r = keyID) (kms_keys s) = Some r"
    using find_key [of k_KeyID "kms_keys s" r] assms(1,3,4) by (simp add: kms_ok_def)
  then show ?thesis using assms(2) by (simp add: getKeyRaw_Inr)
qed

lemma key_fields:
  assumes "kms_ok ci s" "getKeyRaw s keyID = Inr k" "r \<in> set (kms_keys s)" "k_KeyID r = keyID"
  shows "k_KeyState k = k_KeyState r" "k_KeyUsage k = k_KeyUsage r" "k_DeletionDate k = k_DeletionDate r"
    "k_KeyPolicy k = k_KeyPolicy r" "k_ARN k = k_ARN r" "k_KeyID k = keyID"
  using key_of_row [OF assms] assms(4) by (simp_all add: Key.truncate_def)

lemma Seal_material: "ciphers_correct ci \<Longrightarrow> fresh_ok fr \<Longrightarrow> material_ok ci (Seal ci (fr_nonce fr) (fr_cmk fr))"
  by (auto simp: material_ok_def fresh_ok_def Unseal_Seal)

lemma material_ok_opens: "material_ok ci sealed \<Longrightarrow> \<exists>m. Unseal ci sealed = Some m"
  by (auto simp: material_ok_def)

lemma SetKeyState_ok: "kms_ok ci s \<Longrightarrow> kms_ok ci (snd (SetKeyState now s keyID st))"
proof -
  assume s: "kms_ok ci s"
  have step: "kms_ok ci (snd (update_key keyID (\<lambda>r. r\<lparr>k_KeyState := st\<rparr>) s'))"
    if ok: "kms_ok ci s'" and k: "getKeyRaw s' keyID = Inr k" "k_KeyState k \<noteq> KeyStatePendingDeletion"
      and st: "st = KeyStateEnabled \<or> st = KeyStateDisabled" for s' k
  proof (rule update_key_ok [OF ok])
    fix r assume r: "r \<in> set (kms_keys s')" "k_KeyID r = keyID" "row_ok ci r"
    have "k_KeyState r \<noteq> ''PendingDeletion''" using key_fields(1) [OF ok k(1) r(1,2)] k(2) by (simp add: kms_names)
    then show "row_ok ci (r\<lparr>k_KeyState := st\<rparr>)" using r(3) st by (auto simp: row_ok_def kms_names)
  qed simp
  show ?thesis
  proof (cases "st = KeyStateEnabled \<or> st = KeyStateDisabled")
    case True
    have "kms_ok ci (snd (with_key now s keyID (\<lambda>k s'. if k_KeyState k = KeyStatePendingDeletion then (Inl ErrInvalidKeyState, s')
        else update_key keyID (\<lambda>r. r\<lparr>k_KeyState := st\<rparr>) s')))"
      using s by (rule with_key_ok) (simp add: step True)
    then show ?thesis using True by (auto simp: SetKeyState_def)
  qed (simp add: SetKeyState_def s)
qed

lemma ScheduleKeyDeletion_ok: "kms_ok ci s \<Longrightarrow> kms_ok ci (snd (ScheduleKeyDeletion now s keyID w))"
proof -
  assume s: "kms_ok ci s"
  have step: "snd (case update_key keyID f s' of (Inl e, t) \<Rightarrow> (Inl e, t) | (Inr _, t) \<Rightarrow> (Inr k, t)) = snd (update_key keyID f s')"
    for f s' and k :: Key by (simp split: prod.split sum.split)
  have "kms_ok ci (snd (update_key keyID (\<lambda>r. r\<lparr>k_KeyState := KeyStatePendingDeletion, k_DeletionDate := format_RFC3339 t\<rparr>) s'))"
    if "kms_ok ci s'" for s' t
    by (rule update_key_ok [OF that]) (auto simp: row_ok_def kms_names)
  then show ?thesis using s by (auto simp: ScheduleKeyDeletion_def Let_def step intro!: with_key_ok)
qed

lemma CancelKeyDeletion_ok: "kms_ok ci s \<Longrightarrow> kms_ok ci (snd (CancelKeyDeletion now s keyID))"
  unfolding CancelKeyDeletion_def
  by (auto intro!: with_key_ok update_key_ok simp: row_ok_def kms_names)

lemma SetPendingDeletionDate_ok: "kms_ok ci s \<Longrightarrow> kms_ok ci (snd (SetPendingDeletionDate now s keyID t))"
proof -
  assume s: "kms_ok ci s"
  have step: "kms_ok ci (snd (update_key keyID (\<lambda>r. r\<lparr>k_DeletionDate := format_RFC3339 t\<rparr>) s'))"
    if ok: "kms_ok ci s'" and k: "getKeyRaw s' keyID = Inr k" "k_KeyState k = KeyStatePendingDeletion" for s' k
  proof (rule update_key_ok [OF ok])
    fix r assume r: "r \<in> set (kms_keys s')" "k_KeyID r = keyID" "row_ok ci r"
    have "k_KeyState r = ''PendingDeletion''" using key_fields(1) [OF ok k(1) r(1,2)] k(2) by (simp add: kms_names)
    then show "row_ok ci (r\<lparr>k_DeletionDate := format_RFC3339 t\<rparr>)" using r(3) by (auto simp: row_ok_def)
  qed simp
  show ?thesis unfolding SetPendingDeletionDate_def using s by (auto intro!: with_key_ok step)
qed

lemma PutKeyPolicy_ok: "kms_ok ci s \<Longrightarrow> kms_ok ci (snd (PutKeyPolicy s keyID p))"
  unfolding PutKeyPolicy_def by (simp add: update_key_ok row_ok_update)

lemma next_generation_new: "material_key \<lparr>km_key = keyID, km_generation = next_generation s keyID, km_sealed = m, km_created = t\<rparr> \<notin>
    material_key ` set (kms_materials s)"
proof -
  have "km_generation m < next_generation s keyID" if "m \<in> set (kms_materials s)" "km_key m = keyID" for m
    using le_fold_max [of "km_generation m" 0 "map km_generation (filter (\<lambda>m. km_key m = keyID) (kms_materials s))"] that
    by (force simp: next_generation_def less_Suc_eq_le)
  then show ?thesis by (force simp: material_key_def)
qed

text \<open>What a rotation leaves: the old material in the archive, new material in the row.\<close>

definition rotated :: "'c ciphers_scheme \<Rightarrow> fresh \<Rightarrow> instant \<Rightarrow> string \<Rightarrow> string \<Rightarrow> kms \<Rightarrow> kms" where
  "rotated ci fr now keyID old s =
     (snd (update_key keyID (\<lambda>r. r\<lparr>k_sealed := Seal ci (fr_nonce fr) (fr_cmk fr), k_LastRotationDate := format_RFC3339 now\<rparr>)
        (s\<lparr>kms_materials := kms_materials s @ [\<lparr>km_key = keyID, km_generation = next_generation s keyID, km_sealed = old,
                                                 km_created = format_RFC3339 now\<rparr>]\<rparr>)))"

lemma RotateKeyMaterial_cases:
  assumes "kms_ok ci s"
  obtains (unchanged) "snd (RotateKeyMaterial ci fr now s keyID) = swept now s"
  | (rotated) r where "r \<in> set (kms_keys (swept now s))" "k_KeyID r = keyID" "k_KeyUsage r = ''ENCRYPT_DECRYPT''"
      "snd (RotateKeyMaterial ci fr now s keyID) = rotated ci fr now keyID (k_sealed r) (swept now s)"
proof (cases "getKeyRaw (swept now s) keyID")
  case (Inl e)
  then have "snd (RotateKeyMaterial ci fr now s keyID) = swept now s"
    using assms by (simp add: RotateKeyMaterial_def with_key_swept)
  then show ?thesis by (rule unchanged)
next
  case (Inr k)
  then obtain r where r: "List.find (\<lambda>r. k_KeyID r = keyID) (kms_keys (swept now s)) = Some r"
    by (auto simp: getKeyRaw_Inr)
  then have in_rows: "r \<in> set (kms_keys (swept now s))" "k_KeyID r = keyID" by (auto dest: find_Some_iff')
  have usage: "k_KeyUsage k = k_KeyUsage r" using key_fields(2) [OF kms_ok_swept [OF assms] Inr in_rows] .
  show ?thesis
  proof (cases "k_KeyUsage k \<noteq> KeyUsageEncryptDecrypt \<or> k_KeyState k = KeyStatePendingDeletion")
    case True
    then have "snd (RotateKeyMaterial ci fr now s keyID) = swept now s"
      using assms Inr by (auto simp: RotateKeyMaterial_def with_key_swept)
    then show ?thesis by (rule unchanged)
  next
    case False
    then have "snd (RotateKeyMaterial ci fr now s keyID) = rotated ci fr now keyID (k_sealed r) (swept now s)"
      using assms Inr r next_generation_new [of keyID "swept now s" "k_sealed r" "format_RFC3339 now"]
      by (simp add: RotateKeyMaterial_def with_key_swept Let_def sql_insert_def rotated_def)
    then show ?thesis using in_rows usage False by (intro rotated) (simp_all add: kms_names)
  qed
qed

lemma rotated_ok:
  assumes "ciphers_correct ci" "fresh_ok fr" "kms_ok ci s" "r \<in> set (kms_keys s)" "k_KeyID r = keyID" "k_KeyUsage r = ''ENCRYPT_DECRYPT''"
  shows "kms_ok ci (rotated ci fr now keyID (k_sealed r) s)"
proof -
  let ?m = "\<lparr>km_key = keyID, km_generation = next_generation s keyID, km_sealed = k_sealed r, km_created = format_RFC3339 now\<rparr>"
  have "material_ok ci (k_sealed r)" using assms(3,4,6) by (force simp: kms_ok_def row_ok_def)
  then have "kms_ok ci (s\<lparr>kms_materials := kms_materials s @ [?m]\<rparr>)"
    using assms(3-5) next_generation_new [of keyID s "k_sealed r" "format_RFC3339 now"] by (auto simp: kms_ok_def key_ids_def)
  moreover have "row_ok ci (x\<lparr>k_sealed := Seal ci (fr_nonce fr) (fr_cmk fr), k_LastRotationDate := t\<rparr>)" if "row_ok ci x" for x t
    using that Seal_material [OF assms(1,2)] material_ok_opens [OF Seal_material [OF assms(1,2)]] by (auto simp: row_ok_def)
  ultimately show ?thesis unfolding rotated_def by (intro update_key_ok) simp_all
qed

lemma RotateKeyMaterial_ok:
  assumes "ciphers_correct ci" "fresh_ok fr" "kms_ok ci s"
  shows "kms_ok ci (snd (RotateKeyMaterial ci fr now s keyID))"
  using assms(3)
proof (cases rule: RotateKeyMaterial_cases [where fr = fr and now = now and keyID = keyID])
  case (rotated r)
  then show ?thesis using rotated_ok [OF assms(1,2) kms_ok_swept [OF assms(3)]] by simp
qed (simp add: kms_ok_swept assms(3))

lemma SetKeyRotationEnabled_ok:
  assumes "ciphers_correct ci" "fresh_ok fr" "kms_ok ci s"
  shows "kms_ok ci (snd (SetKeyRotationEnabled ci fr now s keyID b))"
proof -
  have step: "kms_ok ci (snd (update_key keyID (\<lambda>r. r\<lparr>k_KeyRotationEnabled := c\<rparr>) s'))" if "kms_ok ci s'" for s' c
    by (rule update_key_ok [OF that]) (simp_all add: row_ok_update)
  show ?thesis unfolding SetKeyRotationEnabled_def using assms(3)
    by (rule with_key_ok) (simp add: Let_def step RotateKeyMaterial_ok [OF assms(1,2)])
qed

lemma MaybeAutoRotate_ok:
  "ciphers_correct ci \<Longrightarrow> fresh_ok fr \<Longrightarrow> kms_ok ci s \<Longrightarrow> kms_ok ci (snd (MaybeAutoRotate ci fr now s keyID))"
  by (simp add: MaybeAutoRotate_def RotateKeyMaterial_ok split: sum.split)

lemma rotation_settings_ok:
  "kms_ok ci s \<Longrightarrow> kms_ok ci (snd (SetLastRotationDate s keyID t))"
  "kms_ok ci s \<Longrightarrow> kms_ok ci (snd (SetRotationPeriodDays s keyID days))"
  by (simp_all add: SetLastRotationDate_def SetRotationPeriodDays_def update_key_ok row_ok_update)

lemma generateKeyMaterial_cases:
  assumes "generateKeyMaterial fr u sp = Inr (usage, spec, material)"
  shows "usage = ''ENCRYPT_DECRYPT'' \<and> spec = ''SYMMETRIC_DEFAULT'' \<and> material = fr_cmk fr \<or>
         usage = ''SIGN_VERIFY'' \<and> spec = ''RSA_2048'' \<and> material = fr_pkcs8 fr"
  using assms unfolding generateKeyMaterial_def Let_def kms_names by (simp split: if_splits)

text \<open>A key that is created, and the row stored for it.\<close>

lemma createKeyTx_cases:
  assumes "createKeyTx ci fr now s p = (out, s')"
  obtains (failed) e where "out = Inl e" "s' = s"
  | (created) row k where "out = Inr k" "k_KeyID row = fr_id fr" "fr_id fr \<notin> key_ids s" "s' = s\<lparr>kms_keys := kms_keys s @ [row]\<rparr>"
      "k_KeyID k = fr_id fr" "k_KeyPolicy k = k_KeyPolicy row"
      "k_KeyPolicy row = (if TrimSpace (ck_PolicyOverride p) = [] then DefaultKeyPolicy (ck_AccountID p) (ck_CreatorARN p)
                          else TrimSpace (ck_PolicyOverride p))"
      "ciphers_correct ci \<Longrightarrow> fresh_ok fr \<Longrightarrow> row_ok ci row"
proof (cases "generateKeyMaterial fr (ck_KeyUsage p) (ck_KeySpec p)")
  case (Inl e)
  then show ?thesis using assms by (intro failed [of e]) (simp_all add: createKeyTx_def)
next
  case (Inr m)
  obtain usage spec material where m: "m = (usage, spec, material)" by (cases m) auto
  note gen = generateKeyMaterial_cases [OF Inr [unfolded m]]
  show ?thesis
  proof (cases "fr_id fr \<in> key_ids s")
    case True
    then show ?thesis using assms Inr m
      by (intro failed [of KmsConstraint]) (simp_all add: createKeyTx_def Let_def sql_insert_def key_ids_def Key.extend_def kms_row.fields_def)
  next
    case False
    define k where "k = \<lparr>k_KeyID = fr_id fr, k_AccountID = ck_AccountID p, k_ARN = KeyARN DefaultKMSRegion (ck_AccountID p) (fr_id fr),
        k_KeyState = KeyStateEnabled, k_KeyUsage = usage, k_KeySpec = spec,
        k_KeyPolicy = (if TrimSpace (ck_PolicyOverride p) = [] then DefaultKeyPolicy (ck_AccountID p) (ck_CreatorARN p)
                       else TrimSpace (ck_PolicyOverride p)),
        k_CreationDate = format_RFC3339 now, k_DeletionDate = [], k_PendingWindowInDays = 0,
        k_KeyRotationEnabled = False, k_LastRotationDate = [], k_RotationPeriodDays = 0\<rparr>"
    define row where "row = Key.extend (k\<lparr>k_RotationPeriodDays := DefaultLabRotationPeriodDays\<rparr>)
        (kms_row.fields (Seal ci (fr_nonce fr) material))"
    have row: "k_KeyID row = fr_id fr" "k_KeyPolicy row = k_KeyPolicy k" "k_KeyState row = ''Enabled''" "k_DeletionDate row = []"
        "k_KeyUsage row = usage" "k_KeySpec row = spec" "k_sealed row = Seal ci (fr_nonce fr) material"
        "k_ARN row = KeyARN DefaultKMSRegion (k_AccountID row) (k_KeyID row)"
      by (simp_all add: row_def k_def Key.extend_def kms_row.fields_def KeyStateEnabled_def)
    have "createKeyTx ci fr now s p = (Inr k, s\<lparr>kms_keys := kms_keys s @ [row]\<rparr>)"
      using Inr m False
      by (simp add: createKeyTx_def Let_def k_def row_def sql_insert_def key_ids_def Key.extend_def kms_row.fields_def)
    moreover have "row_ok ci row" if "ciphers_correct ci" "fresh_ok fr"
      using that gen row Seal_material [OF that] Unseal_Seal [OF that(1)] by (auto simp: row_ok_def fresh_ok_def)
    ultimately show ?thesis using assms created [of k row] row False by (simp add: k_def)
  qed
qed

lemma add_key_ok:
  "kms_ok ci s \<Longrightarrow> row_ok ci row \<Longrightarrow> k_KeyID row \<notin> key_ids s \<Longrightarrow> kms_ok ci (s\<lparr>kms_keys := kms_keys s @ [row]\<rparr>)"
  by (auto simp: kms_ok_def key_ids_def)

lemma createKeyTx_ok:
  assumes "ciphers_correct ci" "fresh_ok fr" "kms_ok ci s"
  shows "kms_ok ci (snd (createKeyTx ci fr now s p))"
proof -
  obtain out s' where c: "createKeyTx ci fr now s p = (out, s')" by (cases "createKeyTx ci fr now s p") auto
  show ?thesis using c
  proof (cases rule: createKeyTx_cases)
    case (created row k)
    then show ?thesis using add_key_ok [OF assms(3), of row] assms(1,2) c by simp
  qed (simp add: c assms(3))
qed

lemma alias_rows_ok:
  assumes "kms_ok ci s" "distinct (map alias_key rows)" "\<forall>a\<in>set rows. al_TargetKeyID a \<in> key_ids s"
  shows "kms_ok ci (s\<lparr>kms_aliases := rows\<rparr>)"
  using assms by (simp add: kms_ok_def key_ids_def)

lemma CreateAlias_ok: "kms_ok ci s \<Longrightarrow> kms_ok ci (snd (CreateAlias now s account name target))"
proof -
  assume s: "kms_ok ci s"
  show ?thesis unfolding CreateAlias_def Let_def
  proof (simp add: s, intro impI with_key_ok [OF s])
    fix k s' assume s': "kms_ok ci s'" "getKeyRaw s' target = Inr k"
    show "kms_ok ci (snd (case sql_insert alias_key \<lparr>al_AliasName = normalizeAliasName name, al_AccountID = account, al_TargetKeyID = target\<rparr>
        (kms_aliases s') of None \<Rightarrow> (Inl KmsConstraint, s') | Some rows \<Rightarrow> (Inr (), s'\<lparr>kms_aliases := rows\<rparr>)))"
      using s' getKeyRaw_in [OF s'(2)] by (auto simp: sql_insert_def kms_ok_def key_ids_def)
  qed
qed

lemma UpdateAlias_ok: "kms_ok ci s \<Longrightarrow> kms_ok ci (snd (UpdateAlias now s account name target))"
  unfolding UpdateAlias_def
proof (erule with_key_ok)
  fix k s' assume s': "kms_ok ci s'" "getKeyRaw s' target = Inr k"
  let ?P = "\<lambda>a. alias_key a = (account, normalizeAliasName name)" and ?f = "\<lambda>a. a\<lparr>al_TargetKeyID := target\<rparr>"
  have "kms_ok ci (s'\<lparr>kms_aliases := rows\<rparr>)" if "sql_update ?P ?f (kms_aliases s') = Some rows" for rows
  proof (rule alias_rows_ok [OF s'(1)])
    show "distinct (map alias_key rows)"
      using sql_update_distinct [OF that, of alias_key] s'(1) by (simp add: kms_ok_def alias_key_def)
    show "\<forall>a\<in>set rows. al_TargetKeyID a \<in> key_ids s'"
      using that s'(1) getKeyRaw_in [OF s'(2)] by (auto simp: sql_update_def kms_ok_def split: if_splits)
  qed
  then show "kms_ok ci (snd (case sql_update ?P ?f (kms_aliases s') of None \<Rightarrow> (Inl KmsNoRows, s') | Some rows \<Rightarrow> (Inr (), s'\<lparr>kms_aliases := rows\<rparr>)))"
    using s'(1) by (simp split: option.split)
qed

lemma DeleteAlias_ok: "kms_ok ci s \<Longrightarrow> kms_ok ci (snd (DeleteAlias s account name))"
  by (auto simp: DeleteAlias_def sql_delete_def kms_ok_def key_ids_def distinct_map_filter)

lemma seed_alias_ok:
  assumes "distinct (map alias_key rows)" "\<forall>a\<in>set rows. al_TargetKeyID a \<in> K" "keyID \<in> K"
  shows "distinct (map alias_key (seed_alias account keyID name rows)) \<and> (\<forall>a\<in>set (seed_alias account keyID name rows). al_TargetKeyID a \<in> K)"
proof
  show "distinct (map alias_key (seed_alias account keyID name rows))"
    unfolding seed_alias_def using assms(1) by (intro sql_upsert_distinct) (simp_all add: alias_key_def)
  show "\<forall>a\<in>set (seed_alias account keyID name rows). al_TargetKeyID a \<in> K"
    using assms(2,3) by (auto simp: seed_alias_def sql_upsert_def)
qed

lemma seed_aliases_ok:
  assumes "distinct (map alias_key rows)" "\<forall>a\<in>set rows. al_TargetKeyID a \<in> K" "keyID \<in> K"
  shows "distinct (map alias_key (fold (seed_alias account keyID) names rows)) \<and>
         (\<forall>a\<in>set (fold (seed_alias account keyID) names rows). al_TargetKeyID a \<in> K)"
  using assms
proof (induction names arbitrary: rows)
  case (Cons n names)
  show ?case using Cons.IH [of "seed_alias account keyID n rows"] seed_alias_ok [OF Cons.prems, of account n] Cons.prems(3) by simp
qed simp

lemma first_opened_Some: "first_opened f xs = Some p \<Longrightarrow> \<exists>x\<in>set xs. f x = Some p"
  by (induction xs) (auto split: option.splits)

lemma alias_target_in: "kms_ok ci s \<Longrightarrow> lookupAliasTarget (kms_aliases s) account name = Some keyID \<Longrightarrow> keyID \<in> key_ids s"
  by (auto simp: lookupAliasTarget_def kms_ok_def dest: find_Some_iff')

lemma existing_alias_in: "kms_ok ci s \<Longrightarrow> existing_alias_target s account \<noteq> [] \<Longrightarrow> existing_alias_target s account \<in> key_ids s"
  by (auto simp: existing_alias_target_def null_text_def split: option.splits dest!: first_opened_Some intro: alias_target_in)

lemma Ensure_cases:
  obtains (failed) e where "EnsureAWSManagedConvenienceAliases ci fr now s account = (Inl e, s)"
  | (existing) "existing_alias_target s account \<noteq> []"
      "EnsureAWSManagedConvenienceAliases ci fr now s account =
        (Inr (existing_alias_target s account),
         s\<lparr>kms_aliases := fold (seed_alias account (existing_alias_target s account)) awsManagedConvenienceAliases (kms_aliases s)\<rparr>)"
  | (created) p k s' where "createKeyTx ci fr now s p = (Inr k, s')"
      "EnsureAWSManagedConvenienceAliases ci fr now s account =
        (Inr (k_KeyID k), s'\<lparr>kms_aliases := fold (seed_alias account (k_KeyID k)) awsManagedConvenienceAliases (kms_aliases s')\<rparr>)"
proof (cases "TrimSpace account = []")
  case True
  then show ?thesis by (intro failed) (simp add: EnsureAWSManagedConvenienceAliases_def)
next
  case acct: False
  show ?thesis
  proof (cases "existing_alias_target s account = []")
    case False
    then show ?thesis using acct by (intro existing) (simp_all add: EnsureAWSManagedConvenienceAliases_def Let_def)
  next
    case True
    let ?p = "\<lparr>ck_AccountID = account, ck_CreatorARN = ''arn:aws:iam::'' @ account @ '':root'', ck_PolicyOverride = [],
        ck_KeyUsage = [], ck_KeySpec = []\<rparr>"
    obtain out s' where c: "createKeyTx ci fr now s ?p = (out, s')" by (cases "createKeyTx ci fr now s ?p") auto
    show ?thesis
    proof (cases out)
      case (Inl e)
      then show ?thesis using acct True c by (intro failed [of e]) (simp add: EnsureAWSManagedConvenienceAliases_def Let_def)
    next
      case (Inr k)
      then show ?thesis using acct True c
        by (intro created [of ?p k s']) (simp_all add: EnsureAWSManagedConvenienceAliases_def Let_def)
    qed
  qed
qed

lemma Ensure_ok:
  assumes "ciphers_correct ci" "fresh_ok fr" "kms_ok ci s"
  shows "kms_ok ci (snd (EnsureAWSManagedConvenienceAliases ci fr now s account))"
proof (cases rule: Ensure_cases [of ci fr now s account])
  case existing
  have "kms_ok ci (s\<lparr>kms_aliases := fold (seed_alias account (existing_alias_target s account)) awsManagedConvenienceAliases (kms_aliases s)\<rparr>)"
    using assms(3) seed_aliases_ok [of "kms_aliases s" "key_ids s", OF _ _ existing_alias_in [OF assms(3) existing(1)]]
    by (intro alias_rows_ok) (simp_all add: kms_ok_def)
  then show ?thesis by (simp add: existing)
next
  case (created p k s')
  have s': "kms_ok ci s'" using createKeyTx_ok [OF assms, of now p] created(1) by simp
  have "k_KeyID k \<in> key_ids s'"
    by (rule createKeyTx_cases [OF created(1)]) (auto simp: key_ids_def)
  then have "kms_ok ci (s'\<lparr>kms_aliases := fold (seed_alias account (k_KeyID k)) awsManagedConvenienceAliases (kms_aliases s')\<rparr>)"
    using s' seed_aliases_ok [of "kms_aliases s'" "key_ids s'" "k_KeyID k"] by (intro alias_rows_ok) (simp_all add: kms_ok_def)
  then show ?thesis by (simp add: created)
qed (simp add: assms(3))

lemma resolveAlias_ok:
  assumes "ciphers_correct ci" "fresh_ok fr" "kms_ok ci s"
  shows "kms_ok ci (snd (resolveAlias ci fr now s account name))"
  using assms(3) Ensure_ok [OF assms, of now account]
  by (auto simp: resolveAlias_def Let_def split: option.split prod.split sum.split)

lemma ResolveKeyID_ok:
  assumes "ciphers_correct ci" "fresh_ok fr" "kms_ok ci s"
  shows "kms_ok ci (snd (ResolveKeyID ci fr now s account t))"
  using assms(3) resolveAlias_ok [OF assms] unfolding ResolveKeyID_def Let_def
  by (auto intro!: with_key_ok)

lemma CreateGrant_ok:
  "kms_ok ci s \<Longrightarrow> kms_ok ci (snd (CreateGrantWithConstraints fr now s account keyID grantee retiring ops name c))"
  unfolding CreateGrantWithConstraints_def
proof (erule with_key_ok)
  fix k s' assume s': "kms_ok ci s'" "getKeyRaw s' keyID = Inr k"
  have "kms_ok ci (s'\<lparr>kms_grants := rows\<rparr>)" if "sql_insert kg_GrantID row (kms_grants s') = Some rows" "kg_KeyID row = keyID" for row rows
    using that s'(1) getKeyRaw_in [OF s'(2)] by (auto simp: sql_insert_def kms_ok_def key_ids_def split: if_splits)
  then show "kms_ok ci (snd (if ops = [] \<or> TrimSpace grantee = [] then (Inl KmsInvalid, s')
       else (let g = \<lparr>kg_GrantID = fr_id fr, kg_KeyID = keyID, kg_AccountID = account, kg_GranteePrincipal = grantee,
                      kg_RetiringPrincipal = retiring, kg_Operations = ops, kg_Name = name, kg_Constraints = c\<rparr>;
                 row = g\<lparr>kg_RetiringPrincipal := (if TrimSpace retiring = [] then [] else retiring),
                         kg_Name := (if TrimSpace name = [] then [] else name)\<rparr>
             in case sql_insert kg_GrantID row (kms_grants s') of
                  None \<Rightarrow> (Inl KmsConstraint, s')
                | Some rows \<Rightarrow> (Inr g, s'\<lparr>kms_grants := rows\<rparr>))))"
    using s'(1) by (simp add: Let_def split: option.split)
qed

lemma deleteGrant_ok: "kms_ok ci s \<Longrightarrow> kms_ok ci (snd (deleteGrant s P))"
  by (auto simp: deleteGrant_def sql_delete_def kms_ok_def key_ids_def distinct_map_filter)

lemma kms_step_ok:
  assumes "ciphers_correct ci" "kms_ok ci s" "kms_step ci s l s'"
  shows "kms_ok ci s'"
proof -
  obtain now c where c: "pred_option fresh_ok (drawn_by c)" "s' = kms_after ci now s c"
    using assms(3) by (auto elim: kms_stepE)
  have "kms_ok ci (kms_after ci now s c)" using c(1)
  proof (cases c)
    case (Read_Key keyID)
    then show ?thesis using assms(2) by (simp add: GetKey_swept kms_ok_swept)
  next
    case (List_Keys account)
    then show ?thesis using kms_ok_swept [OF assms(2)] by (simp add: ListKeys_def Sweep_swept [OF kms_ok_distinct [OF assms(2)]])
  qed (simp_all add: assms CreateKeyWithParams_def createKeyTx_ok SetKeyState_ok ScheduleKeyDeletion_ok CancelKeyDeletion_ok
      SetPendingDeletionDate_ok PutKeyPolicy_ok RotateKeyMaterial_ok SetKeyRotationEnabled_ok MaybeAutoRotate_ok
      rotation_settings_ok CreateAlias_ok UpdateAlias_ok DeleteAlias_ok Ensure_ok ResolveKeyID_ok CreateGrant_ok
      RetireGrant_def RevokeGrant_def RevokeGrantOnKey_def deleteGrant_ok Let_def split: option.split)
  then show ?thesis by (simp add: c(2))
qed

lemma kms_init_ok: "kms_init s \<Longrightarrow> kms_ok ci s"
  by (simp add: kms_init_def kms_ok_def)

interpretation key_store: invariant_system kms_init "kms_step ci" "\<lambda>s. ciphers_correct ci \<longrightarrow> kms_ok ci s" for ci
  by unfold_locales (auto intro: kms_init_ok kms_step_ok)

lemma reachable_kms_ok: "ciphers_correct ci \<Longrightarrow> reachable kms_init (kms_step ci) s \<Longrightarrow> kms_ok ci s"
  using key_store.reachable_inv by blast

end
