(* ===== verification/Kms_Run.thy ===== *)
theory Kms_Run
  imports Kms_Props
begin

text \<open>
  What later calls leave of a key: its material stays readable, and a deletion that is pending stays so until it
  is cancelled or due.
\<close>

section \<open>What one call key_left of a key\<close>

definition sealed_of :: "kms \<Rightarrow> string \<Rightarrow> string set" where
  "sealed_of s keyID = k_sealed ` {r \<in> set (kms_keys s). k_KeyID r = keyID} \<union> km_sealed ` {m \<in> set (kms_materials s). km_key m = keyID}"

definition pending_on :: "string \<Rightarrow> string \<Rightarrow> kms \<Rightarrow> bool" where
  "pending_on keyID date s \<longleftrightarrow>
     (\<forall>r\<in>set (kms_keys s). k_KeyID r = keyID \<longrightarrow> k_KeyState r = ''PendingDeletion'' \<and> k_DeletionDate r = date)"

text \<open>\<open>b\<close> says that the call does not touch the deletion date of the key.\<close>

definition key_left :: "bool \<Rightarrow> instant \<Rightarrow> string \<Rightarrow> kms \<Rightarrow> kms \<Rightarrow> bool" where
  "key_left b now keyID s s' \<longleftrightarrow>
     (keyID \<in> key_ids s' \<longrightarrow> keyID \<in> key_ids s \<and> sealed_of s keyID \<subseteq> sealed_of s' keyID) \<and>
     (b \<longrightarrow> (\<forall>d. pending_on keyID d s \<longrightarrow>
        pending_on keyID d s' \<and> (keyID \<in> key_ids s \<and> format_RFC3339 now < d \<longrightarrow> keyID \<in> key_ids s')))"

lemma leaves_refl: "key_left b now keyID s s"
  by (simp add: key_left_def)

lemma leaves_trans: "key_left b now keyID s t \<Longrightarrow> key_left b now keyID t u \<Longrightarrow> key_left b now keyID s u"
  unfolding key_left_def by blast

lemma leaves_swept: "key_left b now keyID s (swept now s)"
proof -
  have "sealed_of s keyID \<subseteq> sealed_of (swept now s) keyID" if "keyID \<in> key_ids (swept now s)"
    using that by (auto simp: sealed_of_def swept_def drop_keys_def key_ids_def)
  moreover have "keyID \<in> key_ids (swept now s)" if "pending_on keyID d s" "keyID \<in> key_ids s" "format_RFC3339 now < d" for d
  proof -
    have "keyID \<notin> due_keys now s" using that by (auto simp: due_keys_def deletion_due_def pending_on_def)
    then show ?thesis using that(2) by (simp add: swept_def key_ids_drop)
  qed
  ultimately show ?thesis
    by (auto simp: key_left_def key_ids_drop swept_def pending_on_def) (auto simp: drop_keys_def)
qed

lemma leaves_same: "kms_keys s' = kms_keys s \<Longrightarrow> kms_materials s' = kms_materials s \<Longrightarrow> key_left b now keyID s s'"
  by (simp add: key_left_def key_ids_def sealed_of_def pending_on_def)

lemma leaves_update:
  assumes "\<And>r. k_KeyID (f r) = k_KeyID r" "\<And>r. k_sealed (f r) = k_sealed r"
    and "\<And>r. b \<Longrightarrow> x = keyID \<Longrightarrow> r \<in> set (kms_keys s) \<Longrightarrow> k_KeyID r = keyID \<Longrightarrow> k_KeyState r = ''PendingDeletion'' \<Longrightarrow>
      k_KeyState (f r) = ''PendingDeletion'' \<and> k_DeletionDate (f r) = k_DeletionDate r"
  shows "key_left b now keyID s (snd (update_key x f s))"
proof -
  have ids: "key_ids (snd (update_key x f s)) = key_ids s"
    using key_ids_update [where f = f and s = s and keyID = x, OF assms(1)] by (simp add: snd_update_rows)
  have "k_sealed r \<in> k_sealed ` {r \<in> set (update_rows x f (kms_keys s)). k_KeyID r = keyID}"
    if "r \<in> set (kms_keys s)" "k_KeyID r = keyID" for r
    using that assms(1,2) by (intro image_eqI [of _ _ "if k_KeyID r = x then f r else r"]) (auto simp: update_rows_def)
  then have "sealed_of s keyID \<subseteq> sealed_of (snd (update_key x f s)) keyID"
    unfolding snd_update_rows sealed_of_def by auto
  moreover have "pending_on keyID d (snd (update_key x f s))" if "pending_on keyID d s" "b" for d
    using that assms(1,3) unfolding snd_update_rows pending_on_def update_rows_def by (auto split: if_splits)
  ultimately show ?thesis by (auto simp: key_left_def ids)
qed

lemma leaves_rotated:
  assumes "r \<in> set (kms_keys s)" "k_KeyID r = x" "kms_ok ci s"
  shows "key_left b now keyID s (rotated ci fr t x (k_sealed r) s)"
proof -
  let ?f = "\<lambda>r. r\<lparr>k_sealed := Seal ci (fr_nonce fr) (fr_cmk fr), k_LastRotationDate := format_RFC3339 t\<rparr>"
  let ?m = "\<lparr>km_key = x, km_generation = next_generation s x, km_sealed = k_sealed r, km_created = format_RFC3339 t\<rparr>"
  let ?s' = "rotated ci fr t x (k_sealed r) s"
  have s': "kms_keys ?s' = update_rows x ?f (kms_keys s)" "kms_materials ?s' = kms_materials s @ [?m]"
    by (simp_all add: rotated_def snd_update_rows)
  have ids: "key_ids ?s' = key_ids s" using update_rows_id_set [of ?f x "kms_keys s"] by (simp add: key_ids_def s')
  have row: "q = r" if "q \<in> set (kms_keys s)" "k_KeyID q = x" for q
    using that assms by (auto simp: kms_ok_def distinct_map inj_on_def)
  have "sealed_of s keyID \<subseteq> sealed_of ?s' keyID"
  proof (cases "keyID = x")
    case True
    have "sealed_of s x \<subseteq> insert (k_sealed r) (km_sealed ` {m \<in> set (kms_materials s). km_key m = x})"
      using row by (auto simp: sealed_of_def)
    also have "\<dots> \<subseteq> km_sealed ` {m \<in> set (kms_materials ?s'). km_key m = x}"
    proof (rule insert_subsetI)
      show "k_sealed r \<in> km_sealed ` {m \<in> set (kms_materials ?s'). km_key m = x}"
        unfolding s' by (rule image_eqI [of _ _ ?m]) simp_all
    qed (use s' in auto)
    finally show ?thesis using True by (auto simp: sealed_of_def)
  next
    case False
    then have "{q \<in> set (kms_keys s). k_KeyID q = keyID} \<subseteq> {q \<in> set (update_rows x ?f (kms_keys s)). k_KeyID q = keyID}"
      by (force simp: update_rows_def)
    then show ?thesis unfolding sealed_of_def s' by auto
  qed
  moreover have "pending_on keyID d ?s'" if "pending_on keyID d s" for d
    using that unfolding pending_on_def s' update_rows_def by (auto split: if_splits)
  ultimately show ?thesis by (auto simp: key_left_def ids)
qed

lemma leaves_added:
  "k_KeyID row \<noteq> keyID \<Longrightarrow> key_left b now keyID s (s\<lparr>kms_keys := kms_keys s @ [row]\<rparr>)"
  by (auto simp: key_left_def key_ids_def sealed_of_def pending_on_def)

lemma with_key_leaves:
  assumes "kms_ok ci s"
    and "\<And>k s'. kms_ok ci s' \<Longrightarrow> getKeyRaw s' x = Inr k \<Longrightarrow> key_left b now keyID s' (snd (f k s'))"
  shows "key_left b now keyID s (snd (with_key now s x f))"
  using kms_ok_swept [OF assms(1), of now] assms
  by (auto simp: with_key_swept split: sum.split intro: leaves_swept leaves_trans [OF leaves_swept])

section \<open>Every call\<close>

text \<open>The calls that set, or take away, the deletion date of a key.\<close>

fun sets_date :: "string \<Rightarrow> kms_call \<Rightarrow> bool" where
  "sets_date keyID (Cancel_Deletion x) = (x = keyID)"
| "sets_date keyID (Set_Deletion_Date x t) = (x = keyID)"
| "sets_date keyID _ = False"

lemma SetKeyState_leaves: "kms_ok ci s \<Longrightarrow> key_left b now keyID s (snd (SetKeyState now s x st))"
proof -
  assume s: "kms_ok ci s"
  have "key_left b now keyID s (snd (with_key now s x (\<lambda>k s'. if k_KeyState k = KeyStatePendingDeletion then (Inl ErrInvalidKeyState, s')
      else update_key x (\<lambda>r. r\<lparr>k_KeyState := st\<rparr>) s')))"
    using s
  proof (rule with_key_leaves)
    fix k s' assume s': "kms_ok ci s'" "getKeyRaw s' x = Inr k"
    show "key_left b now keyID s' (snd (if k_KeyState k = KeyStatePendingDeletion then (Inl ErrInvalidKeyState, s')
        else update_key x (\<lambda>r. r\<lparr>k_KeyState := st\<rparr>) s'))"
      using key_fields(1) [OF s'] by (auto simp: leaves_refl kms_names intro!: leaves_update)
  qed
  then show ?thesis by (auto simp: SetKeyState_def leaves_refl)
qed

lemma ScheduleKeyDeletion_leaves: "kms_ok ci s \<Longrightarrow> key_left b now keyID s (snd (ScheduleKeyDeletion now s x w))"
proof -
  assume s: "kms_ok ci s"
  have step: "snd (case update_key x f s' of (Inl e, t) \<Rightarrow> (Inl e, t) | (Inr _, t) \<Rightarrow> (Inr k, t)) = snd (update_key x f s')"
    for f :: "kms_row \<Rightarrow> kms_row" and s' and k :: Key
    by (simp split: prod.split sum.split)
  have "key_left b now keyID s' (snd (update_key x (\<lambda>r. r\<lparr>k_KeyState := KeyStatePendingDeletion, k_DeletionDate := t\<rparr>) s'))"
    if "kms_ok ci s'" "getKeyRaw s' x = Inr k" "k_KeyState k = KeyStateEnabled \<or> k_KeyState k = KeyStateDisabled" for s' k t
    by (rule leaves_update) (use key_fields(1) [OF that(1,2)] that(3) in \<open>auto simp: kms_names\<close>)
  then show ?thesis unfolding ScheduleKeyDeletion_def using s
    by (intro with_key_leaves [OF s]) (simp add: Let_def step leaves_refl)
qed

lemma CancelKeyDeletion_leaves:
  "kms_ok ci s \<Longrightarrow> (b \<Longrightarrow> x \<noteq> keyID) \<Longrightarrow> key_left b now keyID s (snd (CancelKeyDeletion now s x))"
  unfolding CancelKeyDeletion_def by (erule with_key_leaves) (auto simp: leaves_refl intro!: leaves_update)

lemma SetPendingDeletionDate_leaves:
  "kms_ok ci s \<Longrightarrow> (b \<Longrightarrow> x \<noteq> keyID) \<Longrightarrow> key_left b now keyID s (snd (SetPendingDeletionDate now s x t))"
  unfolding SetPendingDeletionDate_def by (erule with_key_leaves) (auto simp: leaves_refl intro!: leaves_update)

lemma PutKeyPolicy_leaves: "key_left b now keyID s (snd (PutKeyPolicy s x p))"
  unfolding PutKeyPolicy_def by (simp add: leaves_refl leaves_update)

lemma RotateKeyMaterial_leaves: "kms_ok ci s \<Longrightarrow> key_left b now keyID s (snd (RotateKeyMaterial ci fr now s x))"
proof -
  assume s: "kms_ok ci s"
  then show ?thesis
  proof (cases rule: RotateKeyMaterial_cases [where fr = fr and now = now and keyID = x])
    case (rotated r)
    then show ?thesis using leaves_trans [OF leaves_swept leaves_rotated [OF rotated(1,2) kms_ok_swept [OF s]]] by simp
  qed (simp add: leaves_swept)
qed

lemma SetKeyRotationEnabled_leaves:
  assumes "kms_ok ci s"
  shows "key_left b now keyID s (snd (SetKeyRotationEnabled ci fr now s x c))"
proof -
  have ok: "kms_ok ci (snd (update_key x (\<lambda>r. r\<lparr>k_KeyRotationEnabled := d\<rparr>) s'))" if "kms_ok ci s'" for s' d
    by (rule update_key_ok [OF that]) (simp_all add: row_ok_update)
  have step: "key_left b now keyID s' (snd (update_key x (\<lambda>r. r\<lparr>k_KeyRotationEnabled := d\<rparr>) s'))" for s' d
    by (rule leaves_update) simp_all
  show ?thesis unfolding SetKeyRotationEnabled_def using assms
    by (rule with_key_leaves)
      (auto simp: Let_def leaves_refl step intro: leaves_trans [OF step RotateKeyMaterial_leaves [OF ok]])
qed

lemma MaybeAutoRotate_leaves: "kms_ok ci s \<Longrightarrow> key_left b now keyID s (snd (MaybeAutoRotate ci fr now s x))"
  by (simp add: MaybeAutoRotate_def leaves_refl RotateKeyMaterial_leaves split: sum.split)

lemma rotation_settings_leave:
  "key_left b now keyID s (snd (SetLastRotationDate s x t))" "key_left b now keyID s (snd (SetRotationPeriodDays s x days))"
  by (simp_all add: SetLastRotationDate_def SetRotationPeriodDays_def leaves_update)

lemma createKeyTx_leaves: "fr_id fr \<noteq> keyID \<Longrightarrow> key_left b now keyID s (snd (createKeyTx ci fr t s p))"
proof -
  assume new: "fr_id fr \<noteq> keyID"
  obtain out s' where c: "createKeyTx ci fr t s p = (out, s')" by (cases "createKeyTx ci fr t s p") auto
  show ?thesis using c by (cases rule: createKeyTx_cases) (use new c in \<open>simp_all add: leaves_refl leaves_added\<close>)
qed

lemma alias_calls_leave:
  "kms_ok ci s \<Longrightarrow> key_left b now keyID s (snd (CreateAlias now s account name target))"
  "kms_ok ci s \<Longrightarrow> key_left b now keyID s (snd (UpdateAlias now s account name target))"
  "key_left b now keyID s (snd (DeleteAlias s account name))"
proof -
  assume s: "kms_ok ci s"
  show "key_left b now keyID s (snd (CreateAlias now s account name target))"
    unfolding CreateAlias_def Let_def using s
    by (auto simp: leaves_refl leaves_same split: option.split intro!: with_key_leaves)
  show "key_left b now keyID s (snd (UpdateAlias now s account name target))"
    unfolding UpdateAlias_def using s by (rule with_key_leaves) (simp add: leaves_refl leaves_same split: option.split)
next
  show "key_left b now keyID s (snd (DeleteAlias s account name))"
    by (simp add: DeleteAlias_def leaves_refl leaves_same split: option.split)
qed

lemma Ensure_leaves:
  assumes "fr_id fr \<noteq> keyID"
  shows "key_left b now keyID s (snd (EnsureAWSManagedConvenienceAliases ci fr t s account))"
proof (cases rule: Ensure_cases [of ci fr t s account])
  case (created p k s')
  have "key_left b now keyID s s'" using createKeyTx_leaves [OF assms, of b now s ci t p] created(1) by simp
  then have "key_left b now keyID s (s'\<lparr>kms_aliases := rows\<rparr>)" for rows
    by (rule leaves_trans) (simp add: leaves_same)
  then show ?thesis by (simp add: created)
qed (simp_all add: leaves_refl leaves_same)

lemma resolveAlias_leaves:
  "fr_id fr \<noteq> keyID \<Longrightarrow> key_left b now keyID s (snd (resolveAlias ci fr t s account name))"
  using Ensure_leaves [of fr keyID b now s ci t account]
  by (auto simp: resolveAlias_def Let_def leaves_refl split: option.split prod.split sum.split)

lemma ResolveKeyID_leaves:
  "kms_ok ci s \<Longrightarrow> fr_id fr \<noteq> keyID \<Longrightarrow> key_left b now keyID s (snd (ResolveKeyID ci fr now s account t))"
  unfolding ResolveKeyID_def Let_def
  by (auto simp: leaves_refl resolveAlias_leaves intro!: with_key_leaves)

lemma grant_calls_leave:
  "kms_ok ci s \<Longrightarrow> key_left b now keyID s (snd (CreateGrantWithConstraints fr now s account x grantee retiring ops name c))"
  "key_left b now keyID s (snd (deleteGrant s P))"
proof -
  assume s: "kms_ok ci s"
  show "key_left b now keyID s (snd (CreateGrantWithConstraints fr now s account x grantee retiring ops name c))"
    unfolding CreateGrantWithConstraints_def Let_def using s
    by (rule with_key_leaves) (simp add: leaves_refl leaves_same split: option.split)
next
  show "key_left b now keyID s (snd (deleteGrant s P))"
    by (simp add: deleteGrant_def leaves_refl leaves_same split: option.split)
qed

lemma kms_call_leaves:
  assumes "kms_ok ci s" "\<And>fr. drawn_by c = Some fr \<Longrightarrow> fr_id fr \<noteq> keyID"
  shows "key_left (\<not> sets_date keyID c) now keyID s (kms_after ci now s c)"
proof (cases c)
  case (Read_Key x)
  then show ?thesis using assms(1) by (simp add: GetKey_swept leaves_swept)
next
  case (List_Keys account)
  then show ?thesis by (simp add: ListKeys_def Sweep_swept [OF kms_ok_distinct [OF assms(1)]] leaves_swept)
qed (use assms in \<open>simp_all add: CreateKeyWithParams_def createKeyTx_leaves SetKeyState_leaves ScheduleKeyDeletion_leaves
      CancelKeyDeletion_leaves SetPendingDeletionDate_leaves PutKeyPolicy_leaves RotateKeyMaterial_leaves SetKeyRotationEnabled_leaves
      MaybeAutoRotate_leaves rotation_settings_leave alias_calls_leave Ensure_leaves ResolveKeyID_leaves grant_calls_leave
      RetireGrant_def RevokeGrant_def RevokeGrantOnKey_def leaves_refl Let_def split: option.split\<close>)

section \<open>Sequences of calls\<close>

definition spares :: "string \<Rightarrow> instant \<times> kms_call \<Rightarrow> bool" where
  "spares keyID l \<longleftrightarrow> (case drawn_by (snd l) of None \<Rightarrow> True | Some fr \<Rightarrow> fr_id fr \<noteq> keyID)"

lemma kms_step_leaves:
  "kms_ok ci s \<Longrightarrow> kms_step ci s (now, c) s' \<Longrightarrow> spares keyID (now, c) \<Longrightarrow> key_left (\<not> sets_date keyID c) now keyID s s'"
  by (auto elim!: kms_stepE simp: spares_def intro!: kms_call_leaves)

lemma run_sealed:
  assumes "ciphers_correct ci" "run (kms_step ci) s calls s'" "kms_ok ci s" "list_all (spares keyID) calls" "keyID \<in> key_ids s'"
  shows "keyID \<in> key_ids s \<and> sealed_of s keyID \<subseteq> sealed_of s' keyID"
  using assms(2-)
proof (induction rule: run.induct)
  case (run_Cons s l s' ls s'')
  obtain now c where l: "l = (now, c)" by (cases l)
  have "kms_ok ci s'" using kms_step_ok [OF assms(1) run_Cons.prems(1) run_Cons.hyps(1)] .
  then have "keyID \<in> key_ids s' \<and> sealed_of s' keyID \<subseteq> sealed_of s'' keyID" using run_Cons by simp
  moreover have "key_left (\<not> sets_date keyID c) now keyID s s'"
    using run_Cons l by (intro kms_step_leaves [OF run_Cons.prems(1)]) simp_all
  ultimately show ?case unfolding key_left_def by blast
qed simp

lemma run_pending:
  assumes "ciphers_correct ci" "run (kms_step ci) s calls s'" "kms_ok ci s" "list_all (spares keyID) calls"
    and "list_all (\<lambda>l. \<not> sets_date keyID (snd l)) calls" "pending_on keyID d s"
  shows "pending_on keyID d s' \<and> (keyID \<in> key_ids s \<and> list_all (\<lambda>l. format_RFC3339 (fst l) < d) calls \<longrightarrow> keyID \<in> key_ids s')"
  using assms(2-)
proof (induction rule: run.induct)
  case (run_Cons s l s' ls s'')
  obtain now c where l: "l = (now, c)" by (cases l)
  have "kms_ok ci s'" using kms_step_ok [OF assms(1) run_Cons.prems(1) run_Cons.hyps(1)] .
  moreover have "key_left True now keyID s s'"
    using kms_step_leaves [OF run_Cons.prems(1), of now c s' keyID] run_Cons.hyps(1) run_Cons.prems(2,3) l by simp
  ultimately show ?case using run_Cons l unfolding key_left_def by auto
qed simp

section \<open>Reading what was sealed\<close>

lemma those_all: "\<forall>x\<in>set xs. f x \<noteq> None \<Longrightarrow> those (map f xs) = Some (map (\<lambda>x. the (f x)) xs)"
  by (induction xs) auto

lemma first_opened_only:
  assumes "m \<in> set ms" "f m = Some p" "\<And>m'. m' \<in> set ms \<Longrightarrow> m' \<noteq> m \<Longrightarrow> f m' = None"
  shows "first_opened f ms = Some p"
  using assms
proof (induction ms)
  case (Cons a ms)
  then show ?case by (cases "a = m") (auto split: option.split)
qed simp

lemma UnsealAllKeyMaterials_all:
  assumes "kms_ok ci s" "keyID \<in> key_ids s"
  obtains ms where "UnsealAllKeyMaterials ci s keyID = Inr ms" "set ms = (\<lambda>sealed. the (Unseal ci sealed)) ` sealed_of s keyID"
proof -
  obtain r where r: "r \<in> set (kms_keys s)" "k_KeyID r = keyID" using assms(2) by (auto simp: key_ids_def)
  have f: "List.find (\<lambda>r. k_KeyID r = keyID) (kms_keys s) = Some r"
    using find_key [of k_KeyID "kms_keys s" r] assms(1) r by (simp add: kms_ok_def)
  have one: "{r \<in> set (kms_keys s). k_KeyID r = keyID} = {r}"
    using assms(1) r by (auto simp: kms_ok_def distinct_map inj_on_def)
  have u: "Unseal ci (k_sealed r) \<noteq> None"
    using assms(1) r(1) by (auto simp: kms_ok_def row_ok_def material_ok_def)
  let ?older = "rev (sort_key km_generation (filter (\<lambda>m. km_key m = keyID) (kms_materials s)))"
  have "\<forall>m\<in>set ?older. Unseal ci (km_sealed m) \<noteq> None"
    using assms(1) by (auto simp: kms_ok_def material_ok_def)
  then have "UnsealAllKeyMaterials ci s keyID = Inr (the (Unseal ci (k_sealed r)) # map (\<lambda>m. the (Unseal ci (km_sealed m))) ?older)"
    using u f those_all [of ?older "\<lambda>m. Unseal ci (km_sealed m)"] by (auto simp: UnsealAllKeyMaterials_def UnsealKeyMaterial_def)
  then show ?thesis by (rule that) (auto simp: sealed_of_def one)
qed

lemma UnsealKeyMaterial_sealed:
  "UnsealKeyMaterial ci s keyID = Inr cmk \<Longrightarrow> \<exists>sealed\<in>sealed_of s keyID. Unseal ci sealed = Some cmk"
  by (auto simp: UnsealKeyMaterial_def sealed_of_def split: option.splits dest!: find_Some_iff')

end
