(* ===== verification/Go_Base64.thy ===== *)
theory Go_Base64
  imports Go_Json
begin

text \<open>
  What the code uses of Go's \<open>encoding/base64\<close>: \<open>StdEncoding\<close>, with padding. Decoding skips carriage returns and
  line feeds, wants whole groups of four characters, and does not look at the bits of the last group that no byte
  takes.
\<close>

definition b64_char :: "nat \<Rightarrow> char" where
  "b64_char n =
     (if n < 26 then char_byte (65 + n) else if n < 52 then char_byte (71 + n)
      else if n < 62 then char_byte (n - 4) else if n = 62 then CHR ''+'' else CHR ''/'')"

definition b64_val :: "char \<Rightarrow> nat option" where
  "b64_val c =
     (let b = byte_of c
      in if 65 \<le> b \<and> b < 91 then Some (b - 65) else if 97 \<le> b \<and> b < 123 then Some (b - 71)
         else if 48 \<le> b \<and> b < 58 then Some (b + 4) else if c = CHR ''+'' then Some 62
         else if c = CHR ''/'' then Some 63 else None)"

fun EncodeToString :: "string \<Rightarrow> string" where
  "EncodeToString [] = []"
| "EncodeToString [a] =
     (let x = byte_of a in [b64_char (x div 4), b64_char (x mod 4 * 16), CHR ''='', CHR ''=''])"
| "EncodeToString [a, b] =
     (let x = byte_of a; y = byte_of b
      in [b64_char (x div 4), b64_char (x mod 4 * 16 + y div 16), b64_char (y mod 16 * 4), CHR ''=''])"
| "EncodeToString (a # b # c # s) =
     (let x = byte_of a; y = byte_of b; z = byte_of c
      in [b64_char (x div 4), b64_char (x mod 4 * 16 + y div 16), b64_char (y mod 16 * 4 + z div 64), b64_char (z mod 64)]
         @ EncodeToString s)"

fun decode_groups :: "string \<Rightarrow> string option" where
  "decode_groups [] = Some []"
| "decode_groups (a # b # c # d # s) =
     do { x \<leftarrow> b64_val a;
          y \<leftarrow> b64_val b;
          if c = CHR ''='' then (if d = CHR ''='' \<and> s = [] then Some [char_byte (x * 4 + y div 16)] else None)
          else do {
            z \<leftarrow> b64_val c;
            if d = CHR ''='' then
              (if s = [] then Some [char_byte (x * 4 + y div 16), char_byte (y mod 16 * 16 + z div 4)] else None)
            else do {
              w \<leftarrow> b64_val d;
              r \<leftarrow> decode_groups s;
              Some (char_byte (x * 4 + y div 16) # char_byte (y mod 16 * 16 + z div 4) # char_byte (z mod 4 * 64 + w) # r) } } }"
| "decode_groups s = None"

definition DecodeString :: "string \<Rightarrow> string option" where
  "DecodeString s = decode_groups (filter (\<lambda>c. c \<noteq> CHR 0x0D \<and> c \<noteq> CHR 0x0A) s)"

section \<open>What is encoded is decoded\<close>

lemma char_byte_inverse: "n < 256 \<Longrightarrow> byte_of (char_byte n) = n"
  by (simp add: byte_of_def char_byte_def)

lemma char_byte_of: "n = byte_of c \<Longrightarrow> char_byte n = c"
  by (simp add: byte_of_def char_byte_def)

lemma byte_lt: "byte_of c < 256"
  by (simp add: byte_of_def)

lemma special_bytes:
  "byte_of CHR ''='' = 61" "byte_of CHR ''+'' = 43" "byte_of CHR ''/'' = 47" "byte_of CHR 0x0D = 13" "byte_of CHR 0x0A = 10"
  by (simp_all add: byte_of_def)

lemma b64_char_byte:
  assumes "n < 64"
  shows "byte_of (b64_char n) =
    (if n < 26 then 65 + n else if n < 52 then 71 + n else if n < 62 then n - 4 else if n = 62 then 43 else 47)"
  using assms by (simp add: b64_char_def char_byte_inverse special_bytes)

lemma b64_val_char:
  assumes "n < 64"
  shows "b64_val (b64_char n) = Some n" "b64_char n \<noteq> CHR ''=''" "b64_char n \<noteq> CHR 0x0D" "b64_char n \<noteq> CHR 0x0A"
proof -
  note b = b64_char_byte [OF assms]
  have "b64_char n = CHR ''+'' \<longleftrightarrow> n = 62"
    using b special_bytes assms by (auto simp: b64_char_def split: if_splits)
  moreover have "b64_char n = CHR ''/'' \<longleftrightarrow> n = 63"
    using b special_bytes assms by (auto simp: b64_char_def split: if_splits)
  moreover have "n < 62 \<or> n = 62 \<or> n = 63" using assms by arith
  ultimately show "b64_val (b64_char n) = Some n" using b by (auto simp: b64_val_def Let_def)
  show "b64_char n \<noteq> CHR ''=''" "b64_char n \<noteq> CHR 0x0D" "b64_char n \<noteq> CHR 0x0A"
    using b special_bytes assms by (auto split: if_splits)
qed

lemma sextets:
  "(y::nat) < 256 \<Longrightarrow> (x mod 4 * 16 + y div 16) div 16 = x mod 4"
  "(y::nat) < 256 \<Longrightarrow> (x mod 4 * 16 + y div 16) mod 16 = y div 16"
  "(z::nat) < 256 \<Longrightarrow> (y mod 16 * 4 + z div 64) div 4 = y mod 16"
  "(z::nat) < 256 \<Longrightarrow> (y mod 16 * 4 + z div 64) mod 4 = z div 64"
proof -
  show "(x mod 4 * 16 + y div 16) div 16 = x mod 4" "(x mod 4 * 16 + y div 16) mod 16 = y div 16" if "(y::nat) < 256"
    using less_mult_imp_div_less [of y 16 16] that by simp_all
  show "(y mod 16 * 4 + z div 64) div 4 = y mod 16" "(y mod 16 * 4 + z div 64) mod 4 = z div 64" if "(z::nat) < 256"
    using less_mult_imp_div_less [of z 4 64] that by simp_all
qed

lemma sextets_less:
  "(y::nat) < 256 \<Longrightarrow> x mod 4 * 16 + y div 16 < 64" "(z::nat) < 256 \<Longrightarrow> y mod 16 * 4 + z div 64 < 64"
  "x mod 4 * 16 < 64" "y mod 16 * 4 < 64"
proof -
  have x: "x mod 4 < 4" and y: "y mod 16 < 16" by simp_all
  show "x mod 4 * 16 + y div 16 < 64" if "y < 256" using less_mult_imp_div_less [of y 16 16] that x by simp
  show "y mod 16 * 4 + z div 64 < 64" if "z < 256" using less_mult_imp_div_less [of z 4 64] that y by simp
  show "x mod 4 * 16 < 64" "y mod 16 * 4 < 64" using x y by simp_all
qed

lemma first_sextet: "byte_of a div 4 < 64"
  using byte_lt [of a] by simp

lemma high_bits: "byte_of b div 16 < 16" "byte_of b div 64 < 4"
  using byte_lt [of b] by simp_all

lemma decode_groups_encode: "decode_groups (EncodeToString s) = Some s"
proof (induction s rule: EncodeToString.induct)
  case (2 a)
  show ?case by (simp add: Let_def b64_val_char char_byte_of sextets sextets_less byte_lt first_sextet)
next
  case (3 a b)
  show ?case by (simp add: Let_def b64_val_char char_byte_of sextets sextets_less byte_lt first_sextet high_bits)
next
  case (4 a b c s)
  show ?case using 4 by (simp add: Let_def b64_val_char char_byte_of sextets sextets_less byte_lt first_sextet high_bits)
qed simp

lemma encoded_chars: "list_all (\<lambda>c. c \<noteq> CHR 0x0D \<and> c \<noteq> CHR 0x0A) (EncodeToString s)"
proof (induction s rule: EncodeToString.induct)
  case (2 a)
  show ?case by (simp add: Let_def b64_val_char sextets_less byte_lt first_sextet)
next
  case (3 a b)
  show ?case by (simp add: Let_def b64_val_char sextets_less byte_lt first_sextet)
next
  case (4 a b c s)
  show ?case using 4 by (simp add: Let_def b64_val_char sextets_less byte_lt first_sextet)
qed simp

lemma DecodeString_EncodeToString: "DecodeString (EncodeToString s) = Some s"
proof -
  have "filter (\<lambda>c. c \<noteq> CHR 0x0D \<and> c \<noteq> CHR 0x0A) (EncodeToString s) = EncodeToString s"
    using encoded_chars [of s] by (simp add: filter_id_conv list_all_iff)
  then show ?thesis by (simp add: DecodeString_def decode_groups_encode)
qed

end
