(* ===== verification/Kms_Server.thy ===== *)
theory Kms_Server
  imports Kms Server_Auth Go_Base64 Go_Hash Sqs
begin

text \<open>
  The API of the key store, \<open>internal/server/kms_handlers.go\<close> with \<open>services/kms/asymmetric.go\<close> and the request
  parameters of \<open>services/kms/json.go\<close>: each call resolves the key it names, looks for a grant, asks
  \<open>authorizeDataplaneKMS\<close>, and acts. A reply is what the response is built from; \<open>None\<close> is a decision that never
  returns (see \<open>Glob\<close>). \<open>rnd\<close> is what the draws of one call give, by number.
\<close>

record kms_server =
  ks_server :: server
  ks_kms :: kms

datatype kms_code =
    ValidationException
  | NotFoundException
  | AccessDeniedException
  | KMSInvalidStateException
  | DisabledException
  | InvalidKeyUsageException
  | InvalidCiphertextException
  | IncorrectKeyException
  | UnsupportedOperationException
  | MalformedPolicyDocumentException
  | AlreadyExistsException
  | InternalFailure
  | NotImplemented

datatype kms_reply =
    KeyMetadata Key
  | KeyList "Key list"
  | EmptyOK
  | Scheduled Key
  | Cancelled string
  | RotationStatus bool
  | PolicyText string
  | Encrypted string string
  | Decrypted string string
  | DataKey string string string bool
  | ReEncrypted string string string
  | GrantCreated Grant
  | GrantList "Grant list"
  | AliasList "Alias list"
  | TagList "ResourceTag list"
  | Signed string string string
  | Verified_Signature string bool string
  | PublicKey string string string string

type_synonym 'a kms_out = "(kms_code, 'a) result \<times> kms_server"

section \<open>Request parameters\<close>

type_synonym params = "(string \<times> json) list"

definition jsonBodyMap :: "string \<Rightarrow> params" where
  "jsonBodyMap body = (case json_parse body of Some (JObj kvs) \<Rightarrow> last_wins kvs | _ \<Rightarrow> [])"

definition str_param :: "params \<Rightarrow> string \<Rightarrow> string" where
  "str_param ps k = (case map_of ps k of Some (JStr s) \<Rightarrow> s | _ \<Rightarrow> [])"

definition stringSliceParam :: "json option \<Rightarrow> string list" where
  "stringSliceParam v =
     (case v of Some (JArr vs) \<Rightarrow> concat (map (\<lambda>j. case j of JStr s \<Rightarrow> [s] | _ \<Rightarrow> []) vs) | _ \<Rightarrow> [])"

definition intParam :: "json option \<Rightarrow> int \<Rightarrow> int" where
  "intParam v def =
     (case v of
        Some (JNum t) \<Rightarrow> (case ParseFloat t of Some (Finite q) \<Rightarrow> float_to_int q | _ \<Rightarrow> def)
      | Some (JStr s) \<Rightarrow> (case Atoi (TrimSpace s) of Some n \<Rightarrow> n | None \<Rightarrow> def)
      | _ \<Rightarrow> def)"

definition DecodeBinaryField :: "json option \<Rightarrow> string option" where
  "DecodeBinaryField v = (case v of Some (JStr s) \<Rightarrow> DecodeString s | _ \<Rightarrow> None)"

text \<open>The members of an object whose values must be strings; \<open>P\<close> is what a key must be.\<close>

definition string_members :: "(string \<Rightarrow> bool) \<Rightarrow> (string \<times> json) list \<Rightarrow> enc_context option" where
  "string_members P kvs =
     those (map (\<lambda>(k, v). case v of JStr s \<Rightarrow> if P k then Some (k, s) else None | _ \<Rightarrow> None) (last_wins kvs))"

definition ParseEncryptionContext :: "json option \<Rightarrow> enc_context option" where
  "ParseEncryptionContext v =
     (case v of
        None \<Rightarrow> Some []
      | Some JNull \<Rightarrow> Some []
      | Some (JObj kvs) \<Rightarrow> string_members (\<lambda>k. k \<noteq> []) kvs
      | Some _ \<Rightarrow> None)"

definition grantConstraintStringMap :: "json option \<Rightarrow> enc_context option" where
  "grantConstraintStringMap v =
     (case v of None \<Rightarrow> Some [] | Some JNull \<Rightarrow> Some [] | Some (JObj kvs) \<Rightarrow> string_members (\<lambda>_. True) kvs | Some _ \<Rightarrow> None)"

definition parseKMSGrantConstraints :: "json option \<Rightarrow> GrantConstraints option" where
  "parseKMSGrantConstraints v =
     (case v of
        None \<Rightarrow> Some \<lparr>gc_Equals = [], gc_Subset = []\<rparr>
      | Some JNull \<Rightarrow> Some \<lparr>gc_Equals = [], gc_Subset = []\<rparr>
      | Some (JObj kvs) \<Rightarrow>
          if \<not> list_all (\<lambda>(k, _). k = ''EncryptionContextEquals'' \<or> k = ''EncryptionContextSubset'') kvs then None
          else do { eq \<leftarrow> grantConstraintStringMap (map_of (last_wins kvs) ''EncryptionContextEquals'');
                    sub \<leftarrow> grantConstraintStringMap (map_of (last_wins kvs) ''EncryptionContextSubset'');
                    Some \<lparr>gc_Equals = eq, gc_Subset = sub\<rparr> }
      | Some _ \<Rightarrow> None)"

definition tag_member :: "json \<Rightarrow> (string \<times> string) list" where
  "tag_member j =
     (case j of
        JObj kvs \<Rightarrow>
          (let k = TrimSpace (str_param (last_wins kvs) ''TagKey'')
           in if k = [] then [] else [(k, str_param (last_wins kvs) ''TagValue'')])
      | _ \<Rightarrow> [])"

definition parseKMSTags :: "json option \<Rightarrow> (string \<times> string) list" where
  "parseKMSTags v = (case v of Some (JArr vs) \<Rightarrow> last_wins (concat (map tag_member vs)) | _ \<Rightarrow> [])"

definition parseKMSTagKeys :: "json option \<Rightarrow> string list" where
  "parseKMSTagKeys v = filter (\<lambda>k. k \<noteq> []) (map TrimSpace (stringSliceParam v))"

definition kms_op :: "string \<Rightarrow> string" where
  "kms_op action = TrimPrefix action ''kms:''"

definition normalizeKMSAction :: "string \<Rightarrow> string" where
  "normalizeKMSAction action = (if Contains action '':'' then action else ''kms:'' @ action)"

section \<open>Signatures\<close>

definition SigningAlgorithmPSSSHA256 :: string where "SigningAlgorithmPSSSHA256 = ''RSASSA_PSS_SHA_256''"
definition SigningAlgorithmPKCS1SHA256 :: string where "SigningAlgorithmPKCS1SHA256 = ''RSASSA_PKCS1_V1_5_SHA_256''"

definition NormalizeSigningAlgorithm :: "string \<Rightarrow> string option" where
  "NormalizeSigningAlgorithm raw =
     (let alg = TrimSpace raw
      in if alg = [] then Some SigningAlgorithmPSSSHA256
         else if alg = SigningAlgorithmPSSSHA256 \<or> alg = SigningAlgorithmPKCS1SHA256 then Some alg else None)"

definition NormalizeMessageType :: "string \<Rightarrow> string option" where
  "NormalizeMessageType raw =
     (let mt = TrimSpace raw
      in if mt = [] then Some ''RAW'' else if mt = ''RAW'' \<or> mt = ''DIGEST'' then Some mt else None)"

definition digestForSign :: "string \<Rightarrow> string \<Rightarrow> string option" where
  "digestForSign message messageType =
     (if messageType = ''RAW'' then Some (sha256 message)
      else if messageType = ''DIGEST'' then (if length message \<noteq> 32 then None else Some message)
      else None)"

text \<open>The left side is a message type or digest that is refused, \<open>None\<close> on the right a failure of RSA.\<close>

definition SignRSA :: "'c ciphers_scheme \<Rightarrow> string \<Rightarrow> string \<Rightarrow> string \<Rightarrow> string \<Rightarrow> string \<Rightarrow> (unit, string option) result" where
  "SignRSA ci salt priv message alg messageType =
     (case Option.bind (NormalizeMessageType messageType) (digestForSign message) of
        None \<Rightarrow> Inl ()
      | Some hashed \<Rightarrow> Inr (ci_rsa_sign ci priv salt alg hashed))"

definition VerifyRSA :: "'c ciphers_scheme \<Rightarrow> string \<Rightarrow> string \<Rightarrow> string \<Rightarrow> string \<Rightarrow> string \<Rightarrow> (unit, bool) result" where
  "VerifyRSA ci priv message sig alg messageType =
     (case Option.bind (NormalizeMessageType messageType) (digestForSign message) of
        None \<Rightarrow> Inl ()
      | Some hashed \<Rightarrow> Inr (ci_rsa_verify ci priv alg hashed sig))"

section \<open>The key of a call\<close>

text \<open>Whether the call needs a key, and its id.\<close>

definition resolve_key ::
  "'c ciphers_scheme \<Rightarrow> fresh \<Rightarrow> instant \<Rightarrow> kms \<Rightarrow> string \<Rightarrow> string \<Rightarrow> (kms_code, bool \<times> string) result \<times> kms"
where
  "resolve_key ci fr now s account param =
     (case ResolveKeyID ci fr now s account param of
        (Inl _, s') \<Rightarrow> (Inl NotFoundException, s')
      | (Inr keyID, s') \<Rightarrow> (Inr (True, keyID), s'))"

definition kms_target ::
  "'c ciphers_scheme \<Rightarrow> fresh \<Rightarrow> instant \<Rightarrow> kms \<Rightarrow> string \<Rightarrow> string \<Rightarrow> params \<Rightarrow> (kms_code, bool \<times> string) result \<times> kms"
where
  "kms_target ci fr now s account op ps =
     (let keyParam = str_param ps ''KeyId''
      in if op = ''CreateKey'' \<or> op = ''ListKeys'' \<or> op = ''ListAliases'' \<or> op = ''DeleteAlias'' \<or> op = ''UpdateAlias''
         then (Inr (False, []), s)
         else if op = ''CreateAlias'' then
           (let target = (if str_param ps ''TargetKeyId'' = [] then keyParam else str_param ps ''TargetKeyId'')
            in if target = [] then (Inl ValidationException, s) else resolve_key ci fr now s account target)
         else if op = ''Decrypt'' \<and> keyParam = [] then
           (case DecodeBinaryField (map_of ps ''CiphertextBlob'') of
              None \<Rightarrow> (Inl ValidationException, s)
            | Some blob \<Rightarrow>
                (case KeyIDFromCiphertext blob of
                   None \<Rightarrow> (Inl ValidationException, s)
                 | Some embedded \<Rightarrow> resolve_key ci fr now s account embedded))
         else if op = ''RetireGrant'' then
           (if keyParam = [] then (Inr (False, []), s)
            else (case ResolveKeyID ci fr now s account keyParam of
                    (Inl _, s') \<Rightarrow> (Inr (False, []), s')
                  | (Inr keyID, s') \<Rightarrow> (Inr (True, keyID), s')))
         else if keyParam = [] then (Inl ValidationException, s)
         else resolve_key ci fr now s account keyParam)"

section \<open>The actions\<close>

definition reply_with :: "(kms_error \<Rightarrow> kms_code) \<Rightarrow> ('a \<Rightarrow> kms_reply) \<Rightarrow> kms_server \<Rightarrow> 'a kres \<Rightarrow> kms_reply kms_out" where
  "reply_with code reply v r =
     (case r of
        (Inl e, s) \<Rightarrow> (Inl (code e), v\<lparr>ks_kms := s\<rparr>)
      | (Inr a, s) \<Rightarrow> (Inr (reply a), v\<lparr>ks_kms := s\<rparr>))"

definition state_code :: "kms_error \<Rightarrow> kms_code" where
  "state_code e = (if e = ErrInvalidKeyState then KMSInvalidStateException else NotFoundException)"

definition rotation_code :: "kms_error \<Rightarrow> kms_code" where
  "rotation_code e =
     (if e = ErrUnsupportedKeyRotation then UnsupportedOperationException else state_code e)"

definition crypto_state_code :: "string \<Rightarrow> kms_code" where
  "crypto_state_code st = (if st = KeyStatePendingDeletion then KMSInvalidStateException else DisabledException)"

definition with_tags :: "kms_server \<Rightarrow> tag_row list \<Rightarrow> kms_server" where
  "with_tags v tags = v\<lparr>ks_server := (ks_server v)\<lparr>sv_tags := tags\<rparr>\<rparr>"

definition kms_create_key ::
  "'c ciphers_scheme \<Rightarrow> (nat \<Rightarrow> fresh) \<Rightarrow> instant \<Rightarrow> kms_server \<Rightarrow> Verified \<Rightarrow> params \<Rightarrow> kms_reply kms_out"
where
  "kms_create_key ci rnd now v vf ps =
     (let spec = (if str_param ps ''KeySpec'' = [] then str_param ps ''CustomerMasterKeySpec'' else str_param ps ''KeySpec'')
      in case CreateKeyWithParams ci (rnd 1) now (ks_kms v)
                \<lparr>ck_AccountID = vf_AccountID vf, ck_CreatorARN = ARN (vf_Principal vf),
                 ck_PolicyOverride = str_param ps ''Policy'', ck_KeyUsage = str_param ps ''KeyUsage'', ck_KeySpec = spec\<rparr> of
           (Inl e, s) \<Rightarrow>
             (Inl (if e = ErrUnsupportedKeySpec \<or> e = KmsUnsupportedUsage then ValidationException else InternalFailure),
              v\<lparr>ks_kms := s\<rparr>)
         | (Inr k, s) \<Rightarrow>
             (let v' = v\<lparr>ks_kms := s\<rparr>; tags = parseKMSTags (map_of ps ''Tags'')
              in if tags = [] then (Inr (KeyMetadata k), v')
                 else (case TagResources (sv_tags (ks_server v')) (vf_AccountID vf) [k_ARN k] tags of
                         None \<Rightarrow> (Inl InternalFailure, v')
                       | Some (rows, _) \<Rightarrow> (Inr (KeyMetadata k), with_tags v' rows))))"

text \<open>What \<open>Encrypt\<close> and \<open>GenerateDataKey\<close> share: the material may be rotated first, and what is read after it seals.\<close>

definition kms_seal ::
  "'c ciphers_scheme \<Rightarrow> (nat \<Rightarrow> fresh) \<Rightarrow> instant \<Rightarrow> kms_server \<Rightarrow> string \<Rightarrow> string option \<Rightarrow> enc_context \<Rightarrow> (string \<Rightarrow> string \<Rightarrow> kms_reply) \<Rightarrow>
   kms_reply kms_out"
where
  "kms_seal ci rnd now v keyID plaintext ctx reply =
     (case MaybeAutoRotate ci (rnd 1) now (ks_kms v) keyID of
        (Inl _, s) \<Rightarrow> (Inl InternalFailure, v\<lparr>ks_kms := s\<rparr>)
      | (Inr _, s) \<Rightarrow>
          (let v' = v\<lparr>ks_kms := s\<rparr>
           in case plaintext of
                None \<Rightarrow> (Inl ValidationException, v')
              | Some plain \<Rightarrow>
                  (case UnsealKeyMaterial ci s keyID of
                     Inl _ \<Rightarrow> (Inl InternalFailure, v')
                   | Inr cmk \<Rightarrow>
                       (case EncryptUnderCMK ci (fr_nonce (rnd 2)) cmk keyID plain ctx of
                          None \<Rightarrow> (Inl InternalFailure, v')
                        | Some ct \<Rightarrow> (Inr (reply plain ct), v')))))"

definition nonempty :: "string option \<Rightarrow> string option" where
  "nonempty x = (case x of Some [] \<Rightarrow> None | _ \<Rightarrow> x)"

definition kms_decrypt ::
  "'c ciphers_scheme \<Rightarrow> kms_server \<Rightarrow> Key \<Rightarrow> string \<Rightarrow> params \<Rightarrow> enc_context \<Rightarrow> kms_reply kms_out"
where
  "kms_decrypt ci v key keyID ps ctx =
     (case nonempty (DecodeBinaryField (map_of ps ''CiphertextBlob'')) of
        None \<Rightarrow> (Inl ValidationException, v)
      | Some blob \<Rightarrow>
          if \<not> KeyUsableForCrypto (k_KeyState key) then (Inl (crypto_state_code (k_KeyState key)), v)
          else if k_KeyUsage key \<noteq> KeyUsageEncryptDecrypt then (Inl InvalidKeyUsageException, v)
          else (case DecryptBlobWithKeyContext ci (ks_kms v) keyID blob ctx of
                  Inl _ \<Rightarrow> (Inl InvalidCiphertextException, v)
                | Inr plain \<Rightarrow> (Inr (Decrypted (k_ARN key) plain), v)))"

definition kms_encrypt ::
  "'c ciphers_scheme \<Rightarrow> (nat \<Rightarrow> fresh) \<Rightarrow> instant \<Rightarrow> kms_server \<Rightarrow> Key \<Rightarrow> string \<Rightarrow> params \<Rightarrow> enc_context \<Rightarrow> kms_reply kms_out"
where
  "kms_encrypt ci rnd now v key keyID ps ctx =
     (if \<not> KeyUsableForCrypto (k_KeyState key) then (Inl (crypto_state_code (k_KeyState key)), v)
      else if k_KeyUsage key \<noteq> KeyUsageEncryptDecrypt then (Inl InvalidKeyUsageException, v)
      else kms_seal ci rnd now v keyID (nonempty (DecodeBinaryField (map_of ps ''Plaintext''))) ctx
             (\<lambda>_ ct. Encrypted (k_ARN key) ct))"

definition kms_data_key ::
  "'c ciphers_scheme \<Rightarrow> (nat \<Rightarrow> fresh) \<Rightarrow> instant \<Rightarrow> kms_server \<Rightarrow> Key \<Rightarrow> string \<Rightarrow> bool \<Rightarrow> enc_context \<Rightarrow> kms_reply kms_out"
where
  "kms_data_key ci rnd now v key keyID includePlain ctx =
     (if \<not> KeyUsableForCrypto (k_KeyState key) then (Inl (crypto_state_code (k_KeyState key)), v)
      else if k_KeyUsage key \<noteq> KeyUsageEncryptDecrypt then (Inl InvalidKeyUsageException, v)
      else kms_seal ci rnd now v keyID (Some (fr_cmk (rnd 3))) ctx
             (\<lambda>dek ct. DataKey (k_ARN key) dek ct includePlain))"

definition kms_create_grant ::
  "(nat \<Rightarrow> fresh) \<Rightarrow> instant \<Rightarrow> kms_server \<Rightarrow> Verified \<Rightarrow> Key \<Rightarrow> string \<Rightarrow> params \<Rightarrow> kms_reply kms_out"
where
  "kms_create_grant rnd now v vf key keyID ps =
     (if \<not> KeyUsableForCrypto (k_KeyState key) then (Inl (crypto_state_code (k_KeyState key)), v)
      else (case parseKMSGrantConstraints (map_of ps ''Constraints'') of
              None \<Rightarrow> (Inl ValidationException, v)
            | Some constraints \<Rightarrow>
                reply_with (\<lambda>_. ValidationException) GrantCreated v
                  (CreateGrantWithConstraints (rnd 1) now (ks_kms v) (vf_AccountID vf) keyID (str_param ps ''GranteePrincipal'')
                     (str_param ps ''RetiringPrincipal'') (stringSliceParam (map_of ps ''Operations'')) (str_param ps ''Name'') constraints)))"

definition kms_retire_grant :: "kms_server \<Rightarrow> Verified \<Rightarrow> params \<Rightarrow> kms_reply kms_out" where
  "kms_retire_grant v vf ps =
     reply_with (\<lambda>e. if e = KmsNoRows then NotFoundException else AccessDeniedException) (\<lambda>_. EmptyOK) v
       (RetireGrant (ks_kms v) (str_param ps ''GrantId'') (ARN (vf_Principal vf)))"

definition kms_revoke_grant :: "kms_server \<Rightarrow> string \<Rightarrow> params \<Rightarrow> kms_reply kms_out" where
  "kms_revoke_grant v keyID ps =
     (let grantID = str_param ps ''GrantId''
      in if TrimSpace grantID = [] then (Inl ValidationException, v)
         else reply_with (\<lambda>_. NotFoundException) (\<lambda>_. EmptyOK) v (RevokeGrantOnKey (ks_kms v) keyID grantID))"

definition kms_create_alias :: "instant \<Rightarrow> kms_server \<Rightarrow> Verified \<Rightarrow> string \<Rightarrow> params \<Rightarrow> kms_reply kms_out" where
  "kms_create_alias now v vf keyID ps =
     (let aliasName = str_param ps ''AliasName''
      in if aliasName = [] then (Inl ValidationException, v)
         else reply_with (\<lambda>e. if e = KmsConstraint then AlreadyExistsException else ValidationException) (\<lambda>_. EmptyOK) v
                (CreateAlias now (ks_kms v) (vf_AccountID vf) aliasName keyID))"

definition kms_delete_alias :: "kms_server \<Rightarrow> Verified \<Rightarrow> params \<Rightarrow> kms_reply kms_out" where
  "kms_delete_alias v vf ps =
     (let aliasName = str_param ps ''AliasName''
      in if aliasName = [] then (Inl ValidationException, v)
         else reply_with (\<lambda>_. NotFoundException) (\<lambda>_. EmptyOK) v (DeleteAlias (ks_kms v) (vf_AccountID vf) aliasName))"

definition kms_update_alias ::
  "'c ciphers_scheme \<Rightarrow> (nat \<Rightarrow> fresh) \<Rightarrow> instant \<Rightarrow> kms_server \<Rightarrow> Verified \<Rightarrow> params \<Rightarrow> kms_reply kms_out"
where
  "kms_update_alias ci rnd now v vf ps =
     (let aliasName = str_param ps ''AliasName''; target = str_param ps ''TargetKeyId''
      in if aliasName = [] \<or> target = [] then (Inl ValidationException, v)
         else (case ResolveKeyID ci (rnd 1) now (ks_kms v) (vf_AccountID vf) target of
                 (Inl _, s) \<Rightarrow> (Inl NotFoundException, v\<lparr>ks_kms := s\<rparr>)
               | (Inr keyID, s) \<Rightarrow>
                   reply_with (\<lambda>_. NotFoundException) (\<lambda>_. EmptyOK) (v\<lparr>ks_kms := s\<rparr>)
                     (UpdateAlias now s (vf_AccountID vf) aliasName keyID)))"

definition kms_tag :: "kms_server \<Rightarrow> Verified \<Rightarrow> Key \<Rightarrow> params \<Rightarrow> kms_reply kms_out" where
  "kms_tag v vf key ps =
     (let tags = parseKMSTags (map_of ps ''Tags'')
      in if tags = [] then (Inl ValidationException, v)
         else (case TagResources (sv_tags (ks_server v)) (vf_AccountID vf) [k_ARN key] tags of
                 None \<Rightarrow> (Inl InternalFailure, v)
               | Some (rows, _) \<Rightarrow> (Inr EmptyOK, with_tags v rows)))"

definition kms_untag :: "kms_server \<Rightarrow> Verified \<Rightarrow> Key \<Rightarrow> params \<Rightarrow> kms_reply kms_out" where
  "kms_untag v vf key ps =
     (let keys = parseKMSTagKeys (map_of ps ''TagKeys'')
      in if keys = [] then (Inl ValidationException, v)
         else (Inr EmptyOK, with_tags v (fst (UntagResources (sv_tags (ks_server v)) (vf_AccountID vf) [k_ARN key] keys))))"

definition kms_put_policy :: "kms_server \<Rightarrow> string \<Rightarrow> params \<Rightarrow> kms_reply kms_out" where
  "kms_put_policy v keyID ps =
     (let policy = str_param ps ''Policy''
      in case ValidateResourcePolicyDocument policy of
           Inl _ \<Rightarrow> (Inl MalformedPolicyDocumentException, v)
         | Inr _ \<Rightarrow> reply_with (\<lambda>_. ValidationException) (\<lambda>_. EmptyOK) v (PutKeyPolicy (ks_kms v) keyID policy))"

definition kms_sign ::
  "'c ciphers_scheme \<Rightarrow> (nat \<Rightarrow> fresh) \<Rightarrow> instant \<Rightarrow> kms_server \<Rightarrow> Key \<Rightarrow> string \<Rightarrow> params \<Rightarrow> kms_reply kms_out"
where
  "kms_sign ci rnd now v key keyID ps =
     (if \<not> KeyUsableForCrypto (k_KeyState key) then (Inl (crypto_state_code (k_KeyState key)), v)
      else if \<not> IsAsymmetricSignVerify key then (Inl InvalidKeyUsageException, v)
      else (case (nonempty (DecodeBinaryField (map_of ps ''Message'')), NormalizeSigningAlgorithm (str_param ps ''SigningAlgorithm'')) of
              (Some msg, Some alg) \<Rightarrow>
                (case UnsealRSAPrivateKey ci now (ks_kms v) keyID of
                   (Inl _, s) \<Rightarrow> (Inl InternalFailure, v\<lparr>ks_kms := s\<rparr>)
                 | (Inr priv, s) \<Rightarrow>
                     (case SignRSA ci (fr_nonce (rnd 1)) priv msg alg (str_param ps ''MessageType'') of
                        Inl _ \<Rightarrow> (Inl ValidationException, v\<lparr>ks_kms := s\<rparr>)
                      | Inr None \<Rightarrow> (Inl InternalFailure, v\<lparr>ks_kms := s\<rparr>)
                      | Inr (Some sig) \<Rightarrow> (Inr (Signed (k_ARN key) sig alg), v\<lparr>ks_kms := s\<rparr>)))
            | _ \<Rightarrow> (Inl ValidationException, v)))"

definition kms_verify ::
  "'c ciphers_scheme \<Rightarrow> instant \<Rightarrow> kms_server \<Rightarrow> Key \<Rightarrow> string \<Rightarrow> params \<Rightarrow> kms_reply kms_out"
where
  "kms_verify ci now v key keyID ps =
     (if \<not> KeyUsableForCrypto (k_KeyState key) then (Inl (crypto_state_code (k_KeyState key)), v)
      else if \<not> IsAsymmetricSignVerify key then (Inl InvalidKeyUsageException, v)
      else (case (nonempty (DecodeBinaryField (map_of ps ''Message'')), nonempty (DecodeBinaryField (map_of ps ''Signature'')),
                  NormalizeSigningAlgorithm (str_param ps ''SigningAlgorithm'')) of
              (Some msg, Some sig, Some alg) \<Rightarrow>
                (case UnsealRSAPrivateKey ci now (ks_kms v) keyID of
                   (Inl _, s) \<Rightarrow> (Inl InternalFailure, v\<lparr>ks_kms := s\<rparr>)
                 | (Inr priv, s) \<Rightarrow>
                     (case VerifyRSA ci priv msg sig alg (str_param ps ''MessageType'') of
                        Inl _ \<Rightarrow> (Inl ValidationException, v\<lparr>ks_kms := s\<rparr>)
                      | Inr valid \<Rightarrow> (Inr (Verified_Signature (k_ARN key) valid alg), v\<lparr>ks_kms := s\<rparr>)))
            | _ \<Rightarrow> (Inl ValidationException, v)))"

definition kms_public_key :: "'c ciphers_scheme \<Rightarrow> instant \<Rightarrow> kms_server \<Rightarrow> Key \<Rightarrow> string \<Rightarrow> kms_reply kms_out" where
  "kms_public_key ci now v key keyID =
     (if \<not> IsAsymmetricSignVerify key then (Inl UnsupportedOperationException, v)
      else if \<not> KeyUsableForCrypto (k_KeyState key) then (Inl (crypto_state_code (k_KeyState key)), v)
      else (case UnsealRSAPrivateKey ci now (ks_kms v) keyID of
              (Inl _, s) \<Rightarrow> (Inl InternalFailure, v\<lparr>ks_kms := s\<rparr>)
            | (Inr priv, s) \<Rightarrow>
                (Inr (PublicKey (k_ARN key) (ci_rsa_public ci priv) (k_KeySpec key) (k_KeyUsage key)), v\<lparr>ks_kms := s\<rparr>)))"

text \<open>The switch over the actions, after the decision. \<open>key\<close> is the row read before it.\<close>

definition kms_act ::
  "'c ciphers_scheme \<Rightarrow> (nat \<Rightarrow> fresh) \<Rightarrow> instant \<Rightarrow> kms_server \<Rightarrow> Verified \<Rightarrow> string \<Rightarrow> params \<Rightarrow> Key \<Rightarrow> string \<Rightarrow> enc_context \<Rightarrow>
   kms_reply kms_out"
where
  "kms_act ci rnd now v vf op ps key keyID ctx =
     (let s = ks_kms v; account = vf_AccountID vf
      in if op = ''CreateKey'' then kms_create_key ci rnd now v vf ps
         else if op = ''DescribeKey'' then (Inr (KeyMetadata key), v)
         else if op = ''ListKeys'' then reply_with (\<lambda>_. InternalFailure) KeyList v (ListKeys now s account)
         else if op = ''EnableKey'' then reply_with state_code (\<lambda>_. EmptyOK) v (SetKeyState now s keyID KeyStateEnabled)
         else if op = ''DisableKey'' then reply_with state_code (\<lambda>_. EmptyOK) v (SetKeyState now s keyID KeyStateDisabled)
         else if op = ''ScheduleKeyDeletion'' then
           reply_with state_code Scheduled v (ScheduleKeyDeletion now s keyID (intParam (map_of ps ''PendingWindowInDays'') 0))
         else if op = ''CancelKeyDeletion'' then
           reply_with state_code (\<lambda>_. Cancelled (k_ARN key)) v (CancelKeyDeletion now s keyID)
         else if op = ''EnableKeyRotation'' then
           reply_with rotation_code (\<lambda>_. EmptyOK) v (SetKeyRotationEnabled ci (rnd 1) now s keyID True)
         else if op = ''DisableKeyRotation'' then
           reply_with rotation_code (\<lambda>_. EmptyOK) v (SetKeyRotationEnabled ci (rnd 1) now s keyID False)
         else if op = ''GetKeyRotationStatus'' then
           reply_with (\<lambda>_. NotFoundException) RotationStatus v (GetKeyRotationEnabled now s keyID)
         else if op = ''GetKeyPolicy'' then
           (case GetKeyPolicy s keyID of Inl _ \<Rightarrow> (Inl NotFoundException, v) | Inr p \<Rightarrow> (Inr (PolicyText p), v))
         else if op = ''PutKeyPolicy'' then kms_put_policy v keyID ps
         else if op = ''Encrypt'' then kms_encrypt ci rnd now v key keyID ps ctx
         else if op = ''Decrypt'' then kms_decrypt ci v key keyID ps ctx
         else if op = ''GenerateDataKey'' then kms_data_key ci rnd now v key keyID True ctx
         else if op = ''GenerateDataKeyWithoutPlaintext'' then kms_data_key ci rnd now v key keyID False ctx
         else if op = ''CreateGrant'' then kms_create_grant rnd now v vf key keyID ps
         else if op = ''ListGrants'' then (Inr (GrantList (ListGrants s keyID)), v)
         else if op = ''RetireGrant'' then kms_retire_grant v vf ps
         else if op = ''RevokeGrant'' then kms_revoke_grant v keyID ps
         else if op = ''CreateAlias'' then kms_create_alias now v vf keyID ps
         else if op = ''ListAliases'' then (Inr (AliasList (ListAliases s account)), v)
         else if op = ''DeleteAlias'' then kms_delete_alias v vf ps
         else if op = ''UpdateAlias'' then kms_update_alias ci rnd now v vf ps
         else if op = ''ListResourceTags'' then (Inr (TagList (ListResourceTags (sv_tags (ks_server v)) account (k_ARN key))), v)
         else if op = ''TagResource'' then kms_tag v vf key ps
         else if op = ''UntagResource'' then kms_untag v vf key ps
         else if op = ''Sign'' then kms_sign ci rnd now v key keyID ps
         else if op = ''Verify'' then kms_verify ci now v key keyID ps
         else if op = ''GetPublicKey'' then kms_public_key ci now v key keyID
         else (Inl NotImplemented, v))"

section \<open>ReEncrypt\<close>

text \<open>
  The key of the source: the one named, which must be that of the ciphertext where it has one that
  resolves, or that of the ciphertext.
\<close>

definition reencrypt_source ::
  "'c ciphers_scheme \<Rightarrow> (nat \<Rightarrow> fresh) \<Rightarrow> instant \<Rightarrow> kms \<Rightarrow> string \<Rightarrow> string \<Rightarrow> string \<Rightarrow> (kms_code, string) result \<times> kms"
where
  "reencrypt_source ci rnd now s account sourceParam blob =
     (if TrimSpace sourceParam \<noteq> [] then
        (case ResolveKeyID ci (rnd 0) now s account sourceParam of
           (Inl _, s') \<Rightarrow> (Inl NotFoundException, s')
         | (Inr source, s') \<Rightarrow>
             (case KeyIDFromCiphertext blob of
                None \<Rightarrow> (Inr source, s')
              | Some embedded \<Rightarrow>
                  (case ResolveKeyID ci (rnd 1) now s' account embedded of
                     (Inl _, s'') \<Rightarrow> (Inr source, s'')
                   | (Inr embeddedID, s'') \<Rightarrow>
                       if embeddedID \<noteq> source then (Inl IncorrectKeyException, s'') else (Inr source, s''))))
      else (case KeyIDFromCiphertext blob of
              None \<Rightarrow> (Inl ValidationException, s)
            | Some embedded \<Rightarrow>
                (case ResolveKeyID ci (rnd 0) now s account embedded of
                   (Inl _, s') \<Rightarrow> (Inl NotFoundException, s')
                 | (Inr source, s') \<Rightarrow> (Inr source, s'))))"

definition own_key :: "instant \<Rightarrow> kms \<Rightarrow> string \<Rightarrow> string \<Rightarrow> (kms_code, Key) result \<times> kms" where
  "own_key now s account keyID =
     (case GetKey now s keyID of
        (Inl _, s') \<Rightarrow> (Inl NotFoundException, s')
      | (Inr k, s') \<Rightarrow> if k_AccountID k \<noteq> account then (Inl NotFoundException, s') else (Inr k, s'))"

definition reencrypt_contexts :: "params \<Rightarrow> (enc_context \<times> enc_context) option" where
  "reencrypt_contexts ps =
     do { src0 \<leftarrow> ParseEncryptionContext (map_of ps ''SourceEncryptionContext'');
          src \<leftarrow> (if src0 = [] then ParseEncryptionContext (map_of ps ''EncryptionContext'') else Some src0);
          dest \<leftarrow> ParseEncryptionContext (map_of ps ''DestinationEncryptionContext'');
          Some (src, if dest = [] then src else dest) }"

definition reencrypt_act ::
  "'c ciphers_scheme \<Rightarrow> (nat \<Rightarrow> fresh) \<Rightarrow> instant \<Rightarrow> kms_server \<Rightarrow> Key \<Rightarrow> Key \<Rightarrow> string \<Rightarrow> enc_context \<times> enc_context \<Rightarrow> kms_reply kms_out"
where
  "reencrypt_act ci rnd now v sourceKey destKey blob ctxs =
     (if \<not> KeyUsableForCrypto (k_KeyState sourceKey) then (Inl (crypto_state_code (k_KeyState sourceKey)), v)
      else if \<not> KeyUsableForCrypto (k_KeyState destKey) then (Inl (crypto_state_code (k_KeyState destKey)), v)
      else (case DecryptBlobWithKeyContext ci (ks_kms v) (k_KeyID sourceKey) blob (fst ctxs) of
              Inl _ \<Rightarrow> (Inl InvalidCiphertextException, v)
            | Inr plain \<Rightarrow>
                kms_seal ci (\<lambda>i. rnd (i + 2)) now v (k_KeyID destKey) (Some plain) (snd ctxs)
                  (\<lambda>_ ct. ReEncrypted (k_ARN sourceKey) (k_ARN destKey) ct)))"

definition handleKMSReEncrypt ::
  "'c ciphers_scheme \<Rightarrow> (nat \<Rightarrow> fresh) \<Rightarrow> instant \<Rightarrow> kms_server \<Rightarrow> Verified \<Rightarrow> params \<Rightarrow> kms_reply kms_out option"
where
  "handleKMSReEncrypt ci rnd now v vf ps =
     (let account = vf_AccountID vf; destParam = str_param ps ''DestinationKeyId''; fail = (\<lambda>code s. Some (Inl code, v\<lparr>ks_kms := s\<rparr>))
      in if TrimSpace destParam = [] then fail ValidationException (ks_kms v)
         else (case nonempty (DecodeBinaryField (map_of ps ''CiphertextBlob'')) of
           None \<Rightarrow> fail ValidationException (ks_kms v)
         | Some blob \<Rightarrow>
             (case reencrypt_source ci rnd now (ks_kms v) account (str_param ps ''SourceKeyId'') blob of
                (Inl code, s1) \<Rightarrow> fail code s1
              | (Inr source, s1) \<Rightarrow>
                  (case ResolveKeyID ci (rnd 2) now s1 account destParam of
                     (Inl _, s2) \<Rightarrow> fail NotFoundException s2
                   | (Inr dest, s2) \<Rightarrow>
                       (case own_key now s2 account source of
                          (Inl code, s3) \<Rightarrow> fail code s3
                        | (Inr sourceKey, s3) \<Rightarrow>
                            (case own_key now s3 account dest of
                               (Inl code, s4) \<Rightarrow> fail code s4
                             | (Inr destKey, s4) \<Rightarrow>
                                 (case reencrypt_contexts ps of
                                    None \<Rightarrow> fail ValidationException s4
                                  | Some ctxs \<Rightarrow>
                                      (let who = ARN (vf_Principal vf);
                                           grantFrom = FindMatchingGrantWithContext s4 source who ''kms:ReEncryptFrom'' (fst ctxs);
                                           grantTo = FindMatchingGrantWithContext s4 dest who ''kms:ReEncryptTo'' (snd ctxs)
                                       in do { from \<leftarrow> authorizeDataplaneKMS (ks_server v) vf ''kms:ReEncryptFrom'' (k_ARN sourceKey)
                                                         (k_KeyPolicy sourceKey) grantFrom (fst ctxs);
                                               if \<not> from then fail AccessDeniedException s4
                                               else do {
                                                 to \<leftarrow> authorizeDataplaneKMS (ks_server v) vf ''kms:ReEncryptTo'' (k_ARN destKey)
                                                        (k_KeyPolicy destKey) grantTo (snd ctxs);
                                                 if \<not> to then fail AccessDeniedException s4
                                                 else Some (reencrypt_act ci rnd now (v\<lparr>ks_kms := s4\<rparr>) sourceKey destKey blob ctxs)
                                               } }))))))))"

section \<open>The handler\<close>

definition zero_key :: Key where
  "zero_key = \<lparr>k_KeyID = [], k_AccountID = [], k_ARN = [], k_KeyState = [], k_KeyUsage = [], k_KeySpec = [], k_KeyPolicy = [],
     k_CreationDate = [], k_DeletionDate = [], k_PendingWindowInDays = 0, k_KeyRotationEnabled = False,
     k_LastRotationDate = [], k_RotationPeriodDays = 0\<rparr>"

definition load_key :: "instant \<Rightarrow> kms \<Rightarrow> bool \<times> string \<Rightarrow> (kms_code, Key) result \<times> kms" where
  "load_key now s target =
     (case target of (needsKey, keyID) \<Rightarrow>
        if needsKey \<and> keyID \<noteq> [] then
          (case GetKey now s keyID of (Inl _, s') \<Rightarrow> (Inl NotFoundException, s') | (Inr k, s') \<Rightarrow> (Inr k, s'))
        else (Inr zero_key, s))"

text \<open>Without a key the resource is \<open>*\<close> and the policy empty.\<close>

definition kms_resource :: "bool \<times> string \<Rightarrow> Key \<Rightarrow> string" where
  "kms_resource target key = (if fst target \<and> snd target \<noteq> [] then k_ARN key else ''*'')"

definition kms_grant :: "kms_server \<Rightarrow> Verified \<Rightarrow> string \<Rightarrow> string \<Rightarrow> enc_context \<Rightarrow> bool" where
  "kms_grant v vf action keyID ctx \<longleftrightarrow>
     keyID \<noteq> [] \<and> FindMatchingGrantWithContext (ks_kms v) keyID (ARN (vf_Principal vf)) action ctx"

definition kms_authorized :: "kms_server \<Rightarrow> Verified \<Rightarrow> string \<Rightarrow> Key \<Rightarrow> bool \<times> string \<Rightarrow> enc_context \<Rightarrow> bool option" where
  "kms_authorized v vf action key target ctx =
     authorizeDataplaneKMS (ks_server v) vf (normalizeKMSAction action) (kms_resource target key) (k_KeyPolicy key)
       (kms_grant v vf action (snd target) ctx) ctx"

definition handleKMS ::
  "'c ciphers_scheme \<Rightarrow> (nat \<Rightarrow> fresh) \<Rightarrow> instant \<Rightarrow> kms_server \<Rightarrow> Verified \<Rightarrow> string \<Rightarrow> params \<Rightarrow> kms_reply kms_out option"
where
  "handleKMS ci rnd now v vf action ps =
     (if action = ''ReEncrypt'' then handleKMSReEncrypt ci rnd now v vf ps
      else (case kms_target ci (rnd 0) now (ks_kms v) (vf_AccountID vf) (kms_op action) ps of
              (Inl code, s1) \<Rightarrow> Some (Inl code, v\<lparr>ks_kms := s1\<rparr>)
            | (Inr target, s1) \<Rightarrow>
                (case load_key now s1 target of
                   (Inl code, s2) \<Rightarrow> Some (Inl code, v\<lparr>ks_kms := s2\<rparr>)
                 | (Inr key, s2) \<Rightarrow>
                     (let v2 = v\<lparr>ks_kms := s2\<rparr>
                      in case ParseEncryptionContext (map_of ps ''EncryptionContext'') of
                           None \<Rightarrow> Some (Inl ValidationException, v2)
                         | Some ctx \<Rightarrow>
                             do { ok \<leftarrow> kms_authorized v2 vf action key target ctx;
                                  if \<not> ok then Some (Inl AccessDeniedException, v2)
                                  else Some (kms_act ci rnd now v2 vf (kms_op action) ps key (snd target) ctx) }))))"

definition kms_request ::
  "'c ciphers_scheme \<Rightarrow> (nat \<Rightarrow> fresh) \<Rightarrow> instant \<Rightarrow> kms_server \<Rightarrow> Verified \<Rightarrow> string \<Rightarrow> string \<Rightarrow> kms_reply kms_out option"
where
  "kms_request ci rnd now v vf action body = handleKMS ci rnd now v vf action (jsonBodyMap body)"

end
