(* ===== verification/Kms_Guarantees.thy ===== *)
theory Kms_Guarantees
  imports Kms_Run Kms_Server Server_Auth_Props
begin

text \<open>
  What the key store promises its users: its tables, ciphertexts that outlive the rotation
  of their key, deletions, the decisions before cryptography, and what binds a ciphertext to its context.
\<close>

section \<open>The tables\<close>


section \<open>Reading what was encrypted\<close>

lemma kms_seal_blob:
  assumes "kms_seal ci rnd now v keyID plain ctx reply = (Inr out, v1)"
  obtains p cmk blob where "plain = Some p" "ks_kms v1 = snd (MaybeAutoRotate ci (rnd 1) now (ks_kms v) keyID)"
    "UnsealKeyMaterial ci (ks_kms v1) keyID = Inr cmk" "EncryptUnderCMK ci (fr_nonce (rnd 2)) cmk keyID p ctx = Some blob"
    "out = reply p blob"
  using assms by (auto simp: kms_seal_def Let_def split: prod.splits sum.splits option.splits)

lemma kms_encrypt_blob:
  assumes "kms_encrypt ci rnd now v key keyID ps ctx = (Inr (Encrypted arn blob), v1)"
  obtains p cmk where "DecodeBinaryField (map_of ps ''Plaintext'') = Some p"
    "ks_kms v1 = snd (MaybeAutoRotate ci (rnd 1) now (ks_kms v) keyID)"
    "UnsealKeyMaterial ci (ks_kms v1) keyID = Inr cmk" "EncryptUnderCMK ci (fr_nonce (rnd 2)) cmk keyID p ctx = Some blob"
proof -
  have "kms_seal ci rnd now v keyID (nonempty (DecodeBinaryField (map_of ps ''Plaintext''))) ctx (\<lambda>_ ct. Encrypted (k_ARN key) ct)
      = (Inr (Encrypted arn blob), v1)"
    using assms by (auto simp: kms_encrypt_def split: if_splits)
  then show ?thesis
    by (rule kms_seal_blob) (use that in \<open>auto simp: nonempty_def split: option.splits list.splits\<close>)
qed

definition only_under :: "'c ciphers_scheme \<Rightarrow> kms \<Rightarrow> string \<Rightarrow> string \<Rightarrow> enc_context \<Rightarrow> bool" where
  "only_under ci s keyID blob ctx \<longleftrightarrow>
     (\<forall>a\<in>sealed_of s keyID. \<forall>b\<in>sealed_of s keyID. Unseal ci a \<noteq> Unseal ci b \<longrightarrow>
        Option.bind (Unseal ci a) (\<lambda>m. DecryptUnderCMK ci m blob ctx) = None \<or>
        Option.bind (Unseal ci b) (\<lambda>m. DecryptUnderCMK ci m blob ctx) = None)"

lemma Decrypt_found:
  assumes "kms_ok ci s" "keyID \<in> key_ids s" "sealed \<in> sealed_of s keyID" "Unseal ci sealed = Some cmk"
    and "DecryptUnderCMK ci cmk blob ctx = Some p" "only_under ci s keyID blob ctx"
  shows "DecryptBlobWithKeyContext ci s keyID blob ctx = Inr p"
proof -
  obtain ms where ms: "UnsealAllKeyMaterials ci s keyID = Inr ms" "set ms = (\<lambda>sealed. the (Unseal ci sealed)) ` sealed_of s keyID"
    by (rule UnsealAllKeyMaterials_all [OF assms(1,2)])
  have opens: "\<exists>m. Unseal ci a = Some m" if "a \<in> sealed_of s keyID" for a
    using that assms(1) by (auto simp: sealed_of_def kms_ok_def row_ok_def dest: material_ok_opens)
  have "first_opened (\<lambda>m. DecryptUnderCMK ci m blob ctx) ms = Some p"
  proof (rule first_opened_only [of cmk])
    show "cmk \<in> set ms" using assms(3,4) by (force simp: ms(2))
    show "DecryptUnderCMK ci m blob ctx = None" if m: "m \<in> set ms" "m \<noteq> cmk" for m
    proof -
      obtain a where a: "a \<in> sealed_of s keyID" "m = the (Unseal ci a)" using m(1) by (auto simp: ms(2))
      then have "Unseal ci a = Some m" using opens [OF a(1)] by auto
      with a(1) show ?thesis using assms(3-6) m(2) unfolding only_under_def by force
    qed
  qed (rule assms(5))
  then show ?thesis by (simp add: DecryptBlobWithKeyContext_def ms(1))
qed


section \<open>Deletion\<close>

lemma pending_updated:
  assumes "\<And>r. k_KeyState (f r) = ''PendingDeletion''" "\<And>r. k_DeletionDate (f r) = d"
  shows "pending_on keyID d (s\<lparr>kms_keys := update_rows keyID f rows\<rparr>)"
  using assms by (auto simp: pending_on_def update_rows_def)

lemma Schedule_pending:
  assumes "kms_ok ci s" "ScheduleKeyDeletion now s keyID w = (Inr k, s1)"
  shows "pending_on keyID (format_RFC3339 (now + pending_days w * ns_day)) s1" "keyID \<in> key_ids s1"
proof -
  define date where "date = format_RFC3339 (now + pending_days w * ns_day)"
  define f where "f = (\<lambda>r :: kms_row. r\<lparr>k_KeyState := KeyStatePendingDeletion, k_DeletionDate := date\<rparr>)"
  have step: "snd (case update_key keyID g s' of (Inl e, t) \<Rightarrow> (Inl e, t) | (Inr _, t) \<Rightarrow> (Inr q, t)) = snd (update_key keyID g s')"
    for g :: "kms_row \<Rightarrow> kms_row" and s' and q :: Key
    by (simp split: prod.split sum.split)
  obtain k0 where k0: "getKeyRaw (swept now s) keyID = Inr k0"
    using assms by (cases "getKeyRaw (swept now s) keyID") (simp_all add: ScheduleKeyDeletion_def with_key_swept)
  have state: "k_KeyState k0 = KeyStateEnabled \<or> k_KeyState k0 = KeyStateDisabled"
    using assms k0 by (rule_tac ccontr) (simp add: ScheduleKeyDeletion_def with_key_swept)
  have "snd (ScheduleKeyDeletion now s keyID w) = snd (update_key keyID f (swept now s))"
    using state by (simp only: ScheduleKeyDeletion_def with_key_swept [OF assms(1)] k0 sum.case Let_def f_def date_def)
      (auto simp: step)
  then have *: "s1 = (swept now s)\<lparr>kms_keys := update_rows keyID f (kms_keys (swept now s))\<rparr>"
    using assms(2) by (simp add: snd_update_rows)
  have "key_ids s1 = key_ids (swept now s)" unfolding * by (rule key_ids_update) (simp add: f_def)
  then show "keyID \<in> key_ids s1" using getKeyRaw_in [OF k0] by simp
  show "pending_on keyID (format_RFC3339 (now + pending_days w * ns_day)) s1"
    unfolding * by (rule pending_updated) (simp_all add: f_def kms_names date_def)
qed

lemma pending_read:
  assumes "kms_ok ci s" "keyID \<in> key_ids s" "pending_on keyID d s"
  shows "\<exists>k. getKeyRaw s keyID = Inr k \<and> k_KeyState k = ''PendingDeletion''"
proof -
  obtain r where r: "r \<in> set (kms_keys s)" "k_KeyID r = keyID" using assms(2) by (auto simp: key_ids_def)
  have "List.find (\<lambda>r. k_KeyID r = keyID) (kms_keys s) = Some r"
    using find_key [of k_KeyID "kms_keys s" r] assms(1) r by (simp add: kms_ok_def)
  then obtain k where k: "getKeyRaw s keyID = Inr k" by (simp add: getKeyRaw_def)
  then show ?thesis using key_fields(1) [OF assms(1) k r] assms(3) r by (auto simp: pending_on_def)
qed

lemma due_gone:
  assumes "kms_ok ci s" "pending_on keyID d s" "d \<noteq> []" "d \<le> format_RFC3339 t"
  shows "keyID \<notin> key_ids (swept t s)"
proof -
  have "keyID \<in> key_ids s \<Longrightarrow> keyID \<in> due_keys t s"
    using assms(2-4) by (auto simp: due_keys_def key_ids_def deletion_due_def pending_on_def kms_names)
  then show ?thesis by (auto simp: swept_def key_ids_drop)
qed

lemma not_read: "keyID \<notin> key_ids s \<Longrightarrow> getKeyRaw s keyID = Inl KmsNoRows"
  by (cases "List.find (\<lambda>r. k_KeyID r = keyID) (kms_keys s)") (auto simp: getKeyRaw_def key_ids_def dest: find_Some_iff')


section \<open>The decision before cryptography\<close>

fun crypto_key :: "kms_reply \<Rightarrow> string option" where
  "crypto_key (Encrypted arn ct) = Some arn"
| "crypto_key (Decrypted arn plain) = Some arn"
| "crypto_key (DataKey arn plain ct b) = Some arn"
| "crypto_key (Signed arn sig alg) = Some arn"
| "crypto_key (Verified_Signature arn valid alg) = Some arn"
| "crypto_key (PublicKey arn pub spec usage) = Some arn"
| "crypto_key _ = None"

lemma reply_with_Inr: "reply_with code reply v r = (Inr out, v') \<Longrightarrow> \<exists>a. out = reply a"
  by (auto simp: reply_with_def split: prod.splits sum.splits)

lemma crypto_acts:
  "kms_encrypt ci rnd now v key keyID ps ctx = (Inr out, v') \<Longrightarrow> k_KeyState key = ''Enabled'' \<and> crypto_key out = Some (k_ARN key)"
  "kms_data_key ci rnd now v key keyID b ctx = (Inr out, v') \<Longrightarrow> k_KeyState key = ''Enabled'' \<and> crypto_key out = Some (k_ARN key)"
  "kms_decrypt ci v key keyID ps ctx = (Inr out, v') \<Longrightarrow> k_KeyState key = ''Enabled'' \<and> crypto_key out = Some (k_ARN key)"
  "kms_sign ci rnd now v key keyID ps = (Inr out, v') \<Longrightarrow> k_KeyState key = ''Enabled'' \<and> crypto_key out = Some (k_ARN key)"
  "kms_verify ci now v key keyID ps = (Inr out, v') \<Longrightarrow> k_KeyState key = ''Enabled'' \<and> crypto_key out = Some (k_ARN key)"
  "kms_public_key ci now v key keyID = (Inr out, v') \<Longrightarrow> k_KeyState key = ''Enabled'' \<and> crypto_key out = Some (k_ARN key)"
  by (auto simp: kms_encrypt_def kms_data_key_def kms_decrypt_def kms_sign_def kms_verify_def kms_public_key_def KeyUsableForCrypto_def
      kms_names split: if_splits option.splits prod.splits sum.splits elim!: kms_seal_blob)

lemma other_acts:
  "kms_create_key ci rnd now v vf ps = (Inr out, v') \<Longrightarrow> crypto_key out = None"
  "kms_create_grant rnd now v vf key keyID ps = (Inr out, v') \<Longrightarrow> crypto_key out = None"
  "kms_retire_grant v vf ps = (Inr out, v') \<Longrightarrow> crypto_key out = None"
  "kms_revoke_grant v keyID ps = (Inr out, v') \<Longrightarrow> crypto_key out = None"
  "kms_create_alias now v vf keyID ps = (Inr out, v') \<Longrightarrow> crypto_key out = None"
  "kms_delete_alias v vf ps = (Inr out, v') \<Longrightarrow> crypto_key out = None"
  "kms_update_alias ci rnd now v vf ps = (Inr out, v') \<Longrightarrow> crypto_key out = None"
  "kms_tag v vf key ps = (Inr out, v') \<Longrightarrow> crypto_key out = None"
  "kms_untag v vf key ps = (Inr out, v') \<Longrightarrow> crypto_key out = None"
  "kms_put_policy v keyID ps = (Inr out, v') \<Longrightarrow> crypto_key out = None"
  by (auto simp: kms_create_key_def kms_create_grant_def kms_retire_grant_def kms_revoke_grant_def kms_create_alias_def
      kms_delete_alias_def kms_update_alias_def kms_tag_def kms_untag_def kms_put_policy_def Let_def
      split: if_splits option.splits prod.splits sum.splits dest!: reply_with_Inr)

lemma kms_act_crypto:
  assumes "kms_act ci rnd now v vf op ps key keyID ctx = (Inr out, v')" "crypto_key out = Some arn"
  shows "k_KeyState key = ''Enabled'' \<and> k_ARN key = arn"
proof (rule ccontr)
  assume *: "\<not> ?thesis"
  then have no: "kms_encrypt ci rnd now v key keyID ps ctx \<noteq> (Inr out, v')" "kms_data_key ci rnd now v key keyID b ctx \<noteq> (Inr out, v')"
    "kms_decrypt ci v key keyID ps ctx \<noteq> (Inr out, v')" "kms_sign ci rnd now v key keyID ps \<noteq> (Inr out, v')"
    "kms_verify ci now v key keyID ps \<noteq> (Inr out, v')" "kms_public_key ci now v key keyID \<noteq> (Inr out, v')" for b
    using crypto_acts [where out = out and v' = v'] assms(2) by fastforce+
  show False using assms no other_acts [where out = out and v' = v']
    unfolding kms_act_def Let_def
    by (auto split: if_splits sum.splits dest!: reply_with_Inr)
qed

lemma handleKMS_reply:
  assumes "action \<noteq> ''ReEncrypt''" "handleKMS ci rnd now v vf action ps = Some (Inr out, v')"
  obtains target s1 key s2 enc where
    "kms_target ci (rnd 0) now (ks_kms v) (vf_AccountID vf) (kms_op action) ps = (Inr target, s1)"
    "load_key now s1 target = (Inr key, s2)" "ParseEncryptionContext (map_of ps ''EncryptionContext'') = Some enc"
    "kms_authorized (v\<lparr>ks_kms := s2\<rparr>) vf action key target enc = Some True"
    "kms_act ci rnd now (v\<lparr>ks_kms := s2\<rparr>) vf (kms_op action) ps key (snd target) enc = (Inr out, v')"
  using assms by (auto simp: handleKMS_def Let_def split: prod.splits sum.splits option.splits Option.bind_splits if_splits)

lemma kms_target_ok:
  assumes "ciphers_correct ci" "fresh_ok fr" "kms_ok ci s" "kms_target ci fr now s account op ps = (out, s')"
  shows "kms_ok ci s'"
proof -
  have r: "kms_ok ci t" if "ResolveKeyID ci fr now s account x = (o', t)" for x o' t
    using ResolveKeyID_ok [OF assms(1-3), of now account x] that by simp
  have "kms_ok ci t" if "resolve_key ci fr now s account x = (o', t)" for x o' t
    using that by (auto simp: resolve_key_def split: prod.splits sum.splits dest: r)
  then show ?thesis using assms(3,4) unfolding kms_target_def Let_def
    by (auto split: option.splits prod.splits sum.splits if_splits dest: r)
qed

lemma load_key_real:
  assumes "load_key now s1 target = (Inr key, s2)" "k_KeyState key \<noteq> []"
  shows "target = (True, snd target)" "snd target \<noteq> []" "GetKey now s1 (snd target) = (Inr key, s2)"
  using assms by (auto simp: load_key_def zero_key_def split: prod.splits sum.splits if_splits)

lemma GetKey_read:
  assumes "kms_ok ci s" "GetKey now s keyID = (Inr k, s')"
  shows "getKeyRaw s' keyID = Inr k" "kms_ok ci s'" "k_ARN k \<noteq> ''*''"
proof -
  have e: "getKeyRaw (swept now s) keyID = Inr k" "s' = swept now s" using assms by (auto simp: GetKey_swept)
  then show k: "getKeyRaw s' keyID = Inr k" and ok: "kms_ok ci s'" using kms_ok_swept [OF assms(1)] by simp_all
  obtain r where r: "r \<in> set (kms_keys s')" "k_KeyID r = keyID" using getKeyRaw_in [OF k] by (auto simp: key_ids_def)
  have "k_ARN r = KeyARN DefaultKMSRegion (k_AccountID r) (k_KeyID r)" using ok r(1) by (simp add: kms_ok_def row_ok_def)
  then show "k_ARN k \<noteq> ''*''" using key_fields(5) [OF ok k r] by (simp add: KeyARN_def)
qed


section \<open>Encryption contexts\<close>

lemma those_fst:
  "(\<And>x y. f x = Some y \<Longrightarrow> fst y = fst x) \<Longrightarrow> those (map f kvs) = Some out \<Longrightarrow> map fst out = map fst kvs"
  by (induction kvs arbitrary: out) (auto split: option.splits)

lemma string_members_distinct: "string_members P kvs = Some c \<Longrightarrow> distinct (map fst c)"
  unfolding string_members_def
  by (drule those_fst [rotated]) (auto simp: distinct_last_wins split: json.splits if_splits)

lemma context_distinct: "ParseEncryptionContext j = Some c \<Longrightarrow> distinct (map fst c)"
  by (auto simp: ParseEncryptionContext_def string_members_distinct split: option.splits json.splits)

text \<open>What the documentation of the cipher says: a text opens only with the additional data it was sealed with.\<close>

definition data_bound :: "'c ciphers_scheme \<Rightarrow> bool" where
  "data_bound ci \<longleftrightarrow> (\<forall>k n p a a'. a \<noteq> a' \<longrightarrow> ci_open ci k n (ci_seal ci k n p a) a' = None)"

lemma Decrypt_other_context:
  assumes "data_bound ci" "length nonce = 12" "EncryptUnderCMK ci nonce cmk keyID p c = Some blob"
    and "EncryptionContextAAD d \<noteq> EncryptionContextAAD c"
  shows "DecryptUnderCMK ci cmk blob d = None"
proof -
  let ?sealed = "ci_seal ci cmk nonce p (EncryptionContextAAD c)"
  have l: "length cmk = 32" "length keyID \<le> 255" using EncryptUnderCMK_length [OF assms(3)] by simp_all
  have "blob = char_byte 2 # char_byte (length keyID) # keyID @ (nonce @ ?sealed)"
    using assms(3) by (simp add: EncryptUnderCMK_def split: if_splits)
  then have "blob_rest blob = Some (nonce @ ?sealed)" using blob_rest_encrypted [OF l(2)] by (simp only:)
  moreover have "ci_open ci cmk nonce ?sealed (EncryptionContextAAD d) = None"
    using assms(1,4) by (auto simp: data_bound_def)
  ultimately show ?thesis using assms(2) l(1) by (simp add: DecryptUnderCMK_def nonceSize_def)
qed

text \<open>C23. The encryption context is bound: a ciphertext opens under another context exactly if it is the same map,
  when no key and no value holds a NUL byte. With NUL bytes there are different contexts that open each other's
  ciphertexts.\<close>
theorem context_binding:
  assumes "ciphers_correct ci" "data_bound ci" "length nonce = 12"
    and "ParseEncryptionContext j = Some c" "ParseEncryptionContext j' = Some d"
    and "EncryptUnderCMK ci nonce cmk keyID p c = Some blob"
  shows "(nul_free c \<and> nul_free d \<longrightarrow> DecryptUnderCMK ci cmk blob d = (if map_of c = map_of d then Some p else None)) \<and>
         (c = [(''a'', ''b''), (''c'', ''d'')] \<and> d = [(''a'', ''b'' @ [CHR 0x00] @ ''c'' @ [CHR 0x00] @ ''d'')] \<longrightarrow>
            DecryptUnderCMK ci cmk blob d = Some p)"
proof (intro conjI impI)
  note d = context_distinct [OF assms(4)] context_distinct [OF assms(5)]
  show "DecryptUnderCMK ci cmk blob d = (if map_of c = map_of d then Some p else None)" if "nul_free c \<and> nul_free d"
    using that AAD_contexts [OF d] Decrypt_Encrypt [OF assms(1,3,6)] Decrypt_other_context [OF assms(2,3,6)] by metis
  show "DecryptUnderCMK ci cmk blob d = Some p"
    if cd: "c = [(''a'', ''b''), (''c'', ''d'')] \<and> d = [(''a'', ''b'' @ [CHR 0x00] @ ''c'' @ [CHR 0x00] @ ''d'')]"
  proof (rule Decrypt_Encrypt [OF assms(1,3,6)])
    have "''a'' < (''c'' :: string)" by code_simp
    from AAD_collision [OF this, of "''b''" "''d''"] show "EncryptionContextAAD d = EncryptionContextAAD c" using cd by simp
  qed
qed

section \<open>Keys nobody can use\<close>

lemma unreadable_policy: "parsePolicyDocument doc = None \<Longrightarrow> \<not> hits m ctx [doc] eff"
  by (simp add: hits_def)


end
