(* ===== verification/Kms_Samples.thy ===== *)
theory Kms_Samples
  imports Kms_Guarantees Server_Samples
begin

text \<open>
  A key with a policy for its account, made with a toy cipher, and what the key store promises applied to it.
\<close>

section \<open>A cipher\<close>

text \<open>A sealed text is preceded by its key and its additional data.\<close>

definition lab_head :: "string \<Rightarrow> string \<Rightarrow> string" where
  "lab_head k a = k @ replicate (length a) CHR ''x'' @ CHR ''y'' # a"

definition strip :: "string \<Rightarrow> string \<Rightarrow> string option" where
  "strip h c = (if take (length h) c = h then Some (drop (length h) c) else None)"

lemma strip_own [simp]: "strip h (h @ p) = Some p"
  by (simp add: strip_def)

lemma strip_Some: "strip h c = Some r \<Longrightarrow> c = h @ r"
  by (metis append_take_drop_id option.distinct(1) option.inject strip_def)

definition lab_ciphers :: ciphers where
  "lab_ciphers = \<lparr>ci_wrap = \<lambda>n p. p, ci_unwrap = \<lambda>n c. Some c, ci_seal = \<lambda>k n p a. lab_head k a @ p,
     ci_open = \<lambda>k n c a. strip (lab_head k a) c,
     ci_rsa_key = \<lambda>_. True, ci_rsa_sign = \<lambda>_ _ _ _. None, ci_rsa_verify = \<lambda>_ _ _ _. False, ci_rsa_public = \<lambda>p. p\<rparr>"

lemma lab_correct: "ciphers_correct lab_ciphers"
  by (simp add: ciphers_correct_def lab_ciphers_def)

lemma replicate_mark: "x \<noteq> y \<Longrightarrow> replicate m x @ y # r = replicate n x @ y # s \<longleftrightarrow> m = n \<and> r = s"
proof (induction m arbitrary: n)
  case 0
  then show ?case by (cases n) auto
next
  case (Suc m)
  then show ?case by (cases n) auto
qed

lemma lab_head_bound: "lab_head k a @ p = lab_head k a' @ r \<Longrightarrow> a = a'"
  by (auto simp: lab_head_def replicate_mark)

lemma lab_bound: "data_bound lab_ciphers"
proof -
  have "strip (lab_head k a') (lab_head k a @ p) = None" if "a \<noteq> a'" for k p a a'
    using lab_head_bound [of k a p a'] strip_Some that by (cases "strip (lab_head k a') (lab_head k a @ p)") auto
  then show ?thesis by (simp add: data_bound_def lab_ciphers_def)
qed

section \<open>A key\<close>

definition drawing :: "char \<Rightarrow> fresh" where
  "drawing c = \<lparr>fr_id = replicate 36 c, fr_nonce = replicate 12 c, fr_cmk = replicate 32 c, fr_pkcs8 = []\<rparr>"

definition key_id :: string where "key_id = replicate 36 CHR ''a''"

definition kms_empty :: kms where
  "kms_empty = \<lparr>kms_keys = [], kms_aliases = [], kms_grants = [], kms_materials = []\<rparr>"

definition doc_key :: string where
  "doc_key = ''{\"Version\":\"2012-10-17\",\"Statement\":[{\"Effect\":\"Allow\",\"Principal\":{\"AWS\":\"111122223333\"},\"Action\":\"*\",\"Resource\":\"*\"}]}''"

lemma parse_doc_key:
  "parsePolicyDocument doc_key = Some \<lparr>pd_Version = ''2012-10-17'', pd_Statement =
   [\<lparr>st_Effect = ''Allow'', st_Action = [''*''], st_Resource = [''*''],
     st_Principal = Some \<lparr>ps_All = False, ps_AWS = [''111122223333''], ps_Service = [], ps_Federated = []\<rparr>,
     st_Condition = None\<rparr>]\<rparr>"
  by code_simp

lemma doc_key_text: "TrimSpace doc_key = doc_key" "doc_key \<noteq> []"
  by (code_simp, simp add: doc_key_def)

definition key_params :: CreateKeyParams where
  "key_params = \<lparr>ck_AccountID = acct, ck_CreatorARN = ''arn:aws:iam::111122223333:user/alice'', ck_PolicyOverride = doc_key,
     ck_KeyUsage = [], ck_KeySpec = []\<rparr>"

definition key_arn :: string where "key_arn = KeyARN DefaultKMSRegion acct key_id"

definition enc_key :: Key where
  "enc_key = \<lparr>k_KeyID = key_id, k_AccountID = acct, k_ARN = key_arn, k_KeyState = ''Enabled'', k_KeyUsage = ''ENCRYPT_DECRYPT'',
     k_KeySpec = ''SYMMETRIC_DEFAULT'', k_KeyPolicy = doc_key, k_CreationDate = format_RFC3339 0, k_DeletionDate = [],
     k_PendingWindowInDays = 0, k_KeyRotationEnabled = False, k_LastRotationDate = [], k_RotationPeriodDays = 365\<rparr>"

definition sealed :: "char \<Rightarrow> string" where "sealed c = replicate 12 c @ replicate 32 c"

definition sample_row :: kms_row where "sample_row = Key.extend enc_key (kms_row.fields (sealed CHR ''a''))"

definition sample_kms :: kms where "sample_kms = kms_empty\<lparr>kms_keys := [sample_row]\<rparr>"

lemma lab_sealed: "Seal lab_ciphers (fr_nonce (drawing c)) (fr_cmk (drawing c)) = sealed c" "Unseal lab_ciphers (sealed c) = Some (replicate 32 c)"
  by (simp_all add: Seal_def Unseal_def lab_ciphers_def drawing_def sealed_def nonceSize_def)

lemma drawing_ok: "fresh_ok (drawing c)"
  by (simp add: fresh_ok_def drawing_def)

lemma trim_empty: "TrimSpace [] = []"
  by code_simp

lemma sample_created: "kms_after lab_ciphers 0 kms_empty (Create_Key (drawing CHR ''a'') key_params) = sample_kms"
  unfolding kms_after.simps CreateKeyWithParams_def createKeyTx_def key_params_def generateKeyMaterial_def lab_sealed
  by (simp add: trim_empty doc_key_text kms_names lab_sealed Let_def sql_insert_def kms_empty_def sample_kms_def sample_row_def enc_key_def
      Key.extend_def kms_row.fields_def key_id_def key_arn_def DefaultLabRotationPeriodDays_def, simp add: drawing_def)

lemma sample_reachable: "reachable kms_init (kms_step lab_ciphers) sample_kms"
proof (rule reach_step)
  show "reachable kms_init (kms_step lab_ciphers) kms_empty" by (rule reach_init) (simp add: kms_init_def kms_empty_def)
  show "kms_step lab_ciphers kms_empty (0, Create_Key (drawing CHR ''a'') key_params) sample_kms"
    by (rule kms_call) (simp_all add: sample_created [symmetric] drawing_ok del: kms_after.simps)
qed

lemma sample_spec: "normalizeStoredKeySpec ''SYMMETRIC_DEFAULT'' u = ''SYMMETRIC_DEFAULT''"
proof -
  have "TrimSpace ''SYMMETRIC_DEFAULT'' = ''SYMMETRIC_DEFAULT''" by code_simp
  then show ?thesis by (simp add: normalizeStoredKeySpec_def)
qed

lemma sample_read: "getKeyRaw sample_kms key_id = Inr enc_key"
  by (simp add: getKeyRaw_def sample_kms_def sample_row_def enc_key_def Key.extend_def kms_row.fields_def Key.truncate_def sample_spec)


section \<open>Encrypting, rotating and decrypting\<close>

definition sample_server :: "kms \<Rightarrow> kms_server" where
  "sample_server s = \<lparr>ks_server = server (org_root_scp doc_allow_all), ks_kms = s\<rparr>"

definition plain_params :: params where "plain_params = [(''KeyId'', JStr key_id), (''Plaintext'', JStr (EncodeToString ''hi''))]"

definition sample_blob :: string where
  "sample_blob = char_byte 2 # char_byte 36 # key_id @ replicate 12 CHR ''n'' @ lab_head (replicate 32 CHR ''a'') [] @ ''hi''"

lemma no_context: "EncryptionContextAAD [] = []"
  by (simp add: EncryptionContextAAD_def)

lemma sample_unsealed: "UnsealKeyMaterial lab_ciphers sample_kms key_id = Inr (replicate 32 CHR ''a'')"
  by (simp add: UnsealKeyMaterial_def sample_kms_def sample_row_def enc_key_def Key.extend_def kms_row.fields_def lab_sealed)

lemma sample_encrypted_blob: "EncryptUnderCMK lab_ciphers (fr_nonce (drawing CHR ''n'')) (replicate 32 CHR ''a'') key_id ''hi'' [] = Some sample_blob"
proof -
  have "length key_id = 36" "key_id \<noteq> []" by (simp_all add: key_id_def)
  moreover have "ci_seal lab_ciphers (replicate 32 CHR ''a'') n ''hi'' [] = lab_head (replicate 32 CHR ''a'') [] @ ''hi''" for n
    by (simp add: lab_ciphers_def)
  ultimately show ?thesis by (simp add: EncryptUnderCMK_def no_context sample_blob_def drawing_def)
qed

lemma sample_no_rotation: "MaybeAutoRotate ci fr now sample_kms key_id = (Inr (), sample_kms)"
  by (simp add: MaybeAutoRotate_def sample_read) (simp add: enc_key_def)

lemma sample_encrypt:
  "kms_encrypt lab_ciphers (\<lambda>i. drawing CHR ''n'') 0 (sample_server sample_kms) enc_key key_id plain_params [] =
     (Inr (Encrypted key_arn sample_blob), sample_server sample_kms)"
proof -
  have k: "k_KeyState enc_key = ''Enabled''" "k_KeyUsage enc_key = ''ENCRYPT_DECRYPT''" "k_ARN enc_key = key_arn"
    by (simp_all add: enc_key_def)
  have p: "nonempty (DecodeBinaryField (map_of plain_params ''Plaintext'')) = Some ''hi''"
    by (simp add: plain_params_def DecodeBinaryField_def DecodeString_EncodeToString nonempty_def del: EncodeToString.simps)
  show ?thesis unfolding kms_encrypt_def p
    by (simp add: k KeyUsableForCrypto_def kms_names kms_seal_def sample_server_def sample_no_rotation sample_unsealed sample_encrypted_blob)
qed

lemma sample_swept: "swept t sample_kms = sample_kms"
proof -
  have "deletion_due t sample_row = False"
    by (simp add: deletion_due_def sample_row_def enc_key_def Key.extend_def kms_names)
  then have "due_keys t sample_kms = {}" by (auto simp: due_keys_def sample_kms_def)
  then show ?thesis by (simp add: swept_def drop_keys_empty)
qed

lemma sample_ok: "kms_ok lab_ciphers sample_kms"
  using reachable_kms_ok [OF lab_correct sample_reachable] .

lemma sample_fields:
  "k_KeyUsage enc_key = ''ENCRYPT_DECRYPT''" "k_KeyState enc_key = ''Enabled''" "k_ARN enc_key = key_arn" "k_KeyPolicy enc_key = doc_key"
  "List.find (\<lambda>r. k_KeyID r = key_id) (kms_keys sample_kms) = Some sample_row" "k_sealed sample_row = sealed CHR ''a''"
  by (simp_all add: enc_key_def sample_kms_def sample_row_def Key.extend_def kms_row.fields_def)

definition rotated_row :: kms_row where
  "rotated_row = sample_row\<lparr>k_sealed := sealed CHR ''z'', k_LastRotationDate := format_RFC3339 1000000000\<rparr>"

definition rotated_kms :: kms where
  "rotated_kms = kms_empty\<lparr>kms_keys := [rotated_row], kms_materials :=
     [\<lparr>km_key = key_id, km_generation = 1, km_sealed = sealed CHR ''a'', km_created = format_RFC3339 1000000000\<rparr>]\<rparr>"

lemma sample_rotated: "kms_after lab_ciphers 1000000000 sample_kms (Rotate (drawing CHR ''z'') key_id) = rotated_kms"
proof -
  have id: "k_KeyID sample_row = key_id" by (simp add: sample_row_def enc_key_def Key.extend_def)
  have rows: "kms_keys sample_kms = [sample_row]" "kms_materials sample_kms = []" by (simp_all add: sample_kms_def kms_empty_def)
  have "kms_after lab_ciphers 1000000000 sample_kms (Rotate (drawing CHR ''z'') key_id) =
      snd (update_key key_id (\<lambda>r. r\<lparr>k_sealed := sealed CHR ''z'', k_LastRotationDate := format_RFC3339 1000000000\<rparr>)
        (sample_kms\<lparr>kms_materials := [\<lparr>km_key = key_id, km_generation = 1, km_sealed = sealed CHR ''a'', km_created = format_RFC3339 1000000000\<rparr>]\<rparr>))"
    by (simp add: RotateKeyMaterial_def with_key_swept [OF sample_ok] sample_swept sample_read sample_fields kms_names Let_def
        sql_insert_def rows id next_generation_def lab_sealed)
  also have "\<dots> = rotated_kms"
    by (simp add: snd_update_key rows id rotated_kms_def rotated_row_def) (simp add: sample_kms_def)
  finally show ?thesis .
qed

lemma rotated_run: "run (kms_step lab_ciphers) sample_kms [(1000000000, Rotate (drawing CHR ''z'') key_id)] rotated_kms"
  by (simp add: run_Cons_iff) (rule kms_call, simp_all add: drawing_ok sample_rotated del: kms_after.simps)

lemma rotated_read: "getKeyRaw rotated_kms key_id = Inr (enc_key\<lparr>k_LastRotationDate := format_RFC3339 1000000000\<rparr>)"
  by (simp add: getKeyRaw_def rotated_kms_def rotated_row_def sample_row_def enc_key_def Key.extend_def kms_row.fields_def
      Key.truncate_def sample_spec)

lemma rotated_sealed: "sealed_of rotated_kms key_id = {sealed CHR ''z'', sealed CHR ''a''}"
proof -
  have r: "k_KeyID rotated_row = key_id" "k_sealed rotated_row = sealed CHR ''z''"
    by (simp_all add: rotated_row_def sample_row_def enc_key_def Key.extend_def)
  define m where "m = \<lparr>km_key = key_id, km_generation = 1, km_sealed = sealed CHR ''a'', km_created = format_RFC3339 1000000000\<rparr>"
  have m: "km_key m = key_id" "km_sealed m = sealed CHR ''a''" by (simp_all add: m_def)
  have one: "{x \<in> set [y]. P x} = {y}" if "P y" for P and y :: 'a using that by auto
  have "kms_keys rotated_kms = [rotated_row]" "kms_materials rotated_kms = [m]" by (simp_all add: rotated_kms_def kms_empty_def m_def)
  then show ?thesis unfolding sealed_of_def
    using one [of "\<lambda>r. k_KeyID r = key_id" rotated_row, OF r(1)] by (simp add: r m Collect_conv_if insert_commute)
qed

lemma other_key_fails: "DecryptUnderCMK lab_ciphers (replicate 32 CHR ''z'') sample_blob [] = None"
proof -
  have l: "length key_id = 36" by (simp add: key_id_def)
  have b: "sample_blob = char_byte 2 # char_byte (length key_id) # key_id @ (replicate 12 CHR ''n'' @ lab_head (replicate 32 CHR ''a'') [] @ ''hi'')"
    by (simp add: sample_blob_def l)
  have "blob_rest sample_blob = Some (replicate 12 CHR ''n'' @ lab_head (replicate 32 CHR ''a'') [] @ ''hi'')"
    unfolding b by (rule blob_rest_encrypted) (simp add: l)
  moreover have "strip (lab_head (replicate 32 CHR ''z'') []) (lab_head (replicate 32 CHR ''a'') [] @ ''hi'') = None"
    by code_simp
  ultimately show ?thesis by (simp add: DecryptUnderCMK_def nonceSize_def no_context lab_ciphers_def)
qed


section \<open>A deletion\<close>


section \<open>Two contexts\<close>

theorem context_binding_witness:
  "\<exists>blob. EncryptUnderCMK lab_ciphers (replicate 12 CHR ''n'') (replicate 32 CHR ''a'') key_id ''hi'' [(''a'', ''b''), (''c'', ''d'')] = Some blob \<and>
     DecryptUnderCMK lab_ciphers (replicate 32 CHR ''a'') blob [(''a'', ''b'' @ [CHR 0x00] @ ''c'' @ [CHR 0x00] @ ''d'')] = Some ''hi''"
proof -
  have p: "ParseEncryptionContext (Some (JObj [(''a'', JStr ''b''), (''c'', JStr ''d'')])) = Some [(''a'', ''b''), (''c'', ''d'')]"
    "ParseEncryptionContext (Some (JObj [(''a'', JStr (''b'' @ [CHR 0x00] @ ''c'' @ [CHR 0x00] @ ''d''))])) =
       Some [(''a'', ''b'' @ [CHR 0x00] @ ''c'' @ [CHR 0x00] @ ''d'')]"
    by (simp_all add: ParseEncryptionContext_def string_members_def)
  obtain blob where b: "EncryptUnderCMK lab_ciphers (replicate 12 CHR ''n'') (replicate 32 CHR ''a'') key_id ''hi'' [(''a'', ''b''), (''c'', ''d'')] = Some blob"
    by (simp add: EncryptUnderCMK_def key_id_def)
  have "length (replicate 12 CHR ''n'') = 12" by simp
  then show ?thesis using b context_binding [OF lab_correct lab_bound _ p b] by auto
qed

section \<open>A key with a policy that cannot be read\<close>


section \<open>A call\<close>

lemma sample_target:
  "kms_target lab_ciphers (drawing CHR ''n'') 0 sample_kms acct ''Encrypt'' plain_params = (Inr (True, key_id), sample_kms)"
proof -
  have k: "str_param plain_params ''KeyId'' = key_id" by (simp add: str_param_def plain_params_def)
  have t: "TrimSpace key_id = key_id" "key_id \<noteq> []" "\<not> HasPrefix key_id ''arn:aws:kms:''" "\<not> HasPrefix key_id ''alias/''" by (code_simp, code_simp, code_simp, code_simp)
  have "ResolveKeyID lab_ciphers (drawing CHR ''n'') 0 sample_kms acct key_id = (Inr key_id, sample_kms)"
    by (simp add: ResolveKeyID_def Let_def t with_key_swept [OF sample_ok] sample_swept sample_read)
  then show ?thesis by (simp add: kms_target_def k t resolve_key_def)
qed

lemma sample_authorized:
  "kms_authorized (sample_server sample_kms) (alice_key []) ''Encrypt'' enc_key (True, key_id) [] = Some True"
proof -
  have n: "normalizeKMSAction ''Encrypt'' = ''kms:Encrypt''" by code_simp
  have r: "kms_resource (True, key_id) enc_key = key_arn" by (simp add: kms_resource_def sample_fields key_id_def)
  have g: "kms_grant (sample_server sample_kms) (alice_key []) ''Encrypt'' key_id [] = False"
    by (simp add: kms_grant_def FindMatchingGrantWithContext_def ListGrants_def sample_server_def sample_kms_def kms_empty_def)
  have a: "awsAccountPrincipal ''111122223333'' acct" by code_simp
  show ?thesis unfolding kms_authorized_def n r snd_conv g sample_fields
    unfolding authorizeDataplaneKMS_True
    by (simp add: sample_server_def alice_inputs sessionPolicyDocs_def alice_fields doc_key_text alice_context authz_simps parse_samples parse_doc_key
        OrgFiltersDeny_False mergeEncryptionContextKeys_def EvaluateKMS_Allow kms_spec_def boundary_allows_def session_allows_def
        Let_def quiet_def hits_def ex_bool_eq a)
qed


end
