(* ===== verification/Spec2Isabelle.thy ===== *)
theory Spec2Isabelle
  imports Authz_Props Sqs_Samples Scheduler_Props Access_Keys_Samples Iam_Samples Orgs_Props Sts_Samples Event_Samples Kms_Samples
begin

text \<open>
  Verification of the core of Noctaxris, an emulator of AWS services written in Go.

  \<^bold>\<open>The program.\<close> One HTTP server (\<open>src/internal/server\<close>) answers the APIs of some eighty services. Every signed
  request goes the same way: \<open>kernel/authn\<close> authenticates it against the access keys of the store, the handler of
  the service names an action and a resource, \<open>server/handlers.go\<close> collects the policies of the principal, its
  organization, its boundary and its session together with the condition keys of the request, \<open>kernel/authz\<close>
  decides, and only then the handler changes the store (\<open>src/internal/store\<close>, one SQLite file). The development
  follows this path, which every service relies on, and then takes single services whose store keeps a contract
  of its own: the queues, the schedules, the event rules and the encryption keys.

  \<^bold>\<open>The theories, by the code they model.\<close>
  \<^item> \<open>Prelude\<close>, \<open>Transitions\<close>, \<open>Sql_Table\<close>: lemmas on lists and options with the simp collections; labelled
    transition systems with their invariants (the locale \<open>invariant_system\<close>, interpreted for the queues, the
    key cache, the event bus and the key store); SQL statements on a table as a list of rows under a primary key.
  \<^item> \<open>Go_Strings\<close>, \<open>Go_Numbers\<close>, \<open>Go_Float\<close>, \<open>Go_Json\<close>, \<open>Go_Json_Print\<close>, \<open>Go_Net\<close>, \<open>Go_Time\<close>, \<open>Go_Hash\<close>, \<open>Go_Http\<close>, \<open>Go_Base64\<close>: what
    the code uses of Go's standard library, on byte strings; \<open>Calendar\<close> and \<open>Time_Text\<close> hold the facts on
    dates: printed times are ordered as instants, and read back to the second.
  \<^item> \<open>Identity\<close> (\<open>kernel/identity\<close>), \<open>Glob\<close> and \<open>Policy\<close> (\<open>kernel/authz/policy.go\<close>), \<open>Condition\<close>
    (\<open>condition.go\<close>), \<open>Condition_Keys\<close> (\<open>catalog/conditionkeys\<close>), \<open>Authz\<close> (the evaluators \<open>eval*.go\<close>), \<open>PassRole\<close>
    (\<open>passrole.go\<close>): the policy language and its evaluation. \<open>Authz_Spec\<close> states each evaluator over the
    statements that match, \<open>Authz_Props\<close> has the properties, \<open>Samples\<close> the documents they are applied to.
  \<^item> \<open>Sigv4\<close> (\<open>kernel/authn/sigv4.go\<close>), with \<open>Sigv4_Props\<close> and \<open>Sigv4_Samples\<close>: authentication.
  \<^item> \<open>Access_Keys\<close> (\<open>store/access_key_cache.go\<close>, \<open>users.go\<close>, \<open>tempcreds.go\<close>): the rows of the keys and the cache in
    front of them, with look-ups and writes of several goroutines as steps.
  \<^item> \<open>Iam\<close> (\<open>store/users.go\<close>, \<open>roles.go\<close>, \<open>groups.go\<close>, \<open>policy.go\<close>, \<open>inline_policies.go\<close>, \<open>managed_policies.go\<close>,
    \<open>managed_policy_versions.go\<close>, \<open>boundaries.go\<close>, \<open>arn.go\<close>, \<open>validate/validate.go\<close>), \<open>Orgs\<close> (\<open>store/orgs_depth.go\<close>,
    \<open>org.go\<close>), \<open>Tagging\<close> (\<open>store/tagging.go\<close>), \<open>Mfa\<close> (\<open>store/mfa.go\<close>, \<open>kernel/sts/mfa.go\<close>): the tables the decisions
    read, each operation on every branch.
  \<^item> \<open>Server_Auth\<close> (\<open>server/handlers.go\<close>): the gates \<open>authorize\<close>, \<open>authorizeDataplaneOR\<close>, \<open>authorizeDataplaneKMS\<close> and
    \<open>authorizeOrgs\<close>, on a record \<open>server\<close> of the tables above.
  \<^item> \<open>Sts\<close> (\<open>server/sts_handlers.go\<close>, \<open>handleAssumeRole\<close>): the operations that mint temporary keys.
  \<^item> \<open>Delivery\<close>, \<open>Delivery_Props\<close> (\<open>store/delivery_authz.go\<close>, \<open>delivery_condition_keys.go\<close>,
    \<open>logs_resource_policy.go\<close>, \<open>dlq_helpers.go\<close>): who may receive what a service sends, with a role or by the policy of
    the destination; the policies of log groups; failure queues.
  \<^item> \<open>Event_Pattern\<close>, \<open>Event_Pattern_Props\<close> (\<open>store/events_pattern.go\<close>): event patterns, their validation and their
    matching, with what they mean as a datatype of its own; \<open>Event_Bus\<close> (\<open>store/events.go\<close>): buses, rules and targets;
    \<open>Event_Input\<close> (\<open>lab_jsonpath.go\<close>, \<open>events_inputpath.go\<close>, \<open>events_inputtransformer.go\<close>): what a target is sent;
    \<open>Event_Delivery\<close>: \<open>PutEvents\<close>, from the entry over the rules to the deliveries; \<open>Event_Props\<close>: the transition
    system of all these operations and what it keeps.
  \<^item> \<open>Kms_Crypto\<close> (\<open>store/crypto.go\<close>): sealed material and ciphertexts; \<open>Kms\<close> (\<open>store/kms.go\<close>, \<open>kms_rotation.go\<close>): keys,
    their rotation and deletion, aliases and grants; \<open>Kms_Server\<close> (\<open>server/kms_handlers.go\<close>, \<open>services/kms\<close>,
    \<open>server/jsonparams.go\<close>, \<open>tags_parse.go\<close>): every action, from the parameters to the reply. \<open>Kms_Props\<close> has the
    transition system of the store and its invariant, \<open>Kms_Run\<close> what a sequence of calls leaves of a key, and
    \<open>Kms_Guarantees\<close> what follows for the users of keys.
  \<^item> \<open>Sqs\<close>, \<open>Sqs_Inv\<close>, \<open>Sqs_Ops\<close>, \<open>Sqs_Props\<close> (\<open>store/sqs.go\<close>): the queues, the transition system of their
    operations, and what they promise.
  \<^item> \<open>Scheduler\<close>, \<open>Scheduler_Props\<close> (\<open>store/scheduler_expr.go\<close>): rate, at and cron expressions.
  The theories named \<open>_Samples\<close> apply the properties to concrete states and requests.

  \<^bold>\<open>How the code is modelled.\<close> A struct is a record and an enumeration a datatype; names are those of the
  source. A Go error is the left side of a sum (\<open>result\<close>) or \<open>None\<close>; a call that never returns, because it loops
  or panics, is \<open>None\<close> of an option around the result, so that \<open>Evaluate ctx docs = None\<close> says the evaluation hangs,
  and what returns is proved to. 64-bit arithmetic that can overflow is written out (\<open>wrap64\<close>, words in \<open>Go_Hash\<close>).
  Random values, clocks, ciphers, RSA and the validator package are arguments. Operations that
  interleave are labels of a step relation; all others run to their end, as their SQL transaction does. The stores a
  delivery may reach and that are not modelled (functions, topics, buckets, streams, state machines) are one component
  of any type, with what the code asks of them (their policy, the delivery) as the record \<open>services\<close>; \<open>sc_visit\<close> is the
  order in which Go visits a map, left open wherever it can be seen.

  \<^bold>\<open>What is shown.\<close> The evaluators implement their specifications, denies override, unknown keys fail closed,
  filters only restrict. \<open>Verify\<close> accepts exactly the requests it should, and what is signed is bound. No stale key
  is ever answered from the cache. One default version of a managed policy is operative at every moment. The control
  policies of an account are those attached above it, and they bind whatever any gate allows, for root too; what
  cannot be read denies; tags forge no other key. A session of an assumed role has the principal, expiry and policy
  it was minted with, through \<open>Verify\<close> to the decision. A message is in flight with one receiver until its deadline,
  messages are conserved by redrive, groups keep their order. The cron search finds the earliest matching minute.
  Event rules reach the targets they should and no others: a pattern means the same to the validation and to the
  matcher, and whatever is recorded as delivered was matched by an enabled rule and allowed by a policy. What a key
  encrypted it decrypts after every rotation, never without the consent of its policy, and a scheduled deletion takes
  place on its day and takes everything of the key with it.
  Several theorems state where the code departs from what it means to do; they are listed with their source lines
  in the findings of the manifest.

  \<^bold>\<open>Bounds.\<close> Functions recurse structurally or by a measure proved to decrease: the walk up the units
  (\<open>ou_path\<close>) by the units not yet seen, the cron search by its window of 730 days in minutes, the account numbers by
  their twelve digits. \<open>glob_loop\<close> and \<open>list_parents\<close>, which may loop, are partial functions with option result; no
  fuel is used. The cache theorems hold up to $2^{64}$ invalidations, where the generation counter wraps.

  \<^bold>\<open>Not modelled.\<close> The dispatch and the wire formats of the services (\<open>server/server.go\<close>, \<open>services/*\<close>, XML and JSON
  responses) and audit events: they translate, and decide nothing the theorems speak of. SAML and web identity
  federation (\<open>kernel/federation\<close>, \<open>jwtutil\<close>, \<open>jwksfetch\<close>): XML signatures and RSA; of those operations only the minting
  is here. SQLite errors and busy retries: a statement either has its documented effect or fails on a constraint.
  The stores of the other services, whose handlers call the same gates; \<open>compute\<close>, which drives a container runtime;
  the generated action catalog, the configuration and the command line.
\<close>

end
